(* ===== verification/Py_Prelude.thy ===== *)
theory Py_Prelude
  imports Main "HOL-Library.Char_ord" "HOL-Library.List_Lexorder" "HOL-Library.Sublist"
begin

text \<open>
  The prelude of the development: the result type of fallible code and its sequencing, the
  pieces of Python's string handling that the program uses (decimal printing, \<open>str.lower\<close>,
  \<open>in\<close> on strings, \<open>join\<close>), tables of rows with a primary key (what the program
  keeps in its database), a stable sort on a key (\<open>sorted(..., key=...)\<close>, \<open>ORDER BY\<close>),
  points in time and their ISO text, and the interface of a keyed store as a locale that every
  repository of the program interprets.

  Strings are \<^typ>\<open>string\<close>: one \<^typ>\<open>char\<close> per code point, and the model is about
  ASCII text.
\<close>

named_theorems res_simps \<open>rewriting of the result type\<close>
named_theorems guard_defs \<open>definitions of the guards that a property unfolds\<close>

section \<open>Results of fallible code\<close>

text \<open>\<open>Inl\<close> carries the exception that was raised, \<open>Inr\<close> the value returned.\<close>

definition bindS :: "'e + 'a \<Rightarrow> ('a \<Rightarrow> 'e + 'b) \<Rightarrow> 'e + 'b" where
  "bindS m f = (case m of Inl e \<Rightarrow> Inl e | Inr x \<Rightarrow> f x)"

definition raise_if :: "bool \<Rightarrow> 'e \<Rightarrow> 'e + unit" where
  "raise_if b e = (if b then Inl e else Inr ())"

fun mapS :: "('a \<Rightarrow> 'e + 'b) \<Rightarrow> 'a list \<Rightarrow> 'e + 'b list" where
  "mapS f [] = Inr []"
| "mapS f (x # xs) = bindS (f x) (\<lambda>y. bindS (mapS f xs) (\<lambda>ys. Inr (y # ys)))"

lemma bindS_Inl [simp, res_simps]: "bindS (Inl e) f = Inl e"
  by (simp add: bindS_def)

lemma bindS_Inr [simp, res_simps]: "bindS (Inr x) f = f x"
  by (simp add: bindS_def)

lemma bindS_eq_Inr [res_simps]: "bindS m f = Inr y \<longleftrightarrow> (\<exists>x. m = Inr x \<and> f x = Inr y)"
  by (cases m) auto

lemma bindS_eq_Inl [res_simps]:
  "bindS m f = Inl e \<longleftrightarrow> m = Inl e \<or> (\<exists>x. m = Inr x \<and> f x = Inl e)"
  by (cases m) auto

lemma raise_if_eq_Inr [simp, res_simps]: "raise_if b e = Inr u \<longleftrightarrow> \<not> b"
  by (simp add: raise_if_def)

lemma raise_if_eq_Inl [simp, res_simps]: "raise_if b e = Inl e' \<longleftrightarrow> b \<and> e' = e"
  by (auto simp: raise_if_def)

lemma raise_if_True [simp, res_simps]: "raise_if True e = Inl e"
  by (simp add: raise_if_def)

lemma raise_if_False [simp, res_simps]: "raise_if False e = Inr ()"
  by (simp add: raise_if_def)

lemma mapS_Inr_length: "mapS f xs = Inr ys \<Longrightarrow> length ys = length xs"
  by (induction xs arbitrary: ys) (auto simp: res_simps)

lemma mapS_Inr_all2: "mapS f xs = Inr ys \<longleftrightarrow> list_all2 (\<lambda>x y. f x = Inr y) xs ys"
  by (induction xs arbitrary: ys) (auto simp: res_simps list_all2_Cons1)

lemma mapS_total:
  assumes "\<And>x. x \<in> set xs \<Longrightarrow> f x = Inr (g x)"
  shows "mapS f xs = Inr (map g xs)"
  using assms by (induction xs) auto

section \<open>Effects\<close>

text \<open>
  A stateful, fallible computation: from a state to a result and the state it leaves, which an
  exception does not undo.
\<close>

type_synonym ('s, 'e, 'a) eff = "'s \<Rightarrow> ('e + 'a) \<times> 's"

definition bindE :: "('s, 'e, 'a) eff \<Rightarrow> ('a \<Rightarrow> ('s, 'e, 'b) eff) \<Rightarrow> ('s, 'e, 'b) eff" where
  "bindE m f w = (case m w of (Inl e, w') \<Rightarrow> (Inl e, w') | (Inr x, w') \<Rightarrow> f x w')"

definition returnE :: "'a \<Rightarrow> ('s, 'e, 'a) eff" where
  "returnE x w = (Inr x, w)"

definition liftE :: "'e + 'a \<Rightarrow> ('s, 'e, 'a) eff" where
  "liftE r w = (r, w)"

definition modifyE :: "('s \<Rightarrow> 's) \<Rightarrow> ('s, 'e, unit) eff" where
  "modifyE f w = (Inr (), f w)"

fun mapE :: "('a \<Rightarrow> ('s, 'e, 'b) eff) \<Rightarrow> 'a list \<Rightarrow> ('s, 'e, 'b list) eff" where
  "mapE f [] = returnE []"
| "mapE f (x # xs) = bindE (f x) (\<lambda>y. bindE (mapE f xs) (\<lambda>ys. returnE (y # ys)))"

lemmas eff_defs = bindE_def returnE_def liftE_def modifyE_def

lemma bindE_Inr: "bindE m f w = (Inr y, w'') \<longleftrightarrow> (\<exists>x w'. m w = (Inr x, w') \<and> f x w' = (Inr y, w''))"
  by (auto simp: bindE_def split: prod.splits sum.splits)

section \<open>Strings\<close>

definition digit_char :: "nat \<Rightarrow> char" where
  "digit_char d = char_of (48 + d)"

definition is_digit :: "char \<Rightarrow> bool" where
  "is_digit c \<longleftrightarrow> 48 \<le> (of_char c :: nat) \<and> (of_char c :: nat) \<le> 57"

fun nat_digits :: "nat \<Rightarrow> string" where
  "nat_digits n = (if n < 10 then [digit_char n] else nat_digits (n div 10) @ [digit_char (n mod 10)])"

declare nat_digits.simps [simp del]

text \<open>\<open>str\<close> of an integer.\<close>

definition str_int :: "int \<Rightarrow> string" where
  "str_int i = (if i < 0 then ''-'' @ nat_digits (nat (- i)) else nat_digits (nat i))"

abbreviation str_nat :: "nat \<Rightarrow> string" where
  "str_nat n \<equiv> str_int (int n)"

text \<open>\<open>str.lower\<close> on ASCII text.\<close>

definition lower_char :: "char \<Rightarrow> char" where
  "lower_char c = (let n = (of_char c :: nat) in if 65 \<le> n \<and> n \<le> 90 then char_of (n + 32) else c)"

definition str_lower :: "string \<Rightarrow> string" where
  "str_lower s = map lower_char s"

text \<open>\<open>needle in haystack\<close> on strings.\<close>

fun str_contains :: "string \<Rightarrow> string \<Rightarrow> bool" where
  "str_contains needle [] = (needle = [])"
| "str_contains needle (c # cs) = (prefix needle (c # cs) \<or> str_contains needle cs)"

lemma str_contains_sublist: "str_contains n s \<longleftrightarrow> sublist n s"
  by (induction s) (auto simp: sublist_Cons_right)

text \<open>\<open>sep.join(parts)\<close>.\<close>

fun str_join :: "string \<Rightarrow> string list \<Rightarrow> string" where
  "str_join sep [] = []"
| "str_join sep [x] = x"
| "str_join sep (x # y # ys) = x @ sep @ str_join sep (y # ys)"

text \<open>The text \<open>'{s}'\<close> of an f-string.\<close>

definition quoted :: "string \<Rightarrow> string" where
  "quoted s = [CHR 0x27] @ s @ [CHR 0x27]"

text \<open>\<open>str.strip\<close> of ASCII white space.\<close>

definition is_space :: "char \<Rightarrow> bool" where
  "is_space c \<longleftrightarrow> (let n = (of_char c :: nat) in n = 32 \<or> (9 \<le> n \<and> n \<le> 13) \<or> (28 \<le> n \<and> n \<le> 31))"

definition str_strip :: "string \<Rightarrow> string" where
  "str_strip s = rev (dropWhile is_space (rev (dropWhile is_space s)))"

text \<open>\<open>str.split(sep)\<close> for a one-character separator: never empty.\<close>

fun str_split :: "char \<Rightarrow> string \<Rightarrow> string list" where
  "str_split sep [] = [[]]"
| "str_split sep (c # cs) =
     (if c = sep then [] # str_split sep cs
      else case str_split sep cs of [] \<Rightarrow> [[c]] | p # ps \<Rightarrow> (c # p) # ps)"

lemma str_split_ne [simp]: "str_split sep s \<noteq> []"
  by (induction s) (auto split: list.splits)

text \<open>A decimal field of fixed width, as in ISO dates.\<close>

definition pad_nat :: "nat \<Rightarrow> nat \<Rightarrow> string" where
  "pad_nat w n = (let ds = nat_digits n in replicate (w - length ds) (CHR ''0'') @ ds)"

section \<open>Points in time\<close>

text \<open>
  A timezone-aware \<open>datetime\<close> in UTC is the number of microseconds since 1970-01-01; a
  \<open>timedelta\<close> is a number of microseconds. Reading the wall clock is an argument of the
  operation that reads it, so a theorem holds for every sequence of readings.
\<close>

type_synonym datetime = int
type_synonym timedelta = int

definition td_seconds :: "int \<Rightarrow> timedelta" where "td_seconds s = s * 1000000"
definition td_minutes :: "int \<Rightarrow> timedelta" where "td_minutes m = m * 60000000"
definition td_hours :: "int \<Rightarrow> timedelta" where "td_hours h = h * 3600000000"
definition td_days :: "int \<Rightarrow> timedelta" where "td_days d = d * 86400000000"

text \<open>\<open>timedelta.days\<close>: rounds towards minus infinity.\<close>

definition td_whole_days :: "timedelta \<Rightarrow> int" where
  "td_whole_days d = d div 86400000000"

text \<open>Proleptic Gregorian date of a day number (year, month, day).\<close>

definition civil_of_days :: "int \<Rightarrow> int \<times> int \<times> int" where
  "civil_of_days n =
     (let z = n + 719468;
          era = z div 146097;
          doe = z mod 146097;
          yoe = (doe - doe div 1460 + doe div 36524 - doe div 146096) div 365;
          doy = doe - (365 * yoe + yoe div 4 - yoe div 100);
          mp = (5 * doy + 2) div 153;
          d = doy - (153 * mp + 2) div 5 + 1;
          m = (if mp < 10 then mp + 3 else mp - 9)
      in (yoe + era * 400 + (if m \<le> 2 then 1 else 0), m, d))"

definition date_iso :: "datetime \<Rightarrow> string" where
  "date_iso t = (case civil_of_days (t div 86400000000) of (y, m, d) \<Rightarrow>
     pad_nat 4 (nat y) @ ''-'' @ pad_nat 2 (nat m) @ ''-'' @ pad_nat 2 (nat d))"

definition datetime_iso :: "datetime \<Rightarrow> string" where
  "datetime_iso t =
     (let us = t mod 86400000000; s = us div 1000000; f = us mod 1000000
      in date_iso t @ ''T'' @ pad_nat 2 (nat (s div 3600)) @ '':'' @ pad_nat 2 (nat (s div 60 mod 60))
         @ '':'' @ pad_nat 2 (nat (s mod 60))
         @ (if f = 0 then [] else ''.'' @ pad_nat 6 (nat f)) @ ''+00:00'')"

section \<open>Lists\<close>

text \<open>
  Python's \<open>sorted(xs, key=k)\<close> is stable; so is the model. \<open>reverse=True\<close> keeps the
  order of equal keys too.
\<close>

definition sorted_by :: "('a \<Rightarrow> 'k::linorder) \<Rightarrow> 'a list \<Rightarrow> 'a list" where
  "sorted_by k xs = sort_key k xs"

definition sorted_by_desc :: "('a \<Rightarrow> 'k::linorder) \<Rightarrow> 'a list \<Rightarrow> 'a list" where
  "sorted_by_desc k xs = rev (sort_key k (rev xs))"

lemma set_sorted_by [simp]: "set (sorted_by k xs) = set xs"
  by (simp add: sorted_by_def)

lemma set_sorted_by_desc [simp]: "set (sorted_by_desc k xs) = set xs"
  by (simp add: sorted_by_desc_def)

lemma length_sorted_by [simp]: "length (sorted_by k xs) = length xs"
  by (simp add: sorted_by_def)

lemma length_sorted_by_desc [simp]: "length (sorted_by_desc k xs) = length xs"
  by (simp add: sorted_by_desc_def)

lemma sorted_by_sorted: "sorted (map k (sorted_by k xs))"
  by (simp add: sorted_by_def)

lemma sorted_by_desc_sorted: "sorted (rev (map k (sorted_by_desc k xs)))"
  by (simp add: sorted_by_desc_def rev_map)

lemma filter_sorted_by: "filter P (sorted_by k xs) = sorted_by k (filter P xs)"
  unfolding sorted_by_def by (rule filter_sort)

text \<open>The first element that satisfies a predicate: the shape of a lookup in a table.\<close>

lemma find_Some_iff_distinct:
  assumes "distinct (map k xs)" and "x \<in> set xs"
  shows "find (\<lambda>y. k y = k x) xs = Some x"
  using assms by (induction xs) (auto simp: image_iff)

lemma find_eq_Some_D: "find P xs = Some x \<Longrightarrow> P x \<and> x \<in> set xs"
  by (induction xs) (auto split: if_splits)

lemma find_eq_None: "find P xs = None \<longleftrightarrow> (\<forall>x \<in> set xs. \<not> P x)"
  by (induction xs) auto

lemma find_append: "find P (xs @ ys) = (case find P xs of None \<Rightarrow> find P ys | Some x \<Rightarrow> Some x)"
  by (induction xs) auto


section \<open>Tables of rows with a primary key\<close>

text \<open>
  A database table is the list of its rows in insertion order; \<open>key\<close> is its primary key.
  \<open>session.get(ORM, k)\<close> is \<open>tbl_get\<close>; \<open>session.add\<close> of a new row is
  appending; setting attributes of a row that was read is \<open>tbl_modify\<close>; a \<open>DELETE\<close>
  with a \<open>WHERE\<close> clause is a filter. A query without \<open>ORDER BY\<close>, or with ties
  in it, returns rows in insertion order here.
\<close>

definition tbl_get :: "('r \<Rightarrow> 'k) \<Rightarrow> 'k \<Rightarrow> 'r list \<Rightarrow> 'r option" where
  "tbl_get key k t = find (\<lambda>r. key r = k) t"

definition tbl_modify :: "('r \<Rightarrow> 'k) \<Rightarrow> 'k \<Rightarrow> ('r \<Rightarrow> 'r) \<Rightarrow> 'r list \<Rightarrow> 'r list" where
  "tbl_modify key k f t = map (\<lambda>r. if key r = k then f r else r) t"

definition tbl_upsert :: "('r \<Rightarrow> 'k) \<Rightarrow> 'r \<Rightarrow> 'r list \<Rightarrow> 'r list" where
  "tbl_upsert key r t =
     (case tbl_get key (key r) t of None \<Rightarrow> t @ [r] | Some _ \<Rightarrow> tbl_modify key (key r) (\<lambda>_. r) t)"

definition tbl_ok :: "('r \<Rightarrow> 'k) \<Rightarrow> 'r list \<Rightarrow> bool" where
  "tbl_ok key t \<longleftrightarrow> distinct (map key t)"

lemma tbl_get_Nil [simp]: "tbl_get key k [] = None"
  by (simp add: tbl_get_def)

lemma tbl_get_Cons: "tbl_get key k (r # t) = (if key r = k then Some r else tbl_get key k t)"
  by (simp add: tbl_get_def)

lemma tbl_get_SomeD: "tbl_get key k t = Some r \<Longrightarrow> r \<in> set t \<and> key r = k"
  by (auto simp: tbl_get_def dest: find_eq_Some_D)

lemma tbl_get_None: "tbl_get key k t = None \<longleftrightarrow> k \<notin> key ` set t"
  by (auto simp: tbl_get_def find_eq_None)

lemma tbl_get_in: "tbl_ok key t \<Longrightarrow> r \<in> set t \<Longrightarrow> tbl_get key (key r) t = Some r"
  by (simp add: tbl_get_def tbl_ok_def find_Some_iff_distinct)

lemma tbl_get_append:
  "tbl_get key k (t @ u) = (case tbl_get key k t of None \<Rightarrow> tbl_get key k u | Some r \<Rightarrow> Some r)"
  by (simp add: tbl_get_def find_append split: option.split)

lemma tbl_get_modify:
  assumes "\<And>r. key (f r) = key r"
  shows "tbl_get key k (tbl_modify key j f t) =
    (if k = j then map_option f (tbl_get key k t) else tbl_get key k t)"
  using assms by (induction t) (auto simp: tbl_modify_def tbl_get_Cons)

lemma tbl_ok_modify:
  assumes "\<And>r. key (f r) = key r"
  shows "tbl_ok key (tbl_modify key j f t) = tbl_ok key t"
proof -
  have "map key (tbl_modify key j f t) = map key t"
    using assms by (simp add: tbl_modify_def)
  then show ?thesis by (simp add: tbl_ok_def)
qed

lemma map_key_const_modify:
  assumes "key r = j"
  shows "map key (tbl_modify key j (\<lambda>_. r) t) = map key t"
  using assms by (auto simp: tbl_modify_def)

lemma tbl_get_replace:
  assumes "key r = j"
  shows "tbl_get key k (tbl_modify key j (\<lambda>_. r) t) =
    (if k = j then map_option (\<lambda>_. r) (tbl_get key k t) else tbl_get key k t)"
  using assms by (induction t) (auto simp: tbl_modify_def tbl_get_Cons)

lemma tbl_get_upsert: "tbl_get key k (tbl_upsert key r t) = (if k = key r then Some r else tbl_get key k t)"
proof (cases "tbl_get key (key r) t")
  case None
  then show ?thesis
    by (auto simp: tbl_upsert_def tbl_get_append tbl_get_Cons split: option.splits)
next
  case (Some a)
  then show ?thesis by (simp add: tbl_upsert_def tbl_get_replace)
qed

lemma tbl_ok_upsert: "tbl_ok key t \<Longrightarrow> tbl_ok key (tbl_upsert key r t)"
proof (cases "tbl_get key (key r) t")
  case None
  moreover assume "tbl_ok key t"
  ultimately show ?thesis
    by (simp add: tbl_upsert_def tbl_ok_def) (simp add: tbl_get_None)
next
  case (Some a)
  moreover assume "tbl_ok key t"
  ultimately show ?thesis
    by (simp add: tbl_upsert_def tbl_ok_def map_key_const_modify)
qed

lemma tbl_ok_append: "tbl_ok key t \<Longrightarrow> tbl_get key (key r) t = None \<Longrightarrow> tbl_ok key (t @ [r])"
  by (auto simp: tbl_ok_def tbl_get_None)

lemma tbl_ok_filter: "tbl_ok key t \<Longrightarrow> tbl_ok key (filter P t)"
  by (simp add: tbl_ok_def distinct_map_filter)

lemma tbl_get_filter:
  assumes "tbl_ok key t"
  shows "tbl_get key k (filter P t) =
    (case tbl_get key k t of None \<Rightarrow> None | Some r \<Rightarrow> if P r then Some r else None)"
  using assms
proof (induction t)
  case Nil
  then show ?case by simp
next
  case (Cons r t)
  then have IH: "tbl_get key k (filter P t) =
      (case tbl_get key k t of None \<Rightarrow> None | Some r \<Rightarrow> if P r then Some r else None)"
    by (simp add: tbl_ok_def)
  have "key r = k \<Longrightarrow> tbl_get key k t = None"
    using Cons.prems by (auto simp: tbl_ok_def tbl_get_None)
  then show ?case using IH by (auto simp: tbl_get_Cons)
qed

section \<open>Interfaces\<close>

text \<open>
  A keyed store: writing a record makes it the answer for its key and leaves every other key
  alone. The repositories of the program interpret it, and what follows from it for a whole
  sequence of writes is proved here once.
\<close>

locale kv_store =
  fixes put :: "'r \<Rightarrow> 's \<Rightarrow> 's"
    and get :: "'k \<Rightarrow> 's \<Rightarrow> 'r option"
    and key :: "'r \<Rightarrow> 'k"
    and invar :: "'s \<Rightarrow> bool"
  assumes get_put: "invar s \<Longrightarrow> get k (put r s) = (if k = key r then Some r else get k s)"
    and invar_put: "invar s \<Longrightarrow> invar (put r s)"
begin

lemma invar_puts: "invar s \<Longrightarrow> invar (fold put rs s)"
  by (induction rs arbitrary: s) (auto intro: invar_put)

lemma get_puts:
  assumes "invar s"
  shows "get k (fold put rs s) =
    (case find (\<lambda>r. key r = k) (rev rs) of None \<Rightarrow> get k s | Some r \<Rightarrow> Some r)"
  using assms
proof (induction rs arbitrary: s)
  case Nil
  then show ?case by simp
next
  case (Cons r rs)
  then show ?case
    by (auto simp: invar_put get_put find_append split: option.splits)
qed

lemma put_put_same: "invar s \<Longrightarrow> key r = key r' \<Longrightarrow> get k (put r' (put r s)) = get k (put r' s)"
  by (simp add: get_put invar_put)

lemma put_other_unchanged: "invar s \<Longrightarrow> k \<notin> key ` set rs \<Longrightarrow> get k (fold put rs s) = get k s"
  by (induction rs arbitrary: s) (auto simp: get_put invar_put)

end

text \<open>
  An append-only log: recording adds at the end, and nothing that was recorded is lost or
  changed by later records.
\<close>

locale append_log =
  fixes add_entry :: "'e \<Rightarrow> 's \<Rightarrow> 's"
    and entries :: "'s \<Rightarrow> 'e list"
  assumes entries_append: "entries (add_entry e s) = entries s @ [e]"
begin

lemma entries_appends: "entries (fold add_entry es s) = entries s @ es"
  by (induction es arbitrary: s) (simp_all add: entries_append)

lemma log_grows: "prefix (entries s) (entries (fold add_entry es s))"
  by (simp add: entries_appends)

lemma log_keeps: "e \<in> set (entries s) \<Longrightarrow> e \<in> set (entries (fold add_entry es s))"
  by (simp add: entries_appends)

end

text \<open>
  A component driven by operations: an invariant that every operation keeps holds after any
  sequence of operations.
\<close>

locale op_system =
  fixes step :: "'op \<Rightarrow> 's \<Rightarrow> 's"
    and inv :: "'s \<Rightarrow> bool"
  assumes step_inv: "inv s \<Longrightarrow> inv (step a s)"
begin

lemma run_inv: "inv s \<Longrightarrow> inv (fold step ops s)"
  by (induction ops arbitrary: s) (auto intro: step_inv)

end

end
