(* ===== verification/Py_Float.thy ===== *)
theory Py_Float
  imports Py_Prelude Complex_Main "HOL-Library.Log_Nat"
begin

text \<open>
  Python's \<open>float\<close>: IEEE 754 binary64. A finite float is the rational number it denotes, and
  every arithmetic operation is the exact operation followed by \<open>fl\<close>, which rounds to the
  nearest representable number, ties to even, with gradual underflow. The exponent has no upper
  bound here, so overflow to infinity is not modelled, nor are NaN and the sign of zero; the program
  computes rates, differences of rates and durations, which stay far from that bound.

  The theory has the rounding function, the interface that arithmetic code relies on (the locale
  \<open>float_rounding\<close>, interpreted on \<open>fl\<close>), and the library functions of Python that
  the program applies to floats: \<open>sum\<close> (compensated summation, as CPython 3.12 computes it),
  \<open>round(x, n)\<close> and the \<open>.nf\<close> format.
\<close>

type_synonym float64 = rat

section \<open>Rounding\<close>

text \<open>Nearest integer, ties to even: \<open>round\<close> of Python.\<close>

definition rhe :: "rat \<Rightarrow> int" where
  "rhe y = (let f = \<lfloor>y\<rfloor>; d = y - of_int f
     in if d < 1 / 2 then f else if 1 / 2 < d then f + 1 else if even f then f else f + 1)"

lemma rhe_floor: "\<lfloor>y\<rfloor> \<le> rhe y" and rhe_floor1: "rhe y \<le> \<lfloor>y\<rfloor> + 1"
  by (simp_all add: rhe_def Let_def)

lemma rhe_int [simp]: "rhe (of_int i) = i"
  by (simp add: rhe_def)

lemma rhe_0 [simp]: "rhe 0 = 0"
  using rhe_int [of 0] by simp

lemma rhe_mono: "x \<le> y \<Longrightarrow> rhe x \<le> rhe y"
proof -
  assume xy: "x \<le> y"
  then have fl: "\<lfloor>x\<rfloor> \<le> \<lfloor>y\<rfloor>" by (rule floor_mono)
  show "rhe x \<le> rhe y"
  proof (cases "\<lfloor>x\<rfloor> = \<lfloor>y\<rfloor>")
    case True
    with xy show ?thesis by (auto simp: rhe_def Let_def)
  next
    case False
    with fl have "\<lfloor>x\<rfloor> + 1 \<le> \<lfloor>y\<rfloor>" by simp
    with rhe_floor1 [of x] rhe_floor [of y] show ?thesis by linarith
  qed
qed

lemma rhe_ge: "of_int i \<le> y \<Longrightarrow> i \<le> rhe y"
  using rhe_mono [of "of_int i" y] by simp

lemma rhe_le: "y \<le> of_int i \<Longrightarrow> rhe y \<le> i"
  using rhe_mono [of y "of_int i"] by simp

lemma rhe_minus: "rhe (- y) = - rhe y"
proof (cases "y = of_int \<lfloor>y\<rfloor>")
  case True
  then have "- y = of_int (- \<lfloor>y\<rfloor>)" by simp
  then show ?thesis using True by (metis rhe_int)
next
  case False
  let ?f = "\<lfloor>y\<rfloor>"
  have lt: "of_int ?f < y" "y < of_int ?f + 1"
    using False of_int_floor_le [of y] by linarith+
  have "\<lfloor>- y\<rfloor> = - ?f - 1"
    by (rule floor_unique) (use lt in simp_all)
  then show ?thesis using lt by (auto simp: rhe_def Let_def)
qed

text \<open>\<open>ilog2 x\<close> is the integer \<open>k\<close> with \<open>2\<^sup>k \<le> x < 2\<^sup>k\<^sup>+\<^sup>1\<close>, from the
  bit lengths of numerator and denominator.\<close>

definition ilog2 :: "rat \<Rightarrow> int" where
  "ilog2 x = (case quotient_of x of (n, d) \<Rightarrow>
     let k = bitlen n - bitlen d in if 2 powi k \<le> x then k else k - 1)"

lemma two_powi_add: "(2::rat) powi (a + b) = 2 powi a * 2 powi b"
  by (simp add: power_int_add)

lemma two_powi_pos [simp]: "0 < (2::rat) powi k"
  by simp

lemma two_powi_nat: "0 \<le> k \<Longrightarrow> (2::rat) powi k = of_int (2 ^ nat k)"
  by (simp add: power_int_def)

lemma two_powi_mono: "a \<le> b \<Longrightarrow> (2::rat) powi a \<le> 2 powi b"
  by (rule power_int_increasing) simp_all

lemma two_powi_less_imp: "(2::rat) powi a < 2 powi b \<Longrightarrow> a < b"
  using two_powi_mono [of b a] by (meson linorder_not_le)

lemma bitlen_powi:
  assumes "0 < n"
  shows "(2::rat) powi (bitlen n - 1) \<le> of_int n" and "of_int n < (2::rat) powi (bitlen n)"
proof -
  have b: "1 \<le> bitlen n"
    using assms bitlen_nonneg [of n] bitlen_eq_zero_iff [of n] by linarith
  have bb: "2 ^ nat (bitlen n - 1) \<le> n \<and> n < 2 ^ nat (bitlen n)"
    using bitlen_bounds [OF assms] .
  have "(of_int (2 ^ nat (bitlen n - 1)) :: rat) \<le> of_int n"
    using bb by (simp only: of_int_le_iff)
  then show "(2::rat) powi (bitlen n - 1) \<le> of_int n"
    using b by (simp add: two_powi_nat)
  have "(of_int n :: rat) < of_int (2 ^ nat (bitlen n))"
    using bb by (simp only: of_int_less_iff)
  then show "of_int n < (2::rat) powi (bitlen n)"
    using b by (simp add: two_powi_nat)
qed

lemma ilog2_bounds:
  assumes "0 < x"
  shows "2 powi (ilog2 x) \<le> x" and "x < 2 powi (ilog2 x + 1)"
proof -
  obtain n d where q: "quotient_of x = (n, d)" by force
  then have x: "x = of_int n / of_int d" and d: "0 < d"
    using quotient_of_div quotient_of_denom_pos by auto
  with assms have n: "0 < n" by (simp add: zero_less_divide_iff)
  let ?k = "bitlen n - bitlen d"
  note nb = bitlen_powi [OF n] and db = bitlen_powi [OF d]
  have d': "(0::rat) < of_int d" using d by simp
  have "2 powi (?k - 1) * of_int d \<le> 2 powi (?k - 1) * (2::rat) powi (bitlen d)"
    using db by (simp add: mult_left_mono)
  also have "\<dots> = 2 powi (bitlen n - 1)"
    by (simp add: two_powi_add [symmetric])
  also note nb(1)
  finally have lo: "2 powi (?k - 1) \<le> x" using d' by (simp add: x pos_le_divide_eq)
  have "of_int n < 2 powi (?k + 1) * (2::rat) powi (bitlen d - 1)"
    using nb(2) by (simp add: two_powi_add [symmetric])
  also have "\<dots> \<le> 2 powi (?k + 1) * of_int d"
    using db by (simp add: mult_left_mono)
  finally have hi: "x < 2 powi (?k + 1)" using d' by (simp add: x pos_divide_less_eq)
  show "2 powi (ilog2 x) \<le> x" using lo q by (simp add: ilog2_def Let_def)
  show "x < 2 powi (ilog2 x + 1)" using hi q by (simp add: ilog2_def Let_def)
qed

lemma ilog2_mono:
  assumes "0 < x" and "x \<le> y"
  shows "ilog2 x \<le> ilog2 y"
proof -
  have "2 powi (ilog2 x) \<le> x" using assms(1) by (rule ilog2_bounds)
  also note assms(2)
  also have "y < 2 powi (ilog2 y + 1)" using assms by (intro ilog2_bounds) simp
  finally have "ilog2 x < ilog2 y + 1" by (rule two_powi_less_imp)
  then show ?thesis by simp
qed

text \<open>The exponent of the last place: 53 significant bits, and never below \<open>2\<^sup>-\<^sup>1\<^sup>0\<^sup>7\<^sup>4\<close>.\<close>

definition ulp_exp :: "rat \<Rightarrow> int" where
  "ulp_exp x = max (ilog2 \<bar>x\<bar> - 52) (- 1074)"

definition fl :: "rat \<Rightarrow> float64" where
  "fl x = (if x = 0 then 0
     else let e = ulp_exp x in of_int (rhe (x / 2 powi e)) * 2 powi e)"

lemma fl_0 [simp]: "fl 0 = 0"
  by (simp add: fl_def)

lemma fl_minus: "fl (- x) = - fl x"
  by (simp add: fl_def ulp_exp_def Let_def rhe_minus)

lemma fl_scaled_upper:
  assumes "0 < x"
  shows "x / 2 powi (ulp_exp x) < 2 powi 53"
proof -
  have "x < 2 powi (ilog2 x + 1)" using assms by (rule ilog2_bounds)
  also have "\<dots> \<le> 2 powi (ulp_exp x + 53)"
    using assms by (intro two_powi_mono) (simp add: ulp_exp_def)
  also have "\<dots> = 2 powi (ulp_exp x) * 2 powi 53" by (simp add: two_powi_add)
  finally show ?thesis by (simp add: pos_divide_less_eq mult.commute)
qed

lemma fl_upper:
  assumes "0 < x"
  shows "fl x \<le> 2 powi (ulp_exp x + 53)"
proof -
  have "rhe (x / 2 powi (ulp_exp x)) \<le> 2 ^ 53"
    by (rule rhe_le) (use fl_scaled_upper [OF assms] in \<open>simp add: power_int_def\<close>)
  then have "(of_int (rhe (x / 2 powi (ulp_exp x))) :: rat) \<le> of_int (2 ^ 53)"
    by (simp only: of_int_le_iff)
  then have "(of_int (rhe (x / 2 powi (ulp_exp x))) :: rat) \<le> 2 powi 53"
    by (simp add: power_int_def)
  then have "of_int (rhe (x / 2 powi (ulp_exp x))) * 2 powi (ulp_exp x)
      \<le> (2::rat) powi 53 * 2 powi (ulp_exp x)"
    by (simp add: mult_right_mono)
  then show ?thesis using assms by (simp add: fl_def Let_def two_powi_add mult.commute)
qed

lemma fl_lower:
  assumes "0 < x" and "ulp_exp x \<noteq> - 1074"
  shows "2 powi (ulp_exp x + 52) \<le> fl x"
proof -
  have e: "ulp_exp x = ilog2 x - 52" using assms by (simp add: ulp_exp_def max_def split: if_splits)
  have "2 powi (ilog2 x) \<le> x" using assms(1) by (rule ilog2_bounds)
  moreover have "2 powi (ilog2 x) = (2::rat) powi 52 * 2 powi (ulp_exp x)"
    by (simp only: e two_powi_add [symmetric]) simp
  ultimately have "2 powi 52 * 2 powi (ulp_exp x) \<le> x" by simp
  then have "(2::rat) powi 52 \<le> x / 2 powi (ulp_exp x)" by (simp add: pos_le_divide_eq)
  then have "of_int (2 ^ 52) \<le> x / 2 powi (ulp_exp x)" by (simp add: power_int_def)
  then have "2 ^ 52 \<le> rhe (x / 2 powi (ulp_exp x))" by (rule rhe_ge)
  then have "(of_int (2 ^ 52) :: rat) \<le> of_int (rhe (x / 2 powi (ulp_exp x)))"
    by (simp only: of_int_le_iff)
  then have "(2::rat) powi 52 \<le> of_int (rhe (x / 2 powi (ulp_exp x)))"
    by (simp add: power_int_def)
  then have "(2::rat) powi 52 * 2 powi (ulp_exp x)
      \<le> of_int (rhe (x / 2 powi (ulp_exp x))) * 2 powi (ulp_exp x)"
    by (simp add: mult_right_mono)
  then show ?thesis using assms by (simp add: fl_def Let_def two_powi_add mult.commute)
qed

lemma fl_nonneg_pos: "0 < x \<Longrightarrow> 0 \<le> fl x"
  using rhe_ge [of 0 "x / 2 powi (ulp_exp x)"]
  by (simp add: fl_def Let_def)

lemma fl_mono_pos:
  assumes "0 < x" and "x \<le> y"
  shows "fl x \<le> fl y"
proof -
  have le: "ulp_exp x \<le> ulp_exp y"
    using ilog2_mono [OF assms] assms by (simp add: ulp_exp_def)
  show ?thesis
  proof (cases "ulp_exp x = ulp_exp y")
    case True
    have "rhe (x / 2 powi (ulp_exp y)) \<le> rhe (y / 2 powi (ulp_exp y))"
      using assms by (intro rhe_mono divide_right_mono) simp_all
    then show ?thesis using True assms by (simp add: fl_def Let_def mult_right_mono)
  next
    case False
    with le have lt: "ulp_exp x + 1 \<le> ulp_exp y" by simp
    have "fl x \<le> 2 powi (ulp_exp x + 53)" using assms(1) by (rule fl_upper)
    also have "\<dots> \<le> 2 powi (ulp_exp y + 52)" using lt by (intro two_powi_mono) simp
    also have "\<dots> \<le> fl y"
      using assms lt by (intro fl_lower) (auto simp: ulp_exp_def)
    finally show ?thesis .
  qed
qed

lemma fl_mono: "x \<le> y \<Longrightarrow> fl x \<le> fl y"
proof -
  assume xy: "x \<le> y"
  consider "0 < x" | "x \<le> 0" "0 \<le> y" | "y < 0" by linarith
  then show "fl x \<le> fl y"
  proof cases
    case 1
    with xy show ?thesis by (rule fl_mono_pos [rotated -1])
  next
    case 2
    have "fl x \<le> 0" using 2(1) fl_nonneg_pos [of "- x"] by (cases "x = 0") (simp_all add: fl_minus)
    moreover have "0 \<le> fl y" using 2(2) fl_nonneg_pos [of y] by (cases "y = 0") simp_all
    ultimately show ?thesis by simp
  next
    case 3
    with xy have "fl (- y) \<le> fl (- x)" by (intro fl_mono_pos) simp_all
    then show ?thesis by (simp add: fl_minus)
  qed
qed

text \<open>Evaluation of a rounding at a number whose binade is known.\<close>

lemma fl_eval:
  assumes "2 powi (e + 52) \<le> x" and "x < 2 powi (e + 53)" and "- 1074 \<le> e"
  shows "fl x = of_int (rhe (x / 2 powi e)) * 2 powi e"
proof -
  have x: "0 < x" using assms(1) two_powi_pos [of "e + 52"] by linarith
  have "2 powi (ilog2 x) < (2::rat) powi (e + 53)"
    using ilog2_bounds(1) [OF x] assms by linarith
  moreover have "2 powi (e + 52) < (2::rat) powi (ilog2 x + 1)"
    using ilog2_bounds(2) [OF x] assms by linarith
  ultimately have "ilog2 x = e + 52" by (auto dest!: two_powi_less_imp)
  then have "ulp_exp x = e" using assms(3) x by (simp add: ulp_exp_def)
  then show ?thesis using x by (simp add: fl_def)
qed

lemmas fl_eval_simps = power_int_def power_divide rhe_def Let_def

section \<open>Representable numbers\<close>

definition representable :: "rat \<Rightarrow> bool" where
  "representable x \<longleftrightarrow> fl x = x"

lemma representableI_pos:
  assumes x: "x = of_int m * 2 powi e" and m: "0 < m" "m \<le> 2 ^ 53" and e: "- 1074 \<le> e"
  shows "fl x = x"
proof -
  let ?E = "ulp_exp x"
  have pos: "0 < x" using x m by simp
  have "\<exists>i. x / 2 powi ?E = of_int i"
  proof (cases "?E \<le> e")
    case True
    have "x / 2 powi ?E = of_int m * 2 powi (e - ?E)"
      by (simp add: x power_int_diff)
    also have "\<dots> = of_int (m * 2 ^ nat (e - ?E))"
      using True by (simp add: two_powi_nat)
    finally show ?thesis by blast
  next
    case False
    then have E: "?E = ilog2 x - 52" using e pos by (simp add: ulp_exp_def max_def split: if_splits)
    have lo: "2 powi (?E + 52) \<le> x" using ilog2_bounds(1) [OF pos] by (simp add: E)
    have "(of_int m :: rat) \<le> of_int (2 ^ 53)" using m by (simp only: of_int_le_iff)
    then have "(of_int m :: rat) \<le> 2 powi 53" by (simp add: power_int_def)
    then have "x \<le> 2 powi 53 * 2 powi e" by (simp add: x mult_right_mono)
    also have "\<dots> = 2 powi (53 + e)" by (simp only: two_powi_add)
    also have "\<dots> \<le> 2 powi (?E + 52)" using False by (intro two_powi_mono) simp
    finally have "x = 2 powi (?E + 52)" using lo by simp
    then have x2: "x = 2 powi ?E * 2 powi 52" by (simp only: two_powi_add)
    have "x / 2 powi ?E = 2 powi 52"
      using two_powi_pos [of ?E] by (subst x2) (simp add: field_simps)
    then have "x / 2 powi ?E = of_int (2 ^ 52)" by (simp add: power_int_def)
    then show ?thesis by blast
  qed
  then obtain i where i: "x / 2 powi ?E = of_int i" by blast
  then have "x = of_int i * 2 powi ?E" by (simp add: field_simps)
  with i pos show ?thesis by (simp add: fl_def Let_def)
qed

lemma representableI:
  assumes "x = of_int m * 2 powi e" and "\<bar>m\<bar> \<le> 2 ^ 53" and "- 1074 \<le> e"
  shows "representable x"
proof -
  consider "m = 0" | "0 < m" | "m < 0" by linarith
  then show ?thesis
  proof cases
    case 1
    with assms show ?thesis by (simp add: representable_def)
  next
    case 2
    with assms show ?thesis unfolding representable_def by (intro representableI_pos) simp_all
  next
    case 3
    with assms have "fl (- x) = - x" by (intro representableI_pos [where m = "- m" and e = e]) simp_all
    then show ?thesis by (simp add: representable_def fl_minus)
  qed
qed

lemma fl_form: "\<exists>m e. fl x = of_int m * 2 powi e \<and> \<bar>m\<bar> \<le> 2 ^ 53 \<and> - 1074 \<le> e"
proof -
  have pos: "\<exists>m e. fl x = of_int m * 2 powi e \<and> \<bar>m\<bar> \<le> 2 ^ 53 \<and> - 1074 \<le> e" if "0 < x" for x
  proof -
    let ?m = "rhe (x / 2 powi (ulp_exp x))"
    have "?m \<le> 2 ^ 53"
      by (rule rhe_le) (use fl_scaled_upper [OF that] in \<open>simp add: power_int_def\<close>)
    moreover have "0 \<le> ?m" using that by (intro rhe_ge) simp
    moreover have "- 1074 \<le> ulp_exp x" by (simp add: ulp_exp_def)
    moreover have "fl x = of_int ?m * 2 powi (ulp_exp x)" using that by (simp add: fl_def Let_def)
    ultimately show ?thesis by (intro exI [of _ ?m] exI [of _ "ulp_exp x"]) simp
  qed
  consider "x = 0" | "0 < x" | "x < 0" by linarith
  then show ?thesis
  proof cases
    case 1
    then have "fl x = of_int 0 * 2 powi 0" by simp
    moreover have "\<bar>0::int\<bar> \<le> 2 ^ 53" and "- 1074 \<le> (0::int)" by simp_all
    ultimately show ?thesis by blast
  next
    case 2
    then show ?thesis by (rule pos)
  next
    case 3
    then obtain m e where "fl (- x) = of_int m * 2 powi e" "\<bar>m\<bar> \<le> 2 ^ 53" "- 1074 \<le> e"
      using pos [of "- x"] by auto
    then show ?thesis
      by (intro exI [of _ "- m"] exI [of _ e]) (simp add: fl_minus minus_equation_iff [of "fl x"])
  qed
qed

lemma representable_fl [simp]: "representable (fl x)"
  using fl_form [of x] by (auto intro: representableI)

lemma representable_form:
  "representable x \<longleftrightarrow> (\<exists>m e. x = of_int m * 2 powi e \<and> \<bar>m\<bar> \<le> 2 ^ 53 \<and> - 1074 \<le> e)"
  using fl_form [of x] representableI [of x] unfolding representable_def by metis

lemma representable_0 [simp]: "representable 0"
  by (simp add: representable_def)

lemma representable_int: "\<bar>i\<bar> \<le> 2 ^ 53 \<Longrightarrow> representable (of_int i)"
  by (rule representableI [where m = i and e = 0]) simp_all

lemma representable_1 [simp]: "representable 1"
  using representable_int [of 1] by simp

lemma representable_minus: "representable x \<Longrightarrow> representable (- x)"
  by (simp add: representable_def fl_minus)

text \<open>
  Two numbers within a factor of two of each other have a representable difference: their
  subtraction is exact.
\<close>

lemma sterbenz_grid:
  assumes x: "x = of_int m * 2 powi e" "- 1074 \<le> e" "\<bar>m\<bar> \<le> 2 ^ 53"
    and y: "y = of_int n * 2 powi f" and ef: "e \<le> f"
    and b: "\<bar>x - y\<bar> \<le> \<bar>x\<bar>"
  shows "representable (x - y)"
proof -
  let ?k = "m - n * 2 ^ nat (f - e)"
  have "2 powi f = (2::rat) powi e * 2 powi (f - e)" by (simp add: two_powi_add [symmetric])
  also have "2 powi (f - e) = (of_int (2 ^ nat (f - e)) :: rat)" using ef by (intro two_powi_nat) simp
  finally have "2 powi f = (2::rat) powi e * of_int (2 ^ nat (f - e))" .
  then have d: "x - y = of_int ?k * 2 powi e" by (simp add: x y algebra_simps)
  have "\<bar>of_int ?k\<bar> * (2::rat) powi e \<le> \<bar>of_int m\<bar> * 2 powi e"
    using b unfolding d by (simp add: x(1) abs_mult)
  then have "\<bar>of_int ?k :: rat\<bar> \<le> \<bar>of_int m\<bar>" by simp
  then have "\<bar>?k\<bar> \<le> \<bar>m\<bar>" by linarith
  with x(3) have "\<bar>?k\<bar> \<le> 2 ^ 53" by linarith
  then show ?thesis using d x(2) by (intro representableI)
qed

lemma sterbenz:
  assumes "representable x" and "representable y" and "\<bar>x - y\<bar> \<le> \<bar>x\<bar>" and "\<bar>x - y\<bar> \<le> \<bar>y\<bar>"
  shows "representable (x - y)"
proof -
  obtain m e where x: "x = of_int m * 2 powi e" "\<bar>m\<bar> \<le> 2 ^ 53" "- 1074 \<le> e"
    using assms(1) by (auto simp: representable_form)
  obtain n f where y: "y = of_int n * 2 powi f" "\<bar>n\<bar> \<le> 2 ^ 53" "- 1074 \<le> f"
    using assms(2) by (auto simp: representable_form)
  show ?thesis
  proof (cases "e \<le> f")
    case True
    then show ?thesis using x y assms(3) by (intro sterbenz_grid) auto
  next
    case False
    then have "representable (y - x)"
      using x y assms(4) by (intro sterbenz_grid [where m = n and e = f]) (auto simp: abs_minus_commute)
    then have "representable (- (y - x))" by (rule representable_minus)
    then show ?thesis by simp
  qed
qed

lemma representable_double: "representable x \<Longrightarrow> representable (2 * x)"
proof -
  assume "representable x"
  then obtain m e where x: "x = of_int m * 2 powi e" "\<bar>m\<bar> \<le> 2 ^ 53" "- 1074 \<le> e"
    by (auto simp: representable_form)
  then have "2 * x = of_int m * 2 powi (e + 1)" by (simp add: two_powi_add)
  with x show "representable (2 * x)" by (intro representableI [where m = m and e = "e + 1"]) simp_all
qed

section \<open>The interface of float arithmetic\<close>

text \<open>
  What the arithmetic of the program relies on. A rounding is monotone, keeps the representable
  numbers, and subtraction of two numbers within a factor of two is exact. Everything about rates,
  differences and sums below is proved from these laws.
\<close>

locale float_rounding =
  fixes rnd :: "rat \<Rightarrow> rat"
    and rep :: "rat \<Rightarrow> bool"
  assumes rnd_mono: "x \<le> y \<Longrightarrow> rnd x \<le> rnd y"
    and rnd_id: "rep x \<Longrightarrow> rnd x = x"
    and rep_rnd: "rep (rnd x)"
    and rep_0: "rep 0"
    and rep_1: "rep 1"
    and rep_minus: "rep x \<Longrightarrow> rep (- x)"
    and rep_double: "rep x \<Longrightarrow> rep (2 * x)"
    and rep_diff: "rep x \<Longrightarrow> rep y \<Longrightarrow> \<bar>x - y\<bar> \<le> \<bar>x\<bar> \<Longrightarrow> \<bar>x - y\<bar> \<le> \<bar>y\<bar> \<Longrightarrow> rep (x - y)"
begin

lemma rnd_ge: "rep a \<Longrightarrow> a \<le> x \<Longrightarrow> a \<le> rnd x"
  using rnd_mono [of a x] by (simp add: rnd_id)

lemma rnd_le: "rep a \<Longrightarrow> x \<le> a \<Longrightarrow> rnd x \<le> a"
  using rnd_mono [of x a] by (simp add: rnd_id)

lemma rnd_nonneg: "0 \<le> x \<Longrightarrow> 0 \<le> rnd x"
  by (rule rnd_ge [OF rep_0])

lemma rnd_rate: "0 \<le> x \<Longrightarrow> x \<le> 1 \<Longrightarrow> 0 \<le> rnd x \<and> rnd x \<le> 1"
  by (simp add: rnd_nonneg rnd_le rep_1)

lemma rnd_rate_diff:
  "0 \<le> x \<Longrightarrow> x \<le> 1 \<Longrightarrow> 0 \<le> y \<Longrightarrow> y \<le> 1 \<Longrightarrow> - 1 \<le> rnd (x - y) \<and> rnd (x - y) \<le> 1"
  by (intro conjI rnd_ge rnd_le rep_minus rep_1) simp_all

text \<open>
  One step of compensated summation of non-negative numbers keeps the compensation above minus
  the running sum.
\<close>

lemma comp_step_big:
  assumes "rep f" and "0 \<le> x" and "x \<le> f" and "- f \<le> c"
  shows "- rnd (f + x) \<le> rnd (c + rnd (rnd (f - rnd (f + x)) + x))"
proof -
  let ?t = "rnd (f + x)"
  have t: "f \<le> ?t" "?t \<le> 2 * f"
    using assms by (auto intro!: rnd_ge rnd_le rep_double)
  have "rep (f - ?t)"
    by (rule rep_diff) (use assms t in \<open>simp_all add: rep_rnd\<close>)
  then have ft: "rnd (f - ?t) = f - ?t" and "f - ?t \<le> rnd (f - ?t + x)"
    using assms by (simp_all add: rnd_id rnd_ge)
  then have "- ?t \<le> c + rnd (rnd (f - ?t) + x)" using assms by simp
  then show ?thesis by (intro rnd_ge rep_minus rep_rnd)
qed

lemma comp_step_small:
  assumes "rep f" and "rep x" and "0 \<le> f" and "f < x" and "- f \<le> c"
  shows "- rnd (f + x) \<le> rnd (c + rnd (rnd (x - rnd (f + x)) + f))"
proof -
  let ?t = "rnd (f + x)"
  have t: "x \<le> ?t" "?t \<le> 2 * x"
    using assms by (auto intro!: rnd_ge rnd_le rep_double)
  have "rep (x - ?t)"
    by (rule rep_diff) (use assms t in \<open>simp_all add: rep_rnd\<close>)
  then have xt: "rnd (x - ?t) = x - ?t" and "x - ?t \<le> rnd (x - ?t + f)"
    using assms by (simp_all add: rnd_id rnd_ge)
  then have "- ?t \<le> c + rnd (rnd (x - ?t) + f)" using assms by simp
  then show ?thesis by (intro rnd_ge rep_minus rep_rnd)
qed

end

interpretation binary64: float_rounding fl representable
proof unfold_locales
  show "fl x \<le> fl y" if "x \<le> y" for x y using that by (rule fl_mono)
  show "fl x = x" if "representable x" for x using that by (simp add: representable_def)
  show "representable (x - y)"
    if "representable x" "representable y" "\<bar>x - y\<bar> \<le> \<bar>x\<bar>" "\<bar>x - y\<bar> \<le> \<bar>y\<bar>" for x y
    using that by (rule sterbenz)
qed (simp_all add: representable_minus representable_double)

lemma fl_1 [simp]: "fl 1 = 1"
  using binary64.rnd_id [OF representable_1] .

lemma fl_idem [simp]: "fl (fl x) = fl x"
  by (rule binary64.rnd_id) simp

lemma fl_nonneg: "0 \<le> x \<Longrightarrow> 0 \<le> fl x"
  by (rule binary64.rnd_nonneg)

lemma fl_of_nat: "n \<le> 2 ^ 53 \<Longrightarrow> fl (of_nat n) = of_nat n"
proof -
  assume "n \<le> 2 ^ 53"
  then have "\<bar>int n\<bar> \<le> 2 ^ 53" by (simp add: numeral_power_le_of_nat_cancel_iff)
  then have "representable (of_int (int n))" by (rule representable_int)
  then show ?thesis by (simp add: representable_def)
qed

section \<open>\<open>sum\<close>, \<open>round\<close> and formatting\<close>

text \<open>
  \<open>sum\<close> over floats: the first item is added to the integer 0, which gives the item itself;
  from then on CPython keeps a running sum \<open>f\<close> and a compensation \<open>c\<close> (Neumaier), and
  adds the compensation at the end.
\<close>

fun float_sum_from :: "float64 \<Rightarrow> float64 \<Rightarrow> float64 list \<Rightarrow> float64" where
  "float_sum_from f c [] = (if c \<noteq> 0 then fl (f + c) else f)"
| "float_sum_from f c (x # xs) =
     (let t = fl (f + x) in
      if \<bar>x\<bar> \<le> \<bar>f\<bar> then float_sum_from t (fl (c + fl (fl (f - t) + x))) xs
      else float_sum_from t (fl (c + fl (fl (x - t) + f))) xs)"

fun float_sum :: "float64 list \<Rightarrow> float64" where
  "float_sum [] = 0"
| "float_sum (x # xs) = float_sum_from x 0 xs"

lemma float_sum_from_nonneg:
  assumes "representable f" and "0 \<le> f" and "- f \<le> c"
    and "\<forall>x \<in> set xs. representable x \<and> 0 \<le> x"
  shows "0 \<le> float_sum_from f c xs"
  using assms
proof (induction f c xs rule: float_sum_from.induct)
  case (1 f c)
  then show ?case by (auto intro: fl_nonneg)
next
  case (2 f c x xs)
  have x: "representable x" "0 \<le> x" using "2.prems" by auto
  have t: "0 \<le> fl (f + x)" using "2.prems" x by (intro fl_nonneg) simp
  show ?case
  proof (cases "\<bar>x\<bar> \<le> \<bar>f\<bar>")
    case True
    then have "- fl (f + x) \<le> fl (c + fl (fl (f - fl (f + x)) + x))"
      using "2.prems" x by (intro binary64.comp_step_big) simp_all
    with "2.IH"(1) [OF refl True] True t "2.prems" show ?thesis by (simp add: Let_def)
  next
    case False
    then have "- fl (f + x) \<le> fl (c + fl (fl (x - fl (f + x)) + f))"
      using "2.prems" x by (intro binary64.comp_step_small) simp_all
    with "2.IH"(2) [OF refl False] False t "2.prems" show ?thesis by (simp add: Let_def)
  qed
qed

lemma float_sum_nonneg:
  "\<forall>x \<in> set xs. representable x \<and> 0 \<le> x \<Longrightarrow> 0 \<le> float_sum xs"
  by (cases xs) (auto intro!: float_sum_from_nonneg)

text \<open>\<open>round(x, n)\<close>: the nearest decimal with \<open>n\<close> places (ties to even), as a float.\<close>

definition py_round :: "float64 \<Rightarrow> nat \<Rightarrow> float64" where
  "py_round x n = fl (of_int (rhe (x * 10 ^ n)) / 10 ^ n)"

text \<open>\<open>f'{x:.nf}'\<close>.\<close>

definition fmt_fixed :: "nat \<Rightarrow> float64 \<Rightarrow> string" where
  "fmt_fixed n x =
     (let m = nat (rhe (\<bar>x\<bar> * 10 ^ n))
      in (if x < 0 then ''-'' else []) @ nat_digits (m div 10 ^ n)
         @ (if n = 0 then [] else ''.'' @ pad_nat n (m mod 10 ^ n)))"

lemma py_round_mono: "x \<le> y \<Longrightarrow> py_round x n \<le> py_round y n"
  unfolding py_round_def
  by (intro fl_mono divide_right_mono) (simp_all add: rhe_mono mult_right_mono)

lemma py_round_nonneg: "0 \<le> x \<Longrightarrow> 0 \<le> py_round x n"
  using py_round_mono [of 0 x n] by (simp add: py_round_def)

text \<open>
  \<open>repr\<close> of a float: the shortest decimal that rounds to it. \<open>pos10 x\<close> is the
  position of the decimal point of \<open>x > 0\<close>, that is \<open>10\<^sup>p\<^sup>-\<^sup>1 \<le> x < 10\<^sup>p\<close>.
\<close>

fun lead_zeros :: "nat \<Rightarrow> rat \<Rightarrow> nat" where
  "lead_zeros 0 x = 0"
| "lead_zeros (Suc n) x = (if 1 \<le> x then 0 else Suc (lead_zeros n (10 * x)))"

definition pos10 :: "rat \<Rightarrow> int" where
  "pos10 x = (if 1 \<le> x then int (length (nat_digits (nat \<lfloor>x\<rfloor>))) else 1 - int (lead_zeros 400 x))"

fun shortest_digits :: "nat \<Rightarrow> nat \<Rightarrow> rat \<Rightarrow> int \<Rightarrow> int \<times> nat" where
  "shortest_digits 0 p x d = (rhe (x * 10 powi (17 - d)), 17)"
| "shortest_digits (Suc fuel) p x d =
     (let s = 10 powi (int p - d); near = rhe (x * s); f = \<lfloor>x * s\<rfloor>;
          far = (if near = f then f + 1 else f)
      in if fl (of_int near / s) = x then (near, p)
         else if fl (of_int far / s) = x then (far, p)
         else shortest_digits fuel (Suc p) x d)"

definition repr_pos_float :: "float64 \<Rightarrow> string" where
  "repr_pos_float x =
     (let d0 = pos10 x; (m, p) = shortest_digits 16 1 x d0;
          all = nat_digits (nat m);
          d = d0 + (int (length all) - int p);
          ds = rev (dropWhile (\<lambda>c. c = CHR ''0'') (rev all)); n = int (length ds)
      in if - 4 < d \<and> d \<le> 16
         then (if d \<le> 0 then ''0.'' @ replicate (nat (- d)) (CHR ''0'') @ ds
               else if n \<le> d then ds @ replicate (nat (d - n)) (CHR ''0'') @ ''.0''
               else take (nat d) ds @ ''.'' @ drop (nat d) ds)
         else take 1 ds @ (if n = 1 then [] else ''.'' @ drop 1 ds) @ ''e''
              @ (if d - 1 < 0 then ''-'' else ''+'') @ pad_nat 2 (nat \<bar>d - 1\<bar>))"

definition repr_float :: "float64 \<Rightarrow> string" where
  "repr_float x = (if x = 0 then ''0.0'' else if x < 0 then ''-'' @ repr_pos_float (- x)
     else repr_pos_float x)"

end
