(* ===== verification/Py_Values.thy ===== *)
theory Py_Values
  imports Py_Float
begin

text \<open>
  Python values as they come out of a JSON document, the type \<open>dict[str, Any]\<close> of the
  program: their \<open>isinstance\<close> tests, equality (an \<open>int\<close>, a \<open>bool\<close> and a
  \<open>float\<close> of equal value are equal), hashability, and \<open>str\<close>/\<open>repr\<close>.
  A dictionary is the list of its items in insertion order, with distinct keys.
\<close>

datatype pyval =
    PNone
  | PBool bool
  | PInt int
  | PFloat float64
  | PStr string
  | PList "pyval list"
  | PTuple "pyval list"
  | PDict "(string \<times> pyval) list"

type_synonym pydict = "(string \<times> pyval) list"

text \<open>\<open>d.get(k)\<close> and \<open>d.get(k, default)\<close>.\<close>

definition dict_get :: "pydict \<Rightarrow> string \<Rightarrow> pyval" where
  "dict_get d k = (case map_of d k of None \<Rightarrow> PNone | Some v \<Rightarrow> v)"

definition dict_get_default :: "pydict \<Rightarrow> string \<Rightarrow> pyval \<Rightarrow> pyval" where
  "dict_get_default d k dflt = (case map_of d k of None \<Rightarrow> dflt | Some v \<Rightarrow> v)"

text \<open>\<open>isinstance(v, int)\<close> holds of booleans too; \<open>as_int\<close> is then the number.\<close>

fun as_int :: "pyval \<Rightarrow> int option" where
  "as_int (PInt i) = Some i"
| "as_int (PBool b) = Some (if b then 1 else 0)"
| "as_int _ = None"

fun as_str :: "pyval \<Rightarrow> string option" where
  "as_str (PStr s) = Some s"
| "as_str _ = None"

text \<open>\<open>pair[0]\<close> and \<open>pair[1]\<close> of a list or tuple of length two.\<close>

fun as_pair :: "pyval \<Rightarrow> (pyval \<times> pyval) option" where
  "as_pair (PList [a, b]) = Some (a, b)"
| "as_pair (PTuple [a, b]) = Some (a, b)"
| "as_pair _ = None"

text \<open>
  Equality: \<open>canon\<close> maps equal values to the same value (numbers to floats, dictionaries
  to their items sorted by key).
\<close>

primrec canon :: "pyval \<Rightarrow> pyval" where
  "canon PNone = PNone"
| "canon (PBool b) = PFloat (if b then 1 else 0)"
| "canon (PInt i) = PFloat (of_int i)"
| "canon (PFloat x) = PFloat x"
| "canon (PStr s) = PStr s"
| "canon (PList vs) = PList (map canon vs)"
| "canon (PTuple vs) = PTuple (map canon vs)"
| "canon (PDict d) = PDict (sort_key fst (map (map_prod id canon) d))"

definition py_eq :: "pyval \<Rightarrow> pyval \<Rightarrow> bool" where
  "py_eq v w \<longleftrightarrow> canon v = canon w"

text \<open>
  \<open>hash(v)\<close> raises \<open>TypeError\<close> for a list or a dictionary, at the top or inside a
  tuple; the result is the type's name.
\<close>

primrec unhashable :: "pyval \<Rightarrow> string option" where
  "unhashable PNone = None"
| "unhashable (PBool b) = None"
| "unhashable (PInt i) = None"
| "unhashable (PFloat x) = None"
| "unhashable (PStr s) = None"
| "unhashable (PList vs) = Some ''list''"
| "unhashable (PTuple vs) = (case filter (\<lambda>r. r \<noteq> None) (map unhashable vs) of [] \<Rightarrow> None | r # _ \<Rightarrow> r)"
| "unhashable (PDict d) = Some ''dict''"

section \<open>\<open>repr\<close> and \<open>str\<close>\<close>

definition hex_digit :: "nat \<Rightarrow> char" where
  "hex_digit n = (if n < 10 then digit_char n else char_of (87 + n))"

definition repr_char :: "char \<Rightarrow> char \<Rightarrow> string" where
  "repr_char q c =
     (let n = (of_char c :: nat) in
      if c = q \<or> c = CHR 0x5C then [CHR 0x5C, c]
      else if n = 9 then [CHR 0x5C, CHR ''t'']
      else if n = 10 then [CHR 0x5C, CHR ''n'']
      else if n = 13 then [CHR 0x5C, CHR ''r'']
      else if n < 32 \<or> n = 127 then [CHR 0x5C, CHR ''x'', hex_digit (n div 16), hex_digit (n mod 16)]
      else [c])"

definition repr_str :: "string \<Rightarrow> string" where
  "repr_str s =
     (let q = (if CHR 0x27 \<in> set s \<and> CHR 0x22 \<notin> set s then CHR 0x22 else CHR 0x27)
      in [q] @ concat (map (repr_char q) s) @ [q])"

primrec py_repr :: "pyval \<Rightarrow> string" where
  "py_repr PNone = ''None''"
| "py_repr (PBool b) = (if b then ''True'' else ''False'')"
| "py_repr (PInt i) = str_int i"
| "py_repr (PFloat x) = repr_float x"
| "py_repr (PStr s) = repr_str s"
| "py_repr (PList vs) = ''['' @ str_join '', '' (map py_repr vs) @ '']''"
| "py_repr (PTuple vs) = (let rs = map py_repr vs
     in ''('' @ str_join '', '' rs @ (if length rs = 1 then '',)'' else '')''))"
| "py_repr (PDict d) =
     ''{'' @ str_join '', '' (map (\<lambda>p. repr_str (fst p) @ '': '' @ snd p) (map (map_prod id py_repr) d)) @ ''}''"

fun py_str :: "pyval \<Rightarrow> string" where
  "py_str (PStr s) = s"
| "py_str v = py_repr v"

text \<open>\<open>repr\<close> of a list of strings, as an f-string prints it.\<close>

definition repr_str_list :: "string list \<Rightarrow> string" where
  "repr_str_list ss = ''['' @ str_join '', '' (map repr_str ss) @ '']''"

section \<open>Facts about equality and hashing\<close>

lemma py_eq_refl [simp]: "py_eq v v"
  by (simp add: py_eq_def)

lemma py_eq_sym: "py_eq v w \<Longrightarrow> py_eq w v"
  by (simp add: py_eq_def)

lemma py_eq_trans: "py_eq u v \<Longrightarrow> py_eq v w \<Longrightarrow> py_eq u w"
  by (simp add: py_eq_def)

lemma canon_eq_PStr [simp]: "canon v = PStr s \<longleftrightarrow> v = PStr s"
  by (cases v) auto

lemma py_eq_PStr [simp]: "py_eq v (PStr s) \<longleftrightarrow> v = PStr s" "py_eq (PStr s) v \<longleftrightarrow> v = PStr s"
  by (auto simp: py_eq_def dest: sym)

lemma py_eq_PInt [simp]: "py_eq (PInt i) (PInt j) \<longleftrightarrow> i = j"
  by (simp add: py_eq_def)

lemma as_int_py_eq: "as_int v = Some i \<Longrightarrow> py_eq v (PInt i)"
  by (cases v) (auto simp: py_eq_def)

end
