(* ===== verification/Domain_Models.thy ===== *)
theory Domain_Models
  imports Py_Values
begin

text \<open>
  The data of the trusted core (\<open>zeroshield.models\<close>): enumerations, identifier patterns,
  the records of an experiment, its dataset, its runs and its evidence, and the validators that
  every record passes when it is built. A record's fields keep their names behind a prefix for the
  record (\<open>ed_\<close> for \<open>ExperimentDefinition\<close> and so on). \<open>validate_X x\<close>
  is the construction of an \<open>X\<close> with the field values of \<open>x\<close>: the record itself,
  or the \<open>ValidationError\<close> of its first failing check (the field constraints come before the
  model validators, which run in the order of their declaration).
\<close>

section \<open>Enumerations\<close>

datatype domain = VPN | TELECOM
datatype safety_level = SYNTHETIC_ONLY
datatype approval_status =
  AS_DRAFT | AS_PENDING_REVIEW | AS_APPROVED | AS_REVISION_REQUIRED | AS_REJECTED | AS_CLOSED
datatype input_classification = SYNTHETIC | BENIGN | EXPLICITLY_AUTHORIZED
datatype root_cause_category =
    MEMORY_SAFETY_FAILURE | PARSER_MESSAGE_HANDLING_FAILURE | INPUT_VALIDATION_FAILURE
  | AUTHENTICATION_LOGIC_ERROR | AUTHENTICATION_LOGIC_FLAW
  | AUTHORIZATION_ACCESS_CONTROL_FAILURE | INJECTION_FLAW | UNSAFE_COMMAND_OR_CODE_EXECUTION
datatype zero_click_relevance = ZC_HIGH | ZC_MEDIUM | ZC_LOW
datatype test_case_category = TC_VALID | TC_MALFORMED | TC_BOUNDARY
datatype decision = ACCEPTED | BLOCKED
datatype run_mode = BASELINE | MITIGATED
datatype run_status = RS_PENDING | RS_RUNNING | RS_COMPLETED | RS_FAILED
datatype metric_name =
    BLOCK_RATE | VALID_ACCEPTANCE_RATE | FALSE_POSITIVE_RATE | FALSE_NEGATIVE_RATE
  | PARSER_REACH_RATE | MEAN_LATENCY_MS | LOG_COMPLETENESS_RATE
datatype run_event_type =
    RE_QUEUED | RE_PREPARING | RE_SAFETY_CHECK | RE_RUNNING_BASELINE | RE_RUNNING_MITIGATION
  | RE_ANALYSING | RE_GENERATING_EVIDENCE | RE_COMPLETED | RE_DENIED | RE_FAILED
datatype experiment_version_status =
  EV_DRAFT | EV_READY_FOR_REVIEW | EV_UNDER_REVIEW | EV_APPROVED | EV_REJECTED | EV_RETIRED
datatype verdict_label = EFFECTIVE | PARTIALLY_EFFECTIVE | INEFFECTIVE | REGRESSION | INCONCLUSIVE
datatype execution_context = LOCAL_UNIT_TEST | EXPERIMENT_RUN

text \<open>The \<open>.value\<close> of the members that the program prints or stores.\<close>

fun domain_value :: "domain \<Rightarrow> string" where
  "domain_value VPN = ''VPN''"
| "domain_value TELECOM = ''TELECOM''"

fun approval_status_value :: "approval_status \<Rightarrow> string" where
  "approval_status_value AS_DRAFT = ''draft''"
| "approval_status_value AS_PENDING_REVIEW = ''pending_review''"
| "approval_status_value AS_APPROVED = ''approved''"
| "approval_status_value AS_REVISION_REQUIRED = ''revision_required''"
| "approval_status_value AS_REJECTED = ''rejected''"
| "approval_status_value AS_CLOSED = ''closed''"

fun input_classification_value :: "input_classification \<Rightarrow> string" where
  "input_classification_value SYNTHETIC = ''synthetic''"
| "input_classification_value BENIGN = ''benign''"
| "input_classification_value EXPLICITLY_AUTHORIZED = ''explicitly_authorized''"

fun run_event_value :: "run_event_type \<Rightarrow> string" where
  "run_event_value RE_QUEUED = ''queued''"
| "run_event_value RE_PREPARING = ''preparing''"
| "run_event_value RE_SAFETY_CHECK = ''safety_check''"
| "run_event_value RE_RUNNING_BASELINE = ''running_baseline''"
| "run_event_value RE_RUNNING_MITIGATION = ''running_mitigation''"
| "run_event_value RE_ANALYSING = ''analysing''"
| "run_event_value RE_GENERATING_EVIDENCE = ''generating_evidence''"
| "run_event_value RE_COMPLETED = ''completed''"
| "run_event_value RE_DENIED = ''denied''"
| "run_event_value RE_FAILED = ''failed''"

fun version_status_value :: "experiment_version_status \<Rightarrow> string" where
  "version_status_value EV_DRAFT = ''draft''"
| "version_status_value EV_READY_FOR_REVIEW = ''ready_for_review''"
| "version_status_value EV_UNDER_REVIEW = ''under_review''"
| "version_status_value EV_APPROVED = ''approved''"
| "version_status_value EV_REJECTED = ''rejected''"
| "version_status_value EV_RETIRED = ''retired''"

fun verdict_value :: "verdict_label \<Rightarrow> string" where
  "verdict_value EFFECTIVE = ''effective''"
| "verdict_value PARTIALLY_EFFECTIVE = ''partially_effective''"
| "verdict_value INEFFECTIVE = ''ineffective''"
| "verdict_value REGRESSION = ''regression''"
| "verdict_value INCONCLUSIVE = ''inconclusive''"

fun context_value :: "execution_context \<Rightarrow> string" where
  "context_value LOCAL_UNIT_TEST = ''local_unit_test''"
| "context_value EXPERIMENT_RUN = ''experiment_run''"

section \<open>Paths and identifiers\<close>

text \<open>A POSIX \<open>pathlib.Path\<close>: its root and its parts after the root, empty and \<open>.\<close> parts dropped.\<close>

datatype pypath = PyPath (path_root: string) (path_parts: "string list")

definition path_of_string :: "string \<Rightarrow> pypath" where
  "path_of_string s =
     PyPath (if prefix ''//'' s \<and> \<not> prefix ''///'' s then ''//'' else if prefix ''/'' s then ''/'' else [])
       (filter (\<lambda>p. p \<noteq> [] \<and> p \<noteq> ''.'') (str_split (CHR ''/'') s))"

definition path_str :: "pypath \<Rightarrow> string" where
  "path_str p = (let s = path_root p @ str_join ''/'' (path_parts p) in if s = [] then ''.'' else s)"

text \<open>\<open>parent / child\<close> for a relative child of one part.\<close>

definition path_child :: "pypath \<Rightarrow> string \<Rightarrow> pypath" where
  "path_child p c = PyPath (path_root p) (path_parts p @ [c])"

definition is_alpha :: "char \<Rightarrow> bool" where
  "is_alpha c \<longleftrightarrow> (let n = (of_char c :: nat) in (65 \<le> n \<and> n \<le> 90) \<or> (97 \<le> n \<and> n \<le> 122))"

definition drive_letter_match :: "string \<Rightarrow> bool" where
  "drive_letter_match s \<longleftrightarrow>
     (case s of a # b # c # _ \<Rightarrow> is_alpha a \<and> b = CHR '':'' \<and> (c = CHR 0x5C \<or> c = CHR ''/'') | _ \<Rightarrow> False)"

definition is_unsafe_relative_path :: "pypath \<Rightarrow> bool" where
  "is_unsafe_relative_path p \<longleftrightarrow>
     (if path_root p \<noteq> [] \<or> drive_letter_match (path_str p)
         \<or> prefix ''/'' (path_str p) \<or> prefix [CHR 0x5C] (path_str p)
      then True
      else ''..'' \<in> set (path_parts p))"

definition strip_prefix :: "string \<Rightarrow> string \<Rightarrow> string option" where
  "strip_prefix p s = (if prefix p s then Some (drop (length p) s) else None)"

definition digits_between :: "nat \<Rightarrow> nat option \<Rightarrow> string \<Rightarrow> bool" where
  "digits_between lo hi s \<longleftrightarrow> list_all is_digit s \<and> lo \<le> length s
     \<and> (case hi of None \<Rightarrow> True | Some h \<Rightarrow> length s \<le> h)"

text \<open>\<open>EXPERIMENT_ID_PATTERN\<close>: the result is group 1, the domain segment.\<close>

definition experiment_id_domain :: "string \<Rightarrow> string option" where
  "experiment_id_domain s =
     (case strip_prefix ''ZC-VPN-EXP-'' s of
        Some r \<Rightarrow> if digits_between 3 None r then Some ''VPN'' else None
      | None \<Rightarrow> (case strip_prefix ''ZC-TELECOM-EXP-'' s of
          Some r \<Rightarrow> if digits_between 3 None r then Some ''TELECOM'' else None
        | None \<Rightarrow> None))"

definition is_experiment_id :: "string \<Rightarrow> bool" where
  "is_experiment_id s \<longleftrightarrow> experiment_id_domain s \<noteq> None"

definition is_run_id :: "string \<Rightarrow> bool" where
  "is_run_id s \<longleftrightarrow> (case strip_prefix ''RUN-'' s of Some r \<Rightarrow> digits_between 3 None r | None \<Rightarrow> False)"

definition is_cve_id :: "string \<Rightarrow> bool" where
  "is_cve_id s \<longleftrightarrow> (case strip_prefix ''CVE-'' s of
     None \<Rightarrow> False
   | Some r \<Rightarrow> digits_between 4 (Some 4) (take 4 r) \<and> take 1 (drop 4 r) = ''-''
       \<and> digits_between 4 (Some 7) (drop 5 r))"

definition is_strategy_id :: "string \<Rightarrow> bool" where
  "is_strategy_id s \<longleftrightarrow> (case s of
     [] \<Rightarrow> False
   | c # cs \<Rightarrow> is_alpha c \<and> lower_char c = c
       \<and> list_all (\<lambda>x. (is_alpha x \<and> lower_char x = x) \<or> is_digit x \<or> x = CHR ''_'') cs)"

definition is_hex :: "char \<Rightarrow> bool" where
  "is_hex c \<longleftrightarrow> is_digit c \<or> (let n = (of_char c :: nat) in 97 \<le> n \<and> n \<le> 102)"

definition is_sha256 :: "string \<Rightarrow> bool" where
  "is_sha256 s \<longleftrightarrow> length s = 64 \<and> list_all is_hex s"

definition is_git_commit :: "string \<Rightarrow> bool" where
  "is_git_commit s \<longleftrightarrow> 7 \<le> length s \<and> length s \<le> 40 \<and> list_all is_hex s"

definition is_safety_rule_id :: "string \<Rightarrow> bool" where
  "is_safety_rule_id s \<longleftrightarrow>
     (case strip_prefix ''SAFE-'' s of Some r \<Rightarrow> digits_between 3 (Some 3) r | None \<Rightarrow> False)"

definition is_rate :: "float64 \<Rightarrow> bool" where
  "is_rate x \<longleftrightarrow> 0 \<le> x \<and> x \<le> 1"

section \<open>Records\<close>

record test_case =
  tc_case_id :: string
  tc_category :: test_case_category
  tc_input_data :: pydict
  tc_expected_outcome :: decision
  tc_provenance :: string
  tc_version :: string

record test_set =
  ts_test_set_id :: string
  ts_version :: string
  ts_domain :: domain
  ts_cases :: "test_case list"

record case_result =
  cr_run_id :: string
  cr_case_id :: string
  cr_decision :: decision
  cr_parser_reached :: bool
  cr_errored :: bool
  cr_error_message :: "string option"
  cr_logged :: bool
  cr_latency_ms :: float64

record cve_reference =
  cve_cve_id :: string
  cve_domain :: domain
  cve_cvss_score :: "float64 option"
  cve_cisa_kev :: bool
  cve_epss_score :: "float64 option"
  cve_trust_boundary :: string
  cve_root_cause :: root_cause_category
  cve_vendor_mitigation :: string
  cve_mitigation_gap :: string
  cve_source_urls :: "string list"
  cve_retrieved_date :: int

record experiment_metrics =
  em_run_id :: string
  em_processing_success_rate :: float64
  em_block_rate :: float64
  em_valid_acceptance_rate :: float64
  em_false_positive_rate :: float64
  em_false_negative_rate :: float64
  em_parser_reach_rate :: float64
  em_mean_latency_ms :: float64
  em_log_completeness_rate :: float64
  em_calculated_at :: datetime
  em_calculation_version :: string

record comparison_report =
  cp_experiment_id :: string
  cp_baseline_run_id :: string
  cp_mitigation_run_id :: string
  cp_total_cases :: int
  cp_baseline_metrics :: experiment_metrics
  cp_mitigation_metrics :: experiment_metrics
  cp_block_rate_improvement :: float64
  cp_latency_overhead_ms :: float64
  cp_limitations :: "string list"
  cp_generated_at :: datetime

record policy_decision =
  pd_allowed :: bool
  pd_evaluated_at :: datetime
  pd_rule_results :: "(string \<times> bool) list"
  pd_reasons :: "string list"
  pd_policy_version :: string

record experiment_run =
  er_run_id :: string
  er_experiment_id :: string
  er_mode :: run_mode
  er_dataset_hash :: string
  er_git_commit :: string
  er_environment :: "(string \<times> string) list"
  er_started_at :: datetime
  er_completed_at :: "datetime option"
  er_status :: run_status

record experiment_definition =
  ed_experiment_id :: string
  ed_title :: string
  ed_domain :: domain
  ed_description :: string
  ed_related_cves :: "cve_reference list"
  ed_failure_pattern :: string
  ed_root_cause :: root_cause_category
  ed_vendor_mitigation :: string
  ed_mitigation_gap :: string
  ed_research_question :: string
  ed_hypothesis :: string
  ed_safety_level :: safety_level
  ed_external_targeting :: bool
  ed_input_classification :: input_classification
  ed_weaponised_payloads :: bool
  ed_baseline_strategy :: string
  ed_mitigation_strategy :: string
  ed_dataset_path :: pypath
  ed_metrics_to_collect :: "metric_name list"
  ed_approval_status :: approval_status
  ed_version :: string

record experiment_version =
  ev_version_id :: string
  ev_experiment_id :: string
  ev_version_number :: int
  ev_status :: experiment_version_status
  ev_domain_pack_id :: string
  ev_template_id :: string
  ev_template_version :: string
  ev_definition :: experiment_definition
  ev_dataset_provenance :: "pydict option"
  ev_created_by :: string
  ev_created_at :: datetime
  ev_updated_at :: datetime

record approval_decision =
  ad_version_id :: string
  ad_from_status :: experiment_version_status
  ad_to_status :: experiment_version_status
  ad_actor :: string
  ad_reason :: "string option"
  ad_decided_at :: datetime

record evidence_manifest =
  mf_manifest_version :: string
  mf_experiment_id :: string
  mf_experiment_version :: string
  mf_run_id :: string
  mf_mode :: run_mode
  mf_test_set_id :: string
  mf_test_set_sha256 :: string
  mf_git_commit :: string
  mf_container_image_digest :: "string option"
  mf_started_at :: datetime
  mf_completed_at :: datetime
  mf_strategy_id :: string
  mf_metrics :: experiment_metrics
  mf_artefact_paths :: "(string \<times> pypath) list"
  mf_safety_decision :: policy_decision
  mf_review_status :: approval_status
  mf_manifest_sha256 :: string

section \<open>Exceptions\<close>

text \<open>
  The exceptions that the modelled code raises, with the data or the message they carry.
  \<open>ValidationError\<close> is pydantic's: the model's name and the failing check.
\<close>

datatype exn =
    ValidationError string string
  | ValueError string
  | TypeError string
  | FileNotFoundError string
  | PolicyRefusalError policy_decision
  | UnknownStrategyError string
  | EvidenceAlreadyExistsError string
  | InvalidTransitionError experiment_version_status experiment_version_status
  | ImmutableVersionError string
  | ExperimentVersionNotFoundError string
  | ExperimentBuilderError string
  | UnknownDomainPackError string
  | UnknownTemplateError string
  | UnknownGeneratorError string
  | ExperimentServiceError string
  | SandboxForbiddenExecutorError string
  | SandboxTimeoutError string
  | SandboxNetworkDeniedError string
  | InvalidCredentialsError string
  | AccountLockedError datetime
  | AccountInactiveError string
  | UsernameAlreadyExistsError string
  | MultipleResultsFound
  | OtherError string string

section \<open>Validators\<close>

definition ne :: "string \<Rightarrow> bool" where
  "ne s \<longleftrightarrow> s \<noteq> []"

definition validate_test_case :: "test_case \<Rightarrow> exn + test_case" where
  "validate_test_case c =
     bindS (raise_if (\<not> (ne (tc_case_id c) \<and> ne (tc_provenance c) \<and> ne (tc_version c)))
       (ValidationError ''TestCase'' ''fields'')) (\<lambda>_. Inr c)"

definition validate_test_set :: "test_set \<Rightarrow> exn + test_set" where
  "validate_test_set s =
     bindS (raise_if (\<not> (ne (ts_test_set_id s) \<and> ne (ts_version s) \<and> ts_cases s \<noteq> []))
       (ValidationError ''TestSet'' ''fields'')) (\<lambda>_.
     bindS (mapS validate_test_case (ts_cases s)) (\<lambda>_.
     bindS (raise_if (\<not> distinct (map tc_case_id (ts_cases s)))
       (ValidationError ''TestSet'' ''cases must not contain duplicate case_id values'')) (\<lambda>_.
     Inr s)))"

definition validate_case_result :: "case_result \<Rightarrow> exn + case_result" where
  "validate_case_result r =
     bindS (raise_if (\<not> (is_run_id (cr_run_id r) \<and> ne (cr_case_id r) \<and> 0 \<le> cr_latency_ms r))
       (ValidationError ''CaseResult'' ''fields'')) (\<lambda>_.
     bindS (raise_if (cr_errored r \<and> (cr_error_message r = None \<or> cr_error_message r = Some []))
       (ValidationError ''CaseResult'' ''error_message is required when errored is True'')) (\<lambda>_.
     bindS (raise_if (\<not> cr_errored r \<and> cr_error_message r \<noteq> None)
       (ValidationError ''CaseResult'' ''error_message must be None when errored is False'')) (\<lambda>_.
     Inr r)))"

definition opt_between :: "float64 \<Rightarrow> float64 \<Rightarrow> float64 option \<Rightarrow> bool" where
  "opt_between lo hi x \<longleftrightarrow> (case x of None \<Rightarrow> True | Some v \<Rightarrow> lo \<le> v \<and> v \<le> hi)"

definition validate_cve_reference :: "cve_reference \<Rightarrow> exn + cve_reference" where
  "validate_cve_reference c =
     bindS (raise_if (\<not> (is_cve_id (cve_cve_id c) \<and> opt_between 0 10 (cve_cvss_score c)
         \<and> opt_between 0 1 (cve_epss_score c) \<and> ne (cve_trust_boundary c)
         \<and> ne (cve_vendor_mitigation c) \<and> ne (cve_mitigation_gap c) \<and> cve_source_urls c \<noteq> []))
       (ValidationError ''CVEReference'' ''fields'')) (\<lambda>_. Inr c)"

definition metrics_fields_ok :: "experiment_metrics \<Rightarrow> bool" where
  "metrics_fields_ok m \<longleftrightarrow> is_run_id (em_run_id m) \<and> is_rate (em_processing_success_rate m)
     \<and> is_rate (em_block_rate m) \<and> is_rate (em_valid_acceptance_rate m)
     \<and> is_rate (em_false_positive_rate m) \<and> is_rate (em_false_negative_rate m)
     \<and> is_rate (em_parser_reach_rate m) \<and> 0 \<le> em_mean_latency_ms m
     \<and> is_rate (em_log_completeness_rate m) \<and> ne (em_calculation_version m)"

definition validate_metrics :: "experiment_metrics \<Rightarrow> exn + experiment_metrics" where
  "validate_metrics m =
     bindS (raise_if (\<not> metrics_fields_ok m) (ValidationError ''ExperimentMetrics'' ''fields'')) (\<lambda>_. Inr m)"

definition validate_comparison :: "comparison_report \<Rightarrow> exn + comparison_report" where
  "validate_comparison r =
     bindS (raise_if (\<not> (is_experiment_id (cp_experiment_id r) \<and> is_run_id (cp_baseline_run_id r)
         \<and> is_run_id (cp_mitigation_run_id r) \<and> 1 \<le> cp_total_cases r
         \<and> - 1 \<le> cp_block_rate_improvement r \<and> cp_block_rate_improvement r \<le> 1 \<and> cp_limitations r \<noteq> []))
       (ValidationError ''ComparisonReport'' ''fields'')) (\<lambda>_.
     bindS (raise_if (cp_baseline_run_id r = cp_mitigation_run_id r)
       (ValidationError ''ComparisonReport'' ''baseline_run_id and mitigation_run_id must be different runs'')) (\<lambda>_.
     bindS (raise_if (em_run_id (cp_baseline_metrics r) \<noteq> cp_baseline_run_id r)
       (ValidationError ''ComparisonReport'' ''baseline_metrics.run_id must match baseline_run_id'')) (\<lambda>_.
     bindS (raise_if (em_run_id (cp_mitigation_metrics r) \<noteq> cp_mitigation_run_id r)
       (ValidationError ''ComparisonReport'' ''mitigation_metrics.run_id must match mitigation_run_id'')) (\<lambda>_.
     Inr r))))"

definition validate_policy_decision :: "policy_decision \<Rightarrow> exn + policy_decision" where
  "validate_policy_decision d =
     bindS (raise_if (\<not> (list_all (\<lambda>p. is_safety_rule_id (fst p)) (pd_rule_results d)
         \<and> pd_rule_results d \<noteq> [] \<and> ne (pd_policy_version d)))
       (ValidationError ''PolicyDecision'' ''fields'')) (\<lambda>_.
     bindS (raise_if (\<not> pd_allowed d \<and> pd_reasons d = [])
       (ValidationError ''PolicyDecision'' ''reasons must be provided when allowed is False'')) (\<lambda>_.
     let all_passed = list_all snd (pd_rule_results d) in
     bindS (raise_if (\<not> pd_allowed d \<and> all_passed)
       (ValidationError ''PolicyDecision'' ''allowed=False requires at least one failed rule_results entry'')) (\<lambda>_.
     bindS (raise_if (pd_allowed d \<and> \<not> all_passed)
       (ValidationError ''PolicyDecision'' ''allowed=True requires all rule_results entries to pass'')) (\<lambda>_.
     Inr d))))"

definition is_terminal_run_status :: "run_status \<Rightarrow> bool" where
  "is_terminal_run_status s \<longleftrightarrow> s \<in> set [RS_COMPLETED, RS_FAILED]"

definition is_open_run_status :: "run_status \<Rightarrow> bool" where
  "is_open_run_status s \<longleftrightarrow> s \<in> set [RS_PENDING, RS_RUNNING]"

definition validate_run :: "experiment_run \<Rightarrow> exn + experiment_run" where
  "validate_run r =
     bindS (raise_if (\<not> (is_run_id (er_run_id r) \<and> is_experiment_id (er_experiment_id r)
         \<and> is_sha256 (er_dataset_hash r) \<and> is_git_commit (er_git_commit r) \<and> er_environment r \<noteq> []))
       (ValidationError ''ExperimentRun'' ''fields'')) (\<lambda>_.
     bindS (raise_if (case er_completed_at r of None \<Rightarrow> False | Some t \<Rightarrow> t < er_started_at r)
       (ValidationError ''ExperimentRun'' ''completed_at cannot be earlier than started_at'')) (\<lambda>_.
     bindS (raise_if (is_terminal_run_status (er_status r) \<and> er_completed_at r = None)
       (ValidationError ''ExperimentRun'' ''status requires completed_at to be set'')) (\<lambda>_.
     bindS (raise_if (is_open_run_status (er_status r) \<and> er_completed_at r \<noteq> None)
       (ValidationError ''ExperimentRun'' ''status must not have completed_at set'')) (\<lambda>_.
     Inr r))))"

definition definition_fields_ok :: "experiment_definition \<Rightarrow> bool" where
  "definition_fields_ok d \<longleftrightarrow> is_experiment_id (ed_experiment_id d) \<and> ne (ed_title d)
     \<and> ne (ed_description d) \<and> ed_related_cves d \<noteq> [] \<and> ne (ed_failure_pattern d)
     \<and> ne (ed_vendor_mitigation d) \<and> ne (ed_mitigation_gap d) \<and> ne (ed_research_question d)
     \<and> ne (ed_hypothesis d) \<and> is_strategy_id (ed_baseline_strategy d)
     \<and> is_strategy_id (ed_mitigation_strategy d) \<and> ed_metrics_to_collect d \<noteq> []
     \<and> ne (ed_version d)"

definition validate_definition :: "experiment_definition \<Rightarrow> exn + experiment_definition" where
  "validate_definition d =
     bindS (raise_if (\<not> definition_fields_ok d)
       (ValidationError ''ExperimentDefinition'' ''fields'')) (\<lambda>_.
     bindS (raise_if (is_unsafe_relative_path (ed_dataset_path d))
       (ValidationError ''ExperimentDefinition'' ''dataset_path must be a relative path with no '..' segments, for portability and reproducibility'')) (\<lambda>_.
     bindS (raise_if (experiment_id_domain (ed_experiment_id d) \<noteq> Some (domain_value (ed_domain d)))
       (ValidationError ''ExperimentDefinition''
         (''experiment_id '' @ quoted (ed_experiment_id d) @ '' domain segment does not match domain field ''
          @ quoted (domain_value (ed_domain d))))) (\<lambda>_.
     bindS (raise_if (filter (\<lambda>c. cve_domain c \<noteq> ed_domain d) (ed_related_cves d) \<noteq> [])
       (ValidationError ''ExperimentDefinition''
         (''related_cves contains CVEs outside the experiment's domain ('' @ domain_value (ed_domain d) @ ''): ''
          @ repr_str_list (map cve_cve_id (filter (\<lambda>c. cve_domain c \<noteq> ed_domain d) (ed_related_cves d)))))) (\<lambda>_.
     bindS (raise_if (ed_baseline_strategy d = ed_mitigation_strategy d)
       (ValidationError ''ExperimentDefinition''
         ''baseline_strategy and mitigation_strategy must be different strategy identifiers'')) (\<lambda>_.
     bindS (raise_if (\<not> distinct (ed_metrics_to_collect d))
       (ValidationError ''ExperimentDefinition'' ''metrics_to_collect must not contain duplicate entries'')) (\<lambda>_.
     Inr d))))))"

text \<open>\<open>_APPROVED_DEFINITION_STATUS.get(status, ApprovalStatus.DRAFT)\<close>.\<close>

definition expected_approval_status :: "experiment_version_status \<Rightarrow> approval_status" where
  "expected_approval_status s = (if s = EV_APPROVED then AS_APPROVED else AS_DRAFT)"

definition validate_version :: "experiment_version \<Rightarrow> exn + experiment_version" where
  "validate_version v =
     bindS (raise_if (\<not> (ne (ev_version_id v) \<and> is_experiment_id (ev_experiment_id v)
         \<and> 1 \<le> ev_version_number v \<and> ne (ev_domain_pack_id v) \<and> ne (ev_template_id v)
         \<and> ne (ev_template_version v) \<and> ne (ev_created_by v)))
       (ValidationError ''ExperimentVersion'' ''fields'')) (\<lambda>_.
     bindS (raise_if (ev_experiment_id v \<noteq> ed_experiment_id (ev_definition v))
       (ValidationError ''ExperimentVersion'' ''experiment_id must match definition.experiment_id'')) (\<lambda>_.
     bindS (raise_if (ed_approval_status (ev_definition v) \<noteq> expected_approval_status (ev_status v))
       (ValidationError ''ExperimentVersion''
         (''definition.approval_status must be ''
          @ quoted (approval_status_value (expected_approval_status (ev_status v)))
          @ '' when workflow status is '' @ quoted (version_status_value (ev_status v))
          @ '' - Experiment Studio approval must never desynchronise from the trusted core's own approval field''))) (\<lambda>_.
     Inr v)))"

definition validate_approval_decision :: "approval_decision \<Rightarrow> exn + approval_decision" where
  "validate_approval_decision d =
     bindS (raise_if (\<not> (ne (ad_version_id d) \<and> ne (ad_actor d)))
       (ValidationError ''ApprovalDecision'' ''fields'')) (\<lambda>_. Inr d)"

definition manifest_fields_ok :: "evidence_manifest \<Rightarrow> bool" where
  "manifest_fields_ok m \<longleftrightarrow> ne (mf_manifest_version m) \<and> is_experiment_id (mf_experiment_id m)
     \<and> ne (mf_experiment_version m) \<and> is_run_id (mf_run_id m) \<and> ne (mf_test_set_id m)
     \<and> is_sha256 (mf_test_set_sha256 m) \<and> is_git_commit (mf_git_commit m)
     \<and> is_strategy_id (mf_strategy_id m) \<and> mf_artefact_paths m \<noteq> [] \<and> is_sha256 (mf_manifest_sha256 m)"

definition validate_manifest :: "evidence_manifest \<Rightarrow> exn + evidence_manifest" where
  "validate_manifest m =
     bindS (raise_if (\<not> manifest_fields_ok m) (ValidationError ''EvidenceManifest'' ''fields'')) (\<lambda>_.
     bindS (raise_if (filter (\<lambda>p. is_unsafe_relative_path (snd p)) (mf_artefact_paths m) \<noteq> [])
       (ValidationError ''EvidenceManifest''
         (''artefact_paths must be relative paths with no '..' segments, found unsafe for: ''
          @ repr_str_list (map fst (filter (\<lambda>p. is_unsafe_relative_path (snd p)) (mf_artefact_paths m)))))) (\<lambda>_.
     bindS (raise_if (mf_completed_at m < mf_started_at m)
       (ValidationError ''EvidenceManifest'' ''completed_at cannot be earlier than started_at'')) (\<lambda>_.
     bindS (raise_if (em_run_id (mf_metrics m) \<noteq> mf_run_id m)
       (ValidationError ''EvidenceManifest'' ''metrics.run_id must match the manifest's run_id'')) (\<lambda>_.
     Inr m))))"

lemmas validator_defs [guard_defs] =
  validate_test_case_def validate_test_set_def validate_case_result_def validate_cve_reference_def
  validate_metrics_def validate_comparison_def validate_policy_decision_def validate_run_def
  validate_definition_def validate_version_def validate_approval_decision_def validate_manifest_def

section \<open>What the validators guarantee\<close>

text \<open>A record that passes its validator is the record that was checked.\<close>

lemma validate_metrics_id: "validate_metrics m = Inr m' \<Longrightarrow> m' = m \<and> metrics_fields_ok m"
  by (auto simp: validate_metrics_def res_simps)

lemma validate_run_id: "validate_run r = Inr r' \<Longrightarrow> r' = r"
  by (auto simp: validate_run_def res_simps)

lemma validate_manifest_id: "validate_manifest m = Inr m' \<Longrightarrow> m' = m"
  by (auto simp: validate_manifest_def res_simps)

lemma validate_case_result_id: "validate_case_result r = Inr r' \<Longrightarrow> r' = r"
  by (auto simp: validate_case_result_def res_simps)

lemma validate_version_iff:
  "validate_version v = Inr v' \<longleftrightarrow> v' = v \<and> ne (ev_version_id v) \<and> is_experiment_id (ev_experiment_id v)
     \<and> 1 \<le> ev_version_number v \<and> ne (ev_domain_pack_id v) \<and> ne (ev_template_id v)
     \<and> ne (ev_template_version v) \<and> ne (ev_created_by v)
     \<and> ev_experiment_id v = ed_experiment_id (ev_definition v)
     \<and> ed_approval_status (ev_definition v) = expected_approval_status (ev_status v)"
  by (auto simp: validate_version_def res_simps)

text \<open>A path that passes the check stays below the directory it is resolved against.\<close>

lemma safe_path_no_escape:
  assumes "\<not> is_unsafe_relative_path p"
  shows "path_root p = []" and "''..'' \<notin> set (path_parts p)"
  using assms by (auto simp: is_unsafe_relative_path_def split: if_splits)

end
