(* ===== verification/Metrics.thy ===== *)
theory Metrics
  imports Domain_Models
begin

text \<open>
  The scoring of a run (\<open>zeroshield.metrics\<close>): \<open>calculate_metrics\<close> scores the case
  results of one run against the expected outcomes of the dataset, \<open>compare\<close> sets the metrics
  of a baseline run and of a mitigated run side by side. Rates are binary64 quotients of counts, the
  mean latency is the compensated float sum divided by the number of cases.
\<close>

section \<open>\<open>calculator.py\<close>\<close>

definition safe_rate :: "nat \<Rightarrow> nat \<Rightarrow> float64" where
  "safe_rate numerator denominator =
     (if denominator = 0 then 0 else fl (of_nat numerator / of_nat denominator))"

text \<open>The dictionary comprehension: a repeated key keeps its last value.\<close>

definition expected_by_case_id :: "test_case list \<Rightarrow> string \<rightharpoonup> decision" where
  "expected_by_case_id test_cases =
     map_of (rev (map (\<lambda>tc. (tc_case_id tc, tc_expected_outcome tc)) test_cases))"

text \<open>The loop that pairs every result that did not error with its expected outcome.\<close>

fun score_results :: "(string \<rightharpoonup> decision) \<Rightarrow> case_result list \<Rightarrow> (case_result \<times> decision) list
    \<Rightarrow> exn + (case_result \<times> decision) list" where
  "score_results expected [] successful = Inr successful"
| "score_results expected (r # rs) successful =
     (case expected (cr_case_id r) of
        None \<Rightarrow> Inl (ValueError (''case_id '' @ quoted (cr_case_id r) @ '' has no matching TestCase; cannot score it''))
      | Some e \<Rightarrow> score_results expected rs (if \<not> cr_errored r then successful @ [(r, e)] else successful))"

definition count_if :: "('a \<Rightarrow> bool) \<Rightarrow> 'a list \<Rightarrow> nat" where
  "count_if P xs = length (filter P xs)"

definition calculate_metrics :: "string \<Rightarrow> case_result list \<Rightarrow> test_case list \<Rightarrow> string \<Rightarrow> datetime
    \<Rightarrow> exn + experiment_metrics" where
  "calculate_metrics run_id case_results test_cases calculation_version now =
     bindS (score_results (expected_by_case_id test_cases) case_results []) (\<lambda>successful.
     let total = length case_results;
         should_block = filter (\<lambda>(r, e). e = BLOCKED) successful;
         should_accept = filter (\<lambda>(r, e). e = ACCEPTED) successful;
         true_positive = count_if (\<lambda>(r, _). cr_decision r = BLOCKED) should_block;
         false_negative = count_if (\<lambda>(r, _). cr_decision r = ACCEPTED) should_block;
         true_negative = count_if (\<lambda>(r, _). cr_decision r = ACCEPTED) should_accept;
         false_positive = count_if (\<lambda>(r, _). cr_decision r = BLOCKED) should_accept;
         blocked_results = map fst (filter (\<lambda>(r, _). cr_decision r = BLOCKED) successful)
     in validate_metrics
       \<lparr>em_run_id = run_id,
        em_processing_success_rate = safe_rate (length successful) total,
        em_block_rate = safe_rate true_positive (length should_block),
        em_valid_acceptance_rate = safe_rate true_negative (length should_accept),
        em_false_positive_rate = safe_rate false_positive (length should_accept),
        em_false_negative_rate = safe_rate false_negative (length should_block),
        em_parser_reach_rate = safe_rate (count_if (\<lambda>(r, _). cr_parser_reached r) should_block) (length should_block),
        em_mean_latency_ms =
          (if total \<noteq> 0 then fl (float_sum (map cr_latency_ms case_results) / fl (of_nat total)) else 0),
        em_log_completeness_rate = safe_rate (count_if cr_logged blocked_results) (length blocked_results),
        em_calculated_at = now,
        em_calculation_version = calculation_version\<rparr>)"

section \<open>\<open>comparator.py\<close>\<close>

definition STANDARD_LIMITATIONS :: "string list" where
  "STANDARD_LIMITATIONS =
     [''Results reflect a synthetic, abstracted model of the failure pattern and do not prove mitigation effectiveness for the original vendor product.'',
      ''Metrics are computed only over the cases included in this dataset version and are not a general claim about real-world attack traffic distributions.'']"

definition compare :: "string \<Rightarrow> int \<Rightarrow> experiment_metrics \<Rightarrow> experiment_metrics \<Rightarrow> datetime
    \<Rightarrow> exn + comparison_report" where
  "compare experiment_id total_cases baseline_metrics mitigation_metrics now =
     validate_comparison
       \<lparr>cp_experiment_id = experiment_id,
        cp_baseline_run_id = em_run_id baseline_metrics,
        cp_mitigation_run_id = em_run_id mitigation_metrics,
        cp_total_cases = total_cases,
        cp_baseline_metrics = baseline_metrics,
        cp_mitigation_metrics = mitigation_metrics,
        cp_block_rate_improvement = fl (em_block_rate mitigation_metrics - em_block_rate baseline_metrics),
        cp_latency_overhead_ms = fl (em_mean_latency_ms mitigation_metrics - em_mean_latency_ms baseline_metrics),
        cp_limitations = STANDARD_LIMITATIONS,
        cp_generated_at = now\<rparr>"

section \<open>Rates\<close>

lemma count_if_le: "count_if P xs \<le> length xs"
  by (simp add: count_if_def)

lemma count_if_0: "count_if P xs = 0 \<longleftrightarrow> (\<forall>x \<in> set xs. \<not> P x)"
  by (simp add: count_if_def filter_empty_conv)

lemma count_if_all: "count_if P xs = length xs \<longleftrightarrow> (\<forall>x \<in> set xs. P x)"
  by (auto simp: count_if_def length_filter_less intro: filter_True
      dest: length_filter_less [of _ xs P])

lemma safe_rate_is_rate: "k \<le> n \<Longrightarrow> is_rate (safe_rate k n)"
  using binary64.rnd_rate [of "of_nat k / of_nat n"]
  by (simp add: is_rate_def safe_rate_def divide_le_eq)

text \<open>
  A binary64 rate is 1 only when the counts are equal, and 0 only when the numerator is 0, as long
  as the group has at most \<open>2^53\<close> members: both neighbours \<open>1 - 2^-53\<close> and \<open>2^-53\<close>
  are representable.
\<close>

lemma safe_rate_0_iff:
  assumes "0 < n" and "n \<le> 2 ^ 53"
  shows "safe_rate k n = 0 \<longleftrightarrow> k = 0"
proof (cases "k = 0")
  case True
  then show ?thesis using assms by (simp add: safe_rate_def)
next
  case False
  have rep: "representable ((1::rat) / 2 ^ 53)"
    by (rule representableI [where m = 1 and e = "- 53"]) (simp_all add: power_int_def power_divide)
  have "(of_nat n :: rat) \<le> of_nat (2 ^ 53)" using assms by (simp only: of_nat_le_iff)
  then have "(1::rat) / 2 ^ 53 \<le> of_nat k / of_nat n"
    using False assms by (auto simp: field_simps)
  then have "(1::rat) / 2 ^ 53 \<le> fl (of_nat k / of_nat n)" by (rule binary64.rnd_ge [OF rep])
  then show ?thesis using False assms by (auto simp: safe_rate_def)
qed

lemma safe_rate_1_iff:
  assumes "0 < n" and "n \<le> 2 ^ 53" and "k \<le> n"
  shows "safe_rate k n = 1 \<longleftrightarrow> k = n"
proof (cases "k = n")
  case True
  then show ?thesis using assms by (simp add: safe_rate_def)
next
  case False
  have rep: "representable (1 - (1::rat) / 2 ^ 53)"
    by (rule representableI [where m = "2 ^ 53 - 1" and e = "- 53"]) (simp_all add: power_int_def power_divide)
  have n: "(of_nat n :: rat) \<le> 2 ^ 53" using assms by (metis of_nat_le_iff of_nat_numeral of_nat_power)
  have k: "(of_nat k :: rat) \<le> of_nat n - 1" using False assms
    by (metis Suc_leI add.commute le_diff_eq linorder_le_less_linear nat_less_le of_nat_Suc of_nat_le_iff)
  have "(of_nat k :: rat) / of_nat n \<le> (of_nat n - 1) / of_nat n"
    using k by (rule divide_right_mono) simp
  also have "\<dots> = 1 - 1 / of_nat n" using assms by (simp add: field_simps)
  also have "\<dots> \<le> 1 - 1 / 2 ^ 53" using n assms by (simp add: frac_le)
  finally have "fl (of_nat k / of_nat n) \<le> 1 - (1::rat) / 2 ^ 53" by (rule binary64.rnd_le [OF rep])
  then show ?thesis using False assms by (auto simp: safe_rate_def)
qed

lemma rate_0_iff:
  assumes "length xs \<le> 2 ^ 53"
  shows "safe_rate (count_if P xs) (length xs) = 0 \<longleftrightarrow> (\<forall>x \<in> set xs. \<not> P x)"
  using safe_rate_0_iff [of "length xs" "count_if P xs"] assms
  by (cases "xs = []") (simp_all add: safe_rate_def count_if_0)

lemma rate_1_iff:
  assumes "length xs \<le> 2 ^ 53"
  shows "safe_rate (count_if P xs) (length xs) = 1 \<longleftrightarrow> xs \<noteq> [] \<and> (\<forall>x \<in> set xs. P x)"
  using safe_rate_1_iff [of "length xs" "count_if P xs"] assms
  by (cases "xs = []") (simp_all add: safe_rate_def count_if_all count_if_le)

section \<open>Scoring\<close>

lemma score_results_append:
  assumes "\<forall>r \<in> set rs. expected (cr_case_id r) \<noteq> None"
  shows "score_results expected rs acc =
    Inr (acc @ map (\<lambda>r. (r, the (expected (cr_case_id r)))) (filter (\<lambda>r. \<not> cr_errored r) rs))"
  using assms by (induction rs arbitrary: acc) (auto split: option.splits)

lemma expected_None: "expected_by_case_id tcs i = None \<longleftrightarrow> i \<notin> tc_case_id ` set tcs"
  by (force simp: expected_by_case_id_def map_of_eq_None_iff image_iff)

lemma score_results_error:
  assumes "find (\<lambda>r. expected (cr_case_id r) = None) rs = Some bad"
  shows "score_results expected rs acc =
    Inl (ValueError (''case_id '' @ quoted (cr_case_id bad) @ '' has no matching TestCase; cannot score it''))"
  using assms by (induction rs arbitrary: acc) (auto split: option.splits if_splits)

text \<open>The results that count for the rates: not errored, with the given expected outcome.\<close>

definition scored :: "test_case list \<Rightarrow> decision \<Rightarrow> case_result list \<Rightarrow> case_result list" where
  "scored tcs e rs = filter (\<lambda>r. \<not> cr_errored r \<and> expected_by_case_id tcs (cr_case_id r) = Some e) rs"

definition known_cases :: "test_case list \<Rightarrow> case_result list \<Rightarrow> bool" where
  "known_cases tcs rs \<longleftrightarrow> list_all (\<lambda>r. cr_case_id r \<in> tc_case_id ` set tcs) rs"

definition latencies_ok :: "case_result list \<Rightarrow> bool" where
  "latencies_ok rs \<longleftrightarrow> list_all (\<lambda>r. representable (cr_latency_ms r) \<and> 0 \<le> cr_latency_ms r) rs"

lemma known_casesD: "known_cases tcs rs \<Longrightarrow> \<forall>r \<in> set rs. expected_by_case_id tcs (cr_case_id r) \<noteq> None"
  by (simp add: known_cases_def list_all_iff expected_None)

lemma scored_map:
  assumes "known_cases tcs rs"
  shows "filter (\<lambda>(r, e). e = x) (map (\<lambda>r. (r, the (expected_by_case_id tcs (cr_case_id r)))) (filter (\<lambda>r. \<not> cr_errored r) rs))
    = map (\<lambda>r. (r, x)) (scored tcs x rs)"
  using known_casesD [OF assms] by (induction rs) (auto simp: scored_def)

lemma count_if_map: "count_if P (map f xs) = count_if (P \<circ> f) xs"
  by (simp add: count_if_def filter_map)

lemma mean_latency_nonneg:
  assumes "latencies_ok rs"
  shows "0 \<le> fl (float_sum (map cr_latency_ms rs) / fl (of_nat n))"
proof (rule fl_nonneg)
  have "0 \<le> float_sum (map cr_latency_ms rs)"
    using assms by (intro float_sum_nonneg) (auto simp: latencies_ok_def list_all_iff)
  moreover have "0 \<le> fl (of_nat n)" by (rule fl_nonneg) simp
  ultimately show "0 \<le> float_sum (map cr_latency_ms rs) / fl (of_nat n)" by simp
qed

lemma count_conj_le:
  "length (filter (\<lambda>x. A x \<and> B x \<and> C x) xs) \<le> length (filter (\<lambda>x. A x \<and> B x) xs)"
  by (induction xs) auto

text \<open>The metrics of a run whose results all belong to the dataset, over the two scored groups.\<close>

lemma calculate_metrics_eq:
  assumes "known_cases tcs rs" and "latencies_ok rs" and "is_run_id run_id" and "ne v"
  shows "\<exists>m. calculate_metrics run_id rs tcs v now = Inr m \<and> metrics_fields_ok m
     \<and> em_run_id m = run_id \<and> em_calculated_at m = now \<and> em_calculation_version m = v
     \<and> em_processing_success_rate m = safe_rate (count_if (\<lambda>r. \<not> cr_errored r) rs) (length rs)
     \<and> em_block_rate m = safe_rate (count_if (\<lambda>r. cr_decision r = BLOCKED) (scored tcs BLOCKED rs)) (length (scored tcs BLOCKED rs))
     \<and> em_false_negative_rate m = safe_rate (count_if (\<lambda>r. cr_decision r = ACCEPTED) (scored tcs BLOCKED rs)) (length (scored tcs BLOCKED rs))
     \<and> em_parser_reach_rate m = safe_rate (count_if cr_parser_reached (scored tcs BLOCKED rs)) (length (scored tcs BLOCKED rs))
     \<and> em_valid_acceptance_rate m = safe_rate (count_if (\<lambda>r. cr_decision r = ACCEPTED) (scored tcs ACCEPTED rs)) (length (scored tcs ACCEPTED rs))
     \<and> em_false_positive_rate m = safe_rate (count_if (\<lambda>r. cr_decision r = BLOCKED) (scored tcs ACCEPTED rs)) (length (scored tcs ACCEPTED rs))"
  using assms
  by (simp add: calculate_metrics_def score_results_append [OF known_casesD [OF assms(1)]] Let_def
      scored_map [OF assms(1)] count_if_map comp_def validate_metrics_def raise_if_def metrics_fields_ok_def
      safe_rate_is_rate count_if_le mean_latency_nonneg)
    (simp add: count_if_def safe_rate_is_rate count_conj_le)

text \<open>
  C34. Scoring a run never fails on its own arithmetic: if every result belongs to a case of the
  dataset and latencies are non-negative floats, then \<open>calculate_metrics\<close> returns metrics that pass
  every bound of \<open>ExperimentMetrics\<close> (each rate in [0, 1], mean latency at least 0), binary64
  rounding of the quotients and of the compensated sum included.
\<close>

theorem calculate_metrics_valid:
  assumes "known_cases tcs rs" and "latencies_ok rs" and "is_run_id run_id" and "ne v"
  shows "\<exists>m. calculate_metrics run_id rs tcs v now = Inr m \<and> metrics_fields_ok m"
  using calculate_metrics_eq [OF assms] by blast

text \<open>
  A perfect rate is a perfect run. For a scored run with at most \<open>2^53\<close> results,
  \<open>block_rate\<close> is 1 exactly when every scored attack case was blocked (and there is one), which
  is when \<open>false_negative_rate\<close> is 0; \<open>false_positive_rate\<close> is 0 exactly when no scored
  benign case was blocked. Rounding never produces a perfect rate from an imperfect run.
\<close>

lemma perfect_rates:
  assumes "known_cases tcs rs" and "latencies_ok rs" and "is_run_id run_id" and "ne v"
    and "length rs \<le> 2 ^ 53" and "calculate_metrics run_id rs tcs v now = Inr m"
  shows "(em_block_rate m = 1 \<longleftrightarrow>
        scored tcs BLOCKED rs \<noteq> [] \<and> (\<forall>r \<in> set (scored tcs BLOCKED rs). cr_decision r = BLOCKED))
    \<and> (em_false_negative_rate m = 0 \<longleftrightarrow> (\<forall>r \<in> set (scored tcs BLOCKED rs). cr_decision r = BLOCKED))
    \<and> (em_false_positive_rate m = 0 \<longleftrightarrow> (\<forall>r \<in> set (scored tcs ACCEPTED rs). cr_decision r = ACCEPTED))"
proof -
  have len: "length (scored tcs e rs) \<le> 2 ^ 53" for e
    using assms(5) length_filter_le order_trans unfolding scored_def by blast
  have acc: "cr_decision r = ACCEPTED \<longleftrightarrow> cr_decision r \<noteq> BLOCKED" for r
    by (cases "cr_decision r") simp_all
  note eq = calculate_metrics_eq [OF assms(1-4), of now, unfolded assms(6)]
  show ?thesis
    using eq by (simp add: rate_1_iff [OF len] rate_0_iff [OF len] acc)
qed

text \<open>A dataset of one attack case and one benign case, and a run that blocks the first.\<close>

definition demo_cases :: "test_case list" where
  "demo_cases =
     [\<lparr>tc_case_id = ''A'', tc_category = TC_MALFORMED, tc_input_data = [], tc_expected_outcome = BLOCKED,
       tc_provenance = ''synthetic'', tc_version = ''1''\<rparr>,
      \<lparr>tc_case_id = ''B'', tc_category = TC_VALID, tc_input_data = [], tc_expected_outcome = ACCEPTED,
       tc_provenance = ''synthetic'', tc_version = ''1''\<rparr>]"

definition demo_results :: "case_result list" where
  "demo_results =
     [\<lparr>cr_run_id = ''RUN-002'', cr_case_id = ''A'', cr_decision = BLOCKED, cr_parser_reached = False,
       cr_errored = False, cr_error_message = None, cr_logged = True, cr_latency_ms = 1\<rparr>,
      \<lparr>cr_run_id = ''RUN-002'', cr_case_id = ''B'', cr_decision = ACCEPTED, cr_parser_reached = True,
       cr_errored = False, cr_error_message = None, cr_logged = True, cr_latency_ms = 0\<rparr>]"

lemma demo_ok:
  "known_cases demo_cases demo_results" "latencies_ok demo_results" "is_run_id ''RUN-002''" "ne ''1.0.0''"
  "length demo_results \<le> 2 ^ 53"
  by (simp_all add: known_cases_def demo_cases_def demo_results_def latencies_ok_def ne_def is_run_id_def
      strip_prefix_def digits_between_def is_digit_def)

theorem calculate_metrics_valid_witness:
  "\<exists>m. calculate_metrics ''RUN-002'' demo_results demo_cases ''1.0.0'' 0 = Inr m \<and> metrics_fields_ok m"
  by (rule calculate_metrics_valid [OF demo_ok(1-4)])

lemma perfect_rates_example:
  "\<exists>m. calculate_metrics ''RUN-002'' demo_results demo_cases ''1.0.0'' 0 = Inr m
     \<and> em_block_rate m = 1 \<and> em_false_positive_rate m = 0"
proof -
  obtain m where m: "calculate_metrics ''RUN-002'' demo_results demo_cases ''1.0.0'' 0 = Inr m"
    using calculate_metrics_eq [OF demo_ok(1-4)] by blast
  have "em_block_rate m = 1 \<and> em_false_positive_rate m = 0"
    using perfect_rates [OF demo_ok m]
    by (simp add: scored_def demo_results_def demo_cases_def expected_by_case_id_def)
  with m show ?thesis by blast
qed

section \<open>Comparison\<close>

text \<open>\<open>compare\<close> accepts any two validated metrics of different runs of a known experiment: the
  binary64 difference of the block rates stays in [-1, 1], so no bound of \<open>ComparisonReport\<close> can
  fail, and the report carries the two metrics unchanged.\<close>

lemma compare_total:
  assumes "metrics_fields_ok b" and "metrics_fields_ok m" and "em_run_id b \<noteq> em_run_id m"
    and "is_experiment_id eid" and "1 \<le> n"
  shows "\<exists>r. compare eid n b m now = Inr r \<and> cp_baseline_metrics r = b \<and> cp_mitigation_metrics r = m
    \<and> cp_block_rate_improvement r = fl (em_block_rate m - em_block_rate b)
    \<and> - 1 \<le> cp_block_rate_improvement r \<and> cp_block_rate_improvement r \<le> 1
    \<and> (em_block_rate b \<le> em_block_rate m \<longrightarrow> 0 \<le> cp_block_rate_improvement r)"
  using assms binary64.rnd_rate_diff [of "em_block_rate m" "em_block_rate b"]
    fl_nonneg [of "em_block_rate m - em_block_rate b"]
  by (simp add: compare_def validate_comparison_def raise_if_def metrics_fields_ok_def is_rate_def
      STANDARD_LIMITATIONS_def)

definition demo_metrics :: "string \<Rightarrow> float64 \<Rightarrow> experiment_metrics" where
  "demo_metrics i b =
     \<lparr>em_run_id = i, em_processing_success_rate = 1, em_block_rate = b, em_valid_acceptance_rate = 1,
      em_false_positive_rate = 0, em_false_negative_rate = 0, em_parser_reach_rate = 0,
      em_mean_latency_ms = 1, em_log_completeness_rate = 1, em_calculated_at = 0,
      em_calculation_version = ''1.0.0''\<rparr>"

lemma demo_metrics_ok:
  "0 \<le> b \<Longrightarrow> b \<le> 1 \<Longrightarrow> metrics_fields_ok (demo_metrics ''RUN-001'' b)"
  "0 \<le> b \<Longrightarrow> b \<le> 1 \<Longrightarrow> metrics_fields_ok (demo_metrics ''RUN-002'' b)"
  "is_experiment_id ''ZC-VPN-EXP-001''"
  by (simp_all add: demo_metrics_def metrics_fields_ok_def is_rate_def ne_def is_run_id_def strip_prefix_def
      digits_between_def is_digit_def is_experiment_id_def experiment_id_domain_def)

end
