(* ===== verification/Verdict.thy ===== *)
theory Verdict
  imports Metrics
begin

text \<open>
  The verdict engine (\<open>zeroshield.verdict.engine\<close>): a comparison report is judged against
  thresholds. The label, the reasons and the failed criteria are computed branch by branch as the
  code does; the lemmas give the label as a function of the criteria and show that it is monotone in
  the quality of the mitigation.
\<close>

record verdict_thresholds =
  vt_min_total_cases :: int
  vt_min_block_rate_improvement_effective :: float64
  vt_min_block_rate_improvement_partial :: float64
  vt_max_false_positive_rate :: float64
  vt_max_false_negative_rate :: float64
  vt_min_valid_acceptance_rate :: float64
  vt_max_latency_overhead_ms :: float64
  vt_regression_block_rate_drop :: float64

record verdict_result =
  vr_label :: verdict_label
  vr_reasons :: "string list"
  vr_thresholds_used :: "(string \<times> float64) list"
  vr_failed_criteria :: "string list"
  vr_limitations :: "string list"
  vr_generated_at :: datetime

definition DEFAULT_THRESHOLDS :: verdict_thresholds where
  "DEFAULT_THRESHOLDS =
     \<lparr>vt_min_total_cases = 5, vt_min_block_rate_improvement_effective = fl (1 / 2),
      vt_min_block_rate_improvement_partial = fl (1 / 10), vt_max_false_positive_rate = fl (5 / 100),
      vt_max_false_negative_rate = fl (10 / 100), vt_min_valid_acceptance_rate = fl (95 / 100),
      vt_max_latency_overhead_ms = 100, vt_regression_block_rate_drop = 0\<rparr>"

definition verdict_STANDARD_LIMITATIONS :: "string list" where
  "verdict_STANDARD_LIMITATIONS =
     [''Verdict reflects only the cases included in this comparison's dataset version, not general real-world attack traffic.'',
      ''Verdict is deterministic and threshold-based; it is not a certification of production readiness and does not replace manual security review.'']"

definition thresholds_dict :: "verdict_thresholds \<Rightarrow> (string \<times> float64) list" where
  "thresholds_dict t =
     [(''min_total_cases'', fl (of_int (vt_min_total_cases t))),
      (''min_block_rate_improvement_effective'', vt_min_block_rate_improvement_effective t),
      (''min_block_rate_improvement_partial'', vt_min_block_rate_improvement_partial t),
      (''max_false_positive_rate'', vt_max_false_positive_rate t),
      (''max_false_negative_rate'', vt_max_false_negative_rate t),
      (''min_valid_acceptance_rate'', vt_min_valid_acceptance_rate t),
      (''max_latency_overhead_ms'', vt_max_latency_overhead_ms t),
      (''regression_block_rate_drop'', vt_regression_block_rate_drop t)]"

text \<open>The part of \<open>compute_verdict\<close> after the regression check.\<close>

definition criteria_verdict :: "comparison_report \<Rightarrow> verdict_thresholds \<Rightarrow> datetime \<Rightarrow> verdict_result" where
  "criteria_verdict c t now =
     (let m = cp_mitigation_metrics c;
          fp_ok = em_false_positive_rate m \<le> vt_max_false_positive_rate t;
          fn_ok = em_false_negative_rate m \<le> vt_max_false_negative_rate t;
          va_ok = em_valid_acceptance_rate m \<ge> vt_min_valid_acceptance_rate t;
          latency_ok = cp_latency_overhead_ms c \<le> vt_max_latency_overhead_ms t;
          improvement = cp_block_rate_improvement c;
          reasons =
            [''block_rate_improvement='' @ fmt_fixed 3 improvement,
             ''mitigation false_positive_rate='' @ fmt_fixed 3 (em_false_positive_rate m),
             ''mitigation false_negative_rate='' @ fmt_fixed 3 (em_false_negative_rate m),
             ''mitigation valid_acceptance_rate='' @ fmt_fixed 3 (em_valid_acceptance_rate m),
             ''latency_overhead_ms='' @ fmt_fixed 2 (cp_latency_overhead_ms c)];
          failed =
            (if \<not> fp_ok then [''max_false_positive_rate''] else [])
            @ (if \<not> fn_ok then [''max_false_negative_rate''] else [])
            @ (if \<not> va_ok then [''min_valid_acceptance_rate''] else [])
            @ (if \<not> latency_ok then [''max_latency_overhead_ms''] else []);
          result = (\<lambda>label reason failed_criteria.
            \<lparr>vr_label = label, vr_reasons = reason # reasons, vr_thresholds_used = thresholds_dict t,
             vr_failed_criteria = failed_criteria, vr_limitations = verdict_STANDARD_LIMITATIONS,
             vr_generated_at = now\<rparr>)
      in if improvement \<ge> vt_min_block_rate_improvement_effective t \<and> fp_ok \<and> fn_ok \<and> va_ok \<and> latency_ok
         then result EFFECTIVE ''All effectiveness criteria met at the EFFECTIVE thresholds.'' failed
         else if improvement \<ge> vt_min_block_rate_improvement_partial t \<and> va_ok
         then result PARTIALLY_EFFECTIVE
           ''Meaningful improvement observed but one or more EFFECTIVE-level criteria were not met.''
           (if improvement < vt_min_block_rate_improvement_effective t
            then failed @ [''min_block_rate_improvement_effective''] else failed)
         else result INEFFECTIVE ''Improvement did not meet even the PARTIALLY_EFFECTIVE threshold.''
           (if improvement < vt_min_block_rate_improvement_partial t
            then failed @ [''min_block_rate_improvement_partial''] else failed))"

definition compute_verdict :: "comparison_report \<Rightarrow> comparison_report option \<Rightarrow> verdict_thresholds
    \<Rightarrow> datetime \<Rightarrow> verdict_result" where
  "compute_verdict c previous t now =
     (if cp_total_cases c < vt_min_total_cases t
      then \<lparr>vr_label = INCONCLUSIVE,
        vr_reasons = [''Only '' @ str_int (cp_total_cases c)
          @ '' case(s) in this comparison, below the required minimum of ''
          @ str_int (vt_min_total_cases t) @ '' for a trustworthy verdict.''],
        vr_thresholds_used = thresholds_dict t, vr_failed_criteria = [''min_total_cases''],
        vr_limitations = verdict_STANDARD_LIMITATIONS, vr_generated_at = now\<rparr>
      else
        (case previous of
           None \<Rightarrow> criteria_verdict c t now
         | Some p \<Rightarrow>
             let m = cp_mitigation_metrics c;
                 previous_block_rate = em_block_rate (cp_mitigation_metrics p);
                 drop = fl (previous_block_rate - em_block_rate m)
             in if drop > vt_regression_block_rate_drop t
                then \<lparr>vr_label = REGRESSION,
                  vr_reasons = [''Mitigation block_rate regressed from '' @ fmt_fixed 3 previous_block_rate
                    @ '' (previous comparable run) to '' @ fmt_fixed 3 (em_block_rate m) @ '', a drop of ''
                    @ fmt_fixed 3 drop @ '', exceeding the allowed ''
                    @ fmt_fixed 3 (vt_regression_block_rate_drop t) @ ''.''],
                  vr_thresholds_used = thresholds_dict t,
                  vr_failed_criteria = [''regression_block_rate_drop''],
                  vr_limitations = verdict_STANDARD_LIMITATIONS, vr_generated_at = now\<rparr>
                else criteria_verdict c t now))"

section \<open>The label as a function of the criteria\<close>

definition meets_effective :: "comparison_report \<Rightarrow> verdict_thresholds \<Rightarrow> bool" where
  "meets_effective c t \<longleftrightarrow>
     cp_block_rate_improvement c \<ge> vt_min_block_rate_improvement_effective t
     \<and> em_false_positive_rate (cp_mitigation_metrics c) \<le> vt_max_false_positive_rate t
     \<and> em_false_negative_rate (cp_mitigation_metrics c) \<le> vt_max_false_negative_rate t
     \<and> em_valid_acceptance_rate (cp_mitigation_metrics c) \<ge> vt_min_valid_acceptance_rate t
     \<and> cp_latency_overhead_ms c \<le> vt_max_latency_overhead_ms t"

definition meets_partial :: "comparison_report \<Rightarrow> verdict_thresholds \<Rightarrow> bool" where
  "meets_partial c t \<longleftrightarrow>
     cp_block_rate_improvement c \<ge> vt_min_block_rate_improvement_partial t
     \<and> em_valid_acceptance_rate (cp_mitigation_metrics c) \<ge> vt_min_valid_acceptance_rate t"

definition regressed :: "comparison_report \<Rightarrow> comparison_report option \<Rightarrow> verdict_thresholds \<Rightarrow> bool" where
  "regressed c previous t \<longleftrightarrow> (case previous of None \<Rightarrow> False
     | Some p \<Rightarrow> fl (em_block_rate (cp_mitigation_metrics p) - em_block_rate (cp_mitigation_metrics c))
         > vt_regression_block_rate_drop t)"

lemma criteria_label:
  "vr_label (criteria_verdict c t now) =
     (if meets_effective c t then EFFECTIVE else if meets_partial c t then PARTIALLY_EFFECTIVE else INEFFECTIVE)"
  by (simp add: criteria_verdict_def meets_effective_def meets_partial_def Let_def)

lemma criteria_failed:
  "vr_failed_criteria (criteria_verdict c t now) = [] \<longleftrightarrow> meets_effective c t"
  by (auto simp: criteria_verdict_def meets_effective_def Let_def)

lemma verdict_label_eq:
  "vr_label (compute_verdict c prev t now) =
     (if cp_total_cases c < vt_min_total_cases t then INCONCLUSIVE
      else if regressed c prev t then REGRESSION
      else if meets_effective c t then EFFECTIVE
      else if meets_partial c t then PARTIALLY_EFFECTIVE
      else INEFFECTIVE)"
  by (simp add: compute_verdict_def regressed_def criteria_label Let_def split: option.splits)

text \<open>
  The verdict explains itself: whatever the thresholds and the previous run, \<open>failed_criteria\<close>
  is empty exactly when the label is EFFECTIVE, and the label is EFFECTIVE exactly when there are
  enough cases, the block rate did not regress and every one of the five criteria holds.
\<close>

theorem verdict_effective_iff:
  "(vr_failed_criteria (compute_verdict c prev t now) = [] \<longleftrightarrow> vr_label (compute_verdict c prev t now) = EFFECTIVE)
   \<and> (vr_label (compute_verdict c prev t now) = EFFECTIVE \<longleftrightarrow>
        vt_min_total_cases t \<le> cp_total_cases c \<and> \<not> regressed c prev t \<and> meets_effective c t)"
proof
  show "vr_failed_criteria (compute_verdict c prev t now) = [] \<longleftrightarrow> vr_label (compute_verdict c prev t now) = EFFECTIVE"
    by (simp add: compute_verdict_def criteria_label criteria_failed Let_def split: option.split)
  show "vr_label (compute_verdict c prev t now) = EFFECTIVE \<longleftrightarrow>
        vt_min_total_cases t \<le> cp_total_cases c \<and> \<not> regressed c prev t \<and> meets_effective c t"
    by (simp add: verdict_label_eq not_less)
qed

text \<open>The quality of a verdict, and when one report is at least as good as another.\<close>

fun label_rank :: "verdict_label \<Rightarrow> nat" where
  "label_rank INCONCLUSIVE = 0"
| "label_rank REGRESSION = 1"
| "label_rank INEFFECTIVE = 2"
| "label_rank PARTIALLY_EFFECTIVE = 3"
| "label_rank EFFECTIVE = 4"

definition at_least_as_good :: "comparison_report \<Rightarrow> comparison_report \<Rightarrow> bool" where
  "at_least_as_good c' c \<longleftrightarrow>
     cp_total_cases c \<le> cp_total_cases c'
     \<and> cp_block_rate_improvement c \<le> cp_block_rate_improvement c'
     \<and> em_block_rate (cp_mitigation_metrics c) \<le> em_block_rate (cp_mitigation_metrics c')
     \<and> em_false_positive_rate (cp_mitigation_metrics c') \<le> em_false_positive_rate (cp_mitigation_metrics c)
     \<and> em_false_negative_rate (cp_mitigation_metrics c') \<le> em_false_negative_rate (cp_mitigation_metrics c)
     \<and> em_valid_acceptance_rate (cp_mitigation_metrics c) \<le> em_valid_acceptance_rate (cp_mitigation_metrics c')
     \<and> cp_latency_overhead_ms c' \<le> cp_latency_overhead_ms c"

lemma at_least_as_good_criteria:
  assumes "at_least_as_good c' c"
  shows "meets_effective c t \<Longrightarrow> meets_effective c' t" and "meets_partial c t \<Longrightarrow> meets_partial c' t"
    and "regressed c' prev t \<Longrightarrow> regressed c prev t"
proof -
  show "meets_effective c t \<Longrightarrow> meets_effective c' t" "meets_partial c t \<Longrightarrow> meets_partial c' t"
    using assms by (auto simp: at_least_as_good_def meets_effective_def meets_partial_def)
  show "regressed c prev t" if "regressed c' prev t"
  proof (cases prev)
    case (Some p)
    have "fl (em_block_rate (cp_mitigation_metrics p) - em_block_rate (cp_mitigation_metrics c'))
        \<le> fl (em_block_rate (cp_mitigation_metrics p) - em_block_rate (cp_mitigation_metrics c))"
      using assms by (intro fl_mono) (simp add: at_least_as_good_def)
    with Some that show ?thesis by (simp add: regressed_def)
  qed (use that in \<open>simp add: regressed_def\<close>)
qed

text \<open>
  C35. The verdict is monotone: against the same previous run and the same thresholds, a report that
  is at least as good in every measured respect never receives a worse label.
\<close>

theorem verdict_monotone:
  assumes "at_least_as_good c' c"
  shows "label_rank (vr_label (compute_verdict c prev t now)) \<le> label_rank (vr_label (compute_verdict c' prev t now'))"
proof -
  have "cp_total_cases c \<le> cp_total_cases c'" using assms by (simp add: at_least_as_good_def)
  then show ?thesis
    using at_least_as_good_criteria(1,2) [OF assms, of t] at_least_as_good_criteria(3) [OF assms, of prev t]
    by (auto simp: verdict_label_eq)
qed

definition demo_report :: "float64 \<Rightarrow> float64 \<Rightarrow> comparison_report" where
  "demo_report b m =
     \<lparr>cp_experiment_id = ''ZC-VPN-EXP-001'', cp_baseline_run_id = ''RUN-001'', cp_mitigation_run_id = ''RUN-002'',
      cp_total_cases = 10, cp_baseline_metrics = demo_metrics ''RUN-001'' b,
      cp_mitigation_metrics = demo_metrics ''RUN-002'' m, cp_block_rate_improvement = fl (m - b),
      cp_latency_overhead_ms = 0, cp_limitations = STANDARD_LIMITATIONS, cp_generated_at = 0\<rparr>"

theorem verdict_monotone_witness:
  "label_rank (vr_label (compute_verdict (demo_report 0 0) None DEFAULT_THRESHOLDS 0))
     \<le> label_rank (vr_label (compute_verdict (demo_report 0 1) None DEFAULT_THRESHOLDS 0))"
  by (rule verdict_monotone) (simp add: at_least_as_good_def demo_report_def demo_metrics_def)

end
