(* ===== verification/Safety_Policy.thy ===== *)
theory Safety_Policy
  imports Domain_Models
begin

text \<open>
  The safety policy (\<open>zeroshield.policies\<close>): the four SAFE rules, each a check of an
  experiment in an execution context that returns whether it passed and the reason if it did not,
  and \<open>SafetyPolicy.evaluate\<close>, which runs them all. The interface that the runner relies on is
  the locale \<open>safety_gate\<close>: a decision that allows the run means that every rule passed.
\<close>

type_synonym rule_check = "experiment_definition \<Rightarrow> execution_context \<Rightarrow> bool \<times> string option"

definition check_safe_001_external_targeting :: rule_check where
  "check_safe_001_external_targeting e ctx =
     (if ed_external_targeting e
      then (False, Some ''SAFE-001: external_targeting must be false; no documented-authorisation mechanism exists in Phase 1.'')
      else (True, None))"

definition check_safe_002_input_classification :: rule_check where
  "check_safe_002_input_classification e ctx =
     (if ed_safety_level e = SYNTHETIC_ONLY \<and> ed_input_classification e \<noteq> SYNTHETIC
      then (False, Some (''SAFE-002: safety_level 'SYNTHETIC_ONLY' requires input_classification 'synthetic', got ''
             @ quoted (input_classification_value (ed_input_classification e)) @ ''.''))
      else (True, None))"

definition check_safe_003_weaponised_payloads :: rule_check where
  "check_safe_003_weaponised_payloads e ctx =
     (if ed_weaponised_payloads e
      then (False, Some ''SAFE-003: weaponised_payloads must be false for Phase 1.'')
      else (True, None))"

definition check_safe_004_approval_status :: rule_check where
  "check_safe_004_approval_status e ctx =
     (if ctx = LOCAL_UNIT_TEST then (True, None)
      else if ed_approval_status e \<noteq> AS_APPROVED
      then (False, Some (''SAFE-004: experiment must be approved before execution outside local unit tests (current status: ''
             @ quoted (approval_status_value (ed_approval_status e)) @ '').''))
      else (True, None))"

definition safe_rules :: "(string \<times> rule_check) list" where
  "safe_rules =
     [(''SAFE-001'', check_safe_001_external_targeting),
      (''SAFE-002'', check_safe_002_input_classification),
      (''SAFE-003'', check_safe_003_weaponised_payloads),
      (''SAFE-004'', check_safe_004_approval_status)]"

definition POLICY_VERSION :: string where
  "POLICY_VERSION = ''1.0.0''"

text \<open>The loop of \<open>evaluate\<close> over the rules, with the two accumulators it fills.\<close>

fun run_rules :: "(string \<times> rule_check) list \<Rightarrow> experiment_definition \<Rightarrow> execution_context
    \<Rightarrow> (string \<times> bool) list \<Rightarrow> string list \<Rightarrow> (string \<times> bool) list \<times> string list" where
  "run_rules [] e ctx results reasons = (results, reasons)"
| "run_rules ((rule_id, check) # rest) e ctx results reasons =
     (case check e ctx of (passed, reason) \<Rightarrow>
        run_rules rest e ctx (results @ [(rule_id, passed)])
          (case reason of Some why \<Rightarrow> if \<not> passed then reasons @ [why] else reasons | None \<Rightarrow> reasons))"

text \<open>\<open>SafetyPolicy.evaluate\<close>; \<open>now\<close> is the reading of the clock.\<close>

definition evaluate :: "experiment_definition \<Rightarrow> execution_context \<Rightarrow> datetime \<Rightarrow> exn + policy_decision" where
  "evaluate e ctx now =
     (case run_rules safe_rules e ctx [] [] of (rule_results, reasons) \<Rightarrow>
        validate_policy_decision
          \<lparr>pd_allowed = list_all snd rule_results, pd_evaluated_at = now, pd_rule_results = rule_results,
           pd_reasons = reasons, pd_policy_version = POLICY_VERSION\<rparr>)"

lemmas rule_defs [guard_defs] =
  check_safe_001_external_targeting_def check_safe_002_input_classification_def
  check_safe_003_weaponised_payloads_def check_safe_004_approval_status_def

text \<open>What the four rules ask of an experiment in a context.\<close>

definition safe_to_run :: "experiment_definition \<Rightarrow> execution_context \<Rightarrow> bool" where
  "safe_to_run e ctx \<longleftrightarrow> \<not> ed_external_targeting e \<and> ed_input_classification e = SYNTHETIC
     \<and> \<not> ed_weaponised_payloads e \<and> (ctx = LOCAL_UNIT_TEST \<or> ed_approval_status e = AS_APPROVED)"

lemma safety_level_only: "l = SYNTHETIC_ONLY"
  by (cases l) simp

lemma run_rules_safe:
  "run_rules safe_rules e ctx [] [] =
     ([(''SAFE-001'', \<not> ed_external_targeting e),
       (''SAFE-002'', ed_input_classification e = SYNTHETIC),
       (''SAFE-003'', \<not> ed_weaponised_payloads e),
       (''SAFE-004'', ctx = LOCAL_UNIT_TEST \<or> ed_approval_status e = AS_APPROVED)],
      concat (map (\<lambda>(_, check). case check e ctx of (True, _) \<Rightarrow> [] | (False, None) \<Rightarrow> [] | (False, Some why) \<Rightarrow> [why])
        safe_rules))"
  using safety_level_only [of "ed_safety_level e"]
  by (simp add: safe_rules_def rule_defs)

lemma rule_ids_ok:
  "is_safety_rule_id ''SAFE-001''" "is_safety_rule_id ''SAFE-002''"
  "is_safety_rule_id ''SAFE-003''" "is_safety_rule_id ''SAFE-004''"
  by (simp_all add: is_safety_rule_id_def strip_prefix_def digits_between_def is_digit_def)

text \<open>
  The decision is never a validation error: the reasons are there exactly when a rule failed, so
  the validators of \<open>PolicyDecision\<close> pass.
\<close>

lemma evaluate_total:
  "\<exists>d. evaluate e ctx now = Inr d \<and> pd_allowed d = safe_to_run e ctx \<and> pd_evaluated_at d = now
     \<and> map fst (pd_rule_results d) = map fst safe_rules
     \<and> length (pd_reasons d) = length (filter (\<lambda>p. \<not> snd p) (pd_rule_results d))"
  using safety_level_only [of "ed_safety_level e"]
  by (auto simp: evaluate_def validate_policy_decision_def safe_rules_def rule_defs POLICY_VERSION_def ne_def
      rule_ids_ok safe_to_run_def raise_if_def Let_def)

section \<open>The gate as an interface\<close>

text \<open>
  A runner relies on a gate that decides, for an experiment and a context, and whose approval
  implies the safety conditions.
\<close>

locale safety_gate =
  fixes decide :: "experiment_definition \<Rightarrow> execution_context \<Rightarrow> datetime \<Rightarrow> exn + policy_decision"
    and safe :: "experiment_definition \<Rightarrow> execution_context \<Rightarrow> bool"
  assumes decides: "\<exists>d. decide e ctx now = Inr d"
    and allowed_iff: "decide e ctx now = Inr d \<Longrightarrow> pd_allowed d \<longleftrightarrow> safe e ctx"
    and refused_reasons: "decide e ctx now = Inr d \<Longrightarrow> \<not> pd_allowed d \<Longrightarrow> pd_reasons d \<noteq> []"
begin

lemma decision_time_independent:
  "decide e ctx t = Inr d \<Longrightarrow> decide e ctx t' = Inr d' \<Longrightarrow> pd_allowed d = pd_allowed d'"
  by (simp add: allowed_iff)

lemma unsafe_refused: "\<not> safe e ctx \<Longrightarrow> \<exists>d. decide e ctx now = Inr d \<and> \<not> pd_allowed d \<and> pd_reasons d \<noteq> []"
  using decides [of e ctx now] allowed_iff refused_reasons by blast

end

lemma policy_reasons:
  assumes "evaluate e ctx now = Inr d" and "\<not> pd_allowed d"
  shows "pd_reasons d \<noteq> []"
  using assms by (auto simp: evaluate_def validate_policy_decision_def res_simps Let_def split: prod.splits)

interpretation policy: safety_gate evaluate safe_to_run
proof unfold_locales
  show "\<exists>d. evaluate e ctx now = Inr d" for e ctx now
    using evaluate_total [of e ctx now] by blast
  show "pd_allowed d \<longleftrightarrow> safe_to_run e ctx" if "evaluate e ctx now = Inr d" for e ctx now d
    using evaluate_total [of e ctx now] that by auto
  show "pd_reasons d \<noteq> []" if "evaluate e ctx now = Inr d" "\<not> pd_allowed d" for e ctx now d
    using that by (rule policy_reasons)
qed

text \<open>
  C6. The policy decides every experiment in every context, never fails, and allows exactly the
  experiments that target nothing external, use synthetic input, carry no weaponised payload and, outside
  local unit tests, are approved; each of the four rules is reported, and there is one reason per failed
  rule.
\<close>

theorem policy_allows_exactly_safe:
  "\<exists>d. evaluate e ctx now = Inr d \<and> (pd_allowed d \<longleftrightarrow> safe_to_run e ctx)
     \<and> map fst (pd_rule_results d) = [''SAFE-001'', ''SAFE-002'', ''SAFE-003'', ''SAFE-004'']
     \<and> length (pd_reasons d) = length (filter (\<lambda>p. \<not> snd p) (pd_rule_results d))"
  using evaluate_total [of e ctx now] by (auto simp: safe_rules_def)

end
