(* ===== verification/Strategies.thy ===== *)
theory Strategies
  imports Domain_Models
begin

text \<open>
  The processing strategies (\<open>zeroshield.strategies\<close>): for each domain a deliberately weak
  baseline and a strict mitigation, each a function from the request (a dictionary read from JSON) to
  an outcome, and the registry that resolves an identifier. A strategy may raise: testing an
  unhashable value for membership in a set is a \<open>TypeError\<close>. Names follow the source, with
  the domain as prefix.
\<close>

record strategy_outcome =
  so_decision :: decision
  so_parser_reached :: bool
  so_logged :: bool
  so_errored :: bool
  so_error_message :: "string option"

text \<open>An exception as the runner looks at it: the name of its class and \<open>str(exc)\<close>.\<close>

datatype py_exc = PyExc (exc_class: string) (exc_str: string)

record strategy =
  st_strategy_id :: string
  st_process :: "pydict \<Rightarrow> py_exc + strategy_outcome"

definition outcome_check :: "strategy_outcome \<Rightarrow> bool" where
  "outcome_check out \<longleftrightarrow>
     \<not> (so_errored out \<and> (so_error_message out = None \<or> so_error_message out = Some []))
     \<and> \<not> (\<not> so_errored out \<and> so_error_message out \<noteq> None)"

definition outcome :: "decision \<Rightarrow> bool \<Rightarrow> bool \<Rightarrow> strategy_outcome" where
  "outcome d reached logged =
     \<lparr>so_decision = d, so_parser_reached = reached, so_logged = logged, so_errored = False,
      so_error_message = None\<rparr>"

section \<open>Sets of Python values\<close>

definition hash_ok :: "pyval \<Rightarrow> py_exc + unit" where
  "hash_ok v = (case unhashable v of
     None \<Rightarrow> Inr ()
   | Some ty \<Rightarrow> Inl (PyExc ''TypeError'' (''unhashable type: '' @ quoted ty)))"

definition as_list :: "pyval \<Rightarrow> pyval list" where
  "as_list v = (case v of PList vs \<Rightarrow> vs | _ \<Rightarrow> [])"

text \<open>\<open>[pair[0] for pair in headers if isinstance(pair, list | tuple) and len(pair) == 2]\<close>.\<close>

definition pair_keys :: "pyval list \<Rightarrow> pyval list" where
  "pair_keys vs = map fst (List.map_filter as_pair vs)"

text \<open>\<open>value in {...}\<close> for a set of strings.\<close>

definition in_str_set :: "pyval \<Rightarrow> string list \<Rightarrow> py_exc + bool" where
  "in_str_set v ss = bindS (hash_ok v) (\<lambda>_. Inr (list_ex (\<lambda>s. py_eq v (PStr s)) ss))"

definition has_long_value :: "nat \<Rightarrow> pyval list \<Rightarrow> bool" where
  "has_long_value n vs \<longleftrightarrow>
     list_ex (\<lambda>v. case as_pair v of None \<Rightarrow> False | Some (_, w) \<Rightarrow> n < length (py_str w)) vs"

definition has_duplicate_keys :: "pyval list \<Rightarrow> py_exc + bool" where
  "has_duplicate_keys vs =
     (let keys = pair_keys vs in
      bindS (mapS hash_ok keys) (\<lambda>_. Inr (\<not> distinct (map canon keys))))"

text \<open>\<open>a or b\<close> where evaluating either may raise.\<close>

definition orS :: "'e + bool \<Rightarrow> 'e + bool \<Rightarrow> 'e + bool" where
  "orS a b = bindS a (\<lambda>x. if x then Inr True else b)"

lemma orS_False [simp]: "orS a b = Inr False \<longleftrightarrow> a = Inr False \<and> b = Inr False"
  by (auto simp: orS_def res_simps split: if_splits)

lemma hash_ok_PStr [simp]: "hash_ok (PStr s) = Inr ()"
  by (simp add: hash_ok_def)

lemma hash_ok_iff: "hash_ok v = Inr u \<longleftrightarrow> unhashable v = None"
  by (simp add: hash_ok_def split: option.splits)

lemma mapS_hash_ok: "mapS hash_ok vs = Inr us \<Longrightarrow> list_all (\<lambda>v. unhashable v = None) vs"
  by (induction vs arbitrary: us) (auto simp: res_simps hash_ok_iff)

lemma mapS_hash_ok_iff: "(\<exists>us. mapS hash_ok vs = Inr us) \<longleftrightarrow> list_all (\<lambda>v. unhashable v = None) vs"
proof
  assume "list_all (\<lambda>v. unhashable v = None) vs"
  then show "\<exists>us. mapS hash_ok vs = Inr us"
    by (induction vs) (auto simp: hash_ok_def)
qed (auto dest: mapS_hash_ok)

lemma in_str_set_eq: "in_str_set v ss = Inr b \<longleftrightarrow> unhashable v = None \<and> b = (\<exists>s \<in> set ss. v = PStr s)"
  by (auto simp: in_str_set_def res_simps hash_ok_iff list_ex_iff)

lemma in_str_set_True: "in_str_set v ss = Inr True \<longleftrightarrow> (\<exists>s \<in> set ss. v = PStr s)"
  by (auto simp: in_str_set_eq)

section \<open>VPN\<close>

definition vpn_MAX_PATH_LENGTH :: nat where "vpn_MAX_PATH_LENGTH = 256"
definition vpn_MAX_BODY_LENGTH :: int where "vpn_MAX_BODY_LENGTH = 8192"
definition vpn_MAX_HEADER_VALUE_LENGTH :: nat where "vpn_MAX_HEADER_VALUE_LENGTH = 512"
definition vpn_MAX_QUERY_PARAM_VALUE_LENGTH :: nat where "vpn_MAX_QUERY_PARAM_VALUE_LENGTH = 512"
definition vpn_ALLOWED_ENCODINGS :: "string list" where "vpn_ALLOWED_ENCODINGS = [''utf-8'', ''ascii'']"
definition vpn_PATH_TRAVERSAL_MARKERS :: "string list" where
  "vpn_PATH_TRAVERSAL_MARKERS = [''..'', ''%2e%2e'', ''%00'']"

definition vpn_weak_process :: "pydict \<Rightarrow> py_exc + strategy_outcome" where
  "vpn_weak_process d =
     (case as_str (dict_get d ''method'') of
        None \<Rightarrow> Inr (outcome BLOCKED False False)
      | Some m \<Rightarrow>
         if m = [] then Inr (outcome BLOCKED False False)
         else (case as_str (dict_get d ''path'') of
            None \<Rightarrow> Inr (outcome BLOCKED False False)
          | Some p \<Rightarrow> if p = [] then Inr (outcome BLOCKED False False)
              else Inr (outcome ACCEPTED True False)))"

definition vpn_fails_schema_check :: "pydict \<Rightarrow> bool" where
  "vpn_fails_schema_check d =
     (case as_str (dict_get d ''method'') of
        None \<Rightarrow> True
      | Some m \<Rightarrow> if m = [] then True
          else (case as_str (dict_get d ''path'') of None \<Rightarrow> True | Some p \<Rightarrow> p = []))"

definition vpn_fails_length_checks :: "pydict \<Rightarrow> bool" where
  "vpn_fails_length_checks d =
     (if (case as_str (dict_get d ''path'') of None \<Rightarrow> False | Some p \<Rightarrow> vpn_MAX_PATH_LENGTH < length p) then True
      else
        let declared = dict_get d ''declared_content_length''; actual = dict_get d ''actual_body_length'' in
        if (case as_int declared of None \<Rightarrow> True | Some n \<Rightarrow> n < 0 \<or> vpn_MAX_BODY_LENGTH < n) then True
        else if \<not> py_eq declared actual then True
        else if has_long_value vpn_MAX_HEADER_VALUE_LENGTH (as_list (dict_get d ''headers'')) then True
        else (case dict_get_default d ''query_params'' (PDict []) of
            PDict q \<Rightarrow> list_ex (\<lambda>(_, v). vpn_MAX_QUERY_PARAM_VALUE_LENGTH < length (py_str v)) q
          | _ \<Rightarrow> False))"

definition vpn_fails_duplicate_field_check :: "pydict \<Rightarrow> py_exc + bool" where
  "vpn_fails_duplicate_field_check d = has_duplicate_keys (as_list (dict_get d ''headers''))"

definition vpn_fails_type_check :: "pydict \<Rightarrow> py_exc + bool" where
  "vpn_fails_type_check d =
     bindS (in_str_set (dict_get d ''encoding'') vpn_ALLOWED_ENCODINGS) (\<lambda>b. Inr (\<not> b))"

definition vpn_fails_path_canonicalisation_check :: "pydict \<Rightarrow> bool" where
  "vpn_fails_path_canonicalisation_check d =
     (let lowered = str_lower (py_str (dict_get_default d ''path'' (PStr [])))
      in list_ex (\<lambda>marker. str_contains marker lowered) vpn_PATH_TRAVERSAL_MARKERS)"

definition vpn_is_malformed :: "pydict \<Rightarrow> py_exc + bool" where
  "vpn_is_malformed d =
     orS (Inr (vpn_fails_schema_check d))
      (orS (Inr (vpn_fails_length_checks d))
        (orS (vpn_fails_duplicate_field_check d)
          (orS (vpn_fails_type_check d) (Inr (vpn_fails_path_canonicalisation_check d)))))"

definition vpn_strict_process :: "pydict \<Rightarrow> py_exc + strategy_outcome" where
  "vpn_strict_process d =
     bindS (vpn_is_malformed d) (\<lambda>bad.
       if bad then Inr (outcome BLOCKED False True) else Inr (outcome ACCEPTED True False))"

section \<open>Telecom\<close>

definition tel_MAX_SDP_ATTR_VALUE_LENGTH :: nat where "tel_MAX_SDP_ATTR_VALUE_LENGTH = 256"
definition tel_MAX_BODY_LENGTH :: int where "tel_MAX_BODY_LENGTH = 4096"
definition tel_MANDATORY_HEADERS :: "string list" where "tel_MANDATORY_HEADERS = [''Call-ID'', ''From'', ''To'']"
definition tel_LEGAL_TRANSITIONS :: "(string \<times> string) list" where
  "tel_LEGAL_TRANSITIONS = [(''INIT'', ''INVITE''), (''RINGING'', ''ACK''), (''ESTABLISHED'', ''BYE'')]"
definition tel_KNOWN_METHODS :: "string list" where "tel_KNOWN_METHODS = [''INVITE'', ''ACK'', ''BYE'']"
definition tel_KNOWN_STATES :: "string list" where
  "tel_KNOWN_STATES = [''INIT'', ''RINGING'', ''ESTABLISHED'', ''TERMINATED'']"

definition tel_weak_process :: "pydict \<Rightarrow> py_exc + strategy_outcome" where
  "tel_weak_process d =
     (case as_str (dict_get d ''method'') of
        None \<Rightarrow> Inr (outcome BLOCKED False False)
      | Some m \<Rightarrow>
         if m \<notin> set tel_KNOWN_METHODS then Inr (outcome BLOCKED False False)
         else (case dict_get d ''headers'' of
            PList hs \<Rightarrow>
              if hs = [] then Inr (outcome BLOCKED False False)
              else (case as_str (dict_get d ''session_state'') of
                 None \<Rightarrow> Inr (outcome BLOCKED False False)
               | Some st \<Rightarrow> if st \<notin> set tel_KNOWN_STATES then Inr (outcome BLOCKED False False)
                   else Inr (outcome ACCEPTED True False))
          | _ \<Rightarrow> Inr (outcome BLOCKED False False)))"

definition tel_fails_mandatory_field_check :: "pydict \<Rightarrow> py_exc + bool" where
  "tel_fails_mandatory_field_check d =
     (let keys = pair_keys (as_list (dict_get d ''headers'')) in
      bindS (mapS hash_ok keys) (\<lambda>_.
        Inr (\<not> list_all (\<lambda>name. list_ex (py_eq (PStr name)) keys) tel_MANDATORY_HEADERS)))"

definition tel_fails_duplicate_header_check :: "pydict \<Rightarrow> py_exc + bool" where
  "tel_fails_duplicate_header_check d = has_duplicate_keys (as_list (dict_get d ''headers''))"

definition tel_fails_size_limit_checks :: "pydict \<Rightarrow> bool" where
  "tel_fails_size_limit_checks d =
     (let declared = dict_get d ''declared_body_length''; actual = dict_get d ''actual_body_length'' in
      if (case as_int declared of None \<Rightarrow> True | Some n \<Rightarrow> n < 0 \<or> tel_MAX_BODY_LENGTH < n) then True
      else if \<not> py_eq declared actual then True
      else has_long_value tel_MAX_SDP_ATTR_VALUE_LENGTH (as_list (dict_get d ''sdp_attributes'')))"

definition tel_fails_sequence_validation :: "pydict \<Rightarrow> bool" where
  "tel_fails_sequence_validation d =
     (\<not> py_eq (dict_get d ''sequence_number'') (dict_get d ''expected_sequence_number''))"

definition tel_fails_state_machine_check :: "pydict \<Rightarrow> py_exc + bool" where
  "tel_fails_state_machine_check d =
     (let key = PTuple [dict_get d ''session_state'', dict_get d ''method''] in
      bindS (hash_ok key) (\<lambda>_.
        Inr (\<not> list_ex (\<lambda>(s, m). py_eq key (PTuple [PStr s, PStr m])) tel_LEGAL_TRANSITIONS)))"

definition tel_is_malformed :: "pydict \<Rightarrow> py_exc + bool" where
  "tel_is_malformed d =
     orS (tel_fails_mandatory_field_check d)
      (orS (tel_fails_duplicate_header_check d)
        (orS (Inr (tel_fails_size_limit_checks d))
          (orS (Inr (tel_fails_sequence_validation d)) (tel_fails_state_machine_check d))))"

definition tel_strict_process :: "pydict \<Rightarrow> py_exc + strategy_outcome" where
  "tel_strict_process d =
     bindS (tel_is_malformed d) (\<lambda>bad.
       if bad then Inr (outcome BLOCKED False True) else Inr (outcome ACCEPTED True False))"

section \<open>The registry\<close>

definition WeakSchemaLengthBaseline :: strategy where
  "WeakSchemaLengthBaseline =
     \<lparr>st_strategy_id = ''weak_schema_length_baseline'', st_process = vpn_weak_process\<rparr>"

definition StrictSchemaCanonicalisationMitigation :: strategy where
  "StrictSchemaCanonicalisationMitigation =
     \<lparr>st_strategy_id = ''strict_schema_canonicalisation_mitigation'', st_process = vpn_strict_process\<rparr>"

definition WeakMandatoryFieldStateBaseline :: strategy where
  "WeakMandatoryFieldStateBaseline =
     \<lparr>st_strategy_id = ''weak_mandatory_field_state_baseline'', st_process = tel_weak_process\<rparr>"

definition StrictGrammarStateMachineMitigation :: strategy where
  "StrictGrammarStateMachineMitigation =
     \<lparr>st_strategy_id = ''strict_grammar_state_machine_mitigation'', st_process = tel_strict_process\<rparr>"

definition strategy_registry :: "strategy list" where
  "strategy_registry =
     [WeakSchemaLengthBaseline, StrictSchemaCanonicalisationMitigation,
      WeakMandatoryFieldStateBaseline, StrictGrammarStateMachineMitigation]"

definition known_strategy_ids :: "string list" where
  "known_strategy_ids = sort (map st_strategy_id strategy_registry)"

definition resolve_strategy :: "string \<Rightarrow> exn + strategy" where
  "resolve_strategy strategy_id =
     (case tbl_get st_strategy_id strategy_id strategy_registry of
        Some s \<Rightarrow> Inr s
      | None \<Rightarrow> Inl (UnknownStrategyError
          (''no registered strategy for identifier '' @ quoted strategy_id @ ''; known identifiers: ''
           @ repr_str_list known_strategy_ids)))"

section \<open>What the strategies guarantee\<close>

text \<open>
  The contract of a strategy that the runner and the metrics rely on: an outcome is well formed,
  reports no error of its own, and the parser is reached exactly when the request is accepted.
\<close>

locale processing_strategy =
  fixes process :: "pydict \<Rightarrow> py_exc + strategy_outcome"
  assumes outcome_clean: "process d = Inr out \<Longrightarrow> \<not> so_errored out \<and> so_error_message out = None"
    and reached_iff: "process d = Inr out \<Longrightarrow> so_parser_reached out \<longleftrightarrow> so_decision out = ACCEPTED"
begin

lemma outcome_checked: "process d = Inr out \<Longrightarrow> outcome_check out"
  using outcome_clean by (simp add: outcome_check_def)

lemma blocked_not_reached: "process d = Inr out \<Longrightarrow> so_decision out = BLOCKED \<Longrightarrow> \<not> so_parser_reached out"
  using reached_iff by auto

end

lemma outcome_sel [simp]:
  "so_decision (outcome d r l) = d" "so_parser_reached (outcome d r l) = r" "so_logged (outcome d r l) = l"
  "so_errored (outcome d r l) = False" "so_error_message (outcome d r l) = None"
  by (simp_all add: outcome_def)

lemma as_str_eq_Some [simp]: "as_str v = Some s \<longleftrightarrow> v = PStr s"
  by (cases v) auto

lemma as_str_eq_None: "as_str v = None \<longleftrightarrow> (\<forall>s. v \<noteq> PStr s)"
  by (cases v) auto

lemma vpn_weak_process_eq:
  "vpn_weak_process d =
     (if \<exists>m p. dict_get d ''method'' = PStr m \<and> m \<noteq> [] \<and> dict_get d ''path'' = PStr p \<and> p \<noteq> []
      then Inr (outcome ACCEPTED True False) else Inr (outcome BLOCKED False False))"
  by (auto simp: vpn_weak_process_def as_str_eq_None split: option.splits)

lemma tel_weak_process_eq:
  "tel_weak_process d =
     (if \<exists>m hs st. dict_get d ''method'' = PStr m \<and> m \<in> set tel_KNOWN_METHODS \<and>
           dict_get d ''headers'' = PList hs \<and> hs \<noteq> [] \<and>
           dict_get d ''session_state'' = PStr st \<and> st \<in> set tel_KNOWN_STATES
      then Inr (outcome ACCEPTED True False) else Inr (outcome BLOCKED False False))"
  by (auto simp: tel_weak_process_def as_str_eq_None split: option.splits pyval.splits)

lemma vpn_strict_process_cases:
  "vpn_strict_process d = Inr out \<Longrightarrow>
     vpn_is_malformed d = Inr True \<and> out = outcome BLOCKED False True
   \<or> vpn_is_malformed d = Inr False \<and> out = outcome ACCEPTED True False"
  by (auto simp: vpn_strict_process_def res_simps split: if_splits)

lemma tel_strict_process_cases:
  "tel_strict_process d = Inr out \<Longrightarrow>
     tel_is_malformed d = Inr True \<and> out = outcome BLOCKED False True
   \<or> tel_is_malformed d = Inr False \<and> out = outcome ACCEPTED True False"
  by (auto simp: tel_strict_process_def res_simps split: if_splits)

interpretation vpn_weak: processing_strategy vpn_weak_process
  by unfold_locales (auto simp: vpn_weak_process_eq split: if_splits)

interpretation tel_weak: processing_strategy tel_weak_process
  by unfold_locales (auto simp: tel_weak_process_eq split: if_splits)

interpretation vpn_strict: processing_strategy vpn_strict_process
  by unfold_locales (auto dest!: vpn_strict_process_cases)

interpretation tel_strict: processing_strategy tel_strict_process
  by unfold_locales (auto dest!: tel_strict_process_cases)

lemma has_duplicate_keys_False:
  "has_duplicate_keys vs = Inr False \<longleftrightarrow>
     list_all (\<lambda>v. unhashable v = None) (pair_keys vs) \<and> distinct (map canon (pair_keys vs))"
  using mapS_hash_ok_iff [of "pair_keys vs"]
  by (auto simp: has_duplicate_keys_def res_simps Let_def)

text \<open>What a well-formed VPN request is, independently of the order of the checks.\<close>

definition vpn_well_formed :: "pydict \<Rightarrow> bool" where
  "vpn_well_formed d \<longleftrightarrow>
     (\<exists>m p n. dict_get d ''method'' = PStr m \<and> m \<noteq> []
        \<and> dict_get d ''path'' = PStr p \<and> p \<noteq> [] \<and> length p \<le> 256
        \<and> (\<forall>marker \<in> {''..'', ''%2e%2e'', ''%00''}. \<not> sublist marker (str_lower p))
        \<and> as_int (dict_get d ''declared_content_length'') = Some n \<and> 0 \<le> n \<and> n \<le> 8192)
     \<and> py_eq (dict_get d ''declared_content_length'') (dict_get d ''actual_body_length'')
     \<and> \<not> has_long_value 512 (as_list (dict_get d ''headers''))
     \<and> (\<forall>q. dict_get_default d ''query_params'' (PDict []) = PDict q \<longrightarrow> (\<forall>(_, v) \<in> set q. length (py_str v) \<le> 512))
     \<and> list_all (\<lambda>v. unhashable v = None) (pair_keys (as_list (dict_get d ''headers'')))
     \<and> distinct (map canon (pair_keys (as_list (dict_get d ''headers''))))
     \<and> dict_get d ''encoding'' \<in> {PStr ''utf-8'', PStr ''ascii''}"

lemmas vpn_consts =
  vpn_MAX_PATH_LENGTH_def vpn_MAX_BODY_LENGTH_def vpn_MAX_HEADER_VALUE_LENGTH_def
  vpn_MAX_QUERY_PARAM_VALUE_LENGTH_def vpn_ALLOWED_ENCODINGS_def vpn_PATH_TRAVERSAL_MARKERS_def

lemmas tel_consts =
  tel_MAX_SDP_ATTR_VALUE_LENGTH_def tel_MAX_BODY_LENGTH_def tel_MANDATORY_HEADERS_def
  tel_LEGAL_TRANSITIONS_def tel_KNOWN_METHODS_def tel_KNOWN_STATES_def

lemma vpn_schema_ok:
  "\<not> vpn_fails_schema_check d \<longleftrightarrow>
     (\<exists>m p. dict_get d ''method'' = PStr m \<and> m \<noteq> [] \<and> dict_get d ''path'' = PStr p \<and> p \<noteq> [])"
  by (auto simp: vpn_fails_schema_check_def as_str_eq_None split: option.splits)

lemma vpn_query_ok:
  "(case v of PDict q \<Rightarrow> list_ex (\<lambda>(_, w). n < length (py_str w)) q | _ \<Rightarrow> False)
     \<longleftrightarrow> \<not> (\<forall>q. v = PDict q \<longrightarrow> (\<forall>(_, w) \<in> set q. length (py_str w) \<le> n))"
  by (cases v) (auto simp: list_ex_iff not_le Ball_def Bex_def split_paired_all linorder_not_less)

lemma vpn_length_ok:
  assumes "dict_get d ''path'' = PStr p"
  shows "\<not> vpn_fails_length_checks d \<longleftrightarrow> length p \<le> 256
     \<and> (\<exists>n. as_int (dict_get d ''declared_content_length'') = Some n \<and> 0 \<le> n \<and> n \<le> 8192)
     \<and> py_eq (dict_get d ''declared_content_length'') (dict_get d ''actual_body_length'')
     \<and> \<not> has_long_value 512 (as_list (dict_get d ''headers''))
     \<and> (\<forall>q. dict_get_default d ''query_params'' (PDict []) = PDict q \<longrightarrow> (\<forall>(_, v) \<in> set q. length (py_str v) \<le> 512))"
  using assms unfolding vpn_fails_length_checks_def vpn_query_ok vpn_consts
  by (auto simp: Let_def split: option.splits)

lemma vpn_type_ok: "vpn_fails_type_check d = Inr False \<longleftrightarrow> dict_get d ''encoding'' \<in> {PStr ''utf-8'', PStr ''ascii''}"
  by (auto simp: vpn_fails_type_check_def res_simps in_str_set_eq vpn_consts)

lemma dict_get_default_of_get: "dict_get d k = PStr s \<Longrightarrow> dict_get_default d k dflt = PStr s"
  by (auto simp: dict_get_def dict_get_default_def split: option.splits)

lemma vpn_path_ok:
  assumes "dict_get d ''path'' = PStr p"
  shows "\<not> vpn_fails_path_canonicalisation_check d \<longleftrightarrow>
     (\<forall>marker \<in> {''..'', ''%2e%2e'', ''%00''}. \<not> sublist marker (str_lower p))"
  using dict_get_default_of_get [OF assms]
  by (simp add: vpn_fails_path_canonicalisation_check_def vpn_consts str_contains_sublist Let_def)

lemma vpn_not_malformed: "vpn_is_malformed d = Inr False \<longleftrightarrow> vpn_well_formed d"
proof (cases "\<exists>m p. dict_get d ''method'' = PStr m \<and> m \<noteq> [] \<and> dict_get d ''path'' = PStr p \<and> p \<noteq> []")
  case True
  then obtain p where p: "dict_get d ''path'' = PStr p" "p \<noteq> []" by blast
  show ?thesis
    unfolding vpn_is_malformed_def vpn_well_formed_def orS_False sum.inject(2)
      vpn_fails_duplicate_field_check_def has_duplicate_keys_False vpn_type_ok
    using vpn_schema_ok [of d] vpn_length_ok [OF p(1)] vpn_path_ok [OF p(1)] True p
    by auto
next
  case False
  then have "vpn_fails_schema_check d" using vpn_schema_ok [of d] by blast
  moreover have "\<not> vpn_well_formed d" using False by (auto simp: vpn_well_formed_def)
  ultimately show ?thesis by (simp add: vpn_is_malformed_def)
qed

text \<open>What a well-formed session-setup message is.\<close>

definition tel_well_formed :: "pydict \<Rightarrow> bool" where
  "tel_well_formed d \<longleftrightarrow>
     (let keys = pair_keys (as_list (dict_get d ''headers'')) in
        list_all (\<lambda>v. unhashable v = None) keys \<and> distinct (map canon keys)
        \<and> {PStr ''Call-ID'', PStr ''From'', PStr ''To''} \<subseteq> set keys)
     \<and> (\<exists>n. as_int (dict_get d ''declared_body_length'') = Some n \<and> 0 \<le> n \<and> n \<le> 4096)
     \<and> py_eq (dict_get d ''declared_body_length'') (dict_get d ''actual_body_length'')
     \<and> \<not> has_long_value 256 (as_list (dict_get d ''sdp_attributes''))
     \<and> py_eq (dict_get d ''sequence_number'') (dict_get d ''expected_sequence_number'')
     \<and> (dict_get d ''session_state'', dict_get d ''method'')
         \<in> {(PStr ''INIT'', PStr ''INVITE''), (PStr ''RINGING'', PStr ''ACK''), (PStr ''ESTABLISHED'', PStr ''BYE'')}"

lemma tel_mandatory_ok:
  "tel_fails_mandatory_field_check d = Inr False \<longleftrightarrow>
     list_all (\<lambda>v. unhashable v = None) (pair_keys (as_list (dict_get d ''headers'')))
     \<and> {PStr ''Call-ID'', PStr ''From'', PStr ''To''} \<subseteq> set (pair_keys (as_list (dict_get d ''headers'')))"
  using mapS_hash_ok_iff [of "pair_keys (as_list (dict_get d ''headers''))"]
  by (auto simp: tel_fails_mandatory_field_check_def res_simps Let_def list_ex_iff tel_consts)

lemma tel_size_ok:
  "\<not> tel_fails_size_limit_checks d \<longleftrightarrow>
     (\<exists>n. as_int (dict_get d ''declared_body_length'') = Some n \<and> 0 \<le> n \<and> n \<le> 4096)
     \<and> py_eq (dict_get d ''declared_body_length'') (dict_get d ''actual_body_length'')
     \<and> \<not> has_long_value 256 (as_list (dict_get d ''sdp_attributes''))"
  by (auto simp: tel_fails_size_limit_checks_def Let_def tel_consts split: option.splits)

lemma py_eq_str_pair:
  "py_eq (PTuple [v, w]) (PTuple [PStr s, PStr m]) \<longleftrightarrow> v = PStr s \<and> w = PStr m"
  by (simp add: py_eq_def)

lemma tel_state_ok:
  "tel_fails_state_machine_check d = Inr False \<longleftrightarrow>
     (dict_get d ''session_state'', dict_get d ''method'')
       \<in> {(PStr ''INIT'', PStr ''INVITE''), (PStr ''RINGING'', PStr ''ACK''), (PStr ''ESTABLISHED'', PStr ''BYE'')}"
  by (auto simp: tel_fails_state_machine_check_def res_simps Let_def hash_ok_def py_eq_str_pair tel_consts
      split: option.splits)

lemma tel_not_malformed: "tel_is_malformed d = Inr False \<longleftrightarrow> tel_well_formed d"
  unfolding tel_is_malformed_def orS_False sum.inject(2) tel_well_formed_def Let_def
    tel_fails_duplicate_header_check_def has_duplicate_keys_False tel_mandatory_ok tel_state_ok
    tel_fails_sequence_validation_def
  using tel_size_ok [of d] by auto

lemma vpn_strict_accepts:
  "(\<exists>out. vpn_strict_process d = Inr out \<and> so_decision out = ACCEPTED) \<longleftrightarrow> vpn_well_formed d"
  unfolding vpn_not_malformed [symmetric]
  by (auto simp: vpn_strict_process_def res_simps split: if_splits)

lemma tel_strict_accepts:
  "(\<exists>out. tel_strict_process d = Inr out \<and> so_decision out = ACCEPTED) \<longleftrightarrow> tel_well_formed d"
  unfolding tel_not_malformed [symmetric]
  by (auto simp: tel_strict_process_def res_simps split: if_splits)

text \<open>Every request that the mitigation accepts, the weak baseline accepts too.\<close>

lemma vpn_well_formed_weak: "vpn_well_formed d \<Longrightarrow> vpn_weak_process d = Inr (outcome ACCEPTED True False)"
  by (auto simp: vpn_well_formed_def vpn_weak_process_eq)

lemma pair_keys_nonempty: "v \<in> set (pair_keys (as_list h)) \<Longrightarrow> \<exists>hs. h = PList hs \<and> hs \<noteq> []"
  by (cases h) (auto simp: as_list_def pair_keys_def List.map_filter_def)

lemma tel_well_formed_weak: "tel_well_formed d \<Longrightarrow> tel_weak_process d = Inr (outcome ACCEPTED True False)"
proof -
  assume wf: "tel_well_formed d"
  then have "PStr ''From'' \<in> set (pair_keys (as_list (dict_get d ''headers'')))"
    by (simp add: tel_well_formed_def Let_def)
  then obtain hs where "dict_get d ''headers'' = PList hs" "hs \<noteq> []"
    using pair_keys_nonempty by blast
  with wf show ?thesis by (auto simp: tel_well_formed_def tel_weak_process_eq tel_consts)
qed

text \<open>The registry: identifiers are distinct, so resolving is a bijection with the strategies.\<close>

lemma strategy_registry_ok: "tbl_ok st_strategy_id strategy_registry"
  by (simp add: tbl_ok_def strategy_registry_def WeakSchemaLengthBaseline_def
      StrictSchemaCanonicalisationMitigation_def WeakMandatoryFieldStateBaseline_def
      StrictGrammarStateMachineMitigation_def)

lemma resolve_strategy_Inr:
  "resolve_strategy i = Inr s \<longleftrightarrow> s \<in> set strategy_registry \<and> st_strategy_id s = i"
  using tbl_get_in [OF strategy_registry_ok, of s]
  by (auto simp: resolve_strategy_def split: option.splits dest: tbl_get_SomeD)

text \<open>
  C7. The strict mitigations accept exactly the well-formed requests. For every JSON request, the VPN
  mitigation returns ACCEPTED if and only if the request satisfies the schema, length, duplicate-field,
  encoding and path conditions of \<open>vpn_well_formed\<close>, and the telecom mitigation if and only if it
  satisfies the mandatory-header, size, sequence and state conditions of \<open>tel_well_formed\<close>.
\<close>

theorem strict_accepts_exactly_well_formed:
  "((\<exists>out. vpn_strict_process d = Inr out \<and> so_decision out = ACCEPTED) \<longleftrightarrow> vpn_well_formed d)
   \<and> ((\<exists>out. tel_strict_process d = Inr out \<and> so_decision out = ACCEPTED) \<longleftrightarrow> tel_well_formed d)"
  using vpn_strict_accepts tel_strict_accepts by blast

text \<open>
  The mitigation only tightens the baseline, and it stops traversal. A request that the VPN
  mitigation accepts is accepted by the weak baseline too, and its path, lower-cased, contains neither
  a parent segment, nor its percent-encoding, nor an encoded NUL; a telecom request that the mitigation
  accepts is accepted by the weak baseline too.
\<close>

lemma mitigation_tightens_baseline:
  "((\<exists>out. vpn_strict_process d = Inr out \<and> so_decision out = ACCEPTED) \<longrightarrow>
      (\<exists>out. vpn_weak_process d = Inr out \<and> so_decision out = ACCEPTED)
      \<and> (\<exists>p. dict_get d ''path'' = PStr p \<and> \<not> sublist ''..'' (str_lower p)
           \<and> \<not> sublist ''%2e%2e'' (str_lower p) \<and> \<not> sublist ''%00'' (str_lower p)))
   \<and> ((\<exists>out. tel_strict_process d = Inr out \<and> so_decision out = ACCEPTED) \<longrightarrow>
      (\<exists>out. tel_weak_process d = Inr out \<and> so_decision out = ACCEPTED))"
  using vpn_strict_accepts [of d] tel_strict_accepts [of d] vpn_well_formed_weak [of d] tel_well_formed_weak [of d]
  by (auto simp: vpn_well_formed_def)

definition demo_session_setup :: pydict where
  "demo_session_setup =
     [(''method'', PStr ''INVITE''), (''session_state'', PStr ''INIT''),
      (''headers'', PList [PList [PStr ''Call-ID'', PStr ''a''], PList [PStr ''From'', PStr ''b''], PList [PStr ''To'', PStr ''c'']]),
      (''declared_body_length'', PInt 0), (''actual_body_length'', PInt 0),
      (''sequence_number'', PInt 1), (''expected_sequence_number'', PInt 1)]"

lemma demo_session_setup_ok: "tel_well_formed demo_session_setup"
  by (simp add: tel_well_formed_def demo_session_setup_def Let_def dict_get_def as_list_def pair_keys_def
      List.map_filter_def has_long_value_def)

lemma mitigation_tightens_baseline_example:
  "\<exists>out. tel_weak_process demo_session_setup = Inr out \<and> so_decision out = ACCEPTED"
  using mitigation_tightens_baseline [of demo_session_setup] tel_strict_accepts demo_session_setup_ok by blast

end
