(* ===== verification/Py_Encoding.thy ===== *)
theory Py_Encoding
  imports Domain_Models "HOL-Library.Word"
begin

text \<open>
  The two encodings of the standard library that the program's integrity checks rest on:
  \<open>hashlib.sha256(...).hexdigest()\<close> (FIPS 180-4, on 32-bit words) and \<open>json.dumps\<close>
  with sorted keys and compact separators or with an indent of two. A byte string is a
  \<^typ>\<open>string\<close>; UTF-8 encoding is the identity on ASCII text.
\<close>

unbundle bit_operations_syntax

section \<open>SHA-256\<close>

type_synonym w32 = "32 word"

definition rotr :: "nat \<Rightarrow> w32 \<Rightarrow> w32" where
  "rotr n x = drop_bit n x OR push_bit (32 - n) x"

text \<open>The round constants and the initial hash value, in decimal.\<close>

definition sha_K :: "w32 list" where
  "sha_K =
   [1116352408, 1899447441, 3049323471, 3921009573, 961987163, 1508970993, 2453635748, 2870763221,
    3624381080, 310598401, 607225278, 1426881987, 1925078388, 2162078206, 2614888103, 3248222580,
    3835390401, 4022224774, 264347078, 604807628, 770255983, 1249150122, 1555081692, 1996064986,
    2554220882, 2821834349, 2952996808, 3210313671, 3336571891, 3584528711, 113926993, 338241895,
    666307205, 773529912, 1294757372, 1396182291, 1695183700, 1986661051, 2177026350, 2456956037,
    2730485921, 2820302411, 3259730800, 3345764771, 3516065817, 3600352804, 4094571909, 275423344,
    430227734, 506948616, 659060556, 883997877, 958139571, 1322822218, 1537002063, 1747873779,
    1955562222, 2024104815, 2227730452, 2361852424, 2428436474, 2756734187, 3204031479, 3329325298]"

definition sha_H0 :: "w32 list" where
  "sha_H0 = [1779033703, 3144134277, 1013904242, 2773480762, 1359893119, 2600822924, 528734635, 1541459225]"

text \<open>The padded message: a one bit, zeros, and the length in bits as 64 bits, big-endian.\<close>

fun be_bytes :: "nat \<Rightarrow> nat \<Rightarrow> nat list" where
  "be_bytes 0 n = []"
| "be_bytes (Suc k) n = be_bytes k (n div 256) @ [n mod 256]"

definition sha_pad :: "string \<Rightarrow> nat list" where
  "sha_pad s =
     (let l = length s
      in map of_char s @ [128] @ replicate ((119 - l mod 64) mod 64) 0 @ be_bytes 8 (8 * l))"

fun be_words :: "nat list \<Rightarrow> w32 list" where
  "be_words (a # b # c # d # rest) = of_nat (((a * 256 + b) * 256 + c) * 256 + d) # be_words rest"
| "be_words _ = []"

fun chunks :: "nat \<Rightarrow> 'a list \<Rightarrow> 'a list list" where
  "chunks n xs = (if n = 0 \<or> xs = [] then [] else take n xs # chunks n (drop n xs))"

declare chunks.simps [simp del]

text \<open>The message schedule; the list is kept newest first.\<close>

fun sha_extend :: "nat \<Rightarrow> w32 list \<Rightarrow> w32 list" where
  "sha_extend 0 ws = ws"
| "sha_extend (Suc k) ws =
     (let w2 = ws ! 1; w7 = ws ! 6; w15 = ws ! 14; w16 = ws ! 15;
          s0 = rotr 7 w15 XOR rotr 18 w15 XOR drop_bit 3 w15;
          s1 = rotr 17 w2 XOR rotr 19 w2 XOR drop_bit 10 w2
      in sha_extend k ((w16 + s0 + w7 + s1) # ws))"

definition sha_schedule :: "w32 list \<Rightarrow> w32 list" where
  "sha_schedule block = rev (sha_extend 48 (rev block))"

definition sha_round :: "w32 \<times> w32 \<Rightarrow> w32 list \<Rightarrow> w32 list" where
  "sha_round kw v = (case v of
     [a, b, c, d, e, f, g, h] \<Rightarrow>
       let s1 = rotr 6 e XOR rotr 11 e XOR rotr 25 e;
           ch = (e AND f) XOR (NOT e AND g);
           t1 = h + s1 + ch + fst kw + snd kw;
           s0 = rotr 2 a XOR rotr 13 a XOR rotr 22 a;
           maj = (a AND b) XOR (a AND c) XOR (b AND c)
       in [t1 + s0 + maj, a, b, c, d + t1, e, f, g]
   | _ \<Rightarrow> v)"

definition sha_block :: "w32 list \<Rightarrow> w32 list \<Rightarrow> w32 list" where
  "sha_block block h = map2 (+) h (fold sha_round (zip sha_K (sha_schedule block)) h)"

definition hex_byte :: "nat \<Rightarrow> string" where
  "hex_byte n = [hex_digit (n div 16 mod 16), hex_digit (n mod 16)]"

definition hex_word :: "w32 \<Rightarrow> string" where
  "hex_word w = concat (map hex_byte (be_bytes 4 (unat w)))"

definition sha256_hex :: "string \<Rightarrow> string" where
  "sha256_hex s = concat (map hex_word (fold sha_block (chunks 16 (be_words (sha_pad s))) sha_H0))"

lemma hex_digit_is_hex: "n < 16 \<Longrightarrow> is_hex (hex_digit n)"
  by (simp add: is_hex_def hex_digit_def is_digit_def digit_char_def Let_def)

lemma length_be_bytes [simp]: "length (be_bytes k n) = k"
  by (induction k arbitrary: n) simp_all

lemma hex_bytes_shape: "length (concat (map hex_byte bs)) = 2 * length bs \<and> list_all is_hex (concat (map hex_byte bs))"
  by (induction bs) (simp_all add: hex_byte_def hex_digit_is_hex)

lemma hex_word_shape: "length (hex_word w) = 8 \<and> list_all is_hex (hex_word w)"
  unfolding hex_word_def using hex_bytes_shape [of "be_bytes 4 (unat w)"] by (simp only: length_be_bytes) simp

lemma concat_hex_words: "length (concat (map hex_word ws)) = 8 * length ws \<and> list_all is_hex (concat (map hex_word ws))"
  using hex_word_shape by (induction ws) auto

lemma length_sha_round: "length (sha_round kw v) = length v"
  by (simp add: sha_round_def Let_def split: list.split)

lemma length_fold_sha_round: "length (fold sha_round ks v) = length v"
  by (induction ks arbitrary: v) (simp_all add: length_sha_round)

lemma length_sha_blocks: "length (fold sha_block bs h) = length h"
  by (induction bs arbitrary: h) (simp_all add: sha_block_def length_fold_sha_round)

text \<open>A digest always has the shape that the identifiers of the program demand.\<close>

lemma is_sha256_hex [simp]: "is_sha256 (sha256_hex s)"
  unfolding is_sha256_def sha256_hex_def
  using concat_hex_words [of "fold sha_block (chunks 16 (be_words (sha_pad s))) sha_H0"]
  by (simp add: length_sha_blocks sha_H0_def)

section \<open>\<open>json.dumps\<close>\<close>

definition json_char :: "char \<Rightarrow> string" where
  "json_char c =
     (let n = (of_char c :: nat) in
      if n = 34 then [CHR 0x5C, CHR 0x22]
      else if n = 92 then [CHR 0x5C, CHR 0x5C]
      else if n = 8 then [CHR 0x5C, CHR ''b'']
      else if n = 9 then [CHR 0x5C, CHR ''t'']
      else if n = 10 then [CHR 0x5C, CHR ''n'']
      else if n = 12 then [CHR 0x5C, CHR ''f'']
      else if n = 13 then [CHR 0x5C, CHR ''r'']
      else if n < 32 \<or> 127 < n then [CHR 0x5C] @ ''u00'' @ hex_byte n
      else [c])"

definition json_str :: "string \<Rightarrow> string" where
  "json_str s = [CHR 0x22] @ concat (map json_char s) @ [CHR 0x22]"

text \<open>\<open>json.dumps(v, sort_keys=True, separators=(",", ":"))\<close>.\<close>

primrec json_canonical :: "pyval \<Rightarrow> string" where
  "json_canonical PNone = ''null''"
| "json_canonical (PBool b) = (if b then ''true'' else ''false'')"
| "json_canonical (PInt i) = str_int i"
| "json_canonical (PFloat x) = repr_float x"
| "json_canonical (PStr s) = json_str s"
| "json_canonical (PList vs) = ''['' @ str_join '','' (map json_canonical vs) @ '']''"
| "json_canonical (PTuple vs) = ''['' @ str_join '','' (map json_canonical vs) @ '']''"
| "json_canonical (PDict d) =
     ''{'' @ str_join '',''
       (map (\<lambda>p. json_str (fst p) @ '':'' @ snd p) (sort_key fst (map (map_prod id json_canonical) d))) @ ''}''"

text \<open>\<open>json.dumps(v, indent=2)\<close>, as a list of lines without the indentation of the context.\<close>

definition indent2 :: "string list \<Rightarrow> string list" where
  "indent2 ls = map (\<lambda>l. ''  '' @ l) ls"

fun with_commas :: "string list list \<Rightarrow> string list list" where
  "with_commas [] = []"
| "with_commas [b] = [b]"
| "with_commas (b # bs) = (butlast b @ [last b @ '','']) # with_commas bs"

definition key_prefix :: "string \<Rightarrow> string list \<Rightarrow> string list" where
  "key_prefix k ls = (case ls of [] \<Rightarrow> [] | l # rest \<Rightarrow> (json_str k @ '': '' @ l) # rest)"

primrec json_lines :: "pyval \<Rightarrow> string list" where
  "json_lines PNone = [''null'']"
| "json_lines (PBool b) = [if b then ''true'' else ''false'']"
| "json_lines (PInt i) = [str_int i]"
| "json_lines (PFloat x) = [repr_float x]"
| "json_lines (PStr s) = [json_str s]"
| "json_lines (PList vs) = (if vs = [] then [''[]''] else
     [''[''] @ indent2 (concat (with_commas (map json_lines vs))) @ ['']''])"
| "json_lines (PTuple vs) = (if vs = [] then [''[]''] else
     [''[''] @ indent2 (concat (with_commas (map json_lines vs))) @ ['']''])"
| "json_lines (PDict d) = (if d = [] then [''{}''] else
     [''{''] @ indent2 (concat (with_commas (map (\<lambda>p. key_prefix (fst p) (snd p)) (map (map_prod id json_lines) d)))) @ [''}''])"

definition json_indent2 :: "pyval \<Rightarrow> string" where
  "json_indent2 v = str_join [CHR 0x0A] (json_lines v)"

end
