(* ===== verification/Runner.thy ===== *)
theory Runner
  imports Safety_Policy Strategies Py_Encoding
begin

text \<open>
  The experiment runner (\<open>zeroshield.runners\<close>) and the dataset loader
  (\<open>zeroshield.datasets\<close>). The runner is a state-passing program: the state counts the readings
  of the wall clock and of the performance counter that were taken and keeps the trace of what the run
  did to the outside (events sent to the sink, dataset reads, calls of a strategy), in order. The
  readings, the files and the JSON decoding of a dataset (pydantic's) are the environment of a run.
\<close>

section \<open>State and sequencing\<close>

datatype action =
    Emitted run_event_type
  | DatasetRead pypath
  | ProcessCall string string

record run_world =
  rw_clock_reads :: nat
  rw_perf_reads :: nat
  rw_trace :: "action list"

record run_env =
  re_clock :: "nat \<Rightarrow> datetime"
  re_perf :: "nat \<Rightarrow> float64"
  re_files :: "pypath \<Rightarrow> string option"
  re_decode_test_set :: "string \<Rightarrow> exn + test_set"
  re_python_version :: string
  re_has_sink :: bool

type_synonym 'a run_m = "(run_world, exn, 'a) eff"

definition perform :: "action \<Rightarrow> unit run_m" where
  "perform a w = (Inr (), w\<lparr>rw_trace := rw_trace w @ [a]\<rparr>)"

definition read_clock :: "run_env \<Rightarrow> datetime run_m" where
  "read_clock E w = (Inr (re_clock E (rw_clock_reads w)), w\<lparr>rw_clock_reads := Suc (rw_clock_reads w)\<rparr>)"

definition read_perf :: "run_env \<Rightarrow> float64 run_m" where
  "read_perf E w = (Inr (re_perf E (rw_perf_reads w)), w\<lparr>rw_perf_reads := Suc (rw_perf_reads w)\<rparr>)"

text \<open>\<open>if event_sink is not None: event_sink(event_type, None)\<close>.\<close>

definition emit :: "run_env \<Rightarrow> run_event_type \<Rightarrow> unit run_m" where
  "emit E ev = (if re_has_sink E then perform (Emitted ev) else returnE ())"

lemmas run_m_defs = eff_defs perform_def read_clock_def read_perf_def emit_def

section \<open>\<open>datasets/loader.py\<close>\<close>

definition load_test_set :: "run_env \<Rightarrow> pypath \<Rightarrow> (test_set \<times> string) run_m" where
  "load_test_set E path =
     bindE (perform (DatasetRead path)) (\<lambda>_.
     case re_files E path of
       None \<Rightarrow> liftE (Inl (FileNotFoundError (path_str path)))
     | Some raw_bytes \<Rightarrow>
         let sha256_hex' = sha256_hex raw_bytes in
         bindE (liftE (re_decode_test_set E raw_bytes)) (\<lambda>data.
         bindE (liftE (validate_test_set data)) (\<lambda>test_set.
         returnE (test_set, sha256_hex'))))"

section \<open>\<open>runners/experiment_runner.py\<close>\<close>

record run_outcome =
  ro_run :: experiment_run
  ro_strategy_id :: string
  ro_case_results :: "case_result list"

record execution_result =
  xr_baseline :: run_outcome
  xr_mitigation :: run_outcome
  xr_safety_decision :: policy_decision

definition default_environment :: "run_env \<Rightarrow> (string \<times> string) list" where
  "default_environment E = [(''python_version'', re_python_version E)]"

definition elapsed_ms :: "float64 \<Rightarrow> float64 \<Rightarrow> float64" where
  "elapsed_ms start now = fl (fl (now - start) * 1000)"

definition execute_case :: "run_env \<Rightarrow> strategy \<Rightarrow> string \<Rightarrow> test_case \<Rightarrow> case_result run_m" where
  "execute_case E s run_id c =
     bindE (read_perf E) (\<lambda>start.
     bindE (perform (ProcessCall (st_strategy_id s) (tc_case_id c))) (\<lambda>_.
     bindE (read_perf E) (\<lambda>now.
     let latency_ms = elapsed_ms start now in
     case st_process s (tc_input_data c) of
       Inl exc \<Rightarrow>
         liftE (validate_case_result
           \<lparr>cr_run_id = run_id, cr_case_id = tc_case_id c, cr_decision = BLOCKED, cr_parser_reached = False,
            cr_errored = True, cr_error_message = Some (if exc_str exc \<noteq> [] then exc_str exc else exc_class exc),
            cr_logged = True, cr_latency_ms = latency_ms\<rparr>)
     | Inr out \<Rightarrow>
         liftE (validate_case_result
           \<lparr>cr_run_id = run_id, cr_case_id = tc_case_id c, cr_decision = so_decision out,
            cr_parser_reached = so_parser_reached out, cr_errored = so_errored out,
            cr_error_message = so_error_message out, cr_logged = so_logged out, cr_latency_ms = latency_ms\<rparr>))))"

definition execute_mode :: "run_env \<Rightarrow> strategy \<Rightarrow> test_case list \<Rightarrow> string \<Rightarrow> string \<Rightarrow> run_mode \<Rightarrow> string
    \<Rightarrow> string \<Rightarrow> (string \<times> string) list \<Rightarrow> run_outcome run_m" where
  "execute_mode E s cs experiment_id run_id mode dataset_hash git_commit environment =
     bindE (read_clock E) (\<lambda>started_at.
     bindE (mapE (execute_case E s run_id) cs) (\<lambda>results.
     bindE (read_clock E) (\<lambda>completed_at.
     bindE (liftE (validate_run
       \<lparr>er_run_id = run_id, er_experiment_id = experiment_id, er_mode = mode, er_dataset_hash = dataset_hash,
        er_git_commit = git_commit, er_environment = environment, er_started_at = started_at,
        er_completed_at = Some completed_at, er_status = RS_COMPLETED\<rparr>)) (\<lambda>run.
     returnE \<lparr>ro_run = run, ro_strategy_id = st_strategy_id s, ro_case_results = results\<rparr>))))"

record run_request =
  rq_experiment :: experiment_definition
  rq_dataset_path :: pypath
  rq_baseline :: strategy
  rq_mitigation :: strategy
  rq_baseline_run_id :: string
  rq_mitigation_run_id :: string
  rq_git_commit :: string
  rq_environment :: "(string \<times> string) list option"
  rq_execution_context :: execution_context

definition request_environment :: "run_env \<Rightarrow> run_request \<Rightarrow> (string \<times> string) list" where
  "request_environment E q = (case rq_environment q of
     None \<Rightarrow> default_environment E | Some d \<Rightarrow> if d = [] then default_environment E else d)"

text \<open>\<open>ExperimentRunner.run\<close>: the guards, then the two modes over one dataset.\<close>

definition check_request :: "run_request \<Rightarrow> exn + unit" where
  "check_request q =
     bindS (raise_if (st_strategy_id (rq_baseline q) \<noteq> ed_baseline_strategy (rq_experiment q))
       (ValueError (''baseline strategy_id '' @ quoted (st_strategy_id (rq_baseline q))
         @ '' does not match experiment's declared baseline_strategy ''
         @ quoted (ed_baseline_strategy (rq_experiment q))))) (\<lambda>_.
     raise_if (st_strategy_id (rq_mitigation q) \<noteq> ed_mitigation_strategy (rq_experiment q))
       (ValueError (''mitigation strategy_id '' @ quoted (st_strategy_id (rq_mitigation q))
         @ '' does not match experiment's declared mitigation_strategy ''
         @ quoted (ed_mitigation_strategy (rq_experiment q)))))"

definition run_modes :: "run_env \<Rightarrow> run_request \<Rightarrow> policy_decision \<Rightarrow> test_set \<Rightarrow> string \<Rightarrow> execution_result run_m" where
  "run_modes E q d test_set dataset_hash =
     (let e = rq_experiment q; env = request_environment E q in
      bindE (emit E RE_RUNNING_BASELINE) (\<lambda>_.
      bindE (execute_mode E (rq_baseline q) (ts_cases test_set) (ed_experiment_id e) (rq_baseline_run_id q)
        BASELINE dataset_hash (rq_git_commit q) env) (\<lambda>b.
      bindE (emit E RE_RUNNING_MITIGATION) (\<lambda>_.
      bindE (execute_mode E (rq_mitigation q) (ts_cases test_set) (ed_experiment_id e) (rq_mitigation_run_id q)
        MITIGATED dataset_hash (rq_git_commit q) env) (\<lambda>m.
      returnE \<lparr>xr_baseline = b, xr_mitigation = m, xr_safety_decision = d\<rparr>)))))"

definition run :: "run_env \<Rightarrow> run_request \<Rightarrow> execution_result run_m" where
  "run E q =
     (let e = rq_experiment q in
      bindE (emit E RE_SAFETY_CHECK) (\<lambda>_.
      bindE (read_clock E) (\<lambda>now.
      bindE (liftE (evaluate e (rq_execution_context q) now)) (\<lambda>d.
      bindE (liftE (raise_if (\<not> pd_allowed d) (PolicyRefusalError d))) (\<lambda>_.
      bindE (liftE (check_request q)) (\<lambda>_.
      bindE (load_test_set E (rq_dataset_path q)) (\<lambda>(test_set, dataset_hash).
      bindE (liftE (raise_if (ts_domain test_set \<noteq> ed_domain e)
        (ValueError (''dataset domain '' @ quoted (domain_value (ts_domain test_set))
          @ '' does not match experiment domain '' @ quoted (domain_value (ed_domain e)))))) (\<lambda>_.
      run_modes E q d test_set dataset_hash))))))))"

section \<open>Events\<close>

text \<open>The events a run sends, as actions of its trace.\<close>

definition sent :: "run_env \<Rightarrow> run_event_type \<Rightarrow> action list" where
  "sent E ev = (if re_has_sink E then [Emitted ev] else [])"

lemma emit_eq: "emit E ev w = (Inr (), w\<lparr>rw_trace := rw_trace w @ sent E ev\<rparr>)"
  by (simp add: emit_def sent_def perform_def returnE_def)

section \<open>One case\<close>

definition raw_result :: "run_env \<Rightarrow> strategy \<Rightarrow> string \<Rightarrow> nat \<Rightarrow> test_case \<Rightarrow> case_result" where
  "raw_result E s run_id k c =
     (let latency_ms = elapsed_ms (re_perf E k) (re_perf E (Suc k)) in
      case st_process s (tc_input_data c) of
        Inl exc \<Rightarrow>
          \<lparr>cr_run_id = run_id, cr_case_id = tc_case_id c, cr_decision = BLOCKED, cr_parser_reached = False,
           cr_errored = True, cr_error_message = Some (if exc_str exc \<noteq> [] then exc_str exc else exc_class exc),
           cr_logged = True, cr_latency_ms = latency_ms\<rparr>
      | Inr out \<Rightarrow>
          \<lparr>cr_run_id = run_id, cr_case_id = tc_case_id c, cr_decision = so_decision out,
           cr_parser_reached = so_parser_reached out, cr_errored = so_errored out,
           cr_error_message = so_error_message out, cr_logged = so_logged out, cr_latency_ms = latency_ms\<rparr>)"

fun raw_results :: "run_env \<Rightarrow> strategy \<Rightarrow> string \<Rightarrow> nat \<Rightarrow> test_case list \<Rightarrow> case_result list" where
  "raw_results E s run_id k [] = []"
| "raw_results E s run_id k (c # cs) = raw_result E s run_id k c # raw_results E s run_id (k + 2) cs"

lemma execute_case_eq:
  "execute_case E s run_id c w =
     (validate_case_result (raw_result E s run_id (rw_perf_reads w) c),
      w\<lparr>rw_perf_reads := rw_perf_reads w + 2,
        rw_trace := rw_trace w @ [ProcessCall (st_strategy_id s) (tc_case_id c)]\<rparr>)"
  by (simp add: execute_case_def run_m_defs raw_result_def Let_def split: sum.split)

text \<open>The conditions under which a result is a valid \<open>CaseResult\<close>.\<close>

definition valid_result :: "case_result \<Rightarrow> bool" where
  "valid_result r \<longleftrightarrow> is_run_id (cr_run_id r) \<and> ne (cr_case_id r) \<and> 0 \<le> cr_latency_ms r
     \<and> (if cr_errored r then cr_error_message r \<noteq> None \<and> cr_error_message r \<noteq> Some []
        else cr_error_message r = None)"

lemma validate_case_result_iff: "validate_case_result r = Inr x \<longleftrightarrow> x = r \<and> valid_result r"
  by (auto simp: validate_case_result_def valid_result_def res_simps)

lemma execute_cases_Inr:
  "mapE (execute_case E s run_id) cs w = (Inr rs, w') \<longleftrightarrow>
     rs = raw_results E s run_id (rw_perf_reads w) cs \<and> list_all valid_result rs
     \<and> w' = w\<lparr>rw_perf_reads := rw_perf_reads w + 2 * length cs,
         rw_trace := rw_trace w @ map (\<lambda>c. ProcessCall (st_strategy_id s) (tc_case_id c)) cs\<rparr>"
proof (induction cs arbitrary: w rs)
  case Nil
  then show ?case by (auto simp: returnE_def)
next
  case (Cons c cs)
  show ?case
    by (auto simp: bindE_Inr execute_case_eq [of E s run_id c w] Cons.IH returnE_def validate_case_result_iff)
qed

text \<open>What a recorded result says about its case.\<close>

definition result_for :: "strategy \<Rightarrow> string \<Rightarrow> test_case \<Rightarrow> case_result \<Rightarrow> bool" where
  "result_for s run_id c r \<longleftrightarrow> cr_run_id r = run_id \<and> cr_case_id r = tc_case_id c
     \<and> (case st_process s (tc_input_data c) of
          Inl exc \<Rightarrow> cr_errored r \<and> cr_decision r = BLOCKED \<and> \<not> cr_parser_reached r
            \<and> cr_error_message r = Some (if exc_str exc \<noteq> [] then exc_str exc else exc_class exc)
        | Inr out \<Rightarrow> cr_errored r = so_errored out \<and> cr_decision r = so_decision out
            \<and> cr_parser_reached r = so_parser_reached out \<and> cr_logged r = so_logged out)"

lemma result_for_raw: "result_for s run_id c (raw_result E s run_id k c)"
  by (simp add: result_for_def raw_result_def Let_def split: sum.split)

lemma raw_results_for: "list_all2 (result_for s run_id) cs (raw_results E s run_id k cs)"
  by (induction cs arbitrary: k) (simp_all add: result_for_raw)

section \<open>One mode\<close>

definition calls :: "strategy \<Rightarrow> test_case list \<Rightarrow> action list" where
  "calls s cs = map (\<lambda>c. ProcessCall (st_strategy_id s) (tc_case_id c)) cs"

definition mode_run :: "run_env \<Rightarrow> nat \<Rightarrow> string \<Rightarrow> string \<Rightarrow> run_mode \<Rightarrow> string \<Rightarrow> string
    \<Rightarrow> (string \<times> string) list \<Rightarrow> experiment_run" where
  "mode_run E k eid rid mode h g env =
     \<lparr>er_run_id = rid, er_experiment_id = eid, er_mode = mode, er_dataset_hash = h, er_git_commit = g,
      er_environment = env, er_started_at = re_clock E k, er_completed_at = Some (re_clock E (Suc k)),
      er_status = RS_COMPLETED\<rparr>"

definition valid_run :: "experiment_run \<Rightarrow> bool" where
  "valid_run r \<longleftrightarrow> validate_run r = Inr r"

lemma validate_run_iff: "validate_run r = Inr x \<longleftrightarrow> x = r \<and> valid_run r"
  unfolding valid_run_def using validate_run_id [of r x] by auto

lemma execute_mode_Inr:
  "execute_mode E s cs eid rid mode h g env w = (Inr out, w') \<longleftrightarrow>
     (let rs = raw_results E s rid (rw_perf_reads w) cs; r = mode_run E (rw_clock_reads w) eid rid mode h g env in
      list_all valid_result rs \<and> valid_run r
      \<and> out = \<lparr>ro_run = r, ro_strategy_id = st_strategy_id s, ro_case_results = rs\<rparr>
      \<and> w' = \<lparr>rw_clock_reads = rw_clock_reads w + 2, rw_perf_reads = rw_perf_reads w + 2 * length cs,
          rw_trace = rw_trace w @ calls s cs\<rparr>)"
  unfolding execute_mode_def bindE_Inr execute_cases_Inr mode_run_def [symmetric]
  by (auto simp: read_clock_def liftE_def returnE_def validate_run_iff Let_def calls_def mode_run_def)

section \<open>The whole run\<close>

lemma load_test_set_Inr:
  "load_test_set E path w = (Inr (ts, h), w') \<longleftrightarrow>
     (\<exists>raw. re_files E path = Some raw \<and> re_decode_test_set E raw = Inr ts \<and> validate_test_set ts = Inr ts
        \<and> h = sha256_hex raw) \<and> w' = w\<lparr>rw_trace := rw_trace w @ [DatasetRead path]\<rparr>"
  by (auto simp: load_test_set_def bindE_Inr perform_def liftE_def returnE_def Let_def validate_test_set_def
      res_simps split: option.splits)

lemma check_request_Inr:
  "check_request q = Inr u \<longleftrightarrow> st_strategy_id (rq_baseline q) = ed_baseline_strategy (rq_experiment q)
     \<and> st_strategy_id (rq_mitigation q) = ed_mitigation_strategy (rq_experiment q)"
  by (auto simp: check_request_def res_simps)

definition dataset_of :: "run_env \<Rightarrow> pypath \<Rightarrow> test_set \<Rightarrow> string \<Rightarrow> bool" where
  "dataset_of E path ts h \<longleftrightarrow> (\<exists>raw. re_files E path = Some raw \<and> re_decode_test_set E raw = Inr ts
     \<and> validate_test_set ts = Inr ts \<and> h = sha256_hex raw)"

lemma run_Inr:
  "run E q w = (Inr x, w') \<longleftrightarrow>
     (\<exists>d ts h. evaluate (rq_experiment q) (rq_execution_context q) (re_clock E (rw_clock_reads w)) = Inr d
        \<and> pd_allowed d \<and> check_request q = Inr () \<and> dataset_of E (rq_dataset_path q) ts h
        \<and> ts_domain ts = ed_domain (rq_experiment q)
        \<and> run_modes E q d ts h \<lparr>rw_clock_reads = Suc (rw_clock_reads w), rw_perf_reads = rw_perf_reads w,
             rw_trace = rw_trace w @ sent E RE_SAFETY_CHECK @ [DatasetRead (rq_dataset_path q)]\<rparr> = (Inr x, w'))"
  unfolding run_def Let_def
  by (cases w) (auto simp: bindE_Inr emit_eq read_clock_def liftE_def load_test_set_Inr dataset_of_def)

text \<open>
  C1. The safety gate comes first. An experiment that the rules forbid in the context is refused with
  the decision and its reasons, and the run has then done nothing but announce the check: the dataset
  was not read, no strategy was called, whatever strategies, files or dataset the request names.
\<close>

theorem unsafe_never_executes:
  assumes "\<not> safe_to_run (rq_experiment q) (rq_execution_context q)"
  shows "\<exists>d w'. run E q w = (Inl (PolicyRefusalError d), w') \<and> \<not> pd_allowed d \<and> pd_reasons d \<noteq> []
    \<and> rw_trace w' = rw_trace w @ sent E RE_SAFETY_CHECK"
proof -
  obtain d where d: "evaluate (rq_experiment q) (rq_execution_context q) (re_clock E (rw_clock_reads w)) = Inr d"
    "\<not> pd_allowed d" "pd_reasons d \<noteq> []"
    using policy.unsafe_refused [OF assms] by blast
  then show ?thesis by (simp add: run_def emit_eq bindE_def read_clock_def liftE_def Let_def)
qed

text \<open>
  C2. What a completed run means. If \<open>run\<close> returns, the experiment was safe to run, the strategies
  are the declared ones, the dataset file decodes to a valid test set of the experiment's domain whose
  SHA-256 both run records carry, each mode has exactly one result per case, in the order of the
  dataset, saying what the strategy did on that case (a raised exception is an errored, blocked result),
  and the trace is: safety check, dataset read, baseline event, baseline calls, mitigation event,
  mitigation calls.
\<close>

theorem run_faithful:
  assumes "run E q w = (Inr x, w')"
  shows "safe_to_run (rq_experiment q) (rq_execution_context q)
    \<and> (\<exists>ts h. dataset_of E (rq_dataset_path q) ts h \<and> ts_domain ts = ed_domain (rq_experiment q)
        \<and> er_dataset_hash (ro_run (xr_baseline x)) = h \<and> er_dataset_hash (ro_run (xr_mitigation x)) = h
        \<and> ro_strategy_id (xr_baseline x) = ed_baseline_strategy (rq_experiment q)
        \<and> ro_strategy_id (xr_mitigation x) = ed_mitigation_strategy (rq_experiment q)
        \<and> list_all2 (result_for (rq_baseline q) (rq_baseline_run_id q)) (ts_cases ts) (ro_case_results (xr_baseline x))
        \<and> list_all2 (result_for (rq_mitigation q) (rq_mitigation_run_id q)) (ts_cases ts) (ro_case_results (xr_mitigation x))
        \<and> rw_trace w' = rw_trace w @ sent E RE_SAFETY_CHECK @ [DatasetRead (rq_dataset_path q)]
            @ sent E RE_RUNNING_BASELINE @ calls (rq_baseline q) (ts_cases ts)
            @ sent E RE_RUNNING_MITIGATION @ calls (rq_mitigation q) (ts_cases ts))"
proof -
  obtain d ts h where
    ev: "evaluate (rq_experiment q) (rq_execution_context q) (re_clock E (rw_clock_reads w)) = Inr d" "pd_allowed d"
    and facts: "check_request q = Inr ()" "dataset_of E (rq_dataset_path q) ts h"
      "ts_domain ts = ed_domain (rq_experiment q)"
    and rm: "run_modes E q d ts h \<lparr>rw_clock_reads = Suc (rw_clock_reads w), rw_perf_reads = rw_perf_reads w,
             rw_trace = rw_trace w @ sent E RE_SAFETY_CHECK @ [DatasetRead (rq_dataset_path q)]\<rparr> = (Inr x, w')"
    using assms unfolding run_Inr by blast
  have "safe_to_run (rq_experiment q) (rq_execution_context q)"
    using policy.allowed_iff [OF ev(1)] ev(2) by simp
  with facts rm show ?thesis
    unfolding run_modes_def Let_def bindE_Inr execute_mode_Inr
    by (intro conjI exI [of _ ts] exI [of _ h])
      (auto simp: emit_eq returnE_def check_request_Inr mode_run_def raw_results_for)
qed

section \<open>Completion\<close>

text \<open>
  What completion asks of the surroundings: clocks that do not run backwards (\<open>time.perf_counter\<close>
  is monotonic; the wall clock is an assumption) and strategies whose exceptions have a class name and
  whose outcomes are consistent.
\<close>

definition mono_readings :: "(nat \<Rightarrow> 'a::order) \<Rightarrow> bool" where
  "mono_readings f \<longleftrightarrow> (\<forall>n. f n \<le> f (Suc n))"

definition strategy_ok :: "strategy \<Rightarrow> bool" where
  "strategy_ok s \<longleftrightarrow> (\<forall>d. case st_process s d of Inl exc \<Rightarrow> exc_class exc \<noteq> [] | Inr out \<Rightarrow> outcome_check out)"

lemma elapsed_nonneg: "mono_readings f \<Longrightarrow> 0 \<le> elapsed_ms (f k) (f (Suc k))"
  by (simp add: elapsed_ms_def mono_readings_def fl_nonneg)

lemma raw_result_valid:
  assumes "mono_readings (re_perf E)" and "strategy_ok s" and "is_run_id rid" and "ne (tc_case_id c)"
  shows "valid_result (raw_result E s rid k c)"
proof -
  have "case st_process s (tc_input_data c) of Inl exc \<Rightarrow> exc_class exc \<noteq> [] | Inr out \<Rightarrow> outcome_check out"
    using assms(2) unfolding strategy_ok_def by blast
  then show ?thesis using assms elapsed_nonneg [OF assms(1), of k]
    by (auto simp: valid_result_def raw_result_def Let_def outcome_check_def split: sum.splits)
qed

lemma raw_results_valid:
  assumes "mono_readings (re_perf E)" and "strategy_ok s" and "is_run_id rid" and "\<forall>c \<in> set cs. ne (tc_case_id c)"
  shows "list_all valid_result (raw_results E s rid k cs)"
  using assms by (induction cs arbitrary: k) (auto intro: raw_result_valid)

lemma mode_run_valid:
  assumes "mono_readings (re_clock E)" and "is_run_id rid" and "is_experiment_id eid" and "is_sha256 h"
    and "is_git_commit g" and "env \<noteq> []"
  shows "valid_run (mode_run E k eid rid mode h g env)"
  using assms
  by (simp add: valid_run_def validate_run_def raise_if_def mode_run_def is_terminal_run_status_def
      is_open_run_status_def mono_readings_def not_less)

lemma execute_mode_completes:
  assumes "mono_readings (re_clock E)" "mono_readings (re_perf E)" "strategy_ok s" "is_run_id rid"
    "is_experiment_id eid" "is_sha256 h" "is_git_commit g" "env \<noteq> []" "\<forall>c \<in> set cs. ne (tc_case_id c)"
  shows "\<exists>out w'. execute_mode E s cs eid rid mode h g env w = (Inr out, w')"
  unfolding execute_mode_Inr Let_def
  using raw_results_valid [OF assms(2-4) assms(9)] mode_run_valid [OF assms(1) assms(4-8)] by blast

lemma validate_test_set_cases: "validate_test_set ts = Inr ts' \<Longrightarrow> \<forall>c \<in> set (ts_cases ts). ne (tc_case_id c)"
proof -
  assume "validate_test_set ts = Inr ts'"
  then obtain ys where "mapS validate_test_case (ts_cases ts) = Inr ys"
    by (auto simp: validate_test_set_def res_simps)
  then have "list_all2 (\<lambda>x y. validate_test_case x = Inr y) (ts_cases ts) ys" by (simp add: mapS_Inr_all2)
  then show ?thesis
    by (auto simp: list_all2_conv_all_nth in_set_conv_nth validate_test_case_def res_simps)
qed

lemma request_environment_ne: "request_environment E q \<noteq> []"
  by (simp add: request_environment_def default_environment_def split: option.split)

lemma run_total:
  assumes "safe_to_run (rq_experiment q) (rq_execution_context q)" and "check_request q = Inr ()"
    and "dataset_of E (rq_dataset_path q) ts h" and "ts_domain ts = ed_domain (rq_experiment q)"
    and "is_run_id (rq_baseline_run_id q)" and "is_run_id (rq_mitigation_run_id q)"
    and "is_experiment_id (ed_experiment_id (rq_experiment q))" and "is_git_commit (rq_git_commit q)"
    and "mono_readings (re_clock E)" and "mono_readings (re_perf E)"
    and "strategy_ok (rq_baseline q)" and "strategy_ok (rq_mitigation q)"
  shows "\<exists>x w'. run E q w = (Inr x, w')"
proof -
  obtain d where d: "evaluate (rq_experiment q) (rq_execution_context q) (re_clock E (rw_clock_reads w)) = Inr d"
    using policy.decides by blast
  then have "pd_allowed d" using assms(1) policy.allowed_iff by blast
  have h: "is_sha256 h" "\<forall>c \<in> set (ts_cases ts). ne (tc_case_id c)"
    using assms(3) validate_test_set_cases by (auto simp: dataset_of_def)
  note completes = execute_mode_completes [OF assms(9,10) _ _ assms(7) h(1) assms(8) request_environment_ne h(2)]
  have modes: "\<exists>x w'. run_modes E q d ts h w1 = (Inr x, w')" for w1
    unfolding run_modes_def Let_def bindE_Inr
    using completes [OF assms(11,5)] completes [OF assms(12,6)] by (fastforce simp: emit_eq returnE_def)
  show ?thesis
    unfolding run_Inr using d \<open>pd_allowed d\<close> assms(2-4) modes by blast
qed

lemma run_modes_results:
  "run_modes E q d ts h w = (Inr x, w') \<Longrightarrow>
     list_all2 (result_for (rq_baseline q) (rq_baseline_run_id q)) (ts_cases ts) (ro_case_results (xr_baseline x))
     \<and> list_all2 (result_for (rq_mitigation q) (rq_mitigation_run_id q)) (ts_cases ts) (ro_case_results (xr_mitigation x))"
  unfolding run_modes_def Let_def bindE_Inr execute_mode_Inr by (auto simp: returnE_def raw_results_for)

text \<open>
  C3. Failure isolation. A safe, well-identified request over a loadable dataset of its domain always
  completes, with one result per case and mode that says what the strategy did: no exception of a strategy, on any case, stops the run (each becomes an errored result),
  and no record that the runner builds fails its validation.
\<close>

theorem run_completes:
  assumes "safe_to_run (rq_experiment q) (rq_execution_context q)" and "check_request q = Inr ()"
    and "dataset_of E (rq_dataset_path q) ts h" and "ts_domain ts = ed_domain (rq_experiment q)"
    and "is_run_id (rq_baseline_run_id q)" and "is_run_id (rq_mitigation_run_id q)"
    and "is_experiment_id (ed_experiment_id (rq_experiment q))" and "is_git_commit (rq_git_commit q)"
    and "mono_readings (re_clock E)" and "mono_readings (re_perf E)"
    and "strategy_ok (rq_baseline q)" and "strategy_ok (rq_mitigation q)"
  shows "\<exists>x w'. run E q w = (Inr x, w')
    \<and> list_all2 (result_for (rq_baseline q) (rq_baseline_run_id q)) (ts_cases ts) (ro_case_results (xr_baseline x))
    \<and> list_all2 (result_for (rq_mitigation q) (rq_mitigation_run_id q)) (ts_cases ts) (ro_case_results (xr_mitigation x))"
proof -
  obtain x w' where x: "run E q w = (Inr x, w')" using run_total [OF assms] by blast
  then obtain d ts' h' w1 where "dataset_of E (rq_dataset_path q) ts' h'" "run_modes E q d ts' h' w1 = (Inr x, w')"
    unfolding run_Inr by blast
  moreover from this(1) assms(3) have "ts' = ts" by (auto simp: dataset_of_def)
  ultimately show ?thesis using x run_modes_results by blast
qed

lemma exc_class_TypeError: "hash_ok v = Inl e \<Longrightarrow> exc_class e = ''TypeError''"
  by (auto simp: hash_ok_def split: option.splits)

lemma mapS_hash_ok_Inl: "mapS hash_ok vs = Inl e \<Longrightarrow> exc_class e = ''TypeError''"
  by (induction vs) (auto simp: res_simps dest: exc_class_TypeError)

lemma vpn_strict_exc: "vpn_strict_process d = Inl e \<Longrightarrow> exc_class e = ''TypeError''"
  by (auto simp: vpn_strict_process_def vpn_is_malformed_def orS_def vpn_fails_duplicate_field_check_def
      has_duplicate_keys_def vpn_fails_type_check_def in_str_set_def res_simps Let_def
      dest: exc_class_TypeError mapS_hash_ok_Inl split: if_splits)

lemma tel_strict_exc: "tel_strict_process d = Inl e \<Longrightarrow> exc_class e = ''TypeError''"
  by (auto simp: tel_strict_process_def tel_is_malformed_def orS_def tel_fails_duplicate_header_check_def
      has_duplicate_keys_def tel_fails_mandatory_field_check_def tel_fails_state_machine_check_def res_simps Let_def
      dest: exc_class_TypeError mapS_hash_ok_Inl split: if_splits)

lemma registered_strategies_ok: "s \<in> set strategy_registry \<Longrightarrow> strategy_ok s"
  using vpn_weak.outcome_checked vpn_strict.outcome_checked tel_weak.outcome_checked tel_strict.outcome_checked
  by (auto simp: strategy_registry_def strategy_ok_def WeakSchemaLengthBaseline_def
      StrictSchemaCanonicalisationMitigation_def WeakMandatoryFieldStateBaseline_def
      StrictGrammarStateMachineMitigation_def vpn_weak_process_eq tel_weak_process_eq
      split: sum.split if_splits dest!: vpn_strict_exc tel_strict_exc)

section \<open>A concrete run\<close>

definition demo_cve :: cve_reference where
  "demo_cve =
     \<lparr>cve_cve_id = ''CVE-2024-0001'', cve_domain = VPN, cve_cvss_score = None, cve_cisa_kev = False,
      cve_epss_score = None, cve_trust_boundary = ''edge'', cve_root_cause = INPUT_VALIDATION_FAILURE,
      cve_vendor_mitigation = ''patch'', cve_mitigation_gap = ''none'', cve_source_urls = [''u''],
      cve_retrieved_date = 0\<rparr>"

definition demo_experiment :: "approval_status \<Rightarrow> experiment_definition" where
  "demo_experiment st =
     \<lparr>ed_experiment_id = ''ZC-VPN-EXP-001'', ed_title = ''t'', ed_domain = VPN, ed_description = ''d'',
      ed_related_cves = [demo_cve], ed_failure_pattern = ''f'', ed_root_cause = INPUT_VALIDATION_FAILURE,
      ed_vendor_mitigation = ''v'', ed_mitigation_gap = ''g'', ed_research_question = ''q'',
      ed_hypothesis = ''h'', ed_safety_level = SYNTHETIC_ONLY, ed_external_targeting = False,
      ed_input_classification = SYNTHETIC, ed_weaponised_payloads = False,
      ed_baseline_strategy = ''weak_schema_length_baseline'',
      ed_mitigation_strategy = ''strict_schema_canonicalisation_mitigation'',
      ed_dataset_path = PyPath [] [''d.json''], ed_metrics_to_collect = [BLOCK_RATE],
      ed_approval_status = st, ed_version = ''1.0.0''\<rparr>"

definition demo_test_set :: test_set where
  "demo_test_set =
     \<lparr>ts_test_set_id = ''T'', ts_version = ''1'', ts_domain = VPN,
      ts_cases = [\<lparr>tc_case_id = ''A'', tc_category = TC_MALFORMED, tc_input_data = [],
        tc_expected_outcome = BLOCKED, tc_provenance = ''synthetic'', tc_version = ''1''\<rparr>]\<rparr>"

definition demo_env :: run_env where
  "demo_env =
     \<lparr>re_clock = (\<lambda>n. int n), re_perf = (\<lambda>n. of_nat n), re_files = (\<lambda>p. Some ''raw''),
      re_decode_test_set = (\<lambda>raw. Inr demo_test_set), re_python_version = ''3.12.3'', re_has_sink = True\<rparr>"

definition demo_request :: "approval_status \<Rightarrow> run_request" where
  "demo_request st =
     \<lparr>rq_experiment = demo_experiment st, rq_dataset_path = PyPath [] [''d.json''],
      rq_baseline = WeakSchemaLengthBaseline, rq_mitigation = StrictSchemaCanonicalisationMitigation,
      rq_baseline_run_id = ''RUN-001'', rq_mitigation_run_id = ''RUN-002'', rq_git_commit = ''abcdef0'',
      rq_environment = None, rq_execution_context = EXPERIMENT_RUN\<rparr>"

definition demo_world :: run_world where
  "demo_world = \<lparr>rw_clock_reads = 0, rw_perf_reads = 0, rw_trace = []\<rparr>"

lemma demo_dataset: "dataset_of demo_env (PyPath [] [''d.json'']) demo_test_set (sha256_hex ''raw'')"
  by (simp add: dataset_of_def demo_env_def demo_test_set_def validate_test_set_def validate_test_case_def
      raise_if_def ne_def)

lemma demo_ids: "is_run_id ''RUN-001''" "is_run_id ''RUN-002''" "is_experiment_id ''ZC-VPN-EXP-001''"
    "is_git_commit ''abcdef0''"
  by (simp_all add: is_run_id_def strip_prefix_def digits_between_def is_digit_def is_experiment_id_def
      experiment_id_domain_def is_git_commit_def is_hex_def)

lemma demo_request_ok:
  "safe_to_run (rq_experiment (demo_request AS_APPROVED)) (rq_execution_context (demo_request AS_APPROVED))"
  "check_request (demo_request AS_APPROVED) = Inr ()"
  "dataset_of demo_env (rq_dataset_path (demo_request AS_APPROVED)) demo_test_set (sha256_hex ''raw'')"
  "ts_domain demo_test_set = ed_domain (rq_experiment (demo_request AS_APPROVED))"
  "is_run_id (rq_baseline_run_id (demo_request AS_APPROVED))"
  "is_run_id (rq_mitigation_run_id (demo_request AS_APPROVED))"
  "is_experiment_id (ed_experiment_id (rq_experiment (demo_request AS_APPROVED)))"
  "is_git_commit (rq_git_commit (demo_request AS_APPROVED))"
  "mono_readings (re_clock demo_env)" "mono_readings (re_perf demo_env)"
  "strategy_ok (rq_baseline (demo_request AS_APPROVED))" "strategy_ok (rq_mitigation (demo_request AS_APPROVED))"
  using demo_dataset
  by (simp_all add: demo_request_def demo_experiment_def safe_to_run_def check_request_Inr demo_test_set_def demo_ids
      mono_readings_def demo_env_def WeakSchemaLengthBaseline_def StrictSchemaCanonicalisationMitigation_def
      registered_strategies_ok strategy_registry_def)

theorem unsafe_never_executes_witness:
  "\<exists>d w'. run demo_env (demo_request AS_DRAFT) demo_world = (Inl (PolicyRefusalError d), w')
     \<and> rw_trace w' = [Emitted RE_SAFETY_CHECK]"
  using unsafe_never_executes [of "demo_request AS_DRAFT" demo_env demo_world]
  by (auto simp: demo_request_def demo_experiment_def safe_to_run_def demo_world_def sent_def demo_env_def)

theorem run_faithful_witness:
  "\<exists>x w'. run demo_env (demo_request AS_APPROVED) demo_world = (Inr x, w')
     \<and> rw_trace w' = [Emitted RE_SAFETY_CHECK, DatasetRead (PyPath [] [''d.json'']), Emitted RE_RUNNING_BASELINE,
         ProcessCall ''weak_schema_length_baseline'' ''A'', Emitted RE_RUNNING_MITIGATION,
         ProcessCall ''strict_schema_canonicalisation_mitigation'' ''A'']"
proof -
  obtain x w' where x: "run demo_env (demo_request AS_APPROVED) demo_world = (Inr x, w')"
    using run_total [OF demo_request_ok] by blast
  show ?thesis using run_faithful [OF x] x
    by (auto simp: dataset_of_def demo_env_def demo_test_set_def demo_request_def demo_world_def sent_def calls_def
        WeakSchemaLengthBaseline_def StrictSchemaCanonicalisationMitigation_def)
qed

theorem run_completes_witness:
  "\<exists>x w'. run demo_env (demo_request AS_APPROVED) demo_world = (Inr x, w')
     \<and> length (ro_case_results (xr_baseline x)) = 1 \<and> length (ro_case_results (xr_mitigation x)) = 1"
  using run_completes [OF demo_request_ok, of demo_world]
  by (auto simp: demo_test_set_def dest!: list_all2_lengthD)

end
