(* ===== verification/Evidence.thy ===== *)
theory Evidence
  imports Runner Metrics
begin

text \<open>
  Evidence of a run (\<open>zeroshield.repositories\<close>): the builder of a manifest and its artefacts,
  the integrity check of a manifest, the two backends that keep evidence (a directory tree and an
  object store) and the repository of run events. The backends implement one interface, the locale
  \<open>evidence_store\<close>, in which the immutability of evidence is proved once.

  Serialisation by pydantic is a parameter (\<open>codec\<close>): \<open>model_dump(mode="json")\<close>,
  \<open>model_dump_json\<close> and \<open>model_validate\<close>. \<open>json.dumps\<close> and SHA-256 are modelled.
\<close>

section \<open>\<open>evidence_builder.py\<close>\<close>

record codec =
  cd_manifest_json :: "evidence_manifest \<Rightarrow> pyval"
  cd_case_result_json :: "case_result \<Rightarrow> pyval"
  cd_experiment_text :: "experiment_definition \<Rightarrow> string"
  cd_metrics_text :: "experiment_metrics \<Rightarrow> string"
  cd_manifest_text :: "evidence_manifest \<Rightarrow> string"
  cd_comparison_text :: "comparison_report \<Rightarrow> string"
  cd_manifest_of :: "string \<Rightarrow> exn + evidence_manifest"
  cd_comparison_of :: "string \<Rightarrow> exn + comparison_report"

record evidence_bundle =
  eb_manifest :: evidence_manifest
  eb_artefacts :: "(string \<times> string) list"

definition canonical_json_bytes :: "pyval \<Rightarrow> string" where
  "canonical_json_bytes data = json_canonical data"

definition manifest_digest :: "codec \<Rightarrow> evidence_manifest \<Rightarrow> string" where
  "manifest_digest C m = sha256_hex (canonical_json_bytes (cd_manifest_json C m))"

definition evidence_artefact_paths :: "(string \<times> pypath) list" where
  "evidence_artefact_paths =
     [(''experiment'', path_of_string ''experiment.json''),
      (''dataset_manifest'', path_of_string ''dataset_manifest.json''),
      (''results'', path_of_string ''results.json''),
      (''metrics'', path_of_string ''metrics.json'')]"

definition manifest_with :: "experiment_definition \<Rightarrow> string \<Rightarrow> run_outcome \<Rightarrow> experiment_metrics \<Rightarrow> policy_decision
    \<Rightarrow> string \<Rightarrow> datetime \<Rightarrow> string \<Rightarrow> evidence_manifest" where
  "manifest_with e test_set_id out metrics d manifest_version completed_at manifest_sha256 =
     (let run = ro_run out in
      \<lparr>mf_manifest_version = manifest_version, mf_experiment_id = ed_experiment_id e,
       mf_experiment_version = ed_version e, mf_run_id = er_run_id run, mf_mode = er_mode run,
       mf_test_set_id = test_set_id, mf_test_set_sha256 = er_dataset_hash run,
       mf_git_commit = er_git_commit run, mf_container_image_digest = None,
       mf_started_at = er_started_at run, mf_completed_at = completed_at,
       mf_strategy_id = ro_strategy_id out, mf_metrics = metrics,
       mf_artefact_paths = evidence_artefact_paths, mf_safety_decision = d,
       mf_review_status = ed_approval_status e, mf_manifest_sha256 = manifest_sha256\<rparr>)"

definition build_run_evidence :: "codec \<Rightarrow> experiment_definition \<Rightarrow> string \<Rightarrow> run_outcome \<Rightarrow> experiment_metrics
    \<Rightarrow> policy_decision \<Rightarrow> string \<Rightarrow> exn + evidence_bundle" where
  "build_run_evidence C e test_set_id out metrics d manifest_version =
     (case er_completed_at (ro_run out) of
        None \<Rightarrow> Inl (ValueError ''cannot build evidence for a run that has not completed'')
      | Some completed_at \<Rightarrow>
          let mk = (\<lambda>h. validate_manifest (manifest_with e test_set_id out metrics d manifest_version completed_at h)) in
          bindS (mk (replicate 64 (CHR ''0''))) (\<lambda>unhashed.
          bindS (mk (manifest_digest C unhashed)) (\<lambda>manifest.
          Inr \<lparr>eb_manifest = manifest,
            eb_artefacts =
              [(''experiment.json'', cd_experiment_text C e),
               (''dataset_manifest.json'', json_indent2 (PDict
                 [(''dataset_path'', PStr (path_str (ed_dataset_path e))), (''sha256'', PStr (er_dataset_hash (ro_run out)))])),
               (''results.json'', json_indent2 (PList (map (cd_case_result_json C) (ro_case_results out)))),
               (''metrics.json'', cd_metrics_text C metrics),
               (''manifest.json'', cd_manifest_text C manifest)]\<rparr>)))"

definition verify_manifest_integrity :: "codec \<Rightarrow> evidence_manifest \<Rightarrow> bool" where
  "verify_manifest_integrity C m \<longleftrightarrow> manifest_digest C m = mf_manifest_sha256 m"

section \<open>\<open>evidence_repository.py\<close>: a directory tree\<close>

text \<open>
  The files below the root, keyed by path. A directory is there when it was made or holds a file;
  an empty one makes no difference to any operation here.
\<close>

type_synonym file_tree = "(pypath \<times> string) list"

text \<open>\<open>p / s\<close>.\<close>

definition path_join :: "pypath \<Rightarrow> string \<Rightarrow> pypath" where
  "path_join p s = (let q = path_of_string s in
     if path_root q \<noteq> [] then q else PyPath (path_root p) (path_parts p @ path_parts q))"

definition dir_occupied :: "pypath \<Rightarrow> file_tree \<Rightarrow> bool" where
  "dir_occupied dir files \<longleftrightarrow> list_ex (\<lambda>(p, _). path_root p = path_root dir
     \<and> strict_prefix (path_parts dir) (path_parts p)) files"

definition already_exists :: "string \<Rightarrow> string \<Rightarrow> exn" where
  "already_exists eid rid = EvidenceAlreadyExistsError
     (''evidence already exists for experiment_id='' @ quoted eid @ '' run_id='' @ quoted rid
      @ ''; run directories are immutable once written'')"

definition local_save_run_evidence :: "pypath \<Rightarrow> evidence_bundle \<Rightarrow> file_tree \<Rightarrow> exn + (pypath \<times> file_tree)" where
  "local_save_run_evidence base b files =
     (let eid = mf_experiment_id (eb_manifest b); rid = mf_run_id (eb_manifest b);
          run_dir = path_join (path_join base eid) rid
      in if dir_occupied run_dir files then Inl (already_exists eid rid)
         else Inr (run_dir, fold (\<lambda>(name, content). tbl_upsert fst (path_join run_dir name, content)) (eb_artefacts b) files))"

definition local_load_artefact :: "pypath \<Rightarrow> string \<Rightarrow> string \<Rightarrow> string \<Rightarrow> file_tree \<Rightarrow> exn + string" where
  "local_load_artefact base eid rid filename files =
     (let p = path_join (path_join (path_join base eid) rid) filename in
      case tbl_get fst p files of
        None \<Rightarrow> Inl (FileNotFoundError (path_str p)) | Some (_, content) \<Rightarrow> Inr content)"

definition local_load_manifest :: "codec \<Rightarrow> pypath \<Rightarrow> string \<Rightarrow> string \<Rightarrow> file_tree \<Rightarrow> exn + evidence_manifest" where
  "local_load_manifest C base eid rid files =
     bindS (local_load_artefact base eid rid ''manifest.json'' files) (cd_manifest_of C)"

definition local_save_comparison :: "codec \<Rightarrow> pypath \<Rightarrow> string \<Rightarrow> comparison_report \<Rightarrow> file_tree \<Rightarrow> pypath \<times> file_tree" where
  "local_save_comparison C base eid report files =
     (let path = path_join (path_join base eid) ''comparison.json''
      in (path, tbl_upsert fst (path, cd_comparison_text C report) files))"

definition local_load_comparison :: "codec \<Rightarrow> pypath \<Rightarrow> string \<Rightarrow> file_tree \<Rightarrow> exn + comparison_report option" where
  "local_load_comparison C base eid files =
     (case tbl_get fst (path_join (path_join base eid) ''comparison.json'') files of
        None \<Rightarrow> Inr None
      | Some (_, content) \<Rightarrow> bindS (cd_comparison_of C content) (\<lambda>r. Inr (Some r)))"

section \<open>\<open>minio_evidence_repository.py\<close>: an object store\<close>

type_synonym bucket = "(string \<times> string) list"

definition object_key :: "string \<Rightarrow> string \<Rightarrow> string \<Rightarrow> string" where
  "object_key eid rid filename = eid @ ''/'' @ rid @ ''/'' @ filename"

definition minio_save_run_evidence :: "string \<Rightarrow> evidence_bundle \<Rightarrow> bucket \<Rightarrow> exn + (pypath \<times> bucket)" where
  "minio_save_run_evidence bucket_name b objects =
     (let eid = mf_experiment_id (eb_manifest b); rid = mf_run_id (eb_manifest b)
      in if list_ex (\<lambda>(k, _). prefix (eid @ ''/'' @ rid @ ''/'') k) objects then Inl (already_exists eid rid)
         else Inr (path_join (path_join (path_of_string bucket_name) eid) rid,
           fold (\<lambda>(name, content). tbl_upsert fst (object_key eid rid name, content)) (eb_artefacts b) objects))"

definition minio_load_artefact :: "string \<Rightarrow> string \<Rightarrow> string \<Rightarrow> string \<Rightarrow> bucket \<Rightarrow> exn + string" where
  "minio_load_artefact bucket_name eid rid filename objects =
     (let key = object_key eid rid filename in
      case tbl_get fst key objects of
        None \<Rightarrow> Inl (FileNotFoundError (''no artefact at bucket '' @ quoted bucket_name @ '' key '' @ quoted key))
      | Some (_, content) \<Rightarrow> Inr content)"

definition minio_load_manifest :: "codec \<Rightarrow> string \<Rightarrow> string \<Rightarrow> string \<Rightarrow> bucket \<Rightarrow> exn + evidence_manifest" where
  "minio_load_manifest C bucket_name eid rid objects =
     (let key = object_key eid rid ''manifest.json'' in
      case tbl_get fst key objects of
        None \<Rightarrow> Inl (FileNotFoundError (''no manifest at bucket '' @ quoted bucket_name @ '' key '' @ quoted key))
      | Some (_, content) \<Rightarrow> cd_manifest_of C content)"

definition minio_save_comparison :: "codec \<Rightarrow> string \<Rightarrow> string \<Rightarrow> comparison_report \<Rightarrow> bucket \<Rightarrow> pypath \<times> bucket" where
  "minio_save_comparison C bucket_name eid report objects =
     (path_join (path_join (path_of_string bucket_name) eid) ''comparison.json'',
      tbl_upsert fst (eid @ ''/comparison.json'', cd_comparison_text C report) objects)"

definition minio_load_comparison :: "codec \<Rightarrow> string \<Rightarrow> bucket \<Rightarrow> exn + comparison_report option" where
  "minio_load_comparison C eid objects =
     (case tbl_get fst (eid @ ''/comparison.json'') objects of
        None \<Rightarrow> Inr None
      | Some (_, content) \<Rightarrow> bindS (cd_comparison_of C content) (\<lambda>r. Inr (Some r)))"

section \<open>Integrity of a manifest\<close>

text \<open>The documented meaning of \<open>exclude={"manifest_sha256"}\<close>: the dump does not contain that field.\<close>

definition dump_excludes_digest :: "codec \<Rightarrow> bool" where
  "dump_excludes_digest C \<longleftrightarrow> (\<forall>m h. cd_manifest_json C (m\<lparr>mf_manifest_sha256 := h\<rparr>) = cd_manifest_json C m)"

lemma manifest_with_digest:
  "manifest_with e i out ms d v c h = (manifest_with e i out ms d v c h')\<lparr>mf_manifest_sha256 := h\<rparr>"
  by (simp add: manifest_with_def Let_def)

lemma build_run_evidence_Inr:
  assumes "dump_excludes_digest C" and "build_run_evidence C e i out ms d v = Inr b"
  shows "\<exists>c. er_completed_at (ro_run out) = Some c
    \<and> eb_manifest b = manifest_with e i out ms d v c (mf_manifest_sha256 (eb_manifest b))
    \<and> verify_manifest_integrity C (eb_manifest b)
    \<and> validate_manifest (eb_manifest b) = Inr (eb_manifest b)
    \<and> map_of (eb_artefacts b) ''manifest.json'' = Some (cd_manifest_text C (eb_manifest b))"
proof -
  let ?h0 = "replicate 64 (CHR ''0'')"
  obtain c where c: "er_completed_at (ro_run out) = Some c"
    using assms(2) by (auto simp: build_run_evidence_def split: option.splits)
  obtain u m where u: "validate_manifest (manifest_with e i out ms d v c ?h0) = Inr u"
    and m: "validate_manifest (manifest_with e i out ms d v c (manifest_digest C u)) = Inr m"
    and b: "eb_manifest b = m" "map_of (eb_artefacts b) ''manifest.json'' = Some (cd_manifest_text C m)"
    using assms(2) c by (auto simp: build_run_evidence_def Let_def res_simps)
  have u': "u = manifest_with e i out ms d v c ?h0" and m': "m = manifest_with e i out ms d v c (manifest_digest C u)"
    using u m by (auto dest: validate_manifest_id)
  have "manifest_digest C m = manifest_digest C u"
    using assms(1) manifest_with_digest [of e i out ms d v c "manifest_digest C u" ?h0]
    unfolding u' m' manifest_digest_def dump_excludes_digest_def by metis
  moreover have "mf_manifest_sha256 m = manifest_digest C u" by (simp add: m' manifest_with_def Let_def)
  ultimately show ?thesis using c b u' m' m by (auto simp: verify_manifest_integrity_def)
qed

lemma manifest_with_sel:
  "mf_run_id (manifest_with e i out ms d v c h) = er_run_id (ro_run out)"
  "mf_experiment_id (manifest_with e i out ms d v c h) = ed_experiment_id e"
  "mf_test_set_sha256 (manifest_with e i out ms d v c h) = er_dataset_hash (ro_run out)"
  "mf_strategy_id (manifest_with e i out ms d v c h) = ro_strategy_id out"
  "mf_safety_decision (manifest_with e i out ms d v c h) = d"
  by (simp_all add: manifest_with_def Let_def)

text \<open>
  Evidence verifies: the manifest that \<open>build_run_evidence\<close> returns passes
  \<open>verify_manifest_integrity\<close>, is a valid \<open>EvidenceManifest\<close>, and names the run, the
  dataset hash, the strategy and the safety decision it was built from.
\<close>

lemma built_evidence_verifies:
  assumes "dump_excludes_digest C" and "build_run_evidence C e i out ms d v = Inr b"
  shows "verify_manifest_integrity C (eb_manifest b) \<and> validate_manifest (eb_manifest b) = Inr (eb_manifest b)
    \<and> mf_run_id (eb_manifest b) = er_run_id (ro_run out)
    \<and> mf_test_set_sha256 (eb_manifest b) = er_dataset_hash (ro_run out)
    \<and> mf_strategy_id (eb_manifest b) = ro_strategy_id out \<and> mf_safety_decision (eb_manifest b) = d"
proof -
  obtain c where c: "eb_manifest b = manifest_with e i out ms d v c (mf_manifest_sha256 (eb_manifest b))"
    and ok: "verify_manifest_integrity C (eb_manifest b)" "validate_manifest (eb_manifest b) = Inr (eb_manifest b)"
    using build_run_evidence_Inr [OF assms] by blast
  show ?thesis
    using ok manifest_with_sel [of e i out ms d v c "mf_manifest_sha256 (eb_manifest b)", folded c] by simp
qed

section \<open>The interface of an evidence store\<close>

text \<open>A name that is one segment of a path.\<close>

definition good_part :: "string \<Rightarrow> bool" where
  "good_part s \<longleftrightarrow> s \<noteq> [] \<and> s \<noteq> ''.'' \<and> s \<noteq> ''..'' \<and> CHR ''/'' \<notin> set s"

definition bundle_key :: "evidence_bundle \<Rightarrow> string \<times> string" where
  "bundle_key b = (mf_experiment_id (eb_manifest b), mf_run_id (eb_manifest b))"

definition good_bundle :: "evidence_bundle \<Rightarrow> bool" where
  "good_bundle b \<longleftrightarrow> good_part (mf_experiment_id (eb_manifest b)) \<and> good_part (mf_run_id (eb_manifest b))
     \<and> mf_run_id (eb_manifest b) \<noteq> ''comparison.json''
     \<and> list_all (\<lambda>p. good_part (fst p)) (eb_artefacts b) \<and> distinct (map fst (eb_artefacts b))"

text \<open>The write operations a client can call.\<close>

datatype evidence_op = SaveRun evidence_bundle | SaveComparison string comparison_report

fun good_op :: "evidence_op \<Rightarrow> bool" where
  "good_op (SaveRun b) = good_bundle b"
| "good_op (SaveComparison e r) = good_part e"

text \<open>One operation; a refused one leaves the store alone.\<close>

fun apply_op :: "(evidence_bundle \<Rightarrow> 's \<Rightarrow> exn + (pypath \<times> 's)) \<Rightarrow> (string \<Rightarrow> comparison_report \<Rightarrow> 's \<Rightarrow> pypath \<times> 's)
    \<Rightarrow> evidence_op \<Rightarrow> 's \<Rightarrow> 's" where
  "apply_op save save_cmp (SaveRun b) s = (case save b s of Inl _ \<Rightarrow> s | Inr (_, s') \<Rightarrow> s')"
| "apply_op save save_cmp (SaveComparison e r) s = snd (save_cmp e r s)"

locale evidence_store =
  fixes save :: "evidence_bundle \<Rightarrow> 's \<Rightarrow> exn + (pypath \<times> 's)"
    and load :: "string \<Rightarrow> string \<Rightarrow> string \<Rightarrow> 's \<Rightarrow> exn + string"
    and save_cmp :: "string \<Rightarrow> comparison_report \<Rightarrow> 's \<Rightarrow> pypath \<times> 's"
    and load_cmp :: "string \<Rightarrow> 's \<Rightarrow> exn + comparison_report option"
    and enc :: "comparison_report \<Rightarrow> string"
    and dec :: "string \<Rightarrow> exn + comparison_report"
  assumes load_saved: "\<lbrakk>good_bundle b; save b s = Inr (p, s'); good_part n; map_of (eb_artefacts b) n = Some c\<rbrakk> \<Longrightarrow>
      load (fst (bundle_key b)) (snd (bundle_key b)) n s' = Inr c"
    and load_other: "\<lbrakk>good_bundle b; save b s = Inr (p, s'); good_part eid; good_part rid; good_part n;
      (eid, rid) \<noteq> bundle_key b\<rbrakk> \<Longrightarrow> load eid rid n s' = load eid rid n s"
    and save_refused: "\<lbrakk>good_bundle b; good_part n; load (fst (bundle_key b)) (snd (bundle_key b)) n s = Inr c\<rbrakk> \<Longrightarrow>
      save b s = Inl (already_exists (fst (bundle_key b)) (snd (bundle_key b)))"
    and load_save_cmp: "\<lbrakk>good_part e; good_part eid; good_part rid; good_part n\<rbrakk> \<Longrightarrow>
      load eid rid n (snd (save_cmp e r s)) = load eid rid n s"
    and load_cmp_save_cmp: "\<lbrakk>good_part e; good_part eid\<rbrakk> \<Longrightarrow>
      load_cmp eid (snd (save_cmp e r s)) = (if eid = e then bindS (dec (enc r)) (\<lambda>x. Inr (Some x)) else load_cmp eid s)"
    and load_cmp_save: "\<lbrakk>good_bundle b; save b s = Inr (p, s'); good_part eid\<rbrakk> \<Longrightarrow> load_cmp eid s' = load_cmp eid s"
begin

abbreviation do_op :: "evidence_op \<Rightarrow> 's \<Rightarrow> 's" where
  "do_op \<equiv> apply_op save save_cmp"

lemma op_keeps:
  assumes "good_op a" and "good_part eid" "good_part rid" "good_part n" and "load eid rid n s = Inr c"
  shows "load eid rid n (do_op a s) = Inr c"
proof (cases a)
  case (SaveRun b)
  show ?thesis
  proof (cases "save b s")
    case (Inr x)
    have "(eid, rid) \<noteq> bundle_key b"
      using save_refused [of b n s c] assms SaveRun Inr
      by (metis fst_conv snd_conv good_op.simps(1) sum.distinct(1))
    then show ?thesis using load_other [of b s "fst x" "snd x" eid rid n] assms SaveRun Inr
      by (cases x) simp
  qed (use SaveRun assms in simp)
next
  case (SaveComparison e r)
  then show ?thesis using assms load_save_cmp by simp
qed

text \<open>Immutability: an artefact of a run, once written, stays what it is.\<close>

lemma immutable:
  assumes "list_all good_op ops" and "good_part eid" "good_part rid" "good_part n" and "load eid rid n s = Inr c"
  shows "load eid rid n (fold do_op ops s) = Inr c"
  using assms by (induction ops arbitrary: s) (auto intro: op_keeps)

lemma saved_forever:
  assumes "good_bundle b" and "save b s = Inr (p, s')" and "good_part n" and "map_of (eb_artefacts b) n = Some c"
    and "list_all good_op ops"
  shows "load (fst (bundle_key b)) (snd (bundle_key b)) n (fold do_op ops s') = Inr c"
  using assms by (intro immutable load_saved) (auto simp: good_bundle_def bundle_key_def)

lemma latest_comparison:
  assumes "good_part e" and "dec (enc r) = Inr r"
  shows "load_cmp e (snd (save_cmp e r s)) = Inr (Some r)"
  using assms by (simp add: load_cmp_save_cmp)

end

section \<open>The two backends implement it\<close>

interpretation files: kv_store "tbl_upsert fst" "tbl_get fst" fst "\<lambda>_. True"
  by unfold_locales (simp_all add: tbl_get_upsert)

lemma find_rev_map_of: "distinct (map fst xs) \<Longrightarrow> find (\<lambda>r. fst r = k) (rev xs) = map_option (Pair k) (map_of xs k)"
proof (induction xs)
  case (Cons x xs)
  then have "k = fst x \<Longrightarrow> map_of xs k = None" by (auto simp: map_of_eq_None_iff)
  with Cons show ?case by (cases x) (auto simp: find_append split: option.split)
qed simp

text \<open>Writing the artefacts of a bundle, each under its own key.\<close>

lemma get_fold_upsert:
  assumes "inj f" and "distinct (map fst as)"
  shows "tbl_get fst (f n) (fold (\<lambda>(name, c). tbl_upsert fst (f name, c)) as t) =
    (case map_of as n of None \<Rightarrow> tbl_get fst (f n) t | Some c \<Rightarrow> Some (f n, c))"
proof -
  let ?as = "map (\<lambda>(name, c). (f name, c)) as"
  have "distinct (map fst ?as)"
    using assms by (simp add: case_prod_beta comp_def distinct_map inj_on_def inj_def)
  moreover have "map_of ?as (f n) = map_of as n"
    using assms(1) by (induction as) (auto simp: inj_def)
  moreover have "fold (\<lambda>(name, c). tbl_upsert fst (f name, c)) as t = fold (tbl_upsert fst) ?as t"
    by (simp add: fold_map comp_def case_prod_unfold)
  ultimately show ?thesis
    by (simp add: files.get_puts find_rev_map_of split: option.split)
qed

lemma get_fold_upsert_other:
  assumes "\<And>name. k \<noteq> f name"
  shows "tbl_get fst k (fold (\<lambda>(name, c). tbl_upsert fst (f name, c)) as t) = tbl_get fst k t"
  using assms by (induction as arbitrary: t) (auto simp: tbl_get_upsert)

lemma str_split_no_sep: "sep \<notin> set s \<Longrightarrow> str_split sep s = [s]"
  by (induction s) auto

lemma str_split_sep: "sep \<notin> set s \<Longrightarrow> str_split sep (s @ sep # rest) = s # str_split sep rest"
  by (induction s) auto

lemma path_of_string_good: "good_part s \<Longrightarrow> path_of_string s = PyPath [] [s]"
  by (cases s) (auto simp: path_of_string_def good_part_def str_split_no_sep)

lemma path_join_good: "good_part s \<Longrightarrow> path_join p s = PyPath (path_root p) (path_parts p @ [s])"
  by (simp add: path_join_def path_of_string_good Let_def)

text \<open>The directory tree.\<close>

lemma local_run_dir:
  "good_part e \<Longrightarrow> good_part r \<Longrightarrow> path_join (path_join base e) r = PyPath (path_root base) (path_parts base @ [e, r])"
  by (simp add: path_join_good)

lemma local_key:
  "good_part e \<Longrightarrow> good_part r \<Longrightarrow> good_part n \<Longrightarrow>
     path_join (path_join (path_join base e) r) n = PyPath (path_root base) (path_parts base @ [e, r, n])"
  by (simp add: path_join_good)

lemma good_comparison_json: "good_part ''comparison.json''"
  by (simp add: good_part_def)

lemma local_occupied:
  assumes "tbl_get fst (PyPath (path_root base) (path_parts base @ [e, r, n])) files \<noteq> None"
  shows "dir_occupied (PyPath (path_root base) (path_parts base @ [e, r])) files"
proof -
  obtain x where "x \<in> set files" "fst x = PyPath (path_root base) (path_parts base @ [e, r, n])"
    using assms by (auto dest: tbl_get_SomeD)
  then show ?thesis by (auto simp: dir_occupied_def list_ex_iff strict_prefix_def intro!: bexI [of _ x])
qed

lemma local_save_eq:
  assumes "good_bundle b" and "local_save_run_evidence base b s = Inr (p, s')"
  shows "s' = fold (\<lambda>(name, content). tbl_upsert fst
      (PyPath (path_root base) (path_parts base @ [fst (bundle_key b), snd (bundle_key b), name]), content)) (eb_artefacts b) s"
    and "\<not> dir_occupied (PyPath (path_root base) (path_parts base @ [fst (bundle_key b), snd (bundle_key b)])) s"
proof -
  have good: "good_part (fst (bundle_key b))" "good_part (snd (bundle_key b))"
    "\<And>x. x \<in> set (eb_artefacts b) \<Longrightarrow> good_part (fst x)"
    using assms(1) by (auto simp: good_bundle_def bundle_key_def list_all_iff)
  show "s' = fold (\<lambda>(name, content). tbl_upsert fst
      (PyPath (path_root base) (path_parts base @ [fst (bundle_key b), snd (bundle_key b), name]), content)) (eb_artefacts b) s"
    and "\<not> dir_occupied (PyPath (path_root base) (path_parts base @ [fst (bundle_key b), snd (bundle_key b)])) s"
    using assms(2) good
    by (auto simp: local_save_run_evidence_def Let_def bundle_key_def path_join_good split: if_splits
        intro!: fold_cong)
qed

interpretation local_store: evidence_store "local_save_run_evidence base" "local_load_artefact base"
  "local_save_comparison C base" "local_load_comparison C base" "cd_comparison_text C" "cd_comparison_of C"
proof unfold_locales
  fix b s p s' n c assume b: "good_bundle b" and sv: "local_save_run_evidence base b s = Inr (p, s')"
    and n: "good_part n" and c: "map_of (eb_artefacts b) n = Some c"
  have g: "good_part (fst (bundle_key b))" "good_part (snd (bundle_key b))" "distinct (map fst (eb_artefacts b))"
    using b by (auto simp: good_bundle_def bundle_key_def)
  show "local_load_artefact base (fst (bundle_key b)) (snd (bundle_key b)) n s' = Inr c"
    unfolding local_save_eq [OF b sv] local_load_artefact_def Let_def local_key [OF g(1,2) n]
    by (subst get_fold_upsert) (use g c in \<open>auto simp: inj_def\<close>)
next
  fix b s p s' eid rid n assume b: "good_bundle b" and sv: "local_save_run_evidence base b s = Inr (p, s')"
    and g: "good_part eid" "good_part rid" "good_part n" and ne: "(eid, rid) \<noteq> bundle_key b"
  show "local_load_artefact base eid rid n s' = local_load_artefact base eid rid n s"
    unfolding local_save_eq [OF b sv] local_load_artefact_def Let_def local_key [OF g]
    by (subst get_fold_upsert_other) (use ne in auto)
next
  fix b n s c assume b: "good_bundle b" and n: "good_part n"
    and l: "local_load_artefact base (fst (bundle_key b)) (snd (bundle_key b)) n s = Inr c"
  have g: "good_part (fst (bundle_key b))" "good_part (snd (bundle_key b))"
    using b by (auto simp: good_bundle_def bundle_key_def)
  have "dir_occupied (PyPath (path_root base) (path_parts base @ [fst (bundle_key b), snd (bundle_key b)])) s"
    using l by (intro local_occupied [of _ _ _ n]) (auto simp: local_load_artefact_def Let_def local_key g n split: option.splits)
  then show "local_save_run_evidence base b s = Inl (already_exists (fst (bundle_key b)) (snd (bundle_key b)))"
    using g by (simp add: local_save_run_evidence_def Let_def bundle_key_def path_join_good)
next
  show "local_load_artefact base eid rid n (snd (local_save_comparison C base e r s)) = local_load_artefact base eid rid n s"
    if "good_part e" "good_part eid" "good_part rid" "good_part n" for e eid rid n r s
    using that good_comparison_json
    by (simp add: local_load_artefact_def local_save_comparison_def Let_def tbl_get_upsert path_join_good)
  show "local_load_comparison C base eid (snd (local_save_comparison C base e r s)) =
      (if eid = e then bindS (cd_comparison_of C (cd_comparison_text C r)) (\<lambda>x. Inr (Some x))
       else local_load_comparison C base eid s)"
    if "good_part e" "good_part eid" for e eid r s
    using that good_comparison_json
    by (simp add: local_load_comparison_def local_save_comparison_def Let_def tbl_get_upsert path_join_good)
next
  fix b s p s' eid assume b: "good_bundle b" and sv: "local_save_run_evidence base b s = Inr (p, s')" and g: "good_part eid"
  show "local_load_comparison C base eid s' = local_load_comparison C base eid s"
    unfolding local_save_eq [OF b sv] local_load_comparison_def path_join_good [OF g] path_join_good [OF good_comparison_json]
    by (subst get_fold_upsert_other) simp_all
qed

text \<open>The object store.\<close>

lemma split_object_key:
  assumes "good_part e" "good_part r"
  shows "str_split (CHR ''/'') (object_key e r n) = e # r # str_split (CHR ''/'') n"
  using assms by (simp add: object_key_def good_part_def str_split_sep)

lemma object_key_inj:
  assumes "good_part e" "good_part r" "good_part e'" "good_part r'" and "object_key e r n = object_key e' r' n'"
  shows "e = e' \<and> r = r'"
  using arg_cong [OF assms(5), of "str_split (CHR ''/'')"] assms(1-4) by (simp add: split_object_key)

lemma split_comparison_key:
  assumes "good_part e"
  shows "str_split (CHR ''/'') (e @ ''/comparison.json'') = [e, ''comparison.json'']"
  using assms by (simp add: good_part_def str_split_sep)

lemma comparison_key_neq:
  assumes "good_part e" "good_part r" "good_part e'"
  shows "object_key e r n \<noteq> e' @ ''/comparison.json''"
proof
  assume "object_key e r n = e' @ ''/comparison.json''"
  from arg_cong [OF this, of "str_split (CHR ''/'')"] show False
    using assms by (simp add: split_object_key split_comparison_key)
qed

lemma minio_save_eq:
  assumes "good_bundle b" and "minio_save_run_evidence bn b s = Inr (p, s')"
  shows "s' = fold (\<lambda>(name, content). tbl_upsert fst
      (object_key (fst (bundle_key b)) (snd (bundle_key b)) name, content)) (eb_artefacts b) s"
  using assms by (auto simp: minio_save_run_evidence_def Let_def bundle_key_def split: if_splits)

interpretation minio_store: evidence_store "minio_save_run_evidence bn" "minio_load_artefact bn"
  "minio_save_comparison C bn" "minio_load_comparison C" "cd_comparison_text C" "cd_comparison_of C"
proof unfold_locales
  fix b s p s' n c assume b: "good_bundle b" and sv: "minio_save_run_evidence bn b s = Inr (p, s')"
    and n: "good_part n" and c: "map_of (eb_artefacts b) n = Some c"
  have g: "distinct (map fst (eb_artefacts b))" using b by (auto simp: good_bundle_def)
  show "minio_load_artefact bn (fst (bundle_key b)) (snd (bundle_key b)) n s' = Inr c"
    unfolding minio_save_eq [OF b sv] minio_load_artefact_def Let_def
    by (subst get_fold_upsert) (use g c in \<open>auto simp: inj_def object_key_def\<close>)
next
  fix b s p s' eid rid n assume b: "good_bundle b" and sv: "minio_save_run_evidence bn b s = Inr (p, s')"
    and g: "good_part eid" "good_part rid" "good_part n" and ne: "(eid, rid) \<noteq> bundle_key b"
  have "object_key eid rid n \<noteq> object_key (fst (bundle_key b)) (snd (bundle_key b)) name" for name
    using object_key_inj [of eid rid "fst (bundle_key b)" "snd (bundle_key b)" n name] g ne b
    by (auto simp: good_bundle_def bundle_key_def)
  then show "minio_load_artefact bn eid rid n s' = minio_load_artefact bn eid rid n s"
    unfolding minio_save_eq [OF b sv] minio_load_artefact_def Let_def by (subst get_fold_upsert_other) auto
next
  fix b n s c assume b: "good_bundle b" and n: "good_part n"
    and l: "minio_load_artefact bn (fst (bundle_key b)) (snd (bundle_key b)) n s = Inr c"
  obtain x where x: "x \<in> set s" "fst x = object_key (fst (bundle_key b)) (snd (bundle_key b)) n"
    using l by (auto simp: minio_load_artefact_def Let_def split: option.splits dest: tbl_get_SomeD)
  then have "list_ex (\<lambda>(k, _). prefix (fst (bundle_key b) @ ''/'' @ snd (bundle_key b) @ ''/'') k) s"
    by (auto simp: list_ex_iff object_key_def intro!: bexI [of _ x])
  then show "minio_save_run_evidence bn b s = Inl (already_exists (fst (bundle_key b)) (snd (bundle_key b)))"
    by (simp add: minio_save_run_evidence_def Let_def bundle_key_def)
next
  show "minio_load_artefact bn eid rid n (snd (minio_save_comparison C bn e r s)) = minio_load_artefact bn eid rid n s"
    if "good_part e" "good_part eid" "good_part rid" "good_part n" for e eid rid n r s
    using that comparison_key_neq [of eid rid e n]
    by (simp add: minio_load_artefact_def minio_save_comparison_def Let_def tbl_get_upsert)
  show "minio_load_comparison C eid (snd (minio_save_comparison C bn e r s)) =
      (if eid = e then bindS (cd_comparison_of C (cd_comparison_text C r)) (\<lambda>x. Inr (Some x))
       else minio_load_comparison C eid s)"
    if "good_part e" "good_part eid" for e eid r s
    using that by (simp add: minio_load_comparison_def minio_save_comparison_def tbl_get_upsert)
next
  fix b s p s' eid assume b: "good_bundle b" and sv: "minio_save_run_evidence bn b s = Inr (p, s')" and g: "good_part eid"
  have "eid @ ''/comparison.json'' \<noteq> object_key (fst (bundle_key b)) (snd (bundle_key b)) name" for name
    using comparison_key_neq [of "fst (bundle_key b)" "snd (bundle_key b)" eid name] b g
    by (auto simp: good_bundle_def bundle_key_def)
  then show "minio_load_comparison C eid s' = minio_load_comparison C eid s"
    unfolding minio_save_eq [OF b sv] minio_load_comparison_def by (subst get_fold_upsert_other) auto
qed

text \<open>Identifiers that pass their patterns are single path segments.\<close>

lemma digits_no_slash: "list_all is_digit s \<Longrightarrow> CHR ''/'' \<notin> set s"
  by (induction s) (auto simp: is_digit_def)

lemma strip_prefixD: "strip_prefix p s = Some r \<Longrightarrow> s = p @ r"
  by (auto simp: strip_prefix_def prefix_def split: if_splits)

lemma run_id_good: "is_run_id r \<Longrightarrow> good_part r \<and> r \<noteq> ''comparison.json''"
  by (auto simp: is_run_id_def digits_between_def good_part_def split: option.splits
      dest!: strip_prefixD digits_no_slash)

lemma experiment_id_good: "is_experiment_id e \<Longrightarrow> good_part e"
  by (auto simp: is_experiment_id_def experiment_id_domain_def digits_between_def good_part_def
      split: option.splits if_splits dest!: strip_prefixD digits_no_slash)

lemma built_bundle_good:
  assumes "build_run_evidence C e i out ms d v = Inr b"
  shows "good_bundle b"
proof -
  have "validate_manifest (eb_manifest b) = Inr (eb_manifest b) \<and> map fst (eb_artefacts b) =
      [''experiment.json'', ''dataset_manifest.json'', ''results.json'', ''metrics.json'', ''manifest.json'']"
    using assms validate_manifest_id
    by (fastforce simp: build_run_evidence_def Let_def res_simps split: option.splits)
  moreover from this have "manifest_fields_ok (eb_manifest b)" by (auto simp: validate_manifest_def res_simps)
  moreover have "list_all (\<lambda>p. good_part (fst p)) xs \<longleftrightarrow> list_all good_part (map fst xs)" for xs :: "(string \<times> string) list"
    by (simp add: list_all_iff)
  ultimately show ?thesis
    by (simp add: good_bundle_def manifest_fields_ok_def run_id_good experiment_id_good) (simp add: good_part_def)
qed

section \<open>Immutability of evidence\<close>


definition demo_outcome :: run_outcome where
  "demo_outcome =
     \<lparr>ro_run = \<lparr>er_run_id = ''RUN-002'', er_experiment_id = ''ZC-VPN-EXP-001'', er_mode = MITIGATED,
        er_dataset_hash = sha256_hex ''raw'', er_git_commit = ''abcdef0'', er_environment = [(''k'', ''v'')],
        er_started_at = 0, er_completed_at = Some 1, er_status = RS_COMPLETED\<rparr>,
      ro_strategy_id = ''strict'', ro_case_results = []\<rparr>"

definition demo_decision :: policy_decision where
  "demo_decision = \<lparr>pd_allowed = True, pd_evaluated_at = 0, pd_rule_results = [(''SAFE-001'', True)],
     pd_reasons = [], pd_policy_version = ''1.0.0''\<rparr>"

definition demo_manifest :: evidence_manifest where
  "demo_manifest = manifest_with (demo_experiment AS_APPROVED) ''T'' demo_outcome (demo_metrics ''RUN-002'' 1)
     demo_decision ''1.0.0'' 1 (sha256_hex ''null'')"

definition demo_codec :: codec where
  "demo_codec =
     \<lparr>cd_manifest_json = (\<lambda>_. PNone), cd_case_result_json = (\<lambda>_. PNone), cd_experiment_text = (\<lambda>_. []),
      cd_metrics_text = (\<lambda>_. []), cd_manifest_text = (\<lambda>_. ''m''), cd_comparison_text = (\<lambda>_. []),
      cd_manifest_of = (\<lambda>_. Inr demo_manifest), cd_comparison_of = (\<lambda>_. Inl (ValueError []))\<rparr>"

lemma demo_artefact_paths_ok:
  "filter (\<lambda>p. is_unsafe_relative_path (snd p)) evidence_artefact_paths = []" "evidence_artefact_paths \<noteq> []"
  by (simp_all add: evidence_artefact_paths_def path_of_string_good good_part_def is_unsafe_relative_path_def
      path_str_def drive_letter_match_def)

lemma demo_manifest_valid:
  assumes "is_sha256 h"
  shows "validate_manifest (manifest_with (demo_experiment AS_APPROVED) ''T'' demo_outcome (demo_metrics ''RUN-002'' 1)
     demo_decision ''1.0.0'' 1 h) = Inr (manifest_with (demo_experiment AS_APPROVED) ''T'' demo_outcome
     (demo_metrics ''RUN-002'' 1) demo_decision ''1.0.0'' 1 h)"
  using assms demo_artefact_paths_ok demo_ids
  by (simp add: validate_manifest_def raise_if_def manifest_with_def Let_def demo_outcome_def demo_experiment_def
      manifest_fields_ok_def demo_metrics_def ne_def is_strategy_id_def is_alpha_def lower_char_def)

lemma demo_digest: "manifest_digest demo_codec m = sha256_hex ''null''"
  by (simp add: manifest_digest_def demo_codec_def canonical_json_bytes_def)

lemma demo_zeros: "is_sha256 (replicate 64 (CHR ''0''))"
  by (simp add: is_sha256_def is_hex_def is_digit_def list_all_iff)

lemma demo_build:
  "\<exists>b. build_run_evidence demo_codec (demo_experiment AS_APPROVED) ''T'' demo_outcome (demo_metrics ''RUN-002'' 1)
     demo_decision ''1.0.0'' = Inr b \<and> eb_manifest b = demo_manifest"
proof -
  have c: "er_completed_at (ro_run demo_outcome) = Some 1" by (simp add: demo_outcome_def)
  show ?thesis
    unfolding build_run_evidence_def c option.case Let_def demo_manifest_valid [OF demo_zeros] bindS_Inr demo_digest
      demo_manifest_valid [OF is_sha256_hex] demo_manifest_def by simp
qed

lemma built_evidence_verifies_example:
  "\<exists>b. build_run_evidence demo_codec (demo_experiment AS_APPROVED) ''T'' demo_outcome (demo_metrics ''RUN-002'' 1)
     demo_decision ''1.0.0'' = Inr b \<and> verify_manifest_integrity demo_codec (eb_manifest b)"
proof -
  have "dump_excludes_digest demo_codec" by (simp add: dump_excludes_digest_def demo_codec_def)
  then show ?thesis using demo_build built_evidence_verifies by blast
qed


end
