(* ===== verification/Sandbox.thy ===== *)
theory Sandbox
  imports Runner
begin

text \<open>
  The sandbox (\<open>zeroshield.sandbox\<close>): \<open>SandboxExecutor.execute\<close> with its allow-list, its time limit and
  the two guards around the call, and the temporary workspace. The guards act on the process: its state is the
  function bound to \<open>socket.socket\<close>, the sockets opened so far, the limit of the address space, the memory in
  use and the temporary directories. What a strategy does to the process is a tree of requests
  (\<open>script\<close>); a strategy of the registry makes none. Whether the operating system accepts a limit and whether it
  has the \<open>resource\<close> module are parameters.
\<close>

section \<open>The process\<close>

datatype socket_binding = OriginalSocket | BlockedSocket

type_synonym rlimit = "int option"

text \<open>A limit is \<open>None\<close> when it is \<open>RLIM_INFINITY\<close>.\<close>

record process_state =
  ps_socket :: socket_binding
  ps_opened :: nat
  ps_limits :: "rlimit \<times> rlimit"
  ps_memory :: int
  ps_dirs :: "string list"

type_synonym ('e, 'a) process_m = "(process_state, 'e, 'a) eff"

record sandbox_host =
  sh_has_resource :: bool
  sh_accepts :: "rlimit \<times> rlimit \<Rightarrow> rlimit \<times> rlimit \<Rightarrow> bool"

text \<open>
  A call of \<open>socket.socket\<close> and an allocation, with the continuation that gets the exception raised, if any: a
  strategy may catch it.
\<close>

datatype script =
    Finish "py_exc + strategy_outcome"
  | OpenSocket "py_exc option \<Rightarrow> script"
  | Allocate int "py_exc option \<Rightarrow> script"

definition in_limit :: "int \<Rightarrow> rlimit \<Rightarrow> bool" where
  "in_limit n l \<longleftrightarrow> (case l of None \<Rightarrow> True | Some m \<Rightarrow> n \<le> m)"

definition NETWORK_DENIED :: py_exc where
  "NETWORK_DENIED = PyExc ''SandboxNetworkDeniedError'' ''network access is disabled in this sandbox context''"

primrec run_script :: "script \<Rightarrow> (py_exc, strategy_outcome) process_m" where
  "run_script (Finish r) w = (r, w)"
| "run_script (OpenSocket k) w =
     (case ps_socket w of
        BlockedSocket \<Rightarrow> run_script (k (Some NETWORK_DENIED)) w
      | OriginalSocket \<Rightarrow> run_script (k None) (w\<lparr>ps_opened := Suc (ps_opened w)\<rparr>))"
| "run_script (Allocate n k) w =
     (if in_limit (ps_memory w + n) (fst (ps_limits w)) then run_script (k None) (w\<lparr>ps_memory := ps_memory w + n\<rparr>)
      else run_script (k (Some (PyExc ''MemoryError'' []))) w)"

text \<open>\<open>try: m finally: f\<close>: an exception of the clean-up takes the place of the result.\<close>

definition finallyE :: "('s, 'e, 'a) eff \<Rightarrow> ('s, 'e, unit) eff \<Rightarrow> ('s, 'e, 'a) eff" where
  "finallyE m f w = (case m w of (r, w') \<Rightarrow> (case f w' of (Inl e, w'') \<Rightarrow> (Inl e, w'') | (Inr _, w'') \<Rightarrow> (r, w'')))"

section \<open>\<open>sandbox/executor.py\<close>\<close>

record sandbox_limits =
  sl_timeout_seconds :: float64
  sl_max_memory_bytes :: "int option"
  sl_network_enabled :: bool

definition default_sandbox_limits :: sandbox_limits where
  "default_sandbox_limits = \<lparr>sl_timeout_seconds = 5, sl_max_memory_bytes = Some (256 * 1024 * 1024),
     sl_network_enabled = False\<rparr>"

definition bind_socket :: "socket_binding \<Rightarrow> (exn, unit) process_m" where
  "bind_socket b = modifyE (\<lambda>w. w\<lparr>ps_socket := b\<rparr>)"

definition network_guard :: "bool \<Rightarrow> (exn, 'a) process_m \<Rightarrow> (exn, 'a) process_m" where
  "network_guard enabled body w =
     (if enabled then body w
      else let original_socket = ps_socket w in
        bindE (bind_socket BlockedSocket) (\<lambda>_. finallyE body (bind_socket original_socket)) w)"

definition setrlimit :: "sandbox_host \<Rightarrow> rlimit \<times> rlimit \<Rightarrow> (exn, unit) process_m" where
  "setrlimit H l w =
     (if sh_accepts H (ps_limits w) l then (Inr (), w\<lparr>ps_limits := l\<rparr>)
      else (Inl (ValueError ''not allowed to raise maximum limit''), w))"

text \<open>An \<open>execute\<close> that could not set the limit logs it and runs the body without.\<close>

definition resource_guard :: "sandbox_host \<Rightarrow> int option \<Rightarrow> (exn, 'a) process_m \<Rightarrow> (exn, 'a) process_m" where
  "resource_guard H max_memory_bytes body w =
     (case max_memory_bytes of
        None \<Rightarrow> body w
      | Some n \<Rightarrow>
          if \<not> sh_has_resource H then body w
          else
            let (soft, hard) = ps_limits w;
                new_limit = (case hard of None \<Rightarrow> n | Some h \<Rightarrow> min n h) in
            (case setrlimit H (Some new_limit, hard) w of
               (Inl _, w') \<Rightarrow> body w'
             | (Inr _, w') \<Rightarrow> finallyE body (setrlimit H (soft, hard)) w'))"

text \<open>
  A strategy in the sandbox: its identifier and its script for each input. \<open>execute\<close> submits the call to a
  thread pool and waits for the result for the time limit; \<open>seconds\<close> is the time that the strategy takes
  (\<open>None\<close> when it never returns). The \<open>except\<close> clause catches \<open>TimeoutError\<close>, which is also the
  class of a time-out raised by the strategy itself. Leaving the \<open>with\<close> block shuts the pool down and waits for
  its thread, on the time-out path too: the call only returns (\<open>Some\<close>) when the strategy has. Any other
  exception of the strategy reaches the caller.
\<close>

record sandboxed =
  sx_strategy_id :: string
  sx_script :: "pydict \<Rightarrow> script"

datatype sandbox_result = StrategyRaised py_exc | StrategyReturned strategy_outcome

definition in_sandbox :: "strategy \<Rightarrow> sandboxed" where
  "in_sandbox s = \<lparr>sx_strategy_id = st_strategy_id s, sx_script = (\<lambda>input. Finish (st_process s input))\<rparr>"

definition sandbox_timeout :: "sandboxed \<Rightarrow> sandbox_limits \<Rightarrow> exn" where
  "sandbox_timeout s limits = SandboxTimeoutError
     (''strategy '' @ quoted (sx_strategy_id s) @ '' exceeded the '' @ repr_float (sl_timeout_seconds limits)
      @ ''s sandbox timeout'')"

definition pool_call :: "sandboxed \<Rightarrow> pydict \<Rightarrow> sandbox_limits \<Rightarrow> float64 \<Rightarrow> (exn, sandbox_result) process_m" where
  "pool_call s input limits t w =
     (case run_script (sx_script s input) w of (r, w') \<Rightarrow>
        ((if sl_timeout_seconds limits < t then Inl (sandbox_timeout s limits)
          else case r of
              Inr out \<Rightarrow> Inr (StrategyReturned out)
            | Inl exc \<Rightarrow>
                if exc_class exc = ''TimeoutError'' then Inl (sandbox_timeout s limits)
                else Inr (StrategyRaised exc)), w'))"

definition not_allowed :: "string list option \<Rightarrow> string \<Rightarrow> exn option" where
  "not_allowed allowed sid =
     (case allowed of
        None \<Rightarrow> None
      | Some ids \<Rightarrow>
          if sid \<in> set ids then None
          else Some (SandboxForbiddenExecutorError
            (''strategy_id '' @ quoted sid @ '' is not allow-listed for this sandbox context; allowed: ''
             @ repr_str_list (sort (remdups ids)))))"

definition sandbox_execute :: "sandbox_host \<Rightarrow> string list option \<Rightarrow> sandboxed \<Rightarrow> pydict \<Rightarrow> sandbox_limits option
    \<Rightarrow> float64 option \<Rightarrow> process_state \<Rightarrow> ((exn + sandbox_result) \<times> process_state) option" where
  "sandbox_execute H allowed s input limits_opt seconds w =
     (let limits = (case limits_opt of None \<Rightarrow> default_sandbox_limits | Some l \<Rightarrow> l) in
      case not_allowed allowed (sx_strategy_id s) of
        Some exc \<Rightarrow> Some (Inl exc, w)
      | None \<Rightarrow>
          (case seconds of
             None \<Rightarrow> None
           | Some t \<Rightarrow>
               Some (network_guard (sl_network_enabled limits)
                 (resource_guard H (sl_max_memory_bytes limits) (pool_call s input limits t)) w)))"

section \<open>\<open>sandbox/workspace.py\<close>\<close>

text \<open>\<open>unique\<close> is the part of the name that \<open>tempfile\<close> chooses.\<close>

definition sandbox_workspace :: "string \<Rightarrow> string \<Rightarrow> (string \<Rightarrow> (exn, 'a) process_m) \<Rightarrow> (exn, 'a) process_m" where
  "sandbox_workspace prefix_name unique body =
     (let tmp_dir = prefix_name @ unique in
      bindE (modifyE (\<lambda>w. w\<lparr>ps_dirs := tmp_dir # ps_dirs w\<rparr>)) (\<lambda>_.
      finallyE (body tmp_dir) (modifyE (\<lambda>w. w\<lparr>ps_dirs := removeAll tmp_dir (ps_dirs w)\<rparr>))))"

section \<open>What a script can do\<close>

lemma run_script_keeps:
  "ps_socket (snd (run_script p w)) = ps_socket w \<and> ps_limits (snd (run_script p w)) = ps_limits w
   \<and> ps_dirs (snd (run_script p w)) = ps_dirs w"
  by (induction p arbitrary: w) (auto split: socket_binding.split)

lemma blocked_opens_nothing:
  "ps_socket w = BlockedSocket \<Longrightarrow> ps_opened (snd (run_script p w)) = ps_opened w"
  by (induction p arbitrary: w) auto

lemma script_memory:
  "fst (ps_limits w) = Some m \<Longrightarrow> ps_memory (snd (run_script p w)) \<le> max m (ps_memory w)"
proof (induction p arbitrary: w)
  case (OpenSocket k)
  then show ?case
    using OpenSocket.IH [of "k None" "w\<lparr>ps_opened := Suc (ps_opened w)\<rparr>"] by (auto split: socket_binding.split)
next
  case (Allocate n k)
  show ?case
  proof (cases "ps_memory w + n \<le> m")
    case True
    then show ?thesis using Allocate.prems Allocate.IH [of "k None" "w\<lparr>ps_memory := ps_memory w + n\<rparr>"]
      by (simp add: in_limit_def)
  next
    case False
    then show ?thesis using Allocate.prems Allocate.IH by (simp add: in_limit_def)
  qed
qed simp

lemma finallyE_modify: "finallyE m (modifyE f) w = (fst (m w), f (snd (m w)))"
  by (simp add: finallyE_def modifyE_def split: prod.split)

lemma network_guard_eq:
  "network_guard enabled body w =
     (if enabled then body w
      else (fst (body (w\<lparr>ps_socket := BlockedSocket\<rparr>)), (snd (body (w\<lparr>ps_socket := BlockedSocket\<rparr>)))\<lparr>ps_socket := ps_socket w\<rparr>))"
  by (simp add: network_guard_def bind_socket_def finallyE_modify bindE_def modifyE_def Let_def)

lemma pool_call_state: "snd (pool_call s input limits t w) = snd (run_script (sx_script s input) w)"
  by (simp add: pool_call_def split: prod.split)

text \<open>The limits that the memory guard sets, if it sets any.\<close>

definition capped :: "sandbox_host \<Rightarrow> int option \<Rightarrow> rlimit \<times> rlimit \<Rightarrow> (rlimit \<times> rlimit) option" where
  "capped H mx l =
     (case mx of
        None \<Rightarrow> None
      | Some n \<Rightarrow>
          let new = (Some (case snd l of None \<Rightarrow> n | Some h \<Rightarrow> min n h), snd l) in
          if sh_has_resource H \<and> sh_accepts H l new then Some new else None)"

lemma resource_guard_eq:
  "resource_guard H mx body w =
     (case capped H mx (ps_limits w) of
        None \<Rightarrow> body w
      | Some l \<Rightarrow> finallyE body (setrlimit H (ps_limits w)) (w\<lparr>ps_limits := l\<rparr>))"
  by (cases "ps_limits w") (auto simp: resource_guard_def capped_def setrlimit_def Let_def split: option.split)

lemma capped_hard: "capped H mx l = Some l' \<Longrightarrow> snd l' = snd l"
  by (auto simp: capped_def Let_def split: option.splits if_splits)

text \<open>Where the body runs, and what is left of it when the host takes the limits back.\<close>

definition guarded :: "sandbox_host \<Rightarrow> sandbox_limits \<Rightarrow> process_state \<Rightarrow> process_state" where
  "guarded H limits w =
     (let w1 = (if sl_network_enabled limits then w else w\<lparr>ps_socket := BlockedSocket\<rparr>) in
      case capped H (sl_max_memory_bytes limits) (ps_limits w) of None \<Rightarrow> w1 | Some l \<Rightarrow> w1\<lparr>ps_limits := l\<rparr>)"

definition takes_back :: "sandbox_host \<Rightarrow> rlimit \<times> rlimit \<Rightarrow> bool" where
  "takes_back H l \<longleftrightarrow> (\<forall>soft. sh_accepts H (soft, snd l) l)"

lemma same_socket: "ps_socket v = b \<Longrightarrow> v\<lparr>ps_socket := b\<rparr> = v"
  by (cases v) simp

lemma same_limits: "ps_limits v = l \<Longrightarrow> v\<lparr>ps_limits := l\<rparr> = v"
  by (cases v) simp

lemma restored:
  assumes "takes_back H (ps_limits w)" and l: "\<And>v. ps_limits (snd (body v)) = ps_limits v"
    and s: "\<And>v. ps_socket (snd (body v)) = ps_socket v"
  shows "network_guard (sl_network_enabled limits) (resource_guard H (sl_max_memory_bytes limits) body) w
    = (fst (body (guarded H limits w)),
       (snd (body (guarded H limits w)))\<lparr>ps_socket := ps_socket w, ps_limits := ps_limits w\<rparr>)"
proof -
  have r: "resource_guard H (sl_max_memory_bytes limits) body v =
      (case capped H (sl_max_memory_bytes limits) (ps_limits v) of
         None \<Rightarrow> body v
       | Some c \<Rightarrow> (fst (body (v\<lparr>ps_limits := c\<rparr>)), (snd (body (v\<lparr>ps_limits := c\<rparr>)))\<lparr>ps_limits := ps_limits v\<rparr>))"
    if v: "ps_limits v = ps_limits w" for v
  proof (cases "capped H (sl_max_memory_bytes limits) (ps_limits v)")
    case (Some c)
    then have "sh_accepts H c (ps_limits v)"
      using assms(1) capped_hard [OF Some] v by (cases c) (simp add: takes_back_def)
    then show ?thesis
      using l [of "v\<lparr>ps_limits := c\<rparr>"]
      by (cases "body (v\<lparr>ps_limits := c\<rparr>)") (simp add: resource_guard_eq Some finallyE_def setrlimit_def)
  qed (simp add: resource_guard_eq)
  show ?thesis
  proof (cases "sl_network_enabled limits")
    case True
    then show ?thesis
      by (simp add: network_guard_def guarded_def r s l same_socket same_limits split: option.split)
  next
    case False
    then show ?thesis
      by (simp add: network_guard_eq guarded_def r l same_limits split: option.split)
  qed
qed

section \<open>What the sandbox promises\<close>



text \<open>A strategy of the registry asks nothing of the process: in time, the sandbox answers what the strategy answers.\<close>

lemma sandbox_transparent:
  assumes "st_strategy_id s \<in> set ids" and "takes_back H (ps_limits w)" and "t \<le> sl_timeout_seconds limits"
    and "\<And>exc. st_process s input = Inl exc \<Longrightarrow> exc_class exc \<noteq> ''TimeoutError''"
  shows "sandbox_execute H (Some ids) (in_sandbox s) input (Some limits) (Some t) w
    = Some (Inr (case st_process s input of Inl exc \<Rightarrow> StrategyRaised exc | Inr out \<Rightarrow> StrategyReturned out), w)"
proof -
  have g: "(guarded H limits w)\<lparr>ps_socket := ps_socket w, ps_limits := ps_limits w\<rparr> = w"
    by (cases w) (simp add: guarded_def Let_def split: option.split)
  have p: "pool_call (in_sandbox s) input limits t v
      = (Inr (case st_process s input of Inl exc \<Rightarrow> StrategyRaised exc | Inr out \<Rightarrow> StrategyReturned out), v)" for v
    using assms(3,4) by (auto simp: pool_call_def in_sandbox_def split: sum.split)
  show ?thesis
    using assms(1) restored [OF assms(2), of "pool_call (in_sandbox s) input limits t" limits] g
    by (simp add: sandbox_execute_def not_allowed_def in_sandbox_def [of s] p [unfolded in_sandbox_def])
qed

lemma sandbox_hangs:
  "not_allowed allowed (sx_strategy_id s) = None \<Longrightarrow> sandbox_execute H allowed s input limits None w = None"
  by (simp add: sandbox_execute_def Let_def)

text \<open>The limit of the address space only looks at the hard limit: a process with a lower soft limit gets more memory inside.\<close>

lemma resource_guard_can_raise_the_limit:
  "sh_has_resource H \<Longrightarrow> sh_accepts H (Some 1024, None) (Some 268435456, None)
    \<Longrightarrow> capped H (sl_max_memory_bytes default_sandbox_limits) (Some 1024, None) = Some (Some 268435456, None)"
  by (simp add: capped_def default_sandbox_limits_def)

lemma workspace_removed:
  assumes "\<And>v. ps_dirs (snd (body d v)) = ps_dirs v" and "d = p @ u" and "d \<notin> set (ps_dirs w)"
  shows "ps_dirs (snd (sandbox_workspace p u body w)) = ps_dirs w"
  using assms by (simp add: sandbox_workspace_def bindE_def Let_def modifyE_def finallyE_def split_beta)

section \<open>Two sandboxes at once\<close>

text \<open>
  The network guard rebinds a global of the process. Each guard keeps the binding it found; two executors in two threads
  interleave these steps. Guards that are nested put the binding back; guards that overlap do not.
\<close>

datatype guard_event = Enter nat | Leave nat

type_synonym guards = "socket_binding \<times> (nat \<rightharpoonup> socket_binding)"

primrec guard_step :: "guard_event \<Rightarrow> guards \<Rightarrow> guards" where
  "guard_step (Enter i) g = (BlockedSocket, (snd g)(i \<mapsto> fst g))"
| "guard_step (Leave i) g = ((case snd g i of None \<Rightarrow> fst g | Some b \<Rightarrow> b), (snd g)(i := None))"

inductive nested :: "guard_event list \<Rightarrow> bool" where
  nested_Nil: "nested []"
| nested_around: "nested steps \<Longrightarrow> i \<notin> {j. Enter j \<in> set steps \<or> Leave j \<in> set steps} \<Longrightarrow> nested (Enter i # steps @ [Leave i])"
| nested_append: "nested steps \<Longrightarrow> nested steps' \<Longrightarrow> nested (steps @ steps')"

lemma guard_step_other: "Enter i \<noteq> e \<Longrightarrow> Leave i \<noteq> e \<Longrightarrow> snd (guard_step e g) i = snd g i"
  by (cases e) auto

lemma guard_steps_other:
  "Enter i \<notin> set steps \<Longrightarrow> Leave i \<notin> set steps \<Longrightarrow> snd (fold guard_step steps g) i = snd g i"
  by (induction steps arbitrary: g) (simp_all add: guard_step_other)

lemma nested_guards_restore: "nested steps \<Longrightarrow> fst (fold guard_step steps g) = fst g"
proof (induction arbitrary: g rule: nested.induct)
  case (nested_around steps i)
  then show ?case using guard_steps_other [of i steps "guard_step (Enter i) g"] by simp
qed simp_all

lemma overlapping_guards:
  "fst (fold guard_step [Enter 1, Enter 2, Leave 1] (OriginalSocket, Map.empty)) = OriginalSocket"
  "fst (fold guard_step [Enter 1, Enter 2, Leave 1, Leave 2] (OriginalSocket, Map.empty)) = BlockedSocket"
  by simp_all

end
