(* ===== verification/Generators.thy ===== *)
theory Generators
  imports Strategies Py_Encoding
begin

text \<open>
  The dataset generators (\<open>zeroshield.generators\<close>): each builds a test set of valid, boundary
  and malformed requests from a configuration and the draws of a seeded generator, with an expected
  outcome per case. The draws of \<open>random.Random(seed)\<close> are an argument (\<open>rng\<close>): the k-th
  draw is a float in [0, 1) or an integer in the requested range, and the theorems hold for all draws.
\<close>

record rng =
  rg_random :: "nat \<Rightarrow> float64"
  rg_randint :: "nat \<Rightarrow> int \<Rightarrow> int \<Rightarrow> int"

text \<open>What the standard library documents of the draws.\<close>

definition rng_ok :: "rng \<Rightarrow> bool" where
  "rng_ok R \<longleftrightarrow> (\<forall>k lo hi. lo \<le> hi \<longrightarrow> lo \<le> rg_randint R k lo hi \<and> rg_randint R k lo hi \<le> hi)"

text \<open>\<open>d[k] = v\<close> and \<open>{**d, k: v}\<close>: an existing key keeps its place.\<close>

fun dict_set :: "pydict \<Rightarrow> string \<Rightarrow> pyval \<Rightarrow> pydict" where
  "dict_set [] k v = [(k, v)]"
| "dict_set ((j, w) # d) k v = (if j = k then (k, v) # d else (j, w) # dict_set d k v)"

definition gen_case :: "string \<Rightarrow> test_case_category \<Rightarrow> pydict \<Rightarrow> decision \<Rightarrow> string \<Rightarrow> test_case" where
  "gen_case case_id category input_data expected provenance =
     \<lparr>tc_case_id = case_id, tc_category = category, tc_input_data = input_data,
      tc_expected_outcome = expected, tc_provenance = provenance, tc_version = ''1.0.0''\<rparr>"

definition numbered :: "string \<Rightarrow> nat \<Rightarrow> string" where
  "numbered p i = p @ pad_nat 3 (i + 1)"

section \<open>\<open>vpn_generator.py\<close>\<close>

record vpn_generator_config =
  vc_valid_count :: nat
  vc_boundary_count :: nat
  vc_oversized_count :: nat
  vc_duplicate_field_count :: nat
  vc_mismatched_length_count :: nat
  vc_unsupported_encoding_count :: nat
  vc_invalid_path_count :: nat
  vc_max_path_length :: nat
  vc_max_body_length :: nat
  vc_max_header_value_length :: nat

definition validate_vpn_config :: "vpn_generator_config \<Rightarrow> exn + vpn_generator_config" where
  "validate_vpn_config c =
     bindS (raise_if (\<not> (vc_valid_count c \<le> 50 \<and> vc_boundary_count c \<le> 10 \<and> vc_oversized_count c \<le> 20
         \<and> vc_duplicate_field_count c \<le> 20 \<and> vc_mismatched_length_count c \<le> 20
         \<and> vc_unsupported_encoding_count c \<le> 20 \<and> vc_invalid_path_count c \<le> 20
         \<and> 0 < vc_max_path_length c \<and> 0 < vc_max_body_length c \<and> 0 < vc_max_header_value_length c))
       (ValidationError ''VPNGeneratorConfig'' ''fields'')) (\<lambda>_. Inr c)"

definition vpn_default_config :: vpn_generator_config where
  "vpn_default_config =
     \<lparr>vc_valid_count = 4, vc_boundary_count = 1, vc_oversized_count = 2, vc_duplicate_field_count = 2,
      vc_mismatched_length_count = 2, vc_unsupported_encoding_count = 2, vc_invalid_path_count = 2,
      vc_max_path_length = 256, vc_max_body_length = 8192, vc_max_header_value_length = 512\<rparr>"

definition vpn_VALID_PATHS :: "string list" where
  "vpn_VALID_PATHS = [''/remote/login'', ''/remote/logincheck'', ''/remote/fgt_lang'', ''/remote/index'']"

definition vpn_UNSUPPORTED_ENCODINGS :: "string list" where
  "vpn_UNSUPPORTED_ENCODINGS = [''utf-7'', ''cesu-8'', ''unspecified-binary'']"

definition vpn_PATH_TRAVERSAL_PATTERNS :: "string list" where
  "vpn_PATH_TRAVERSAL_PATTERNS =
     [''/remote/../../internal/synthetic-config'', ''/remote/%2e%2e/%2e%2e/internal/synthetic-config'',
      ''/remote/login%00.synthetic'']"

definition vpn_request :: "string \<Rightarrow> string \<Rightarrow> pydict" where
  "vpn_request method path =
     [(''method'', PStr method), (''path'', PStr path),
      (''headers'', PList [PList [PStr ''Host'', PStr ''vpn.example.local'']]),
      (''declared_content_length'', PInt 0), (''actual_body_length'', PInt 0), (''encoding'', PStr ''utf-8'')]"

definition vpn_base_request :: "string \<Rightarrow> pydict" where
  "vpn_base_request path = vpn_request ''GET'' path"

text \<open>The seven loops of \<open>_build_test_set\<close>, each with the number of the first draw it takes.\<close>

definition vpn_valid_cases :: "rng \<Rightarrow> nat \<Rightarrow> test_case list" where
  "vpn_valid_cases R n =
     map (\<lambda>i. gen_case (numbered ''VPN-GEN-VALID-'' i) TC_VALID
       (vpn_request (if rg_random R i < 1 / 2 then ''GET'' else ''POST'') (vpn_VALID_PATHS ! (i mod 4)))
       ACCEPTED ''deterministic synthetic valid pre-auth request'') [0..<n]"

definition vpn_boundary_cases :: "nat \<Rightarrow> nat \<Rightarrow> test_case list" where
  "vpn_boundary_cases max_path n =
     concat (map (\<lambda>i.
       let at_limit_path = ''/remote/'' @ replicate (nat (int max_path - 8)) (CHR ''a'');
           over_limit_path = ''/remote/'' @ replicate (nat (int max_path - 8 + 1)) (CHR ''a'')
       in [gen_case (numbered ''VPN-GEN-BOUNDARY-AT-'' i) TC_BOUNDARY (vpn_base_request at_limit_path) ACCEPTED
             (''total path length exactly at the configured maximum ('' @ str_nat max_path @ '')''),
           gen_case (numbered ''VPN-GEN-BOUNDARY-OVER-'' i) TC_BOUNDARY (vpn_base_request over_limit_path) BLOCKED
             (''total path length one over the configured maximum ('' @ str_nat max_path @ '')'')]) [0..<n])"

definition vpn_oversized_cases :: "rng \<Rightarrow> nat \<Rightarrow> nat \<Rightarrow> nat \<Rightarrow> test_case list" where
  "vpn_oversized_cases R k max_body n =
     map (\<lambda>i.
       let oversized_length = int max_body + 1 + rg_randint R (k + i) 0 1000;
           req = dict_set (dict_set (vpn_base_request ''/remote/login'') ''declared_content_length'' (PInt oversized_length))
             ''actual_body_length'' (PInt oversized_length)
       in gen_case (numbered ''VPN-GEN-OVERSIZED-'' i) TC_MALFORMED req BLOCKED
         ''declared/actual body length over the configured maximum'') [0..<n]"

definition vpn_duplicate_cases :: "nat \<Rightarrow> test_case list" where
  "vpn_duplicate_cases n =
     map (\<lambda>i. gen_case (numbered ''VPN-GEN-DUPLICATE-'' i) TC_MALFORMED
       (dict_set (vpn_base_request ''/remote/login'') ''headers''
         (PList [PList [PStr ''Host'', PStr ''vpn.example.local''], PList [PStr ''Host'', PStr ''internal.synthetic.local'']]))
       BLOCKED ''duplicate header field with conflicting values'') [0..<n]"

definition vpn_mismatched_cases :: "rng \<Rightarrow> nat \<Rightarrow> nat \<Rightarrow> test_case list" where
  "vpn_mismatched_cases R k n =
     map (\<lambda>i.
       let declared = 42; actual = declared + 100 + rg_randint R (k + i) 0 500;
           req = dict_set (dict_set (vpn_base_request ''/remote/login'') ''declared_content_length'' (PInt declared))
             ''actual_body_length'' (PInt actual)
       in gen_case (numbered ''VPN-GEN-MISMATCHED-LENGTH-'' i) TC_MALFORMED req BLOCKED
         ''declared/actual body length mismatch'') [0..<n]"

definition vpn_encoding_cases :: "nat \<Rightarrow> test_case list" where
  "vpn_encoding_cases n =
     map (\<lambda>i.
       let encoding = vpn_UNSUPPORTED_ENCODINGS ! (i mod 3)
       in gen_case (numbered ''VPN-GEN-UNSUPPORTED-ENCODING-'' i) TC_MALFORMED
         (dict_set (vpn_base_request ''/remote/login'') ''encoding'' (PStr encoding))
         BLOCKED (''unsupported declared encoding ('' @ encoding @ '')'')) [0..<n]"

definition vpn_invalid_path_cases :: "nat \<Rightarrow> test_case list" where
  "vpn_invalid_path_cases n =
     map (\<lambda>i. gen_case (numbered ''VPN-GEN-INVALID-PATH-'' i) TC_MALFORMED
       (vpn_base_request (vpn_PATH_TRAVERSAL_PATTERNS ! (i mod 3)))
       BLOCKED ''synthetic path-traversal-shaped pattern, no real filesystem target'') [0..<n]"

definition vpn_cases :: "rng \<Rightarrow> vpn_generator_config \<Rightarrow> test_case list" where
  "vpn_cases R c =
     vpn_valid_cases R (vc_valid_count c)
     @ vpn_boundary_cases (vc_max_path_length c) (vc_boundary_count c)
     @ vpn_oversized_cases R (vc_valid_count c) (vc_max_body_length c) (vc_oversized_count c)
     @ vpn_duplicate_cases (vc_duplicate_field_count c)
     @ vpn_mismatched_cases R (vc_valid_count c + vc_oversized_count c) (vc_mismatched_length_count c)
     @ vpn_encoding_cases (vc_unsupported_encoding_count c)
     @ vpn_invalid_path_cases (vc_invalid_path_count c)"

definition vpn_build_test_set :: "rng \<Rightarrow> int \<Rightarrow> vpn_generator_config \<Rightarrow> exn + test_set" where
  "vpn_build_test_set R seed c =
     validate_test_set
       \<lparr>ts_test_set_id = ''vpn-generated-'' @ str_int seed, ts_version = ''1.0.0'', ts_domain = VPN,
        ts_cases = vpn_cases R c\<rparr>"

section \<open>\<open>telecom_generator.py\<close>\<close>

record telecom_generator_config =
  gc_valid_count :: nat
  gc_boundary_count :: nat
  gc_oversized_field_count :: nat
  gc_missing_header_count :: nat
  gc_duplicate_identity_count :: nat
  gc_mismatched_length_count :: nat
  gc_invalid_sequence_count :: nat
  gc_invalid_transition_count :: nat
  gc_max_sdp_attr_value_length :: nat
  gc_max_body_length :: nat

definition validate_telecom_config :: "telecom_generator_config \<Rightarrow> exn + telecom_generator_config" where
  "validate_telecom_config c =
     bindS (raise_if (\<not> (gc_valid_count c \<le> 50 \<and> gc_boundary_count c \<le> 10 \<and> gc_oversized_field_count c \<le> 20
         \<and> gc_missing_header_count c \<le> 20 \<and> gc_duplicate_identity_count c \<le> 20
         \<and> gc_mismatched_length_count c \<le> 20 \<and> gc_invalid_sequence_count c \<le> 20
         \<and> gc_invalid_transition_count c \<le> 20
         \<and> 0 < gc_max_sdp_attr_value_length c \<and> 0 < gc_max_body_length c))
       (ValidationError ''TelecomGeneratorConfig'' ''fields'')) (\<lambda>_. Inr c)"

definition telecom_default_config :: telecom_generator_config where
  "telecom_default_config =
     \<lparr>gc_valid_count = 4, gc_boundary_count = 1, gc_oversized_field_count = 2, gc_missing_header_count = 2,
      gc_duplicate_identity_count = 2, gc_mismatched_length_count = 2, gc_invalid_sequence_count = 2,
      gc_invalid_transition_count = 2, gc_max_sdp_attr_value_length = 256, gc_max_body_length = 4096\<rparr>"

definition gen_LEGAL_TRANSITIONS :: "(string \<times> string) list" where
  "gen_LEGAL_TRANSITIONS = [(''INIT'', ''INVITE''), (''RINGING'', ''ACK''), (''ESTABLISHED'', ''BYE'')]"

definition gen_MANDATORY_HEADERS :: "string list" where
  "gen_MANDATORY_HEADERS = [''Call-ID'', ''From'', ''To'']"

definition tel_headers :: "(string \<times> string) list" where
  "tel_headers = [(''Call-ID'', ''call-0001''), (''From'', ''sip:alice@ims.example.local''), (''To'', ''sip:bob@ims.example.local'')]"

definition header_val :: "(string \<times> string) list \<Rightarrow> pyval" where
  "header_val hs = PList (map (\<lambda>(n, v). PList [PStr n, PStr v]) hs)"

definition tel_base_request :: "string \<Rightarrow> string \<Rightarrow> int \<Rightarrow> int \<Rightarrow> pydict" where
  "tel_base_request state method sequence expected_sequence =
     [(''method'', PStr method), (''session_state'', PStr state), (''headers'', header_val tel_headers),
      (''sequence_number'', PInt sequence), (''expected_sequence_number'', PInt expected_sequence),
      (''sdp_attributes'', header_val [(''accept-type'', ''audio/AMR'')]),
      (''declared_body_length'', PInt 32), (''actual_body_length'', PInt 32)]"

definition tel_valid_cases :: "nat \<Rightarrow> test_case list" where
  "tel_valid_cases n =
     map (\<lambda>i. case gen_LEGAL_TRANSITIONS ! (i mod 3) of (state, method) \<Rightarrow>
       gen_case (numbered ''TEL-GEN-VALID-'' i) TC_VALID
         (tel_base_request state method (int i + 1) (int i + 1))
         ACCEPTED ''deterministic synthetic valid session-setup message'') [0..<n]"

definition tel_boundary_cases :: "nat \<Rightarrow> nat \<Rightarrow> test_case list" where
  "tel_boundary_cases max_attr n =
     concat (map (\<lambda>i.
       let base = tel_base_request ''INIT'' ''INVITE'' 1 1;
           attr = (\<lambda>k. header_val [(''video-configuration'', replicate k (CHR ''a''))])
       in [gen_case (numbered ''TEL-GEN-BOUNDARY-AT-'' i) TC_BOUNDARY (dict_set base ''sdp_attributes'' (attr max_attr)) ACCEPTED
             (''SDP attribute value exactly at the configured maximum ('' @ str_nat max_attr @ '')''),
           gen_case (numbered ''TEL-GEN-BOUNDARY-OVER-'' i) TC_BOUNDARY (dict_set base ''sdp_attributes'' (attr (max_attr + 1))) BLOCKED
             (''SDP attribute value one over the configured maximum ('' @ str_nat max_attr @ '')'')]) [0..<n])"

definition tel_oversized_cases :: "rng \<Rightarrow> nat \<Rightarrow> nat \<Rightarrow> nat \<Rightarrow> test_case list" where
  "tel_oversized_cases R k max_attr n =
     map (\<lambda>i.
       let oversized_length = int max_attr + 1 + rg_randint R (k + i) 0 500
       in gen_case (numbered ''TEL-GEN-OVERSIZED-'' i) TC_MALFORMED
         (dict_set (tel_base_request ''INIT'' ''INVITE'' 1 1) ''sdp_attributes''
           (header_val [(''accept-type'', replicate (nat oversized_length) (CHR ''a''))]))
         BLOCKED ''SDP attribute value over the configured maximum'') [0..<n]"

definition tel_missing_header_cases :: "nat \<Rightarrow> test_case list" where
  "tel_missing_header_cases n =
     map (\<lambda>i.
       let missing = gen_MANDATORY_HEADERS ! (i mod 3)
       in gen_case (numbered ''TEL-GEN-MISSING-HEADER-'' i) TC_MALFORMED
         (dict_set (tel_base_request ''INIT'' ''INVITE'' 1 1) ''headers''
           (header_val (filter (\<lambda>h. fst h \<noteq> missing) tel_headers)))
         BLOCKED (''mandatory header '' @ quoted missing @ '' absent'')) [0..<n]"

definition tel_duplicate_cases :: "nat \<Rightarrow> test_case list" where
  "tel_duplicate_cases n =
     map (\<lambda>i.
       let field = gen_MANDATORY_HEADERS ! (i mod 3)
       in gen_case (numbered ''TEL-GEN-DUPLICATE-IDENTITY-'' i) TC_MALFORMED
         (dict_set (tel_base_request ''INIT'' ''INVITE'' 1 1) ''headers''
           (header_val (tel_headers @ [(field, ''synthetic-conflicting-'' @ str_lower field)])))
         BLOCKED (''duplicate '' @ quoted field @ '' header with conflicting value'')) [0..<n]"

definition tel_mismatched_cases :: "rng \<Rightarrow> nat \<Rightarrow> nat \<Rightarrow> test_case list" where
  "tel_mismatched_cases R k n =
     map (\<lambda>i.
       let declared = 32; actual = declared + 200 + rg_randint R (k + i) 0 500
       in gen_case (numbered ''TEL-GEN-MISMATCHED-LENGTH-'' i) TC_MALFORMED
         (dict_set (dict_set (tel_base_request ''INIT'' ''INVITE'' 1 1) ''declared_body_length'' (PInt declared))
           ''actual_body_length'' (PInt actual))
         BLOCKED ''declared/actual body length mismatch'') [0..<n]"

definition tel_sequence_cases :: "nat \<Rightarrow> test_case list" where
  "tel_sequence_cases n =
     map (\<lambda>i. gen_case (numbered ''TEL-GEN-INVALID-SEQUENCE-'' i) TC_MALFORMED
       (tel_base_request ''INIT'' ''INVITE'' 0 (5 + int i))
       BLOCKED ''sequence_number does not match expected_sequence_number'') [0..<n]"

definition gen_illegal_pairs :: "(string \<times> string) list" where
  "gen_illegal_pairs = [(''INIT'', ''ACK''), (''INIT'', ''BYE''), (''ESTABLISHED'', ''INVITE'')]"

definition tel_transition_cases :: "nat \<Rightarrow> test_case list" where
  "tel_transition_cases n =
     map (\<lambda>i. case gen_illegal_pairs ! (i mod 3) of (state, method) \<Rightarrow>
       gen_case (numbered ''TEL-GEN-INVALID-TRANSITION-'' i) TC_MALFORMED
         (tel_base_request state method 1 1)
         BLOCKED (''illegal state transition: '' @ method @ '' received in state '' @ state)) [0..<n]"

definition tel_cases :: "rng \<Rightarrow> telecom_generator_config \<Rightarrow> test_case list" where
  "tel_cases R c =
     tel_valid_cases (gc_valid_count c)
     @ tel_boundary_cases (gc_max_sdp_attr_value_length c) (gc_boundary_count c)
     @ tel_oversized_cases R 0 (gc_max_sdp_attr_value_length c) (gc_oversized_field_count c)
     @ tel_missing_header_cases (gc_missing_header_count c)
     @ tel_duplicate_cases (gc_duplicate_identity_count c)
     @ tel_mismatched_cases R (gc_oversized_field_count c) (gc_mismatched_length_count c)
     @ tel_sequence_cases (gc_invalid_sequence_count c)
     @ tel_transition_cases (gc_invalid_transition_count c)"

definition telecom_build_test_set :: "rng \<Rightarrow> int \<Rightarrow> telecom_generator_config \<Rightarrow> exn + test_set" where
  "telecom_build_test_set R seed c =
     validate_test_set
       \<lparr>ts_test_set_id = ''telecom-generated-'' @ str_int seed, ts_version = ''1.0.0'', ts_domain = TELECOM,
        ts_cases = tel_cases R c\<rparr>"

section \<open>The expected outcomes are the mitigation's\<close>

text \<open>A case is labelled correctly when the strategy decides its expected outcome.\<close>

definition labelled :: "(pydict \<Rightarrow> py_exc + strategy_outcome) \<Rightarrow> test_case \<Rightarrow> bool" where
  "labelled process c \<longleftrightarrow> (\<exists>out. process (tc_input_data c) = Inr out \<and> so_decision out = tc_expected_outcome c)"

lemma labelled_vpn:
  "labelled vpn_strict_process (gen_case i cat d ACCEPTED p) \<longleftrightarrow> vpn_is_malformed d = Inr False"
  "labelled vpn_strict_process (gen_case i cat d BLOCKED p) \<longleftrightarrow> vpn_is_malformed d = Inr True"
  by (auto simp: labelled_def gen_case_def vpn_strict_process_def res_simps)

lemma labelled_tel:
  "labelled tel_strict_process (gen_case i cat d ACCEPTED p) \<longleftrightarrow> tel_is_malformed d = Inr False"
  "labelled tel_strict_process (gen_case i cat d BLOCKED p) \<longleftrightarrow> tel_is_malformed d = Inr True"
  by (auto simp: labelled_def gen_case_def tel_strict_process_def res_simps)

lemmas vpn_check_defs =
  vpn_is_malformed_def orS_def vpn_fails_schema_check_def vpn_fails_length_checks_def
  vpn_fails_duplicate_field_check_def has_duplicate_keys_def vpn_fails_type_check_def
  vpn_fails_path_canonicalisation_check_def in_str_set_def vpn_consts vpn_base_request_def vpn_request_def
  dict_get_def dict_get_default_def as_list_def pair_keys_def List.map_filter_def has_long_value_def Let_def

lemma mod_cases3: "i mod 3 = 0 \<or> i mod 3 = 1 \<or> i mod 3 = (2::nat)" by auto
lemma mod_cases4: "i mod 4 = 0 \<or> i mod 4 = 1 \<or> i mod 4 = 2 \<or> i mod 4 = (3::nat)" by auto

lemma no_marker: "x \<in> set m \<Longrightarrow> x \<notin> set s \<Longrightarrow> \<not> str_contains m s"
  by (auto simp: str_contains_sublist dest: set_mono_sublist)

lemma vpn_valid_path_ok:
  assumes "m \<noteq> []" and "p \<noteq> []" and "length p \<le> 256" and "CHR ''.'' \<notin> set (str_lower p)" and "CHR ''%'' \<notin> set (str_lower p)"
  shows "vpn_is_malformed (vpn_request m p) = Inr False"
  using assms no_marker [of "CHR ''.''" "''..''" "str_lower p"] no_marker [of "CHR ''%''" "''%2e%2e''" "str_lower p"]
    no_marker [of "CHR ''%''" "''%00''" "str_lower p"]
  by (simp add: vpn_check_defs)

lemma str_lower_replicate: "str_lower (replicate n (CHR ''a'')) = replicate n (CHR ''a'')"
  by (simp add: str_lower_def lower_char_def)

lemma str_lower_append: "str_lower (a @ b) = str_lower a @ str_lower b"
  by (simp add: str_lower_def)

lemma vpn_valid_labelled: "list_all (labelled vpn_strict_process) (vpn_valid_cases R n)"
proof -
  have "vpn_is_malformed (vpn_request m (vpn_VALID_PATHS ! (i mod 4))) = Inr False" if "m \<noteq> []" for m i
    using mod_cases4 [of i] that
    by (intro vpn_valid_path_ok) (auto simp: vpn_VALID_PATHS_def str_lower_def lower_char_def)
  then show ?thesis by (simp add: vpn_valid_cases_def list_all_iff labelled_vpn)
qed

lemma vpn_boundary_labelled: "list_all (labelled vpn_strict_process) (vpn_boundary_cases 256 n)"
proof -
  have "vpn_is_malformed (vpn_base_request (''/remote/'' @ replicate 248 (CHR ''a''))) = Inr False"
    unfolding vpn_base_request_def
    by (rule vpn_valid_path_ok) (simp_all only: str_lower_append str_lower_replicate, simp_all add: str_lower_def lower_char_def)
  moreover have "vpn_is_malformed (vpn_base_request (''/remote/'' @ replicate 249 (CHR ''a''))) = Inr True"
    by (simp add: vpn_check_defs)
  ultimately show ?thesis
    by (simp add: vpn_boundary_cases_def list_all_iff labelled_vpn Let_def)
qed

lemma vpn_oversized_labelled:
  assumes "rng_ok R"
  shows "list_all (labelled vpn_strict_process) (vpn_oversized_cases R k 8192 n)"
proof -
  have "0 \<le> rg_randint R j 0 1000" for j using assms by (simp add: rng_ok_def)
  then have "0 < 1 + rg_randint R j 0 1000" for j by (smt (verit))
  then show ?thesis
    by (simp add: vpn_oversized_cases_def list_all_iff labelled_vpn Let_def vpn_check_defs)
qed

lemma vpn_duplicate_labelled: "list_all (labelled vpn_strict_process) (vpn_duplicate_cases n)"
  by (simp add: vpn_duplicate_cases_def list_all_iff labelled_vpn vpn_check_defs)

lemma vpn_mismatched_labelled:
  assumes "rng_ok R"
  shows "list_all (labelled vpn_strict_process) (vpn_mismatched_cases R k n)"
proof -
  have "0 \<le> rg_randint R j 0 500" for j using assms by (simp add: rng_ok_def)
  then have "42 \<noteq> 42 + 100 + rg_randint R j 0 500" for j by (smt (verit))
  then show ?thesis
    by (simp add: vpn_mismatched_cases_def list_all_iff labelled_vpn Let_def vpn_check_defs)
qed

lemma vpn_encoding_labelled: "list_all (labelled vpn_strict_process) (vpn_encoding_cases n)"
proof -
  have "vpn_is_malformed (dict_set (vpn_base_request ''/remote/login'') ''encoding'' (PStr (vpn_UNSUPPORTED_ENCODINGS ! (i mod 3)))) = Inr True" for i
    using mod_cases3 [of i] by (auto simp: vpn_UNSUPPORTED_ENCODINGS_def vpn_check_defs)
  then show ?thesis by (simp add: vpn_encoding_cases_def list_all_iff labelled_vpn Let_def)
qed

lemma vpn_invalid_path_labelled: "list_all (labelled vpn_strict_process) (vpn_invalid_path_cases n)"
proof -
  have "vpn_is_malformed (vpn_base_request (vpn_PATH_TRAVERSAL_PATTERNS ! (i mod 3))) = Inr True" for i
    using mod_cases3 [of i]
    by (auto simp: vpn_PATH_TRAVERSAL_PATTERNS_def vpn_check_defs str_lower_def lower_char_def)
  then show ?thesis by (simp add: vpn_invalid_path_cases_def list_all_iff labelled_vpn)
qed

lemmas tel_check_defs =
  tel_is_malformed_def orS_def tel_fails_mandatory_field_check_def tel_fails_duplicate_header_check_def
  has_duplicate_keys_def tel_fails_size_limit_checks_def tel_fails_sequence_validation_def
  tel_fails_state_machine_check_def tel_consts tel_base_request_def header_val_def tel_headers_def
  dict_get_def as_list_def pair_keys_def List.map_filter_def has_long_value_def hash_ok_def py_eq_str_pair Let_def

lemma tel_valid_labelled: "list_all (labelled tel_strict_process) (tel_valid_cases n)"
proof -
  have "case gen_LEGAL_TRANSITIONS ! (i mod 3) of (st, m) \<Rightarrow> tel_is_malformed (tel_base_request st m j j) = Inr False" for i j
    using mod_cases3 [of i] by (auto simp: gen_LEGAL_TRANSITIONS_def tel_check_defs)
  then show ?thesis by (simp add: tel_valid_cases_def list_all_iff labelled_tel case_prod_unfold)
qed

lemma tel_boundary_labelled: "list_all (labelled tel_strict_process) (tel_boundary_cases 256 n)"
  by (simp add: tel_boundary_cases_def list_all_iff labelled_tel tel_check_defs)

lemma tel_oversized_labelled:
  assumes "rng_ok R"
  shows "list_all (labelled tel_strict_process) (tel_oversized_cases R k 256 n)"
proof -
  have "256 < nat (257 + rg_randint R j 0 500)" for j
  proof -
    have "0 \<le> rg_randint R j 0 500" using assms by (simp add: rng_ok_def)
    then show ?thesis by linarith
  qed
  then show ?thesis
    by (simp add: tel_oversized_cases_def list_all_iff labelled_tel tel_check_defs)
qed

lemma tel_missing_labelled: "list_all (labelled tel_strict_process) (tel_missing_header_cases n)"
proof -
  have "tel_is_malformed (dict_set (tel_base_request ''INIT'' ''INVITE'' 1 1) ''headers''
      (header_val (filter (\<lambda>h. fst h \<noteq> gen_MANDATORY_HEADERS ! (i mod 3)) tel_headers))) = Inr True" for i
    using mod_cases3 [of i] by (auto simp: gen_MANDATORY_HEADERS_def tel_check_defs)
  then show ?thesis by (simp add: tel_missing_header_cases_def list_all_iff labelled_tel Let_def)
qed

lemma tel_duplicate_labelled: "list_all (labelled tel_strict_process) (tel_duplicate_cases n)"
proof -
  have "tel_is_malformed (dict_set (tel_base_request ''INIT'' ''INVITE'' 1 1) ''headers''
      (header_val (tel_headers @ [(gen_MANDATORY_HEADERS ! (i mod 3), v)]))) = Inr True" for i v
    using mod_cases3 [of i] by (auto simp: gen_MANDATORY_HEADERS_def tel_check_defs)
  then show ?thesis by (simp add: tel_duplicate_cases_def list_all_iff labelled_tel Let_def)
qed

lemma tel_mismatched_labelled:
  assumes "rng_ok R"
  shows "list_all (labelled tel_strict_process) (tel_mismatched_cases R k n)"
proof -
  have "0 \<le> rg_randint R j 0 500" for j using assms by (simp add: rng_ok_def)
  then have "32 \<noteq> 32 + 200 + rg_randint R j 0 500" for j by (smt (verit))
  then show ?thesis
    by (simp add: tel_mismatched_cases_def list_all_iff labelled_tel tel_check_defs)
qed

lemma tel_sequence_labelled: "list_all (labelled tel_strict_process) (tel_sequence_cases n)"
  by (simp add: tel_sequence_cases_def list_all_iff labelled_tel tel_check_defs)

lemma tel_transition_labelled: "list_all (labelled tel_strict_process) (tel_transition_cases n)"
proof -
  have "case gen_illegal_pairs ! (i mod 3) of (st, m) \<Rightarrow> tel_is_malformed (tel_base_request st m 1 1) = Inr True" for i
    using mod_cases3 [of i] by (auto simp: gen_illegal_pairs_def tel_check_defs)
  then show ?thesis by (simp add: tel_transition_cases_def list_all_iff labelled_tel case_prod_unfold)
qed

section \<open>The generated sets are valid\<close>

text \<open>Case identifiers: the numbers 1 to 50 print differently, and each loop has its own prefix.\<close>

lemma pad_distinct: "distinct (map (\<lambda>i. pad_nat 3 (i + 1)) [0..<50])"
  by code_simp

lemma numbered_distinct:
  assumes "n \<le> 50"
  shows "distinct (map (numbered p) [0..<n])"
proof -
  have "inj_on (\<lambda>i. pad_nat 3 (i + 1)) {0..<50}" using pad_distinct by (simp add: distinct_map del: upt_rec_numeral)
  then have "inj_on (numbered p) {0..<n}"
    using assms unfolding inj_on_def numbered_def by (auto simp: inj_on_def)
  then show ?thesis by (simp add: distinct_map)
qed

lemma distinct_pairs:
  assumes "distinct (map f is)" and "distinct (map g is)" and "\<And>i j. f i \<noteq> g j"
  shows "distinct (concat (map (\<lambda>i. [f i, g i]) is))"
  using assms(1,2)
proof (induction "is")
  case (Cons i "is")
  have "f i \<notin> g ` set is" "g i \<notin> f ` set is" using assms(3) by (auto dest: sym)
  with Cons assms(3) show ?case by (auto simp: image_iff)
qed simp

lemma gen_case_sel [simp]:
  "tc_case_id (gen_case i c d e p) = i" "tc_provenance (gen_case i c d e p) = p" "tc_version (gen_case i c d e p) = ''1.0.0''"
  by (simp_all add: gen_case_def)

lemma case_ids:
  "map tc_case_id (vpn_valid_cases R n) = map (numbered ''VPN-GEN-VALID-'') [0..<n]"
  "map tc_case_id (vpn_boundary_cases m n) =
     concat (map (\<lambda>i. [numbered ''VPN-GEN-BOUNDARY-AT-'' i, numbered ''VPN-GEN-BOUNDARY-OVER-'' i]) [0..<n])"
  "map tc_case_id (vpn_oversized_cases R k m n) = map (numbered ''VPN-GEN-OVERSIZED-'') [0..<n]"
  "map tc_case_id (vpn_duplicate_cases n) = map (numbered ''VPN-GEN-DUPLICATE-'') [0..<n]"
  "map tc_case_id (vpn_mismatched_cases R k n) = map (numbered ''VPN-GEN-MISMATCHED-LENGTH-'') [0..<n]"
  "map tc_case_id (vpn_encoding_cases n) = map (numbered ''VPN-GEN-UNSUPPORTED-ENCODING-'') [0..<n]"
  "map tc_case_id (vpn_invalid_path_cases n) = map (numbered ''VPN-GEN-INVALID-PATH-'') [0..<n]"
  "map tc_case_id (tel_valid_cases n) = map (numbered ''TEL-GEN-VALID-'') [0..<n]"
  "map tc_case_id (tel_boundary_cases m n) =
     concat (map (\<lambda>i. [numbered ''TEL-GEN-BOUNDARY-AT-'' i, numbered ''TEL-GEN-BOUNDARY-OVER-'' i]) [0..<n])"
  "map tc_case_id (tel_oversized_cases R k m n) = map (numbered ''TEL-GEN-OVERSIZED-'') [0..<n]"
  "map tc_case_id (tel_missing_header_cases n) = map (numbered ''TEL-GEN-MISSING-HEADER-'') [0..<n]"
  "map tc_case_id (tel_duplicate_cases n) = map (numbered ''TEL-GEN-DUPLICATE-IDENTITY-'') [0..<n]"
  "map tc_case_id (tel_mismatched_cases R k n) = map (numbered ''TEL-GEN-MISMATCHED-LENGTH-'') [0..<n]"
  "map tc_case_id (tel_sequence_cases n) = map (numbered ''TEL-GEN-INVALID-SEQUENCE-'') [0..<n]"
  "map tc_case_id (tel_transition_cases n) = map (numbered ''TEL-GEN-INVALID-TRANSITION-'') [0..<n]"
  by (simp_all add: vpn_valid_cases_def vpn_boundary_cases_def vpn_oversized_cases_def vpn_duplicate_cases_def
      vpn_mismatched_cases_def vpn_encoding_cases_def vpn_invalid_path_cases_def tel_valid_cases_def
      tel_boundary_cases_def tel_oversized_cases_def tel_missing_header_cases_def tel_duplicate_cases_def
      tel_mismatched_cases_def tel_sequence_cases_def tel_transition_cases_def map_concat comp_def Let_def
      case_prod_unfold)

lemma vpn_ids_distinct:
  assumes "validate_vpn_config c = Inr c"
  shows "distinct (map tc_case_id (vpn_cases R c))"
  using assms unfolding vpn_cases_def map_append case_ids
  by (auto simp: validate_vpn_config_def res_simps distinct_append intro!: numbered_distinct distinct_pairs)
    (auto simp: numbered_def)

lemma tel_ids_distinct:
  assumes "validate_telecom_config c = Inr c"
  shows "distinct (map tc_case_id (tel_cases R c))"
  using assms unfolding tel_cases_def map_append case_ids
  by (auto simp: validate_telecom_config_def res_simps distinct_append intro!: numbered_distinct distinct_pairs)
    (auto simp: numbered_def)

text \<open>Every generated case passes the checks of \<open>TestCase\<close>.\<close>

lemma generated_case_ok:
  assumes "p \<noteq> []" and "q \<noteq> []"
  shows "validate_test_case (gen_case (numbered p i) cat d e q) = Inr (gen_case (numbered p i) cat d e q)"
  using assms by (simp add: validate_test_case_def gen_case_def ne_def numbered_def raise_if_def)

lemma vpn_cases_ok: "x \<in> set (vpn_cases R c) \<Longrightarrow> validate_test_case x = Inr x"
  by (auto simp: vpn_cases_def vpn_valid_cases_def vpn_boundary_cases_def vpn_oversized_cases_def
      vpn_duplicate_cases_def vpn_mismatched_cases_def vpn_encoding_cases_def vpn_invalid_path_cases_def Let_def
      intro!: generated_case_ok)

lemma tel_cases_ok: "x \<in> set (tel_cases R c) \<Longrightarrow> validate_test_case x = Inr x"
  by (auto simp: tel_cases_def tel_valid_cases_def tel_boundary_cases_def tel_oversized_cases_def
      tel_missing_header_cases_def tel_duplicate_cases_def tel_mismatched_cases_def tel_sequence_cases_def
      tel_transition_cases_def Let_def case_prod_unfold intro!: generated_case_ok)

lemma validate_test_set_ok:
  assumes "ne i" "ne v" "cs \<noteq> []" "\<And>x. x \<in> set cs \<Longrightarrow> validate_test_case x = Inr x" "distinct (map tc_case_id cs)"
  shows "validate_test_set \<lparr>ts_test_set_id = i, ts_version = v, ts_domain = dm, ts_cases = cs\<rparr> =
    Inr \<lparr>ts_test_set_id = i, ts_version = v, ts_domain = dm, ts_cases = cs\<rparr>"
  using assms mapS_total [of cs validate_test_case "\<lambda>x. x"] by (simp add: validate_test_set_def raise_if_def)

lemma vpn_generator_correct:
  assumes "rng_ok R" and "validate_vpn_config c = Inr c" and "vpn_cases R c \<noteq> []"
    and "vc_max_path_length c = 256" and "vc_max_body_length c = 8192"
  shows "\<exists>ts. vpn_build_test_set R seed c = Inr ts \<and> ts_domain ts = VPN
    \<and> list_all (labelled vpn_strict_process) (ts_cases ts)"
proof -
  have "list_all (labelled vpn_strict_process) (vpn_cases R c)"
    using assms(1,4,5)
    by (simp add: vpn_cases_def vpn_valid_labelled vpn_boundary_labelled vpn_oversized_labelled
        vpn_duplicate_labelled vpn_mismatched_labelled vpn_encoding_labelled vpn_invalid_path_labelled)
  then show ?thesis
    unfolding vpn_build_test_set_def
    using assms(3) vpn_cases_ok vpn_ids_distinct [OF assms(2)] by (subst validate_test_set_ok) (auto simp: ne_def)
qed

lemma telecom_generator_correct:
  assumes "rng_ok R" and "validate_telecom_config c = Inr c" and "tel_cases R c \<noteq> []"
    and "gc_max_sdp_attr_value_length c = 256"
  shows "\<exists>ts. telecom_build_test_set R seed c = Inr ts \<and> ts_domain ts = TELECOM
    \<and> list_all (labelled tel_strict_process) (ts_cases ts)"
proof -
  have "list_all (labelled tel_strict_process) (tel_cases R c)"
    using assms(1,4)
    by (simp add: tel_cases_def tel_valid_labelled tel_boundary_labelled tel_oversized_labelled tel_missing_labelled
        tel_duplicate_labelled tel_mismatched_labelled tel_sequence_labelled tel_transition_labelled)
  then show ?thesis
    unfolding telecom_build_test_set_def
    using assms(3) tel_cases_ok tel_ids_distinct [OF assms(2)] by (subst validate_test_set_ok) (auto simp: ne_def)
qed

text \<open>
  C37. The generators label their cases correctly. For every seed and all its draws, and every valid
  configuration that asks for at least one case and whose limits are the mitigation's own (the defaults),
  each generator returns a valid test set of its domain (distinct case identifiers included) in which every
  expected outcome is what the strict mitigation of that domain decides on that request.
\<close>

theorem generators_correct:
  assumes "rng_ok R"
    and "validate_vpn_config c = Inr c" and "vpn_cases R c \<noteq> []" and "vc_max_path_length c = 256" and "vc_max_body_length c = 8192"
    and "validate_telecom_config d = Inr d" and "tel_cases R d \<noteq> []" and "gc_max_sdp_attr_value_length d = 256"
  shows "(\<exists>ts. vpn_build_test_set R seed c = Inr ts \<and> ts_domain ts = VPN
      \<and> list_all (labelled vpn_strict_process) (ts_cases ts))
    \<and> (\<exists>ts. telecom_build_test_set R seed d = Inr ts \<and> ts_domain ts = TELECOM
      \<and> list_all (labelled tel_strict_process) (ts_cases ts))"
  using vpn_generator_correct [OF assms(1-5)] telecom_generator_correct [OF assms(1,6-8)] by blast

definition demo_rng :: rng where
  "demo_rng = \<lparr>rg_random = (\<lambda>_. 0), rg_randint = (\<lambda>_ lo _. lo)\<rparr>"

theorem generators_correct_witness:
  "(\<exists>ts. vpn_build_test_set demo_rng 7 vpn_default_config = Inr ts \<and> list_all (labelled vpn_strict_process) (ts_cases ts))
    \<and> (\<exists>ts. telecom_build_test_set demo_rng 7 telecom_default_config = Inr ts \<and> list_all (labelled tel_strict_process) (ts_cases ts))"
  using generators_correct [of demo_rng vpn_default_config telecom_default_config 7]
  by (auto simp: rng_ok_def demo_rng_def validate_vpn_config_def raise_if_def vpn_default_config_def vpn_cases_def
      vpn_valid_cases_def validate_telecom_config_def telecom_default_config_def tel_cases_def tel_valid_cases_def)

text \<open>
  The limits of the configuration are not the mitigation's: with a configured path limit above 256
  the boundary case that is labelled ACCEPTED is blocked by the mitigation, so the generated set contains a
  wrong expected outcome.
\<close>

lemma vpn_generator_mislabels:
  assumes "256 < vc_max_path_length c" and "0 < vc_boundary_count c"
  shows "\<exists>x \<in> set (vpn_cases R c). \<not> labelled vpn_strict_process x"
proof -
  let ?p = "''/remote/'' @ replicate (nat (int (vc_max_path_length c) - 8)) (CHR ''a'')"
  let ?x = "gen_case (numbered ''VPN-GEN-BOUNDARY-AT-'' 0) TC_BOUNDARY (vpn_base_request ?p) ACCEPTED
     (''total path length exactly at the configured maximum ('' @ str_nat (vc_max_path_length c) @ '')'')"
  have "248 < nat (int (vc_max_path_length c) - 8)" using assms(1) by linarith
  then have "vpn_is_malformed (vpn_base_request ?p) = Inr True" by (simp add: vpn_check_defs)
  then have "\<not> labelled vpn_strict_process ?x" by (simp add: labelled_vpn)
  moreover have "?x \<in> set (vpn_cases R c)"
    using assms(2) by (auto simp: vpn_cases_def vpn_boundary_cases_def Let_def intro!: bexI [of _ 0])
  ultimately show ?thesis by blast
qed

lemma vpn_generator_mislabels_example:
  "\<exists>x \<in> set (vpn_cases demo_rng (vpn_default_config\<lparr>vc_max_path_length := 300\<rparr>)). \<not> labelled vpn_strict_process x"
  by (rule vpn_generator_mislabels) (simp_all add: vpn_default_config_def)

end
