(* ===== verification/Audit_Log.thy ===== *)
theory Audit_Log
  imports Py_Encoding
begin

text \<open>
  The platform's shared surroundings and its audit trail (\<open>zeroshield.audit\<close>). The state of the
  platform is an extensible record: this theory has the counts of clock readings, fresh identifiers and
  random tokens taken so far and the table of audit events; later components extend it with their own
  tables. The readings themselves are the environment, so a theorem holds for all of them.
\<close>

section \<open>Environment and state\<close>

record app_env =
  ae_clock :: "nat \<Rightarrow> datetime"
  ae_uuid :: "nat \<Rightarrow> string"
  ae_token :: "nat \<Rightarrow> string"
  ae_verify_password :: "string \<Rightarrow> string \<Rightarrow> bool"
  ae_dummy_hash :: string

text \<open>A row of \<open>audit_events\<close>.\<close>

record audit_event =
  av_audit_id :: string
  av_occurred_at :: datetime
  av_actor_user_id :: "string option"
  av_actor_username :: "string option"
  av_actor_role :: "string option"
  av_action :: string
  av_target_type :: "string option"
  av_target_id :: "string option"
  av_request_id :: "string option"
  av_metadata :: pydict
  av_previous_state :: "pydict option"
  av_new_state :: "pydict option"

record app_state =
  ap_clock_reads :: nat
  ap_uuid_reads :: nat
  ap_token_reads :: nat
  ap_audit :: "audit_event list"

definition getE :: "('s \<Rightarrow> 'a) \<Rightarrow> ('s, exn, 'a) eff" where
  "getE f w = (Inr (f w), w)"

definition raiseE :: "exn \<Rightarrow> ('s, exn, 'a) eff" where
  "raiseE e w = (Inl e, w)"

definition utc_now :: "app_env \<Rightarrow> ('z app_state_scheme, exn, datetime) eff" where
  "utc_now E w = (Inr (ae_clock E (ap_clock_reads w)), w\<lparr>ap_clock_reads := Suc (ap_clock_reads w)\<rparr>)"

definition uuid4_hex :: "app_env \<Rightarrow> ('z app_state_scheme, exn, string) eff" where
  "uuid4_hex E w = (Inr (ae_uuid E (ap_uuid_reads w)), w\<lparr>ap_uuid_reads := Suc (ap_uuid_reads w)\<rparr>)"

definition token_urlsafe :: "app_env \<Rightarrow> ('z app_state_scheme, exn, string) eff" where
  "token_urlsafe E w = (Inr (ae_token E (ap_token_reads w)), w\<lparr>ap_token_reads := Suc (ap_token_reads w)\<rparr>)"

text \<open>\<open>Result.scalar_one_or_none()\<close>.\<close>

definition scalar_one_or_none :: "'r list \<Rightarrow> exn + 'r option" where
  "scalar_one_or_none rows = (case rows of [] \<Rightarrow> Inr None | [r] \<Rightarrow> Inr (Some r) | _ \<Rightarrow> Inl MultipleResultsFound)"

lemmas app_m_defs = eff_defs getE_def raiseE_def utc_now_def uuid4_hex_def token_urlsafe_def

text \<open>
  An exception \<open>e\<close> of a computation becomes the one that the handler \<open>h\<close> gives for it, if it
  gives one (\<open>except ... as exc: raise ... from None\<close>).
\<close>

definition catchE :: "('s, exn, 'a) eff \<Rightarrow> (exn \<Rightarrow> exn option) \<Rightarrow> ('s, exn, 'a) eff" where
  "catchE m h w = (case m w of (Inl e, w') \<Rightarrow> (Inl (case h e of None \<Rightarrow> e | Some e' \<Rightarrow> e'), w') | (Inr x, w') \<Rightarrow> (Inr x, w'))"

section \<open>What a computation leaves alone\<close>

text \<open>
  A relation between the states before and after that is reflexive and transitive: a computation
  abides by it if every step of it does. The instances say, for example, that a handler leaves a table alone
  or that the audit trail only grows.
\<close>

definition abides :: "('s \<Rightarrow> 's \<Rightarrow> bool) \<Rightarrow> ('s, exn, 'a) eff \<Rightarrow> bool" where
  "abides R m \<longleftrightarrow> (\<forall>w. R w (snd (m w)))"

locale effect_frame =
  fixes R :: "'s \<Rightarrow> 's \<Rightarrow> bool"
  assumes R_refl: "R w w"
    and R_trans: "R w w' \<Longrightarrow> R w' w'' \<Longrightarrow> R w w''"
begin

lemma resp_pure: "abides R (returnE x)" "abides R (liftE r)" "abides R (getE f)" "abides R (raiseE e)"
  by (simp_all add: abides_def app_m_defs R_refl)

lemma resp_modify: "(\<And>w. R w (f w)) \<Longrightarrow> abides R (modifyE f)"
  by (simp add: abides_def modifyE_def)

lemma resp_bind:
  assumes "abides R m" and "\<And>x. abides R (k x)"
  shows "abides R (bindE m k)"
proof -
  have "R w (snd (bindE m k w))" for w
  proof (cases "m w")
    case (Pair r w')
    with assms(1) have 1: "R w w'" by (metis abides_def snd_conv)
    moreover have "R w' (snd (k x w'))" for x using assms(2) by (simp add: abides_def)
    ultimately show ?thesis using Pair by (auto simp: bindE_def split: sum.split intro: R_trans)
  qed
  then show ?thesis by (simp add: abides_def)
qed

lemma resp_catch: "abides R m \<Longrightarrow> abides R (catchE m h)"
  by (auto simp: abides_def catchE_def split: prod.splits sum.splits) (metis snd_conv)+

lemma resp_branches:
  "abides R m \<Longrightarrow> abides R n \<Longrightarrow> abides R (if b then m else n)"
  "abides R m \<Longrightarrow> (\<And>x. abides R (k x)) \<Longrightarrow> abides R (case opt of None \<Rightarrow> m | Some x \<Rightarrow> k x)"
  "(\<And>x y. abides R (kp x y)) \<Longrightarrow> abides R (case p of (x, y) \<Rightarrow> kp x y)"
  "(\<And>x. abides R (kl x)) \<Longrightarrow> (\<And>x. abides R (kr x)) \<Longrightarrow> abides R (case s of Inl x \<Rightarrow> kl x | Inr x \<Rightarrow> kr x)"
  by (simp_all split: option.split prod.split sum.split)

text \<open>The same as \<open>resp_bind\<close>, with what is known of the value that is passed on.\<close>

lemma resp_bind_value:
  assumes "abides R m" and "\<And>x w w'. m w = (Inr x, w') \<Longrightarrow> abides R (k x)"
  shows "abides R (bindE m k)"
proof -
  have "R w (snd (bindE m k w))" for w
  proof (cases "m w")
    case (Pair r w')
    with assms(1) have 1: "R w w'" by (metis abides_def snd_conv)
    show ?thesis
    proof (cases r)
      case (Inr x)
      then have "R w' (snd (k x w'))" using assms(2) Pair by (auto simp: abides_def)
      then show ?thesis using Pair Inr R_trans [OF 1] by (simp add: bindE_def)
    qed (use Pair 1 in \<open>simp add: bindE_def\<close>)
  qed
  then show ?thesis by (simp add: abides_def)
qed

lemmas resp_rules = resp_pure resp_modify resp_bind resp_catch resp_branches

end

lemma abidesD: "abides R m \<Longrightarrow> m w = (r, w') \<Longrightarrow> R w w'"
  by (metis abides_def snd_conv)

section \<open>\<open>audit/models.py\<close>: actions\<close>

definition LOGIN_SUCCESS :: string where "LOGIN_SUCCESS = ''auth.login_success''"
definition LOGIN_FAILURE :: string where "LOGIN_FAILURE = ''auth.login_failure''"
definition LOGOUT :: string where "LOGOUT = ''auth.logout''"
definition ACCOUNT_LOCKED :: string where "ACCOUNT_LOCKED = ''auth.account_locked''"
definition USER_CREATED :: string where "USER_CREATED = ''user.created''"
definition USER_ROLE_CHANGED :: string where "USER_ROLE_CHANGED = ''user.role_changed''"
definition USER_DEACTIVATED :: string where "USER_DEACTIVATED = ''user.deactivated''"
definition USER_REACTIVATED :: string where "USER_REACTIVATED = ''user.reactivated''"
definition EXPERIMENT_VERSION_CREATED :: string where "EXPERIMENT_VERSION_CREATED = ''experiment_version.created''"
definition EXPERIMENT_VERSION_EDITED :: string where "EXPERIMENT_VERSION_EDITED = ''experiment_version.edited''"
definition EXPERIMENT_VERSION_SUBMITTED_FOR_REVIEW :: string where
  "EXPERIMENT_VERSION_SUBMITTED_FOR_REVIEW = ''experiment_version.submitted_for_review''"
definition EXPERIMENT_VERSION_REVIEW_STARTED :: string where
  "EXPERIMENT_VERSION_REVIEW_STARTED = ''experiment_version.review_started''"
definition EXPERIMENT_VERSION_APPROVED :: string where "EXPERIMENT_VERSION_APPROVED = ''experiment_version.approved''"
definition EXPERIMENT_VERSION_REJECTED :: string where "EXPERIMENT_VERSION_REJECTED = ''experiment_version.rejected''"
definition EXPERIMENT_VERSION_RETIRED :: string where "EXPERIMENT_VERSION_RETIRED = ''experiment_version.retired''"
definition EXPERIMENT_VERSION_SELF_APPROVAL_BLOCKED :: string where
  "EXPERIMENT_VERSION_SELF_APPROVAL_BLOCKED = ''experiment_version.self_approval_blocked''"
definition RUN_SUBMITTED :: string where "RUN_SUBMITTED = ''run.submitted''"
definition RUN_DENIED :: string where "RUN_DENIED = ''run.denied''"
definition RUN_FAILED :: string where "RUN_FAILED = ''run.failed''"
definition EVIDENCE_CREATED :: string where "EVIDENCE_CREATED = ''evidence.created''"

section \<open>\<open>audit/repository.py\<close>\<close>

text \<open>\<open>AuditRepository.record\<close>: the only write to the table.\<close>

definition audit_append :: "audit_event \<Rightarrow> 'z app_state_scheme \<Rightarrow> 'z app_state_scheme" where
  "audit_append ev w = w\<lparr>ap_audit := ap_audit w @ [ev]\<rparr>"

definition audit_record :: "app_env \<Rightarrow> string option \<Rightarrow> string option \<Rightarrow> string option \<Rightarrow> string \<Rightarrow> string option
    \<Rightarrow> string option \<Rightarrow> string option \<Rightarrow> pydict \<Rightarrow> pydict option \<Rightarrow> pydict option
    \<Rightarrow> ('z app_state_scheme, exn, audit_event) eff" where
  "audit_record E actor_user_id actor_username actor_role action target_type target_id request_id metadata
      previous_state new_state =
     bindE (uuid4_hex E) (\<lambda>u.
     bindE (utc_now E) (\<lambda>now.
     let ev = \<lparr>av_audit_id = ''AUDIT-'' @ u, av_occurred_at = now, av_actor_user_id = actor_user_id,
       av_actor_username = actor_username, av_actor_role = actor_role, av_action = action,
       av_target_type = target_type, av_target_id = target_id, av_request_id = request_id,
       av_metadata = metadata, av_previous_state = previous_state, av_new_state = new_state\<rparr>
     in bindE (modifyE (audit_append ev)) (\<lambda>_. returnE ev)))"

text \<open>\<open>AuditRepository.list_events\<close>.\<close>

record audit_filter =
  af_action :: "string option"
  af_target_type :: "string option"
  af_target_id :: "string option"
  af_actor_user_id :: "string option"

definition audit_matches :: "audit_filter \<Rightarrow> audit_event \<Rightarrow> bool" where
  "audit_matches f ev \<longleftrightarrow>
     (case af_action f of None \<Rightarrow> True | Some a \<Rightarrow> av_action ev = a)
     \<and> (case af_target_type f of None \<Rightarrow> True | Some t \<Rightarrow> av_target_type ev = Some t)
     \<and> (case af_target_id f of None \<Rightarrow> True | Some t \<Rightarrow> av_target_id ev = Some t)
     \<and> (case af_actor_user_id f of None \<Rightarrow> True | Some u \<Rightarrow> av_actor_user_id ev = Some u)"

definition audit_list_events :: "audit_filter \<Rightarrow> nat \<Rightarrow> nat \<Rightarrow> 'z app_state_scheme \<Rightarrow> audit_event list \<times> nat" where
  "audit_list_events f limit offset w =
     (let rows = filter (audit_matches f) (ap_audit w)
      in (take limit (drop offset (sorted_by_desc av_occurred_at rows)), length rows))"

section \<open>The trail only grows\<close>

interpretation audit: append_log audit_append ap_audit
  by unfold_locales (simp add: audit_append_def)

lemma audit_record_eq:
  "audit_record E u n r a tt ti rq md ps ns w =
     (let ev = \<lparr>av_audit_id = ''AUDIT-'' @ ae_uuid E (ap_uuid_reads w), av_occurred_at = ae_clock E (ap_clock_reads w),
        av_actor_user_id = u, av_actor_username = n, av_actor_role = r, av_action = a, av_target_type = tt,
        av_target_id = ti, av_request_id = rq, av_metadata = md, av_previous_state = ps, av_new_state = ns\<rparr>
      in (Inr ev, audit_append ev (w\<lparr>ap_uuid_reads := Suc (ap_uuid_reads w), ap_clock_reads := Suc (ap_clock_reads w)\<rparr>)))"
  by (simp add: audit_record_def app_m_defs Let_def audit_append_def)

text \<open>Pages of a list: \<open>limit\<close> rows from \<open>k * limit\<close> on, for \<open>k = 0, 1, \<dots>\<close>.\<close>

lemma pages_concat:
  assumes "0 < l" and "length xs \<le> n * l"
  shows "concat (map (\<lambda>k. take l (drop (k * l) xs)) [0..<n]) = xs"
  using assms(2)
proof (induction n arbitrary: xs)
  case (Suc n)
  have "concat (map (\<lambda>k. take l (drop (k * l) (drop l xs))) [0..<n]) = drop l xs"
    using Suc.prems by (intro Suc.IH) simp
  moreover have "map (\<lambda>k. take l (drop (k * l) xs)) [0..<Suc n] =
      take l xs # map (\<lambda>k. take l (drop (k * l) (drop l xs))) [0..<n]"
    by (simp add: map_upt_Suc add.commute del: upt_Suc)
  ultimately show ?case by (simp del: upt_Suc)
qed simp

text \<open>
  The audit trail can be read back in full. Paging through \<open>list_events\<close> with any page size, as
  far as the reported total demands, yields every event that matches the filter exactly as it was recorded
  (a permutation of the matching rows, newest first), and the reported total is their number.
\<close>

lemma audit_pages_complete:
  assumes "0 < limit" and "snd (audit_list_events f limit 0 w) \<le> n * limit"
  shows "let pages = concat (map (\<lambda>k. fst (audit_list_events f limit (k * limit) w)) [0..<n])
    in set pages = {ev \<in> set (ap_audit w). audit_matches f ev}
     \<and> length pages = snd (audit_list_events f limit 0 w)
     \<and> sorted (rev (map av_occurred_at pages))"
proof -
  let ?rows = "filter (audit_matches f) (ap_audit w)"
  have "concat (map (\<lambda>k. fst (audit_list_events f limit (k * limit) w)) [0..<n]) = sorted_by_desc av_occurred_at ?rows"
    unfolding audit_list_events_def Let_def fst_conv
    using assms by (intro pages_concat) (simp_all add: audit_list_events_def Let_def)
  then show ?thesis
    by (simp add: Let_def audit_list_events_def sorted_by_desc_sorted)
qed

definition demo_app :: app_state where
  "demo_app = \<lparr>ap_clock_reads = 0, ap_uuid_reads = 0, ap_token_reads = 0, ap_audit = []\<rparr>"

definition demo_app_env :: app_env where
  "demo_app_env = \<lparr>ae_clock = (\<lambda>n. int n), ae_uuid = (\<lambda>n. nat_digits n), ae_token = (\<lambda>n. nat_digits n),
     ae_verify_password = (=), ae_dummy_hash = ''dummy''\<rparr>"

definition no_filter :: audit_filter where
  "no_filter = \<lparr>af_action = None, af_target_type = None, af_target_id = None, af_actor_user_id = None\<rparr>"

definition demo_trail :: app_state where
  "demo_trail = snd (audit_record demo_app_env None (Some ''alice'') None LOGIN_FAILURE (Some ''user'') None None [] None None demo_app)"

lemma audit_pages_complete_example:
  "length (concat (map (\<lambda>k. fst (audit_list_events no_filter 10 (k * 10) demo_trail)) [0..<1])) = 1"
  using audit_pages_complete [of 10 no_filter demo_trail 1]
  by (simp add: Let_def audit_list_events_def demo_trail_def audit_record_eq audit_append_def demo_app_def
      audit_matches_def no_filter_def)

end
