(* ===== verification/Auth.thy ===== *)
theory Auth
  imports Audit_Log
begin

text \<open>
  Authentication (\<open>zeroshield.auth\<close>): the users and sessions tables with their repository and the
  login service. Password hashing (Argon2) is the parameter \<open>ae_verify_password\<close>; session tokens come
  from the environment and only their SHA-256 is stored.
\<close>

section \<open>\<open>auth/models.py\<close>\<close>

datatype role = VIEWER | RESEARCHER | REVIEWER | ADMIN

fun role_value :: "role \<Rightarrow> string" where
  "role_value VIEWER = ''viewer''"
| "role_value RESEARCHER = ''researcher''"
| "role_value REVIEWER = ''reviewer''"
| "role_value ADMIN = ''admin''"

record user =
  u_user_id :: string
  u_username :: string
  u_role :: role
  u_active :: bool
  u_created_at :: datetime
  u_updated_at :: datetime

text \<open>A row of \<open>users\<close>, which is what \<open>UserWithCredentials\<close> carries.\<close>

record user_with_credentials = user +
  u_password_hash :: string
  u_failed_login_attempts :: int
  u_locked_until :: "datetime option"

record session_record =
  se_session_id :: string
  se_user_id :: string
  se_created_at :: datetime
  se_expires_at :: datetime
  se_last_used_at :: datetime
  se_ip_address :: "string option"
  se_user_agent :: "string option"

record auth_state = app_state +
  au_users :: "user_with_credentials list"
  au_sessions :: "session_record list"

type_synonym ('z, 'a) auth_m = "('z auth_state_scheme, exn, 'a) eff"

section \<open>\<open>auth/repository.py\<close>\<close>

definition user_from_orm :: "user_with_credentials \<Rightarrow> exn + user" where
  "user_from_orm r =
     bindS (raise_if (u_username r = []) (ValidationError ''User'' ''fields'')) (\<lambda>_. Inr (user.truncate r))"

definition create_user :: "app_env \<Rightarrow> string \<Rightarrow> string \<Rightarrow> role \<Rightarrow> ('z, user) auth_m" where
  "create_user E username password_hash rl =
     bindE (utc_now E) (\<lambda>now.
     bindE (getE (\<lambda>w. filter (\<lambda>r. u_username r = username) (au_users w))) (\<lambda>rows.
     bindE (liftE (scalar_one_or_none rows)) (\<lambda>existing.
     if existing \<noteq> None
     then raiseE (UsernameAlreadyExistsError (''username '' @ quoted username @ '' is already registered''))
     else
       bindE (uuid4_hex E) (\<lambda>u.
       let row = \<lparr>u_user_id = ''USER-'' @ u, u_username = username, u_role = rl, u_active = True,
         u_created_at = now, u_updated_at = now, u_password_hash = password_hash,
         u_failed_login_attempts = 0, u_locked_until = None\<rparr>
       in bindE (modifyE (\<lambda>w. w\<lparr>au_users := au_users w @ [row]\<rparr>)) (\<lambda>_. liftE (user_from_orm row))))))"

definition get_user_by_username :: "string \<Rightarrow> ('z, user_with_credentials option) auth_m" where
  "get_user_by_username username =
     bindE (getE (\<lambda>w. filter (\<lambda>r. u_username r = username) (au_users w))) (\<lambda>rows.
     bindE (liftE (scalar_one_or_none rows)) (\<lambda>row.
     case row of None \<Rightarrow> returnE None
     | Some r \<Rightarrow> bindE (liftE (user_from_orm r)) (\<lambda>_. returnE (Some r))))"

definition get_user :: "string \<Rightarrow> ('z, user option) auth_m" where
  "get_user user_id =
     bindE (getE (\<lambda>w. tbl_get u_user_id user_id (au_users w))) (\<lambda>row.
     case row of None \<Rightarrow> returnE None
     | Some r \<Rightarrow> bindE (liftE (user_from_orm r)) (\<lambda>u. returnE (Some u)))"

definition list_users :: "('z, user list) auth_m" where
  "list_users =
     bindE (getE (\<lambda>w. sorted_by u_username (au_users w))) (\<lambda>rows. liftE (mapS user_from_orm rows))"

definition update_user :: "app_env \<Rightarrow> string \<Rightarrow> role option \<Rightarrow> bool option \<Rightarrow> ('z, user option) auth_m" where
  "update_user E user_id rl active =
     bindE (getE (\<lambda>w. tbl_get u_user_id user_id (au_users w))) (\<lambda>row.
     case row of None \<Rightarrow> returnE None
     | Some r \<Rightarrow>
         bindE (utc_now E) (\<lambda>now.
         let f = (\<lambda>r. r\<lparr>u_role := (case rl of None \<Rightarrow> u_role r | Some x \<Rightarrow> x),
           u_active := (case active of None \<Rightarrow> u_active r | Some x \<Rightarrow> x), u_updated_at := now\<rparr>)
         in bindE (modifyE (\<lambda>w. w\<lparr>au_users := tbl_modify u_user_id user_id f (au_users w)\<rparr>)) (\<lambda>_.
            bindE (liftE (user_from_orm (f r))) (\<lambda>u. returnE (Some u)))))"

definition record_login_success :: "app_env \<Rightarrow> string \<Rightarrow> ('z, unit) auth_m" where
  "record_login_success E user_id =
     bindE (getE (\<lambda>w. tbl_get u_user_id user_id (au_users w))) (\<lambda>row.
     case row of None \<Rightarrow> returnE ()
     | Some _ \<Rightarrow>
         bindE (utc_now E) (\<lambda>now.
         modifyE (\<lambda>w. w\<lparr>au_users := tbl_modify u_user_id user_id
           (\<lambda>r. r\<lparr>u_failed_login_attempts := 0, u_locked_until := None, u_updated_at := now\<rparr>) (au_users w)\<rparr>)))"

definition record_login_failure :: "app_env \<Rightarrow> string \<Rightarrow> datetime option \<Rightarrow> ('z, unit) auth_m" where
  "record_login_failure E user_id lock_until =
     bindE (getE (\<lambda>w. tbl_get u_user_id user_id (au_users w))) (\<lambda>row.
     case row of None \<Rightarrow> returnE ()
     | Some _ \<Rightarrow>
         bindE (utc_now E) (\<lambda>now.
         modifyE (\<lambda>w. w\<lparr>au_users := tbl_modify u_user_id user_id
           (\<lambda>r. r\<lparr>u_failed_login_attempts := u_failed_login_attempts r + 1,
             u_locked_until := (case lock_until of None \<Rightarrow> u_locked_until r | Some t \<Rightarrow> Some t),
             u_updated_at := now\<rparr>) (au_users w)\<rparr>)))"

definition create_session :: "app_env \<Rightarrow> string \<Rightarrow> string \<Rightarrow> datetime \<Rightarrow> string option \<Rightarrow> string option
    \<Rightarrow> ('z, session_record) auth_m" where
  "create_session E session_id_hash user_id expires_at ip_address user_agent =
     bindE (utc_now E) (\<lambda>now.
     let row = \<lparr>se_session_id = session_id_hash, se_user_id = user_id, se_created_at = now,
       se_expires_at = expires_at, se_last_used_at = now, se_ip_address = ip_address, se_user_agent = user_agent\<rparr>
     in bindE (getE (\<lambda>w. tbl_get se_session_id session_id_hash (au_sessions w))) (\<lambda>dup.
        if dup \<noteq> None then raiseE (OtherError ''IntegrityError'' ''sessions.session_id'')
        else bindE (modifyE (\<lambda>w. w\<lparr>au_sessions := au_sessions w @ [row]\<rparr>)) (\<lambda>_. returnE row)))"

definition get_session_with_user :: "string \<Rightarrow> ('z, (session_record \<times> user) option) auth_m" where
  "get_session_with_user session_id_hash =
     bindE (getE (\<lambda>w. tbl_get se_session_id session_id_hash (au_sessions w))) (\<lambda>row.
     case row of None \<Rightarrow> returnE None
     | Some s \<Rightarrow>
         bindE (getE (\<lambda>w. tbl_get u_user_id (se_user_id s) (au_users w))) (\<lambda>user_row.
         case user_row of None \<Rightarrow> returnE None
         | Some r \<Rightarrow> bindE (liftE (user_from_orm r)) (\<lambda>u. returnE (Some (s, u)))))"

definition touch_session :: "app_env \<Rightarrow> string \<Rightarrow> ('z, unit) auth_m" where
  "touch_session E session_id_hash =
     bindE (getE (\<lambda>w. tbl_get se_session_id session_id_hash (au_sessions w))) (\<lambda>row.
     case row of None \<Rightarrow> returnE ()
     | Some _ \<Rightarrow>
         bindE (utc_now E) (\<lambda>now.
         modifyE (\<lambda>w. w\<lparr>au_sessions := tbl_modify se_session_id session_id_hash
           (\<lambda>s. s\<lparr>se_last_used_at := now\<rparr>) (au_sessions w)\<rparr>)))"

definition delete_session :: "string \<Rightarrow> ('z, unit) auth_m" where
  "delete_session session_id_hash =
     modifyE (\<lambda>w. w\<lparr>au_sessions := filter (\<lambda>s. se_session_id s \<noteq> session_id_hash) (au_sessions w)\<rparr>)"

definition delete_expired_sessions :: "app_env \<Rightarrow> datetime option \<Rightarrow> ('z, nat) auth_m" where
  "delete_expired_sessions E now_opt =
     bindE (case now_opt of None \<Rightarrow> utc_now E | Some t \<Rightarrow> returnE t) (\<lambda>cutoff.
     bindE (getE (\<lambda>w. length (filter (\<lambda>s. se_expires_at s < cutoff) (au_sessions w)))) (\<lambda>n.
     bindE (modifyE (\<lambda>w. w\<lparr>au_sessions := filter (\<lambda>s. \<not> se_expires_at s < cutoff) (au_sessions w)\<rparr>)) (\<lambda>_.
     returnE n)))"

section \<open>\<open>auth/service.py\<close>\<close>

definition SESSION_TTL :: timedelta where "SESSION_TTL = td_hours 12"
definition MAX_FAILED_LOGIN_ATTEMPTS :: int where "MAX_FAILED_LOGIN_ATTEMPTS = 5"
definition LOCKOUT_DURATION :: timedelta where "LOCKOUT_DURATION = td_minutes 15"

record login_result =
  lr_user :: user
  lr_raw_session_token :: string
  lr_session :: session_record

definition hash_session_token :: "string \<Rightarrow> string" where
  "hash_session_token raw_token = sha256_hex raw_token"

definition audit_user :: "app_env \<Rightarrow> 'u user_scheme \<Rightarrow> string \<Rightarrow> string option \<Rightarrow> pydict \<Rightarrow> ('z, unit) auth_m" where
  "audit_user E c action request_id metadata =
     bindE (audit_record E (Some (u_user_id c)) (Some (u_username c)) (Some (role_value (u_role c))) action
       (Some ''user'') (Some (u_user_id c)) request_id metadata None None) (\<lambda>_. returnE ())"

definition record_failed_attempt :: "app_env \<Rightarrow> string \<Rightarrow> int \<Rightarrow> string option \<Rightarrow> ('z, unit) auth_m" where
  "record_failed_attempt E user_id current_failures request_id =
     (let new_count = current_failures + 1 in
      bindE (if MAX_FAILED_LOGIN_ATTEMPTS \<le> new_count
        then bindE (utc_now E) (\<lambda>now. returnE (Some (now + LOCKOUT_DURATION))) else returnE None) (\<lambda>lock_until.
      bindE (record_login_failure E user_id lock_until) (\<lambda>_.
      bindE (get_user user_id) (\<lambda>u.
      bindE (audit_record E (Some user_id) (map_option u_username u) (map_option (role_value \<circ> u_role) u) LOGIN_FAILURE
        (Some ''user'') (Some user_id) request_id
        [(''reason'', PStr ''bad_password''), (''attempt'', PInt new_count)] None None) (\<lambda>_.
      case lock_until of
        None \<Rightarrow> returnE ()
      | Some t \<Rightarrow>
          bindE (audit_record E (Some user_id) (map_option u_username u) (map_option (role_value \<circ> u_role) u) ACCOUNT_LOCKED
            (Some ''user'') (Some user_id) request_id [(''locked_until'', PStr (datetime_iso t))] None None)
          (\<lambda>_. returnE ()))))))"

text \<open>The lock check of \<open>login\<close>: the clock is only read for an account that has a lock.\<close>

definition check_lock :: "app_env \<Rightarrow> user_with_credentials option \<Rightarrow> string option \<Rightarrow> ('z, unit) auth_m" where
  "check_lock E candidate request_id =
     (case candidate of
        None \<Rightarrow> returnE ()
      | Some c \<Rightarrow>
          (case u_locked_until c of
             None \<Rightarrow> returnE ()
           | Some t \<Rightarrow>
               bindE (utc_now E) (\<lambda>now.
               if now < t
               then bindE (audit_user E c LOGIN_FAILURE request_id [(''reason'', PStr ''account_locked'')]) (\<lambda>_.
                 raiseE (AccountLockedError t))
               else returnE ())))"

definition open_session :: "app_env \<Rightarrow> user_with_credentials \<Rightarrow> string option \<Rightarrow> string option \<Rightarrow> string option
    \<Rightarrow> ('z, login_result) auth_m" where
  "open_session E c ip_address user_agent request_id =
     bindE (record_login_success E (u_user_id c)) (\<lambda>_.
     bindE (delete_expired_sessions E None) (\<lambda>_.
     bindE (token_urlsafe E) (\<lambda>raw_token.
     bindE (utc_now E) (\<lambda>now.
     bindE (create_session E (hash_session_token raw_token) (u_user_id c) (now + SESSION_TTL) ip_address user_agent) (\<lambda>s.
     bindE (audit_user E c LOGIN_SUCCESS request_id
       (case ip_address of None \<Rightarrow> [] | Some ip \<Rightarrow> if ip = [] then [] else [(''ip_address'', PStr ip)])) (\<lambda>_.
     returnE \<lparr>lr_user = user.truncate c, lr_raw_session_token = raw_token, lr_session = s\<rparr>))))))"

definition login :: "app_env \<Rightarrow> string \<Rightarrow> string \<Rightarrow> string option \<Rightarrow> string option \<Rightarrow> string option
    \<Rightarrow> ('z, login_result) auth_m" where
  "login E username password ip_address user_agent request_id =
     bindE (get_user_by_username username) (\<lambda>candidate.
     bindE (check_lock E candidate request_id) (\<lambda>_.
     let password_hash = (case candidate of Some c \<Rightarrow> u_password_hash c | None \<Rightarrow> ae_dummy_hash E);
         password_ok = ae_verify_password E password password_hash
     in case candidate of
          None \<Rightarrow>
            bindE (audit_record E None (Some username) None LOGIN_FAILURE (Some ''user'') None request_id
              [(''reason'', PStr ''unknown_username'')] None None) (\<lambda>_.
            raiseE (InvalidCredentialsError ''invalid username or password''))
        | Some c \<Rightarrow>
            if \<not> password_ok
            then bindE (record_failed_attempt E (u_user_id c) (u_failed_login_attempts c) request_id) (\<lambda>_.
              raiseE (InvalidCredentialsError ''invalid username or password''))
            else if \<not> u_active c
            then bindE (audit_user E c LOGIN_FAILURE request_id [(''reason'', PStr ''account_inactive'')]) (\<lambda>_.
              raiseE (AccountInactiveError ''this account has been deactivated''))
            else open_session E c ip_address user_agent request_id))"

definition logout :: "app_env \<Rightarrow> string \<Rightarrow> user option \<Rightarrow> string option \<Rightarrow> ('z, unit) auth_m" where
  "logout E raw_session_token actor request_id =
     bindE (delete_session (hash_session_token raw_session_token)) (\<lambda>_.
     case actor of None \<Rightarrow> returnE () | Some a \<Rightarrow> audit_user E a LOGOUT request_id [])"

definition get_user_for_session :: "app_env \<Rightarrow> string \<Rightarrow> ('z, user option) auth_m" where
  "get_user_for_session E raw_session_token =
     bindE (get_session_with_user (hash_session_token raw_session_token)) (\<lambda>result.
     case result of
       None \<Rightarrow> returnE None
     | Some (s, u) \<Rightarrow>
         bindE (utc_now E) (\<lambda>now.
         if se_expires_at s \<le> now
         then bindE (delete_session (se_session_id s)) (\<lambda>_. returnE None)
         else if \<not> u_active u then returnE None
         else bindE (touch_session E (se_session_id s)) (\<lambda>_. returnE (Some u))))"

definition service_create_user :: "app_env \<Rightarrow> string \<Rightarrow> string \<Rightarrow> role \<Rightarrow> user \<Rightarrow> string option \<Rightarrow> ('z, user) auth_m" where
  "service_create_user E username password_hash rl actor request_id =
     bindE (create_user E username password_hash rl) (\<lambda>created.
     bindE (audit_record E (Some (u_user_id actor)) (Some (u_username actor)) (Some (role_value (u_role actor))) USER_CREATED
       (Some ''user'') (Some (u_user_id created)) request_id
       [(''username'', PStr (u_username created)), (''role'', PStr (role_value (u_role created)))] None None) (\<lambda>_.
     returnE created))"

definition update_user_role :: "app_env \<Rightarrow> string \<Rightarrow> role \<Rightarrow> user \<Rightarrow> string option \<Rightarrow> ('z, user option) auth_m" where
  "update_user_role E user_id rl actor request_id =
     bindE (get_user user_id) (\<lambda>before.
     bindE (update_user E user_id (Some rl) None) (\<lambda>updated.
     case updated of
       None \<Rightarrow> returnE None
     | Some u \<Rightarrow>
         bindE (audit_record E (Some (u_user_id actor)) (Some (u_username actor)) (Some (role_value (u_role actor)))
           USER_ROLE_CHANGED (Some ''user'') (Some user_id) request_id []
           (map_option (\<lambda>b. [(''role'', PStr (role_value (u_role b)))]) before)
           (Some [(''role'', PStr (role_value (u_role u)))])) (\<lambda>_. returnE (Some u))))"

definition set_user_active :: "app_env \<Rightarrow> string \<Rightarrow> bool \<Rightarrow> user \<Rightarrow> string option \<Rightarrow> ('z, user option) auth_m" where
  "set_user_active E user_id active actor request_id =
     bindE (update_user E user_id None (Some active)) (\<lambda>updated.
     case updated of
       None \<Rightarrow> returnE None
     | Some u \<Rightarrow>
         bindE (audit_record E (Some (u_user_id actor)) (Some (u_username actor)) (Some (role_value (u_role actor)))
           (if active then USER_REACTIVATED else USER_DEACTIVATED) (Some ''user'') (Some user_id) request_id [] None None)
         (\<lambda>_. returnE (Some u)))"

section \<open>Well-formed tables\<close>

definition users_ok :: "user_with_credentials list \<Rightarrow> bool" where
  "users_ok us \<longleftrightarrow> tbl_ok u_user_id us \<and> tbl_ok u_username us \<and> list_all (\<lambda>r. u_username r \<noteq> []) us"

lemma filter_key_unique:
  "tbl_ok key t \<Longrightarrow> filter (\<lambda>r. key r = k) t = (case tbl_get key k t of None \<Rightarrow> [] | Some r \<Rightarrow> [r])"
proof (induction t)
  case (Cons r t)
  then have IH: "filter (\<lambda>r. key r = k) t = (case tbl_get key k t of None \<Rightarrow> [] | Some r \<Rightarrow> [r])"
    by (simp add: tbl_ok_def)
  have "key r = k \<Longrightarrow> tbl_get key k t = None"
    using Cons.prems by (auto simp: tbl_ok_def tbl_get_None)
  then show ?case using IH by (auto simp: tbl_get_Cons)
qed simp

lemma user_from_orm_ok: "u_username r \<noteq> [] \<Longrightarrow> user_from_orm r = Inr (user.truncate r)"
  by (simp add: user_from_orm_def raise_if_def)

lemma users_ok_get: "users_ok us \<Longrightarrow> tbl_get key k us = Some r \<Longrightarrow> u_username r \<noteq> []"
  by (auto simp: users_ok_def list_all_iff dest: tbl_get_SomeD)

lemma get_user_by_username_eq:
  assumes "users_ok (au_users w)"
  shows "get_user_by_username n w = (Inr (tbl_get u_username n (au_users w)), w)"
proof -
  have "filter (\<lambda>r. u_username r = n) (au_users w) = (case tbl_get u_username n (au_users w) of None \<Rightarrow> [] | Some r \<Rightarrow> [r])"
    using assms by (intro filter_key_unique) (simp add: users_ok_def)
  then show ?thesis using users_ok_get [OF assms, of u_username n]
    by (cases "tbl_get u_username n (au_users w)")
      (simp_all add: get_user_by_username_def app_m_defs scalar_one_or_none_def user_from_orm_ok)
qed

lemma get_user_eq:
  assumes "users_ok (au_users w)"
  shows "get_user i w = (Inr (map_option user.truncate (tbl_get u_user_id i (au_users w))), w)"
  using users_ok_get [OF assms, of u_user_id i]
  by (cases "tbl_get u_user_id i (au_users w)") (simp_all add: get_user_def app_m_defs user_from_orm_ok)

text \<open>Changing a user's row without its keys keeps the table well formed.\<close>

lemma users_ok_modify:
  assumes "users_ok us" and "\<And>r. u_user_id (f r) = u_user_id r" and "\<And>r. u_username (f r) = u_username r"
  shows "users_ok (tbl_modify u_user_id i f us)"
proof -
  have "map u_username (tbl_modify u_user_id i f us) = map u_username us"
    using assms(3) by (simp add: tbl_modify_def)
  moreover have "map u_user_id (tbl_modify u_user_id i f us) = map u_user_id us"
    using assms(2) by (simp add: tbl_modify_def)
  ultimately show ?thesis
    using assms by (auto simp: users_ok_def tbl_ok_def list_all_iff) (auto simp: tbl_modify_def)
qed

lemma get_by_name_modify:
  assumes "users_ok us" and "tbl_get u_username n us = Some c" and "\<And>r. u_username (f r) = u_username r"
  shows "tbl_get u_username n (tbl_modify u_user_id (u_user_id c) f us) = Some (f c)"
  using assms(1,2)
proof (induction us)
  case (Cons r us)
  then show ?case
    using assms(3)
    by (auto simp: tbl_get_Cons tbl_modify_def users_ok_def tbl_ok_def split: if_splits dest: tbl_get_SomeD)
qed simp

section \<open>Failed logins\<close>

lemma audit_append_sel [simp]:
  "au_users (audit_append ev w) = au_users w" "au_sessions (audit_append ev w) = au_sessions w"
  "ap_clock_reads (audit_append ev w) = ap_clock_reads w"
  by (simp_all add: audit_append_def)

definition failed_row :: "user_with_credentials \<Rightarrow> datetime option \<Rightarrow> datetime \<Rightarrow> user_with_credentials" where
  "failed_row c lock now =
     c\<lparr>u_failed_login_attempts := u_failed_login_attempts c + 1,
       u_locked_until := (case lock of None \<Rightarrow> u_locked_until c | Some t \<Rightarrow> Some t), u_updated_at := now\<rparr>"

text \<open>A wrong password counts, locks from the fifth on, opens no session, and says nothing more.\<close>

lemma bad_login:
  assumes ok: "users_ok (au_users w)" and c: "tbl_get u_username n (au_users w) = Some c"
    and unlocked: "u_locked_until c = None" and bad: "\<not> ae_verify_password E pw (u_password_hash c)"
  shows "\<exists>w' lock now. login E n pw ip ua rq w = (Inl (InvalidCredentialsError ''invalid username or password''), w')
    \<and> users_ok (au_users w') \<and> au_sessions w' = au_sessions w
    \<and> tbl_get u_username n (au_users w') = Some (failed_row c lock now)
    \<and> lock = (if 5 \<le> u_failed_login_attempts c + 1 then Some (ae_clock E (ap_clock_reads w) + LOCKOUT_DURATION) else None)"
proof -
  have id: "tbl_get u_user_id (u_user_id c) (au_users w) = Some c"
    using ok c tbl_get_in [of u_user_id "au_users w" c] by (auto simp: users_ok_def dest: tbl_get_SomeD)
  have f: "users_ok (tbl_modify u_user_id (u_user_id c) (\<lambda>r. failed_row r lock now) (au_users w))"
    "tbl_get u_username n (tbl_modify u_user_id (u_user_id c) (\<lambda>r. failed_row r lock now) (au_users w)) = Some (failed_row c lock now)"
    for lock now
    using ok c by (auto intro!: users_ok_modify get_by_name_modify simp: failed_row_def)
  have chk: "check_lock E (Some c) rq w = (Inr (), w)"
    by (simp add: check_lock_def unlocked returnE_def)
  show ?thesis
  proof (cases "5 \<le> u_failed_login_attempts c + 1")
    case True
    with id f [of "Some (ae_clock E (ap_clock_reads w) + LOCKOUT_DURATION)" "ae_clock E (Suc (ap_clock_reads w))"]
    show ?thesis
      by (simp add: login_def bindE_def get_user_by_username_eq [OF ok] c chk bad record_failed_attempt_def
          MAX_FAILED_LOGIN_ATTEMPTS_def record_login_failure_def app_m_defs audit_record_eq Let_def get_user_eq
          failed_row_def [symmetric] failed_row_def [of _ "Some _", simplified, symmetric])
        blast
  next
    case False
    with id f [of None "ae_clock E (ap_clock_reads w)"] show ?thesis
      by (simp add: login_def bindE_def get_user_by_username_eq [OF ok] c chk bad record_failed_attempt_def
          MAX_FAILED_LOGIN_ATTEMPTS_def record_login_failure_def app_m_defs audit_record_eq Let_def get_user_eq
          failed_row_def [of _ None, simplified, symmetric])
        blast
  qed
qed

text \<open>A locked account is refused whatever the password, and nothing but the audit trail changes.\<close>

lemma locked_login:
  assumes "users_ok (au_users w)" and "tbl_get u_username n (au_users w) = Some c"
    and "u_locked_until c = Some t" and "ae_clock E (ap_clock_reads w) < t"
  shows "\<exists>w'. login E n pw ip ua rq w = (Inl (AccountLockedError t), w')
    \<and> au_sessions w' = au_sessions w \<and> au_users w' = au_users w"
  using assms
  by (simp add: login_def bindE_def get_user_by_username_eq check_lock_def app_m_defs audit_user_def audit_record_eq Let_def)

text \<open>Several attempts in a row on one account.\<close>

definition attempts :: "app_env \<Rightarrow> string \<Rightarrow> string list \<Rightarrow> 'z auth_state_scheme \<Rightarrow> 'z auth_state_scheme" where
  "attempts E n pws w = fold (\<lambda>pw w. snd (login E n pw None None None w)) pws w"

lemma bad_attempts:
  assumes "users_ok (au_users w)" and "tbl_get u_username n (au_users w) = Some c" and "u_locked_until c = None"
    and "u_failed_login_attempts c = int k" and "list_all (\<lambda>pw. \<not> ae_verify_password E pw (u_password_hash c)) pws"
    and "k + length pws \<le> 4"
  shows "\<exists>c'. users_ok (au_users (attempts E n pws w)) \<and> au_sessions (attempts E n pws w) = au_sessions w
    \<and> tbl_get u_username n (au_users (attempts E n pws w)) = Some c' \<and> u_locked_until c' = None
    \<and> u_failed_login_attempts c' = int (k + length pws) \<and> u_password_hash c' = u_password_hash c"
  using assms
proof (induction pws arbitrary: w c k)
  case Nil
  then show ?case by (simp add: attempts_def)
next
  case (Cons pw pws)
  have bad: "\<not> ae_verify_password E pw (u_password_hash c)" using Cons.prems by simp
  obtain w' now where w': "snd (login E n pw None None None w) = w'" "users_ok (au_users w')"
    "au_sessions w' = au_sessions w" "tbl_get u_username n (au_users w') = Some (failed_row c None now)"
    using bad_login [OF Cons.prems(1-3) bad, of None None None] Cons.prems(4,6) by auto
  have "\<exists>c'. users_ok (au_users (attempts E n pws w')) \<and> au_sessions (attempts E n pws w') = au_sessions w'
    \<and> tbl_get u_username n (au_users (attempts E n pws w')) = Some c' \<and> u_locked_until c' = None
    \<and> u_failed_login_attempts c' = int (Suc k + length pws) \<and> u_password_hash c' = u_password_hash (failed_row c None now)"
    using Cons.prems w' by (intro Cons.IH) (auto simp: failed_row_def)
  then show ?case using w' by (auto simp: attempts_def failed_row_def)
qed


definition demo_user :: user_with_credentials where
  "demo_user = \<lparr>u_user_id = ''USER-1'', u_username = ''alice'', u_role = RESEARCHER, u_active = True, u_created_at = 0,
     u_updated_at = 0, u_password_hash = ''secret'', u_failed_login_attempts = 0, u_locked_until = None\<rparr>"

definition demo_auth :: auth_state where
  "demo_auth = \<lparr>ap_clock_reads = 0, ap_uuid_reads = 0, ap_token_reads = 0, ap_audit = [],
     au_users = [demo_user], au_sessions = []\<rparr>"

lemma demo_auth_ok: "users_ok (au_users demo_auth)" "tbl_get u_username ''alice'' (au_users demo_auth) = Some demo_user"
  by (simp_all add: demo_auth_def demo_user_def users_ok_def tbl_ok_def tbl_get_def)


section \<open>Sessions\<close>

lemma open_session_Inr:
  assumes "open_session E c ip ua rq w = (Inr res, w')" and "tbl_get u_user_id (u_user_id c) (au_users w) = Some c"
  shows "\<exists>t now. se_expires_at (lr_session res) = t + SESSION_TTL
    \<and> tbl_get se_session_id (hash_session_token (lr_raw_session_token res)) (au_sessions w') = Some (lr_session res)
    \<and> se_session_id (lr_session res) = hash_session_token (lr_raw_session_token res)
    \<and> se_user_id (lr_session res) = u_user_id c \<and> lr_user res = user.truncate c
    \<and> au_users w' = tbl_modify u_user_id (u_user_id c)
        (\<lambda>r. r\<lparr>u_failed_login_attempts := 0, u_locked_until := None, u_updated_at := now\<rparr>) (au_users w)"
  using assms
  by (auto simp: open_session_def bindE_Inr record_login_success_def delete_expired_sessions_def create_session_def
      audit_user_def audit_record_eq Let_def app_m_defs tbl_get_append tbl_get_Cons split: if_splits option.splits)

lemma login_Inr:
  assumes "login E n pw ip ua rq w = (Inr res, w')" and "users_ok (au_users w)"
  shows "\<exists>c w1. tbl_get u_username n (au_users w) = Some c \<and> ae_verify_password E pw (u_password_hash c) \<and> u_active c
    \<and> au_users w1 = au_users w \<and> open_session E c ip ua rq w1 = (Inr res, w')
    \<and> (\<forall>t. u_locked_until c = Some t \<longrightarrow> t \<le> ae_clock E (ap_clock_reads w))"
proof -
  obtain c w1 where c: "tbl_get u_username n (au_users w) = Some c" and chk: "check_lock E (Some c) rq w = (Inr (), w1)"
    and "ae_verify_password E pw (u_password_hash c)" "u_active c" "open_session E c ip ua rq w1 = (Inr res, w')"
    using assms
    by (auto simp: login_def bindE_Inr get_user_by_username_eq Let_def raiseE_def split: option.splits if_splits)
  moreover from chk have "au_users w1 = au_users w" "\<forall>t. u_locked_until c = Some t \<longrightarrow> t \<le> ae_clock E (ap_clock_reads w)"
    by (auto simp: check_lock_def app_m_defs not_less audit_user_def audit_record_eq Let_def split: option.splits if_splits)
  ultimately show ?thesis by blast
qed

lemma session_user_eq:
  assumes "tbl_get se_session_id (hash_session_token tok) (au_sessions v) = Some s"
    and "tbl_get u_user_id (se_user_id s) (au_users v) = Some r" and "u_username r \<noteq> []"
  shows "fst (get_user_for_session E tok v) =
    Inr (if ae_clock E (ap_clock_reads v) < se_expires_at s \<and> u_active r then Some (user.truncate r) else None)"
  using assms
  by (auto simp: get_user_for_session_def get_session_with_user_def app_m_defs user_from_orm_ok delete_session_def
      touch_session_def user.truncate_def not_less split: option.splits)

lemma no_session:
  "tbl_get se_session_id (hash_session_token tok) (au_sessions v) = None \<Longrightarrow> fst (get_user_for_session E tok v) = Inr None"
  by (simp add: get_user_for_session_def get_session_with_user_def app_m_defs)

lemma logout_removes: "tbl_get se_session_id (hash_session_token tok) (au_sessions (snd (logout E tok a rq v))) = None"
  by (auto simp: logout_def delete_session_def app_m_defs audit_user_def audit_record_eq Let_def tbl_get_None split: option.split)


lemma demo_login: "\<exists>res w'. login demo_app_env ''alice'' ''secret'' None None None demo_auth = (Inr res, w')"
  by (simp add: login_def get_user_by_username_def scalar_one_or_none_def user_from_orm_ok check_lock_def demo_user_def Let_def
      open_session_def record_login_success_def delete_expired_sessions_def create_session_def audit_user_def
      audit_record_eq app_m_defs demo_auth_def demo_app_env_def tbl_get_Cons)


lemma update_user_eq:
  assumes "users_ok (au_users w)" and "tbl_get u_user_id i (au_users w) = Some r"
  shows "\<exists>now u. update_user E i rl active w = (Inr (Some u), w\<lparr>ap_clock_reads := Suc (ap_clock_reads w),
     au_users := tbl_modify u_user_id i (\<lambda>r. r\<lparr>u_role := (case rl of None \<Rightarrow> u_role r | Some x \<Rightarrow> x),
       u_active := (case active of None \<Rightarrow> u_active r | Some x \<Rightarrow> x), u_updated_at := now\<rparr>) (au_users w)\<rparr>)"
  using assms users_ok_get [OF assms]
  by (simp add: update_user_def app_m_defs Let_def user_from_orm_ok) blast

text \<open>
  Deactivating an account ends its access at once: after \<open>set_user_active(..., active=False)\<close>
  no session of that user, however recently issued, identifies anyone, and other users' sessions answer as
  before.
\<close>

lemma deactivation_revokes:
  fixes w :: "'z auth_state_scheme"
  assumes "users_ok (au_users w)" and "tbl_get u_user_id i (au_users w) = Some r"
    and "tbl_get se_session_id (hash_session_token tok) (au_sessions w) = Some s"
    and "set_user_active E i False actor rq w = (res, w')"
  shows "if se_user_id s = i then fst (get_user_for_session E tok w') = Inr None
    else (\<forall>v :: 'z auth_state_scheme. au_users v = au_users w \<and> au_sessions v = au_sessions w \<and> ap_clock_reads v = ap_clock_reads w' \<longrightarrow>
           fst (get_user_for_session E tok w') = fst (get_user_for_session E tok v))"
proof -
  obtain now where w': "au_users w' = tbl_modify u_user_id i (\<lambda>r. r\<lparr>u_active := False, u_updated_at := now\<rparr>) (au_users w)"
    "au_sessions w' = au_sessions w"
    using assms(4) update_user_eq [OF assms(1,2), of E None "Some False"]
    by (auto simp: set_user_active_def bindE_def returnE_def audit_record_eq Let_def)
  have s: "tbl_get se_session_id (hash_session_token tok) (au_sessions w') = Some s" using assms(3) w'(2) by simp
  show ?thesis
  proof (cases "se_user_id s = i")
    case True
    have "tbl_get u_user_id (se_user_id s) (au_users w') = Some (r\<lparr>u_active := False, u_updated_at := now\<rparr>)"
      using True assms(2) by (simp add: w'(1) tbl_get_modify)
    then show ?thesis using True session_user_eq [OF s] users_ok_get [OF assms(1,2)] by simp
  next
    case False
    have same: "tbl_get u_user_id (se_user_id s) (au_users w') = tbl_get u_user_id (se_user_id s) (au_users w)"
      using False by (simp add: w'(1) tbl_get_modify)
    have "fst (get_user_for_session E tok w') = fst (get_user_for_session E tok v)"
      if v: "au_users v = au_users w" "au_sessions v = au_sessions w" "ap_clock_reads v = ap_clock_reads w'"
      for v :: "'z auth_state_scheme"
    proof (cases "tbl_get u_user_id (se_user_id s) (au_users w)")
      case None
      then show ?thesis using s same v assms(3)
        by (simp add: get_user_for_session_def get_session_with_user_def app_m_defs)
    next
      case (Some r')
      have "u_username r' \<noteq> []" using users_ok_get [OF assms(1) Some] .
      then show ?thesis using session_user_eq [OF s, of r' E] session_user_eq [of tok v s r' E] Some same v assms(3) by simp
    qed
    with False show ?thesis by simp
  qed
qed

definition demo_auth_session :: auth_state where
  "demo_auth_session = demo_auth\<lparr>au_sessions := [\<lparr>se_session_id = hash_session_token ''tok'', se_user_id = ''USER-1'',
     se_created_at = 0, se_expires_at = 1000, se_last_used_at = 0, se_ip_address = None, se_user_agent = None\<rparr>]\<rparr>"

lemma deactivation_revokes_example:
  "fst (get_user_for_session demo_app_env ''tok''
     (snd (set_user_active demo_app_env ''USER-1'' False (user.truncate demo_user) None demo_auth_session))) = Inr None"
proof -
  obtain res w' where e: "set_user_active demo_app_env ''USER-1'' False (user.truncate demo_user) None demo_auth_session = (res, w')"
    by (cases "set_user_active demo_app_env ''USER-1'' False (user.truncate demo_user) None demo_auth_session")
  have u: "users_ok (au_users demo_auth_session)" "tbl_get u_user_id ''USER-1'' (au_users demo_auth_session) = Some demo_user"
    using demo_auth_ok by (simp_all add: demo_auth_session_def demo_auth_def demo_user_def tbl_get_Cons)
  show ?thesis
    using deactivation_revokes [OF u _ e, of "''tok''" "hd (au_sessions demo_auth_session)"] e
    by (simp add: demo_auth_session_def tbl_get_Cons)
qed

end
