(* ===== verification/Studio_Catalog.thy ===== *)
theory Studio_Catalog
  imports Generators Evidence "HOL-Library.Product_Lexorder"
begin

text \<open>
  What Experiment Studio builds from: the domain packs (\<open>zeroshield.domain_packs\<close>), the registry
  of versioned validation templates (\<open>zeroshield.templates\<close>) and the dataset generators behind their
  registry (\<open>zeroshield.generators.base\<close>, \<open>.registry\<close>).
\<close>

section \<open>Domain packs\<close>

record domain_pack =
  dp_pack_id :: string
  dp_name :: string
  dp_version :: string
  dp_domain :: domain
  dp_supported_failure_patterns :: "string list"
  dp_template_ids :: "string list"
  dp_allowed_strategy_ids :: "string list"
  dp_dataset_generator_id :: string
  dp_domain_metrics :: "metric_name list"
  dp_compatibility :: "(string \<times> string) list"

definition ALL_METRICS :: "metric_name list" where
  "ALL_METRICS = [BLOCK_RATE, VALID_ACCEPTANCE_RATE, FALSE_POSITIVE_RATE, FALSE_NEGATIVE_RATE, PARSER_REACH_RATE,
     MEAN_LATENCY_MS, LOG_COMPLETENESS_RATE]"

definition VPN_DOMAIN_PACK :: domain_pack where
  "VPN_DOMAIN_PACK =
     \<lparr>dp_pack_id = ''vpn'', dp_name = ''VPN Domain Pack'', dp_version = ''1.0.0'', dp_domain = VPN,
      dp_supported_failure_patterns = [''pre_auth_request_schema_validation'', ''pre_auth_path_canonicalisation'',
        ''pre_auth_length_boundary_enforcement''],
      dp_template_ids = [''vpn_schema_canonicalisation''],
      dp_allowed_strategy_ids = [''weak_schema_length_baseline'', ''strict_schema_canonicalisation_mitigation''],
      dp_dataset_generator_id = ''vpn_pre_auth_request_generator'', dp_domain_metrics = ALL_METRICS,
      dp_compatibility = [(''min_core_version'', ''2.0.0'')]\<rparr>"

definition TELECOM_DOMAIN_PACK :: domain_pack where
  "TELECOM_DOMAIN_PACK =
     \<lparr>dp_pack_id = ''telecom'', dp_name = ''Telecom Domain Pack'', dp_version = ''1.0.0'', dp_domain = TELECOM,
      dp_supported_failure_patterns = [''session_setup_mandatory_field_validation'',
        ''session_setup_grammar_enforcement'', ''session_state_machine_enforcement''],
      dp_template_ids = [''telecom_grammar_state_machine''],
      dp_allowed_strategy_ids = [''weak_mandatory_field_state_baseline'', ''strict_grammar_state_machine_mitigation''],
      dp_dataset_generator_id = ''telecom_sip_session_setup_generator'', dp_domain_metrics = ALL_METRICS,
      dp_compatibility = [(''min_core_version'', ''2.0.0'')]\<rparr>"

definition domain_pack_registry :: "domain_pack list" where
  "domain_pack_registry = [VPN_DOMAIN_PACK, TELECOM_DOMAIN_PACK]"

definition resolve_domain_pack :: "string \<Rightarrow> exn + domain_pack" where
  "resolve_domain_pack pack_id = (case tbl_get dp_pack_id pack_id domain_pack_registry of
     Some p \<Rightarrow> Inr p
   | None \<Rightarrow> Inl (UnknownDomainPackError (''no registered domain pack for id '' @ quoted pack_id
       @ ''; known packs: '' @ repr_str_list (sort (map dp_pack_id domain_pack_registry)))))"

definition known_domain_packs :: "domain_pack list" where
  "known_domain_packs = sorted_by dp_pack_id domain_pack_registry"

section \<open>Validation templates\<close>

record validation_template =
  vt_template_id :: string
  vt_version :: string
  vt_domain_pack_id :: string
  vt_name :: string
  vt_supported_failure_patterns :: "string list"
  vt_required_input_fields :: "string list"
  vt_allowed_baseline_strategies :: "string list"
  vt_allowed_mitigation_strategies :: "string list"
  vt_configurable_parameters :: pydict
  vt_metrics_to_collect :: "metric_name list"
  vt_safety_level :: safety_level

definition VPN_SCHEMA_CANONICALISATION_V1 :: validation_template where
  "VPN_SCHEMA_CANONICALISATION_V1 =
     \<lparr>vt_template_id = ''vpn_schema_canonicalisation'', vt_version = ''1.0.0'', vt_domain_pack_id = ''vpn'',
      vt_name = ''Pre-Auth Request Schema Validation & Canonicalisation'',
      vt_supported_failure_patterns = [''pre_auth_request_schema_validation'', ''pre_auth_path_canonicalisation'',
        ''pre_auth_length_boundary_enforcement''],
      vt_required_input_fields = [''method'', ''path'', ''declared_content_length'', ''actual_body_length'', ''encoding''],
      vt_allowed_baseline_strategies = [''weak_schema_length_baseline''],
      vt_allowed_mitigation_strategies = [''strict_schema_canonicalisation_mitigation''],
      vt_configurable_parameters = [(''max_path_length'', PInt 256), (''max_body_length'', PInt 8192),
        (''max_header_value_length'', PInt 512), (''max_query_param_value_length'', PInt 512),
        (''allowed_encodings'', PList [PStr ''utf-8'', PStr ''ascii''])],
      vt_metrics_to_collect = ALL_METRICS, vt_safety_level = SYNTHETIC_ONLY\<rparr>"

definition TELECOM_GRAMMAR_STATE_MACHINE_V1 :: validation_template where
  "TELECOM_GRAMMAR_STATE_MACHINE_V1 =
     \<lparr>vt_template_id = ''telecom_grammar_state_machine'', vt_version = ''1.0.0'', vt_domain_pack_id = ''telecom'',
      vt_name = ''Session-Setup Grammar & State-Machine Enforcement'',
      vt_supported_failure_patterns = [''session_setup_mandatory_field_validation'',
        ''session_setup_grammar_enforcement'', ''session_state_machine_enforcement''],
      vt_required_input_fields = [''method'', ''session_state'', ''headers'', ''sequence_number'', ''expected_sequence_number''],
      vt_allowed_baseline_strategies = [''weak_mandatory_field_state_baseline''],
      vt_allowed_mitigation_strategies = [''strict_grammar_state_machine_mitigation''],
      vt_configurable_parameters = [(''max_sdp_attr_value_length'', PInt 256), (''max_body_length'', PInt 4096),
        (''mandatory_headers'', PList [PStr ''Call-ID'', PStr ''From'', PStr ''To'']),
        (''legal_transitions'', PList [PList [PStr ''INIT'', PStr ''INVITE''], PList [PStr ''RINGING'', PStr ''ACK''],
          PList [PStr ''ESTABLISHED'', PStr ''BYE'']])],
      vt_metrics_to_collect = ALL_METRICS, vt_safety_level = SYNTHETIC_ONLY\<rparr>"

type_synonym template_registry = "validation_template list"

definition template_key :: "validation_template \<Rightarrow> string \<times> string" where
  "template_key t = (vt_template_id t, vt_version t)"

definition register_template :: "validation_template \<Rightarrow> template_registry \<Rightarrow> exn + template_registry" where
  "register_template t reg =
     (if tbl_get template_key (template_key t) reg \<noteq> None
      then Inl (OtherError ''DuplicateTemplateError'' (''template '' @ quoted (vt_template_id t) @ '' version ''
        @ quoted (vt_version t) @ '' is already registered''))
      else Inr (reg @ [t]))"

definition resolve_template :: "template_registry \<Rightarrow> string \<Rightarrow> string \<Rightarrow> exn + validation_template" where
  "resolve_template reg template_id version =
     (case tbl_get template_key (template_id, version) reg of
        Some t \<Rightarrow> Inr t
      | None \<Rightarrow> Inl (UnknownTemplateError (''no registered template '' @ quoted template_id @ '' version '' @ quoted version
          @ ''; known versions: ''
          @ repr_str_list (sort (map vt_version (filter (\<lambda>t. vt_template_id t = template_id) reg))))))"

text \<open>
  \<open>_version_key\<close>: a tuple of numbers, or the one-element tuple of infinity. A number \<open>n\<close> is
  \<open>(0, n)\<close> here and infinity is \<open>(1, 0)\<close>, so that the lexicographic order is the tuple order.
\<close>

definition int_of_digits :: "string \<Rightarrow> nat" where
  "int_of_digits s = foldl (\<lambda>n c. n * 10 + (of_char c - 48)) 0 s"

definition version_key :: "string \<Rightarrow> (nat \<times> nat) list" where
  "version_key v =
     (let segments = str_split (CHR ''.'') v in
      if list_all (\<lambda>s. s \<noteq> [] \<and> list_all is_digit s) segments then map (\<lambda>s. (0, int_of_digits s)) segments
      else [(1, 0)])"

definition latest_version :: "template_registry \<Rightarrow> string \<Rightarrow> exn + validation_template" where
  "latest_version reg template_id =
     (let matches = sorted_by version_key (map vt_version (filter (\<lambda>t. vt_template_id t = template_id) reg)) in
      if matches = [] then Inl (UnknownTemplateError (''no registered template with id '' @ quoted template_id))
      else (case tbl_get template_key (template_id, last matches) reg of
          Some t \<Rightarrow> Inr t
        | None \<Rightarrow> Inl (OtherError ''KeyError'' template_id)))"

definition list_templates :: "template_registry \<Rightarrow> string option \<Rightarrow> validation_template list" where
  "list_templates reg domain_pack_id =
     sorted_by (\<lambda>t. (vt_template_id t, version_key (vt_version t)))
       (case domain_pack_id of None \<Rightarrow> reg | Some p \<Rightarrow> filter (\<lambda>t. vt_domain_pack_id t = p) reg)"

text \<open>The registry after the package is imported.\<close>

definition builtin_templates :: template_registry where
  "builtin_templates = [TELECOM_GRAMMAR_STATE_MACHINE_V1, VPN_SCHEMA_CANONICALISATION_V1]"

section \<open>Dataset generators\<close>

record dataset_provenance =
  dv_generator_id :: string
  dv_generator_version :: string
  dv_seed :: int
  dv_config :: pyval
  dv_generated_at :: datetime
  dv_sha256 :: string

record generated_dataset =
  gd_test_set :: test_set
  gd_provenance :: dataset_provenance

datatype generator_config = VPNConfig vpn_generator_config | TelecomConfig telecom_generator_config

text \<open>Serialisation by pydantic and the draws of \<open>random.Random(seed)\<close>.\<close>

record generator_env =
  ge_rng :: "int \<Rightarrow> rng"
  ge_test_set_json :: "test_set \<Rightarrow> pyval"
  ge_test_set_text :: "test_set \<Rightarrow> string"
  ge_config_json :: "generator_config \<Rightarrow> pyval"

definition canonical_sha256 :: "pyval \<Rightarrow> string" where
  "canonical_sha256 data = sha256_hex (json_canonical data)"

definition build_test_set :: "generator_env \<Rightarrow> string \<Rightarrow> int \<Rightarrow> generator_config \<Rightarrow> exn + test_set" where
  "build_test_set G generator_id seed config =
     (if generator_id = ''vpn_pre_auth_request_generator''
      then (case config of VPNConfig c \<Rightarrow> vpn_build_test_set (ge_rng G seed) seed c
        | TelecomConfig _ \<Rightarrow> Inl (OtherError ''AssertionError'' []))
      else (case config of TelecomConfig c \<Rightarrow> telecom_build_test_set (ge_rng G seed) seed c
        | VPNConfig _ \<Rightarrow> Inl (OtherError ''AssertionError'' [])))"

definition known_generator_ids :: "string list" where
  "known_generator_ids = sort [''vpn_pre_auth_request_generator'', ''telecom_sip_session_setup_generator'']"

definition resolve_generator :: "string \<Rightarrow> exn + string" where
  "resolve_generator generator_id =
     (if generator_id \<in> set known_generator_ids then Inr generator_id
      else Inl (UnknownGeneratorError (''no registered generator for id '' @ quoted generator_id
        @ ''; known generators: '' @ repr_str_list known_generator_ids)))"

definition resolve_generator_config_cls :: "string \<Rightarrow> exn + string" where
  "resolve_generator_config_cls generator_id =
     (if generator_id = ''vpn_pre_auth_request_generator'' then Inr ''VPNGeneratorConfig''
      else if generator_id = ''telecom_sip_session_setup_generator'' then Inr ''TelecomGeneratorConfig''
      else Inl (UnknownGeneratorError (''no registered generator for id '' @ quoted generator_id
        @ ''; known generators: '' @ repr_str_list known_generator_ids)))"

text \<open>\<open>DatasetGenerator.generate\<close>; both generators have version 1.0.0.\<close>

definition generate :: "generator_env \<Rightarrow> string \<Rightarrow> int \<Rightarrow> generator_config \<Rightarrow> datetime \<Rightarrow> exn + generated_dataset" where
  "generate G generator_id seed config now =
     bindS (build_test_set G generator_id seed config) (\<lambda>test_set.
     Inr \<lparr>gd_test_set = test_set,
       gd_provenance = \<lparr>dv_generator_id = generator_id, dv_generator_version = ''1.0.0'', dv_seed = seed,
         dv_config = ge_config_json G config, dv_generated_at = now,
         dv_sha256 = canonical_sha256 (ge_test_set_json G test_set)\<rparr>\<rparr>)"

section \<open>What the catalog guarantees\<close>

text \<open>
  Templates are append-only: registering a template makes it resolvable under its identifier and
  version, and never changes what any other identifier and version resolves to; registering the same pair
  again is refused and changes nothing.
\<close>

lemma templates_append_only:
  assumes "register_template t reg = Inr reg'"
  shows "resolve_template reg' (vt_template_id t) (vt_version t) = Inr t
    \<and> (\<forall>i v x. resolve_template reg i v = Inr x \<longrightarrow> resolve_template reg' i v = Inr x)
    \<and> (\<forall>t'. template_key t' = template_key t \<longrightarrow> (\<exists>e. register_template t' reg' = Inl e))"
  using assms
  by (auto simp: register_template_def resolve_template_def tbl_get_append tbl_get_Cons template_key_def
      split: if_splits option.splits)

lemma templates_append_only_example:
  "resolve_template (builtin_templates @ [VPN_SCHEMA_CANONICALISATION_V1\<lparr>vt_version := ''1.1.0''\<rparr>])
     ''vpn_schema_canonicalisation'' ''1.1.0'' = Inr (VPN_SCHEMA_CANONICALISATION_V1\<lparr>vt_version := ''1.1.0''\<rparr>)"
proof -
  have "register_template (VPN_SCHEMA_CANONICALISATION_V1\<lparr>vt_version := ''1.1.0''\<rparr>) builtin_templates
      = Inr (builtin_templates @ [VPN_SCHEMA_CANONICALISATION_V1\<lparr>vt_version := ''1.1.0''\<rparr>])"
    by (simp add: register_template_def builtin_templates_def tbl_get_Cons template_key_def
        VPN_SCHEMA_CANONICALISATION_V1_def TELECOM_GRAMMAR_STATE_MACHINE_V1_def)
  from templates_append_only [OF this] show ?thesis by (simp add: VPN_SCHEMA_CANONICALISATION_V1_def)
qed

lemma sorted_by_last_max:
  assumes "xs \<noteq> []" and "x \<in> set xs"
  shows "k x \<le> k (last (sorted_by k xs))"
proof -
  have ne: "sorted_by k xs \<noteq> []" using assms(1) by (metis length_0_conv length_sorted_by)
  have "sorted (map k (sorted_by k xs))" by (rule sorted_by_sorted)
  moreover have "sorted_by k xs = butlast (sorted_by k xs) @ [last (sorted_by k xs)]" using ne by simp
  ultimately have "\<forall>y \<in> set (butlast (sorted_by k xs)). k y \<le> k (last (sorted_by k xs))"
    by (metis (no_types, lifting) list.set_map map_append sorted_append image_eqI list.simps(9) list.set_intros(1))
  moreover have "x \<in> set (butlast (sorted_by k xs)) \<or> x = last (sorted_by k xs)"
    using assms(2) ne by (metis append_butlast_last_id in_set_conv_decomp rotate1.simps(2) set_ConsD set_rotate1 set_sorted_by)
  ultimately show ?thesis by auto
qed

text \<open>\<open>latest_version\<close> of a registered template identifier returns a registered template of that
  identifier whose version key no other registered version of it exceeds.\<close>

lemma latest_version_is_latest:
  assumes "t \<in> set reg" and "vt_template_id t = i"
  shows "\<exists>x \<in> set reg. latest_version reg i = Inr x \<and> vt_template_id x = i
    \<and> (\<forall>y \<in> set reg. vt_template_id y = i \<longrightarrow> version_key (vt_version y) \<le> version_key (vt_version x))"
proof -
  let ?vs = "map vt_version (filter (\<lambda>t. vt_template_id t = i) reg)"
  let ?v = "last (sorted_by version_key ?vs)"
  have ne: "?vs \<noteq> []" using assms by (auto simp: filter_empty_conv)
  then have sne: "sorted_by version_key ?vs \<noteq> []" by (metis length_0_conv length_sorted_by)
  then have "?v \<in> set ?vs" using last_in_set set_sorted_by by metis
  then obtain z where "z \<in> set reg" "vt_template_id z = i" "vt_version z = ?v" by auto
  then have "tbl_get template_key (i, ?v) reg \<noteq> None" by (auto simp: tbl_get_None template_key_def image_iff)
  then obtain x where x: "tbl_get template_key (i, ?v) reg = Some x" by blast
  then have "x \<in> set reg" "vt_template_id x = i" "vt_version x = ?v"
    by (auto simp: template_key_def dest: tbl_get_SomeD)
  moreover have "latest_version reg i = Inr x"
    using sne x by (simp add: latest_version_def Let_def)
  moreover have "version_key (vt_version y) \<le> version_key ?v" if "y \<in> set reg" "vt_template_id y = i" for y
    using that by (intro sorted_by_last_max [OF ne]) auto
  ultimately show ?thesis by auto
qed

end
