(* ===== verification/Studio.thy ===== *)
theory Studio
  imports Auth Studio_Catalog
begin

text \<open>
  Experiment Studio (\<open>zeroshield.studio\<close> and its HTTP handlers in \<open>zeroshield.api.routes.studio\<close>):
  building a draft, the approval state machine, the tables of versions and approval decisions, the
  role-guarded handlers that drive them, and the materialisation of an approved version into the directory
  of runnable experiments. Rows of the versions table hold the record that was saved; reading one
  validates it again, as \<open>_from_orm\<close> does.
\<close>

record studio_state = auth_state +
  sd_versions :: "experiment_version list"
  sd_approvals :: "approval_decision list"
  sd_files :: file_tree

type_synonym ('z, 'a) studio_m = "('z studio_state_scheme, exn, 'a) eff"

definition http_error :: "nat \<Rightarrow> string \<Rightarrow> exn" where
  "http_error code err = OtherError (''HTTPException '' @ str_nat code) err"

section \<open>\<open>studio/approval.py\<close>\<close>

fun allowed_transitions :: "experiment_version_status \<Rightarrow> experiment_version_status list" where
  "allowed_transitions EV_DRAFT = [EV_READY_FOR_REVIEW]"
| "allowed_transitions EV_READY_FOR_REVIEW = [EV_UNDER_REVIEW, EV_DRAFT]"
| "allowed_transitions EV_UNDER_REVIEW = [EV_APPROVED, EV_REJECTED, EV_READY_FOR_REVIEW]"
| "allowed_transitions EV_APPROVED = [EV_RETIRED]"
| "allowed_transitions EV_REJECTED = []"
| "allowed_transitions EV_RETIRED = []"

definition check_transition :: "experiment_version_status \<Rightarrow> experiment_version_status \<Rightarrow> exn + unit" where
  "check_transition current target =
     raise_if (target \<notin> set (allowed_transitions current)) (InvalidTransitionError current target)"

definition moved :: "experiment_version \<Rightarrow> experiment_version_status \<Rightarrow> datetime \<Rightarrow> experiment_version" where
  "moved v target now =
     v\<lparr>ev_status := target,
       ev_definition := (ev_definition v)\<lparr>ed_approval_status := (if target = EV_APPROVED then AS_APPROVED else AS_DRAFT)\<rparr>,
       ev_updated_at := now\<rparr>"

definition transition :: "app_env \<Rightarrow> experiment_version \<Rightarrow> experiment_version_status \<Rightarrow> string \<Rightarrow> string option
    \<Rightarrow> ('z, experiment_version \<times> approval_decision) studio_m" where
  "transition E v target actor reason =
     bindE (liftE (check_transition (ev_status v) target)) (\<lambda>_.
     bindE (utc_now E) (\<lambda>now.
     bindE (liftE (validate_approval_decision
       \<lparr>ad_version_id = ev_version_id v, ad_from_status = ev_status v, ad_to_status = target, ad_actor = actor,
        ad_reason = reason, ad_decided_at = now\<rparr>)) (\<lambda>d.
     returnE (moved v target now, d))))"

section \<open>\<open>studio/repository.py\<close>\<close>

definition version_from_orm :: "experiment_version \<Rightarrow> exn + experiment_version" where
  "version_from_orm v =
     bindS (mapS validate_cve_reference (ed_related_cves (ev_definition v))) (\<lambda>_.
     bindS (validate_definition (ev_definition v)) (\<lambda>_. validate_version v))"

definition save_version :: "experiment_version \<Rightarrow> ('z, unit) studio_m" where
  "save_version v = modifyE (\<lambda>w. w\<lparr>sd_versions := tbl_upsert ev_version_id v (sd_versions w)\<rparr>)"

definition get_version :: "string \<Rightarrow> ('z, experiment_version option) studio_m" where
  "get_version version_id =
     bindE (getE (\<lambda>w. tbl_get ev_version_id version_id (sd_versions w))) (\<lambda>row.
     case row of None \<Rightarrow> returnE None
     | Some r \<Rightarrow> bindE (liftE (version_from_orm r)) (\<lambda>v. returnE (Some v)))"

definition list_versions :: "string option \<Rightarrow> experiment_version_status option \<Rightarrow> ('z, experiment_version list) studio_m" where
  "list_versions experiment_id status =
     bindE (getE (\<lambda>w. sorted_by (\<lambda>v. (ev_experiment_id v, ev_version_number v))
       (filter (\<lambda>v. (case experiment_id of None \<Rightarrow> True | Some i \<Rightarrow> ev_experiment_id v = i)
          \<and> (case status of None \<Rightarrow> True | Some s \<Rightarrow> ev_status v = s)) (sd_versions w)))) (\<lambda>rows.
     liftE (mapS version_from_orm rows))"

definition latest_version_number :: "string \<Rightarrow> ('z, int) studio_m" where
  "latest_version_number experiment_id =
     bindE (list_versions (Some experiment_id) None) (\<lambda>vs.
     returnE (if vs = [] then 0 else Max (set (map ev_version_number vs))))"

definition append_approval_decision :: "approval_decision \<Rightarrow> 'z studio_state_scheme \<Rightarrow> 'z studio_state_scheme" where
  "append_approval_decision d w = w\<lparr>sd_approvals := sd_approvals w @ [d]\<rparr>"

definition get_approval_history :: "string \<Rightarrow> ('z, approval_decision list) studio_m" where
  "get_approval_history version_id =
     bindE (getE (\<lambda>w. sorted_by ad_decided_at (filter (\<lambda>d. ad_version_id d = version_id) (sd_approvals w)))) (\<lambda>rows.
     liftE (mapS validate_approval_decision rows))"

section \<open>\<open>studio/builder.py\<close>\<close>

record draft_request =
  dq_experiment_id :: string
  dq_version_number :: int
  dq_title :: string
  dq_description :: string
  dq_related_cves :: "cve_reference list"
  dq_domain_pack_id :: string
  dq_template_id :: string
  dq_template_version :: string
  dq_dataset_config :: generator_config
  dq_seed :: int
  dq_failure_pattern :: string
  dq_root_cause :: root_cause_category
  dq_vendor_mitigation :: string
  dq_mitigation_gap :: string
  dq_research_question :: string
  dq_hypothesis :: string
  dq_created_by :: string
  dq_metrics_to_collect :: "metric_name list option"

definition dataset_root :: pypath where
  "dataset_root = path_of_string ''test_data/generated''"

definition materialise_dataset :: "generator_env \<Rightarrow> generated_dataset \<Rightarrow> ('z, pypath) studio_m" where
  "materialise_dataset G g =
     (let path = path_join (path_join dataset_root (dv_generator_id (gd_provenance g)))
            (take 16 (dv_sha256 (gd_provenance g)) @ ''.json'')
      in bindE (modifyE (\<lambda>w. if tbl_get fst path (sd_files w) = None
           then w\<lparr>sd_files := tbl_upsert fst (path, ge_test_set_text G (gd_test_set g)) (sd_files w)\<rparr> else w)) (\<lambda>_.
         returnE path))"

definition check_template :: "draft_request \<Rightarrow> domain_pack \<Rightarrow> validation_template \<Rightarrow> exn + unit" where
  "check_template q pack t =
     bindS (raise_if (vt_domain_pack_id t \<noteq> dp_pack_id pack)
       (ExperimentBuilderError (''template '' @ quoted (dq_template_id q) @ '' belongs to domain pack ''
         @ quoted (vt_domain_pack_id t) @ '', not '' @ quoted (dq_domain_pack_id q)))) (\<lambda>_.
     raise_if (dq_template_id q \<notin> set (dp_template_ids pack))
       (ExperimentBuilderError (''domain pack '' @ quoted (dq_domain_pack_id q) @ '' does not list template ''
         @ quoted (dq_template_id q) @ '' as supported'')))"

definition check_strategy_allowed :: "draft_request \<Rightarrow> domain_pack \<Rightarrow> string \<Rightarrow> exn + unit" where
  "check_strategy_allowed q pack strategy_id =
     raise_if (strategy_id \<notin> set (dp_allowed_strategy_ids pack))
       (ExperimentBuilderError (''template '' @ quoted (dq_template_id q) @ '' strategy '' @ quoted strategy_id
         @ '' is not in domain pack '' @ quoted (dq_domain_pack_id q) @ [CHR 0x27] @ ''s allow-list ''
         @ repr_str_list (sort (dp_allowed_strategy_ids pack))))"

definition draft_definition :: "draft_request \<Rightarrow> domain_pack \<Rightarrow> validation_template \<Rightarrow> string \<Rightarrow> string \<Rightarrow> pypath
    \<Rightarrow> experiment_definition" where
  "draft_definition q pack t baseline mitigation dataset_path =
     \<lparr>ed_experiment_id = dq_experiment_id q, ed_title = dq_title q, ed_domain = dp_domain pack,
      ed_description = dq_description q, ed_related_cves = dq_related_cves q,
      ed_failure_pattern = dq_failure_pattern q, ed_root_cause = dq_root_cause q,
      ed_vendor_mitigation = dq_vendor_mitigation q, ed_mitigation_gap = dq_mitigation_gap q,
      ed_research_question = dq_research_question q, ed_hypothesis = dq_hypothesis q,
      ed_safety_level = vt_safety_level t, ed_external_targeting = False, ed_input_classification = SYNTHETIC,
      ed_weaponised_payloads = False, ed_baseline_strategy = baseline, ed_mitigation_strategy = mitigation,
      ed_dataset_path = dataset_path,
      ed_metrics_to_collect = (case dq_metrics_to_collect q of None \<Rightarrow> vt_metrics_to_collect t
        | Some ms \<Rightarrow> if ms = [] then vt_metrics_to_collect t else ms),
      ed_approval_status = AS_DRAFT, ed_version = str_int (dq_version_number q) @ ''.0.0''\<rparr>"

definition version_id_of :: "string \<Rightarrow> int \<Rightarrow> string" where
  "version_id_of experiment_id n = experiment_id @ ''@v'' @ str_int n"

definition draft_version :: "draft_request \<Rightarrow> experiment_definition \<Rightarrow> dataset_provenance \<Rightarrow> datetime \<Rightarrow> experiment_version" where
  "draft_version q d pv now =
     \<lparr>ev_version_id = version_id_of (dq_experiment_id q) (dq_version_number q), ev_experiment_id = dq_experiment_id q,
      ev_version_number = dq_version_number q, ev_status = EV_DRAFT, ev_domain_pack_id = dq_domain_pack_id q,
      ev_template_id = dq_template_id q, ev_template_version = dq_template_version q, ev_definition = d,
      ev_dataset_provenance = Some [(''generator_id'', PStr (dv_generator_id pv)),
        (''generator_version'', PStr (dv_generator_version pv)), (''seed'', PInt (dv_seed pv)),
        (''config'', dv_config pv), (''sha256'', PStr (dv_sha256 pv))],
      ev_created_by = dq_created_by q, ev_created_at = now, ev_updated_at = now\<rparr>"

definition build_experiment_draft :: "app_env \<Rightarrow> generator_env \<Rightarrow> template_registry \<Rightarrow> draft_request
    \<Rightarrow> ('z, experiment_version) studio_m" where
  "build_experiment_draft E G reg q =
     bindE (liftE (resolve_domain_pack (dq_domain_pack_id q))) (\<lambda>pack.
     bindE (liftE (resolve_template reg (dq_template_id q) (dq_template_version q))) (\<lambda>t.
     bindE (liftE (check_template q pack t)) (\<lambda>_.
     bindE (liftE (resolve_generator (dp_dataset_generator_id pack))) (\<lambda>generator.
     bindE (utc_now E) (\<lambda>generated_at.
     bindE (liftE (generate G generator (dq_seed q) (dq_dataset_config q) generated_at)) (\<lambda>g.
     bindE (materialise_dataset G g) (\<lambda>dataset_path.
     let baseline = hd (vt_allowed_baseline_strategies t); mitigation = hd (vt_allowed_mitigation_strategies t) in
     bindE (liftE (check_strategy_allowed q pack baseline)) (\<lambda>_.
     bindE (liftE (check_strategy_allowed q pack mitigation)) (\<lambda>_.
     bindE (utc_now E) (\<lambda>now.
     bindE (liftE (validate_definition (draft_definition q pack t baseline mitigation dataset_path))) (\<lambda>d.
     liftE (validate_version (draft_version q d (gd_provenance g) now)))))))))))))"

text \<open>The fields that a client may edit (\<open>EditExperimentVersionRequest\<close>); absent ones are left alone.\<close>

record edit_request =
  eq_title :: "string option"
  eq_description :: "string option"
  eq_research_question :: "string option"
  eq_hypothesis :: "string option"

definition edit_updates :: "edit_request \<Rightarrow> experiment_definition \<Rightarrow> experiment_definition" where
  "edit_updates q d =
     d\<lparr>ed_title := (case eq_title q of None \<Rightarrow> ed_title d | Some x \<Rightarrow> x),
       ed_description := (case eq_description q of None \<Rightarrow> ed_description d | Some x \<Rightarrow> x),
       ed_research_question := (case eq_research_question q of None \<Rightarrow> ed_research_question d | Some x \<Rightarrow> x),
       ed_hypothesis := (case eq_hypothesis q of None \<Rightarrow> ed_hypothesis d | Some x \<Rightarrow> x)\<rparr>"

text \<open>\<open>edit_draft\<close>: \<open>updates\<close> is the effect of \<open>model_copy(update=...)\<close>, which validates nothing.\<close>

definition edit_draft :: "app_env \<Rightarrow> experiment_version \<Rightarrow> (experiment_definition \<Rightarrow> experiment_definition)
    \<Rightarrow> ('z, experiment_version) studio_m" where
  "edit_draft E v updates =
     (if ev_status v \<noteq> EV_DRAFT
      then raiseE (ImmutableVersionError (''version '' @ quoted (ev_version_id v) @ '' is ''
        @ quoted (version_status_value (ev_status v)) @ '', not 'draft' - create a new version to change its content''))
      else bindE (utc_now E) (\<lambda>now.
        returnE (v\<lparr>ev_definition := updates (ev_definition v), ev_updated_at := now\<rparr>)))"

definition materialise_to_experiments_dir :: "codec \<Rightarrow> pypath \<Rightarrow> experiment_version \<Rightarrow> ('z, pypath) studio_m" where
  "materialise_to_experiments_dir C experiments_dir v =
     (let path = path_join experiments_dir (ev_experiment_id v @ ''.json'')
      in bindE (modifyE (\<lambda>w. w\<lparr>sd_files := tbl_upsert fst (path, cd_experiment_text C (ev_definition v)) (sd_files w)\<rparr>)) (\<lambda>_.
         returnE path))"

section \<open>\<open>studio/service.py\<close>\<close>

definition get_or_raise :: "string \<Rightarrow> ('z, experiment_version) studio_m" where
  "get_or_raise version_id =
     bindE (get_version version_id) (\<lambda>v.
     case v of None \<Rightarrow> raiseE (ExperimentVersionNotFoundError (''no experiment version with id '' @ quoted version_id))
     | Some x \<Rightarrow> returnE x)"

definition create_draft :: "app_env \<Rightarrow> generator_env \<Rightarrow> template_registry \<Rightarrow> draft_request \<Rightarrow> ('z, experiment_version) studio_m" where
  "create_draft E G reg q =
     bindE (build_experiment_draft E G reg q) (\<lambda>v. bindE (save_version v) (\<lambda>_. returnE v))"

definition edit :: "app_env \<Rightarrow> string \<Rightarrow> (experiment_definition \<Rightarrow> experiment_definition) \<Rightarrow> ('z, experiment_version) studio_m" where
  "edit E version_id updates =
     bindE (get_or_raise version_id) (\<lambda>v.
     bindE (edit_draft E v updates) (\<lambda>u.
     bindE (save_version u) (\<lambda>_. returnE u)))"

definition apply_transition :: "app_env \<Rightarrow> codec \<Rightarrow> string \<Rightarrow> experiment_version_status \<Rightarrow> string \<Rightarrow> string option
    \<Rightarrow> pypath option \<Rightarrow> ('z, experiment_version) studio_m" where
  "apply_transition E C version_id target actor reason experiments_dir =
     bindE (get_or_raise version_id) (\<lambda>v.
     bindE (transition E v target actor reason) (\<lambda>(nv, d).
     bindE (save_version nv) (\<lambda>_.
     bindE (modifyE (append_approval_decision d)) (\<lambda>_.
     bindE (case experiments_dir of
         Some dir \<Rightarrow> if target = EV_APPROVED
           then bindE (materialise_to_experiments_dir C dir nv) (\<lambda>_. returnE ()) else returnE ()
       | None \<Rightarrow> returnE ()) (\<lambda>_.
     returnE nv)))))"

definition submit_for_review :: "app_env \<Rightarrow> codec \<Rightarrow> string \<Rightarrow> string \<Rightarrow> string option \<Rightarrow> ('z, experiment_version) studio_m" where
  "submit_for_review E C version_id actor reason = apply_transition E C version_id EV_READY_FOR_REVIEW actor reason None"

definition start_review :: "app_env \<Rightarrow> codec \<Rightarrow> string \<Rightarrow> string \<Rightarrow> string option \<Rightarrow> ('z, experiment_version) studio_m" where
  "start_review E C version_id actor reason = apply_transition E C version_id EV_UNDER_REVIEW actor reason None"

definition approve :: "app_env \<Rightarrow> codec \<Rightarrow> string \<Rightarrow> string \<Rightarrow> string option \<Rightarrow> pypath \<Rightarrow> ('z, experiment_version) studio_m" where
  "approve E C version_id actor reason experiments_dir =
     apply_transition E C version_id EV_APPROVED actor reason (Some experiments_dir)"

definition reject :: "app_env \<Rightarrow> codec \<Rightarrow> string \<Rightarrow> string \<Rightarrow> string \<Rightarrow> ('z, experiment_version) studio_m" where
  "reject E C version_id actor reason = apply_transition E C version_id EV_REJECTED actor (Some reason) None"

definition retire :: "app_env \<Rightarrow> codec \<Rightarrow> string \<Rightarrow> string \<Rightarrow> string option \<Rightarrow> ('z, experiment_version) studio_m" where
  "retire E C version_id actor reason = apply_transition E C version_id EV_RETIRED actor reason None"

definition next_version_number :: "string \<Rightarrow> ('z, int) studio_m" where
  "next_version_number experiment_id = bindE (latest_version_number experiment_id) (\<lambda>n. returnE (n + 1))"

section \<open>\<open>api/dependencies.py\<close>: who is calling\<close>

definition get_current_user :: "app_env \<Rightarrow> string option \<Rightarrow> ('z, user) auth_m" where
  "get_current_user E session_token =
     (case session_token of
        None \<Rightarrow> raiseE (http_error 401 ''not_authenticated'')
      | Some tok \<Rightarrow>
          bindE (get_user_for_session E tok) (\<lambda>u.
          case u of None \<Rightarrow> raiseE (http_error 401 ''not_authenticated'') | Some x \<Rightarrow> returnE x))"

definition require_role :: "app_env \<Rightarrow> role list \<Rightarrow> string option \<Rightarrow> ('z, user) auth_m" where
  "require_role E roles session_token =
     bindE (get_current_user E session_token) (\<lambda>u.
     if u_role u \<notin> set roles then raiseE (http_error 403 ''forbidden'') else returnE u)"

section \<open>\<open>api/routes/studio.py\<close>\<close>

fun transition_audit_action :: "experiment_version_status \<Rightarrow> string option" where
  "transition_audit_action EV_READY_FOR_REVIEW = Some EXPERIMENT_VERSION_SUBMITTED_FOR_REVIEW"
| "transition_audit_action EV_UNDER_REVIEW = Some EXPERIMENT_VERSION_REVIEW_STARTED"
| "transition_audit_action EV_APPROVED = Some EXPERIMENT_VERSION_APPROVED"
| "transition_audit_action EV_REJECTED = Some EXPERIMENT_VERSION_REJECTED"
| "transition_audit_action EV_RETIRED = Some EXPERIMENT_VERSION_RETIRED"
| "transition_audit_action EV_DRAFT = None"

definition audit_version :: "app_env \<Rightarrow> user \<Rightarrow> string \<Rightarrow> string \<Rightarrow> string option \<Rightarrow> pydict \<Rightarrow> pydict option \<Rightarrow> pydict option
    \<Rightarrow> ('z, unit) studio_m" where
  "audit_version E u action version_id request_id metadata previous new =
     bindE (audit_record E (Some (u_user_id u)) (Some (u_username u)) (Some (role_value (u_role u))) action
       (Some ''experiment_version'') (Some version_id) request_id metadata previous new) (\<lambda>_. returnE ())"

fun as_conflict :: "exn \<Rightarrow> exn option" where
  "as_conflict (InvalidTransitionError a b) = Some (http_error 409 ''invalid_transition'')"
| "as_conflict (ImmutableVersionError s) = Some (http_error 409 ''version_immutable'')"
| "as_conflict _ = None"

fun as_unprocessable :: "exn \<Rightarrow> exn option" where
  "as_unprocessable (ExperimentBuilderError s) = Some (http_error 422 ''invalid_experiment_version'')"
| "as_unprocessable (UnknownDomainPackError s) = Some (http_error 422 ''invalid_experiment_version'')"
| "as_unprocessable (UnknownTemplateError s) = Some (http_error 422 ''invalid_experiment_version'')"
| "as_unprocessable (ValidationError m s) = Some (http_error 422 ''invalid_experiment_version'')"
| "as_unprocessable _ = None"

definition version_or_404 :: "string \<Rightarrow> ('z, experiment_version) studio_m" where
  "version_or_404 version_id =
     bindE (get_version version_id) (\<lambda>v.
     case v of None \<Rightarrow> raiseE (http_error 404 ''version_not_found'') | Some x \<Rightarrow> returnE x)"

definition do_transition :: "app_env \<Rightarrow> codec \<Rightarrow> string \<Rightarrow> experiment_version_status \<Rightarrow> string option \<Rightarrow> pypath option
    \<Rightarrow> user \<Rightarrow> string option \<Rightarrow> ('z, experiment_version) studio_m" where
  "do_transition E C version_id target reason experiments_dir u request_id =
     bindE (version_or_404 version_id) (\<lambda>v.
     bindE (if target = EV_APPROVED \<and> u_username u = ev_created_by v \<and> u_role u \<noteq> ADMIN
       then bindE (audit_version E u EXPERIMENT_VERSION_SELF_APPROVAL_BLOCKED version_id request_id
           [(''created_by'', PStr (ev_created_by v))] None None) (\<lambda>_.
         raiseE (http_error 403 ''self_approval_forbidden''))
       else returnE ()) (\<lambda>_.
     bindE (catchE (transition E v target (u_username u) reason) as_conflict) (\<lambda>(nv, d).
     bindE (save_version nv) (\<lambda>_.
     bindE (modifyE (append_approval_decision d)) (\<lambda>_.
     bindE (case experiments_dir of
         Some dir \<Rightarrow> if target = EV_APPROVED
           then bindE (materialise_to_experiments_dir C dir nv) (\<lambda>_. returnE ()) else returnE ()
       | None \<Rightarrow> returnE ()) (\<lambda>_.
     bindE (case transition_audit_action target of
         None \<Rightarrow> raiseE (OtherError ''KeyError'' (version_status_value target))
       | Some action \<Rightarrow> audit_version E u action version_id request_id
           (case reason of None \<Rightarrow> [] | Some r \<Rightarrow> if r = [] then [] else [(''reason'', PStr r)])
           (Some [(''status'', PStr (version_status_value (ev_status v)))])
           (Some [(''status'', PStr (version_status_value target))])) (\<lambda>_.
     returnE nv)))))))"

text \<open>The handlers: the role check, then the transition.\<close>

definition submit_review_handler :: "app_env \<Rightarrow> codec \<Rightarrow> string option \<Rightarrow> string \<Rightarrow> string option \<Rightarrow> string option
    \<Rightarrow> ('z, experiment_version) studio_m" where
  "submit_review_handler E C tok version_id reason request_id =
     bindE (require_role E [RESEARCHER, ADMIN] tok) (\<lambda>u.
     do_transition E C version_id EV_READY_FOR_REVIEW reason None u request_id)"

definition start_review_handler :: "app_env \<Rightarrow> codec \<Rightarrow> string option \<Rightarrow> string \<Rightarrow> string option \<Rightarrow> string option
    \<Rightarrow> ('z, experiment_version) studio_m" where
  "start_review_handler E C tok version_id reason request_id =
     bindE (require_role E [REVIEWER, ADMIN] tok) (\<lambda>u.
     do_transition E C version_id EV_UNDER_REVIEW reason None u request_id)"

definition approve_handler :: "app_env \<Rightarrow> codec \<Rightarrow> pypath \<Rightarrow> string option \<Rightarrow> string \<Rightarrow> string option \<Rightarrow> string option
    \<Rightarrow> ('z, experiment_version) studio_m" where
  "approve_handler E C experiments_dir tok version_id reason request_id =
     bindE (require_role E [REVIEWER, ADMIN] tok) (\<lambda>u.
     do_transition E C version_id EV_APPROVED reason (Some experiments_dir) u request_id)"

definition reject_handler :: "app_env \<Rightarrow> codec \<Rightarrow> string option \<Rightarrow> string \<Rightarrow> string option \<Rightarrow> string option
    \<Rightarrow> ('z, experiment_version) studio_m" where
  "reject_handler E C tok version_id reason request_id =
     bindE (require_role E [REVIEWER, ADMIN] tok) (\<lambda>u.
     do_transition E C version_id EV_REJECTED reason None u request_id)"

definition retire_handler :: "app_env \<Rightarrow> codec \<Rightarrow> string option \<Rightarrow> string \<Rightarrow> string option \<Rightarrow> string option
    \<Rightarrow> ('z, experiment_version) studio_m" where
  "retire_handler E C tok version_id reason request_id =
     bindE (require_role E [REVIEWER, ADMIN] tok) (\<lambda>u.
     do_transition E C version_id EV_RETIRED reason None u request_id)"

text \<open>
  \<open>model_validate\<close> of the configuration class that is named is pydantic's: the parameter \<open>parse\<close>.
\<close>

definition parse_dataset_config :: "(string \<Rightarrow> pydict \<Rightarrow> exn + generator_config) \<Rightarrow> string \<Rightarrow> pydict \<Rightarrow> exn + generator_config" where
  "parse_dataset_config parse domain_pack_id raw_config =
     bindS (resolve_domain_pack domain_pack_id) (\<lambda>pack.
     bindS (resolve_generator_config_cls (dp_dataset_generator_id pack)) (\<lambda>config_cls. parse config_cls raw_config))"

definition create_handler :: "app_env \<Rightarrow> generator_env \<Rightarrow> template_registry \<Rightarrow> (string \<Rightarrow> pydict \<Rightarrow> exn + generator_config)
    \<Rightarrow> string option \<Rightarrow> draft_request \<Rightarrow> pydict \<Rightarrow> string option \<Rightarrow> ('z, experiment_version) studio_m" where
  "create_handler E G reg parse tok q dataset_config request_id =
     bindE (require_role E [RESEARCHER, ADMIN] tok) (\<lambda>u.
     bindE (catchE (bindE (liftE (mapS validate_cve_reference (dq_related_cves q))) (\<lambda>related_cves.
       bindE (latest_version_number (dq_experiment_id q)) (\<lambda>n.
       bindE (liftE (parse_dataset_config parse (dq_domain_pack_id q) dataset_config)) (\<lambda>config.
       build_experiment_draft E G reg (q\<lparr>dq_related_cves := related_cves, dq_version_number := n + 1,
         dq_dataset_config := config, dq_created_by := u_username u\<rparr>)))))
       as_unprocessable) (\<lambda>v.
     bindE (save_version v) (\<lambda>_.
     bindE (audit_version E u EXPERIMENT_VERSION_CREATED (ev_version_id v) request_id
       [(''experiment_id'', PStr (ev_experiment_id v)), (''version_number'', PInt (ev_version_number v))] None None) (\<lambda>_.
     returnE v))))"

text \<open>The preview of a dataset: nothing is stored.\<close>

fun count_category :: "(test_case_category \<times> nat) list \<Rightarrow> test_case_category \<Rightarrow> (test_case_category \<times> nat) list" where
  "count_category [] c = [(c, 1)]"
| "count_category ((d, n) # rest) c = (if d = c then (d, n + 1) # rest else (d, n) # count_category rest c)"

record dataset_preview =
  pw_provenance :: dataset_provenance
  pw_test_set_id :: string
  pw_case_count :: nat
  pw_cases_by_category :: "(test_case_category \<times> nat) list"

fun as_invalid_config :: "exn \<Rightarrow> exn option" where
  "as_invalid_config (UnknownGeneratorError s) = Some (http_error 422 ''invalid_dataset_config'')"
| "as_invalid_config (ValidationError m s) = Some (http_error 422 ''invalid_dataset_config'')"
| "as_invalid_config _ = None"

definition generate_dataset_handler :: "app_env \<Rightarrow> generator_env \<Rightarrow> (string \<Rightarrow> pydict \<Rightarrow> exn + generator_config)
    \<Rightarrow> string option \<Rightarrow> string \<Rightarrow> int \<Rightarrow> pydict \<Rightarrow> ('z, dataset_preview) auth_m" where
  "generate_dataset_handler E G parse tok domain_pack_id seed config =
     bindE (require_role E [RESEARCHER, ADMIN] tok) (\<lambda>_.
     case resolve_domain_pack domain_pack_id of
       Inl e \<Rightarrow> raiseE (http_error 404 ''domain_pack_not_found'')
     | Inr pack \<Rightarrow>
         bindE (catchE (liftE (bindS (resolve_generator_config_cls (dp_dataset_generator_id pack)) (\<lambda>cls. parse cls config)))
           as_invalid_config) (\<lambda>cfg.
         bindE (liftE (resolve_generator (dp_dataset_generator_id pack))) (\<lambda>generator.
         bindE (utc_now E) (\<lambda>now.
         bindE (liftE (generate G generator seed cfg now)) (\<lambda>g.
         returnE \<lparr>pw_provenance = gd_provenance g, pw_test_set_id = ts_test_set_id (gd_test_set g),
           pw_case_count = length (ts_cases (gd_test_set g)),
           pw_cases_by_category = foldl (\<lambda>m c. count_category m (tc_category c)) [] (ts_cases (gd_test_set g))\<rparr>)))))"

definition edit_fields :: "edit_request \<Rightarrow> string list" where
  "edit_fields q = map fst (filter (\<lambda>p. snd p \<noteq> None)
     [(''description'', eq_description q), (''hypothesis'', eq_hypothesis q),
      (''research_question'', eq_research_question q), (''title'', eq_title q)])"

definition edit_handler :: "app_env \<Rightarrow> string option \<Rightarrow> string \<Rightarrow> edit_request \<Rightarrow> string option \<Rightarrow> ('z, experiment_version) studio_m" where
  "edit_handler E tok version_id q request_id =
     bindE (require_role E [RESEARCHER, ADMIN] tok) (\<lambda>u.
     bindE (version_or_404 version_id) (\<lambda>v.
     bindE (catchE (edit_draft E v (edit_updates q)) as_conflict) (\<lambda>nv.
     bindE (save_version nv) (\<lambda>_.
     bindE (audit_version E u EXPERIMENT_VERSION_EDITED version_id request_id
       [(''fields_changed'', PList (map PStr (edit_fields q)))] None None) (\<lambda>_.
     returnE nv)))))"

text \<open>Reading.\<close>

definition get_version_handler :: "app_env \<Rightarrow> string option \<Rightarrow> string \<Rightarrow> ('z, experiment_version) studio_m" where
  "get_version_handler E tok version_id =
     bindE (get_current_user E tok) (\<lambda>_. version_or_404 version_id)"

definition list_versions_handler :: "app_env \<Rightarrow> string option \<Rightarrow> string option \<Rightarrow> experiment_version_status option
    \<Rightarrow> ('z, experiment_version list) studio_m" where
  "list_versions_handler E tok experiment_id status =
     bindE (get_current_user E tok) (\<lambda>_. list_versions experiment_id status)"

definition approval_history_handler :: "app_env \<Rightarrow> string option \<Rightarrow> string \<Rightarrow> ('z, approval_decision list) studio_m" where
  "approval_history_handler E tok version_id =
     bindE (get_current_user E tok) (\<lambda>_. get_approval_history version_id)"

definition domain_pack_templates_handler :: "app_env \<Rightarrow> template_registry \<Rightarrow> string option \<Rightarrow> string
    \<Rightarrow> ('z, validation_template list) auth_m" where
  "domain_pack_templates_handler E reg tok pack_id =
     bindE (get_current_user E tok) (\<lambda>_.
     case resolve_domain_pack pack_id of
       Inl e \<Rightarrow> raiseE (http_error 404 ''domain_pack_not_found'')
     | Inr pack \<Rightarrow> returnE (list_templates reg (Some pack_id)))"

definition get_template_handler :: "app_env \<Rightarrow> template_registry \<Rightarrow> string option \<Rightarrow> string \<Rightarrow> string
    \<Rightarrow> ('z, validation_template) auth_m" where
  "get_template_handler E reg tok template_id version =
     bindE (get_current_user E tok) (\<lambda>_.
     case resolve_template reg template_id version of
       Inl e \<Rightarrow> raiseE (http_error 404 ''template_not_found'')
     | Inr t \<Rightarrow> returnE t)"

end
