(* ===== verification/Studio_Lifecycle.thy ===== *)
theory Studio_Lifecycle
  imports Studio Safety_Policy
begin

text \<open>
  What Experiment Studio guarantees over its whole life: the handlers as the operations of a system whose
  state is the users, sessions, versions, decisions, files and audit trail, the invariant they keep, and the
  properties that follow for every history of requests, whoever sends them and in whatever order.
\<close>

section \<open>Frames\<close>

text \<open>Nothing of the studio's tables and files changes, and the audit trail at most grows.\<close>

definition studio_quiet :: "'z studio_state_scheme \<Rightarrow> 'z studio_state_scheme \<Rightarrow> bool" where
  "studio_quiet w w' \<longleftrightarrow> sd_versions w' = sd_versions w \<and> sd_approvals w' = sd_approvals w \<and> sd_files w' = sd_files w
     \<and> prefix (ap_audit w) (ap_audit w')"

text \<open>The same, but files may be written and the audit trail is left alone.\<close>

definition studio_tables_kept :: "'z studio_state_scheme \<Rightarrow> 'z studio_state_scheme \<Rightarrow> bool" where
  "studio_tables_kept w w' \<longleftrightarrow> sd_versions w' = sd_versions w \<and> sd_approvals w' = sd_approvals w \<and> ap_audit w' = ap_audit w"

text \<open>Nothing of the studio and nothing of the audit trail changes.\<close>

definition studio_same :: "'z studio_state_scheme \<Rightarrow> 'z studio_state_scheme \<Rightarrow> bool" where
  "studio_same w w' \<longleftrightarrow> sd_versions w' = sd_versions w \<and> sd_approvals w' = sd_approvals w \<and> sd_files w' = sd_files w
     \<and> ap_audit w' = ap_audit w"

interpretation same: effect_frame studio_same
  by unfold_locales (auto simp: studio_same_def)

interpretation quiet: effect_frame studio_quiet
  by unfold_locales (auto simp: studio_quiet_def intro: prefix_order.trans)

interpretation tables: effect_frame studio_tables_kept
  by unfold_locales (auto simp: studio_tables_kept_def)

lemma quiet_env: "abides studio_quiet (utc_now E)" "abides studio_quiet (uuid4_hex E)" "abides studio_quiet (token_urlsafe E)"
  by (simp_all add: abides_def app_m_defs studio_quiet_def)

lemma tables_env: "abides studio_tables_kept (utc_now E)"
  by (simp add: abides_def app_m_defs studio_tables_kept_def)

lemma quiet_audit: "abides studio_quiet (audit_record E a b c d e f g h i j)"
  by (simp add: abides_def audit_record_eq Let_def audit_append_def studio_quiet_def)

lemmas quiet_rules = quiet.resp_rules quiet_env quiet_audit

lemma quiet_upd: "studio_quiet w (w\<lparr>au_users := us\<rparr>)" "studio_quiet w (w\<lparr>au_sessions := ss\<rparr>)"
  by (simp_all add: studio_quiet_def)

lemma same_require_role: "abides studio_same (require_role E rs tok)"
  unfolding require_role_def get_current_user_def get_user_for_session_def get_session_with_user_def
    delete_session_def touch_session_def
  by (intro same.resp_rules) (simp_all add: abides_def utc_now_def studio_same_def)

lemma same_quiet: "studio_same w w' \<Longrightarrow> studio_quiet w w'"
  by (simp add: studio_same_def studio_quiet_def)

lemmas require_role_quiet = same_quiet [OF abidesD [OF same_require_role]]

lemma quiet_login: "abides studio_quiet (login E n pw ip ua rq)"
  unfolding login_def get_user_by_username_def check_lock_def audit_user_def record_failed_attempt_def Let_def
    record_login_failure_def get_user_def open_session_def record_login_success_def delete_expired_sessions_def
    create_session_def
  by (intro quiet_rules quiet_upd)

lemma quiet_logout: "abides studio_quiet (logout E tok a rq)"
  unfolding logout_def delete_session_def audit_user_def by (intro quiet_rules quiet_upd)

lemma quiet_create_user: "abides studio_quiet (service_create_user E n ph rl a rq)"
  unfolding service_create_user_def create_user_def Let_def by (intro quiet_rules quiet_upd)

lemma quiet_update_user_role: "abides studio_quiet (update_user_role E i rl a rq)"
  unfolding update_user_role_def update_user_def get_user_def Let_def by (intro quiet_rules quiet_upd)

lemma quiet_set_user_active: "abides studio_quiet (set_user_active E i b a rq)"
  unfolding set_user_active_def update_user_def Let_def by (intro quiet_rules quiet_upd)

text \<open>Who gets past the role check: an active user of one of the roles, by a session that has not expired.\<close>

lemma require_role_Inr:
  assumes "require_role E rs tok w = (Inr u, w')"
  shows "u_role u \<in> set rs \<and> (\<exists>t s. tok = Some t \<and> tbl_get se_session_id (hash_session_token t) (au_sessions w) = Some s
    \<and> (\<exists>r. tbl_get u_user_id (se_user_id s) (au_users w) = Some r \<and> u = user.truncate r \<and> u_active r
      \<and> ae_clock E (ap_clock_reads w) < se_expires_at s))"
  using assms
  by (auto simp: require_role_def get_current_user_def get_user_for_session_def get_session_with_user_def app_m_defs
      user_from_orm_def raise_if_def user.truncate_def not_le delete_session_def
      split: option.splits if_splits sum.splits prod.splits)

section \<open>A transition\<close>

lemma version_from_orm_Inr: "version_from_orm v = Inr v' \<Longrightarrow> v' = v \<and> validate_version v = Inr v"
  by (auto simp: version_from_orm_def res_simps validate_version_iff)

lemma get_version_eq:
  "get_version vid w = (case tbl_get ev_version_id vid (sd_versions w) of
      None \<Rightarrow> (Inr None, w)
    | Some r \<Rightarrow> (case version_from_orm r of Inl e \<Rightarrow> (Inl e, w) | Inr v \<Rightarrow> (Inr (Some v), w)))"
  by (simp add: get_version_def app_m_defs split: option.split sum.split)

lemma get_version_cases:
  obtains (bad) e where "get_version vid w = (Inl e, w)"
  | (none) "get_version vid w = (Inr None, w)" "tbl_get ev_version_id vid (sd_versions w) = None"
  | (row) v where "get_version vid w = (Inr (Some v), w)" "tbl_get ev_version_id vid (sd_versions w) = Some v" "validate_version v = Inr v"
proof (cases "tbl_get ev_version_id vid (sd_versions w)")
  case None
  then show ?thesis using none by (simp add: get_version_eq)
next
  case (Some a)
  then show ?thesis
  proof (cases "version_from_orm a")
    case (Inl e)
    then show ?thesis using Some bad by (simp add: get_version_eq)
  next
    case (Inr b)
    then show ?thesis using Some row version_from_orm_Inr [OF Inr] by (simp add: get_version_eq)
  qed
qed

definition decision_of :: "experiment_version \<Rightarrow> experiment_version_status \<Rightarrow> string \<Rightarrow> string option \<Rightarrow> datetime \<Rightarrow> approval_decision" where
  "decision_of v target actor reason now =
     \<lparr>ad_version_id = ev_version_id v, ad_from_status = ev_status v, ad_to_status = target, ad_actor = actor,
      ad_reason = reason, ad_decided_at = now\<rparr>"

definition self_approval :: "user \<Rightarrow> experiment_version \<Rightarrow> experiment_version_status \<Rightarrow> bool" where
  "self_approval u v target \<longleftrightarrow> target = EV_APPROVED \<and> u_username u = ev_created_by v \<and> u_role u \<noteq> ADMIN"

lemma transition_eq:
  "catchE (transition E v target actor reason) as_conflict w =
     (if target \<notin> set (allowed_transitions (ev_status v)) then (Inl (http_error 409 ''invalid_transition''), w)
      else let now = ae_clock E (ap_clock_reads w); w' = w\<lparr>ap_clock_reads := Suc (ap_clock_reads w)\<rparr> in
        if ev_version_id v = [] \<or> actor = [] then (Inl (ValidationError ''ApprovalDecision'' ''fields''), w')
        else (Inr (moved v target now, decision_of v target actor reason now), w'))"
  by (auto simp: catchE_def transition_def app_m_defs check_transition_def raise_if_def Let_def decision_of_def
      validate_approval_decision_def ne_def)

lemma audit_version_eq:
  "\<exists>ev n m. audit_version E u act vid rq md p q w =
     (Inr (), audit_append ev (w\<lparr>ap_uuid_reads := n, ap_clock_reads := m\<rparr>))
     \<and> av_action ev = act \<and> av_target_id ev = Some vid \<and> av_actor_username ev = Some (u_username u)
     \<and> av_actor_role ev = Some (role_value (u_role u))"
  by (simp add: audit_version_def bindE_def returnE_def audit_record_eq Let_def)
    (rule exI, rule conjI, (rule exI)+, rule refl, simp)

text \<open>The record a successful transition leaves behind.\<close>

definition transition_done :: "codec \<Rightarrow> string \<Rightarrow> experiment_version_status \<Rightarrow> string option \<Rightarrow> pypath option \<Rightarrow> user
    \<Rightarrow> experiment_version \<Rightarrow> datetime \<Rightarrow> 'z studio_state_scheme \<Rightarrow> 'z studio_state_scheme \<Rightarrow> bool" where
  "transition_done C vid target reason dir u v now w w' \<longleftrightarrow>
     sd_versions w' = tbl_upsert ev_version_id (moved v target now) (sd_versions w)
   \<and> sd_approvals w' = sd_approvals w @ [decision_of v target (u_username u) reason now]
   \<and> sd_files w' = (case dir of
        Some d \<Rightarrow> if target = EV_APPROVED
          then tbl_upsert fst (path_join d (ev_experiment_id v @ ''.json''), cd_experiment_text C (ev_definition (moved v target now))) (sd_files w)
          else sd_files w
      | None \<Rightarrow> sd_files w)
   \<and> (\<exists>ev. ap_audit w' = ap_audit w @ [ev] \<and> Some (av_action ev) = transition_audit_action target
        \<and> av_target_id ev = Some vid \<and> av_actor_username ev = Some (u_username u)
        \<and> av_actor_role ev = Some (role_value (u_role u)))"

lemma audit_append_studio [simp]:
  "sd_versions (audit_append ev w) = sd_versions w" "sd_approvals (audit_append ev w) = sd_approvals w"
  "sd_files (audit_append ev w) = sd_files w" "ap_audit (audit_append ev w) = ap_audit w @ [ev]"
  by (simp_all add: audit_append_def)

lemma commit_transition:
  assumes "transition_audit_action target = Some act"
  shows "\<exists>w'. bindE (save_version (moved v target now)) (\<lambda>_.
     bindE (modifyE (append_approval_decision (decision_of v target (u_username u) reason now))) (\<lambda>_.
     bindE (case dir of
         Some d \<Rightarrow> if target = EV_APPROVED
           then bindE (materialise_to_experiments_dir C d (moved v target now)) (\<lambda>_. returnE ()) else returnE ()
       | None \<Rightarrow> returnE ()) (\<lambda>_.
     bindE (case transition_audit_action target of
         None \<Rightarrow> raiseE (OtherError ''KeyError'' (version_status_value target))
       | Some action \<Rightarrow> audit_version E u action vid rq md p q) (\<lambda>_.
     returnE (moved v target now))))) w = (Inr (moved v target now), w')
     \<and> transition_done C vid target reason dir u v now w w'"
proof -
  let ?w1 = "w\<lparr>sd_versions := tbl_upsert ev_version_id (moved v target now) (sd_versions w),
      sd_approvals := sd_approvals w @ [decision_of v target (u_username u) reason now]\<rparr>"
  let ?w2 = "case dir of
        Some d \<Rightarrow> if target = EV_APPROVED
          then ?w1\<lparr>sd_files := tbl_upsert fst (path_join d (ev_experiment_id v @ ''.json''), cd_experiment_text C (ev_definition (moved v target now))) (sd_files w)\<rparr>
          else ?w1
      | None \<Rightarrow> ?w1"
  have files: "(case dir of
         Some d \<Rightarrow> if target = EV_APPROVED
           then bindE (materialise_to_experiments_dir C d (moved v target now)) (\<lambda>_. returnE ()) else returnE ()
       | None \<Rightarrow> returnE ()) ?w1 = (Inr (), ?w2)"
    by (auto simp: materialise_to_experiments_dir_def app_m_defs Let_def moved_def split: option.split)
  obtain ev n m where ev: "audit_version E u act vid rq md p q ?w2 = (Inr (), audit_append ev (?w2\<lparr>ap_uuid_reads := n, ap_clock_reads := m\<rparr>))"
    "av_action ev = act" "av_target_id ev = Some vid" "av_actor_username ev = Some (u_username u)"
    "av_actor_role ev = Some (role_value (u_role u))"
    using audit_version_eq [of E u act vid rq md p q ?w2] by blast
  show ?thesis
    using assms files ev
    by (auto simp: bindE_def save_version_def modifyE_def append_approval_decision_def returnE_def transition_done_def
        split: option.split)
qed

text \<open>\<open>_do_transition\<close> on a version that is there, and every outcome of it.\<close>

lemma do_transition_eq:
  assumes act: "transition_audit_action target = Some act" and row: "get_version vid w = (Inr (Some v), w)"
  shows "\<exists>blocked done now ev. do_transition E C vid target reason dir u rq w =
      (if self_approval u v target then (Inl (http_error 403 ''self_approval_forbidden''), blocked)
       else if target \<notin> set (allowed_transitions (ev_status v)) then (Inl (http_error 409 ''invalid_transition''), w)
       else if ev_version_id v = [] \<or> u_username u = []
         then (Inl (ValidationError ''ApprovalDecision'' ''fields''), w\<lparr>ap_clock_reads := Suc (ap_clock_reads w)\<rparr>)
       else (Inr (moved v target now), done))
    \<and> transition_done C vid target reason dir u v now w done
    \<and> sd_versions blocked = sd_versions w \<and> sd_approvals blocked = sd_approvals w \<and> sd_files blocked = sd_files w
    \<and> ap_audit blocked = ap_audit w @ [ev] \<and> av_action ev = EXPERIMENT_VERSION_SELF_APPROVAL_BLOCKED
    \<and> av_actor_username ev = Some (u_username u) \<and> av_target_id ev = Some vid"
proof -
  let ?w1 = "w\<lparr>ap_clock_reads := Suc (ap_clock_reads w)\<rparr>" and ?now = "ae_clock E (ap_clock_reads w)"
  have 0: "version_or_404 vid w = (Inr v, w)" using row by (simp add: version_or_404_def bindE_def returnE_def)
  obtain ev n m where ev: "audit_version E u EXPERIMENT_VERSION_SELF_APPROVAL_BLOCKED vid rq
       [(''created_by'', PStr (ev_created_by v))] None None w = (Inr (), audit_append ev (w\<lparr>ap_uuid_reads := n, ap_clock_reads := m\<rparr>))"
    "av_action ev = EXPERIMENT_VERSION_SELF_APPROVAL_BLOCKED" "av_actor_username ev = Some (u_username u)" "av_target_id ev = Some vid"
    using audit_version_eq [of E u EXPERIMENT_VERSION_SELF_APPROVAL_BLOCKED vid rq "[(''created_by'', PStr (ev_created_by v))]" None None w]
    by auto
  obtain w2 where w2: "transition_done C vid target reason dir u v ?now ?w1 w2"
    and commit: "\<not> self_approval u v target \<Longrightarrow> do_transition E C vid target reason dir u rq w =
        (if target \<notin> set (allowed_transitions (ev_status v)) then (Inl (http_error 409 ''invalid_transition''), w)
         else if ev_version_id v = [] \<or> u_username u = [] then (Inl (ValidationError ''ApprovalDecision'' ''fields''), ?w1)
         else (Inr (moved v target ?now), w2))"
    using commit_transition [OF act, where w = ?w1 and now = ?now and v = v and u = u and reason = reason and dir = dir
        and C = C and E = E and vid = vid and rq = rq
        and md = "case reason of None \<Rightarrow> [] | Some r \<Rightarrow> if r = [] then [] else [(''reason'', PStr r)]"
        and p = "Some [(''status'', PStr (version_status_value (ev_status v)))]"
        and q = "Some [(''status'', PStr (version_status_value target))]"] 0
    by (elim exE conjE) (simp add: do_transition_def bindE_def [of "version_or_404 vid"] bindE_def [of "catchE _ _"]
        bindE_def [of "returnE ()"] self_approval_def [symmetric] returnE_def [of "()"] transition_eq Let_def)
  have "transition_done C vid target reason dir u v ?now w w2"
    using w2 by (cases dir) (simp_all add: transition_done_def)
  moreover have "self_approval u v target \<Longrightarrow> do_transition E C vid target reason dir u rq w =
      (Inl (http_error 403 ''self_approval_forbidden''), audit_append ev (w\<lparr>ap_uuid_reads := n, ap_clock_reads := m\<rparr>))"
    using 0 ev(1) by (simp add: do_transition_def bindE_def self_approval_def raiseE_def)
  ultimately show ?thesis using commit ev(2-4)
    by (intro exI [of _ "audit_append ev (w\<lparr>ap_uuid_reads := n, ap_clock_reads := m\<rparr>)"] exI [of _ w2] exI [of _ ?now] exI [of _ ev]) simp
qed

lemma do_transition_outcome:
  assumes "do_transition E C vid target reason dir u rq w = (r, w')" and act: "transition_audit_action target = Some act"
  shows "(\<exists>e. r = Inl e \<and> studio_quiet w w') \<or>
    (\<exists>v now. r = Inr (moved v target now) \<and> tbl_get ev_version_id vid (sd_versions w) = Some v
      \<and> validate_version v = Inr v \<and> target \<in> set (allowed_transitions (ev_status v)) \<and> \<not> self_approval u v target
      \<and> transition_done C vid target reason dir u v now w w')"
proof (cases rule: get_version_cases [of vid w])
  case bad
  then show ?thesis using assms(1) by (auto simp: do_transition_def version_or_404_def bindE_def quiet.R_refl)
next
  case none
  then show ?thesis using assms(1) by (auto simp: do_transition_def version_or_404_def bindE_def raiseE_def quiet.R_refl)
next
  case (row v)
  then show ?thesis
    using do_transition_eq [OF act row(1), of E C reason dir u rq] assms(1)
    by (auto simp: studio_quiet_def split: if_splits)
qed

section \<open>Identifiers of versions\<close>

lemma digit_char_digit: "d < 10 \<Longrightarrow> is_digit (digit_char d)"
  by (simp add: is_digit_def digit_char_def)

lemma nat_digits_digits: "list_all is_digit (nat_digits n)"
proof (induction n rule: nat_digits.induct)
  case (1 n)
  then show ?case by (subst nat_digits.simps) (auto simp: digit_char_digit)
qed

lemma int_of_digits_nat_digits: "int_of_digits (nat_digits n) = n"
proof (induction n rule: nat_digits.induct)
  case (1 n)
  then show ?case by (subst nat_digits.simps) (auto simp: int_of_digits_def digit_char_def)
qed

lemma nat_digits_inj: "nat_digits n = nat_digits m \<Longrightarrow> n = m"
  by (metis int_of_digits_nat_digits)

lemma str_int_chars: "c \<in> set (str_int i) \<Longrightarrow> is_digit c \<or> c = CHR ''-''"
  using nat_digits_digits by (auto simp: str_int_def list_all_iff split: if_splits)

lemma str_int_inj: "str_int i = str_int j \<Longrightarrow> i = j"
proof -
  have no: "nat_digits n \<noteq> CHR ''-'' # ds" for n ds
    using nat_digits_digits [of n] by (auto simp: is_digit_def)
  assume "str_int i = str_int j"
  then show ?thesis
    using no no [symmetric] by (auto simp: str_int_def split: if_splits dest!: nat_digits_inj)
qed

lemma version_id_of_inj:
  assumes "version_id_of e n = version_id_of e' n'"
  shows "e = e' \<and> n = n'"
proof -
  have no: "c \<noteq> CHR ''v''" if "c \<in> set (rev (str_int i))" for c i
    using str_int_chars [of c i] that by (auto simp: is_digit_def)
  have tw: "takeWhile (\<lambda>c. c \<noteq> CHR ''v'') (rev (version_id_of e n)) = rev (str_int n)" for e n
    unfolding version_id_of_def rev_append append_assoc using no by (subst takeWhile_append2) auto
  have "rev (str_int n) = rev (str_int n')" using assms tw by metis
  then have "n = n'" using str_int_inj by simp
  with assms show ?thesis by (simp add: version_id_of_def)
qed

section \<open>Creating and editing\<close>

lemma validate_definition_id: "validate_definition d = Inr d' \<Longrightarrow> d' = d"
  by (auto simp: validate_definition_def res_simps)

lemma tables_build: "abides studio_tables_kept (build_experiment_draft E G reg q)"
  unfolding build_experiment_draft_def materialise_dataset_def Let_def
  by (intro tables.resp_rules tables_env) (simp add: studio_tables_kept_def)

lemma build_Inr:
  assumes "build_experiment_draft E G reg q w = (Inr v, w')"
  shows "\<exists>pack t path pv now. v = draft_version q
      (draft_definition q pack t (hd (vt_allowed_baseline_strategies t)) (hd (vt_allowed_mitigation_strategies t)) path) pv now
    \<and> validate_version v = Inr v
    \<and> hd (vt_allowed_baseline_strategies t) \<in> set (dp_allowed_strategy_ids pack)
    \<and> hd (vt_allowed_mitigation_strategies t) \<in> set (dp_allowed_strategy_ids pack)
    \<and> resolve_domain_pack (dq_domain_pack_id q) = Inr pack"
  using assms
  by (auto simp: build_experiment_draft_def bindE_Inr Let_def liftE_def check_strategy_allowed_def
      validate_version_iff dest!: validate_definition_id) blast

lemma latest_version_number_Inr:
  assumes "latest_version_number i w = (Inr n, w')" and "r \<in> set (sd_versions w)" and "ev_experiment_id r = i"
  shows "ev_version_number r \<le> n"
proof -
  let ?rows = "sorted_by (\<lambda>v. (ev_experiment_id v, ev_version_number v)) (filter (\<lambda>v. ev_experiment_id v = i) (sd_versions w))"
  obtain vs where vs: "mapS version_from_orm ?rows = Inr vs" and n: "n = (if vs = [] then 0 else Max (set (map ev_version_number vs)))"
    using assms(1) by (auto simp: latest_version_number_def list_versions_def app_m_defs split: sum.splits)
  have "list_all2 (\<lambda>x y. version_from_orm x = Inr y) ?rows vs" using vs by (simp add: mapS_Inr_all2)
  then have "list_all2 (=) ?rows vs" by (rule list_all2_mono) (auto dest: version_from_orm_Inr)
  then have "vs = ?rows" by (simp add: list_all2_eq [symmetric])
  then have "r \<in> set vs" using assms(2,3) by simp
  then show ?thesis by (auto simp: n)
qed

lemma latest_version_number_pure: "latest_version_number i w = (r, w') \<Longrightarrow> w' = w"
  by (auto simp: latest_version_number_def list_versions_def app_m_defs split: sum.splits)

definition fresh_draft :: "user \<Rightarrow> experiment_version \<Rightarrow> experiment_version list \<Rightarrow> bool" where
  "fresh_draft u v rows \<longleftrightarrow> ev_status v = EV_DRAFT \<and> ev_created_by v = u_username u
     \<and> ev_version_id v = version_id_of (ev_experiment_id v) (ev_version_number v)
     \<and> (\<forall>r \<in> set rows. ev_experiment_id r = ev_experiment_id v \<longrightarrow> ev_version_number r < ev_version_number v)
     \<and> validate_version v = Inr v \<and> \<not> ed_external_targeting (ev_definition v)
     \<and> ed_input_classification (ev_definition v) = SYNTHETIC \<and> \<not> ed_weaponised_payloads (ev_definition v)"

lemma create_handler_outcome:
  assumes "create_handler E G reg parse tok q cfg rq w = (r, w')"
  shows "sd_approvals w' = sd_approvals w \<and> prefix (ap_audit w) (ap_audit w') \<and>
    ((\<exists>e. r = Inl e) \<and> sd_versions w' = sd_versions w \<or>
     (\<exists>u v. r = Inr v \<and> fresh_draft u v (sd_versions w) \<and> u_role u \<in> {RESEARCHER, ADMIN}
       \<and> sd_versions w' = tbl_upsert ev_version_id v (sd_versions w)))"
proof (cases "require_role E [RESEARCHER, ADMIN] tok w")
  case (Pair ru w1)
  have q1: "studio_quiet w w1" using require_role_quiet [OF Pair] .
  show ?thesis
  proof (cases ru)
    case (Inl e)
    then show ?thesis using assms Pair q1 by (auto simp: create_handler_def bindE_def studio_quiet_def)
  next
    case (Inr u)
    let ?b = "\<lambda>cves n c. build_experiment_draft E G reg (q\<lparr>dq_related_cves := cves, dq_version_number := n + 1,
         dq_dataset_config := c, dq_created_by := u_username u\<rparr>)"
    let ?m = "bindE (liftE (mapS validate_cve_reference (dq_related_cves q))) (\<lambda>cves.
       bindE (latest_version_number (dq_experiment_id q)) (\<lambda>n.
       bindE (liftE (parse_dataset_config parse (dq_domain_pack_id q) cfg)) (\<lambda>c. ?b cves n c)))"
    have t: "abides studio_tables_kept ?m"
      unfolding latest_version_number_def list_versions_def by (intro tables.resp_rules tables_build)
    obtain rm w2 where m: "?m w1 = (rm, w2)" by (cases "?m w1")
    have t2: "studio_tables_kept w1 w2" using abidesD [OF t m] .
    show ?thesis
    proof (cases rm)
      case (Inl e)
      then show ?thesis using assms Pair Inr q1 t2 m
        by (auto simp: create_handler_def bindE_def [of "require_role _ _ _"] bindE_def [of "catchE _ _"] catchE_def
            studio_quiet_def studio_tables_kept_def)
    next
      case (Inr v)
      obtain cves n c w0 where n: "latest_version_number (dq_experiment_id q) w1 = (Inr n, w0)" and b: "?b cves n c w0 = (Inr v, w2)"
        using m Inr by (auto simp: bindE_Inr liftE_def)
      have vs: "sd_versions w1 = sd_versions w" using q1 by (simp add: studio_quiet_def)
      have fd: "fresh_draft u v (sd_versions w)"
        using build_Inr [OF b] latest_version_number_Inr [OF n]
        by (fastforce simp: fresh_draft_def draft_version_def draft_definition_def vs)
      have ur: "u_role u \<in> {RESEARCHER, ADMIN}" using require_role_Inr Pair \<open>ru = Inr u\<close> by fastforce
      obtain ev k l where "audit_version E u EXPERIMENT_VERSION_CREATED (ev_version_id v) rq
         [(''experiment_id'', PStr (ev_experiment_id v)), (''version_number'', PInt (ev_version_number v))] None None
         (w2\<lparr>sd_versions := tbl_upsert ev_version_id v (sd_versions w2)\<rparr>) =
         (Inr (), audit_append ev (w2\<lparr>sd_versions := tbl_upsert ev_version_id v (sd_versions w2), ap_uuid_reads := k, ap_clock_reads := l\<rparr>))"
        using audit_version_eq by blast
      then have "(r, w') = (Inr v, audit_append ev (w2\<lparr>sd_versions := tbl_upsert ev_version_id v (sd_versions w2), ap_uuid_reads := k, ap_clock_reads := l\<rparr>))"
        using assms Pair \<open>ru = Inr u\<close> Inr m
        by (simp add: create_handler_def bindE_def [of "require_role _ _ _"] bindE_def [of "catchE _ _"] catchE_def
            bindE_def [of "modifyE _"] bindE_def [of "audit_version _ _ _ _ _ _ _ _"] save_version_def modifyE_def returnE_def)
      then show ?thesis using fd ur q1 t2 by (auto simp: studio_quiet_def studio_tables_kept_def)
    qed
  qed
qed

lemma edit_handler_outcome:
  assumes "edit_handler E tok vid q rq w = (r, w')"
  shows "sd_approvals w' = sd_approvals w \<and> sd_files w' = sd_files w \<and> prefix (ap_audit w) (ap_audit w') \<and>
    ((\<exists>e. r = Inl e) \<and> sd_versions w' = sd_versions w \<or>
     (\<exists>v now. tbl_get ev_version_id vid (sd_versions w) = Some v \<and> ev_status v = EV_DRAFT
       \<and> r = Inr (v\<lparr>ev_definition := edit_updates q (ev_definition v), ev_updated_at := now\<rparr>)
       \<and> sd_versions w' = tbl_upsert ev_version_id (v\<lparr>ev_definition := edit_updates q (ev_definition v), ev_updated_at := now\<rparr>) (sd_versions w)))"
proof (cases "require_role E [RESEARCHER, ADMIN] tok w")
  case (Pair ru w1)
  have q1: "studio_quiet w w1" using require_role_quiet [OF Pair] .
  show ?thesis
  proof (cases ru)
    case (Inl e)
    then show ?thesis using assms Pair q1 by (auto simp: edit_handler_def bindE_def studio_quiet_def)
  next
    case (Inr u)
    have e: "edit_handler E tok vid q rq w =
      bindE (version_or_404 vid) (\<lambda>v.
       bindE (catchE (edit_draft E v (edit_updates q)) as_conflict) (\<lambda>nv.
       bindE (save_version nv) (\<lambda>_.
       bindE (audit_version E u EXPERIMENT_VERSION_EDITED vid rq
         [(''fields_changed'', PList (map PStr (edit_fields q)))] None None) (\<lambda>_.
       returnE nv)))) w1"
      using Pair Inr by (simp add: edit_handler_def bindE_def [of "require_role _ _ _"])
    show ?thesis
    proof (cases rule: get_version_cases [of vid w1])
      case (bad e')
      then show ?thesis using assms e q1 by (auto simp: version_or_404_def bindE_def studio_quiet_def)
    next
      case none
      then show ?thesis using assms e q1 by (auto simp: version_or_404_def bindE_def raiseE_def studio_quiet_def)
    next
      case (row v)
      have 0: "version_or_404 vid w1 = (Inr v, w1)" using row(1) by (simp add: version_or_404_def bindE_def returnE_def)
      let ?nv = "v\<lparr>ev_definition := edit_updates q (ev_definition v), ev_updated_at := ae_clock E (ap_clock_reads w1)\<rparr>"
      let ?w2 = "w1\<lparr>ap_clock_reads := Suc (ap_clock_reads w1), sd_versions := tbl_upsert ev_version_id ?nv (sd_versions w1)\<rparr>"
      obtain ev k l where "audit_version E u EXPERIMENT_VERSION_EDITED vid rq
         [(''fields_changed'', PList (map PStr (edit_fields q)))] None None ?w2 =
         (Inr (), audit_append ev (?w2\<lparr>ap_uuid_reads := k, ap_clock_reads := l\<rparr>))"
        using audit_version_eq by blast
      then show ?thesis using assms e q1 0 row(2)
        by (auto simp: bindE_def catchE_def edit_draft_def raiseE_def utc_now_def save_version_def modifyE_def returnE_def
            studio_quiet_def split: if_splits)
    qed
  qed
qed

section \<open>The system\<close>

datatype studio_op =
    OpLogin string string "string option" "string option" "string option"
  | OpLogout string "user option" "string option"
  | OpCreateUser string string role user "string option"
  | OpSetRole string role user "string option"
  | OpSetActive string bool user "string option"
  | OpCreate "string option" draft_request pydict "string option"
  | OpEdit "string option" string edit_request "string option"
  | OpSubmit "string option" string "string option" "string option"
  | OpStartReview "string option" string "string option" "string option"
  | OpApprove "string option" string "string option" "string option"
  | OpReject "string option" string "string option" "string option"
  | OpRetire "string option" string "string option" "string option"

text \<open>What the deployment fixes.\<close>

record studio_env =
  st_app :: app_env
  st_gen :: generator_env
  st_templates :: template_registry
  st_parse :: "string \<Rightarrow> pydict \<Rightarrow> exn + generator_config"
  st_codec :: codec
  st_experiments_dir :: pypath

text \<open>The state after a request.\<close>

fun studio_step :: "studio_env \<Rightarrow> studio_op \<Rightarrow> 'z studio_state_scheme \<Rightarrow> 'z studio_state_scheme" where
  "studio_step S (OpLogin n pw ip ua rq) w = snd (login (st_app S) n pw ip ua rq w)"
| "studio_step S (OpLogout tok a rq) w = snd (logout (st_app S) tok a rq w)"
| "studio_step S (OpCreateUser n ph rl a rq) w = snd (service_create_user (st_app S) n ph rl a rq w)"
| "studio_step S (OpSetRole i rl a rq) w = snd (update_user_role (st_app S) i rl a rq w)"
| "studio_step S (OpSetActive i b a rq) w = snd (set_user_active (st_app S) i b a rq w)"
| "studio_step S (OpCreate tok q cfg rq) w =
     snd (create_handler (st_app S) (st_gen S) (st_templates S) (st_parse S) tok q cfg rq w)"
| "studio_step S (OpEdit tok vid q rq) w = snd (edit_handler (st_app S) tok vid q rq w)"
| "studio_step S (OpSubmit tok vid reason rq) w = snd (submit_review_handler (st_app S) (st_codec S) tok vid reason rq w)"
| "studio_step S (OpStartReview tok vid reason rq) w = snd (start_review_handler (st_app S) (st_codec S) tok vid reason rq w)"
| "studio_step S (OpApprove tok vid reason rq) w =
     snd (approve_handler (st_app S) (st_codec S) (st_experiments_dir S) tok vid reason rq w)"
| "studio_step S (OpReject tok vid reason rq) w = snd (reject_handler (st_app S) (st_codec S) tok vid reason rq w)"
| "studio_step S (OpRetire tok vid reason rq) w = snd (retire_handler (st_app S) (st_codec S) tok vid reason rq w)"

text \<open>What a request can do to the studio's tables, as a relation.\<close>

inductive studio_effect :: "'z studio_state_scheme \<Rightarrow> 'z studio_state_scheme \<Rightarrow> bool" where
  quiet: "sd_versions w' = sd_versions w \<Longrightarrow> sd_approvals w' = sd_approvals w \<Longrightarrow> prefix (ap_audit w) (ap_audit w')
     \<Longrightarrow> studio_effect w w'"
| created: "fresh_draft u v (sd_versions w) \<Longrightarrow> sd_versions w' = tbl_upsert ev_version_id v (sd_versions w)
     \<Longrightarrow> sd_approvals w' = sd_approvals w \<Longrightarrow> prefix (ap_audit w) (ap_audit w') \<Longrightarrow> studio_effect w w'"
| edited: "tbl_get ev_version_id (ev_version_id v) (sd_versions w) = Some v \<Longrightarrow> ev_status v = EV_DRAFT
     \<Longrightarrow> sd_versions w' = tbl_upsert ev_version_id
          (v\<lparr>ev_definition := edit_updates q (ev_definition v), ev_updated_at := now\<rparr>) (sd_versions w)
     \<Longrightarrow> sd_approvals w' = sd_approvals w \<Longrightarrow> prefix (ap_audit w) (ap_audit w') \<Longrightarrow> studio_effect w w'"
| moves: "tbl_get ev_version_id (ev_version_id v) (sd_versions w) = Some v \<Longrightarrow> target \<in> set (allowed_transitions (ev_status v))
     \<Longrightarrow> target \<noteq> EV_DRAFT \<Longrightarrow> \<not> self_approval u v target
     \<Longrightarrow> transition_done C (ev_version_id v) target reason dir u v now w w' \<Longrightarrow> studio_effect w w'"

lemma quiet_effect: "studio_quiet w w' \<Longrightarrow> studio_effect w w'"
  by (auto simp: studio_quiet_def intro: studio_effect.quiet)

lemma abides_effect: "abides studio_quiet m \<Longrightarrow> studio_effect w (snd (m w))"
  by (simp add: abides_def quiet_effect)

lemma guarded_transition_effect:
  assumes "transition_audit_action target = Some act"
  shows "studio_effect w (snd (bindE (require_role E rs tok) (\<lambda>u. do_transition E C vid target reason dir u rq) w))"
proof (cases "require_role E rs tok w")
  case (Pair ru w1)
  have q1: "studio_quiet w w1" using require_role_quiet [OF Pair] .
  show ?thesis
  proof (cases ru)
    case (Inl e)
    then show ?thesis using Pair q1 by (simp add: bindE_def quiet_effect)
  next
    case (Inr u)
    obtain r w' where d: "do_transition E C vid target reason dir u rq w1 = (r, w')"
      by (cases "do_transition E C vid target reason dir u rq w1")
    have e: "snd (bindE (require_role E rs tok) (\<lambda>u. do_transition E C vid target reason dir u rq) w) = w'"
      using Pair Inr d by (simp add: bindE_def)
    from do_transition_outcome [OF d assms] show ?thesis
    proof (elim disjE exE conjE)
      fix e assume "studio_quiet w1 w'"
      then show ?thesis using q1 e by (simp add: quiet_effect quiet.R_trans)
    next
      fix v now
      assume v: "tbl_get ev_version_id vid (sd_versions w1) = Some v" "target \<in> set (allowed_transitions (ev_status v))"
        "\<not> self_approval u v target" "transition_done C vid target reason dir u v now w1 w'"
      have "ev_version_id v = vid" using v(1) by (auto dest: tbl_get_SomeD)
      moreover have "target \<noteq> EV_DRAFT" using assms by auto
      moreover have "transition_done C vid target reason dir u v now w w'" "sd_versions w1 = sd_versions w"
        using v(4) abidesD [OF same_require_role Pair] by (cases dir; auto simp: transition_done_def studio_same_def)+
      ultimately show ?thesis using v e studio_effect.moves [of v w target u C reason dir now w'] by simp
    qed
  qed
qed

lemma studio_step_effect: "studio_effect w (studio_step S op w)"
proof (cases op)
  case (OpLogin n pw ip ua rq)
  then show ?thesis by (simp add: abides_effect [OF quiet_login])
next
  case (OpLogout tok a rq)
  then show ?thesis by (simp add: abides_effect [OF quiet_logout])
next
  case (OpCreateUser n ph rl a rq)
  then show ?thesis by (simp add: abides_effect [OF quiet_create_user])
next
  case (OpSetRole i rl a rq)
  then show ?thesis by (simp add: abides_effect [OF quiet_update_user_role])
next
  case (OpSetActive i b a rq)
  then show ?thesis by (simp add: abides_effect [OF quiet_set_user_active])
next
  case (OpCreate tok q cfg rq)
  let ?h = "create_handler (st_app S) (st_gen S) (st_templates S) (st_parse S) tok q cfg rq w"
  show ?thesis using create_handler_outcome [of "st_app S" "st_gen S" "st_templates S" "st_parse S" tok q cfg rq w "fst ?h" "snd ?h"] OpCreate
    by (auto intro: studio_effect.quiet studio_effect.created)
next
  case (OpEdit tok vid q rq)
  let ?h = "edit_handler (st_app S) tok vid q rq w"
  have h: "?h = (fst ?h, snd ?h)" by simp
  from edit_handler_outcome [OF h] show ?thesis
  proof (elim conjE disjE exE)
    fix v now
    assume v: "tbl_get ev_version_id vid (sd_versions w) = Some v"
    moreover have "ev_version_id v = vid" using v by (auto dest: tbl_get_SomeD)
    moreover assume "ev_status v = EV_DRAFT" "sd_approvals (snd ?h) = sd_approvals w" "prefix (ap_audit w) (ap_audit (snd ?h))"
      "sd_versions (snd ?h) = tbl_upsert ev_version_id (v\<lparr>ev_definition := edit_updates q (ev_definition v), ev_updated_at := now\<rparr>) (sd_versions w)"
    ultimately have "studio_effect w (snd ?h)" using studio_effect.edited [of v w "snd ?h" now q] by simp
    then show ?thesis using OpEdit by simp
  qed (auto simp: OpEdit intro: studio_effect.quiet)
qed (simp_all add: submit_review_handler_def start_review_handler_def approve_handler_def reject_handler_def
    retire_handler_def guarded_transition_effect)

section \<open>The invariant\<close>

text \<open>
  The decisions of a version, read in order from a status: each starts where the last one ended and is an
  allowed transition. The result is the status they lead to.
\<close>

fun decision_path :: "experiment_version_status \<Rightarrow> approval_decision list \<Rightarrow> experiment_version_status option" where
  "decision_path s [] = Some s"
| "decision_path s (d # ds) =
     (if ad_from_status d = s \<and> ad_to_status d \<in> set (allowed_transitions s) then decision_path (ad_to_status d) ds else None)"

definition decisions_for :: "string \<Rightarrow> 'z studio_state_scheme \<Rightarrow> approval_decision list" where
  "decisions_for vid w = filter (\<lambda>d. ad_version_id d = vid) (sd_approvals w)"

definition admin_approval_audited :: "approval_decision \<Rightarrow> audit_event list \<Rightarrow> bool" where
  "admin_approval_audited d evs \<longleftrightarrow> (\<exists>ev \<in> set evs. av_action ev = EXPERIMENT_VERSION_APPROVED
     \<and> av_target_id ev = Some (ad_version_id d) \<and> av_actor_username ev = Some (ad_actor d) \<and> av_actor_role ev = Some ''admin'')"

definition row_ok :: "experiment_version \<Rightarrow> bool" where
  "row_ok v \<longleftrightarrow> ev_version_id v = version_id_of (ev_experiment_id v) (ev_version_number v)
     \<and> ev_experiment_id v = ed_experiment_id (ev_definition v)
     \<and> ed_approval_status (ev_definition v) = expected_approval_status (ev_status v)
     \<and> \<not> ed_external_targeting (ev_definition v) \<and> ed_input_classification (ev_definition v) = SYNTHETIC
     \<and> \<not> ed_weaponised_payloads (ev_definition v)"

definition duties_separate :: "experiment_version \<Rightarrow> 'z studio_state_scheme \<Rightarrow> bool" where
  "duties_separate v w \<longleftrightarrow> (\<forall>d \<in> set (decisions_for (ev_version_id v) w). ad_to_status d = EV_APPROVED \<longrightarrow>
     ad_actor d \<noteq> ev_created_by v \<or> admin_approval_audited d (ap_audit w))"

definition studio_inv :: "'z studio_state_scheme \<Rightarrow> bool" where
  "studio_inv w \<longleftrightarrow> tbl_ok ev_version_id (sd_versions w)
     \<and> (\<forall>v \<in> set (sd_versions w). row_ok v \<and> duties_separate v w
          \<and> decision_path EV_DRAFT (decisions_for (ev_version_id v) w) = Some (ev_status v))
     \<and> (\<forall>d \<in> set (sd_approvals w). ad_version_id d \<in> ev_version_id ` set (sd_versions w))"

lemma set_upsert:
  assumes "tbl_ok key t"
  shows "set (tbl_upsert key r t) = insert r {x \<in> set t. key x \<noteq> key r}"
proof (cases "tbl_get key (key r) t")
  case None
  then have "\<forall>x \<in> set t. key x \<noteq> key r" unfolding tbl_get_None by (metis imageI)
  then show ?thesis using None by (auto simp: tbl_upsert_def)
next
  case (Some a)
  then show ?thesis by (auto simp: tbl_upsert_def tbl_modify_def dest: tbl_get_SomeD)
qed

lemma decision_path_append:
  "decision_path s ds = Some t \<Longrightarrow> decision_path s (ds @ [d]) =
     (if ad_from_status d = t \<and> ad_to_status d \<in> set (allowed_transitions t) then Some (ad_to_status d) else None)"
  by (induction ds arbitrary: s) (auto split: if_splits)

lemma duties_mono:
  assumes "duties_separate v w" and "ev_version_id v' = ev_version_id v" and "ev_created_by v' = ev_created_by v"
    and "decisions_for (ev_version_id v) w' = decisions_for (ev_version_id v) w"
    and "prefix (ap_audit w) (ap_audit w')"
  shows "duties_separate v' w'"
proof -
  have "admin_approval_audited d (ap_audit w) \<Longrightarrow> admin_approval_audited d (ap_audit w')" for d
    using set_mono_prefix [OF assms(5)] unfolding admin_approval_audited_def by blast
  then show ?thesis using assms(1-4) unfolding duties_separate_def by metis
qed

text \<open>Writing one row, with at most decisions about that row, needs only be checked for that row.\<close>

lemma inv_write_row:
  assumes inv: "studio_inv w"
    and tbl: "sd_versions w' = tbl_upsert ev_version_id v' (sd_versions w)"
    and dec: "sd_approvals w' = sd_approvals w @ ds" "\<And>d. d \<in> set ds \<Longrightarrow> ad_version_id d = ev_version_id v'"
    and aud: "prefix (ap_audit w) (ap_audit w')"
    and row: "row_ok v'" "duties_separate v' w'" "decision_path EV_DRAFT (decisions_for (ev_version_id v') w') = Some (ev_status v')"
  shows "studio_inv w'"
proof -
  have ok: "tbl_ok ev_version_id (sd_versions w)" using inv by (simp add: studio_inv_def)
  have rows: "set (sd_versions w') = insert v' {x \<in> set (sd_versions w). ev_version_id x \<noteq> ev_version_id v'}"
    by (simp add: tbl set_upsert [OF ok])
  have same: "decisions_for i w' = decisions_for i w" if "i \<noteq> ev_version_id v'" for i
    using dec that by (auto simp: decisions_for_def filter_empty_conv)
  have "row_ok x \<and> duties_separate x w' \<and> decision_path EV_DRAFT (decisions_for (ev_version_id x) w') = Some (ev_status x)"
    if x: "x \<in> set (sd_versions w')" for x
  proof (cases "x = v'")
    case False
    then have 1: "x \<in> set (sd_versions w)" "ev_version_id x \<noteq> ev_version_id v'" using x rows by auto
    then have 2: "row_ok x" "duties_separate x w" "decision_path EV_DRAFT (decisions_for (ev_version_id x) w) = Some (ev_status x)"
      using inv by (auto simp: studio_inv_def)
    then show ?thesis using duties_mono [OF 2(2) refl refl same aud] same 1(2) by simp
  qed (use row in simp)
  moreover have "ad_version_id d \<in> ev_version_id ` set (sd_versions w')" if "d \<in> set (sd_approvals w')" for d
  proof (cases "d \<in> set ds")
    case True
    then show ?thesis using dec(2) rows by simp
  next
    case False
    then have "ad_version_id d \<in> ev_version_id ` set (sd_versions w)" using that dec(1) inv by (auto simp: studio_inv_def)
    then show ?thesis by (cases "ad_version_id d = ev_version_id v'") (auto simp: rows)
  qed
  ultimately show ?thesis using tbl_ok_upsert [OF ok, of v'] by (simp add: studio_inv_def tbl)
qed

lemma inv_row:
  assumes "studio_inv w" and "tbl_get ev_version_id i (sd_versions w) = Some v"
  shows "ev_version_id v = i" and "row_ok v" and "duties_separate v w"
    and "decision_path EV_DRAFT (decisions_for i w) = Some (ev_status v)"
  using assms by (auto simp: studio_inv_def dest!: tbl_get_SomeD)

lemma effect_inv:
  assumes "studio_effect w w'" and inv: "studio_inv w"
  shows "studio_inv w'"
  using assms(1)
proof cases
  case quiet
  then have "decisions_for i w' = decisions_for i w" for i by (simp add: decisions_for_def)
  moreover have "duties_separate v w \<Longrightarrow> duties_separate v w'" for v
    using duties_mono [OF _ refl refl calculation quiet(3)] .
  ultimately show ?thesis using inv quiet by (auto simp: studio_inv_def)
next
  case (created u v)
  have new: "ev_version_id v \<notin> ev_version_id ` set (sd_versions w)"
  proof
    assume "ev_version_id v \<in> ev_version_id ` set (sd_versions w)"
    then obtain r where r: "r \<in> set (sd_versions w)" "ev_version_id r = ev_version_id v" by auto
    then have "ev_experiment_id r = ev_experiment_id v \<and> ev_version_number r = ev_version_number v"
      using inv created(1) by (intro version_id_of_inj) (simp add: studio_inv_def row_ok_def fresh_draft_def)
    then show False using created(1) r(1) by (auto simp: fresh_draft_def)
  qed
  have none: "decisions_for (ev_version_id v) w' = []"
    using inv new created(3) unfolding decisions_for_def filter_empty_conv studio_inv_def by metis
  show ?thesis
    using created(1) none
    by (intro inv_write_row [OF inv created(2), of "[]"])
      (auto simp: created(3,4) row_ok_def fresh_draft_def validate_version_iff duties_separate_def)
next
  case (edited v now q)
  let ?v = "v\<lparr>ev_definition := edit_updates q (ev_definition v), ev_updated_at := now\<rparr>"
  note r = inv_row [OF inv edited(1)]
  have d: "decisions_for i w' = decisions_for i w" for i using edited(4) by (simp add: decisions_for_def)
  have "duties_separate ?v w'" by (rule duties_mono [OF r(3)]) (simp_all add: d edited(5))
  then show ?thesis
    using r(2,4) by (intro inv_write_row [OF inv edited(3), of "[]"]) (simp_all add: edited(4,5) d row_ok_def edit_updates_def)
next
  case (moves v target u C reason dir now)
  note r = inv_row [OF inv moves(1)]
  let ?d = "decision_of v target (u_username u) reason now"
  obtain ev where t: "sd_versions w' = tbl_upsert ev_version_id (moved v target now) (sd_versions w)"
    "sd_approvals w' = sd_approvals w @ [?d]" "ap_audit w' = ap_audit w @ [ev]"
    and ev: "Some (av_action ev) = transition_audit_action target" "av_target_id ev = Some (ev_version_id v)"
      "av_actor_username ev = Some (u_username u)" "av_actor_role ev = Some (role_value (u_role u))"
    using moves(5) by (auto simp: transition_done_def)
  have d: "decisions_for (ev_version_id v) w' = decisions_for (ev_version_id v) w @ [?d]"
    using t(2) by (simp add: decisions_for_def decision_of_def)
  have audited: "admin_approval_audited x (ap_audit w) \<Longrightarrow> admin_approval_audited x (ap_audit w')" for x
    by (auto simp: admin_approval_audited_def t(3))
  have "target = EV_APPROVED \<Longrightarrow> u_username u = ev_created_by v \<Longrightarrow> admin_approval_audited ?d (ap_audit w')"
    using moves(4) ev by (auto simp: self_approval_def admin_approval_audited_def t(3) decision_of_def)
  then have "duties_separate (moved v target now) w'"
    using r(3) audited by (auto simp: duties_separate_def moved_def d decision_of_def)
  moreover have "decision_path EV_DRAFT (decisions_for (ev_version_id v) w') = Some target"
    using decision_path_append [OF r(4), of ?d] moves(2) by (simp add: d decision_of_def)
  ultimately show ?thesis
    using r(2)
    by (intro inv_write_row [OF inv t(1,2)])
      (auto simp: t(3) decision_of_def moved_def row_ok_def expected_approval_status_def)
qed

interpretation studio: op_system "studio_step S" studio_inv
  by unfold_locales (rule effect_inv [OF studio_step_effect])

lemma empty_studio_inv: "sd_versions w = [] \<Longrightarrow> sd_approvals w = [] \<Longrightarrow> studio_inv w"
  by (simp add: studio_inv_def tbl_ok_def)

section \<open>An example\<close>

definition demo_version :: "experiment_version_status \<Rightarrow> experiment_version" where
  "demo_version s =
     \<lparr>ev_version_id = ''ZC-VPN-EXP-001@v1'', ev_experiment_id = ''ZC-VPN-EXP-001'', ev_version_number = 1, ev_status = s,
      ev_domain_pack_id = ''vpn'', ev_template_id = ''vpn_schema_canonicalisation'', ev_template_version = ''1.0.0'',
      ev_definition = demo_experiment (expected_approval_status s), ev_dataset_provenance = None,
      ev_created_by = ''alice'', ev_created_at = 0, ev_updated_at = 0\<rparr>"

definition demo_reviewer :: user_with_credentials where
  "demo_reviewer = \<lparr>u_user_id = ''USER-2'', u_username = ''bob'', u_role = REVIEWER, u_active = True, u_created_at = 0,
     u_updated_at = 0, u_password_hash = ''secret'', u_failed_login_attempts = 0, u_locked_until = None\<rparr>"

definition demo_step :: "experiment_version_status \<Rightarrow> experiment_version_status \<Rightarrow> string \<Rightarrow> approval_decision" where
  "demo_step a b n = \<lparr>ad_version_id = ''ZC-VPN-EXP-001@v1'', ad_from_status = a, ad_to_status = b, ad_actor = n, ad_reason = None,
     ad_decided_at = 0\<rparr>"

definition demo_studio :: studio_state where
  "demo_studio =
     \<lparr>ap_clock_reads = 0, ap_uuid_reads = 0, ap_token_reads = 0, ap_audit = [], au_users = [demo_reviewer],
      au_sessions = [\<lparr>se_session_id = hash_session_token ''tok'', se_user_id = ''USER-2'', se_created_at = 0,
        se_expires_at = 1000, se_last_used_at = 0, se_ip_address = None, se_user_agent = None\<rparr>],
      sd_versions = [demo_version EV_UNDER_REVIEW],
      sd_approvals = [demo_step EV_DRAFT EV_READY_FOR_REVIEW ''alice'', demo_step EV_READY_FOR_REVIEW EV_UNDER_REVIEW ''bob''],
      sd_files = []\<rparr>"

definition demo_gen_env :: generator_env where
  "demo_gen_env = \<lparr>ge_rng = (\<lambda>_. demo_rng), ge_test_set_json = (\<lambda>_. PNone), ge_test_set_text = (\<lambda>_. []), ge_config_json = (\<lambda>_. PNone)\<rparr>"

definition demo_studio_env :: studio_env where
  "demo_studio_env = \<lparr>st_app = demo_app_env, st_gen = demo_gen_env, st_templates = builtin_templates,
     st_parse = (\<lambda>_ _. Inr (VPNConfig vpn_default_config)), st_codec = demo_codec, st_experiments_dir = PyPath [] [''experiments'']\<rparr>"

definition demo_approve :: studio_op where
  "demo_approve = OpApprove (Some ''tok'') ''ZC-VPN-EXP-001@v1'' None None"

lemma demo_version_id: "version_id_of ''ZC-VPN-EXP-001'' 1 = ''ZC-VPN-EXP-001@v1''"
  by code_simp

lemma demo_studio_inv: "studio_inv demo_studio"
  by (simp add: studio_inv_def demo_studio_def tbl_ok_def row_ok_def duties_separate_def decisions_for_def demo_step_def
      demo_version_def demo_version_id demo_experiment_def expected_approval_status_def)

lemma demo_experiment_valid: "validate_definition (demo_experiment st) = Inr (demo_experiment st)"
    "mapS validate_cve_reference (ed_related_cves (demo_experiment st)) = Inr [demo_cve]"
  by (simp_all add: validate_definition_def definition_fields_ok_def demo_experiment_def demo_cve_def validate_cve_reference_def
      raise_if_def ne_def is_experiment_id_def experiment_id_domain_def strip_prefix_def digits_between_def is_digit_def
      is_strategy_id_def is_alpha_def lower_char_def is_unsafe_relative_path_def path_str_def drive_letter_match_def
      is_cve_id_def opt_between_def)

lemma demo_version_valid: "version_from_orm (demo_version s) = Inr (demo_version s)"
  using demo_ids(3) demo_experiment_valid
  by (simp add: version_from_orm_def demo_version_def validate_version_iff ne_def) (simp add: demo_experiment_def)

lemma demo_session:
  "require_role demo_app_env [REVIEWER, ADMIN] (Some ''tok'') demo_studio =
      (Inr (user.truncate demo_reviewer), snd (require_role demo_app_env [REVIEWER, ADMIN] (Some ''tok'') demo_studio))"
  by (simp add: require_role_def get_current_user_def get_user_for_session_def get_session_with_user_def app_m_defs
      demo_studio_def demo_reviewer_def tbl_get_Cons user_from_orm_def user.truncate_def raise_if_def touch_session_def
      demo_app_env_def)

lemma demo_version_sel:
  "ev_version_id (demo_version s) = ''ZC-VPN-EXP-001@v1''" "ev_status (demo_version s) = s" "ev_created_by (demo_version s) = ''alice''"
  "ev_experiment_id (demo_version s) = ''ZC-VPN-EXP-001''"
  by (simp_all add: demo_version_def)

lemma demo_approved:
  "\<exists>now. moved (demo_version EV_UNDER_REVIEW) EV_APPROVED now \<in> set (sd_versions (studio_step demo_studio_env demo_approve demo_studio))"
proof -
  obtain w1 where rr: "require_role demo_app_env [REVIEWER, ADMIN] (Some ''tok'') demo_studio = (Inr (user.truncate demo_reviewer), w1)"
    using demo_session by blast
  have w1: "sd_versions w1 = [demo_version EV_UNDER_REVIEW]"
    using abidesD [OF same_require_role rr] by (simp add: studio_same_def demo_studio_def)
  have row: "get_version ''ZC-VPN-EXP-001@v1'' w1 = (Inr (Some (demo_version EV_UNDER_REVIEW)), w1)"
    by (simp add: get_version_eq w1 tbl_get_Cons demo_version_sel demo_version_valid)
  have u: "u_username (user.truncate demo_reviewer) = ''bob''" by (simp add: demo_reviewer_def user.truncate_def)
  obtain w' now where "do_transition demo_app_env demo_codec ''ZC-VPN-EXP-001@v1'' EV_APPROVED None (Some (PyPath [] [''experiments'']))
      (user.truncate demo_reviewer) None w1 = (Inr (moved (demo_version EV_UNDER_REVIEW) EV_APPROVED now), w')"
    "transition_done demo_codec ''ZC-VPN-EXP-001@v1'' EV_APPROVED None (Some (PyPath [] [''experiments''])) (user.truncate demo_reviewer)
       (demo_version EV_UNDER_REVIEW) now w1 w'"
    using do_transition_eq [OF _ row, of EV_APPROVED _ demo_app_env demo_codec None "Some (PyPath [] [''experiments''])"
        "user.truncate demo_reviewer" None]
    by (auto simp: self_approval_def demo_version_sel u)
  moreover from this rr have "studio_step demo_studio_env demo_approve demo_studio = w'"
    by (simp add: demo_approve_def demo_studio_env_def approve_handler_def bindE_def)
  moreover have "tbl_ok ev_version_id (sd_versions w1)" by (simp add: w1 tbl_ok_def)
  ultimately show ?thesis by (auto simp: transition_done_def set_upsert)
qed

section \<open>What holds after any history\<close>

text \<open>What the invariant says of a version.\<close>

lemma version_governed:
  assumes "studio_inv w" and "v \<in> set (sd_versions w)"
  shows "decision_path EV_DRAFT (decisions_for (ev_version_id v) w) = Some (ev_status v)
    \<and> tbl_get ev_version_id (version_id_of (ev_experiment_id v) (ev_version_number v)) (sd_versions w) = Some v
    \<and> (\<exists>d. evaluate (ev_definition v) EXPERIMENT_RUN now = Inr d \<and> (pd_allowed d \<longleftrightarrow> ev_status v = EV_APPROVED))"
proof -
  have r: "row_ok v" using assms by (simp add: studio_inv_def)
  obtain d where "evaluate (ev_definition v) EXPERIMENT_RUN now = Inr d" "pd_allowed d = safe_to_run (ev_definition v) EXPERIMENT_RUN"
    using evaluate_total by blast
  moreover have "safe_to_run (ev_definition v) EXPERIMENT_RUN \<longleftrightarrow> ev_status v = EV_APPROVED"
    using r by (simp add: safe_to_run_def row_ok_def expected_approval_status_def)
  moreover have "tbl_get ev_version_id (ev_version_id v) (sd_versions w) = Some v"
    using assms by (intro tbl_get_in) (simp_all add: studio_inv_def)
  moreover have "decision_path EV_DRAFT (decisions_for (ev_version_id v) w) = Some (ev_status v)"
    using assms by (simp add: studio_inv_def)
  moreover have "version_id_of (ev_experiment_id v) (ev_version_number v) = ev_version_id v" using r by (simp add: row_ok_def)
  ultimately show ?thesis by simp
qed

lemma approval_in_path:
  "decision_path s ds = Some t \<Longrightarrow> s \<notin> {EV_APPROVED, EV_RETIRED} \<Longrightarrow> t \<in> {EV_APPROVED, EV_RETIRED}
     \<Longrightarrow> \<exists>d \<in> set ds. ad_from_status d = EV_UNDER_REVIEW \<and> ad_to_status d = EV_APPROVED"
proof (induction ds arbitrary: s)
  case (Cons d ds)
  then show ?case by (cases s; cases "ad_to_status d") (auto split: if_splits)
qed simp

lemma approved_by_another:
  assumes "studio_inv w" and "v \<in> set (sd_versions w)" and "ev_status v \<in> {EV_APPROVED, EV_RETIRED}"
  shows "\<exists>d \<in> set (decisions_for (ev_version_id v) w). ad_from_status d = EV_UNDER_REVIEW \<and> ad_to_status d = EV_APPROVED
    \<and> (ad_actor d \<noteq> ev_created_by v \<or> admin_approval_audited d (ap_audit w))"
proof -
  have "decision_path EV_DRAFT (decisions_for (ev_version_id v) w) = Some (ev_status v)" "duties_separate v w"
    using assms(1,2) by (simp_all add: studio_inv_def)
  with approval_in_path [OF this(1)] assms(3) show ?thesis by (auto simp: duties_separate_def)
qed

text \<open>
  The approval state machine. From any well-formed studio (an empty one is), after any sequence of
  requests by anyone - logins, logouts, changes of users and roles, creations, edits, reviews, approvals,
  rejections, retirements, allowed or refused - the recorded decisions of every version, read in order, are
  allowed transitions that lead from draft to its present status, its identifier names exactly it, and the
  safety policy lets its definition run exactly when that status is approved.
\<close>

lemma studio_lifecycle:
  assumes "studio_inv w" and "v \<in> set (sd_versions (fold (studio_step S) ops w))"
  shows "decision_path EV_DRAFT (decisions_for (ev_version_id v) (fold (studio_step S) ops w)) = Some (ev_status v)
    \<and> tbl_get ev_version_id (version_id_of (ev_experiment_id v) (ev_version_number v))
        (sd_versions (fold (studio_step S) ops w)) = Some v
    \<and> (\<exists>d. evaluate (ev_definition v) EXPERIMENT_RUN now = Inr d \<and> (pd_allowed d \<longleftrightarrow> ev_status v = EV_APPROVED))"
  by (rule version_governed [OF studio.run_inv [OF assms(1)] assms(2)])

lemma studio_lifecycle_example:
  "\<exists>v d. ev_status v = EV_APPROVED \<and> evaluate (ev_definition v) EXPERIMENT_RUN 0 = Inr d \<and> pd_allowed d
     \<and> v \<in> set (sd_versions (studio_step demo_studio_env demo_approve demo_studio))"
proof -
  obtain now where v: "moved (demo_version EV_UNDER_REVIEW) EV_APPROVED now \<in> set (sd_versions (studio_step demo_studio_env demo_approve demo_studio))"
    using demo_approved by blast
  have "fold (studio_step demo_studio_env) [demo_approve] demo_studio = studio_step demo_studio_env demo_approve demo_studio" by simp
  moreover have "ev_status (moved (demo_version EV_UNDER_REVIEW) EV_APPROVED now) = EV_APPROVED" by (simp add: moved_def)
  ultimately show ?thesis
    using studio_lifecycle [OF demo_studio_inv, of _ demo_studio_env "[demo_approve]" 0] v by metis
qed

text \<open>
  Separation of duties. After any history, every version that is approved, or was approved and is
  retired, has a decision from under review to approved whose actor did not create the version, unless the
  audit trail has an approval of that version by that actor acting as an administrator.
\<close>

lemma separation_of_duties:
  assumes "studio_inv w" and "v \<in> set (sd_versions (fold (studio_step S) ops w))" and "ev_status v \<in> {EV_APPROVED, EV_RETIRED}"
  shows "\<exists>d \<in> set (decisions_for (ev_version_id v) (fold (studio_step S) ops w)).
    ad_from_status d = EV_UNDER_REVIEW \<and> ad_to_status d = EV_APPROVED
    \<and> (ad_actor d \<noteq> ev_created_by v \<or> admin_approval_audited d (ap_audit (fold (studio_step S) ops w)))"
  by (rule approved_by_another [OF studio.run_inv [OF assms(1)] assms(2,3)])

lemma separation_of_duties_example:
  "\<exists>d \<in> set (decisions_for ''ZC-VPN-EXP-001@v1'' (studio_step demo_studio_env demo_approve demo_studio)).
     ad_from_status d = EV_UNDER_REVIEW \<and> ad_to_status d = EV_APPROVED"
proof -
  obtain now where v: "moved (demo_version EV_UNDER_REVIEW) EV_APPROVED now \<in> set (sd_versions (studio_step demo_studio_env demo_approve demo_studio))"
    using demo_approved by blast
  have "fold (studio_step demo_studio_env) [demo_approve] demo_studio = studio_step demo_studio_env demo_approve demo_studio" by simp
  from separation_of_duties [OF demo_studio_inv, of _ demo_studio_env "[demo_approve]", unfolded this, OF v]
  show ?thesis by (auto simp: moved_def demo_version_sel)
qed

text \<open>What of a version may no longer change: everything but its status, the approval field that follows it, and the time of the last change.\<close>

definition frozen :: "experiment_version \<Rightarrow> experiment_version" where
  "frozen v = v\<lparr>ev_status := EV_DRAFT, ev_updated_at := 0, ev_definition := (ev_definition v)\<lparr>ed_approval_status := AS_DRAFT\<rparr>\<rparr>"

definition keeps_frozen :: "experiment_version \<Rightarrow> 'z studio_state_scheme \<Rightarrow> bool" where
  "keeps_frozen v w \<longleftrightarrow> studio_inv w \<and> (\<exists>v'. tbl_get ev_version_id (ev_version_id v) (sd_versions w) = Some v'
     \<and> frozen v' = frozen v \<and> ev_status v' \<noteq> EV_DRAFT)"

lemma effect_frozen:
  assumes "studio_effect w w'" and "keeps_frozen v w"
  shows "keeps_frozen v w'"
proof -
  have inv: "studio_inv w" "studio_inv w'" using assms effect_inv by (auto simp: keeps_frozen_def)
  obtain v0 where v0: "tbl_get ev_version_id (ev_version_id v) (sd_versions w) = Some v0" "frozen v0 = frozen v" "ev_status v0 \<noteq> EV_DRAFT"
    using assms(2) by (auto simp: keeps_frozen_def)
  have "\<exists>v'. tbl_get ev_version_id (ev_version_id v) (sd_versions w') = Some v' \<and> frozen v' = frozen v \<and> ev_status v' \<noteq> EV_DRAFT"
    using assms(1)
  proof cases
    case quiet
    then show ?thesis using v0 by simp
  next
    case (created u x)
    have "ev_version_id v \<noteq> ev_version_id x"
    proof
      assume e: "ev_version_id v = ev_version_id x"
      have m: "v0 \<in> set (sd_versions w)" "ev_version_id v0 = ev_version_id x" using tbl_get_SomeD [OF v0(1)] e by auto
      have "row_ok v0" using inv(1) m(1) by (simp add: studio_inv_def)
      then have "ev_experiment_id v0 = ev_experiment_id x \<and> ev_version_number v0 = ev_version_number x"
        using m(2) created(1) by (intro version_id_of_inj) (simp add: row_ok_def fresh_draft_def)
      then show False using created(1) m(1) by (auto simp: fresh_draft_def)
    qed
    then show ?thesis using v0 created(2) by (simp add: tbl_get_upsert)
  next
    case (edited x now q)
    then have "ev_version_id v \<noteq> ev_version_id x" using v0 by auto
    then show ?thesis using v0 edited(3) by (simp add: tbl_get_upsert)
  next
    case (moves x target u C reason dir now)
    have "sd_versions w' = tbl_upsert ev_version_id (moved x target now) (sd_versions w)" using moves(5) by (simp add: transition_done_def)
    moreover have "ev_version_id v = ev_version_id x \<Longrightarrow> v0 = x" using v0(1) moves(1) by simp
    moreover have "frozen (moved x target now) = frozen x" "ev_status (moved x target now) = target" "ev_version_id (moved x target now) = ev_version_id x"
      by (simp_all add: frozen_def moved_def)
    ultimately show ?thesis using v0 moves(3) by (auto simp: tbl_get_upsert)
  qed
  then show ?thesis using inv(2) by (simp add: keeps_frozen_def)
qed

interpretation freezing: op_system "studio_step S" "keeps_frozen v"
  by unfold_locales (rule effect_frozen [OF studio_step_effect])

text \<open>
  Content is immutable once submitted. A version that has left draft stays in the table for ever, never
  becomes a draft again, and no request changes anything of it but its status, the approval field that
  follows the status, and the time of its last change: not its author, not its definition, not its dataset.
\<close>

lemma submitted_content_immutable:
  assumes "studio_inv w" and "tbl_get ev_version_id i (sd_versions w) = Some v" and "ev_status v \<noteq> EV_DRAFT"
  shows "\<exists>v'. tbl_get ev_version_id i (sd_versions (fold (studio_step S) ops w)) = Some v'
    \<and> frozen v' = frozen v \<and> ev_status v' \<noteq> EV_DRAFT"
proof -
  have i: "ev_version_id v = i" using assms(2) by (auto dest: tbl_get_SomeD)
  have "keeps_frozen v w" using assms i by (simp add: keeps_frozen_def)
  then have "keeps_frozen v (fold (studio_step S) ops w)" by (rule freezing.run_inv)
  then show ?thesis by (simp add: keeps_frozen_def i)
qed

lemma submitted_content_immutable_example:
  "\<exists>v'. tbl_get ev_version_id ''ZC-VPN-EXP-001@v1'' (sd_versions (studio_step demo_studio_env demo_approve demo_studio)) = Some v'
     \<and> frozen v' = frozen (demo_version EV_UNDER_REVIEW)"
  using submitted_content_immutable [OF demo_studio_inv, of "''ZC-VPN-EXP-001@v1''" "demo_version EV_UNDER_REVIEW" demo_studio_env "[demo_approve]"]
  by (auto simp: demo_studio_def tbl_get_Cons demo_version_sel)

section \<open>Single requests\<close>

text \<open>The user that a session token stands for now.\<close>

definition session_user :: "app_env \<Rightarrow> string option \<Rightarrow> 'z auth_state_scheme \<Rightarrow> user option" where
  "session_user E tok w =
     (case tok of None \<Rightarrow> None | Some t \<Rightarrow>
       case tbl_get se_session_id (hash_session_token t) (au_sessions w) of None \<Rightarrow> None | Some s \<Rightarrow>
         case tbl_get u_user_id (se_user_id s) (au_users w) of None \<Rightarrow> None | Some r \<Rightarrow>
           if u_active r \<and> ae_clock E (ap_clock_reads w) < se_expires_at s then Some (user.truncate r) else None)"

fun required_roles :: "studio_op \<Rightarrow> (string option \<times> role list) option" where
  "required_roles (OpCreate tok q cfg rq) = Some (tok, [RESEARCHER, ADMIN])"
| "required_roles (OpEdit tok vid q rq) = Some (tok, [RESEARCHER, ADMIN])"
| "required_roles (OpSubmit tok vid reason rq) = Some (tok, [RESEARCHER, ADMIN])"
| "required_roles (OpStartReview tok vid reason rq) = Some (tok, [REVIEWER, ADMIN])"
| "required_roles (OpApprove tok vid reason rq) = Some (tok, [REVIEWER, ADMIN])"
| "required_roles (OpReject tok vid reason rq) = Some (tok, [REVIEWER, ADMIN])"
| "required_roles (OpRetire tok vid reason rq) = Some (tok, [REVIEWER, ADMIN])"
| "required_roles _ = None"

lemma require_role_denied:
  assumes "\<forall>u. session_user E tok w = Some u \<longrightarrow> u_role u \<notin> set rs"
  shows "\<exists>e. fst (require_role E rs tok w) = Inl e"
proof (cases "require_role E rs tok w")
  case (Pair r w')
  show ?thesis
  proof (cases r)
    case (Inr u)
    with Pair require_role_Inr [of E rs tok w u w'] assms show ?thesis by (auto simp: session_user_def)
  qed (simp add: Pair)
qed

lemma bind_denied: "fst (m w) = Inl e \<Longrightarrow> bindE m f w = (Inl e, snd (m w))"
  by (cases "m w") (simp add: bindE_def)

text \<open>
  Role-based access is enforced by the back end. A request to create, edit, submit, review, approve,
  reject or retire that comes without the session of an active user of one of the roles the route names
  changes no version, no decision, no file and nothing of the audit trail.
\<close>

lemma rbac_enforced:
  assumes "required_roles op = Some (tok, rs)" and "\<forall>u. session_user (st_app S) tok w = Some u \<longrightarrow> u_role u \<notin> set rs"
  shows "studio_same w (studio_step S op w)"
proof -
  let ?m = "require_role (st_app S) rs tok"
  obtain e where e: "fst (?m w) = Inl e" using require_role_denied [OF assms(2)] by blast
  have "studio_same w (snd (?m w))" using same_require_role by (metis abides_def)
  then show ?thesis
    using assms(1) e
    by (cases op) (auto simp: create_handler_def edit_handler_def submit_review_handler_def start_review_handler_def
        approve_handler_def reject_handler_def retire_handler_def bind_denied)
qed

lemma rbac_enforced_example:
  "studio_same demo_studio (studio_step demo_studio_env (OpEdit (Some ''tok'') ''ZC-VPN-EXP-001@v1''
     \<lparr>eq_title = Some ''x'', eq_description = None, eq_research_question = None, eq_hypothesis = None\<rparr> None) demo_studio)"
  by (rule rbac_enforced [of _ "Some ''tok''" "[RESEARCHER, ADMIN]"])
    (auto simp: session_user_def demo_studio_def demo_reviewer_def tbl_get_Cons user.truncate_def split: if_splits)

text \<open>
  What a transition request does to a version that is there, on every branch: an approval by the
  version's own author who is no administrator is refused with 403, changes nothing and is audited; a
  transition that the state machine does not have is refused with 409 and changes nothing at all; any other
  moves the version, keeps the approval field in step, appends one decision and one audit event naming the
  actor, and an approval writes the approved definition to the directory of runnable experiments.
\<close>

lemma transition_branches:
  assumes "transition_audit_action target = Some act" and "tbl_get ev_version_id vid (sd_versions w) = Some v"
    and "version_from_orm v = Inr v" and "u_username u \<noteq> []"
  shows "case do_transition E C vid target reason dir u rq w of (r, w') \<Rightarrow>
    if target = EV_APPROVED \<and> u_username u = ev_created_by v \<and> u_role u \<noteq> ADMIN
    then r = Inl (http_error 403 ''self_approval_forbidden'') \<and> sd_versions w' = sd_versions w
      \<and> sd_approvals w' = sd_approvals w \<and> sd_files w' = sd_files w
      \<and> (\<exists>ev. ap_audit w' = ap_audit w @ [ev] \<and> av_action ev = EXPERIMENT_VERSION_SELF_APPROVAL_BLOCKED
            \<and> av_actor_username ev = Some (u_username u) \<and> av_target_id ev = Some vid)
    else if target \<notin> set (allowed_transitions (ev_status v)) then r = Inl (http_error 409 ''invalid_transition'') \<and> w' = w
    else (\<exists>now. r = Inr (moved v target now) \<and> transition_done C vid target reason dir u v now w w')"
proof -
  have row: "get_version vid w = (Inr (Some v), w)" using assms(2,3) by (simp add: get_version_eq)
  have "ev_version_id v \<noteq> []" using version_from_orm_Inr [OF assms(3)] by (simp add: validate_version_iff ne_def)
  then show ?thesis
    using do_transition_eq [OF assms(1) row, of E C reason dir u rq] assms(4) by (auto simp: self_approval_def)
qed

lemma transition_branches_example:
  "\<exists>w' :: studio_state. do_transition demo_app_env demo_codec ''ZC-VPN-EXP-001@v1'' EV_RETIRED None None (user.truncate demo_reviewer) None demo_studio
     = (Inl (http_error 409 ''invalid_transition''), w') \<and> w' = demo_studio"
  using transition_branches [where target = EV_RETIRED and vid = "''ZC-VPN-EXP-001@v1''" and w = demo_studio
      and v = "demo_version EV_UNDER_REVIEW" and u = "user.truncate demo_reviewer"
      and E = demo_app_env and C = demo_codec and reason = None and dir = None and rq = None] demo_version_valid
  by (auto simp: demo_studio_def tbl_get_Cons demo_version_sel demo_reviewer_def user.truncate_def split: prod.splits)

lemma mapS_Inr_mem: "mapS f xs = Inr ys \<Longrightarrow> x \<in> set xs \<Longrightarrow> \<exists>y. f x = Inr y"
  by (induction xs arbitrary: ys) (auto simp: res_simps)

lemma invalid_row_unreadable:
  assumes "v \<in> set (sd_versions w)" and "tbl_get ev_version_id (ev_version_id v) (sd_versions w) = Some v" and "version_from_orm v = Inl e"
  shows "get_version (ev_version_id v) w = (Inl e, w)"
    and "\<exists>e'. fst (latest_version_number (ev_experiment_id v) w) = Inl e'"
proof -
  show "get_version (ev_version_id v) w = (Inl e, w)" using assms(2,3) by (simp add: get_version_eq)
  show "\<exists>e'. fst (latest_version_number (ev_experiment_id v) w) = Inl e'"
  proof (rule ccontr)
    let ?rows = "sorted_by (\<lambda>v. (ev_experiment_id v, ev_version_number v)) (filter (\<lambda>x. ev_experiment_id x = ev_experiment_id v) (sd_versions w))"
    assume "\<not> ?thesis"
    then obtain vs where "mapS version_from_orm ?rows = Inr vs"
      by (auto simp: latest_version_number_def list_versions_def app_m_defs split: sum.splits)
    moreover have "v \<in> set ?rows" using assms(1) by simp
    ultimately show False using mapS_Inr_mem [of version_from_orm ?rows vs v] assms(3) by simp
  qed
qed

lemma edit_unreadable:
  assumes "tbl_get ev_version_id vid (sd_versions w) = Some v" and "version_from_orm v = Inl e"
  shows "\<exists>e'. fst (edit_handler E tok vid q rq w) = Inl e'"
proof (cases "require_role E [RESEARCHER, ADMIN] tok w")
  case (Pair r w1)
  have "sd_versions w1 = sd_versions w" using abidesD [OF same_require_role Pair] by (simp add: studio_same_def)
  then have "get_version vid w1 = (Inl e, w1)" using assms by (simp add: get_version_eq)
  then show ?thesis using Pair by (cases r) (simp_all add: edit_handler_def bindE_def version_or_404_def)
qed

text \<open>
  An edit is not validated, and an edit to an empty title makes the version unusable: the request
  succeeds, and from then on the row cannot be read back (the record fails its own validation), so no later
  edit can repair it and no further version of the experiment can be numbered, hence created.
\<close>

lemma edit_empty_title_bricks:
  fixes w :: "'z studio_state_scheme"
  assumes "tbl_ok ev_version_id (sd_versions w)" and "edit_handler E tok vid q rq w = (Inr v, w')" and "eq_title q = Some []"
  shows "(\<exists>e. get_version vid w' = (Inl e, w')) \<and> (\<exists>e. fst (latest_version_number (ev_experiment_id v) w') = Inl e)
    \<and> (\<forall>E' tok' q' rq'. \<exists>e. fst (edit_handler E' tok' vid q' rq' w') = Inl e)"
proof -
  obtain v0 now where v0: "tbl_get ev_version_id vid (sd_versions w) = Some v0"
    and v: "v = v0\<lparr>ev_definition := edit_updates q (ev_definition v0), ev_updated_at := now\<rparr>"
    and w': "sd_versions w' = tbl_upsert ev_version_id v (sd_versions w)"
    using edit_handler_outcome [OF assms(2)] by auto
  have id: "ev_version_id v = vid" using tbl_get_SomeD [OF v0] by (simp add: v)
  have "ed_title (ev_definition v) = []" using assms(3) by (simp add: v edit_updates_def)
  then have bad: "\<exists>e. version_from_orm v = Inl e"
    by (cases "mapS validate_cve_reference (ed_related_cves (ev_definition v))")
      (auto simp: version_from_orm_def validate_definition_def definition_fields_ok_def ne_def)
  have g: "tbl_get ev_version_id vid (sd_versions w') = Some v" by (simp add: w' tbl_get_upsert id)
  have m: "v \<in> set (sd_versions w')" using tbl_get_SomeD [OF g] by simp
  from bad obtain e where e: "version_from_orm v = Inl e" by blast
  show ?thesis
    using invalid_row_unreadable [OF m _ e] edit_unreadable [OF g e] g id by auto
qed

definition demo_admin :: user_with_credentials where
  "demo_admin = demo_reviewer\<lparr>u_role := ADMIN\<rparr>"

definition demo_studio_draft :: studio_state where
  "demo_studio_draft = demo_studio\<lparr>au_users := [demo_admin], sd_versions := [demo_version EV_DRAFT], sd_approvals := []\<rparr>"

definition demo_empty_title :: edit_request where
  "demo_empty_title = \<lparr>eq_title = Some [], eq_description = None, eq_research_question = None, eq_hypothesis = None\<rparr>"

lemma demo_edit: "\<exists>v w'. edit_handler demo_app_env (Some ''tok'') ''ZC-VPN-EXP-001@v1'' demo_empty_title None demo_studio_draft = (Inr v, w')"
proof -
  obtain w1 where rr: "require_role demo_app_env [RESEARCHER, ADMIN] (Some ''tok'') demo_studio_draft = (Inr (user.truncate demo_admin), w1)"
    by (simp add: require_role_def get_current_user_def get_user_for_session_def get_session_with_user_def app_m_defs
        demo_studio_draft_def demo_studio_def demo_admin_def demo_reviewer_def tbl_get_Cons user_from_orm_def user.truncate_def
        raise_if_def touch_session_def demo_app_env_def)
  have w1: "sd_versions w1 = [demo_version EV_DRAFT]"
    using abidesD [OF same_require_role rr] by (simp add: studio_same_def demo_studio_draft_def)
  show ?thesis
    by (simp add: edit_handler_def bindE_def rr version_or_404_def get_version_eq w1 tbl_get_Cons demo_version_sel
        demo_version_valid returnE_def catchE_def edit_draft_def utc_now_def save_version_def modifyE_def
        audit_version_def audit_record_eq Let_def)
qed

lemma edit_empty_title_bricks_example:
  "\<exists>v w'. edit_handler demo_app_env (Some ''tok'') ''ZC-VPN-EXP-001@v1'' demo_empty_title None demo_studio_draft = (Inr v, w')
     \<and> (\<exists>e. get_version ''ZC-VPN-EXP-001@v1'' w' = (Inl e, w'))"
proof -
  obtain v w' where e: "edit_handler demo_app_env (Some ''tok'') ''ZC-VPN-EXP-001@v1'' demo_empty_title None demo_studio_draft = (Inr v, w')"
    using demo_edit by blast
  have "tbl_ok ev_version_id (sd_versions demo_studio_draft)" by (simp add: demo_studio_draft_def tbl_ok_def)
  from edit_empty_title_bricks [OF this e] e show ?thesis by (auto simp: demo_empty_title_def)
qed

end
