(* ===== verification/Discovery.thy ===== *)
theory Discovery
  imports Studio_Lifecycle
begin

text \<open>
  Discovery of runnable experiments (\<open>experiments/discovery.py\<close>): every \<open>*.json\<close> file of the
  experiments directory that parses as a valid definition is an experiment, in the order of the file names;
  the API and the worker look experiments up by identifier this way. The JSON reader and the field parsing
  of pydantic are parameters; the constraints of \<open>ExperimentDefinition\<close> are checked by its validators.
  The last section composes discovery with Experiment Studio.
\<close>

record discovery_env =
  de_loads :: "string \<Rightarrow> string + pyval"
  de_build :: "pyval \<Rightarrow> exn + experiment_definition"
  de_error_text :: "exn \<Rightarrow> string"

record discovery_error =
  xe_path :: pypath
  xe_reason :: string

record discovery_result =
  xd_experiments :: "experiment_definition list"
  xd_skipped :: "discovery_error list"

text \<open>\<open>directory.glob("*.json")\<close>: the files directly in the directory; and the same sorted by name.\<close>

definition glob_json :: "pypath \<Rightarrow> file_tree \<Rightarrow> (pypath \<times> string) list" where
  "glob_json dir fs =
     filter (\<lambda>(p, _). path_root p = path_root dir \<and> path_parts p \<noteq> [] \<and> butlast (path_parts p) = path_parts dir
       \<and> suffix ''.json'' (last (path_parts p))) fs"

definition json_files :: "pypath \<Rightarrow> file_tree \<Rightarrow> (pypath \<times> string) list" where
  "json_files dir fs = sorted_by (\<lambda>(p, _). path_parts p) (glob_json dir fs)"

text \<open>\<open>ExperimentDefinition.model_validate\<close>.\<close>

definition definition_model_validate :: "discovery_env \<Rightarrow> pyval \<Rightarrow> exn + experiment_definition" where
  "definition_model_validate D raw =
     bindS (de_build D raw) (\<lambda>d.
     bindS (mapS validate_cve_reference (ed_related_cves d)) (\<lambda>_. validate_definition d))"

fun discover_files :: "discovery_env \<Rightarrow> (pypath \<times> string) list \<Rightarrow> experiment_definition list \<Rightarrow> discovery_error list
    \<Rightarrow> discovery_result" where
  "discover_files D [] experiments skipped = \<lparr>xd_experiments = experiments, xd_skipped = skipped\<rparr>"
| "discover_files D ((path, content) # rest) experiments skipped =
     (case de_loads D content of
        Inl exc \<Rightarrow> discover_files D rest experiments (skipped @ [\<lparr>xe_path = path, xe_reason = ''invalid JSON: '' @ exc\<rparr>])
      | Inr raw \<Rightarrow>
          (case definition_model_validate D raw of
             Inl exc \<Rightarrow> discover_files D rest experiments
               (skipped @ [\<lparr>xe_path = path, xe_reason = ''schema validation failed: '' @ de_error_text D exc\<rparr>])
           | Inr e \<Rightarrow> discover_files D rest (experiments @ [e]) skipped))"

definition discover_experiments :: "discovery_env \<Rightarrow> pypath \<Rightarrow> file_tree \<Rightarrow> discovery_result" where
  "discover_experiments D directory fs = discover_files D (json_files directory fs) [] []"

definition find_experiment :: "discovery_env \<Rightarrow> pypath \<Rightarrow> string \<Rightarrow> file_tree \<Rightarrow> experiment_definition option" where
  "find_experiment D directory experiment_id fs =
     find (\<lambda>candidate. ed_experiment_id candidate = experiment_id) (xd_experiments (discover_experiments D directory fs))"

section \<open>What discovery finds\<close>

definition file_experiment :: "discovery_env \<Rightarrow> string \<Rightarrow> experiment_definition option" where
  "file_experiment D content = (case de_loads D content of Inl _ \<Rightarrow> None
     | Inr raw \<Rightarrow> (case definition_model_validate D raw of Inl _ \<Rightarrow> None | Inr e \<Rightarrow> Some e))"

lemma discover_files_experiments:
  "xd_experiments (discover_files D files es sk) = es @ List.map_filter (\<lambda>(_, c). file_experiment D c) files"
  by (induction D files es sk rule: discover_files.induct)
    (auto simp: file_experiment_def List.map_filter_simps split: sum.splits)

lemma discover_files_accounted:
  "length (xd_experiments (discover_files D files es sk)) + length (xd_skipped (discover_files D files es sk))
     = length files + length es + length sk"
  by (induction D files es sk rule: discover_files.induct) (auto split: sum.splits)

lemma definition_model_validate_Inr: "definition_model_validate D raw = Inr e \<Longrightarrow> validate_definition e = Inr e"
  by (auto simp: definition_model_validate_def res_simps) (metis validate_definition_id)

lemma discovered_valid: "e \<in> set (xd_experiments (discover_experiments D dir fs)) \<Longrightarrow> validate_definition e = Inr e"
  by (auto simp: discover_experiments_def discover_files_experiments file_experiment_def map_filter_def
      dest!: definition_model_validate_Inr split: sum.splits)

lemma find_discovered:
  assumes "find_experiment D dir i fs = Some e"
  shows "ed_experiment_id e = i \<and> validate_definition e = Inr e"
  using find_eq_Some_D [OF assms [unfolded find_experiment_def]] discovered_valid by blast

section \<open>Discovery and Experiment Studio\<close>

lemma find_unique:
  assumes "x \<in> set xs" and "P x" and "\<And>y. y \<in> set xs \<Longrightarrow> P y \<Longrightarrow> y = x"
  shows "find P xs = Some x"
proof (cases "find P xs")
  case None
  then show ?thesis using assms(1,2) unfolding find_eq_None by blast
next
  case (Some y)
  then show ?thesis using assms(3) find_eq_Some_D [OF Some] by blast
qed

lemma mem_upsert:
  assumes "x \<in> set (tbl_upsert key r t)"
  shows "x = r \<or> (x \<in> set t \<and> key x \<noteq> key r)"
proof (cases "tbl_get key (key r) t")
  case None
  then have "key r \<notin> key ` set t" by (simp add: tbl_get_None)
  then have "x \<in> set t \<Longrightarrow> key x \<noteq> key r" by (metis imageI)
  then show ?thesis using assms None by (auto simp: tbl_upsert_def)
qed (use assms in \<open>auto simp: tbl_upsert_def tbl_modify_def split: if_splits\<close>)

lemma upsert_mem: "r \<in> set (tbl_upsert key r t)"
  using tbl_get_SomeD [of key "key r" "tbl_upsert key r t" r] by (simp add: tbl_get_upsert)

text \<open>No file of the directory but \<open>path\<close> declares the experiment.\<close>

definition only_file :: "discovery_env \<Rightarrow> pypath \<Rightarrow> string \<Rightarrow> pypath \<Rightarrow> file_tree \<Rightarrow> bool" where
  "only_file D dir i path fs \<longleftrightarrow> (\<forall>(p, c) \<in> set (json_files dir fs). p \<noteq> path \<longrightarrow>
     map_option ed_experiment_id (file_experiment D c) \<noteq> Some i)"

lemma find_written:
  assumes "is_experiment_id i" and "ed_experiment_id e = i" and "file_experiment D c = Some e"
    and "only_file D dir i (path_join dir (i @ ''.json'')) fs"
  shows "find_experiment D dir i (tbl_upsert fst (path_join dir (i @ ''.json''), c) fs) = Some e"
proof -
  let ?p = "path_join dir (i @ ''.json'')" and ?fs = "tbl_upsert fst (path_join dir (i @ ''.json''), c) fs"
  have "good_part (i @ ''.json'')" using experiment_id_good [OF assms(1)] by (auto simp: good_part_def)
  then have p: "?p = PyPath (path_root dir) (path_parts dir @ [i @ ''.json''])" by (rule path_join_good)
  have mem: "(?p, c) \<in> set (json_files dir ?fs)" using upsert_mem [of "(?p, c)" fst fs] by (auto simp: json_files_def glob_json_def p suffix_def)
  have other: "x = (?p, c) \<or> x \<in> set (json_files dir fs) \<and> fst x \<noteq> ?p" if "x \<in> set (json_files dir ?fs)" for x
    using that mem_upsert [of x fst "(?p, c)" fs] by (auto simp: json_files_def glob_json_def)
  show ?thesis unfolding find_experiment_def discover_experiments_def discover_files_experiments append_Nil
  proof (rule find_unique)
    show "e \<in> set (List.map_filter (\<lambda>(_, c). file_experiment D c) (json_files dir ?fs))"
      using mem assms(3) by (force simp: map_filter_def)
    show "y = e" if "y \<in> set (List.map_filter (\<lambda>(_, c). file_experiment D c) (json_files dir ?fs))" "ed_experiment_id y = i" for y
      using that other assms(3,4) by (fastforce simp: map_filter_def only_file_def)
  qed (rule assms(2))
qed

lemma approve_files:
  assumes "approve_handler E C dir tok vid reason rq w = (Inr va, w1)"
  shows "is_experiment_id (ev_experiment_id va) \<and> ed_experiment_id (ev_definition va) = ev_experiment_id va \<and> ev_status va = EV_APPROVED
    \<and> ed_approval_status (ev_definition va) = AS_APPROVED
    \<and> sd_files w1 = tbl_upsert fst (path_join dir (ev_experiment_id va @ ''.json''), cd_experiment_text C (ev_definition va)) (sd_files w)"
proof -
  obtain u w0 where rr: "require_role E [REVIEWER, ADMIN] tok w = (Inr u, w0)"
    and t: "do_transition E C vid EV_APPROVED reason (Some dir) u rq w0 = (Inr va, w1)"
    using assms unfolding approve_handler_def bindE_Inr by blast
  have "sd_files w0 = sd_files w" using abidesD [OF same_require_role rr] by (simp add: studio_same_def)
  then show ?thesis using do_transition_outcome [OF t, of EXPERIMENT_VERSION_APPROVED]
    by (auto simp: transition_done_def moved_def validate_version_iff)
qed

lemma retire_files:
  assumes "retire_handler E C tok vid reason rq w = (Inr vr, w')"
  shows "ev_status vr = EV_RETIRED \<and> sd_files w' = sd_files w \<and> tbl_get ev_version_id vid (sd_versions w') = Some vr"
proof -
  obtain u w0 where rr: "require_role E [REVIEWER, ADMIN] tok w = (Inr u, w0)"
    and t: "do_transition E C vid EV_RETIRED reason None u rq w0 = (Inr vr, w')"
    using assms unfolding retire_handler_def bindE_Inr by blast
  have "sd_files w0 = sd_files w" using abidesD [OF same_require_role rr] by (simp add: studio_same_def)
  then show ?thesis using do_transition_outcome [OF t, of EXPERIMENT_VERSION_RETIRED]
    by (auto simp: transition_done_def moved_def tbl_get_upsert dest: tbl_get_SomeD)
qed

text \<open>
  Retiring a version does not stop it. Approving a version writes its definition where discovery finds
  it (provided its JSON text reads back and no other file declares the experiment), approved and allowed by
  the policy for a run. Retiring that version afterwards marks the row as retired but leaves the file: the
  worker still finds the same approved definition, and the safety policy still allows it.
\<close>

lemma retired_version_still_runs:
  assumes "approve_handler E C dir tok vid reason rq w = (Inr va, w1)"
    and "file_experiment D (cd_experiment_text C (ev_definition va)) = Some (ev_definition va)"
    and "only_file D dir (ev_experiment_id va) (path_join dir (ev_experiment_id va @ ''.json'')) (sd_files w)"
    and "safe_to_run (ev_definition va) LOCAL_UNIT_TEST"
    and "retire_handler E' C tok' vid reason' rq' w1 = (Inr vr, w2)"
  shows "tbl_get ev_version_id vid (sd_versions w2) = Some vr \<and> ev_status vr = EV_RETIRED
    \<and> find_experiment D dir (ev_experiment_id va) (sd_files w2) = Some (ev_definition va)
    \<and> (\<exists>d. evaluate (ev_definition va) EXPERIMENT_RUN now = Inr d \<and> pd_allowed d)"
proof -
  note a = approve_files [OF assms(1)] and r = retire_files [OF assms(5)]
  have "find_experiment D dir (ev_experiment_id va) (sd_files w2) = Some (ev_definition va)"
    using find_written [OF _ _ assms(2,3)] a r by simp
  moreover have "safe_to_run (ev_definition va) EXPERIMENT_RUN" using assms(4) a by (simp add: safe_to_run_def)
  ultimately show ?thesis using r policy.decides policy.allowed_iff by blast
qed

text \<open>A reader that understands one file: the definition of the demonstration version.\<close>

definition demo_discovery :: discovery_env where
  "demo_discovery = \<lparr>de_loads = (\<lambda>_. Inr PNone), de_build = (\<lambda>_. Inr (demo_experiment AS_APPROVED)), de_error_text = (\<lambda>_. [])\<rparr>"

lemma demo_file: "file_experiment demo_discovery c = Some (demo_experiment AS_APPROVED)"
  using demo_experiment_valid by (simp add: file_experiment_def definition_model_validate_def demo_discovery_def)

lemma demo_updated_valid:
  "version_from_orm (demo_version s\<lparr>ev_updated_at := t\<rparr>) = Inr (demo_version s\<lparr>ev_updated_at := t\<rparr>)"
  using demo_ids(3) demo_experiment_valid
  by (simp add: version_from_orm_def demo_version_def validate_version_iff ne_def) (simp add: demo_experiment_def)

lemma demo_moved:
  "moved (demo_version EV_UNDER_REVIEW) EV_APPROVED t = demo_version EV_APPROVED\<lparr>ev_updated_at := t\<rparr>"
  by (simp add: moved_def demo_version_def demo_experiment_def expected_approval_status_def)

lemmas demo_step_defs = require_role_def get_current_user_def get_user_for_session_def get_session_with_user_def app_m_defs
  tbl_get_Cons user_from_orm_def user.truncate_def raise_if_def touch_session_def demo_app_env_def do_transition_def version_or_404_def
  get_version_def catchE_def transition_def check_transition_def validate_approval_decision_def ne_def demo_version_sel
  save_version_def append_approval_decision_def materialise_to_experiments_dir_def audit_version_def audit_record_def audit_append_def
  tbl_upsert_def tbl_modify_def Let_def

lemma demo_approve_then_retire:
  "\<exists>va w1 vr w2. approve_handler demo_app_env demo_codec (PyPath [] [''experiments'']) (Some ''tok'') ''ZC-VPN-EXP-001@v1'' None None demo_studio
     = (Inr va, w1) \<and> ev_definition va = demo_experiment AS_APPROVED
     \<and> retire_handler demo_app_env demo_codec (Some ''tok'') ''ZC-VPN-EXP-001@v1'' None None w1 = (Inr vr, w2)"
  by (simp add: approve_handler_def retire_handler_def demo_studio_def demo_reviewer_def demo_step_defs demo_version_valid demo_updated_valid demo_moved)
    (simp add: demo_version_def expected_approval_status_def)

lemma retired_version_still_runs_example:
  "\<exists>w2 :: studio_state. \<exists>vr. tbl_get ev_version_id ''ZC-VPN-EXP-001@v1'' (sd_versions w2) = Some vr \<and> ev_status vr = EV_RETIRED
     \<and> find_experiment demo_discovery (PyPath [] [''experiments'']) ''ZC-VPN-EXP-001'' (sd_files w2) = Some (demo_experiment AS_APPROVED)"
proof -
  obtain va vr and w1 w2 :: studio_state where a: "approve_handler demo_app_env demo_codec (PyPath [] [''experiments'']) (Some ''tok'')
        ''ZC-VPN-EXP-001@v1'' None None demo_studio = (Inr va, w1)"
    and d: "ev_definition va = demo_experiment AS_APPROVED"
    and r: "retire_handler demo_app_env demo_codec (Some ''tok'') ''ZC-VPN-EXP-001@v1'' None None w1 = (Inr vr, w2)"
    using demo_approve_then_retire by blast
  have i: "ev_experiment_id va = ''ZC-VPN-EXP-001''" using approve_files [OF a] d by (simp add: demo_experiment_def)
  have "only_file demo_discovery (PyPath [] [''experiments'']) (ev_experiment_id va)
      (path_join (PyPath [] [''experiments'']) (ev_experiment_id va @ ''.json'')) (sd_files demo_studio)"
    by (simp add: only_file_def json_files_def glob_json_def demo_studio_def sorted_by_def)
  from retired_version_still_runs [OF a _ this _ r, of 0] show ?thesis
    using demo_file d i by (auto simp: safe_to_run_def demo_experiment_def)
qed

end
