(* ===== verification/Run_Events.thy ===== *)
theory Run_Events
  imports Studio
begin

text \<open>
  The lifecycle of runs (\<open>repositories/run_repository.py\<close>, \<open>postgres_run_repository.py\<close>): one row
  per run with its current status and the time of its last event, and the table of events. A call can fail
  (the database is unreachable): the environment says which calls do, after the clock was read and with
  nothing written. The no-op repository only reads the clock.
\<close>

record run_event =
  rv_run_id :: string
  rv_experiment_id :: string
  rv_event_type :: run_event_type
  rv_occurred_at :: datetime
  rv_detail :: "pydict option"

text \<open>A row of \<open>runs\<close>.\<close>

record run_row =
  rn_job_id :: string
  rn_experiment_id :: string
  rn_execution_context :: string
  rn_current_status :: run_event_type
  rn_created_at :: datetime
  rn_updated_at :: datetime

record runs_state = studio_state +
  rr_runs :: "run_row list"
  rr_events :: "run_event list"
  rr_calls :: nat

type_synonym ('z, 'a) runs_m = "('z runs_state_scheme, exn, 'a) eff"

datatype run_repository = NullRunRepository | PostgresRunRepository "nat \<Rightarrow> bool"

definition null_record_event :: "app_env \<Rightarrow> string \<Rightarrow> string \<Rightarrow> run_event_type \<Rightarrow> pydict option \<Rightarrow> ('z, run_event) runs_m" where
  "null_record_event E run_id experiment_id event_type detail =
     bindE (utc_now E) (\<lambda>occurred_at.
     returnE \<lparr>rv_run_id = run_id, rv_experiment_id = experiment_id, rv_event_type = event_type,
       rv_occurred_at = occurred_at, rv_detail = detail\<rparr>)"

definition upsert_run :: "string \<Rightarrow> string \<Rightarrow> run_event_type \<Rightarrow> string option \<Rightarrow> datetime \<Rightarrow> run_row list \<Rightarrow> run_row list" where
  "upsert_run run_id experiment_id event_type execution_context occurred_at runs =
     (case tbl_get rn_job_id run_id runs of
        None \<Rightarrow> runs @ [\<lparr>rn_job_id = run_id, rn_experiment_id = experiment_id,
          rn_execution_context = (case execution_context of None \<Rightarrow> [] | Some c \<Rightarrow> c),
          rn_current_status = event_type, rn_created_at = occurred_at, rn_updated_at = occurred_at\<rparr>]
      | Some _ \<Rightarrow> tbl_modify rn_job_id run_id (\<lambda>r. r\<lparr>rn_current_status := event_type, rn_updated_at := occurred_at,
          rn_execution_context := (case execution_context of None \<Rightarrow> rn_execution_context r | Some c \<Rightarrow> c)\<rparr>) runs)"

definition append_run_event :: "run_event \<Rightarrow> 'z runs_state_scheme \<Rightarrow> 'z runs_state_scheme" where
  "append_run_event ev w = w\<lparr>rr_events := rr_events w @ [ev]\<rparr>"

definition postgres_record_event :: "app_env \<Rightarrow> (nat \<Rightarrow> bool) \<Rightarrow> string \<Rightarrow> string \<Rightarrow> run_event_type \<Rightarrow> string option \<Rightarrow> pydict option
    \<Rightarrow> ('z, run_event) runs_m" where
  "postgres_record_event E fails run_id experiment_id event_type execution_context detail =
     bindE (utc_now E) (\<lambda>occurred_at.
     bindE (getE rr_calls) (\<lambda>n.
     bindE (modifyE (\<lambda>w. w\<lparr>rr_calls := Suc n\<rparr>)) (\<lambda>_.
     if fails n then raiseE (OtherError ''OperationalError'' [])
     else
       let ev = \<lparr>rv_run_id = run_id, rv_experiment_id = experiment_id, rv_event_type = event_type,
         rv_occurred_at = occurred_at, rv_detail = detail\<rparr> in
       bindE (modifyE (\<lambda>w. w\<lparr>rr_runs := upsert_run run_id experiment_id event_type execution_context occurred_at (rr_runs w)\<rparr>)) (\<lambda>_.
       bindE (modifyE (append_run_event ev)) (\<lambda>_. returnE ev)))))"

definition record_event :: "app_env \<Rightarrow> run_repository \<Rightarrow> string \<Rightarrow> string \<Rightarrow> run_event_type \<Rightarrow> string option \<Rightarrow> pydict option
    \<Rightarrow> ('z, run_event) runs_m" where
  "record_event E repo run_id experiment_id event_type execution_context detail =
     (case repo of
        NullRunRepository \<Rightarrow> null_record_event E run_id experiment_id event_type detail
      | PostgresRunRepository fails \<Rightarrow>
          postgres_record_event E fails run_id experiment_id event_type execution_context detail)"

text \<open>\<open>ORDER BY occurred_at, id\<close>: identifiers grow with insertion, so the sort by time is stable.\<close>

definition list_run_events :: "run_repository \<Rightarrow> string \<Rightarrow> 'z runs_state_scheme \<Rightarrow> run_event list" where
  "list_run_events repo run_id w =
     (case repo of
        NullRunRepository \<Rightarrow> []
      | PostgresRunRepository _ \<Rightarrow> sorted_by rv_occurred_at (filter (\<lambda>ev. rv_run_id ev = run_id) (rr_events w)))"

section \<open>The run row follows the events\<close>

interpretation run_log: append_log append_run_event rr_events
  by unfold_locales (simp add: append_run_event_def)

definition run_events_ok :: "'z runs_state_scheme \<Rightarrow> bool" where
  "run_events_ok w \<longleftrightarrow> tbl_ok rn_job_id (rr_runs w)
     \<and> (\<forall>i. map_option rn_current_status (tbl_get rn_job_id i (rr_runs w)) =
            (if filter (\<lambda>ev. rv_run_id ev = i) (rr_events w) = [] then None
             else Some (rv_event_type (last (filter (\<lambda>ev. rv_run_id ev = i) (rr_events w))))))"

text \<open>A request to record an event, as an operation.\<close>

record event_request =
  vq_run_id :: string
  vq_experiment_id :: string
  vq_event_type :: run_event_type
  vq_execution_context :: "string option"
  vq_detail :: "pydict option"

definition event_step :: "app_env \<Rightarrow> (nat \<Rightarrow> bool) \<Rightarrow> event_request \<Rightarrow> 'z runs_state_scheme \<Rightarrow> 'z runs_state_scheme" where
  "event_step E fails q w = snd (record_event E (PostgresRunRepository fails) (vq_run_id q) (vq_experiment_id q) (vq_event_type q)
     (vq_execution_context q) (vq_detail q) w)"

lemma tbl_get_upsert_run:
  "map_option rn_current_status (tbl_get rn_job_id i (upsert_run r e t c o' runs)) =
     (if i = r then Some t else map_option rn_current_status (tbl_get rn_job_id i runs))"
  by (cases "tbl_get rn_job_id r runs")
    (auto simp: upsert_run_def tbl_get_append tbl_get_Cons tbl_get_modify split: option.split)

lemma tbl_ok_upsert_run: "tbl_ok rn_job_id runs \<Longrightarrow> tbl_ok rn_job_id (upsert_run r e t c o' runs)"
  by (cases "tbl_get rn_job_id r runs") (auto simp: upsert_run_def tbl_ok_modify intro: tbl_ok_append)

lemma event_step_eq:
  "event_step E fails q w =
     (let t = ae_clock E (ap_clock_reads w); w1 = w\<lparr>ap_clock_reads := Suc (ap_clock_reads w), rr_calls := Suc (rr_calls w)\<rparr> in
      if fails (rr_calls w) then w1
      else append_run_event \<lparr>rv_run_id = vq_run_id q, rv_experiment_id = vq_experiment_id q, rv_event_type = vq_event_type q,
          rv_occurred_at = t, rv_detail = vq_detail q\<rparr>
        (w1\<lparr>rr_runs := upsert_run (vq_run_id q) (vq_experiment_id q) (vq_event_type q) (vq_execution_context q) t (rr_runs w)\<rparr>))"
  by (simp add: event_step_def record_event_def postgres_record_event_def app_m_defs Let_def)

lemma event_step_ok: "run_events_ok w \<Longrightarrow> run_events_ok (event_step E fails q w)"
  by (auto simp: event_step_eq Let_def run_events_ok_def append_run_event_def tbl_get_upsert_run tbl_ok_upsert_run)

interpretation run_events: op_system "event_step E fails" run_events_ok
  by unfold_locales (rule event_step_ok)

lemma event_steps_sorted:
  assumes "mono f" and "\<And>n. ae_clock E n = f n"
    and "sorted (map rv_occurred_at (rr_events w))" and "\<forall>ev \<in> set (rr_events w). rv_occurred_at ev \<le> f (ap_clock_reads w)"
  shows "sorted (map rv_occurred_at (rr_events (fold (event_step E fails) qs w)))"
  using assms(3,4)
proof (induction qs arbitrary: w)
  case (Cons q qs)
  have le: "f (ap_clock_reads w) \<le> f (Suc (ap_clock_reads w))" using assms(1) by (simp add: monoD)
  have "\<forall>ev \<in> set (rr_events (event_step E fails q w)). rv_occurred_at ev \<le> f (ap_clock_reads (event_step E fails q w))"
    using Cons.prems(2) le by (auto simp: event_step_eq Let_def append_run_event_def assms(2) intro: order_trans)
  moreover have "sorted (map rv_occurred_at (rr_events (event_step E fails q w)))"
    using Cons.prems by (auto simp: event_step_eq Let_def append_run_event_def assms(2) sorted_append)
  ultimately show ?case using Cons.IH by simp
qed simp

lemma sorted_by_sorted_id: "sorted (map k xs) \<Longrightarrow> sorted_by k xs = xs"
  unfolding sorted_by_def by (induction xs) (auto simp: insort_is_Cons)

text \<open>
  The run timeline is faithful. Starting from an empty event log, after any sequence of record
  requests, some of which may fail: the row of every run shows the status of the last event that was
  recorded for it, a run with no recorded event has no row, and with a clock that does not run backwards
  the listed events of a run are exactly its recorded events in the order they were recorded.
\<close>

lemma run_timeline:
  assumes "rr_events w = []" and "rr_runs w = []" and "mono (ae_clock E)"
  shows "let w' = fold (event_step E fails) qs w; evs = list_run_events (PostgresRunRepository fails) i w' in
    evs = filter (\<lambda>ev. rv_run_id ev = i) (rr_events w')
    \<and> map_option rn_current_status (tbl_get rn_job_id i (rr_runs w')) =
        (if evs = [] then None else Some (rv_event_type (last evs)))"
proof -
  let ?w = "fold (event_step E fails) qs w"
  have "run_events_ok w" using assms(1,2) by (simp add: run_events_ok_def tbl_ok_def)
  then have ok: "run_events_ok ?w" by (rule run_events.run_inv)
  have "sorted (map rv_occurred_at (rr_events ?w))"
    using event_steps_sorted [OF assms(3) refl, of w] assms(1) by simp
  then have "list_run_events (PostgresRunRepository fails) i ?w = filter (\<lambda>ev. rv_run_id ev = i) (rr_events ?w)"
    by (simp add: list_run_events_def sorted_by_sorted_id sorted_filter)
  then show ?thesis using ok by (simp add: Let_def run_events_ok_def)
qed

definition demo_runs :: runs_state where
  "demo_runs = \<lparr>ap_clock_reads = 0, ap_uuid_reads = 0, ap_token_reads = 0, ap_audit = [], au_users = [], au_sessions = [],
     sd_versions = [], sd_approvals = [], sd_files = [], rr_runs = [], rr_events = [], rr_calls = 0\<rparr>"

definition demo_event :: "run_event_type \<Rightarrow> event_request" where
  "demo_event t = \<lparr>vq_run_id = ''JOB-1'', vq_experiment_id = ''ZC-VPN-EXP-001'', vq_event_type = t, vq_execution_context = None, vq_detail = None\<rparr>"

lemma run_timeline_example:
  "map rv_event_type (list_run_events (PostgresRunRepository (\<lambda>n. n = 1)) ''JOB-1''
     (fold (event_step demo_app_env (\<lambda>n. n = 1)) [demo_event RE_PREPARING, demo_event RE_SAFETY_CHECK, demo_event RE_COMPLETED] demo_runs))
   = [RE_PREPARING, RE_COMPLETED]"
proof -
  have "mono (ae_clock demo_app_env)" by (simp add: demo_app_env_def mono_def)
  from run_timeline [OF _ _ this, of demo_runs "\<lambda>n. n = 1" "[demo_event RE_PREPARING, demo_event RE_SAFETY_CHECK, demo_event RE_COMPLETED]" "''JOB-1''"]
  show ?thesis by (simp add: Let_def event_step_eq demo_runs_def demo_event_def append_run_event_def)
qed

end
