(* ===== verification/Vulnerability.thy ===== *)
theory Vulnerability
  imports Py_Encoding
begin

text \<open>
  Threat intelligence, the pure part: the records of \<open>models/vulnerability.py\<close>, the validation priority
  (\<open>intelligence/priority.py\<close>), the classification of a vulnerability's domain and the generation of
  validation candidates (\<open>intelligence/candidates.py\<close>), and the merge of a source's contribution into the
  record of a vulnerability (\<open>intelligence/dedup.py\<close>). A calendar date is its number of days since 1970.
  \<open>HttpUrl\<close> is a type of pydantic: parsing a string into one is a parameter.
\<close>

section \<open>\<open>models/vulnerability.py\<close>\<close>

datatype vulnerability_source_name = NVD | CISA_KEV | EPSS | GITHUB_ADVISORY | MANUAL_IMPORT

fun source_value :: "vulnerability_source_name \<Rightarrow> string" where
  "source_value NVD = ''nvd''"
| "source_value CISA_KEV = ''cisa_kev''"
| "source_value EPSS = ''epss''"
| "source_value GITHUB_ADVISORY = ''github_advisory''"
| "source_value MANUAL_IMPORT = ''manual_import''"

datatype support_status = SUPPORTED | PARTIALLY_SUPPORTED | UNSUPPORTED

fun support_status_value :: "support_status \<Rightarrow> string" where
  "support_status_value SUPPORTED = ''supported''"
| "support_status_value PARTIALLY_SUPPORTED = ''partially_supported''"
| "support_status_value UNSUPPORTED = ''unsupported''"

datatype intelligence_sync_status = SYNC_QUEUED | SYNC_RUNNING | SYNC_COMPLETED | SYNC_PARTIAL | SYNC_FAILED

datatype priority_label = PR_CRITICAL | PR_HIGH | PR_MEDIUM | PR_LOW

fun priority_label_value :: "priority_label \<Rightarrow> string" where
  "priority_label_value PR_CRITICAL = ''critical''"
| "priority_label_value PR_HIGH = ''high''"
| "priority_label_value PR_MEDIUM = ''medium''"
| "priority_label_value PR_LOW = ''low''"

type_synonym pydate = int

definition date_str :: "pydate \<Rightarrow> string" where
  "date_str d = date_iso (td_days d)"

record vulnerability_source_record =
  sr_cve_id :: string
  sr_source :: vulnerability_source_name
  sr_source_identifier :: "string option"
  sr_description :: "string option"
  sr_published_at :: "datetime option"
  sr_last_modified_at :: "datetime option"
  sr_cvss_score :: "float64 option"
  sr_cvss_vector :: "string option"
  sr_cvss_version :: "string option"
  sr_epss_score :: "float64 option"
  sr_epss_percentile :: "float64 option"
  sr_kev_listed :: "bool option"
  sr_kev_date_added :: "pydate option"
  sr_kev_due_date :: "pydate option"
  sr_cwe_ids :: "string list"
  sr_vendor :: "string option"
  sr_references :: "string list"
  sr_first_seen_at :: datetime
  sr_last_seen_at :: datetime

record vulnerability_history_entry =
  vh_cve_id :: string
  vh_source :: vulnerability_source_name
  vh_field :: string
  vh_old_value :: "string option"
  vh_new_value :: "string option"
  vh_observed_at :: datetime

record vendor_advisory =
  va_advisory_id :: string
  va_source :: vulnerability_source_name
  va_cve_id :: "string option"
  va_title :: string
  va_summary :: "string option"
  va_severity :: "string option"
  va_published_at :: "datetime option"
  va_updated_at :: "datetime option"
  va_references :: "string list"

record vulnerability =
  vu_cve_id :: string
  vu_description :: "string option"
  vu_published_at :: "datetime option"
  vu_last_modified_at :: "datetime option"
  vu_cvss_score :: "float64 option"
  vu_cvss_vector :: "string option"
  vu_cvss_version :: "string option"
  vu_epss_score :: "float64 option"
  vu_epss_percentile :: "float64 option"
  vu_epss_date :: "pydate option"
  vu_kev_listed :: bool
  vu_kev_date_added :: "pydate option"
  vu_kev_due_date :: "pydate option"
  vu_kev_known_ransomware :: "string option"
  vu_cwe_ids :: "string list"
  vu_vendor :: "string option"
  vu_domain_guess :: "domain option"
  vu_zero_click_relevance :: "zero_click_relevance option"
  vu_references :: "string list"
  vu_sources :: "vulnerability_source_name list"
  vu_first_seen_at :: datetime
  vu_last_updated_at :: datetime

record validation_candidate =
  vc_cve_id :: string
  vc_domain :: "domain option"
  vc_support_status :: support_status
  vc_priority_score :: float64
  vc_priority_label :: priority_label
  vc_explanation :: "string list"
  vc_existing_experiment_ids :: "string list"
  vc_generated_at :: datetime

record intelligence_sync =
  is_sync_id :: string
  is_source :: vulnerability_source_name
  is_status :: intelligence_sync_status
  is_since :: "datetime option"
  is_started_at :: datetime
  is_completed_at :: "datetime option"
  is_fetched_count :: nat
  is_created_count :: nat
  is_updated_count :: nat
  is_unchanged_count :: nat
  is_failed_count :: nat
  is_error_summary :: "string option"

text \<open>The constraints of the fields; a \<open>HttpUrl\<close> is represented by its text.\<close>

definition validate_source_record :: "vulnerability_source_record \<Rightarrow> exn + vulnerability_source_record" where
  "validate_source_record r =
     bindS (raise_if (\<not> (is_cve_id (sr_cve_id r) \<and> opt_between 0 10 (sr_cvss_score r) \<and> opt_between 0 1 (sr_epss_score r)
         \<and> opt_between 0 1 (sr_epss_percentile r))) (ValidationError ''VulnerabilitySourceRecord'' ''fields'')) (\<lambda>_. Inr r)"

definition validate_history_entry :: "vulnerability_history_entry \<Rightarrow> exn + vulnerability_history_entry" where
  "validate_history_entry h =
     bindS (raise_if (\<not> (is_cve_id (vh_cve_id h) \<and> ne (vh_field h))) (ValidationError ''VulnerabilityHistoryEntry'' ''fields'')) (\<lambda>_. Inr h)"

definition validate_advisory :: "vendor_advisory \<Rightarrow> exn + vendor_advisory" where
  "validate_advisory a =
     bindS (raise_if (\<not> (ne (va_advisory_id a) \<and> (case va_cve_id a of None \<Rightarrow> True | Some c \<Rightarrow> is_cve_id c) \<and> ne (va_title a)))
       (ValidationError ''VendorAdvisory'' ''fields'')) (\<lambda>_. Inr a)"

definition validate_vulnerability :: "vulnerability \<Rightarrow> exn + vulnerability" where
  "validate_vulnerability v =
     bindS (raise_if (\<not> (is_cve_id (vu_cve_id v) \<and> opt_between 0 10 (vu_cvss_score v) \<and> opt_between 0 1 (vu_epss_score v)
         \<and> opt_between 0 1 (vu_epss_percentile v))) (ValidationError ''Vulnerability'' ''fields'')) (\<lambda>_. Inr v)"

definition validate_candidate :: "validation_candidate \<Rightarrow> exn + validation_candidate" where
  "validate_candidate c =
     bindS (raise_if (\<not> (is_cve_id (vc_cve_id c) \<and> 0 \<le> vc_priority_score c \<and> vc_priority_score c \<le> 100 \<and> vc_explanation c \<noteq> []))
       (ValidationError ''ValidationCandidate'' ''fields'')) (\<lambda>_. Inr c)"

section \<open>\<open>priority.py\<close>\<close>

record priority_weights =
  pw_cvss_max :: float64
  pw_epss_max :: float64
  pw_kev_flat :: float64
  pw_domain_max :: float64
  pw_no_coverage_flat :: float64

definition DEFAULT_WEIGHTS :: priority_weights where
  "DEFAULT_WEIGHTS = \<lparr>pw_cvss_max = 30, pw_epss_max = 25, pw_kev_flat = 20, pw_domain_max = 15, pw_no_coverage_flat = 10\<rparr>"

definition total_max :: "priority_weights \<Rightarrow> float64" where
  "total_max w = fl (fl (fl (fl (pw_cvss_max w + pw_epss_max w) + pw_kev_flat w) + pw_domain_max w) + pw_no_coverage_flat w)"

record priority_result =
  pr_score :: float64
  pr_label :: priority_label
  pr_explanation :: "string list"

definition label_for_score :: "float64 \<Rightarrow> priority_label" where
  "label_for_score score =
     (if score \<ge> 85 then PR_CRITICAL else if score \<ge> 65 then PR_HIGH else if score \<ge> 40 then PR_MEDIUM else PR_LOW)"

definition str_upper :: "string \<Rightarrow> string" where
  "str_upper s = map (\<lambda>c. let n = (of_char c :: nat) in if 97 \<le> n \<and> n \<le> 122 then char_of (n - 32) else c) s"

definition domain_points :: "support_status \<Rightarrow> zero_click_relevance option \<Rightarrow> priority_weights \<Rightarrow> float64 \<times> string" where
  "domain_points support_status zero_click weights =
     (if support_status = UNSUPPORTED then (0, ''Domain is UNSUPPORTED (no installed validation pack applies): +0.0'')
      else
        let base = (if support_status = SUPPORTED then pw_domain_max weights else fl (pw_domain_max weights / 2));
            status_label = str_upper (support_status_value support_status);
            (points, reason) =
              (case zero_click of
                 Some ZC_HIGH \<Rightarrow> (base, ''Domain is '' @ status_label @ '' and zero-interaction relevance is HIGH'')
               | Some ZC_MEDIUM \<Rightarrow> (fl (base / 2), ''Domain is '' @ status_label @ '' and zero-interaction relevance is MEDIUM'')
               | Some ZC_LOW \<Rightarrow> (0, ''Domain is '' @ status_label @ '' but zero-interaction relevance is LOW'')
               | None \<Rightarrow> (fl (base / 2), ''Domain is '' @ status_label
                   @ ''; zero-interaction relevance unknown (no bonus/penalty applied)''))
        in (points, reason @ '': +'' @ fmt_fixed 1 points @ ''/'' @ fmt_fixed 1 (pw_domain_max weights)))"

text \<open>Each input adds to the running total and gives its line of the explanation.\<close>

definition cvss_part :: "vulnerability \<Rightarrow> priority_weights \<Rightarrow> float64 \<Rightarrow> float64 \<times> string" where
  "cvss_part v weights so_far =
     (case vu_cvss_score v of
        Some s \<Rightarrow> let points = fl (fl (s / 10) * pw_cvss_max weights) in
          (fl (so_far + points), ''CVSS '' @ fmt_fixed 1 s @ ''/10 contributes '' @ fmt_fixed 1 points @ ''/'' @ fmt_fixed 1 (pw_cvss_max weights))
      | None \<Rightarrow> (so_far, ''No CVSS score available: +0.0/'' @ fmt_fixed 1 (pw_cvss_max weights)))"

definition epss_part :: "vulnerability \<Rightarrow> priority_weights \<Rightarrow> float64 \<Rightarrow> float64 \<times> string" where
  "epss_part v weights so_far =
     (case vu_epss_score v of
        Some s \<Rightarrow> let points = fl (s * pw_epss_max weights) in
          (fl (so_far + points), ''EPSS '' @ fmt_fixed 3 s @ '' contributes '' @ fmt_fixed 1 points @ ''/'' @ fmt_fixed 1 (pw_epss_max weights))
      | None \<Rightarrow> (so_far, ''No EPSS score available: +0.0/'' @ fmt_fixed 1 (pw_epss_max weights)))"

definition kev_part :: "vulnerability \<Rightarrow> priority_weights \<Rightarrow> float64 \<Rightarrow> float64 \<times> string" where
  "kev_part v weights so_far =
     (if vu_kev_listed v then (fl (so_far + pw_kev_flat weights), ''Listed in CISA KEV: +'' @ fmt_fixed 1 (pw_kev_flat weights))
      else (so_far, ''Not listed in CISA KEV: +0.0''))"

definition coverage_part :: "bool \<Rightarrow> priority_weights \<Rightarrow> float64 \<Rightarrow> float64 \<times> string" where
  "coverage_part has_existing_validation_coverage weights so_far =
     (if \<not> has_existing_validation_coverage
      then (fl (so_far + pw_no_coverage_flat weights), ''No existing validation coverage for this CVE: +'' @ fmt_fixed 1 (pw_no_coverage_flat weights))
      else (so_far, ''Already covered by an existing experiment: +0.0''))"

definition priority_score :: "vulnerability \<Rightarrow> support_status \<Rightarrow> bool \<Rightarrow> priority_weights \<Rightarrow> priority_result" where
  "priority_score v support_status has_existing_validation_coverage weights =
     (let (total1, e1) = cvss_part v weights 0;
          (total2, e2) = epss_part v weights total1;
          (total3, e3) = kev_part v weights total2;
          (domain_pts, e4) = domain_points support_status (vu_zero_click_relevance v) weights;
          total4 = fl (total3 + domain_pts);
          (total5, e5) = coverage_part has_existing_validation_coverage weights total4;
          total = min total5 (total_max weights);
          label = label_for_score total
      in \<lparr>pr_score = py_round total 1, pr_label = label,
          pr_explanation = [e1, e2, e3, e4, e5, ''Total: '' @ fmt_fixed 1 total @ ''/'' @ fmt_fixed 0 (total_max weights) @ '' -> ''
            @ str_upper (priority_label_value label)]\<rparr>)"

section \<open>\<open>candidates.py\<close>\<close>

definition VPN_STRONG_TERMS :: "string list" where
  "VPN_STRONG_TERMS = [''vpn'', ''ssl-vpn'', ''ssl vpn'', ''ipsec'']"

definition VPN_PRODUCT_TERMS :: "string list" where
  "VPN_PRODUCT_TERMS = [''fortios'', ''forticlient'', ''pulse secure'', ''ivanti connect secure'', ''ivanti policy secure'',
     ''globalprotect'', ''anyconnect'', ''openvpn'', ''wireguard'', ''pptp'', ''l2tp'', ''sonicwall'']"

definition TELECOM_STRONG_TERMS :: "string list" where
  "TELECOM_STRONG_TERMS = [''telecom'', ''telecommunications'', ''baseband'', ''cellular'']"

definition TELECOM_PRODUCT_TERMS :: "string list" where
  "TELECOM_PRODUCT_TERMS = [''sip'', ''diameter'', ''gtp'', ''volte'', ''ims'', ''3gpp'', ''ss7'', ''asterisk'', ''freeswitch'',
     ''modem'', ''rcs'', ''radio access'', ''ios xe'']"

record domain_classification =
  dc_domain :: "domain option"
  dc_support_status :: support_status
  dc_matched_terms :: "string list"

text \<open>\<open>" ".join(filter(None, [vendor, description, *cwe_ids])).lower()\<close>.\<close>

definition classified_text :: "vulnerability \<Rightarrow> string" where
  "classified_text v = str_lower (str_join '' '' (filter (\<lambda>s. s \<noteq> [])
     ((case vu_vendor v of None \<Rightarrow> [] | Some s \<Rightarrow> [s]) @ (case vu_description v of None \<Rightarrow> [] | Some s \<Rightarrow> [s]) @ vu_cwe_ids v)))"

definition term_hits :: "string list \<Rightarrow> string \<Rightarrow> string list" where
  "term_hits terms txt = sort (filter (\<lambda>t. str_contains t txt) terms)"

definition classify_domain :: "vulnerability \<Rightarrow> domain_classification" where
  "classify_domain v =
     (let txt = classified_text v;
          vpn_strong = term_hits VPN_STRONG_TERMS txt;
          vpn_product = term_hits VPN_PRODUCT_TERMS txt;
          telecom_strong = term_hits TELECOM_STRONG_TERMS txt;
          telecom_product = term_hits TELECOM_PRODUCT_TERMS txt;
          vpn_hits = vpn_strong @ vpn_product;
          telecom_hits = telecom_strong @ telecom_product
      in if vpn_hits \<noteq> [] \<and> telecom_hits \<noteq> [] then \<lparr>dc_domain = None, dc_support_status = PARTIALLY_SUPPORTED, dc_matched_terms = vpn_hits @ telecom_hits\<rparr>
         else if vpn_product \<noteq> [] then \<lparr>dc_domain = Some VPN, dc_support_status = SUPPORTED, dc_matched_terms = vpn_hits\<rparr>
         else if vpn_strong \<noteq> [] then \<lparr>dc_domain = Some VPN, dc_support_status = PARTIALLY_SUPPORTED, dc_matched_terms = vpn_hits\<rparr>
         else if telecom_product \<noteq> [] then \<lparr>dc_domain = Some TELECOM, dc_support_status = SUPPORTED, dc_matched_terms = telecom_hits\<rparr>
         else if telecom_strong \<noteq> [] then \<lparr>dc_domain = Some TELECOM, dc_support_status = PARTIALLY_SUPPORTED, dc_matched_terms = telecom_hits\<rparr>
         else \<lparr>dc_domain = None, dc_support_status = UNSUPPORTED, dc_matched_terms = []\<rparr>)"

definition generate_candidate :: "vulnerability \<Rightarrow> (string \<rightharpoonup> string list) \<Rightarrow> priority_weights \<Rightarrow> datetime \<Rightarrow> exn + validation_candidate option" where
  "generate_candidate v experiment_ids_by_cve weights now =
     (let classification = classify_domain v in
      if dc_support_status classification = UNSUPPORTED then Inr None
      else
        let matching_experiment_ids = (case experiment_ids_by_cve (vu_cve_id v) of None \<Rightarrow> [] | Some is \<Rightarrow> is);
            result = priority_score v (dc_support_status classification) (matching_experiment_ids \<noteq> []) weights
        in bindS (validate_candidate
             \<lparr>vc_cve_id = vu_cve_id v, vc_domain = dc_domain classification, vc_support_status = dc_support_status classification,
              vc_priority_score = pr_score result, vc_priority_label = pr_label result, vc_explanation = pr_explanation result,
              vc_existing_experiment_ids = matching_experiment_ids, vc_generated_at = now\<rparr>) (\<lambda>c. Inr (Some c)))"

section \<open>\<open>dedup.py\<close>\<close>

text \<open>\<open>NormalisedContribution\<close> of \<open>normalisation.py\<close>, with the types of its annotations.\<close>

record normalised_contribution =
  nc_cve_id :: string
  nc_source :: vulnerability_source_name
  nc_source_identifier :: "string option"
  nc_description :: "string option"
  nc_published_at :: "datetime option"
  nc_last_modified_at :: "datetime option"
  nc_cvss_score :: "float64 option"
  nc_cvss_vector :: "string option"
  nc_cvss_version :: "string option"
  nc_epss_score :: "float64 option"
  nc_epss_percentile :: "float64 option"
  nc_epss_date :: "pydate option"
  nc_kev_listed :: "bool option"
  nc_kev_date_added :: "pydate option"
  nc_kev_due_date :: "pydate option"
  nc_kev_known_ransomware :: "string option"
  nc_cwe_ids :: "string list"
  nc_vendor :: "string option"
  nc_products :: "(string \<times> string \<times> string option) list"
  nc_references :: "string list"
  nc_zero_click_relevance :: "zero_click_relevance option"

fun source_priority :: "string \<Rightarrow> nat" where
  "source_priority s = (if s = ''nvd'' then 0 else if s = ''github_advisory'' then 1 else if s = ''cisa_kev'' then 2
     else if s = ''epss'' then 3 else if s = ''manual_import'' then 4 else 99)"

definition better :: "string option \<Rightarrow> 'a option \<Rightarrow> string \<Rightarrow> 'a option \<Rightarrow> bool" where
  "better source_a value_a source_b value_b =
     (if value_b = None then False
      else case (value_a, source_a) of (Some _, Some a) \<Rightarrow> source_priority source_b < source_priority a | _ \<Rightarrow> True)"

record merge_result =
  mr_vulnerability :: vulnerability
  mr_history :: "vulnerability_history_entry list"
  mr_source_record :: vulnerability_source_record
  mr_products :: "(string \<times> string \<times> string option) list"
  mr_is_new :: bool

text \<open>
  \<open>_track(field, old, new)\<close>: one entry when the value changed, its values printed by \<open>str\<close>. The entries
  are validated when they are built.
\<close>

definition track :: "normalised_contribution \<Rightarrow> datetime \<Rightarrow> ('a \<Rightarrow> string) \<Rightarrow> ('a \<Rightarrow> string) \<Rightarrow> string \<Rightarrow> 'a option \<Rightarrow> 'a option
    \<Rightarrow> vulnerability_history_entry list" where
  "track c now show_old show_new field old new =
     (case new of None \<Rightarrow> []
      | Some n \<Rightarrow> if old = new then []
          else [\<lparr>vh_cve_id = nc_cve_id c, vh_source = nc_source c, vh_field = field, vh_old_value = map_option show_old old,
                vh_new_value = Some (show_new n), vh_observed_at = now\<rparr>])"

text \<open>\<open>a or b\<close> on optional values whose \<open>str\<close> is not empty.\<close>

definition or_else :: "'a option \<Rightarrow> 'a option \<Rightarrow> 'a option" where
  "or_else a b = (case a of None \<Rightarrow> b | Some x \<Rightarrow> Some x)"

definition or_else_str :: "string option \<Rightarrow> string option \<Rightarrow> string option" where
  "or_else_str a b = (if a = None \<or> a = Some [] then b else a)"

text \<open>
  \<open>list(dict.fromkeys(...))\<close> keeps the first of equal elements. An existing reference is a \<open>HttpUrl\<close>, a
  contributed one a \<open>str\<close>: values of the two types are never equal.
\<close>

datatype reference_value = HttpUrl string | RefStr string

fun reference_text :: "reference_value \<Rightarrow> string" where
  "reference_text (HttpUrl s) = s"
| "reference_text (RefStr s) = s"

definition fromkeys :: "'a list \<Rightarrow> 'a list" where
  "fromkeys xs = rev (remdups (rev xs))"

text \<open>\<open>sorted(set(xs))\<close>, by the value of a member for an enumeration.\<close>

definition sorted_set :: "('a \<Rightarrow> 'k::linorder) \<Rightarrow> 'a list \<Rightarrow> 'a list" where
  "sorted_set key xs = sort_key key (remdups xs)"

fun zero_click_value :: "zero_click_relevance \<Rightarrow> string" where
  "zero_click_value ZC_HIGH = ''High''"
| "zero_click_value ZC_MEDIUM = ''Medium''"
| "zero_click_value ZC_LOW = ''Low''"

text \<open>\<open>str\<close> of a member of the enumeration, and of a \<open>bool\<close>.\<close>

fun zero_click_str :: "zero_click_relevance \<Rightarrow> string" where
  "zero_click_str ZC_HIGH = ''ZeroClickRelevance.HIGH''"
| "zero_click_str ZC_MEDIUM = ''ZeroClickRelevance.MEDIUM''"
| "zero_click_str ZC_LOW = ''ZeroClickRelevance.LOW''"

definition bool_str :: "bool \<Rightarrow> string" where
  "bool_str b = (if b then ''True'' else ''False'')"

definition truthy_str :: "string option \<Rightarrow> bool" where
  "truthy_str s \<longleftrightarrow> s \<noteq> None \<and> s \<noteq> Some []"

text \<open>What a vulnerability that is not known yet contributes to a merge.\<close>

definition blank_vulnerability :: "string \<Rightarrow> datetime \<Rightarrow> vulnerability" where
  "blank_vulnerability cve_id now =
     \<lparr>vu_cve_id = cve_id, vu_description = None, vu_published_at = None, vu_last_modified_at = None, vu_cvss_score = None,
      vu_cvss_vector = None, vu_cvss_version = None, vu_epss_score = None, vu_epss_percentile = None, vu_epss_date = None,
      vu_kev_listed = False, vu_kev_date_added = None, vu_kev_due_date = None, vu_kev_known_ransomware = None, vu_cwe_ids = [],
      vu_vendor = None, vu_domain_guess = None, vu_zero_click_relevance = None, vu_references = [], vu_sources = [],
      vu_first_seen_at = now, vu_last_updated_at = now\<rparr>"

text \<open>The field updates of \<open>merge\<close>, each with the history it tracks.\<close>

definition merged_history :: "vulnerability \<Rightarrow> normalised_contribution \<Rightarrow> datetime \<Rightarrow> vulnerability_history_entry list" where
  "merged_history e c now =
     (let src = source_value (nc_source c) in
      (if better (if truthy_str (vu_description e) then Some ''nvd'' else None) (vu_description e) src (nc_description c)
       then track c now id id ''description'' (vu_description e) (nc_description c) else [])
      @ (if better (if vu_cvss_score e \<noteq> None then Some ''nvd'' else None) (vu_cvss_score e) src (nc_cvss_score c)
         then track c now repr_float repr_float ''cvss_score'' (vu_cvss_score e) (nc_cvss_score c) else [])
      @ (if nc_epss_score c \<noteq> None then track c now repr_float repr_float ''epss_score'' (vu_epss_score e) (nc_epss_score c) else [])
      @ (if nc_kev_listed c = Some True
         then track c now bool_str bool_str ''kev_listed'' (Some (vu_kev_listed e)) (Some True)
           @ track c now date_str date_str ''kev_date_added'' (vu_kev_date_added e) (nc_kev_date_added c)
           @ track c now date_str date_str ''kev_due_date'' (vu_kev_due_date e) (nc_kev_due_date c)
         else [])
      @ track c now zero_click_str zero_click_value ''zero_click_relevance'' (vu_zero_click_relevance e) (nc_zero_click_relevance c))"

definition merged_vulnerability :: "vulnerability \<Rightarrow> normalised_contribution \<Rightarrow> datetime \<Rightarrow> string list \<Rightarrow> vulnerability" where
  "merged_vulnerability e c now refs =
     (let src = source_value (nc_source c);
          take_description = better (if truthy_str (vu_description e) then Some ''nvd'' else None) (vu_description e) src (nc_description c);
          take_cvss = better (if vu_cvss_score e \<noteq> None then Some ''nvd'' else None) (vu_cvss_score e) src (nc_cvss_score c);
          take_epss = (nc_epss_score c \<noteq> None);
          take_kev = (nc_kev_listed c = Some True);
          take_vendor = better (if truthy_str (vu_vendor e) then Some ''nvd'' else None) (vu_vendor e) src (nc_vendor c)
      in \<lparr>vu_cve_id = nc_cve_id c,
          vu_description = (if take_description then nc_description c else vu_description e),
          vu_published_at = (case (nc_published_at c, vu_published_at e) of
              (None, old) \<Rightarrow> old | (Some n, None) \<Rightarrow> Some n | (Some n, Some old) \<Rightarrow> Some (if n < old then n else old)),
          vu_last_modified_at = (case (nc_last_modified_at c, vu_last_modified_at e) of
              (None, old) \<Rightarrow> old | (Some n, None) \<Rightarrow> Some n | (Some n, Some old) \<Rightarrow> Some (if old < n then n else old)),
          vu_cvss_score = (if take_cvss then nc_cvss_score c else vu_cvss_score e),
          vu_cvss_vector = (if take_cvss then nc_cvss_vector c else vu_cvss_vector e),
          vu_cvss_version = (if take_cvss then nc_cvss_version c else vu_cvss_version e),
          vu_epss_score = (if take_epss then nc_epss_score c else vu_epss_score e),
          vu_epss_percentile = (if take_epss then nc_epss_percentile c else vu_epss_percentile e),
          vu_epss_date = (if take_epss then nc_epss_date c else vu_epss_date e),
          vu_kev_listed = (take_kev \<or> vu_kev_listed e),
          vu_kev_date_added = (if take_kev then or_else (nc_kev_date_added c) (vu_kev_date_added e) else vu_kev_date_added e),
          vu_kev_due_date = (if take_kev then or_else (nc_kev_due_date c) (vu_kev_due_date e) else vu_kev_due_date e),
          vu_kev_known_ransomware = (if take_kev then or_else_str (nc_kev_known_ransomware c) (vu_kev_known_ransomware e)
            else vu_kev_known_ransomware e),
          vu_cwe_ids = sorted_set id (vu_cwe_ids e @ nc_cwe_ids c),
          vu_vendor = (if take_vendor then nc_vendor c else vu_vendor e),
          vu_domain_guess = vu_domain_guess e,
          vu_zero_click_relevance = or_else (nc_zero_click_relevance c) (vu_zero_click_relevance e),
          vu_references = refs,
          vu_sources = sorted_set source_value (vu_sources e @ [nc_source c]),
          vu_first_seen_at = vu_first_seen_at e,
          vu_last_updated_at = now\<rparr>)"

text \<open>Validation of the \<open>references: list[HttpUrl]\<close> field: a \<open>HttpUrl\<close> stays, a \<open>str\<close> is parsed.\<close>

fun validate_reference :: "(string \<Rightarrow> string option) \<Rightarrow> reference_value \<Rightarrow> exn + string" where
  "validate_reference http_url (HttpUrl s) = Inr s"
| "validate_reference http_url (RefStr s) =
     (case http_url s of None \<Rightarrow> Inl (ValidationError ''Vulnerability'' ''references'') | Some u \<Rightarrow> Inr u)"

definition contributed_record :: "normalised_contribution \<Rightarrow> datetime \<Rightarrow> vulnerability_source_record" where
  "contributed_record c now =
     \<lparr>sr_cve_id = nc_cve_id c, sr_source = nc_source c, sr_source_identifier = nc_source_identifier c, sr_description = nc_description c,
      sr_published_at = nc_published_at c, sr_last_modified_at = nc_last_modified_at c, sr_cvss_score = nc_cvss_score c,
      sr_cvss_vector = nc_cvss_vector c, sr_cvss_version = nc_cvss_version c, sr_epss_score = nc_epss_score c,
      sr_epss_percentile = nc_epss_percentile c, sr_kev_listed = nc_kev_listed c, sr_kev_date_added = nc_kev_date_added c,
      sr_kev_due_date = nc_kev_due_date c, sr_cwe_ids = nc_cwe_ids c, sr_vendor = nc_vendor c, sr_references = nc_references c,
      sr_first_seen_at = now, sr_last_seen_at = now\<rparr>"

definition merge :: "(string \<Rightarrow> string option) \<Rightarrow> vulnerability option \<Rightarrow> normalised_contribution \<Rightarrow> datetime \<Rightarrow> exn + merge_result" where
  "merge http_url existing c now =
     (let e = (case existing of None \<Rightarrow> blank_vulnerability (nc_cve_id c) now | Some v \<Rightarrow> v) in
      bindS (mapS validate_history_entry (merged_history e c now)) (\<lambda>history.
      bindS (mapS (validate_reference http_url) (fromkeys (map HttpUrl (vu_references e) @ map RefStr (nc_references c)))) (\<lambda>refs.
      bindS (validate_vulnerability (merged_vulnerability e c now refs)) (\<lambda>vulnerability.
      bindS (validate_source_record (contributed_record c now)) (\<lambda>source_record.
      Inr \<lparr>mr_vulnerability = vulnerability, mr_history = history, mr_source_record = source_record, mr_products = nc_products c,
        mr_is_new = (existing = None)\<rparr>)))))"

section \<open>Priorities\<close>

text \<open>The score is the rounded total.\<close>

definition priority_total :: "vulnerability \<Rightarrow> support_status \<Rightarrow> bool \<Rightarrow> float64" where
  "priority_total v st covered =
     (let t3 = fst (kev_part v DEFAULT_WEIGHTS (fst (epss_part v DEFAULT_WEIGHTS (fst (cvss_part v DEFAULT_WEIGHTS 0)))))
      in min (fst (coverage_part covered DEFAULT_WEIGHTS (fl (t3 + fst (domain_points st (vu_zero_click_relevance v) DEFAULT_WEIGHTS)))))
           (total_max DEFAULT_WEIGHTS))"

lemma priority_score_eq:
  "pr_score (priority_score v st covered DEFAULT_WEIGHTS) = py_round (priority_total v st covered) 1"
  "pr_label (priority_score v st covered DEFAULT_WEIGHTS) = label_for_score (priority_total v st covered)"
  "pr_explanation (priority_score v st covered DEFAULT_WEIGHTS) \<noteq> []"
  by (simp_all add: priority_score_def priority_total_def Let_def case_prod_beta)

definition cvss_points :: "float64 option \<Rightarrow> float64" where
  "cvss_points s = (case s of None \<Rightarrow> 0 | Some x \<Rightarrow> fl (0 + fl (fl (x / 10) * 30)))"

lemma parts_default:
  "fst (cvss_part v DEFAULT_WEIGHTS 0) = cvss_points (vu_cvss_score v)"
  "fst (epss_part v DEFAULT_WEIGHTS t) = (case vu_epss_score v of None \<Rightarrow> t | Some x \<Rightarrow> fl (t + fl (x * 25)))"
  "fst (kev_part v DEFAULT_WEIGHTS t) = (if vu_kev_listed v then fl (t + 20) else t)"
  "fst (coverage_part covered DEFAULT_WEIGHTS t) = (if covered then t else fl (t + 10))"
  by (simp_all add: cvss_part_def cvss_points_def epss_part_def kev_part_def coverage_part_def DEFAULT_WEIGHTS_def Let_def split: option.split)

lemma fl_numeral: "(numeral k :: int) \<le> 2 ^ 53 \<Longrightarrow> fl (numeral k) = numeral k"
  using representable_int [of "numeral k"] by (simp add: representable_def)

lemma total_max_default: "total_max DEFAULT_WEIGHTS = 100"
  by (simp add: total_max_def DEFAULT_WEIGHTS_def fl_numeral)

lemma domain_points_nonneg: "0 \<le> fst (domain_points st z DEFAULT_WEIGHTS)"
  by (auto simp: domain_points_def DEFAULT_WEIGHTS_def Let_def fl_nonneg split: option.split zero_click_relevance.split)

lemma cvss_points_nonneg: "opt_between 0 10 s \<Longrightarrow> 0 \<le> cvss_points s"
  by (auto simp: cvss_points_def opt_between_def fl_nonneg split: option.splits)

lemma priority_total_bounds:
  assumes "validate_vulnerability v = Inr v"
  shows "0 \<le> priority_total v st covered \<and> priority_total v st covered \<le> 100"
  using assms cvss_points_nonneg [of "vu_cvss_score v"] domain_points_nonneg [of st "vu_zero_click_relevance v"]
  by (auto simp: priority_total_def parts_default total_max_default Let_def validate_vulnerability_def res_simps opt_between_def fl_nonneg
      split: option.splits)

lemma py_round_100: "py_round 100 (Suc 0) = 100"
  by (simp add: py_round_def rhe_int [of 1000, simplified] fl_numeral)

lemma priority_bounds:
  assumes "validate_vulnerability v = Inr v"
  shows "0 \<le> pr_score (priority_score v st covered DEFAULT_WEIGHTS) \<and> pr_score (priority_score v st covered DEFAULT_WEIGHTS) \<le> 100"
  using priority_total_bounds [OF assms] py_round_nonneg py_round_mono [of _ 100 1]
  by (simp add: priority_score_eq py_round_100)

text \<open>A vulnerability whose scores are at least as high, listed if the other is, and otherwise alike.\<close>

definition opt_le :: "float64 option \<Rightarrow> float64 option \<Rightarrow> bool" where
  "opt_le a b \<longleftrightarrow> (case a of None \<Rightarrow> True | Some x \<Rightarrow> (case b of None \<Rightarrow> False | Some y \<Rightarrow> x \<le> y))"

definition at_least_as_urgent :: "vulnerability \<Rightarrow> vulnerability \<Rightarrow> bool" where
  "at_least_as_urgent v v' \<longleftrightarrow> opt_le (vu_cvss_score v) (vu_cvss_score v') \<and> opt_le (vu_epss_score v) (vu_epss_score v')
     \<and> (vu_kev_listed v \<longrightarrow> vu_kev_listed v') \<and> vu_zero_click_relevance v' = vu_zero_click_relevance v"

fun label_rank :: "priority_label \<Rightarrow> nat" where
  "label_rank PR_LOW = 0"
| "label_rank PR_MEDIUM = 1"
| "label_rank PR_HIGH = 2"
| "label_rank PR_CRITICAL = 3"

lemma label_mono: "x \<le> y \<Longrightarrow> label_rank (label_for_score x) \<le> label_rank (label_for_score y)"
  by (simp add: label_for_score_def)

lemma cvss_points_mono:
  assumes "opt_le a b" and "opt_between 0 10 b"
  shows "cvss_points a \<le> cvss_points b"
proof -
  have "fl (fl (x / 10) * 30) \<le> fl (fl (y / 10) * 30)" if "x \<le> y" for x y
    using that by (intro fl_mono mult_right_mono divide_right_mono) simp_all
  then show ?thesis using assms
    by (auto simp: cvss_points_def opt_le_def opt_between_def intro!: fl_nonneg fl_mono split: option.splits)
qed

lemma add_points_mono: "x \<le> y \<Longrightarrow> fl (x + p) \<le> fl (y + p)"
  by (intro fl_mono) simp

lemma fl_add_grows:
  assumes "representable x" and "0 \<le> p"
  shows "x \<le> fl (x + p)"
  using fl_mono [of x "x + p"] assms by (simp add: representable_def)

lemma representable_cvss: "representable (cvss_points s)"
  by (simp add: cvss_points_def split: option.split)

lemma epss_step_mono:
  assumes "t \<le> t'" and "opt_le a b" and "opt_between 0 1 b" and "representable t'"
  shows "(case a of None \<Rightarrow> t | Some x \<Rightarrow> fl (t + fl (x * 25))) \<le> (case b of None \<Rightarrow> t' | Some x \<Rightarrow> fl (t' + fl (x * 25)))"
proof (cases b)
  case None
  then show ?thesis using assms(1,2) by (auto simp: opt_le_def split: option.splits)
next
  case (Some y)
  have y: "0 \<le> fl (y * 25)" using assms(3) Some by (simp add: opt_between_def fl_nonneg)
  have "t' \<le> fl (t' + fl (y * 25))" using fl_add_grows [OF assms(4) y] .
  then have "t \<le> fl (t' + fl (y * 25))" using assms(1) by simp
  moreover have "fl (t + fl (x * 25)) \<le> fl (t' + fl (y * 25))" if "x \<le> y" for x
    using that assms(1) by (intro fl_mono add_mono mult_right_mono) simp_all
  ultimately show ?thesis using assms(2) Some by (auto simp: opt_le_def split: option.splits)
qed

lemma priority_total_mono:
  assumes "at_least_as_urgent v v'" and "validate_vulnerability v' = Inr v'"
  shows "priority_total v st covered \<le> priority_total v' st covered"
proof -
  have v': "opt_between 0 10 (vu_cvss_score v')" "opt_between 0 1 (vu_epss_score v')"
    using assms(2) by (auto simp: validate_vulnerability_def res_simps)
  let ?t = "\<lambda>u. case vu_epss_score u of None \<Rightarrow> cvss_points (vu_cvss_score u) | Some x \<Rightarrow> fl (cvss_points (vu_cvss_score u) + fl (x * 25))"
  let ?k = "\<lambda>u. if vu_kev_listed u then fl (?t u + 20) else ?t u"
  have t: "?t v \<le> ?t v'"
    using assms(1) v' by (intro epss_step_mono cvss_points_mono representable_cvss) (auto simp: at_least_as_urgent_def)
  have "representable (?t v')" by (simp add: representable_cvss split: option.split)
  then have "?k v \<le> ?k v'"
    using t assms(1) fl_add_grows [of "?t v'" 20] add_points_mono [OF t] by (auto simp: at_least_as_urgent_def)
  then have "fl (?k v + p) \<le> fl (?k v' + p)" for p by (rule add_points_mono)
  then show ?thesis using assms(1) add_points_mono
    by (simp add: priority_total_def parts_default Let_def at_least_as_urgent_def min.coboundedI1 min_le_iff_disj)
qed

text \<open>
  C25. The validation priority is sound. For every valid vulnerability candidate generation returns: nothing
  exactly when the domain is unsupported, and otherwise a valid candidate with a score in [0, 100]. And it is
  monotone, rounding included: a vulnerability with CVSS and EPSS scores at least as high that is on the KEV
  list if the other is never gets a lower score or a lower label.
\<close>

theorem priority_sound:
  assumes "validate_vulnerability v = Inr v" and "validate_vulnerability v' = Inr v'" and "at_least_as_urgent v v'"
  shows "(\<exists>r. generate_candidate v m DEFAULT_WEIGHTS now = Inr r
      \<and> (r = None \<longleftrightarrow> dc_support_status (classify_domain v) = UNSUPPORTED)
      \<and> (\<forall>c. r = Some c \<longrightarrow> validate_candidate c = Inr c \<and> 0 \<le> vc_priority_score c \<and> vc_priority_score c \<le> 100
           \<and> vc_support_status c \<noteq> UNSUPPORTED))
    \<and> pr_score (priority_score v st covered DEFAULT_WEIGHTS) \<le> pr_score (priority_score v' st covered DEFAULT_WEIGHTS)
    \<and> label_rank (pr_label (priority_score v st covered DEFAULT_WEIGHTS)) \<le> label_rank (pr_label (priority_score v' st covered DEFAULT_WEIGHTS))"
proof -
  have "is_cve_id (vu_cve_id v)" using assms(1) by (auto simp: validate_vulnerability_def res_simps)
  then show ?thesis
    using priority_bounds [OF assms(1)] priority_total_mono [OF assms(3,2)] py_round_mono label_mono
    by (auto simp: generate_candidate_def validate_candidate_def raise_if_def Let_def priority_score_eq)
qed

definition demo_vulnerability :: "float64 option \<Rightarrow> bool \<Rightarrow> vulnerability" where
  "demo_vulnerability s kev = (blank_vulnerability ''CVE-2024-21762'' 0)\<lparr>vu_description := Some ''fortios out-of-bounds write'',
     vu_cvss_score := s, vu_kev_listed := kev\<rparr>"

lemma demo_vulnerability_valid: "opt_between 0 10 s \<Longrightarrow> validate_vulnerability (demo_vulnerability s kev) = Inr (demo_vulnerability s kev)"
  by (simp add: validate_vulnerability_def raise_if_def demo_vulnerability_def blank_vulnerability_def is_cve_id_def strip_prefix_def
      digits_between_def is_digit_def) (simp add: opt_between_def)

text \<open>A vulnerability is unsupported exactly when no term of the vocabulary occurs in its text.\<close>

lemma term_hits_Nil: "term_hits ts x = [] \<longleftrightarrow> (\<forall>t \<in> set ts. \<not> str_contains t x)"
  by (metis (no_types, lifting) term_hits_def filter_empty_conv set_empty set_sort)

lemma classify_unsupported:
  "dc_support_status (classify_domain v) = UNSUPPORTED \<longleftrightarrow>
     (\<forall>t \<in> set (VPN_STRONG_TERMS @ VPN_PRODUCT_TERMS @ TELECOM_STRONG_TERMS @ TELECOM_PRODUCT_TERMS). \<not> str_contains t (classified_text v))"
  unfolding classify_domain_def Let_def set_append ball_Un term_hits_Nil [symmetric]
  by (auto simp: append_is_Nil_conv)

lemma demo_fortios: "str_contains ''fortios'' (classified_text (demo_vulnerability s kev))"
  by (simp add: classified_text_def demo_vulnerability_def blank_vulnerability_def str_lower_def lower_char_def)

theorem priority_sound_witness:
  "(\<exists>c. generate_candidate (demo_vulnerability (Some 9) False) Map.empty DEFAULT_WEIGHTS 0 = Inr (Some c) \<and> vc_priority_score c \<le> 100)
   \<and> pr_score (priority_score (demo_vulnerability (Some 9) False) SUPPORTED False DEFAULT_WEIGHTS)
     \<le> pr_score (priority_score (demo_vulnerability (Some 9) True) SUPPORTED False DEFAULT_WEIGHTS)"
proof -
  have "dc_support_status (classify_domain (demo_vulnerability (Some 9) False)) \<noteq> UNSUPPORTED"
    unfolding classify_unsupported using demo_fortios by (auto simp: VPN_PRODUCT_TERMS_def)
  moreover have "at_least_as_urgent (demo_vulnerability (Some 9) False) (demo_vulnerability (Some 9) True)"
    by (simp add: at_least_as_urgent_def demo_vulnerability_def blank_vulnerability_def opt_le_def)
  ultimately show ?thesis
    using priority_sound [OF demo_vulnerability_valid demo_vulnerability_valid, of "Some 9" "Some 9" False True Map.empty 0 SUPPORTED False]
    by (auto simp: opt_between_def)
qed

section \<open>Merging\<close>

lemma validated_ids:
  "validate_vulnerability v = Inr v' \<Longrightarrow> v' = v" "validate_history_entry h = Inr h' \<Longrightarrow> h' = h" "validate_source_record s = Inr s' \<Longrightarrow> s' = s"
  by (auto simp: validate_vulnerability_def validate_history_entry_def validate_source_record_def res_simps)

lemma mapS_same: "mapS f xs = Inr ys \<Longrightarrow> (\<And>x y. f x = Inr y \<Longrightarrow> y = x) \<Longrightarrow> ys = xs"
  by (induction xs arbitrary: ys) (auto simp: res_simps)

lemma merge_into:
  assumes "merge u (Some e) c now = Inr r"
  obtains refs where "mapS (validate_reference u) (fromkeys (map HttpUrl (vu_references e) @ map RefStr (nc_references c))) = Inr refs"
    and "mr_vulnerability r = merged_vulnerability e c now refs" and "mr_history r = merged_history e c now"
    and "mr_source_record r = contributed_record c now" and "\<not> mr_is_new r"
proof -
  obtain h refs v s where "mapS validate_history_entry (merged_history e c now) = Inr h"
    and refs: "mapS (validate_reference u) (fromkeys (map HttpUrl (vu_references e) @ map RefStr (nc_references c))) = Inr refs"
    and v: "validate_vulnerability (merged_vulnerability e c now refs) = Inr v" and s: "validate_source_record (contributed_record c now) = Inr s"
    and r: "r = \<lparr>mr_vulnerability = v, mr_history = h, mr_source_record = s, mr_products = nc_products c, mr_is_new = False\<rparr>"
    using assms unfolding merge_def Let_def option.case bindS_eq_Inr by auto
  then have "h = merged_history e c now" using mapS_same validated_ids(2) by blast
  with refs r validated_ids(1) [OF v] validated_ids(3) [OF s] show ?thesis using that by simp
qed

lemma better_present: "better s a t b \<Longrightarrow> b \<noteq> None"
  by (auto simp: better_def split: if_splits)

lemma better_owned: "x \<noteq> None \<Longrightarrow> \<not> better (Some ''nvd'') x t b"
  by (auto simp: better_def split: if_splits)

lemma track_changes: "(\<exists>h \<in> set (track c now f g n old new). vh_field h = fld) \<longleftrightarrow> fld = n \<and> new \<noteq> None \<and> old \<noteq> new"
  by (auto simp: track_def split: option.splits)

lemma bex_append: "(\<exists>h \<in> set (xs @ ys). P h) \<longleftrightarrow> (\<exists>h \<in> set xs. P h) \<or> (\<exists>h \<in> set ys. P h)"
  by auto

lemma bex_if_Nil: "(\<exists>h \<in> set (if b then xs else []). P h) \<longleftrightarrow> b \<and> (\<exists>h \<in> set xs. P h)"
  by auto

lemma history_changes:
  "(\<exists>h \<in> set (merged_history e c now). vh_field h = fld) \<longleftrightarrow>
     (better (if truthy_str (vu_description e) then Some ''nvd'' else None) (vu_description e) (source_value (nc_source c)) (nc_description c)
        \<and> fld = ''description'' \<and> nc_description c \<noteq> None \<and> vu_description e \<noteq> nc_description c)
      \<or> (better (if vu_cvss_score e \<noteq> None then Some ''nvd'' else None) (vu_cvss_score e) (source_value (nc_source c)) (nc_cvss_score c)
        \<and> fld = ''cvss_score'' \<and> nc_cvss_score c \<noteq> None \<and> vu_cvss_score e \<noteq> nc_cvss_score c)
      \<or> (nc_epss_score c \<noteq> None \<and> fld = ''epss_score'' \<and> nc_epss_score c \<noteq> None \<and> vu_epss_score e \<noteq> nc_epss_score c)
      \<or> (nc_kev_listed c = Some True \<and> (fld = ''kev_listed'' \<and> Some True \<noteq> None \<and> Some (vu_kev_listed e) \<noteq> Some True
          \<or> fld = ''kev_date_added'' \<and> nc_kev_date_added c \<noteq> None \<and> vu_kev_date_added e \<noteq> nc_kev_date_added c
          \<or> fld = ''kev_due_date'' \<and> nc_kev_due_date c \<noteq> None \<and> vu_kev_due_date e \<noteq> nc_kev_due_date c))
      \<or> (fld = ''zero_click_relevance'' \<and> nc_zero_click_relevance c \<noteq> None \<and> vu_zero_click_relevance e \<noteq> nc_zero_click_relevance c)"
  unfolding merged_history_def Let_def bex_append bex_if_Nil track_changes by (rule refl)

lemma set_sorted_set [simp]: "set (sorted_set k xs) = set xs"
  by (simp add: sorted_set_def)

lemma set_fromkeys [simp]: "set (fromkeys xs) = set xs"
  by (simp add: fromkeys_def)

lemma mapS_image: "mapS f xs = Inr ys \<Longrightarrow> x \<in> set xs \<Longrightarrow> f x = Inr y \<Longrightarrow> y \<in> set ys"
  by (induction xs arbitrary: ys) (auto simp: res_simps)


text \<open>A contribution of the NVD with a score.\<close>

definition demo_contribution :: "float64 \<Rightarrow> string list \<Rightarrow> normalised_contribution" where
  "demo_contribution x refs =
     \<lparr>nc_cve_id = ''CVE-2024-21762'', nc_source = NVD, nc_source_identifier = None, nc_description = Some ''revised'',
      nc_published_at = None, nc_last_modified_at = Some 5, nc_cvss_score = Some x, nc_cvss_vector = None, nc_cvss_version = None,
      nc_epss_score = None, nc_epss_percentile = None, nc_epss_date = None, nc_kev_listed = None, nc_kev_date_added = None,
      nc_kev_due_date = None, nc_kev_known_ransomware = None, nc_cwe_ids = [''CWE-787''], nc_vendor = None, nc_products = [],
      nc_references = refs, nc_zero_click_relevance = None\<rparr>"

lemma validate_reference_any: "validate_reference (\<lambda>s. Some s) r = Inr (reference_text r)"
  by (cases r) simp_all

lemma demo_merge:
  assumes "0 \<le> x" and "x \<le> 10"
  shows "\<exists>r. merge (\<lambda>s. Some s) (Some (demo_vulnerability (Some 7) False)) (demo_contribution x refs) 9 = Inr r"
proof -
  let ?e = "demo_vulnerability (Some 7) False" and ?c = "demo_contribution x refs"
  have id: "is_cve_id ''CVE-2024-21762''"
    by (simp add: is_cve_id_def strip_prefix_def digits_between_def is_digit_def)
  have h: "merged_history ?e ?c 9 = []"
    by (simp add: merged_history_def demo_vulnerability_def demo_contribution_def blank_vulnerability_def truthy_str_def better_def track_def)
  have "\<exists>ys. mapS (validate_reference (\<lambda>s. Some s)) (fromkeys (map HttpUrl (vu_references ?e) @ map RefStr (nc_references ?c))) = Inr ys"
    using mapS_total [of _ "validate_reference (\<lambda>s. Some s)" reference_text] validate_reference_any by blast
  moreover have "validate_vulnerability (merged_vulnerability ?e ?c 9 ys) = Inr (merged_vulnerability ?e ?c 9 ys)" for ys
    by (simp add: validate_vulnerability_def merged_vulnerability_def demo_vulnerability_def demo_contribution_def blank_vulnerability_def
        id opt_between_def better_def Let_def)
  moreover have "validate_source_record (contributed_record ?c 9) = Inr (contributed_record ?c 9)"
    using assms by (simp add: validate_source_record_def contributed_record_def demo_contribution_def id opt_between_def)
  ultimately show ?thesis by (auto simp: merge_def h)
qed


text \<open>
  A score is never revised. Once a vulnerability has a CVSS score, no merge changes it, its vector or its
  version, and no history entry records a revision, whichever source contributes the new score - the NVD
  correcting itself included; the same holds for a non-empty description. (\<open>merge\<close> takes the NVD as the owner
  of every known value, and the NVD does not outrank itself.)
\<close>

lemma cvss_never_revised:
  assumes "merge u (Some e) c now = Inr r" and "vu_cvss_score e = Some x"
  shows "vu_cvss_score (mr_vulnerability r) = Some x \<and> vu_cvss_vector (mr_vulnerability r) = vu_cvss_vector e
    \<and> vu_cvss_version (mr_vulnerability r) = vu_cvss_version e \<and> (\<forall>h \<in> set (mr_history r). vh_field h \<noteq> ''cvss_score'')
    \<and> (truthy_str (vu_description e) \<longrightarrow> vu_description (mr_vulnerability r) = vu_description e)"
  using assms(1)
proof (rule merge_into)
  fix refs assume v: "mr_vulnerability r = merged_vulnerability e c now refs" and h: "mr_history r = merged_history e c now"
  have "\<not> (\<exists>h \<in> set (merged_history e c now). vh_field h = ''cvss_score'')"
    unfolding history_changes using assms(2) by (simp add: better_owned)
  then show ?thesis using assms(2) by (auto simp: v h merged_vulnerability_def better_owned truthy_str_def Let_def)
qed

lemma cvss_never_revised_example:
  "\<exists>r. merge (\<lambda>s. Some s) (Some (demo_vulnerability (Some 7) False)) (demo_contribution 9 []) 9 = Inr r
     \<and> vu_cvss_score (mr_vulnerability r) = Some 7"
proof -
  obtain r where r: "merge (\<lambda>s. Some s) (Some (demo_vulnerability (Some 7) False)) (demo_contribution 9 []) 9 = Inr r"
    using demo_merge [of 9 "[]"] by auto
  from cvss_never_revised [OF r, of 7] r show ?thesis by (simp add: demo_vulnerability_def)
qed

text \<open>A reference that was merged before is listed a second time: the two types are never equal.\<close>

lemma length_fromkeys_append:
  "set xs \<inter> set ys = {} \<Longrightarrow> length (fromkeys (xs @ ys)) = card (set xs) + card (set ys)"
  by (simp add: fromkeys_def length_remdups_card_conv card_Un_disjoint Int_commute Un_commute)

lemma references_listed_twice:
  assumes "merge u (Some e) c now = Inr r"
  shows "length (vu_references (mr_vulnerability r)) = card (set (vu_references e)) + card (set (nc_references c))"
  using assms
proof (rule merge_into)
  fix refs assume refs: "mapS (validate_reference u) (fromkeys (map HttpUrl (vu_references e) @ map RefStr (nc_references c))) = Inr refs"
    and v: "mr_vulnerability r = merged_vulnerability e c now refs"
  have disjoint: "set (map HttpUrl (vu_references e)) \<inter> set (map RefStr (nc_references c)) = {}" by auto
  then have "length refs = card (HttpUrl ` set (vu_references e)) + card (RefStr ` set (nc_references c))"
    using mapS_Inr_length [OF refs] length_fromkeys_append [OF disjoint] by (simp only: set_map)
  then show ?thesis by (simp add: v merged_vulnerability_def Let_def card_image inj_on_def)
qed

end
