(* ===== verification/Intel_Repository.thy ===== *)
theory Intel_Repository
  imports Run_Events Vulnerability
begin

text \<open>
  The system of record of the threat intelligence (\<open>intelligence/repository.py\<close>): the tables of merged
  vulnerabilities, of what each source says, of the field history, of products and their links, vendor
  advisories, validation candidates and synchronisations. A row holds the values of the model class it is
  read into (an enumeration for its value, a date for its ISO text); \<open>u\<close> is pydantic's parsing of a URL.
\<close>

record product_row =
  pd_id :: nat
  pd_vendor :: string
  pd_name :: string

record affected_product =
  lk_cve_id :: string
  lk_product_id :: nat
  lk_version_range :: "string option"

record intel_state = runs_state +
  in_vulns :: "vulnerability list"
  in_sources :: "vulnerability_source_record list"
  in_history :: "vulnerability_history_entry list"
  in_products :: "product_row list"
  in_affected :: "affected_product list"
  in_advisories :: "vendor_advisory list"
  in_candidates :: "validation_candidate list"
  in_syncs :: "intelligence_sync list"

type_synonym ('z, 'a) intel_m = "('z intel_state_scheme, exn, 'a) eff"

section \<open>SQL helpers\<close>

text \<open>\<open>LIKE\<close> with \<open>%\<close>, \<open>_\<close> and the escape character backslash, and \<open>ILIKE\<close>.\<close>

fun sql_like :: "string \<Rightarrow> string \<Rightarrow> bool" where
  "sql_like [] s = (s = [])"
| "sql_like (c # p) [] = (c = CHR ''%'' \<and> sql_like p [])"
| "sql_like (c # p) (x # s) =
     (if c = CHR ''%'' then sql_like p (x # s) \<or> sql_like (c # p) s
      else if c = CHR 0x5C then (case p of [] \<Rightarrow> False | d # q \<Rightarrow> d = x \<and> sql_like q s)
      else (c = CHR ''_'' \<or> c = x) \<and> sql_like p s)"

definition ilike :: "string \<Rightarrow> string \<Rightarrow> bool" where
  "ilike v pattern = sql_like (str_lower pattern) (str_lower v)"

text \<open>A comparison with \<open>NULL\<close> is not true.\<close>

definition sql_some :: "('a \<Rightarrow> bool) \<Rightarrow> 'a option \<Rightarrow> bool" where
  "sql_some P v = (case v of None \<Rightarrow> False | Some x \<Rightarrow> P x)"

text \<open>\<open>ORDER BY ... DESC NULLS LAST\<close>.\<close>

definition sorted_desc_nulls_last :: "('a \<Rightarrow> 'k::linorder option) \<Rightarrow> 'a list \<Rightarrow> 'a list" where
  "sorted_desc_nulls_last k xs =
     sorted_by_desc (\<lambda>x. the (k x)) (filter (\<lambda>x. k x \<noteq> None) xs) @ filter (\<lambda>x. k x = None) xs"

text \<open>A criterion that applies when it is given.\<close>

definition given :: "'b option \<Rightarrow> ('b \<Rightarrow> bool) \<Rightarrow> bool" where
  "given v P = (case v of None \<Rightarrow> True | Some x \<Rightarrow> P x)"

section \<open>Vulnerabilities\<close>

definition advisory_from_orm :: "vendor_advisory \<Rightarrow> exn + vendor_advisory" where
  "advisory_from_orm row = validate_advisory row"

definition vuln_from_orm :: "(string \<Rightarrow> string option) \<Rightarrow> vulnerability \<Rightarrow> exn + vulnerability" where
  "vuln_from_orm u row =
     bindS (mapS (validate_reference u) (map RefStr (vu_references row))) (\<lambda>refs.
     validate_vulnerability (row\<lparr>vu_references := refs\<rparr>))"

definition get_vulnerability :: "(string \<Rightarrow> string option) \<Rightarrow> string \<Rightarrow> ('z, vulnerability option) intel_m" where
  "get_vulnerability u cve_id =
     bindE (getE (\<lambda>w. tbl_get vu_cve_id cve_id (in_vulns w))) (\<lambda>row.
     case row of None \<Rightarrow> returnE None
     | Some r \<Rightarrow> bindE (liftE (vuln_from_orm u r)) (\<lambda>v. returnE (Some v)))"

definition upsert_vulnerability :: "vulnerability \<Rightarrow> ('z, unit) intel_m" where
  "upsert_vulnerability v = modifyE (\<lambda>w. w\<lparr>in_vulns := tbl_upsert vu_cve_id v (in_vulns w)\<rparr>)"

record vulnerability_filter =
  vf_domain :: "domain option"
  vf_kev :: "bool option"
  vf_cvss_gte :: "float64 option"
  vf_epss_gte :: "float64 option"
  vf_vendor :: "string option"
  vf_product :: "string option"

text \<open>\<open>ilike(f"%{s}%")\<close>.\<close>

definition ilike_contains :: "string \<Rightarrow> string \<Rightarrow> bool" where
  "ilike_contains v s = ilike v (''%'' @ s @ ''%'')"

definition product_cve_ids :: "string \<Rightarrow> 'z intel_state_scheme \<Rightarrow> string list" where
  "product_cve_ids product w =
     map lk_cve_id (filter (\<lambda>l. \<exists>p \<in> set (in_products w). pd_id p = lk_product_id l \<and> ilike_contains (pd_name p) product) (in_affected w))"

definition vulnerability_matches :: "vulnerability_filter \<Rightarrow> 'z intel_state_scheme \<Rightarrow> vulnerability \<Rightarrow> bool" where
  "vulnerability_matches f w v \<longleftrightarrow>
     given (vf_domain f) (\<lambda>d. vu_domain_guess v = Some d)
     \<and> given (vf_kev f) (\<lambda>k. vu_kev_listed v = k)
     \<and> given (vf_cvss_gte f) (\<lambda>x. sql_some (\<lambda>s. x \<le> s) (vu_cvss_score v))
     \<and> given (vf_epss_gte f) (\<lambda>x. sql_some (\<lambda>s. x \<le> s) (vu_epss_score v))
     \<and> given (vf_vendor f) (\<lambda>s. sql_some (\<lambda>n. ilike_contains n s) (vu_vendor v))
     \<and> given (vf_product f) (\<lambda>s. vu_cve_id v \<in> set (product_cve_ids s w))"

definition list_vulnerabilities :: "(string \<Rightarrow> string option) \<Rightarrow> vulnerability_filter \<Rightarrow> nat \<Rightarrow> nat \<Rightarrow> ('z, vulnerability list \<times> nat) intel_m" where
  "list_vulnerabilities u f limit offset =
     bindE (getE (\<lambda>w. filter (vulnerability_matches f w) (in_vulns w))) (\<lambda>rows.
     bindE (liftE (mapS (vuln_from_orm u) (take limit (drop offset (sorted_by_desc vu_last_updated_at rows))))) (\<lambda>vs.
     returnE (vs, length rows)))"

section \<open>Source records and history\<close>

definition upsert_source_record :: "vulnerability_source_record \<Rightarrow> ('z, unit) intel_m" where
  "upsert_source_record r =
     bindE (getE (\<lambda>w. filter (\<lambda>x. sr_cve_id x = sr_cve_id r \<and> sr_source x = sr_source r) (in_sources w))) (\<lambda>rows.
     bindE (liftE (scalar_one_or_none rows)) (\<lambda>existing.
     case existing of
       None \<Rightarrow> modifyE (\<lambda>w. w\<lparr>in_sources := in_sources w @ [r]\<rparr>)
     | Some x \<Rightarrow> modifyE (\<lambda>w. w\<lparr>in_sources := tbl_modify (\<lambda>x. (sr_cve_id x, sr_source x)) (sr_cve_id r, sr_source r)
         (\<lambda>x. r\<lparr>sr_first_seen_at := sr_first_seen_at x\<rparr>) (in_sources w)\<rparr>)))"

definition get_sources :: "string \<Rightarrow> ('z, vulnerability_source_record list) intel_m" where
  "get_sources cve_id =
     bindE (getE (\<lambda>w. filter (\<lambda>r. sr_cve_id r = cve_id) (in_sources w))) (\<lambda>rows. liftE (mapS validate_source_record rows))"

definition append_history :: "vulnerability_history_entry list \<Rightarrow> ('z, unit) intel_m" where
  "append_history entries =
     (if entries = [] then returnE () else modifyE (\<lambda>w. w\<lparr>in_history := in_history w @ entries\<rparr>))"

definition get_history :: "string \<Rightarrow> ('z, vulnerability_history_entry list) intel_m" where
  "get_history cve_id =
     bindE (getE (\<lambda>w. sorted_by vh_observed_at (filter (\<lambda>h. vh_cve_id h = cve_id) (in_history w)))) (\<lambda>rows.
     liftE (mapS validate_history_entry rows))"

text \<open>The loop over the history: the values so far and whether any entry was seen.\<close>

fun replay_history :: "vulnerability_history_entry list \<Rightarrow> datetime \<Rightarrow> (string \<rightharpoonup> string option) \<Rightarrow> bool \<Rightarrow> (string \<rightharpoonup> string option) \<times> bool" where
  "replay_history [] moment as_of seen_any = (as_of, seen_any)"
| "replay_history (h # hs) moment as_of seen_any =
     (if vh_observed_at h \<le> moment then replay_history hs moment (as_of(vh_field h \<mapsto> vh_new_value h)) True
      else replay_history hs moment as_of seen_any)"

definition get_vulnerability_as_of :: "string \<Rightarrow> datetime \<Rightarrow> ('z, (string \<rightharpoonup> string option) option) intel_m" where
  "get_vulnerability_as_of cve_id moment =
     bindE (get_history cve_id) (\<lambda>history.
     returnE (case replay_history history moment Map.empty False of (as_of, seen_any) \<Rightarrow> if seen_any then Some as_of else None))"

section \<open>Products and advisories\<close>

definition upsert_product :: "string \<Rightarrow> string \<times> string \<times> string option \<Rightarrow> ('z, unit) intel_m" where
  "upsert_product cve_id p =
     (case p of (vendor, name, version_range) \<Rightarrow>
       bindE (getE (\<lambda>w. filter (\<lambda>x. pd_vendor x = vendor \<and> pd_name x = name) (in_products w))) (\<lambda>rows.
       bindE (liftE (scalar_one_or_none rows)) (\<lambda>existing.
       bindE (case existing of
           Some x \<Rightarrow> returnE (pd_id x)
         | None \<Rightarrow> bindE (getE (\<lambda>w. Suc (length (in_products w)))) (\<lambda>i.
             bindE (modifyE (\<lambda>w. w\<lparr>in_products := in_products w @ [\<lparr>pd_id = i, pd_vendor = vendor, pd_name = name\<rparr>]\<rparr>)) (\<lambda>_. returnE i))) (\<lambda>i.
       bindE (getE (\<lambda>w. filter (\<lambda>l. lk_cve_id l = cve_id \<and> lk_product_id l = i) (in_affected w))) (\<lambda>links.
       bindE (liftE (scalar_one_or_none links)) (\<lambda>link.
       case link of
         None \<Rightarrow> modifyE (\<lambda>w. w\<lparr>in_affected := in_affected w @ [\<lparr>lk_cve_id = cve_id, lk_product_id = i, lk_version_range = version_range\<rparr>]\<rparr>)
       | Some l \<Rightarrow> if version_range = None then returnE ()
           else modifyE (\<lambda>w. w\<lparr>in_affected := tbl_modify (\<lambda>l. (lk_cve_id l, lk_product_id l)) (cve_id, i)
             (\<lambda>l. l\<lparr>lk_version_range := version_range\<rparr>) (in_affected w)\<rparr>)))))))"

definition upsert_products :: "string \<Rightarrow> (string \<times> string \<times> string option) list \<Rightarrow> ('z, unit) intel_m" where
  "upsert_products cve_id products = bindE (mapE (upsert_product cve_id) products) (\<lambda>_. returnE ())"

definition upsert_vendor_advisory :: "vendor_advisory \<Rightarrow> ('z, unit) intel_m" where
  "upsert_vendor_advisory a = modifyE (\<lambda>w. w\<lparr>in_advisories := tbl_upsert va_advisory_id a (in_advisories w)\<rparr>)"

definition get_advisories_for_cve :: "string \<Rightarrow> ('z, vendor_advisory list) intel_m" where
  "get_advisories_for_cve cve_id =
     bindE (getE (\<lambda>w. sorted_desc_nulls_last va_published_at (filter (\<lambda>a. va_cve_id a = Some cve_id) (in_advisories w)))) (\<lambda>rows.
     liftE (mapS advisory_from_orm rows))"

definition list_vendor_advisories :: "vulnerability_source_name option \<Rightarrow> nat \<Rightarrow> ('z, vendor_advisory list) intel_m" where
  "list_vendor_advisories source limit =
     bindE (getE (\<lambda>w. take limit (sorted_desc_nulls_last va_published_at
       (filter (\<lambda>a. given source (\<lambda>s. va_source a = s)) (in_advisories w))))) (\<lambda>rows.
     liftE (mapS advisory_from_orm rows))"

section \<open>Validation candidates and synchronisations\<close>

definition candidate_key :: "validation_candidate \<Rightarrow> string \<times> domain option" where
  "candidate_key c = (vc_cve_id c, vc_domain c)"

definition upsert_validation_candidate :: "validation_candidate \<Rightarrow> ('z, unit) intel_m" where
  "upsert_validation_candidate c =
     bindE (getE (\<lambda>w. filter (\<lambda>x. candidate_key x = candidate_key c) (in_candidates w))) (\<lambda>rows.
     bindE (liftE (scalar_one_or_none rows)) (\<lambda>_.
     modifyE (\<lambda>w. w\<lparr>in_candidates := tbl_upsert candidate_key c (in_candidates w)\<rparr>)))"

definition list_priority_queue :: "domain option \<Rightarrow> support_status option \<Rightarrow> float64 option \<Rightarrow> nat \<Rightarrow> nat \<Rightarrow> ('z, validation_candidate list \<times> nat) intel_m" where
  "list_priority_queue dm support priority_gte limit offset =
     bindE (getE (\<lambda>w. filter (\<lambda>c. given dm (\<lambda>d. vc_domain c = Some d) \<and> given support (\<lambda>s. vc_support_status c = s)
       \<and> given priority_gte (\<lambda>x. x \<le> vc_priority_score c)) (in_candidates w))) (\<lambda>rows.
     bindE (liftE (mapS validate_candidate (take limit (drop offset (sorted_by_desc vc_priority_score rows))))) (\<lambda>cs.
     returnE (cs, length rows)))"

definition save_sync :: "intelligence_sync \<Rightarrow> ('z, unit) intel_m" where
  "save_sync s = modifyE (\<lambda>w. w\<lparr>in_syncs := tbl_upsert is_sync_id s (in_syncs w)\<rparr>)"

definition get_sync :: "string \<Rightarrow> ('z, intelligence_sync option) intel_m" where
  "get_sync sync_id = getE (\<lambda>w. tbl_get is_sync_id sync_id (in_syncs w))"

definition list_syncs :: "nat \<Rightarrow> nat \<Rightarrow> ('z, intelligence_sync list) intel_m" where
  "list_syncs limit offset = getE (\<lambda>w. take limit (drop offset (sorted_by_desc is_started_at (in_syncs w))))"

end
