(* ===== verification/Normalisation.thy ===== *)
theory Normalisation
  imports Vulnerability
begin

text \<open>
  Normalisation of intelligence records (\<open>intelligence/normalisation.py\<close>): what a source returned for one
  item is a JSON object of any shape, and a mapper per source picks the fields of a contribution from it.
  Parsing ISO dates and decimal numbers is the standard library's and a parameter. The mappers store some
  values unchecked, and pydantic checks their types when \<open>merge\<close> builds the models: \<open>typed_contribution\<close> is
  that check. (A number is kept as a float, so the text of a history entry of an integral score is the
  float's.)
\<close>

record raw_intelligence_record =
  ri_source :: vulnerability_source_name
  ri_external_id :: string
  ri_raw :: pydict

text \<open>\<open>datetime.fromisoformat\<close> (the moment, and the date in its own time zone; without one in UTC),
  \<open>date.fromisoformat\<close> and \<open>float\<close> of a string.\<close>

record parse_env =
  pe_datetime :: "string \<Rightarrow> (datetime \<times> pydate) option"
  pe_date :: "string \<Rightarrow> pydate option"
  pe_float :: "string \<Rightarrow> float64 option"

section \<open>Untyped values\<close>

fun py_truthy :: "pyval \<Rightarrow> bool" where
  "py_truthy PNone = False"
| "py_truthy (PBool b) = b"
| "py_truthy (PInt i) = (i \<noteq> 0)"
| "py_truthy (PFloat x) = (x \<noteq> 0)"
| "py_truthy (PStr s) = (s \<noteq> [])"
| "py_truthy (PList vs) = (vs \<noteq> [])"
| "py_truthy (PTuple vs) = (vs \<noteq> [])"
| "py_truthy (PDict d) = (d \<noteq> [])"

text \<open>The elements that \<open>for x in v or []\<close> visits.\<close>

fun py_iter :: "pyval \<Rightarrow> exn + pyval list" where
  "py_iter (PList vs) = Inr vs"
| "py_iter (PTuple vs) = Inr vs"
| "py_iter (PStr s) = Inr (map (\<lambda>c. PStr [c]) s)"
| "py_iter (PDict d) = Inr (map (\<lambda>(k, _). PStr k) d)"
| "py_iter v = (if py_truthy v then Inl (TypeError ''object is not iterable'') else Inr [])"

fun as_dict :: "pyval \<Rightarrow> pydict option" where
  "as_dict (PDict d) = Some d"
| "as_dict _ = None"

text \<open>\<open>s.replace("Z", "+00:00")\<close>.\<close>

definition replace_zulu :: "string \<Rightarrow> string" where
  "replace_zulu s = concat (map (\<lambda>c. if c = CHR ''Z'' then ''+00:00'' else [c]) s)"

section \<open>Shared helpers\<close>

definition normalisation_error :: "vulnerability_source_name \<Rightarrow> string \<Rightarrow> string \<Rightarrow> exn" where
  "normalisation_error source external_id reason =
     OtherError ''NormalisationError'' (''['' @ source_value source @ '':'' @ external_id @ ''] '' @ reason)"

text \<open>\<open>_CVE_ID_RE.match\<close>: the \<open>$\<close> of a Python pattern also matches before a final newline.\<close>

definition cve_id_match :: "string \<Rightarrow> bool" where
  "cve_id_match s \<longleftrightarrow> is_cve_id s \<or> (s \<noteq> [] \<and> last s = CHR 0x0A \<and> is_cve_id (butlast s))"

definition require_cve_id :: "raw_intelligence_record \<Rightarrow> pyval \<Rightarrow> exn + string" where
  "require_cve_id r candidate =
     (let err = normalisation_error (ri_source r) (ri_external_id r) (''missing or malformed CVE ID: '' @ py_repr candidate) in
      if \<not> py_truthy candidate then Inl err
      else case candidate of
          PStr s \<Rightarrow> if cve_id_match s then Inr s else Inl err
        | _ \<Rightarrow> Inl (TypeError ''expected string or bytes-like object''))"

definition parse_datetime_parts :: "parse_env \<Rightarrow> pyval \<Rightarrow> (datetime \<times> pydate) option" where
  "parse_datetime_parts P v =
     (case as_str v of None \<Rightarrow> None | Some s \<Rightarrow> if s = [] then None else pe_datetime P (replace_zulu s))"

definition parse_datetime :: "parse_env \<Rightarrow> pyval \<Rightarrow> datetime option" where
  "parse_datetime P v = map_option fst (parse_datetime_parts P v)"

definition parse_date :: "parse_env \<Rightarrow> pyval \<Rightarrow> pydate option" where
  "parse_date P v =
     (case as_str v of
        None \<Rightarrow> None
      | Some s \<Rightarrow>
          (case (if CHR ''T'' \<in> set s then parse_datetime_parts P v else None) of
             Some (_, d) \<Rightarrow> Some d
           | None \<Rightarrow> pe_date P s))"

text \<open>\<open>_URL_RE.findall\<close> for \<open>https?://[^\s)\]]+\<close>.\<close>

definition url_char :: "char \<Rightarrow> bool" where
  "url_char c \<longleftrightarrow> \<not> is_space c \<and> c \<noteq> CHR '')'' \<and> c \<noteq> CHR '']''"

definition url_at :: "string \<Rightarrow> (string \<times> string) option" where
  "url_at s =
     (case (if prefix ''https://'' s then Some 8 else if prefix ''http://'' s then Some (7::nat) else None) of
        None \<Rightarrow> None
      | Some n \<Rightarrow>
          (let body = takeWhile url_char (drop n s)
           in if body = [] then None else Some (take n s @ body, dropWhile url_char (drop n s))))"

lemma dropWhile_drop_shorter: "0 < n \<Longrightarrow> s \<noteq> [] \<Longrightarrow> length (dropWhile P (drop n s)) < length s"
  using length_dropWhile_le [of P "drop n s"] by (cases s) auto

lemma url_at_shorter: "url_at s = Some (u, rest) \<Longrightarrow> length rest < length s"
  using dropWhile_drop_shorter [of 8 s url_char] dropWhile_drop_shorter [of 7 s url_char]
  by (cases s) (auto simp: url_at_def Let_def split: if_splits)

function url_findall :: "string \<Rightarrow> string list" where
  "url_findall s =
     (if s = [] then []
      else case url_at s of None \<Rightarrow> url_findall (tl s) | Some (u, rest) \<Rightarrow> u # url_findall rest)"
  by pat_completeness auto
termination
  by (relation "measure length") (auto dest: url_at_shorter)

declare url_findall.simps [simp del]

section \<open>Contributions\<close>

record raw_contribution =
  rc_fields :: normalised_contribution
  rc_source_identifier :: pyval
  rc_description :: pyval
  rc_cvss_score :: pyval
  rc_cvss_vector :: pyval

definition blank_contribution :: "string \<Rightarrow> vulnerability_source_name \<Rightarrow> normalised_contribution" where
  "blank_contribution cve_id source =
     \<lparr>nc_cve_id = cve_id, nc_source = source, nc_source_identifier = None, nc_description = None, nc_published_at = None,
      nc_last_modified_at = None, nc_cvss_score = None, nc_cvss_vector = None, nc_cvss_version = None, nc_epss_score = None,
      nc_epss_percentile = None, nc_epss_date = None, nc_kev_listed = None, nc_kev_date_added = None, nc_kev_due_date = None,
      nc_kev_known_ransomware = None, nc_cwe_ids = [], nc_vendor = None, nc_products = [], nc_references = [],
      nc_zero_click_relevance = None\<rparr>"

text \<open>Values of the types \<open>str | None\<close> and \<open>float | None\<close>.\<close>

fun opt_str :: "pyval \<Rightarrow> exn + string option" where
  "opt_str PNone = Inr None"
| "opt_str (PStr s) = Inr (Some s)"
| "opt_str _ = Inl (ValidationError ''Vulnerability'' ''string_type'')"

fun opt_float :: "parse_env \<Rightarrow> pyval \<Rightarrow> exn + float64 option" where
  "opt_float P PNone = Inr None"
| "opt_float P (PFloat x) = Inr (Some x)"
| "opt_float P (PInt i) = Inr (Some (fl (of_int i)))"
| "opt_float P (PBool b) = Inr (Some (if b then 1 else 0))"
| "opt_float P (PStr s) = (case pe_float P s of None \<Rightarrow> Inl (ValidationError ''Vulnerability'' ''float_parsing'') | Some x \<Rightarrow> Inr (Some x))"
| "opt_float P _ = Inl (ValidationError ''Vulnerability'' ''float_type'')"

definition typed_contribution :: "parse_env \<Rightarrow> raw_contribution \<Rightarrow> exn + normalised_contribution" where
  "typed_contribution P r =
     bindS (opt_str (rc_source_identifier r)) (\<lambda>source_identifier.
     bindS (opt_str (rc_description r)) (\<lambda>description.
     bindS (opt_float P (rc_cvss_score r)) (\<lambda>cvss_score.
     bindS (opt_str (rc_cvss_vector r)) (\<lambda>cvss_vector.
     Inr ((rc_fields r)\<lparr>nc_source_identifier := source_identifier, nc_description := description,
       nc_cvss_score := cvss_score, nc_cvss_vector := cvss_vector\<rparr>)))))"

text \<open>A value when it is a string, and the strings among the elements of a list.\<close>

definition str_field :: "pydict \<Rightarrow> string \<Rightarrow> string option" where
  "str_field d k = as_str (dict_get d k)"

definition str_items :: "pyval list \<Rightarrow> string list" where
  "str_items vs = List.map_filter as_str vs"

section \<open>NVD\<close>

fun english_description :: "pyval list \<Rightarrow> pyval" where
  "english_description [] = PNone"
| "english_description (desc # rest) =
     (case as_dict desc of
        None \<Rightarrow> english_description rest
      | Some d \<Rightarrow> if dict_get d ''lang'' = PStr ''en'' then dict_get d ''value'' else english_description rest)"

text \<open>The first metric version with a list whose first entry has CVSS data.\<close>

fun cvss_data :: "pydict \<Rightarrow> (string \<times> string) list \<Rightarrow> (pydict \<times> string) option" where
  "cvss_data metrics [] = None"
| "cvss_data metrics ((key, version) # rest) =
     (case dict_get metrics key of
        PList (e # _) \<Rightarrow>
          (case as_dict e of
             None \<Rightarrow> cvss_data metrics rest
           | Some entry \<Rightarrow>
               (case as_dict (dict_get entry ''cvssData'') of
                  None \<Rightarrow> cvss_data metrics rest
                | Some data \<Rightarrow> Some (data, version)))
      | _ \<Rightarrow> cvss_data metrics rest)"

definition nvd_cwe_ids :: "pyval list \<Rightarrow> exn + string list" where
  "nvd_cwe_ids weaknesses =
     bindS (mapS (\<lambda>w. case as_dict w of
         None \<Rightarrow> Inr []
       | Some d \<Rightarrow> bindS (py_iter (dict_get d ''description'')) (\<lambda>ds.
           Inr (concat (map (\<lambda>x. case as_dict x of None \<Rightarrow> [] | Some e \<Rightarrow> str_items [dict_get e ''value'']) ds)))) weaknesses)
     (\<lambda>xss. Inr (concat xss))"

definition cpe_version_range :: "pydict \<Rightarrow> string option" where
  "cpe_version_range m =
     (let bounds = concat (map (\<lambda>(key, label). if py_truthy (dict_get m key) then [label @ py_str (dict_get m key)] else [])
        [(''versionStartIncluding'', ''>=''), (''versionStartExcluding'', ''>''),
         (''versionEndIncluding'', ''<=''), (''versionEndExcluding'', ''<'')])
      in if bounds = [] then None else Some (str_join '' '' bounds))"

definition cpe_product :: "pyval \<Rightarrow> (string \<times> string \<times> string option) list" where
  "cpe_product v =
     (case as_dict v of
        None \<Rightarrow> []
      | Some m \<Rightarrow>
          if \<not> py_truthy (dict_get_default m ''vulnerable'' (PBool True)) then []
          else (case str_field m ''criteria'' of
                  None \<Rightarrow> []
                | Some cpe_uri \<Rightarrow>
                    (let parts = str_split (CHR '':'') cpe_uri
                     in if length parts < 6 then [] else [(parts ! 3, parts ! 4, cpe_version_range m)])))"

text \<open>The three nested loops over configurations, nodes and matches, skipping what is not an object.\<close>

definition dict_items :: "(pydict \<Rightarrow> exn + 'a list) \<Rightarrow> pyval \<Rightarrow> exn + 'a list" where
  "dict_items f v =
     bindS (py_iter v) (\<lambda>vs.
     bindS (mapS (\<lambda>x. case as_dict x of None \<Rightarrow> Inr [] | Some d \<Rightarrow> f d) vs) (\<lambda>xss. Inr (concat xss)))"

definition extract_nvd_products :: "pydict \<Rightarrow> exn + string option \<times> (string \<times> string \<times> string option) list" where
  "extract_nvd_products raw =
     bindS (dict_items (\<lambda>config. dict_items (\<lambda>node.
         bindS (py_iter (dict_get node ''cpeMatch'')) (\<lambda>ms. Inr (concat (map cpe_product ms)))) (dict_get config ''nodes''))
       (dict_get raw ''configurations'')) (\<lambda>products.
     let vendors = filter (\<lambda>v. v \<noteq> []) (map fst products)
     in Inr (if vendors \<noteq> [] then Some (hd vendors) else if products \<noteq> [] then Some [] else None, products))"

definition normalise_nvd :: "parse_env \<Rightarrow> raw_intelligence_record \<Rightarrow> exn + raw_contribution" where
  "normalise_nvd P r =
     (let raw = ri_raw r in
      bindS (require_cve_id r (dict_get raw ''id'')) (\<lambda>cve_id.
      bindS (py_iter (dict_get raw ''descriptions'')) (\<lambda>descriptions.
      let metrics = (case as_dict (dict_get raw ''metrics'') of None \<Rightarrow> [] | Some d \<Rightarrow> d);
          cvss = cvss_data metrics [(''cvssMetricV31'', ''3.1''), (''cvssMetricV30'', ''3.0''), (''cvssMetricV2'', ''2.0'')]
      in
      bindS (py_iter (dict_get raw ''weaknesses'')) (\<lambda>weaknesses.
      bindS (nvd_cwe_ids weaknesses) (\<lambda>cwe_ids.
      bindS (py_iter (dict_get raw ''references'')) (\<lambda>refs.
      bindS (extract_nvd_products raw) (\<lambda>(vendor, products).
      Inr \<lparr>rc_fields = (blank_contribution cve_id (ri_source r))\<lparr>
             nc_published_at := parse_datetime P (dict_get raw ''published''),
             nc_last_modified_at := parse_datetime P (dict_get raw ''lastModified''),
             nc_cvss_version := map_option snd cvss, nc_cwe_ids := cwe_ids, nc_vendor := vendor, nc_products := products,
             nc_references := concat (map (\<lambda>x. case as_dict x of None \<Rightarrow> [] | Some d \<Rightarrow> str_items [dict_get d ''url'']) refs)\<rparr>,
           rc_source_identifier = dict_get raw ''sourceIdentifier'',
           rc_description = english_description descriptions,
           rc_cvss_score = (case cvss of None \<Rightarrow> PNone | Some (d, _) \<Rightarrow> dict_get d ''baseScore''),
           rc_cvss_vector = (case cvss of None \<Rightarrow> PNone | Some (d, _) \<Rightarrow> dict_get d ''vectorString'')\<rparr>)))))))"

section \<open>CISA KEV and EPSS\<close>

text \<open>A contribution whose unchecked fields are absent or known to be strings.\<close>

definition checked_contribution :: "normalised_contribution \<Rightarrow> string option \<Rightarrow> raw_contribution" where
  "checked_contribution c description =
     \<lparr>rc_fields = c, rc_source_identifier = PNone,
      rc_description = (case description of None \<Rightarrow> PNone | Some s \<Rightarrow> PStr s), rc_cvss_score = PNone, rc_cvss_vector = PNone\<rparr>"

definition normalise_cisa_kev :: "parse_env \<Rightarrow> raw_intelligence_record \<Rightarrow> exn + raw_contribution" where
  "normalise_cisa_kev P r =
     (let raw = ri_raw r in
      bindS (require_cve_id r (dict_get raw ''cveID'')) (\<lambda>cve_id.
      let vendor = str_field raw ''vendorProject''; product = str_field raw ''product'';
          notes = dict_get raw ''notes''
      in
      bindS (if \<not> py_truthy notes then Inr []
             else case as_str notes of None \<Rightarrow> Inl (TypeError ''expected string or bytes-like object'') | Some s \<Rightarrow> Inr (url_findall s)) (\<lambda>references.
      bindS (py_iter (dict_get raw ''cwes'')) (\<lambda>cwes.
      Inr (checked_contribution
        ((blank_contribution cve_id (ri_source r))\<lparr>
           nc_kev_listed := Some True, nc_kev_date_added := parse_date P (dict_get raw ''dateAdded''),
           nc_kev_due_date := parse_date P (dict_get raw ''dueDate''),
           nc_kev_known_ransomware := str_field raw ''knownRansomwareCampaignUse'',
           nc_cwe_ids := str_items cwes, nc_vendor := vendor,
           nc_products := (case (vendor, product) of (Some v, Some p) \<Rightarrow> if v \<noteq> [] \<and> p \<noteq> [] then [(v, p, None)] else [] | _ \<Rightarrow> []),
           nc_references := references\<rparr>) (str_field raw ''shortDescription''))))))"

fun epss_to_float :: "parse_env \<Rightarrow> pyval \<Rightarrow> float64 option" where
  "epss_to_float P (PStr s) = pe_float P s"
| "epss_to_float P (PInt i) = Some (fl (of_int i))"
| "epss_to_float P (PFloat x) = Some x"
| "epss_to_float P (PBool b) = Some (if b then 1 else 0)"
| "epss_to_float P _ = None"

definition normalise_epss :: "parse_env \<Rightarrow> raw_intelligence_record \<Rightarrow> exn + raw_contribution" where
  "normalise_epss P r =
     (let raw = ri_raw r in
      bindS (require_cve_id r (dict_get raw ''cve'')) (\<lambda>cve_id.
      Inr (checked_contribution
        ((blank_contribution cve_id (ri_source r))\<lparr>
           nc_epss_score := epss_to_float P (dict_get raw ''epss''),
           nc_epss_percentile := epss_to_float P (dict_get raw ''percentile''),
           nc_epss_date := parse_date P (dict_get raw ''date'')\<rparr>) None)))"

definition normalise :: "parse_env \<Rightarrow> raw_intelligence_record \<Rightarrow> exn + raw_contribution" where
  "normalise P r =
     (case ri_source r of
        NVD \<Rightarrow> normalise_nvd P r
      | CISA_KEV \<Rightarrow> normalise_cisa_kev P r
      | EPSS \<Rightarrow> normalise_epss P r
      | s \<Rightarrow> Inl (normalisation_error s (ri_external_id r) (''no normaliser registered for source '' @ source_value s)))"

section \<open>Vendor advisories\<close>

text \<open>The first of the two severities with a score.\<close>

definition severity_entry :: "pydict \<Rightarrow> string \<Rightarrow> pydict option" where
  "severity_entry severities key =
     (case as_dict (dict_get severities key) of
        None \<Rightarrow> None
      | Some e \<Rightarrow> if dict_get e ''score'' = PNone then None else Some e)"

text \<open>
  The chosen CVSS object, and whether it is the value of \<open>cvss_v4\<close>: the code compares with \<open>is\<close>, and
  no object at all is identical with a missing \<open>cvss_v4\<close>.
\<close>

definition advisory_cvss :: "pydict \<Rightarrow> pydict option \<times> bool" where
  "advisory_cvss raw =
     (let severities = (case as_dict (dict_get raw ''cvss_severities'') of None \<Rightarrow> [] | Some d \<Rightarrow> d) in
      case severity_entry severities ''cvss_v4'' of
        Some e \<Rightarrow> (Some e, True)
      | None \<Rightarrow>
          (case severity_entry severities ''cvss_v3'' of
             Some e \<Rightarrow> (Some e, False)
           | None \<Rightarrow>
               (case as_dict (dict_get raw ''cvss'') of
                  Some e \<Rightarrow> (Some e, False)
                | None \<Rightarrow> (None, dict_get severities ''cvss_v4'' = PNone))))"

definition advisory_title :: "pydict \<Rightarrow> string \<Rightarrow> exn + string" where
  "advisory_title raw advisory_id =
     (let s = dict_get raw ''summary'' in
      if \<not> py_truthy s then Inr advisory_id
      else case as_str s of None \<Rightarrow> Inl (ValidationError ''VendorAdvisory'' ''title'') | Some t \<Rightarrow> Inr t)"

definition normalise_vendor_advisory :: "parse_env \<Rightarrow> raw_intelligence_record \<Rightarrow> exn + vendor_advisory \<times> raw_contribution option" where
  "normalise_vendor_advisory P r =
     (if ri_source r \<noteq> GITHUB_ADVISORY
      then Inl (normalisation_error (ri_source r) (ri_external_id r) ''not a recognised vendor advisory source'')
      else
        let raw = ri_raw r;
            advisory_id = (if ri_external_id r = [] then ''UNKNOWN'' else ri_external_id r);
            (cvss, is_v4) = advisory_cvss raw;
            linked = (case str_field raw ''cve_id'' of None \<Rightarrow> None | Some c \<Rightarrow> if cve_id_match c then Some c else None)
        in
        bindS (py_iter (dict_get raw ''references'')) (\<lambda>refs.
        bindS (advisory_title raw advisory_id) (\<lambda>title.
        bindS (validate_advisory
          \<lparr>va_advisory_id = advisory_id, va_source = ri_source r, va_cve_id = linked, va_title = title,
           va_summary = str_field raw ''description'', va_severity = str_field raw ''severity'',
           va_published_at = parse_datetime P (dict_get raw ''published_at''),
           va_updated_at = parse_datetime P (dict_get raw ''updated_at''), va_references = str_items refs\<rparr>) (\<lambda>advisory.
        case linked of
          None \<Rightarrow> Inr (advisory, None)
        | Some cve_id \<Rightarrow>
            bindS (py_iter (dict_get raw ''cwes'')) (\<lambda>cwes.
            Inr (advisory, Some
              \<lparr>rc_fields = (blank_contribution cve_id (ri_source r))\<lparr>
                 nc_published_at := va_published_at advisory, nc_last_modified_at := va_updated_at advisory,
                 nc_cvss_version := Some (if is_v4 then ''4.0'' else ''3.1''),
                 nc_cwe_ids := filter (\<lambda>c. c \<noteq> []) (concat (map (\<lambda>x. case as_dict x of None \<Rightarrow> [] | Some d \<Rightarrow> str_items [dict_get d ''cwe_id'']) cwes)),
                 nc_references := str_items refs\<rparr>,
               rc_source_identifier = PStr advisory_id,
               rc_description = (case str_field raw ''summary'' of None \<Rightarrow> PNone | Some s \<Rightarrow> PStr s),
               rc_cvss_score = (case cvss of None \<Rightarrow> PNone | Some d \<Rightarrow> dict_get d ''score''),
               rc_cvss_vector = (case cvss of None \<Rightarrow> PNone | Some d \<Rightarrow> dict_get d ''vector_string'')\<rparr>))))))"

end
