(* ===== verification/Intelligence_Sync.thy ===== *)
theory Intelligence_Sync
  imports Intel_Repository Normalisation Discovery
begin

text \<open>
  Synchronisation of one source (\<open>intelligence/sync_service.py\<close>) and the request that queues one
  (\<open>api/routes/intelligence.py\<close>). A connector is what it fetches: the records it yields and the error
  that ends the iteration, if any. The order in which a Python set is iterated is unspecified: the touched
  identifiers are visited in the order in which they were first touched.
\<close>

record connector =
  cn_source :: vulnerability_source_name
  cn_is_advisory :: bool
  cn_fetch :: "datetime option \<Rightarrow> raw_intelligence_record list \<times> exn option"

datatype record_outcome = Created | Updated | Unchanged

record sync_counts =
  sc_fetched :: nat
  sc_created :: nat
  sc_updated :: nat
  sc_unchanged :: nat
  sc_failed :: nat
  sc_errors :: "string list"
  sc_touched :: "string list"

definition no_counts :: sync_counts where
  "no_counts = \<lparr>sc_fetched = 0, sc_created = 0, sc_updated = 0, sc_unchanged = 0, sc_failed = 0, sc_errors = [], sc_touched = []\<rparr>"

text \<open>\<open>except (NormalisationError, ValidationError)\<close> and \<open>except ConnectorFetchError\<close>; \<open>str(exc)\<close>.\<close>

fun record_error :: "exn \<Rightarrow> bool" where
  "record_error (ValidationError _ _) = True"
| "record_error (OtherError c _) = (c = ''NormalisationError'')"
| "record_error _ = False"

fun fetch_error :: "exn \<Rightarrow> bool" where
  "fetch_error (OtherError c _) = (c = ''ConnectorFetchError'')"
| "fetch_error _ = False"

fun sync_exc_text :: "exn \<Rightarrow> string" where
  "sync_exc_text (ValidationError m f) = ''1 validation error for '' @ m @ '': '' @ f"
| "sync_exc_text (OtherError _ msg) = msg"
| "sync_exc_text _ = []"

section \<open>Experiments by vulnerability\<close>

definition build_experiment_ids_by_cve :: "discovery_env \<Rightarrow> pypath \<Rightarrow> file_tree \<Rightarrow> (string \<rightharpoonup> string list)" where
  "build_experiment_ids_by_cve D experiments_dir fs =
     fold (\<lambda>(cve_id, experiment_id) m. m(cve_id \<mapsto> (case m cve_id of None \<Rightarrow> [] | Some is \<Rightarrow> is) @ [experiment_id]))
       (concat (map (\<lambda>e. map (\<lambda>c. (cve_cve_id c, ed_experiment_id e)) (ed_related_cves e))
         (xd_experiments (discover_experiments D experiments_dir fs)))) Map.empty"

section \<open>One record\<close>

text \<open>From the contribution to the result of the merge; storing it; and the two together.\<close>

definition contribution_result :: "app_env \<Rightarrow> parse_env \<Rightarrow> (string \<Rightarrow> string option) \<Rightarrow> raw_contribution \<Rightarrow> ('z, merge_result) intel_m" where
  "contribution_result E P u rc =
     bindE (get_vulnerability u (nc_cve_id (rc_fields rc))) (\<lambda>existing.
     bindE (utc_now E) (\<lambda>now.
     bindE (liftE (typed_contribution P rc)) (\<lambda>contribution. liftE (merge u existing contribution now))))"

definition store_result :: "string \<Rightarrow> merge_result \<Rightarrow> ('z, unit) intel_m" where
  "store_result cve_id result =
     bindE (upsert_vulnerability (mr_vulnerability result)) (\<lambda>_.
     bindE (upsert_source_record (mr_source_record result)) (\<lambda>_.
     bindE (append_history (mr_history result)) (\<lambda>_.
     if mr_products result = [] then returnE () else upsert_products cve_id (mr_products result))))"

definition sync_contribution :: "app_env \<Rightarrow> parse_env \<Rightarrow> (string \<Rightarrow> string option) \<Rightarrow> raw_contribution \<Rightarrow> ('z, record_outcome \<times> string option) intel_m" where
  "sync_contribution E P u rc =
     bindE (contribution_result E P u rc) (\<lambda>result.
     bindE (store_result (nc_cve_id (rc_fields rc)) result) (\<lambda>_.
     returnE (if mr_is_new result then Created else if mr_history result \<noteq> [] then Updated else Unchanged,
       Some (nc_cve_id (rc_fields rc)))))"

definition sync_record :: "app_env \<Rightarrow> parse_env \<Rightarrow> (string \<Rightarrow> string option) \<Rightarrow> connector \<Rightarrow> raw_intelligence_record
    \<Rightarrow> ('z, record_outcome \<times> string option) intel_m" where
  "sync_record E P u conn r =
     (if cn_is_advisory conn
      then bindE (liftE (normalise_vendor_advisory P r)) (\<lambda>(advisory, contribution).
        bindE (upsert_vendor_advisory advisory) (\<lambda>_.
        case contribution of None \<Rightarrow> returnE (Unchanged, None) | Some rc \<Rightarrow> sync_contribution E P u rc))
      else bindE (liftE (normalise P r)) (sync_contribution E P u))"

fun count_outcome :: "record_outcome \<times> string option \<Rightarrow> sync_counts \<Rightarrow> sync_counts" where
  "count_outcome (k, touched) c =
     (let c' = c\<lparr>sc_fetched := Suc (sc_fetched c),
        sc_touched := (case touched of None \<Rightarrow> sc_touched c
          | Some i \<Rightarrow> if i \<in> set (sc_touched c) then sc_touched c else sc_touched c @ [i])\<rparr>
      in case k of Created \<Rightarrow> c'\<lparr>sc_created := Suc (sc_created c)\<rparr> | Updated \<Rightarrow> c'\<lparr>sc_updated := Suc (sc_updated c)\<rparr>
         | Unchanged \<Rightarrow> c'\<lparr>sc_unchanged := Suc (sc_unchanged c)\<rparr>)"

definition count_failure :: "exn \<Rightarrow> sync_counts \<Rightarrow> sync_counts" where
  "count_failure e c = c\<lparr>sc_fetched := Suc (sc_fetched c), sc_failed := Suc (sc_failed c), sc_errors := sc_errors c @ [sync_exc_text e]\<rparr>"

fun sync_records :: "app_env \<Rightarrow> parse_env \<Rightarrow> (string \<Rightarrow> string option) \<Rightarrow> connector \<Rightarrow> raw_intelligence_record list \<Rightarrow> sync_counts
    \<Rightarrow> ('z, sync_counts) intel_m" where
  "sync_records E P u conn [] c w = (Inr c, w)"
| "sync_records E P u conn (r # rs) c w =
     (case sync_record E P u conn r w of
        (Inr k, w') \<Rightarrow> sync_records E P u conn rs (count_outcome k c) w'
      | (Inl e, w') \<Rightarrow> if record_error e then sync_records E P u conn rs (count_failure e c) w' else (Inl e, w'))"

section \<open>The synchronisation\<close>

definition regenerate_candidate :: "app_env \<Rightarrow> (string \<Rightarrow> string option) \<Rightarrow> (string \<rightharpoonup> string list) \<Rightarrow> priority_weights \<Rightarrow> string \<Rightarrow> ('z, unit) intel_m" where
  "regenerate_candidate E u ids weights cve_id =
     bindE (get_vulnerability u cve_id) (\<lambda>found.
     case found of
       None \<Rightarrow> returnE ()
     | Some v \<Rightarrow>
         let classification = classify_domain v;
             v' = (if vu_domain_guess v \<noteq> dc_domain classification then v\<lparr>vu_domain_guess := dc_domain classification\<rparr> else v)
         in
         bindE (if vu_domain_guess v \<noteq> dc_domain classification then upsert_vulnerability v' else returnE ()) (\<lambda>_.
         if dc_support_status classification = UNSUPPORTED then returnE ()
         else
           bindE (utc_now E) (\<lambda>now.
           bindE (liftE (generate_candidate v' ids weights now)) (\<lambda>candidate.
           case candidate of None \<Rightarrow> returnE () | Some c \<Rightarrow> upsert_validation_candidate c))))"

definition sync_row :: "connector \<Rightarrow> string \<Rightarrow> datetime option \<Rightarrow> datetime \<Rightarrow> datetime option \<Rightarrow> intelligence_sync_status \<Rightarrow> sync_counts
    \<Rightarrow> string option \<Rightarrow> intelligence_sync" where
  "sync_row conn sync_id since started completed st c err =
     \<lparr>is_sync_id = sync_id, is_source = cn_source conn, is_status = st, is_since = since, is_started_at = started,
      is_completed_at = completed, is_fetched_count = sc_fetched c, is_created_count = sc_created c,
      is_updated_count = sc_updated c, is_unchanged_count = sc_unchanged c, is_failed_count = sc_failed c, is_error_summary = err\<rparr>"

definition sync_status :: "sync_counts \<Rightarrow> intelligence_sync_status" where
  "sync_status c =
     (if sc_fetched c = 0 \<or> sc_failed c = 0 then SYNC_COMPLETED
      else if sc_failed c < sc_fetched c then SYNC_PARTIAL else SYNC_FAILED)"

definition run_sync :: "app_env \<Rightarrow> discovery_env \<Rightarrow> parse_env \<Rightarrow> (string \<Rightarrow> string option) \<Rightarrow> connector \<Rightarrow> string \<Rightarrow> datetime option
    \<Rightarrow> pypath option \<Rightarrow> bool \<Rightarrow> priority_weights \<Rightarrow> ('z, intelligence_sync) intel_m" where
  "run_sync E D P u conn sync_id since experiments_dir regenerate_candidates weights =
     bindE (utc_now E) (\<lambda>started_at.
     bindE (save_sync (sync_row conn sync_id since started_at None SYNC_RUNNING no_counts None)) (\<lambda>_.
     bindE (sync_records E P u conn (fst (cn_fetch conn since)) no_counts) (\<lambda>c.
     case snd (cn_fetch conn since) of
       Some e \<Rightarrow>
         if fetch_error e
         then bindE (utc_now E) (\<lambda>completed_at.
           let sync = sync_row conn sync_id since started_at (Some completed_at) SYNC_FAILED c (Some (sync_exc_text e)) in
           bindE (save_sync sync) (\<lambda>_. returnE sync))
         else raiseE e
     | None \<Rightarrow>
         bindE (if regenerate_candidates \<and> sc_touched c \<noteq> []
           then bindE (getE (\<lambda>w. case experiments_dir of None \<Rightarrow> Map.empty | Some dir \<Rightarrow> build_experiment_ids_by_cve D dir (sd_files w))) (\<lambda>ids.
             bindE (mapE (regenerate_candidate E u ids weights) (sc_touched c)) (\<lambda>_. returnE ()))
           else returnE ()) (\<lambda>_.
         bindE (utc_now E) (\<lambda>completed_at.
         let sync = sync_row conn sync_id since started_at (Some completed_at) (sync_status c) c
           (if sc_errors c = [] then None else Some (str_join ''; '' (take 10 (sc_errors c))))
         in bindE (save_sync sync) (\<lambda>_. returnE sync))))))"

section \<open>Requests\<close>

definition SYNC_INITIATED :: string where "SYNC_INITIATED = ''intelligence.sync_initiated''"

definition known_sources :: "vulnerability_source_name list" where
  "known_sources = [CISA_KEV, EPSS, GITHUB_ADVISORY, NVD]"

definition source_of_value :: "string \<Rightarrow> vulnerability_source_name option" where
  "source_of_value s = find (\<lambda>x. source_value x = s) [NVD, CISA_KEV, EPSS, GITHUB_ADVISORY, MANUAL_IMPORT]"

text \<open>\<open>POST /intelligence/sync\<close>: the result is the message that is published.\<close>

definition submit_sync :: "app_env \<Rightarrow> parse_env \<Rightarrow> string option \<Rightarrow> string \<Rightarrow> string option \<Rightarrow> string option
    \<Rightarrow> ('z, string \<times> vulnerability_source_name \<times> datetime option) intel_m" where
  "submit_sync E P token source_text since_text request_id =
     bindE (require_role E [RESEARCHER, ADMIN] token) (\<lambda>u.
     case source_of_value source_text of
       None \<Rightarrow> raiseE (http_error 422 ''unknown_source'')
     | Some source \<Rightarrow>
         if source \<notin> set known_sources then raiseE (http_error 422 ''unregistered_source'')
         else
           bindE (case since_text of
               None \<Rightarrow> returnE None
             | Some s \<Rightarrow> (case pe_datetime P s of
                 None \<Rightarrow> raiseE (http_error 422 ''invalid_since'') | Some (t, _) \<Rightarrow> returnE (Some t))) (\<lambda>since.
           bindE (uuid4_hex E) (\<lambda>h.
           bindE (utc_now E) (\<lambda>now.
           let sync_id = ''SYNC-'' @ h in
           bindE (save_sync \<lparr>is_sync_id = sync_id, is_source = source, is_status = SYNC_QUEUED, is_since = since, is_started_at = now,
             is_completed_at = None, is_fetched_count = 0, is_created_count = 0, is_updated_count = 0, is_unchanged_count = 0,
             is_failed_count = 0, is_error_summary = None\<rparr>) (\<lambda>_.
           bindE (audit_record E (Some (u_user_id u)) (Some (u_username u)) (Some (role_value (u_role u))) SYNC_INITIATED
             (Some ''intelligence_sync'') (Some sync_id) request_id [(''source'', PStr (source_value source))] None None) (\<lambda>_.
           returnE (sync_id, source, since)))))))"

section \<open>Errors a computation can raise\<close>

definition raises :: "(exn \<Rightarrow> bool) \<Rightarrow> ('s, exn, 'a) eff \<Rightarrow> bool" where
  "raises P m \<longleftrightarrow> (\<forall>w e w'. m w = (Inl e, w') \<longrightarrow> P e)"

lemma raisesD: "raises P m \<Longrightarrow> m w = (Inl e, w') \<Longrightarrow> P e"
  by (auto simp: raises_def)

lemma raises_pure: "raises P (returnE x)" "raises P (getE f)" "raises P (modifyE g)"
  by (simp_all add: raises_def app_m_defs)

lemma raises_bind: "raises P m \<Longrightarrow> (\<And>x. raises P (k x)) \<Longrightarrow> raises P (bindE m k)"
  unfolding raises_def bindE_def by (auto split: prod.splits sum.splits)

lemma raises_scalar: "raises (\<lambda>e. e = MultipleResultsFound) (liftE (scalar_one_or_none rows))"
  by (auto simp: raises_def liftE_def scalar_one_or_none_def split: list.splits)

lemma raises_branches:
  "raises P m \<Longrightarrow> raises P n \<Longrightarrow> raises P (if b then m else n)"
  "raises P m \<Longrightarrow> (\<And>x. raises P (k x)) \<Longrightarrow> raises P (case opt of None \<Rightarrow> m | Some x \<Rightarrow> k x)"
  "(\<And>x y. raises P (kp x y)) \<Longrightarrow> raises P (case p of (x, y) \<Rightarrow> kp x y)"
  by (simp_all split: option.split prod.split)

lemma raises_mapE: "(\<And>x. raises P (f x)) \<Longrightarrow> raises P (mapE f xs)"
  by (induction xs) (auto intro!: raises_bind raises_pure)

lemmas raises_rules = raises_pure raises_bind raises_scalar raises_branches raises_mapE

lemma raises_upserts:
  "raises (\<lambda>e. e = MultipleResultsFound) (upsert_source_record r)"
  "raises (\<lambda>e. e = MultipleResultsFound) (append_history h)"
  "raises (\<lambda>e. e = MultipleResultsFound) (upsert_products i ps)"
  unfolding upsert_source_record_def append_history_def upsert_products_def upsert_product_def by (intro raises_rules)+

section \<open>The vulnerabilities table\<close>

definition vulns_kept :: "'z intel_state_scheme \<Rightarrow> 'z intel_state_scheme \<Rightarrow> bool" where
  "vulns_kept w w' \<longleftrightarrow> in_vulns w' = in_vulns w"

interpretation vulns: effect_frame vulns_kept
  by unfold_locales (simp_all add: vulns_kept_def)

lemma vulns_mapE: "(\<And>x. abides vulns_kept (f x)) \<Longrightarrow> abides vulns_kept (mapE f xs)"
  by (induction xs) (auto intro!: vulns.resp_rules)

lemma vulns_modify:
  "abides vulns_kept (modifyE (\<lambda>w. w\<lparr>in_sources := f w\<rparr>))" "abides vulns_kept (modifyE (\<lambda>w. w\<lparr>in_history := g w\<rparr>))"
  "abides vulns_kept (modifyE (\<lambda>w. w\<lparr>in_products := h w\<rparr>))" "abides vulns_kept (modifyE (\<lambda>w. w\<lparr>in_affected := k w\<rparr>))"
  "abides vulns_kept (modifyE (\<lambda>w. w\<lparr>in_advisories := l w\<rparr>))" "abides vulns_kept (modifyE (\<lambda>w. w\<lparr>in_syncs := m w\<rparr>))"
  "abides vulns_kept (modifyE (\<lambda>w. w\<lparr>in_candidates := n w\<rparr>))" "abides vulns_kept (utc_now E)"
  by (simp_all add: abides_def vulns_kept_def app_m_defs)

lemma vulns_upserts:
  "abides vulns_kept (upsert_source_record r)" "abides vulns_kept (append_history h)" "abides vulns_kept (upsert_products i ps)"
  "abides vulns_kept (upsert_vendor_advisory a)" "abides vulns_kept (save_sync s)" "abides vulns_kept (upsert_validation_candidate c)"
  "abides vulns_kept (get_vulnerability u i)"
  unfolding upsert_source_record_def append_history_def upsert_products_def upsert_product_def upsert_vendor_advisory_def save_sync_def
    upsert_validation_candidate_def get_vulnerability_def
  by (intro vulns.resp_rules vulns_mapE vulns_modify)+

lemma length_upsert: "length (tbl_upsert key r t) = (if tbl_get key (key r) t = None then Suc (length t) else length t)"
  by (auto simp: tbl_upsert_def tbl_modify_def split: option.split)

lemma merge_new:
  assumes "merge u existing c now = Inr r"
  shows "mr_is_new r \<longleftrightarrow> existing = None" "vu_cve_id (mr_vulnerability r) = nc_cve_id c"
proof -
  let ?e = "case existing of None \<Rightarrow> blank_vulnerability (nc_cve_id c) now | Some v \<Rightarrow> v"
  obtain refs v where "validate_vulnerability (merged_vulnerability ?e c now refs) = Inr v" "mr_vulnerability r = v" "mr_is_new r = (existing = None)"
    using assms unfolding merge_def Let_def bindS_eq_Inr by auto
  then show "mr_is_new r \<longleftrightarrow> existing = None" "vu_cve_id (mr_vulnerability r) = nc_cve_id c"
    using validated_ids(1) [of "merged_vulnerability ?e c now refs" v] by (simp_all add: merged_vulnerability_def Let_def)
qed

lemma typed_contribution_cve: "typed_contribution P rc = Inr c \<Longrightarrow> nc_cve_id c = nc_cve_id (rc_fields rc)"
  by (auto simp: typed_contribution_def res_simps)

definition rows_added :: "(record_outcome \<times> string option) \<Rightarrow> nat" where
  "rows_added k = (if fst k = Created then 1 else 0)"

text \<open>What one record does to the table: a created outcome adds a row, every other leaves their number.\<close>

lemma contribution_result_rows:
  assumes "contribution_result E P u rc w = (r, w')"
  shows "in_vulns w' = in_vulns w"
    "r = Inr res \<Longrightarrow> mr_is_new res \<longleftrightarrow> tbl_get vu_cve_id (nc_cve_id (rc_fields rc)) (in_vulns w) = None"
    "r = Inr res \<Longrightarrow> vu_cve_id (mr_vulnerability res) = nc_cve_id (rc_fields rc)"
proof -
  have "abides vulns_kept (contribution_result E P u rc)"
    unfolding contribution_result_def by (intro vulns.resp_rules vulns_upserts vulns_modify)
  from abidesD [OF this assms] show "in_vulns w' = in_vulns w" by (simp add: vulns_kept_def)
  show "mr_is_new res \<longleftrightarrow> tbl_get vu_cve_id (nc_cve_id (rc_fields rc)) (in_vulns w) = None"
    "vu_cve_id (mr_vulnerability res) = nc_cve_id (rc_fields rc)" if r: "r = Inr res"
  proof -
    obtain existing w1 now c where g: "get_vulnerability u (nc_cve_id (rc_fields rc)) w = (Inr existing, w1)"
      and c: "typed_contribution P rc = Inr c" and m: "merge u existing c now = Inr res"
      using assms [unfolded r] unfolding contribution_result_def bindE_Inr by (auto simp: liftE_def)
    have "existing = None \<longleftrightarrow> tbl_get vu_cve_id (nc_cve_id (rc_fields rc)) (in_vulns w) = None"
      using g unfolding get_vulnerability_def by (auto simp: app_m_defs split: option.splits sum.splits)
    then show "mr_is_new res \<longleftrightarrow> tbl_get vu_cve_id (nc_cve_id (rc_fields rc)) (in_vulns w) = None"
      "vu_cve_id (mr_vulnerability res) = nc_cve_id (rc_fields rc)"
      using merge_new [OF m] typed_contribution_cve [OF c] by simp_all
  qed
qed

lemma store_result_rows:
  assumes "store_result i res w = (r, w')"
  shows "in_vulns w' = tbl_upsert vu_cve_id (mr_vulnerability res) (in_vulns w)" "r = Inl e \<Longrightarrow> \<not> record_error e"
proof -
  let ?k = "bindE (upsert_source_record (mr_source_record res)) (\<lambda>_. bindE (append_history (mr_history res)) (\<lambda>_.
     if mr_products res = [] then returnE () else upsert_products i (mr_products res)))"
  have k: "?k (w\<lparr>in_vulns := tbl_upsert vu_cve_id (mr_vulnerability res) (in_vulns w)\<rparr>) = (r, w')"
    using assms by (simp add: store_result_def upsert_vulnerability_def bindE_def modifyE_def)
  have "abides vulns_kept ?k" by (intro vulns.resp_rules vulns_upserts)
  from abidesD [OF this k] show "in_vulns w' = tbl_upsert vu_cve_id (mr_vulnerability res) (in_vulns w)" by (simp add: vulns_kept_def)
  have "raises (\<lambda>e. e = MultipleResultsFound) ?k" by (intro raises_rules raises_upserts)
  then have R: "\<forall>w e w'. ?k w = (Inl e, w') \<longrightarrow> e = MultipleResultsFound" by (simp add: raises_def)
  show "\<not> record_error e" if "r = Inl e" using R [rule_format, OF k [unfolded that]] by simp
qed

lemma sync_contribution_rows:
  assumes "sync_contribution E P u rc w = (r, w')"
  shows "r = Inr k \<Longrightarrow> length (in_vulns w') = length (in_vulns w) + rows_added k"
    "r = Inl e \<Longrightarrow> record_error e \<Longrightarrow> length (in_vulns w') = length (in_vulns w)"
proof -
  obtain x w1 where x: "contribution_result E P u rc w = (x, w1)" by (cases "contribution_result E P u rc w")
  note X = contribution_result_rows [OF x]
  show "length (in_vulns w') = length (in_vulns w) + rows_added k" if r: "r = Inr k"
  proof -
    obtain res where res: "x = Inr res" and s: "store_result (nc_cve_id (rc_fields rc)) res w1 = (Inr (), w')"
      and k: "k = (if mr_is_new res then Created else if mr_history res \<noteq> [] then Updated else Unchanged, Some (nc_cve_id (rc_fields rc)))"
      using assms [unfolded r] x unfolding sync_contribution_def bindE_Inr by (auto simp: returnE_def)
    show ?thesis unfolding store_result_rows(1) [OF s] X(1) k using X(2,3) [OF res] by (simp add: length_upsert rows_added_def)
  qed
  show "length (in_vulns w') = length (in_vulns w)" if r: "r = Inl e" "record_error e"
  proof (cases x)
    case (Inl e')
    then show ?thesis using assms x X(1) by (simp add: sync_contribution_def bindE_def)
  next
    case (Inr res)
    obtain y w2 where y: "store_result (nc_cve_id (rc_fields rc)) res w1 = (y, w2)" by (cases "store_result (nc_cve_id (rc_fields rc)) res w1")
    have "y = Inl e" using assms x y Inr r by (cases y) (auto simp: sync_contribution_def bindE_def returnE_def)
    then show ?thesis using store_result_rows(2) [OF y] r(2) by blast
  qed
qed

lemma sync_record_rows:
  assumes "sync_record E P u conn rec w = (r, w')"
  shows "r = Inr k \<Longrightarrow> length (in_vulns w') = length (in_vulns w) + rows_added k"
    "r = Inl e \<Longrightarrow> record_error e \<Longrightarrow> length (in_vulns w') = length (in_vulns w)"
proof -
  consider (failed) e where "r = Inl e" "w' = w"
    | (advisory) a where "r = Inr (Unchanged, None)" "w' = w\<lparr>in_advisories := a\<rparr>"
    | (linked) rc a where "sync_contribution E P u rc (w\<lparr>in_advisories := a\<rparr>) = (r, w')"
    | (plain) rc where "sync_contribution E P u rc w = (r, w')"
    using assms unfolding sync_record_def upsert_vendor_advisory_def
    by (auto simp: app_m_defs split: if_splits sum.splits prod.splits option.splits)
  then have "(\<forall>k. r = Inr k \<longrightarrow> length (in_vulns w') = length (in_vulns w) + rows_added k)
    \<and> (\<forall>e. r = Inl e \<longrightarrow> record_error e \<longrightarrow> length (in_vulns w') = length (in_vulns w))"
  proof cases
    case (failed e)
    then show ?thesis by simp
  next
    case (advisory a)
    then show ?thesis by (simp add: rows_added_def)
  next
    case (linked rc a)
    then show ?thesis using sync_contribution_rows [OF linked] by simp
  next
    case (plain rc)
    then show ?thesis using sync_contribution_rows [OF plain] by simp
  qed
  then show "r = Inr k \<Longrightarrow> length (in_vulns w') = length (in_vulns w) + rows_added k"
    "r = Inl e \<Longrightarrow> record_error e \<Longrightarrow> length (in_vulns w') = length (in_vulns w)" by blast+
qed

definition counts_add_up :: "sync_counts \<Rightarrow> bool" where
  "counts_add_up c \<longleftrightarrow> sc_fetched c = sc_created c + sc_updated c + sc_unchanged c + sc_failed c \<and> length (sc_errors c) = sc_failed c"

lemma count_outcome_adds:
  "counts_add_up c \<Longrightarrow> counts_add_up (count_outcome k c)" "sc_fetched (count_outcome k c) = Suc (sc_fetched c)"
  "sc_created (count_outcome k c) = sc_created c + rows_added k"
  by (cases k; cases "fst k"; simp add: counts_add_up_def rows_added_def)+

lemma count_failure_adds:
  "counts_add_up c \<Longrightarrow> counts_add_up (count_failure e c)" "sc_fetched (count_failure e c) = Suc (sc_fetched c)"
  "sc_created (count_failure e c) = sc_created c"
  by (simp_all add: counts_add_up_def count_failure_def)

lemma sync_records_counts:
  assumes "sync_records E P u conn rs c w = (Inr c', w')" and "counts_add_up c"
  shows "counts_add_up c' \<and> sc_fetched c' = sc_fetched c + length rs
    \<and> length (in_vulns w') + sc_created c = length (in_vulns w) + sc_created c'"
  using assms
proof (induction rs arbitrary: c w)
  case Nil
  then show ?case by simp
next
  case (Cons r rs)
  obtain x w1 where x: "sync_record E P u conn r w = (x, w1)" by (cases "sync_record E P u conn r w")
  show ?case
  proof (cases x)
    case (Inl e)
    with Cons.prems x have e: "record_error e" and rest: "sync_records E P u conn rs (count_failure e c) w1 = (Inr c', w')"
      by (auto split: if_splits)
    show ?thesis
      using Cons.IH [OF rest count_failure_adds(1) [OF Cons.prems(2)]] sync_record_rows(2) [OF x Inl e]
      by (simp add: count_failure_adds)
  next
    case (Inr k)
    with Cons.prems x have rest: "sync_records E P u conn rs (count_outcome k c) w1 = (Inr c', w')" by simp
    show ?thesis
      using Cons.IH [OF rest count_outcome_adds(1) [OF Cons.prems(2)]] sync_record_rows(1) [OF x Inr]
      by (simp add: count_outcome_adds)
  qed
qed

lemma get_vulnerability_found:
  assumes "get_vulnerability u i w = (Inr (Some v), w')"
  shows "w' = w" "vu_cve_id v = i" "tbl_get vu_cve_id i (in_vulns w) \<noteq> None"
proof -
  obtain row where row: "tbl_get vu_cve_id i (in_vulns w) = Some row" "vuln_from_orm u row = Inr v" "w' = w"
    using assms unfolding get_vulnerability_def by (auto simp: app_m_defs split: option.splits sum.splits)
  then obtain refs where "validate_vulnerability (row\<lparr>vu_references := refs\<rparr>) = Inr v"
    unfolding vuln_from_orm_def bindS_eq_Inr by auto
  then have "v = row\<lparr>vu_references := refs\<rparr>" by (rule validated_ids(1))
  then show "w' = w" "vu_cve_id v = i" "tbl_get vu_cve_id i (in_vulns w) \<noteq> None" using row tbl_get_SomeD [OF row(1)] by simp_all
qed

text \<open>Regenerating candidates adds no vulnerability.\<close>

lemma regenerate_candidate_rows:
  assumes "regenerate_candidate E u ids weights i w = (r, w')"
  shows "length (in_vulns w') = length (in_vulns w)"
proof -
  let ?k = "\<lambda>v c. if dc_support_status c = UNSUPPORTED then returnE ()
      else bindE (utc_now E) (\<lambda>now. bindE (liftE (generate_candidate v ids weights now)) (\<lambda>candidate.
        case candidate of None \<Rightarrow> returnE () | Some c \<Rightarrow> upsert_validation_candidate c))"
  have k: "abides vulns_kept (?k v c)" for v c by (intro vulns.resp_rules vulns_upserts vulns_modify)
  obtain x w1 where g: "get_vulnerability u i w = (x, w1)" by (cases "get_vulnerability u i w")
  have w1: "in_vulns w1 = in_vulns w" using abidesD [OF vulns_upserts(7) g] by (simp add: vulns_kept_def)
  show ?thesis
  proof (cases "\<exists>v. x = Inr (Some v)")
    case False
    then have "w' = w1" using assms g by (cases x) (auto simp: regenerate_candidate_def bindE_def returnE_def split: option.splits)
    then show ?thesis using w1 by simp
  next
    case True
    then obtain v where x: "x = Inr (Some v)" by blast
    note F = get_vulnerability_found [OF g [unfolded x]]
    let ?c = "classify_domain v"
    define v' where "v' = (if vu_domain_guess v \<noteq> dc_domain ?c then v\<lparr>vu_domain_guess := dc_domain ?c\<rparr> else v)"
    define w2 where "w2 = (if vu_domain_guess v \<noteq> dc_domain ?c then w1\<lparr>in_vulns := tbl_upsert vu_cve_id v' (in_vulns w1)\<rparr> else w1)"
    have "?k v' ?c w2 = (r, w')"
      using assms g x by (simp add: regenerate_candidate_def Let_def v'_def w2_def upsert_vulnerability_def bindE_def returnE_def modifyE_def split: if_splits)
    from abidesD [OF k this] have "in_vulns w' = in_vulns w2" by (simp add: vulns_kept_def)
    moreover have "length (in_vulns w2) = length (in_vulns w)" using F w1 by (auto simp: w2_def v'_def length_upsert)
    ultimately show ?thesis by simp
  qed
qed

lemma regenerate_candidates_rows:
  "mapE (regenerate_candidate E u ids weights) is w = (r, w') \<Longrightarrow> length (in_vulns w') = length (in_vulns w)"
proof (induction "is" arbitrary: w r w')
  case (Cons i "is")
  obtain x w1 where x: "regenerate_candidate E u ids weights i w = (x, w1)" by (cases "regenerate_candidate E u ids weights i w")
  obtain y w2 where y: "mapE (regenerate_candidate E u ids weights) is w1 = (y, w2)" by (cases "mapE (regenerate_candidate E u ids weights) is w1")
  have "w' = w1 \<or> w' = w2" using Cons.prems x y by (cases x; cases y) (auto simp: bindE_def returnE_def)
  then show ?case using regenerate_candidate_rows [OF x] Cons.IH [OF y] by auto
qed (simp add: returnE_def)

text \<open>
  A synchronisation accounts for every record. If it returns, each record that the connector yielded was
  counted once, as created, updated, unchanged or failed; exactly the created ones added a vulnerability; the
  status is completed, partial or failed by how many failed (failed if the connector gave up); and the row
  stored under its identifier is the one returned, with a completion time.
\<close>

lemma sync_accounts:
  assumes "run_sync E D P u conn sync_id since dir regenerate weights w = (Inr sync, w')"
  shows "is_fetched_count sync = length (fst (cn_fetch conn since))
    \<and> is_fetched_count sync = is_created_count sync + is_updated_count sync + is_unchanged_count sync + is_failed_count sync
    \<and> length (in_vulns w') = length (in_vulns w) + is_created_count sync
    \<and> is_status sync = (if snd (cn_fetch conn since) \<noteq> None then SYNC_FAILED else if is_failed_count sync = 0 then SYNC_COMPLETED
        else if is_failed_count sync < is_fetched_count sync then SYNC_PARTIAL else SYNC_FAILED)
    \<and> tbl_get is_sync_id sync_id (in_syncs w') = Some sync \<and> is_completed_at sync \<noteq> None"
proof -
  let ?rs = "fst (cn_fetch conn since)"
  let ?w1 = "w\<lparr>ap_clock_reads := Suc (ap_clock_reads w),
    in_syncs := tbl_upsert is_sync_id (sync_row conn sync_id since (ae_clock E (ap_clock_reads w)) None SYNC_RUNNING no_counts None) (in_syncs w)\<rparr>"
  obtain x w2 where x: "sync_records E P u conn ?rs no_counts ?w1 = (x, w2)" by (cases "sync_records E P u conn ?rs no_counts ?w1")
  obtain c where c: "x = Inr c"
    using assms x by (cases x) (simp_all add: run_sync_def bindE_def utc_now_def save_sync_def modifyE_def)
  have "counts_add_up no_counts" by (simp add: counts_add_up_def no_counts_def)
  from sync_records_counts [OF x [unfolded c] this]
  have C: "counts_add_up c" "sc_fetched c = length ?rs" "length (in_vulns w2) = length (in_vulns w) + sc_created c"
    by (simp_all add: no_counts_def)
  show ?thesis
  proof (cases "snd (cn_fetch conn since)")
    case (Some e)
    with assms x c obtain t where "sync = sync_row conn sync_id since (ae_clock E (ap_clock_reads w)) (Some t) SYNC_FAILED c (Some (sync_exc_text e))"
      "in_syncs w' = tbl_upsert is_sync_id sync (in_syncs w2)" "in_vulns w' = in_vulns w2"
      by (auto simp: run_sync_def bindE_def utc_now_def save_sync_def modifyE_def returnE_def raiseE_def Let_def split: if_splits)
    then show ?thesis using C Some by (simp add: sync_row_def tbl_get_upsert counts_add_up_def)
  next
    case None
    let ?regen = "if regenerate \<and> sc_touched c \<noteq> []
        then bindE (getE (\<lambda>w. case dir of None \<Rightarrow> Map.empty | Some dir \<Rightarrow> build_experiment_ids_by_cve D dir (sd_files w))) (\<lambda>ids.
          bindE (mapE (regenerate_candidate E u ids weights) (sc_touched c)) (\<lambda>_. returnE ()))
        else returnE ()"
    obtain y w3 where y: "?regen w2 = (y, w3)" by (cases "?regen w2")
    have len: "length (in_vulns w3) = length (in_vulns w2)"
      using y by (auto simp: bindE_def getE_def returnE_def split: if_splits prod.splits sum.splits dest: regenerate_candidates_rows)
    from assms x c None y obtain t err
      where "sync = sync_row conn sync_id since (ae_clock E (ap_clock_reads w)) (Some t) (sync_status c) c err"
        "in_syncs w' = tbl_upsert is_sync_id sync (in_syncs w3)" "in_vulns w' = in_vulns w3"
      by (auto simp: run_sync_def bindE_def [of _ _ w] bindE_def [of _ _ ?w1] bindE_def [of _ _ w2] bindE_def [of _ _ w3] bindE_def utc_now_def save_sync_def
          modifyE_def returnE_def Let_def split: sum.splits)
    then show ?thesis using C None len by (auto simp: sync_row_def tbl_get_upsert counts_add_up_def sync_status_def)
  qed
qed

text \<open>
  An exception of another kind ends the synchronisation without a result, and its row says running for
  ever. One malformed field is enough: a KEV record whose \<open>notes\<close> are not text.
\<close>

lemma sync_left_running:
  assumes "\<not> cn_is_advisory conn" and "fst (cn_fetch conn since) = r # rs" and "ri_source r = CISA_KEV"
    and "dict_get (ri_raw r) ''cveID'' = PStr i" and "cve_id_match i" and "i \<noteq> []"
    and "py_truthy (dict_get (ri_raw r) ''notes'')" and "as_str (dict_get (ri_raw r) ''notes'') = None"
  shows "\<exists>e w'. run_sync E D P u conn sync_id since dir regenerate weights w = (Inl e, w')
    \<and> map_option is_status (tbl_get is_sync_id sync_id (in_syncs w')) = Some SYNC_RUNNING"
proof -
  have "normalise P r = Inl (TypeError ''expected string or bytes-like object'')"
    using assms by (simp add: normalise_def normalise_cisa_kev_def require_cve_id_def Let_def)
  then show ?thesis
    using assms(1,2) by (simp add: run_sync_def bindE_def utc_now_def save_sync_def modifyE_def liftE_def sync_record_def tbl_get_upsert sync_row_def)
qed

definition demo_parse :: parse_env where
  "demo_parse = \<lparr>pe_datetime = (\<lambda>_. None), pe_date = (\<lambda>_. None), pe_float = (\<lambda>_. None)\<rparr>"

definition demo_intel :: intel_state where
  "demo_intel = runs_state.extend demo_runs \<lparr>in_vulns = [], in_sources = [], in_history = [], in_products = [], in_affected = [],
     in_advisories = [], in_candidates = [], in_syncs = []\<rparr>"

text \<open>An EPSS feed with one good record and one without an identifier.\<close>

definition demo_connector :: connector where
  "demo_connector = \<lparr>cn_source = EPSS, cn_is_advisory = False, cn_fetch = (\<lambda>_.
     ([\<lparr>ri_source = EPSS, ri_external_id = ''a'', ri_raw = [(''cve'', PStr ''CVE-2024-0001''), (''epss'', PFloat 1)]\<rparr>,
       \<lparr>ri_source = EPSS, ri_external_id = ''b'', ri_raw = []\<rparr>], None))\<rparr>"

lemma demo_cve: "is_cve_id ''CVE-2024-0001''"
  by code_simp

lemma sync_accounts_example:
  "\<exists>sync w'. run_sync demo_app_env demo_discovery demo_parse Some demo_connector ''SYNC-1'' None None False DEFAULT_WEIGHTS demo_intel = (Inr sync, w')
     \<and> is_fetched_count sync = 2 \<and> is_status sync = SYNC_PARTIAL \<and> length (in_vulns w') = Suc 0"
proof -
  let ?d = demo_connector
  obtain r w' where e: "run_sync demo_app_env demo_discovery demo_parse Some ?d ''SYNC-1'' None None False DEFAULT_WEIGHTS demo_intel = (r, w')"
    by (cases "run_sync demo_app_env demo_discovery demo_parse Some ?d ''SYNC-1'' None None False DEFAULT_WEIGHTS demo_intel")
  have "\<exists>s. r = Inr s \<and> is_created_count s = 1 \<and> is_failed_count s = 1"
    using e
    by (auto simp: run_sync_def demo_connector_def sync_record_def normalise_def normalise_epss_def require_cve_id_def cve_id_match_def demo_cve
        dict_get_def app_m_defs Let_def normalisation_error_def demo_intel_def demo_runs_def runs_state.defs save_sync_def
        sync_contribution_def contribution_result_def get_vulnerability_def checked_contribution_def blank_contribution_def typed_contribution_def
        merge_def merged_history_def blank_vulnerability_def track_def validate_history_entry_def raise_if_def ne_def fromkeys_def
        merged_vulnerability_def validate_vulnerability_def opt_between_def validate_source_record_def contributed_record_def
        store_result_def upsert_vulnerability_def upsert_source_record_def append_history_def better_def truthy_str_def
        scalar_one_or_none_def count_failure_def no_counts_def sync_row_def split: prod.splits sum.splits)
  with e show ?thesis using sync_accounts [of demo_app_env demo_discovery demo_parse Some ?d "''SYNC-1''" None None False DEFAULT_WEIGHTS demo_intel _ w']
    by (auto simp: demo_connector_def demo_intel_def runs_state.defs)
qed

end
