(* ===== verification/Connectors.thy ===== *)
theory Connectors
  imports Intelligence_Sync
begin

text \<open>
  The connectors of the upstream sources (\<open>intelligence/connectors/\<close>): the shared fetch with its retries
  (\<open>http.py\<close>), the four connectors and their health checks (\<open>nvd.py\<close>, \<open>cisa_kev.py\<close>, \<open>epss.py\<close>,
  \<open>github_advisory.py\<close>) and the registry (\<open>registry.py\<close>). The network is a parameter: a client gives for the
  number of requests made before and for a request the response or the exception that \<open>get\<close> raises. A
  connector is a Python generator; here it is the list of what it yields and the exception that ends it, if
  any. The state counts the requests and keeps the waiting times.
\<close>

record http_request =
  hq_url :: string
  hq_params :: "pydict option"
  hq_headers :: "(string \<times> string) list"

text \<open>\<open>hr_json\<close> is what \<open>response.json()\<close> returns, or the message of its \<open>ValueError\<close>; \<open>hr_next\<close> is
  \<open>response.links.get("next", {}).get("url")\<close>.\<close>

record http_response =
  hr_status :: int
  hr_size :: nat
  hr_json :: "string + pyval"
  hr_text :: string
  hr_next :: "string option"

type_synonym http_client = "nat \<Rightarrow> http_request \<Rightarrow> exn + http_response"

record net_state =
  nt_requests :: "http_request list"
  nt_sleeps :: "float64 list"

definition no_requests :: net_state where
  "no_requests = \<lparr>nt_requests = [], nt_sleeps = []\<rparr>"

text \<open>\<open>httpx.TransportError\<close> and its message.\<close>

fun transport_error :: "exn \<Rightarrow> string option" where
  "transport_error (OtherError c msg) = (if c = ''TransportError'' then Some msg else None)"
| "transport_error _ = None"

definition client_get :: "http_client \<Rightarrow> http_request \<Rightarrow> (net_state, exn, http_response) eff" where
  "client_get C q w = (C (length (nt_requests w)) q, w\<lparr>nt_requests := nt_requests w @ [q]\<rparr>)"

definition net_sleep :: "float64 \<Rightarrow> net_state \<Rightarrow> net_state" where
  "net_sleep t w = w\<lparr>nt_sleeps := nt_sleeps w @ [t]\<rparr>"

section \<open>\<open>http.py\<close>\<close>

definition MAX_RESPONSE_BYTES :: nat where "MAX_RESPONSE_BYTES = 25 * 1024 * 1024"
definition RETRYABLE_STATUS_CODES :: "int list" where "RETRYABLE_STATUS_CODES = [429, 500, 502, 503, 504]"

definition connector_error :: "string \<Rightarrow> exn" where
  "connector_error msg = OtherError ''ConnectorFetchError'' msg"

text \<open>A response of status below 300, and one that ends the loop otherwise.\<close>

definition accept_response :: "string \<Rightarrow> http_response \<Rightarrow> exn + pyval" where
  "accept_response url r =
     (if hr_size r > MAX_RESPONSE_BYTES
      then Inl (connector_error (''response from '' @ url @ '' exceeded the '' @ str_nat MAX_RESPONSE_BYTES
        @ ''-byte safety limit ('' @ str_nat (hr_size r) @ '' bytes) - refusing to parse''))
      else case hr_json r of
          Inl exc \<Rightarrow> Inl (connector_error (''response from '' @ url @ '' was not valid JSON: '' @ exc))
        | Inr body \<Rightarrow> Inr body)"

text \<open>One attempt: the result that ends the loop, or the error that is kept as \<open>last_error\<close>.\<close>

definition fetch_attempt :: "string \<Rightarrow> exn + http_response \<Rightarrow> (exn + pyval) + string" where
  "fetch_attempt url got =
     (case got of
        Inl e \<Rightarrow> (case transport_error e of None \<Rightarrow> Inl (Inl e) | Some msg \<Rightarrow> Inr msg)
      | Inr r \<Rightarrow>
          if hr_status r < 300 then Inl (accept_response url r)
          else if hr_status r \<notin> set RETRYABLE_STATUS_CODES
          then Inl (Inl (connector_error (''request to '' @ url @ '' failed with non-retryable status '' @ str_int (hr_status r)
            @ '': '' @ repr_str (take 200 (hr_text r)))))
          else Inr (''request to '' @ url @ '' failed with retryable status '' @ str_int (hr_status r)))"

text \<open>\<open>for attempt in range(max_retries + 1)\<close>, with the attempts that are left; \<open>err\<close> is \<open>str(last_error)\<close>.\<close>

fun fetch_attempts :: "http_client \<Rightarrow> http_request \<Rightarrow> nat \<Rightarrow> float64 \<Rightarrow> nat \<Rightarrow> string \<Rightarrow> (net_state, exn, pyval) eff" where
  "fetch_attempts C q max_retries backoff 0 err w =
     (Inl (connector_error (''request to '' @ hq_url q @ '' failed after '' @ str_nat (Suc max_retries) @ '' attempts: '' @ err)), w)"
| "fetch_attempts C q max_retries backoff (Suc left) err w =
     (case client_get C q w of (got, w1) \<Rightarrow>
       case fetch_attempt (hq_url q) got of
         Inl result \<Rightarrow> (result, w1)
       | Inr msg \<Rightarrow> fetch_attempts C q max_retries backoff left msg
           (if 0 < left then net_sleep (fl (backoff * 2 ^ (max_retries - left))) w1 else w1))"

definition fetch_json :: "http_client \<Rightarrow> string \<Rightarrow> pydict option \<Rightarrow> (string \<times> string) list \<Rightarrow> nat \<Rightarrow> (net_state, exn, pyval) eff" where
  "fetch_json C url params headers max_retries =
     fetch_attempts C \<lparr>hq_url = url, hq_params = params, hq_headers = headers\<rparr> max_retries 1 (Suc max_retries) ''None''"

section \<open>\<open>base.py\<close>\<close>

text \<open>What a generator yields, and the exception that ends it.\<close>

type_synonym fetched = "raw_intelligence_record list \<times> exn option"
type_synonym fetch_m = "net_state \<Rightarrow> fetched \<times> net_state"

definition gen_fail :: "exn \<Rightarrow> fetch_m" where
  "gen_fail e w = (([], Some e), w)"

definition gen_stop :: "fetch_m" where
  "gen_stop w = (([], None), w)"

definition gen_yield :: "raw_intelligence_record list \<Rightarrow> fetch_m \<Rightarrow> fetch_m" where
  "gen_yield rs g w = (case g w of ((rs', e), w') \<Rightarrow> ((rs @ rs', e), w'))"

definition gen_bind :: "(net_state, exn, 'a) eff \<Rightarrow> ('a \<Rightarrow> fetch_m) \<Rightarrow> fetch_m" where
  "gen_bind m g w = (case m w of (Inl e, w') \<Rightarrow> gen_fail e w' | (Inr x, w') \<Rightarrow> g x w')"

lemmas gen_defs = gen_fail_def gen_stop_def gen_yield_def gen_bind_def

record connector_health =
  ch_source :: vulnerability_source_name
  ch_available :: bool
  ch_detail :: "string option"

definition health_of :: "vulnerability_source_name \<Rightarrow> exn + 'a \<Rightarrow> exn + connector_health" where
  "health_of source r =
     (case r of
        Inr _ \<Rightarrow> Inr \<lparr>ch_source = source, ch_available = True, ch_detail = None\<rparr>
      | Inl e \<Rightarrow> if fetch_error e then Inr \<lparr>ch_source = source, ch_available = False, ch_detail = Some (sync_exc_text e)\<rparr> else Inl e)"

text \<open>A \<open>datetime\<close> argument: its wall clock, and its offset from UTC if it is aware.\<close>

record since_arg =
  si_wall :: datetime
  si_offset :: "timedelta option"

definition since_date :: "since_arg \<Rightarrow> pydate" where
  "since_date s = si_wall s div 86400000000"

text \<open>The records of the dictionaries among the items; the identifier is the value of a key.\<close>

definition raw_of :: "vulnerability_source_name \<Rightarrow> string \<Rightarrow> pydict \<Rightarrow> raw_intelligence_record" where
  "raw_of source key d =
     \<lparr>ri_source = source, ri_external_id = py_str (dict_get_default d key (PStr [])), ri_raw = d\<rparr>"

definition raw_records :: "vulnerability_source_name \<Rightarrow> string \<Rightarrow> pyval list \<Rightarrow> raw_intelligence_record list" where
  "raw_records source key items = map (raw_of source key) (List.map_filter as_dict items)"

text \<open>\<open>n >= v\<close>.\<close>

fun nat_ge :: "nat \<Rightarrow> pyval \<Rightarrow> exn + bool" where
  "nat_ge n (PInt i) = Inr (i \<le> int n)"
| "nat_ge n (PBool b) = Inr ((if b then 1 else 0) \<le> n)"
| "nat_ge n (PFloat x) = Inr (x \<le> of_nat n)"
| "nat_ge n v = Inl (TypeError ''not supported between instances'')"

text \<open>Whether the loop breaks: \<open>len(items) == 0 or index >= total\<close>.\<close>

definition last_page :: "pyval list \<Rightarrow> nat \<Rightarrow> pyval \<Rightarrow> exn + bool" where
  "last_page items next_pos count = (if items = [] then Inr True else nat_ge next_pos count)"

section \<open>\<open>nvd.py\<close>\<close>

definition NVD_URL :: string where "NVD_URL = ''https://services.nvd.nist.gov/rest/json/cves/2.0''"
definition NVD_MAX_DATE_WINDOW :: timedelta where "NVD_MAX_DATE_WINDOW = td_days 120"
definition NVD_RESULTS_PER_PAGE :: nat where "NVD_RESULTS_PER_PAGE = 2000"

text \<open>The constructor's arguments; the registry uses the defaults and the environment's key.\<close>

record nvd_connector =
  nv_api_key :: "string option"
  nv_max_pages :: nat
  nv_sleep_between_pages :: float64

definition nvd_headers :: "nvd_connector \<Rightarrow> (string \<times> string) list" where
  "nvd_headers n = (case nv_api_key n of None \<Rightarrow> [] | Some k \<Rightarrow> if k = [] then [] else [(''apiKey'', k)])"

text \<open>\<open>strftime("%Y-%m-%dT%H:%M:%S.000")\<close>.\<close>

definition strftime_ms :: "datetime \<Rightarrow> string" where
  "strftime_ms t =
     (let s = t mod 86400000000 div 1000000
      in date_iso t @ ''T'' @ pad_nat 2 (nat (s div 3600)) @ '':'' @ pad_nat 2 (nat (s div 60 mod 60))
         @ '':'' @ pad_nat 2 (nat (s mod 60)) @ ''.000'')"

definition DATETIME_MAX :: datetime where "DATETIME_MAX = 253402300799999999"

text \<open>\<open>end = min(since + _MAX_DATE_WINDOW, datetime.now(UTC))\<close>, as a wall clock.\<close>

definition nvd_window_end :: "since_arg \<Rightarrow> datetime \<Rightarrow> exn + datetime" where
  "nvd_window_end s now =
     (if si_wall s + NVD_MAX_DATE_WINDOW > DATETIME_MAX then Inl (OtherError ''OverflowError'' ''date value out of range'')
      else case si_offset s of
          None \<Rightarrow> Inl (TypeError ''can't compare offset-naive and offset-aware datetimes'')
        | Some off \<Rightarrow> Inr (if now < si_wall s + NVD_MAX_DATE_WINDOW - off then now else si_wall s + NVD_MAX_DATE_WINDOW))"

definition nvd_params :: "since_arg option \<Rightarrow> datetime \<Rightarrow> exn + pydict" where
  "nvd_params since now =
     (case since of
        None \<Rightarrow> Inr [(''resultsPerPage'', PInt (int NVD_RESULTS_PER_PAGE))]
      | Some s \<Rightarrow> bindS (nvd_window_end s now) (\<lambda>window_end.
          Inr [(''resultsPerPage'', PInt (int NVD_RESULTS_PER_PAGE)), (''lastModStartDate'', PStr (strftime_ms (si_wall s))),
            (''lastModEndDate'', PStr (strftime_ms window_end))]))"

definition nvd_items :: "pyval \<Rightarrow> exn + pyval list \<times> pyval" where
  "nvd_items body =
     (case as_dict body of
        None \<Rightarrow> Inl (connector_error ''NVD response missing expected 'vulnerabilities' key - upstream schema may have changed'')
      | Some d \<Rightarrow>
          (case map_of d ''vulnerabilities'' of
             None \<Rightarrow> Inl (connector_error ''NVD response missing expected 'vulnerabilities' key - upstream schema may have changed'')
           | Some (PList items) \<Rightarrow> Inr (items, dict_get_default d ''totalResults'' (PInt 0))
           | Some _ \<Rightarrow> Inl (connector_error ''NVD 'vulnerabilities' field was not a list'')))"

text \<open>\<open>entry.get("cve") if isinstance(entry, dict) else None\<close>, kept when it is an object.\<close>

definition nvd_records :: "pyval list \<Rightarrow> raw_intelligence_record list" where
  "nvd_records items =
     raw_records NVD ''id'' (map (\<lambda>entry. case as_dict entry of None \<Rightarrow> PNone | Some d \<Rightarrow> dict_get d ''cve'') items)"

text \<open>\<open>for page in range(self._max_pages)\<close>, with the pages that are left.\<close>

fun nvd_pages :: "http_client \<Rightarrow> nvd_connector \<Rightarrow> pydict \<Rightarrow> nat \<Rightarrow> nat \<Rightarrow> fetch_m" where
  "nvd_pages C n params 0 start_index = gen_stop"
| "nvd_pages C n params (Suc left) start_index =
     gen_bind (fetch_json C NVD_URL (Some (params @ [(''startIndex'', PInt (int start_index))])) (nvd_headers n) 3) (\<lambda>body.
     case nvd_items body of
       Inl e \<Rightarrow> gen_fail e
     | Inr (items, count) \<Rightarrow> gen_yield (nvd_records items)
         (case last_page items (start_index + length items) count of
            Inl e \<Rightarrow> gen_fail e
          | Inr True \<Rightarrow> gen_stop
          | Inr False \<Rightarrow> (\<lambda>w. nvd_pages C n params left (start_index + length items)
              (if 0 < left \<and> 0 < nv_sleep_between_pages n then net_sleep (nv_sleep_between_pages n) w else w))))"

definition nvd_fetch :: "http_client \<Rightarrow> nvd_connector \<Rightarrow> datetime \<Rightarrow> since_arg option \<Rightarrow> fetch_m" where
  "nvd_fetch C n now since =
     (case nvd_params since now of Inl e \<Rightarrow> gen_fail e | Inr params \<Rightarrow> nvd_pages C n params (nv_max_pages n) 0)"

definition nvd_health :: "http_client \<Rightarrow> nvd_connector \<Rightarrow> net_state \<Rightarrow> exn + connector_health" where
  "nvd_health C n w = health_of NVD (fst (fetch_json C NVD_URL (Some [(''resultsPerPage'', PInt 1)]) (nvd_headers n) 0 w))"

section \<open>\<open>cisa_kev.py\<close>\<close>

definition CATALOG_URL :: string where
  "CATALOG_URL = ''https://www.cisa.gov/sites/default/files/feeds/known_exploited_vulnerabilities.json''"

definition parse_iso_date :: "parse_env \<Rightarrow> pyval \<Rightarrow> pydate option" where
  "parse_iso_date P v = (case as_str v of None \<Rightarrow> None | Some s \<Rightarrow> pe_date P s)"

text \<open>An entry is passed over only if its date of addition is known and earlier.\<close>

definition kev_wanted :: "parse_env \<Rightarrow> since_arg option \<Rightarrow> pydict \<Rightarrow> bool" where
  "kev_wanted P since entry =
     (case since of None \<Rightarrow> True
      | Some s \<Rightarrow> (case parse_iso_date P (dict_get entry ''dateAdded'') of None \<Rightarrow> True | Some added \<Rightarrow> \<not> added < since_date s))"

definition cisa_kev_fetch :: "http_client \<Rightarrow> parse_env \<Rightarrow> since_arg option \<Rightarrow> fetch_m" where
  "cisa_kev_fetch C P since =
     gen_bind (fetch_json C CATALOG_URL None [] 3) (\<lambda>body.
     case map_option (\<lambda>d. dict_get d ''vulnerabilities'') (as_dict body) of
       Some (PList entries) \<Rightarrow>
         gen_yield (map (raw_of CISA_KEV ''cveID'') (filter (kev_wanted P since) (List.map_filter as_dict entries))) gen_stop
     | _ \<Rightarrow> gen_fail (connector_error ''CISA KEV response missing expected 'vulnerabilities' list - upstream schema may have changed''))"

definition cisa_kev_health :: "http_client \<Rightarrow> net_state \<Rightarrow> exn + connector_health" where
  "cisa_kev_health C w =
     (case fst (fetch_json C CATALOG_URL None [] 0 w) of
        Inl e \<Rightarrow> health_of CISA_KEV (Inl e :: exn + pyval)
      | Inr body \<Rightarrow>
          if (case as_dict body of None \<Rightarrow> True | Some d \<Rightarrow> map_of d ''vulnerabilities'' = None)
          then Inr \<lparr>ch_source = CISA_KEV, ch_available = False, ch_detail = Some ''response missing 'vulnerabilities' key''\<rparr>
          else health_of CISA_KEV (Inr body))"

section \<open>\<open>epss.py\<close>\<close>

definition EPSS_URL :: string where "EPSS_URL = ''https://api.first.org/data/v1/epss''"
definition EPSS_PAGE_LIMIT :: nat where "EPSS_PAGE_LIMIT = 1000"

definition epss_params :: "since_arg option \<Rightarrow> pydict" where
  "epss_params since =
     (''limit'', PInt (int EPSS_PAGE_LIMIT)) # (case since of None \<Rightarrow> [] | Some s \<Rightarrow> [(''date'', PStr (date_iso (si_wall s)))])"

definition epss_items :: "pyval \<Rightarrow> exn + pyval list \<times> pyval" where
  "epss_items body =
     (case as_dict body of
        Some d \<Rightarrow>
          (case dict_get d ''data'' of
             PList items \<Rightarrow> Inr (items, dict_get_default d ''total'' (PInt 0))
           | _ \<Rightarrow> Inl (connector_error ''EPSS response missing expected 'data' list - upstream schema may have changed''))
      | None \<Rightarrow> Inl (connector_error ''EPSS response missing expected 'data' list - upstream schema may have changed''))"

fun epss_pages :: "http_client \<Rightarrow> pydict \<Rightarrow> nat \<Rightarrow> nat \<Rightarrow> fetch_m" where
  "epss_pages C params 0 offset = gen_stop"
| "epss_pages C params (Suc left) offset =
     gen_bind (fetch_json C EPSS_URL (Some (params @ [(''offset'', PInt (int offset))])) [] 3) (\<lambda>body.
     case epss_items body of
       Inl e \<Rightarrow> gen_fail e
     | Inr (items, count) \<Rightarrow> gen_yield (raw_records EPSS ''cve'' items)
         (case last_page items (offset + length items) count of
            Inl e \<Rightarrow> gen_fail e
          | Inr True \<Rightarrow> gen_stop
          | Inr False \<Rightarrow> epss_pages C params left (offset + length items)))"

definition epss_fetch :: "http_client \<Rightarrow> nat \<Rightarrow> since_arg option \<Rightarrow> fetch_m" where
  "epss_fetch C max_pages since = epss_pages C (epss_params since) max_pages 0"

definition epss_health :: "http_client \<Rightarrow> net_state \<Rightarrow> exn + connector_health" where
  "epss_health C w = health_of EPSS (fst (fetch_json C EPSS_URL (Some [(''limit'', PInt 1)]) [] 0 w))"

section \<open>\<open>github_advisory.py\<close>\<close>

definition GITHUB_URL :: string where "GITHUB_URL = ''https://api.github.com/advisories''"

record github_connector =
  gh_token :: "string option"
  gh_max_pages :: nat

definition github_headers :: "github_connector \<Rightarrow> (string \<times> string) list" where
  "github_headers g =
     (''Accept'', ''application/vnd.github+json'') #
     (case gh_token g of None \<Rightarrow> [] | Some t \<Rightarrow> if t = [] then [] else [(''Authorization'', ''Bearer '' @ t)])"

definition github_params :: "since_arg option \<Rightarrow> pydict" where
  "github_params since =
     [(''type'', PStr ''reviewed''), (''per_page'', PInt 100)]
     @ (case since of None \<Rightarrow> [] | Some s \<Rightarrow> [(''updated'', PStr (''>='' @ date_iso (si_wall s)))])"

text \<open>\<open>_get\<close>: one request, no retries.\<close>

definition github_get :: "http_client \<Rightarrow> github_connector \<Rightarrow> string \<Rightarrow> pydict option \<Rightarrow> (net_state, exn, http_response) eff" where
  "github_get C g url params w =
     (case client_get C \<lparr>hq_url = url, hq_params = params, hq_headers = github_headers g\<rparr> w of
        (Inl e, w1) \<Rightarrow>
          (Inl (case transport_error e of None \<Rightarrow> e | Some msg \<Rightarrow> connector_error (''request to '' @ url @ '' failed: '' @ msg)), w1)
      | (Inr r, w1) \<Rightarrow>
          (if hr_status r \<ge> 300
           then Inl (connector_error (''request to '' @ url @ '' failed with status '' @ str_int (hr_status r) @ '': ''
             @ repr_str (take 200 (hr_text r))))
           else Inr r, w1))"

definition github_body :: "http_response \<Rightarrow> exn + pyval list" where
  "github_body r =
     (case hr_json r of
        Inl exc \<Rightarrow> Inl (ValueError exc)
      | Inr (PList body) \<Rightarrow> Inr body
      | Inr _ \<Rightarrow> Inl (connector_error ''GitHub Advisories response was not a list - upstream schema may have changed''))"

fun github_pages :: "http_client \<Rightarrow> github_connector \<Rightarrow> nat \<Rightarrow> string \<Rightarrow> pydict option \<Rightarrow> fetch_m" where
  "github_pages C g 0 url next_params = gen_stop"
| "github_pages C g (Suc left) url next_params =
     gen_bind (github_get C g url next_params) (\<lambda>response.
     case github_body response of
       Inl e \<Rightarrow> gen_fail e
     | Inr body \<Rightarrow> gen_yield (raw_records GITHUB_ADVISORY ''ghsa_id'' body)
         (case hr_next response of
            None \<Rightarrow> gen_stop
          | Some next_url \<Rightarrow> if next_url = [] \<or> body = [] then gen_stop else github_pages C g left next_url None))"

definition github_fetch :: "http_client \<Rightarrow> github_connector \<Rightarrow> since_arg option \<Rightarrow> fetch_m" where
  "github_fetch C g since = github_pages C g (gh_max_pages g) GITHUB_URL (Some (github_params since))"

definition github_health :: "http_client \<Rightarrow> github_connector \<Rightarrow> net_state \<Rightarrow> exn + connector_health" where
  "github_health C g w = health_of GITHUB_ADVISORY (fst (github_get C g GITHUB_URL (Some [(''per_page'', PInt 1)]) w))"

section \<open>\<open>registry.py\<close>\<close>

text \<open>What a connector built by the registry reads: the client, the environment's keys and the clock.\<close>

record connector_env =
  ce_client :: http_client
  ce_parse :: parse_env
  ce_nvd_api_key :: "string option"
  ce_github_token :: "string option"
  ce_now :: datetime
  ce_since_offset :: "timedelta option"

definition default_nvd :: "connector_env \<Rightarrow> nvd_connector" where
  "default_nvd X = \<lparr>nv_api_key = ce_nvd_api_key X, nv_max_pages = 5, nv_sleep_between_pages = 6\<rparr>"

definition default_github :: "connector_env \<Rightarrow> github_connector" where
  "default_github X = \<lparr>gh_token = ce_github_token X, gh_max_pages = 5\<rparr>"

text \<open>A moment and the offset of the argument it came from; a naive one is read as UTC.\<close>

definition since_of :: "connector_env \<Rightarrow> datetime \<Rightarrow> since_arg" where
  "since_of X t = \<lparr>si_wall = t + (case ce_since_offset X of None \<Rightarrow> 0 | Some off \<Rightarrow> off), si_offset = ce_since_offset X\<rparr>"

definition connector_fetch :: "connector_env \<Rightarrow> vulnerability_source_name \<Rightarrow> since_arg option \<Rightarrow> fetch_m" where
  "connector_fetch X source since =
     (case source of
        NVD \<Rightarrow> nvd_fetch (ce_client X) (default_nvd X) (ce_now X) since
      | CISA_KEV \<Rightarrow> cisa_kev_fetch (ce_client X) (ce_parse X) since
      | EPSS \<Rightarrow> epss_fetch (ce_client X) 10 since
      | GITHUB_ADVISORY \<Rightarrow> github_fetch (ce_client X) (default_github X) since
      | MANUAL_IMPORT \<Rightarrow> gen_stop)"

definition build_connector :: "connector_env \<Rightarrow> vulnerability_source_name \<Rightarrow> exn + connector" where
  "build_connector X source =
     (if source \<notin> set known_sources
      then Inl (OtherError ''UnknownConnectorSourceError'' (''no registered connector for source '' @ quoted (source_value source)
        @ ''; known sources: '' @ repr_str_list (sorted_by id (map source_value known_sources))))
      else Inr \<lparr>cn_source = source, cn_is_advisory = (source = GITHUB_ADVISORY),
        cn_fetch = (\<lambda>since. fst (connector_fetch X source (map_option (since_of X) since) no_requests))\<rparr>)"

text \<open>The health checks that \<open>GET /sources\<close> and \<open>GET /integrations\<close> make.\<close>

definition source_health :: "connector_env \<Rightarrow> vulnerability_source_name \<Rightarrow> exn + connector_health" where
  "source_health X source =
     (case source of
        NVD \<Rightarrow> nvd_health (ce_client X) (default_nvd X) no_requests
      | CISA_KEV \<Rightarrow> cisa_kev_health (ce_client X) no_requests
      | EPSS \<Rightarrow> epss_health (ce_client X) no_requests
      | GITHUB_ADVISORY \<Rightarrow> github_health (ce_client X) (default_github X) no_requests
      | MANUAL_IMPORT \<Rightarrow> Inl (OtherError ''UnknownConnectorSourceError'' ''no registered connector''))"

section \<open>One fetch\<close>

definition request_of :: "string \<Rightarrow> pydict option \<Rightarrow> (string \<times> string) list \<Rightarrow> http_request" where
  "request_of url params headers = \<lparr>hq_url = url, hq_params = params, hq_headers = headers\<rparr>"

text \<open>The state after \<open>k + 1\<close> attempts that began with attempt \<open>j\<close>.\<close>

definition after_attempts :: "http_request \<Rightarrow> nat \<Rightarrow> nat \<Rightarrow> net_state \<Rightarrow> net_state" where
  "after_attempts q j k w =
     w\<lparr>nt_requests := nt_requests w @ replicate (Suc k) q, nt_sleeps := nt_sleeps w @ map (\<lambda>i. fl (2 ^ (j + i))) [0..<k]\<rparr>"

definition attempt_of :: "http_client \<Rightarrow> http_request \<Rightarrow> net_state \<Rightarrow> nat \<Rightarrow> (exn + pyval) + string" where
  "attempt_of C q w i = fetch_attempt (hq_url q) (C (length (nt_requests w) + i) q)"

definition attempts_exhausted :: "http_request \<Rightarrow> nat \<Rightarrow> string \<Rightarrow> exn" where
  "attempts_exhausted q max_retries msg =
     connector_error (''request to '' @ hq_url q @ '' failed after '' @ str_nat (Suc max_retries) @ '' attempts: '' @ msg)"

definition attempts_end :: "http_client \<Rightarrow> http_request \<Rightarrow> net_state \<Rightarrow> nat \<Rightarrow> nat \<Rightarrow> nat \<Rightarrow> exn + pyval \<Rightarrow> bool" where
  "attempts_end C q w max_retries left k r \<longleftrightarrow>
     k \<le> left \<and> (\<forall>i<k. \<exists>msg. attempt_of C q w i = Inr msg)
     \<and> (attempt_of C q w k = Inl r \<or> (k = left \<and> (\<exists>msg. attempt_of C q w k = Inr msg \<and> r = Inl (attempts_exhausted q max_retries msg))))"

lemma sleeps_shift: "[fl (2 ^ j)] @ map (\<lambda>i. fl (2 ^ (Suc j + i))) [0..<k] = map (\<lambda>i. fl (2 ^ (j + i))) [0..<Suc k]"
  by (rule nth_equalityI) (auto simp: nth_append nth_Cons simp del: upt_Suc split: nat.split)

lemma fetch_attempts_end:
  assumes "left \<le> max_retries" and "fetch_attempts C q max_retries 1 (Suc left) err w = (r, w')"
  shows "\<exists>k. attempts_end C q w max_retries left k r \<and> w' = after_attempts q (max_retries - left) k w"
  using assms
proof (induction left arbitrary: err w)
  case 0
  then show ?case
    by (auto simp: attempts_end_def after_attempts_def attempt_of_def client_get_def attempts_exhausted_def split: sum.splits)
next
  case (Suc left)
  show ?case
  proof (cases "attempt_of C q w 0")
    case (Inl result)
    with Suc.prems have "r = result" "w' = after_attempts q (max_retries - Suc left) 0 w"
      by (auto simp: attempt_of_def client_get_def after_attempts_def)
    then show ?thesis using Inl by (intro exI [of _ 0]) (simp add: attempts_end_def)
  next
    case (Inr msg)
    define w1 where "w1 = net_sleep (fl (2 ^ (max_retries - Suc left))) (w\<lparr>nt_requests := nt_requests w @ [q]\<rparr>)"
    have shift: "attempt_of C q w1 i = attempt_of C q w (Suc i)" for i
      by (simp add: attempt_of_def w1_def net_sleep_def)
    from Suc.prems Inr have "fetch_attempts C q max_retries 1 (Suc left) msg w1 = (r, w')"
      by (simp add: attempt_of_def client_get_def w1_def)
    from Suc.IH [OF _ this] Suc.prems(1) obtain k
      where k: "attempts_end C q w1 max_retries left k r" "w' = after_attempts q (max_retries - left) k w1" by auto
    have "attempts_end C q w max_retries (Suc left) (Suc k) r"
      using k(1) Inr unfolding attempts_end_def shift by (auto simp: less_Suc_eq_0_disj)
    moreover have "w' = after_attempts q (max_retries - Suc left) (Suc k) w"
    proof -
      have "max_retries - left = Suc (max_retries - Suc left)" using Suc.prems(1) by simp
      then show ?thesis
        unfolding k(2) after_attempts_def w1_def net_sleep_def
        using sleeps_shift [of "max_retries - Suc left" k] by (simp del: upt_Suc add: replicate_append_same)
    qed
    ultimately show ?thesis by blast
  qed
qed

lemma fetch_json_end:
  assumes "fetch_json C url params headers m w = (r, w')"
  shows "\<exists>k. attempts_end C (request_of url params headers) w m m k r \<and> w' = after_attempts (request_of url params headers) 0 k w"
proof -
  have "fetch_attempts C (request_of url params headers) m 1 (Suc m) ''None'' w = (r, w')"
    using assms by (simp add: fetch_json_def request_of_def)
  from fetch_attempts_end [OF order_refl this] show ?thesis by simp
qed

text \<open>
  A fetch retries what may pass and nothing else. It makes some number \<open>k + 1\<close> of identical requests,
  at most one more than the retries allowed; every one but the last failed in a way that is retried (a transport
  error or one of the five status codes); between them it waits 1, 2, 4, ... seconds; and its result is what the last
  response decides, or the exhausted-retries error after the last permitted failure.
\<close>

lemma fetch_json_retries:
  assumes "fetch_json C url params headers max_retries w = (r, w')"
  shows "\<exists>k \<le> max_retries.
    w' = w\<lparr>nt_requests := nt_requests w @ replicate (Suc k) (request_of url params headers),
           nt_sleeps := nt_sleeps w @ map (\<lambda>i. fl (2 ^ i)) [0..<k]\<rparr>
    \<and> (\<forall>i<k. \<exists>msg. attempt_of C (request_of url params headers) w i = Inr msg)
    \<and> (attempt_of C (request_of url params headers) w k = Inl r
       \<or> (k = max_retries \<and> (\<exists>msg. attempt_of C (request_of url params headers) w k = Inr msg
            \<and> r = Inl (attempts_exhausted (request_of url params headers) max_retries msg))))"
  using fetch_json_end [OF assms] by (auto simp: attempts_end_def after_attempts_def)

lemma fetch_json_requests:
  assumes "fetch_json C url params headers m w = (r, w')"
  shows "length (nt_requests w') \<le> length (nt_requests w) + Suc m"
  using fetch_json_end [OF assms] by (auto simp: attempts_end_def after_attempts_def)

lemma fetch_json_answer:
  assumes "C (length (nt_requests w)) (request_of url params headers) = Inr r" and "hr_status r < 300"
    and "hr_size r \<le> MAX_RESPONSE_BYTES" and "hr_json r = Inr body"
  shows "fetch_json C url params headers m w = (Inr body, w\<lparr>nt_requests := nt_requests w @ [request_of url params headers]\<rparr>)"
  using assms by (simp add: fetch_json_def request_of_def client_get_def fetch_attempt_def accept_response_def)

text \<open>A server that is busy once, then answers with an empty object.\<close>

definition demo_answer :: "int \<Rightarrow> pyval \<Rightarrow> http_response" where
  "demo_answer status body = \<lparr>hr_status = status, hr_size = 2, hr_json = Inr body, hr_text = [], hr_next = None\<rparr>"

definition demo_flaky :: http_client where
  "demo_flaky i q = Inr (demo_answer (if i = 0 then 503 else 200) (PDict []))"

lemma fetch_json_retries_example:
  "\<exists>k \<le> 3. snd (fetch_json demo_flaky ''u'' None [] 3 no_requests)
     = no_requests\<lparr>nt_requests := replicate (Suc k) (request_of ''u'' None []), nt_sleeps := map (\<lambda>i. fl (2 ^ i)) [0..<k]\<rparr>
     \<and> attempt_of demo_flaky (request_of ''u'' None []) no_requests k = Inl (Inr (PDict []))"
proof -
  have run: "fetch_json demo_flaky ''u'' None [] 3 no_requests = (Inr (PDict []), snd (fetch_json demo_flaky ''u'' None [] 3 no_requests))"
    by (simp add: fetch_json_def demo_flaky_def demo_answer_def client_get_def fetch_attempt_def accept_response_def no_requests_def
        numeral_3_eq_3 RETRYABLE_STATUS_CODES_def MAX_RESPONSE_BYTES_def net_sleep_def)
  from fetch_json_retries [OF run] show ?thesis by (auto simp: no_requests_def)
qed

section \<open>Paging\<close>

text \<open>The loops ask for at most \<open>max_pages\<close> pages, and a page costs at most four requests.\<close>

definition requests_grow :: "nat \<Rightarrow> fetch_m \<Rightarrow> bool" where
  "requests_grow n g \<longleftrightarrow> (\<forall>w. length (nt_requests (snd (g w))) \<le> length (nt_requests w) + n)"

lemma requests_grow_pure: "requests_grow n (gen_fail e)" "requests_grow n gen_stop"
  by (simp_all add: requests_grow_def gen_defs)

lemma requests_grow_yield: "requests_grow n g \<Longrightarrow> requests_grow n (gen_yield rs g)"
  unfolding requests_grow_def gen_yield_def by (simp add: case_prod_beta)

lemma requests_grow_bind:
  assumes "\<And>w r w'. m w = (r, w') \<Longrightarrow> length (nt_requests w') \<le> length (nt_requests w) + a" and "\<And>x. requests_grow b (g x)"
  shows "requests_grow (a + b) (gen_bind m g)"
  unfolding requests_grow_def
proof
  fix w
  obtain r w' where m: "m w = (r, w')" by (cases "m w")
  show "length (nt_requests (snd (gen_bind m g w))) \<le> length (nt_requests w) + (a + b)"
  proof (cases r)
    case (Inl e)
    then show ?thesis using assms(1) [OF m] by (simp add: gen_bind_def gen_fail_def m)
  next
    case (Inr x)
    have "length (nt_requests (snd (g x w'))) \<le> length (nt_requests w') + b" using assms(2) by (simp add: requests_grow_def)
    then show ?thesis using assms(1) [OF m] Inr by (simp add: gen_bind_def m)
  qed
qed

lemma requests_grow_sleep: "requests_grow n g \<Longrightarrow> requests_grow n (\<lambda>w. g (if b then net_sleep t w else w))"
proof -
  assume g: "requests_grow n g"
  have "length (nt_requests (snd (g (net_sleep t w)))) \<le> length (nt_requests w) + n" for w
    using g [unfolded requests_grow_def, THEN spec [of _ "net_sleep t w"]] by (simp add: net_sleep_def)
  then show "requests_grow n (\<lambda>w. g (if b then net_sleep t w else w))"
    using g by (cases b) (simp_all add: requests_grow_def)
qed

lemma requests_growD: "requests_grow n g \<Longrightarrow> length (nt_requests (snd (g no_requests))) \<le> n"
  unfolding requests_grow_def by (drule spec [of _ no_requests]) (simp add: no_requests_def)

lemma fetch_json_grows: "fetch_json C url params headers 3 w = (r, w') \<Longrightarrow> length (nt_requests w') \<le> length (nt_requests w) + 4"
  using fetch_json_requests by fastforce

lemmas grow_rules = requests_grow_pure requests_grow_yield requests_grow_sleep

lemma nvd_pages_grow: "requests_grow (4 * n) (nvd_pages C v params n start)"
proof (induction n arbitrary: start)
  case (Suc n)
  have "requests_grow (4 + 4 * n) (nvd_pages C v params (Suc n) start)"
    unfolding nvd_pages.simps
    by (rule requests_grow_bind, erule fetch_json_grows) (auto intro!: grow_rules Suc.IH split: sum.split bool.split)
  then show ?case by (simp add: algebra_simps)
qed (simp add: grow_rules)

lemma epss_pages_grow: "requests_grow (4 * n) (epss_pages C params n start)"
proof (induction n arbitrary: start)
  case (Suc n)
  have "requests_grow (4 + 4 * n) (epss_pages C params (Suc n) start)"
    unfolding epss_pages.simps
    by (rule requests_grow_bind, erule fetch_json_grows) (auto intro!: grow_rules Suc.IH split: sum.split bool.split)
  then show ?case by (simp add: algebra_simps)
qed (simp add: grow_rules)

lemma github_get_grows: "github_get C g url params w = (r, w') \<Longrightarrow> length (nt_requests w') \<le> length (nt_requests w) + 1"
  by (auto simp: github_get_def client_get_def split: sum.splits)

lemma github_pages_grow: "requests_grow n (github_pages C g n url params)"
proof (induction n arbitrary: url params)
  case (Suc n)
  have "requests_grow (1 + n) (github_pages C g (Suc n) url params)"
    unfolding github_pages.simps
    by (rule requests_grow_bind, erule github_get_grows) (auto intro!: grow_rules Suc.IH split: sum.split option.split)
  then show ?case by simp
qed (simp add: grow_rules)

lemma cisa_kev_grow: "requests_grow 4 (cisa_kev_fetch C P since)"
proof -
  have "requests_grow (4 + 0) (cisa_kev_fetch C P since)"
    unfolding cisa_kev_fetch_def
    by (rule requests_grow_bind, erule fetch_json_grows) (auto intro!: grow_rules split: option.split pyval.split)
  then show ?thesis by simp
qed

text \<open>
  No source can keep a synchronisation going: whatever the network answers, a connector built by the registry
  ends after at most 20 requests for the NVD, 40 for EPSS, 5 for GitHub and 4 for the KEV catalogue.
\<close>

lemma connectors_bounded:
  "length (nt_requests (snd (connector_fetch X source since no_requests)))
     \<le> (case source of NVD \<Rightarrow> 20 | EPSS \<Rightarrow> 40 | GITHUB_ADVISORY \<Rightarrow> 5 | CISA_KEV \<Rightarrow> 4 | MANUAL_IMPORT \<Rightarrow> 0)"
proof -
  have "requests_grow 20 (nvd_fetch (ce_client X) (default_nvd X) (ce_now X) since)"
    using nvd_pages_grow [of 5] by (auto simp: nvd_fetch_def default_nvd_def intro: grow_rules split: sum.split)
  moreover have "requests_grow 40 (epss_fetch (ce_client X) 10 since)"
    using epss_pages_grow [of 10] by (simp add: epss_fetch_def)
  moreover have "requests_grow 5 (github_fetch (ce_client X) (default_github X) since)"
    using github_pages_grow [of 5] by (simp add: github_fetch_def default_github_def)
  moreover note cisa_kev_grow [of "ce_client X" "ce_parse X" since] and grow_rules(2) [of 0]
  ultimately show ?thesis
    by (cases source) (simp_all add: connector_fetch_def requests_growD, simp add: gen_stop_def no_requests_def)
qed

section \<open>What paging fetches\<close>

text \<open>
  The documented behaviour of the two paged interfaces: a request for a position answers with the next page of
  the items and with how many there are. \<open>base\<close> are the other parameters.
\<close>

definition serves_pages :: "http_client \<Rightarrow> string \<Rightarrow> (string \<times> string) list \<Rightarrow> pydict \<Rightarrow> string \<Rightarrow> nat \<Rightarrow> string \<Rightarrow> string \<Rightarrow> pyval list \<Rightarrow> bool" where
  "serves_pages C url headers base pos width list_key count_key items \<longleftrightarrow>
     (\<forall>i start. \<exists>r. C i (request_of url (Some (base @ [(pos, PInt (int start))])) headers) = Inr r
        \<and> hr_status r = 200 \<and> hr_size r \<le> MAX_RESPONSE_BYTES
        \<and> hr_json r = Inr (PDict [(list_key, PList (take width (drop start items))), (count_key, PInt (int (length items)))]))"

lemma served_page:
  assumes "serves_pages C url headers base pos width list_key count_key items"
  obtains w' where "fetch_json C url (Some (base @ [(pos, PInt (int start))])) headers m w
    = (Inr (PDict [(list_key, PList (take width (drop start items))), (count_key, PInt (int (length items)))]), w')"
proof -
  obtain r where "C (length (nt_requests w)) (request_of url (Some (base @ [(pos, PInt (int start))])) headers) = Inr r"
    and "hr_status r = 200" "hr_size r \<le> MAX_RESPONSE_BYTES"
    and "hr_json r = Inr (PDict [(list_key, PList (take width (drop start items))), (count_key, PInt (int (length items)))])"
    using assms unfolding serves_pages_def by blast
  then have "fetch_json C url (Some (base @ [(pos, PInt (int start))])) headers m w
      = (Inr (PDict [(list_key, PList (take width (drop start items))), (count_key, PInt (int (length items)))]),
         w\<lparr>nt_requests := nt_requests w @ [request_of url (Some (base @ [(pos, PInt (int start))])) headers]\<rparr>)"
    by (intro fetch_json_answer) simp_all
  then show thesis by (rule that)
qed

lemma served_last_page:
  fixes items :: "pyval list"
  assumes "0 < width"
  shows "last_page (take width (drop start items)) (start + length (take width (drop start items))) (PInt (int (length items)))
    = Inr (length items \<le> start + width)"
proof (cases "length items \<le> start")
  case True
  then show ?thesis by (simp add: last_page_def)
next
  case False
  with assms have "take width (drop start items) \<noteq> []" by simp
  then show ?thesis using False by (auto simp: last_page_def min_def)
qed

lemma next_slice: "take width (drop start items) @ take (n * width) (drop (start + width) items) = take (Suc n * width) (drop start items)"
  by (simp add: take_add add.commute)

lemma raw_records_append: "raw_records source key (xs @ ys) = raw_records source key xs @ raw_records source key ys"
  by (simp add: raw_records_def List.map_filter_def)

lemma nvd_records_append: "nvd_records (xs @ ys) = nvd_records xs @ nvd_records ys"
  by (simp add: nvd_records_def raw_records_append)

text \<open>
  Paging by offset: a loop with the pages that are left and the position, against a client that serves pages of
  a width. It yields the records of the first \<open>n\<close> pages.
\<close>

locale offset_paging =
  fixes pages :: "http_client \<Rightarrow> nat \<Rightarrow> nat \<Rightarrow> fetch_m"
    and recs :: "pyval list \<Rightarrow> raw_intelligence_record list"
    and width :: nat
    and serves :: "http_client \<Rightarrow> pyval list \<Rightarrow> bool"
  assumes recs_append: "recs (xs @ ys) = recs xs @ recs ys"
    and no_page: "fst (pages C 0 start w) = ([], None)"
    and one_page: "serves C items \<Longrightarrow> \<exists>w'. fst (pages C (Suc n) start w) =
      (if length items \<le> start + width then (recs (take width (drop start items)), None)
       else (recs (take width (drop start items)) @ fst (fst (pages C n (start + width) w')), snd (fst (pages C n (start + width) w'))))"
begin

lemma recs_Nil: "recs [] = []"
  using recs_append [of "[]" "[]"] by simp

lemma first_pages: "serves C items \<Longrightarrow> fst (pages C n start w) = (recs (take (n * width) (drop start items)), None)"
proof (induction n arbitrary: start w)
  case 0
  then show ?case by (simp add: no_page recs_Nil)
next
  case (Suc n)
  from one_page [OF Suc.prems] obtain w' where w': "fst (pages C (Suc n) start w) =
      (if length items \<le> start + width then (recs (take width (drop start items)), None)
       else (recs (take width (drop start items)) @ fst (fst (pages C n (start + width) w')), snd (fst (pages C n (start + width) w'))))" ..
  show ?case
  proof (cases "length items \<le> start + width")
    case True
    then have "take (Suc n * width) (drop start items) = take width (drop start items)" by simp
    then show ?thesis using w' True by simp
  next
    case False
    then show ?thesis
      using w' Suc.IH [OF Suc.prems, of "start + width" w'] recs_append next_slice [of width start items n] by (metis fst_conv snd_conv)
  qed
qed

end

lemma gen_yield_fst: "fst (gen_yield rs g w) = (rs @ fst (fst (g w)), snd (fst (g w)))"
  by (auto simp: gen_yield_def split: prod.splits)

lemma nvd_served_page:
  assumes "serves_pages C NVD_URL (nvd_headers v) base ''startIndex'' NVD_RESULTS_PER_PAGE ''vulnerabilities'' ''totalResults'' items"
  shows "\<exists>w'. fst (nvd_pages C v base (Suc n) start w) =
    (let page = nvd_records (take NVD_RESULTS_PER_PAGE (drop start items)); rest = fst (nvd_pages C v base n (start + NVD_RESULTS_PER_PAGE) w')
     in if length items \<le> start + NVD_RESULTS_PER_PAGE then (page, None) else (page @ fst rest, snd rest))"
proof -
  let ?page = "take NVD_RESULTS_PER_PAGE (drop start items)"
  let ?body = "PDict [(''vulnerabilities'', PList ?page), (''totalResults'', PInt (int (length items)))]"
  have width: "0 < NVD_RESULTS_PER_PAGE" by (simp add: NVD_RESULTS_PER_PAGE_def)
  obtain w1 where got: "fetch_json C NVD_URL (Some (base @ [(''startIndex'', PInt (int start))])) (nvd_headers v) 3 w = (Inr ?body, w1)"
    using served_page [OF assms] .
  have parsed: "nvd_items ?body = Inr (?page, PInt (int (length items)))" by (simp add: nvd_items_def dict_get_default_def)
  show ?thesis
  proof (cases "length items \<le> start + NVD_RESULTS_PER_PAGE")
    case True
    then show ?thesis using got parsed served_last_page [OF width, of start items]
      by (simp add: gen_bind_def gen_yield_fst gen_stop_def)
  next
    case False
    then have len: "length ?page = NVD_RESULTS_PER_PAGE" by simp
    let ?w = "if 0 < n \<and> 0 < nv_sleep_between_pages v then net_sleep (nv_sleep_between_pages v) w1 else w1"
    show ?thesis
      using got parsed served_last_page [OF width, of start items, unfolded len] False
      by (intro exI [of _ ?w]) (simp add: gen_bind_def gen_yield_fst Let_def len del: length_take)
  qed
qed

lemma epss_served_page:
  assumes "serves_pages C EPSS_URL [] base ''offset'' EPSS_PAGE_LIMIT ''data'' ''total'' items"
  shows "\<exists>w'. fst (epss_pages C base (Suc n) start w) =
    (let page = raw_records EPSS ''cve'' (take EPSS_PAGE_LIMIT (drop start items)); rest = fst (epss_pages C base n (start + EPSS_PAGE_LIMIT) w')
     in if length items \<le> start + EPSS_PAGE_LIMIT then (page, None) else (page @ fst rest, snd rest))"
proof -
  let ?page = "take EPSS_PAGE_LIMIT (drop start items)"
  let ?body = "PDict [(''data'', PList ?page), (''total'', PInt (int (length items)))]"
  have width: "0 < EPSS_PAGE_LIMIT" by (simp add: EPSS_PAGE_LIMIT_def)
  obtain w1 where got: "fetch_json C EPSS_URL (Some (base @ [(''offset'', PInt (int start))])) [] 3 w = (Inr ?body, w1)"
    using served_page [OF assms] .
  have parsed: "epss_items ?body = Inr (?page, PInt (int (length items)))" by (simp add: epss_items_def dict_get_default_def dict_get_def)
  have len: "\<not> length items \<le> start + EPSS_PAGE_LIMIT \<Longrightarrow> length ?page = EPSS_PAGE_LIMIT" by simp
  show ?thesis
    using got parsed served_last_page [OF width, of start items] len
    by (intro exI [of _ w1]) (simp add: gen_bind_def gen_yield_fst gen_stop_def Let_def del: length_take split del: if_split split: if_split)
qed

interpretation nvd_paging: offset_paging "\<lambda>C. nvd_pages C v base" nvd_records NVD_RESULTS_PER_PAGE
    "\<lambda>C. serves_pages C NVD_URL (nvd_headers v) base ''startIndex'' NVD_RESULTS_PER_PAGE ''vulnerabilities'' ''totalResults''"
  for v :: nvd_connector and base :: pydict
  by unfold_locales (simp add: nvd_records_append, simp add: gen_stop_def, erule nvd_served_page [unfolded Let_def])

interpretation epss_paging: offset_paging "\<lambda>C. epss_pages C base" "raw_records EPSS ''cve''" EPSS_PAGE_LIMIT
    "\<lambda>C. serves_pages C EPSS_URL [] base ''offset'' EPSS_PAGE_LIMIT ''data'' ''total''"
  for base :: pydict
  by unfold_locales (simp add: raw_records_append, simp add: gen_stop_def, erule epss_served_page [unfolded Let_def])

text \<open>
  What a full synchronisation fetches. Against sources that serve their items page by page, the connectors
  of the registry yield, in order and without an error, the records of the first 10,000 items of the NVD (of some
  380,000) and of EPSS (of more than 250,000): everything exactly when there are no more than that.
\<close>

lemma full_sync_fetches_first_pages:
  assumes "build_connector X NVD = Inr nvd" and "build_connector X EPSS = Inr epss"
    and "serves_pages (ce_client X) NVD_URL (nvd_headers (default_nvd X)) [(''resultsPerPage'', PInt 2000)] ''startIndex'' 2000
      ''vulnerabilities'' ''totalResults'' cves"
    and "serves_pages (ce_client X) EPSS_URL [] [(''limit'', PInt 1000)] ''offset'' 1000 ''data'' ''total'' scores"
  shows "cn_fetch nvd None = (nvd_records (take 10000 cves), None)
    \<and> cn_fetch epss None = (raw_records EPSS ''cve'' (take 10000 scores), None)"
proof
  show "cn_fetch nvd None = (nvd_records (take 10000 cves), None)"
    using assms(1,3) nvd_paging.first_pages [of "ce_client X" "default_nvd X" "[(''resultsPerPage'', PInt 2000)]" cves 5 0 no_requests]
    by (auto simp: build_connector_def known_sources_def connector_fetch_def nvd_fetch_def nvd_params_def NVD_RESULTS_PER_PAGE_def default_nvd_def)
  show "cn_fetch epss None = (raw_records EPSS ''cve'' (take 10000 scores), None)"
    using assms(2,4) epss_paging.first_pages [of "ce_client X" "[(''limit'', PInt 1000)]" scores 10 0 no_requests]
    by (auto simp: build_connector_def known_sources_def connector_fetch_def epss_fetch_def epss_params_def EPSS_PAGE_LIMIT_def)
qed

text \<open>A server of both interfaces with one item each.\<close>

definition page_at :: "string \<Rightarrow> pydict \<Rightarrow> pyval list \<Rightarrow> nat \<Rightarrow> pyval list" where
  "page_at pos params items width =
     (case as_int (dict_get params pos) of None \<Rightarrow> [] | Some i \<Rightarrow> take width (drop (nat i) items))"

definition demo_cves :: "pyval list" where "demo_cves = [PDict [(''cve'', PDict [(''id'', PStr ''CVE-2024-0001'')])]]"
definition demo_scores :: "pyval list" where "demo_scores = [PDict [(''cve'', PStr ''CVE-2024-0001'')]]"

definition demo_pages :: http_client where
  "demo_pages i q = Inr (demo_answer 200 (
     let params = (case hq_params q of None \<Rightarrow> [] | Some d \<Rightarrow> d) in
     if hq_url q = NVD_URL
     then PDict [(''vulnerabilities'', PList (page_at ''startIndex'' params demo_cves 2000)), (''totalResults'', PInt (int (length demo_cves)))]
     else PDict [(''data'', PList (page_at ''offset'' params demo_scores 1000)), (''total'', PInt (int (length demo_scores)))]))"

definition demo_connectors :: connector_env where
  "demo_connectors = \<lparr>ce_client = demo_pages, ce_parse = demo_parse, ce_nvd_api_key = None, ce_github_token = None, ce_now = 0,
     ce_since_offset = None\<rparr>"

lemma full_sync_fetches_first_pages_example:
  "\<exists>nvd epss. build_connector demo_connectors NVD = Inr nvd \<and> build_connector demo_connectors EPSS = Inr epss
     \<and> cn_fetch nvd None = (nvd_records demo_cves, None) \<and> cn_fetch epss None = (raw_records EPSS ''cve'' demo_scores, None)
     \<and> length (nvd_records demo_cves) = 1"
proof -
  obtain nvd epss where b: "build_connector demo_connectors NVD = Inr nvd" "build_connector demo_connectors EPSS = Inr epss"
    by (simp add: build_connector_def known_sources_def)
  have "serves_pages (ce_client demo_connectors) NVD_URL (nvd_headers (default_nvd demo_connectors)) [(''resultsPerPage'', PInt 2000)] ''startIndex'' 2000
      ''vulnerabilities'' ''totalResults'' demo_cves"
    and "serves_pages (ce_client demo_connectors) EPSS_URL [] [(''limit'', PInt 1000)] ''offset'' 1000 ''data'' ''total'' demo_scores"
    by (simp_all add: serves_pages_def demo_connectors_def demo_pages_def demo_answer_def request_of_def page_at_def dict_get_def
        MAX_RESPONSE_BYTES_def NVD_URL_def EPSS_URL_def)
  from full_sync_fetches_first_pages [OF b this] b show ?thesis
    by (auto simp: demo_cves_def demo_scores_def nvd_records_def raw_records_def dict_get_def List.map_filter_def)
qed

section \<open>Incremental synchronisation of the NVD\<close>

text \<open>
  The window that is asked for ends at most 120 days after its start: an older start leaves out what changed
  since then, up to now, and the synchronisation does not ask for a second window.
\<close>

lemma nvd_window_covers:
  assumes "si_offset s = Some off" and "si_wall s + NVD_MAX_DATE_WINDOW \<le> DATETIME_MAX"
  shows "nvd_window_end s now = Inr (if now < si_wall s - off + NVD_MAX_DATE_WINDOW then now else si_wall s + NVD_MAX_DATE_WINDOW)"
  using assms by (simp add: nvd_window_end_def algebra_simps)

text \<open>A naive start cannot be compared with the clock; the connector raises before it asks for anything.\<close>

lemma naive_since_raises:
  assumes "si_offset s = None" and "si_wall s + NVD_MAX_DATE_WINDOW \<le> DATETIME_MAX"
  shows "nvd_fetch C n now (Some s) w = (([], Some (TypeError ''can't compare offset-naive and offset-aware datetimes'')), w)"
  using assms by (simp add: nvd_fetch_def nvd_params_def nvd_window_end_def gen_fail_def)

section \<open>Errors that are not fetch errors\<close>

text \<open>
  Two answers of status 200 end a generator with an exception that is not a \<open>ConnectorFetchError\<close>: a body
  from GitHub that is not JSON, and a number of results that is not a number.
\<close>

lemma github_bad_json:
  assumes "C (length (nt_requests w)) (request_of GITHUB_URL (Some (github_params since)) (github_headers g)) = Inr r"
    and "hr_status r < 300" and "hr_json r = Inl exc" and "0 < gh_max_pages g"
  shows "fst (github_fetch C g since w) = ([], Some (ValueError exc))"
  using assms by (cases "gh_max_pages g")
    (simp_all add: github_fetch_def gen_bind_def github_get_def client_get_def request_of_def github_body_def gen_fail_def)

lemma null_count_raises: "items \<noteq> [] \<Longrightarrow> last_page items n PNone = Inl (TypeError ''not supported between instances'')"
  by (simp add: last_page_def)

text \<open>Every other exception of the KEV connector and of the two paged ones is a fetch error, if the client raises only transport errors.\<close>

definition only_transport_errors :: "http_client \<Rightarrow> bool" where
  "only_transport_errors C \<longleftrightarrow> (\<forall>i q e. C i q = Inl e \<longrightarrow> transport_error e \<noteq> None)"

lemma fetch_error_connector_error [simp]: "fetch_error (connector_error msg)"
  by (simp add: connector_error_def)

lemma fetch_attempt_errors:
  assumes "only_transport_errors C" and "fetch_attempt url (C i q) = Inl (Inl e)"
  shows "fetch_error e"
  using assms by (cases "C i q") (fastforce simp: fetch_attempt_def accept_response_def only_transport_errors_def split: sum.splits option.splits if_splits)+

lemma fetch_json_errors:
  assumes "only_transport_errors C" and "fetch_json C url params headers m w = (Inl e, w')"
  shows "fetch_error e"
  using fetch_json_end [OF assms(2)] fetch_attempt_errors [OF assms(1)]
  by (auto simp: attempts_end_def attempt_of_def attempts_exhausted_def)

lemma github_get_errors:
  assumes "only_transport_errors C" and "github_get C g url params w = (Inl e, w')"
  shows "fetch_error e"
  using assms by (fastforce simp: github_get_def client_get_def only_transport_errors_def split: sum.splits option.splits if_splits)

lemma health_of_total: "(\<And>e. r = Inl e \<Longrightarrow> fetch_error e) \<Longrightarrow> \<exists>h. health_of source r = Inr h \<and> ch_source h = source"
  by (cases r) (simp_all add: health_of_def)

text \<open>A health check never raises and is about the source it was asked for.\<close>

lemma connector_health_total:
  assumes C: "only_transport_errors (ce_client X)" and "source \<in> set known_sources"
  shows "\<exists>h. source_health X source = Inr h \<and> ch_source h = source"
proof -
  have F: "fst (fetch_json (ce_client X) url params headers m w) = Inl e \<Longrightarrow> fetch_error e" for url params headers m w e
    using fetch_json_errors [OF C] by (metis prod.collapse)
  have G: "fst (github_get (ce_client X) g url params w) = Inl e \<Longrightarrow> fetch_error e" for g url params w e
    using github_get_errors [OF C] by (metis prod.collapse)
  have H: "\<exists>h. cisa_kev_health (ce_client X) no_requests = Inr h \<and> ch_source h = CISA_KEV"
    unfolding cisa_kev_health_def using F by (auto simp: health_of_def split: sum.split)
  have "\<exists>h. nvd_health (ce_client X) n no_requests = Inr h \<and> ch_source h = NVD" for n
    unfolding nvd_health_def by (rule health_of_total) (rule F)
  moreover have "\<exists>h. epss_health (ce_client X) no_requests = Inr h \<and> ch_source h = EPSS"
    unfolding epss_health_def by (rule health_of_total) (rule F)
  moreover have "\<exists>h. github_health (ce_client X) g no_requests = Inr h \<and> ch_source h = GITHUB_ADVISORY" for g
    unfolding github_health_def by (rule health_of_total) (rule G)
  ultimately show ?thesis using H assms(2) by (cases source) (simp_all add: source_health_def known_sources_def)
qed

end
