(* ===== verification/Intelligence_Routes.thy ===== *)
theory Intelligence_Routes
  imports Connectors
begin

text \<open>
  The routes that read the threat intelligence (\<open>api/routes/intelligence.py\<close>, with their response models
  from \<open>api/schemas.py\<close>) and the worker that runs queued synchronisations
  (\<open>worker/intelligence_main.py\<close>, \<open>intelligence/messaging.py\<close>). A request whose parameters are out of
  range is answered with 422 after the dependencies, so after the session was looked up.
\<close>

section \<open>Response models\<close>

record vulnerability_summary =
  vs_cve_id :: string
  vs_description :: "string option"
  vs_cvss_score :: "float64 option"
  vs_epss_score :: "float64 option"
  vs_kev_listed :: bool
  vs_vendor :: "string option"
  vs_domain_guess :: "string option"
  vs_sources :: "string list"
  vs_last_updated_at :: string

record vulnerability_list_response =
  vl_vulnerabilities :: "vulnerability_summary list"
  vl_total :: nat
  vl_limit :: nat
  vl_offset :: nat

record vulnerability_source_detail =
  vd_source :: string
  vd_source_identifier :: "string option"
  vd_cvss_score :: "float64 option"
  vd_cvss_vector :: "string option"
  vd_epss_score :: "float64 option"
  vd_kev_listed :: "bool option"
  vd_description :: "string option"
  vd_references :: "string list"
  vd_first_seen_at :: string
  vd_last_seen_at :: string

record vulnerability_detail_response = vulnerability_summary +
  vs_published_at :: "string option"
  vs_last_modified_at :: "string option"
  vs_cvss_vector :: "string option"
  vs_cvss_version :: "string option"
  vs_epss_percentile :: "float64 option"
  vs_kev_date_added :: "string option"
  vs_kev_due_date :: "string option"
  vs_cwe_ids :: "string list"
  vs_references :: "string list"
  vs_source_records :: "vulnerability_source_detail list"

record history_entry_response =
  hy_source :: string
  hy_field :: string
  hy_old_value :: "string option"
  hy_new_value :: "string option"
  hy_observed_at :: string

record vendor_advisory_response =
  ar_advisory_id :: string
  ar_source :: string
  ar_cve_id :: "string option"
  ar_title :: string
  ar_summary :: "string option"
  ar_severity :: "string option"
  ar_published_at :: "string option"
  ar_updated_at :: "string option"
  ar_references :: "string list"

record validation_candidate_response =
  vr_cve_id :: string
  vr_domain :: "string option"
  vr_support_status :: string
  vr_priority_score :: float64
  vr_priority_label :: string
  vr_explanation :: "string list"
  vr_existing_experiment_ids :: "string list"
  vr_generated_at :: string

record priority_queue_response =
  pq_candidates :: "validation_candidate_response list"
  pq_total :: nat
  pq_limit :: nat
  pq_offset :: nat

record connector_health_response =
  hh_source :: string
  hh_available :: bool
  hh_detail :: "string option"
  hh_checked_at :: string

record sync_status_response =
  ys_sync_id :: string
  ys_source :: string
  ys_status :: string
  ys_since :: "string option"
  ys_started_at :: string
  ys_completed_at :: "string option"
  ys_fetched_count :: nat
  ys_created_count :: nat
  ys_updated_count :: nat
  ys_unchanged_count :: nat
  ys_failed_count :: nat
  ys_error_summary :: "string option"

fun sync_status_value :: "intelligence_sync_status \<Rightarrow> string" where
  "sync_status_value SYNC_QUEUED = ''queued''"
| "sync_status_value SYNC_RUNNING = ''running''"
| "sync_status_value SYNC_COMPLETED = ''completed''"
| "sync_status_value SYNC_PARTIAL = ''partial''"
| "sync_status_value SYNC_FAILED = ''failed''"

section \<open>From the models to the responses\<close>

definition vuln_summary :: "vulnerability \<Rightarrow> vulnerability_summary" where
  "vuln_summary v =
     \<lparr>vs_cve_id = vu_cve_id v, vs_description = vu_description v, vs_cvss_score = vu_cvss_score v, vs_epss_score = vu_epss_score v,
      vs_kev_listed = vu_kev_listed v, vs_vendor = vu_vendor v, vs_domain_guess = map_option domain_value (vu_domain_guess v),
      vs_sources = map source_value (vu_sources v), vs_last_updated_at = datetime_iso (vu_last_updated_at v)\<rparr>"

definition source_detail :: "vulnerability_source_record \<Rightarrow> vulnerability_source_detail" where
  "source_detail s =
     \<lparr>vd_source = source_value (sr_source s), vd_source_identifier = sr_source_identifier s, vd_cvss_score = sr_cvss_score s,
      vd_cvss_vector = sr_cvss_vector s, vd_epss_score = sr_epss_score s, vd_kev_listed = sr_kev_listed s,
      vd_description = sr_description s, vd_references = sr_references s, vd_first_seen_at = datetime_iso (sr_first_seen_at s),
      vd_last_seen_at = datetime_iso (sr_last_seen_at s)\<rparr>"

definition vuln_detail :: "vulnerability \<Rightarrow> vulnerability_source_record list \<Rightarrow> vulnerability_detail_response" where
  "vuln_detail v sources =
     vulnerability_summary.extend (vuln_summary v)
     \<lparr>vs_published_at = map_option datetime_iso (vu_published_at v), vs_last_modified_at = map_option datetime_iso (vu_last_modified_at v),
      vs_cvss_vector = vu_cvss_vector v, vs_cvss_version = vu_cvss_version v, vs_epss_percentile = vu_epss_percentile v,
      vs_kev_date_added = map_option date_str (vu_kev_date_added v), vs_kev_due_date = map_option date_str (vu_kev_due_date v),
      vs_cwe_ids = vu_cwe_ids v, vs_references = vu_references v, vs_source_records = map source_detail sources\<rparr>"

definition history_response :: "vulnerability_history_entry \<Rightarrow> history_entry_response" where
  "history_response h =
     \<lparr>hy_source = source_value (vh_source h), hy_field = vh_field h, hy_old_value = vh_old_value h, hy_new_value = vh_new_value h,
      hy_observed_at = datetime_iso (vh_observed_at h)\<rparr>"

definition advisory_response :: "vendor_advisory \<Rightarrow> vendor_advisory_response" where
  "advisory_response a =
     \<lparr>ar_advisory_id = va_advisory_id a, ar_source = source_value (va_source a), ar_cve_id = va_cve_id a, ar_title = va_title a,
      ar_summary = va_summary a, ar_severity = va_severity a, ar_published_at = map_option datetime_iso (va_published_at a),
      ar_updated_at = map_option datetime_iso (va_updated_at a), ar_references = va_references a\<rparr>"

definition candidate_response :: "validation_candidate \<Rightarrow> validation_candidate_response" where
  "candidate_response c =
     \<lparr>vr_cve_id = vc_cve_id c, vr_domain = map_option domain_value (vc_domain c),
      vr_support_status = support_status_value (vc_support_status c), vr_priority_score = vc_priority_score c,
      vr_priority_label = priority_label_value (vc_priority_label c), vr_explanation = vc_explanation c,
      vr_existing_experiment_ids = vc_existing_experiment_ids c, vr_generated_at = datetime_iso (vc_generated_at c)\<rparr>"

definition sync_response :: "intelligence_sync \<Rightarrow> sync_status_response" where
  "sync_response s =
     \<lparr>ys_sync_id = is_sync_id s, ys_source = source_value (is_source s), ys_status = sync_status_value (is_status s),
      ys_since = map_option datetime_iso (is_since s), ys_started_at = datetime_iso (is_started_at s),
      ys_completed_at = map_option datetime_iso (is_completed_at s), ys_fetched_count = is_fetched_count s,
      ys_created_count = is_created_count s, ys_updated_count = is_updated_count s, ys_unchanged_count = is_unchanged_count s,
      ys_failed_count = is_failed_count s, ys_error_summary = is_error_summary s\<rparr>"

section \<open>Reading routes\<close>

text \<open>A parameter that does not meet its constraints.\<close>

definition request_invalid :: exn where
  "request_invalid = http_error 422 ''request_validation_error''"

definition require_valid :: "bool \<Rightarrow> ('z app_state_scheme, exn, unit) eff" where
  "require_valid ok = liftE (raise_if (\<not> ok) request_invalid)"

text \<open>\<open>limit: Query(ge=1, le=200)\<close> and \<open>offset: Query(ge=0)\<close>.\<close>

definition page_ok :: "nat \<Rightarrow> bool" where
  "page_ok limit \<longleftrightarrow> 1 \<le> limit \<and> limit \<le> 200"

definition between_ok :: "float64 \<Rightarrow> float64 \<Rightarrow> float64 option \<Rightarrow> bool" where
  "between_ok lo hi x = given x (\<lambda>v. lo \<le> v \<and> v \<le> hi)"

definition list_vulnerabilities_handler :: "app_env \<Rightarrow> (string \<Rightarrow> string option) \<Rightarrow> string option \<Rightarrow> vulnerability_filter \<Rightarrow> nat \<Rightarrow> nat
    \<Rightarrow> ('z, vulnerability_list_response) intel_m" where
  "list_vulnerabilities_handler E u token f limit offset =
     bindE (get_current_user E token) (\<lambda>_.
     bindE (require_valid (between_ok 0 10 (vf_cvss_gte f) \<and> between_ok 0 1 (vf_epss_gte f) \<and> page_ok limit)) (\<lambda>_.
     bindE (list_vulnerabilities u f limit offset) (\<lambda>(vs, count).
     returnE \<lparr>vl_vulnerabilities = map vuln_summary vs, vl_total = count, vl_limit = limit, vl_offset = offset\<rparr>)))"

definition get_vulnerability_detail :: "app_env \<Rightarrow> (string \<Rightarrow> string option) \<Rightarrow> string option \<Rightarrow> string \<Rightarrow> ('z, vulnerability_detail_response) intel_m" where
  "get_vulnerability_detail E u token cve_id =
     bindE (get_current_user E token) (\<lambda>_.
     bindE (require_valid (is_cve_id cve_id)) (\<lambda>_.
     bindE (get_vulnerability u cve_id) (\<lambda>found.
     case found of
       None \<Rightarrow> raiseE (http_error 404 ''vulnerability_not_found'')
     | Some v \<Rightarrow> bindE (get_sources cve_id) (\<lambda>sources. returnE (vuln_detail v sources)))))"

definition get_vulnerability_history :: "app_env \<Rightarrow> string option \<Rightarrow> string \<Rightarrow> ('z, string \<times> history_entry_response list) intel_m" where
  "get_vulnerability_history E token cve_id =
     bindE (get_current_user E token) (\<lambda>_.
     bindE (require_valid (is_cve_id cve_id)) (\<lambda>_.
     bindE (get_history cve_id) (\<lambda>history. returnE (cve_id, map history_response history))))"

definition get_vulnerability_advisories :: "app_env \<Rightarrow> string option \<Rightarrow> string \<Rightarrow> ('z, string \<times> vendor_advisory_response list) intel_m" where
  "get_vulnerability_advisories E token cve_id =
     bindE (get_current_user E token) (\<lambda>_.
     bindE (require_valid (is_cve_id cve_id)) (\<lambda>_.
     bindE (get_advisories_for_cve cve_id) (\<lambda>advisories. returnE (cve_id, map advisory_response advisories))))"

definition get_priority_queue :: "app_env \<Rightarrow> string option \<Rightarrow> domain option \<Rightarrow> support_status option \<Rightarrow> float64 option \<Rightarrow> nat \<Rightarrow> nat
    \<Rightarrow> ('z, priority_queue_response) intel_m" where
  "get_priority_queue E token dm support priority_gte limit offset =
     bindE (get_current_user E token) (\<lambda>_.
     bindE (require_valid (between_ok 0 100 priority_gte \<and> page_ok limit)) (\<lambda>_.
     bindE (list_priority_queue dm support priority_gte limit offset) (\<lambda>(cs, count).
     returnE \<lparr>pq_candidates = map candidate_response cs, pq_total = count, pq_limit = limit, pq_offset = offset\<rparr>)))"

text \<open>\<open>GET /sources\<close> and its alias \<open>GET /integrations\<close>; a check is timestamped when it is made.\<close>

definition check_source :: "app_env \<Rightarrow> connector_env \<Rightarrow> vulnerability_source_name \<Rightarrow> ('z app_state_scheme, exn, connector_health_response) eff" where
  "check_source E X source =
     bindE (liftE (source_health X source)) (\<lambda>h.
     bindE (utc_now E) (\<lambda>now.
     returnE \<lparr>hh_source = source_value (ch_source h), hh_available = ch_available h, hh_detail = ch_detail h, hh_checked_at = datetime_iso now\<rparr>))"

definition list_sources :: "app_env \<Rightarrow> connector_env \<Rightarrow> string option \<Rightarrow> ('z, connector_health_response list) intel_m" where
  "list_sources E X token = bindE (get_current_user E token) (\<lambda>_. mapE (check_source E X) known_sources)"

definition list_integrations :: "app_env \<Rightarrow> connector_env \<Rightarrow> string option \<Rightarrow> ('z, connector_health_response list) intel_m" where
  "list_integrations E X token = bindE (get_current_user E token) (\<lambda>_. mapE (check_source E X) known_sources)"

definition list_syncs_handler :: "app_env \<Rightarrow> string option \<Rightarrow> nat \<Rightarrow> nat \<Rightarrow> ('z, sync_status_response list) intel_m" where
  "list_syncs_handler E token limit offset =
     bindE (get_current_user E token) (\<lambda>_.
     bindE (require_valid (page_ok limit)) (\<lambda>_.
     bindE (list_syncs limit offset) (\<lambda>syncs. returnE (map sync_response syncs))))"

text \<open>\<open>^SYNC-[0-9a-f]{32}$\<close>.\<close>

definition is_sync_identifier :: "string \<Rightarrow> bool" where
  "is_sync_identifier s \<longleftrightarrow> prefix ''SYNC-'' s \<and> length s = 37 \<and> list_all is_hex (drop 5 s)"

definition get_sync_status :: "app_env \<Rightarrow> string option \<Rightarrow> string \<Rightarrow> ('z, sync_status_response) intel_m" where
  "get_sync_status E token sync_id =
     bindE (get_current_user E token) (\<lambda>_.
     bindE (require_valid (is_sync_identifier sync_id)) (\<lambda>_.
     bindE (get_sync sync_id) (\<lambda>sync.
     case sync of None \<Rightarrow> raiseE (http_error 404 ''sync_not_found'') | Some s \<Rightarrow> returnE (sync_response s))))"

section \<open>The worker\<close>

text \<open>A message: the start of the window is a moment with the offset it was written with, if it had one.\<close>

record sync_job_message =
  sj_sync_id :: string
  sj_source :: vulnerability_source_name
  sj_since :: "(datetime \<times> timedelta option) option"

definition message_connector_env :: "connector_env \<Rightarrow> sync_job_message \<Rightarrow> connector_env" where
  "message_connector_env X m = X\<lparr>ce_since_offset := (case sj_since m of None \<Rightarrow> None | Some (_, off) \<Rightarrow> off)\<rparr>"

definition run_sync_job :: "app_env \<Rightarrow> discovery_env \<Rightarrow> connector_env \<Rightarrow> (string \<Rightarrow> string option) \<Rightarrow> pypath \<Rightarrow> sync_job_message
    \<Rightarrow> ('z, intelligence_sync) intel_m" where
  "run_sync_job E D X u experiments_dir m =
     bindE (liftE (build_connector (message_connector_env X m) (sj_source m))) (\<lambda>conn.
     run_sync E D (ce_parse X) u conn (sj_sync_id m) (map_option fst (sj_since m)) (Some experiments_dir) True DEFAULT_WEIGHTS)"

text \<open>\<open>handle_message_body\<close>: a malformed message is dropped, every exception is logged.\<close>

definition handle_sync_message :: "app_env \<Rightarrow> discovery_env \<Rightarrow> connector_env \<Rightarrow> (string \<Rightarrow> string option) \<Rightarrow> pypath
    \<Rightarrow> (string \<Rightarrow> exn + sync_job_message) \<Rightarrow> string \<Rightarrow> 'z intel_state_scheme \<Rightarrow> 'z intel_state_scheme" where
  "handle_sync_message E D X u experiments_dir parse body w =
     (case parse body of Inl _ \<Rightarrow> w | Inr m \<Rightarrow> snd (run_sync_job E D X u experiments_dir m w))"

text \<open>Sequencing after a step that cannot fail.\<close>

lemma eff_steps:
  "bindE (modifyE f) k w = k () (f w)" "bindE (returnE x) g w = g x w" "bindE (getE h) l w = l (h w) w"
  "bindE (utc_now E) m v = m (ae_clock E (ap_clock_reads v)) (v\<lparr>ap_clock_reads := Suc (ap_clock_reads v)\<rparr>)"
  "bindE (liftE (Inr y)) n w = n y w"
  by (simp_all add: app_m_defs)

section \<open>The table of synchronisations\<close>

definition syncs_kept :: "'z intel_state_scheme \<Rightarrow> 'z intel_state_scheme \<Rightarrow> bool" where
  "syncs_kept w w' \<longleftrightarrow> in_syncs w' = in_syncs w"

interpretation syncs: effect_frame syncs_kept
  by unfold_locales (simp_all add: syncs_kept_def)

lemma syncs_mapE: "(\<And>x. abides syncs_kept (f x)) \<Longrightarrow> abides syncs_kept (mapE f xs)"
  by (induction xs) (auto intro!: syncs.resp_rules)

lemma syncs_modify:
  "abides syncs_kept (modifyE (\<lambda>w. w\<lparr>in_sources := f w\<rparr>))" "abides syncs_kept (modifyE (\<lambda>w. w\<lparr>in_history := g w\<rparr>))"
  "abides syncs_kept (modifyE (\<lambda>w. w\<lparr>in_products := h w\<rparr>))" "abides syncs_kept (modifyE (\<lambda>w. w\<lparr>in_affected := k w\<rparr>))"
  "abides syncs_kept (modifyE (\<lambda>w. w\<lparr>in_advisories := l w\<rparr>))" "abides syncs_kept (modifyE (\<lambda>w. w\<lparr>in_vulns := m w\<rparr>))"
  "abides syncs_kept (modifyE (\<lambda>w. w\<lparr>in_candidates := n w\<rparr>))" "abides syncs_kept (utc_now E)"
  by (simp_all add: abides_def syncs_kept_def app_m_defs)

lemma syncs_upserts:
  "abides syncs_kept (upsert_source_record r)" "abides syncs_kept (append_history h)" "abides syncs_kept (upsert_products i ps)"
  "abides syncs_kept (upsert_vendor_advisory a)" "abides syncs_kept (upsert_vulnerability v)" "abides syncs_kept (upsert_validation_candidate c)"
  "abides syncs_kept (get_vulnerability u i)"
  unfolding upsert_source_record_def append_history_def upsert_products_def upsert_product_def upsert_vendor_advisory_def
    upsert_vulnerability_def upsert_validation_candidate_def get_vulnerability_def
  by (intro syncs.resp_rules syncs_mapE syncs_modify)+

lemmas syncs_rules = syncs.resp_rules syncs_mapE syncs_modify syncs_upserts

lemma syncs_contribution: "abides syncs_kept (sync_contribution E P u rc)"
  unfolding sync_contribution_def contribution_result_def store_result_def by (intro syncs_rules)

lemma syncs_record: "abides syncs_kept (sync_record E P u conn r)"
  unfolding sync_record_def by (intro syncs_rules syncs_contribution)

lemma syncs_records_kept: "in_syncs (snd (sync_records E P u conn rs c w)) = in_syncs w"
proof (induction rs arbitrary: c w)
  case Nil
  then show ?case by simp
next
  case (Cons r rs)
  obtain x w1 where x: "sync_record E P u conn r w = (x, w1)" by (cases "sync_record E P u conn r w")
  have "in_syncs w1 = in_syncs w" using abidesD [OF syncs_record x] by (simp add: syncs_kept_def)
  then show ?case using x Cons.IH by (cases x) simp_all
qed

lemma syncs_records: "abides syncs_kept (sync_records E P u conn rs c)"
  by (simp add: abides_def syncs_kept_def syncs_records_kept)

lemma syncs_regenerate: "abides syncs_kept (regenerate_candidate E u ids weights i)"
  unfolding regenerate_candidate_def Let_def by (intro syncs_rules)

text \<open>The rows of other synchronisations, and what an ended or a broken off synchronisation leaves in its own.\<close>

definition ended_row :: "vulnerability_source_name \<Rightarrow> intelligence_sync \<Rightarrow> bool" where
  "ended_row source s \<longleftrightarrow> is_source s = source \<and> is_status s \<in> {SYNC_COMPLETED, SYNC_PARTIAL, SYNC_FAILED} \<and> is_completed_at s \<noteq> None"

definition running_row :: "vulnerability_source_name \<Rightarrow> intelligence_sync \<Rightarrow> bool" where
  "running_row source s \<longleftrightarrow> is_source s = source \<and> is_status s = SYNC_RUNNING \<and> is_completed_at s = None"

definition sync_rest :: "app_env \<Rightarrow> discovery_env \<Rightarrow> parse_env \<Rightarrow> (string \<Rightarrow> string option) \<Rightarrow> connector \<Rightarrow> datetime option
    \<Rightarrow> pypath option \<Rightarrow> bool \<Rightarrow> priority_weights \<Rightarrow> ('z, sync_counts) intel_m" where
  "sync_rest E D P u conn since dir regenerate weights =
     bindE (sync_records E P u conn (fst (cn_fetch conn since)) no_counts) (\<lambda>c.
     case snd (cn_fetch conn since) of
       Some e \<Rightarrow> if fetch_error e then returnE c else raiseE e
     | None \<Rightarrow> bindE (if regenerate \<and> sc_touched c \<noteq> []
         then bindE (getE (\<lambda>w. case dir of None \<Rightarrow> Map.empty | Some dir \<Rightarrow> build_experiment_ids_by_cve D dir (sd_files w))) (\<lambda>ids.
           bindE (mapE (regenerate_candidate E u ids weights) (sc_touched c)) (\<lambda>_. returnE ()))
         else returnE ()) (\<lambda>_. returnE c))"

lemma syncs_rest: "abides syncs_kept (sync_rest E D P u conn since dir regenerate weights)"
  unfolding sync_rest_def by (intro syncs_rules syncs_records syncs_regenerate)

definition started_sync :: "app_env \<Rightarrow> connector \<Rightarrow> string \<Rightarrow> datetime option \<Rightarrow> 'z intel_state_scheme \<Rightarrow> 'z intel_state_scheme" where
  "started_sync E conn sync_id since w = w\<lparr>ap_clock_reads := Suc (ap_clock_reads w),
     in_syncs := tbl_upsert is_sync_id (sync_row conn sync_id since (ae_clock E (ap_clock_reads w)) None SYNC_RUNNING no_counts None) (in_syncs w)\<rparr>"

lemma run_sync_rest:
  assumes rest: "sync_rest E D P u conn since dir regenerate weights (started_sync E conn sync_id since w) = (r, w1)"
    and run: "run_sync E D P u conn sync_id since dir regenerate weights w = (x, w')"
  shows "case r of Inl e \<Rightarrow> x = Inl e \<and> w' = w1
    | Inr c \<Rightarrow> \<exists>sync. x = Inr sync \<and> in_syncs w' = tbl_upsert is_sync_id sync (in_syncs w1)
        \<and> is_sync_id sync = sync_id \<and> ended_row (cn_source conn) sync"
proof -
  let ?w = "started_sync E conn sync_id since w"
  let ?regen = "\<lambda>c. if regenerate \<and> sc_touched c \<noteq> []
         then bindE (getE (\<lambda>w. case dir of None \<Rightarrow> Map.empty | Some dir \<Rightarrow> build_experiment_ids_by_cve D dir (sd_files w))) (\<lambda>ids.
           bindE (mapE (regenerate_candidate E u ids weights) (sc_touched c)) (\<lambda>_. returnE ()))
         else returnE ()"
  obtain y w2 where y: "sync_records E P u conn (fst (cn_fetch conn since)) no_counts ?w = (y, w2)"
    by (cases "sync_records E P u conn (fst (cn_fetch conn since)) no_counts ?w")
  note start = run_sync_def save_sync_def started_sync_def eff_steps
  note Y = y [unfolded started_sync_def]
  show ?thesis
  proof (cases y)
    case (Inl e)
    then show ?thesis using rest run Y by (auto simp: start sync_rest_def bindE_def [of "sync_records E P u conn rs no_counts" for rs])
  next
    case (Inr c)
    show ?thesis
    proof (cases "snd (cn_fetch conn since)")
      case (Some e)
      then show ?thesis using rest run Y Inr
        by (auto simp: start sync_rest_def bindE_def [of "sync_records E P u conn rs no_counts" for rs] returnE_def raiseE_def Let_def
          ended_row_def sync_row_def split: if_splits)
    next
      case None
      obtain z w3 where z: "?regen c w2 = (z, w3)" by (cases "?regen c w2")
      have "sync_rest E D P u conn since dir regenerate weights ?w = (case z of Inl e \<Rightarrow> Inl e | Inr _ \<Rightarrow> Inr c, w3)"
        using y Inr None z by (cases z) (simp_all add: sync_rest_def bindE_def [of _ _ ?w] bindE_def [of _ _ w2] returnE_def)
      then show ?thesis using rest run Y Inr None z
        by (cases z) (auto simp: start bindE_def [of "sync_records E P u conn rs no_counts" for rs] bindE_def [of _ _ w2] returnE_def
          Let_def sync_status_def ended_row_def sync_row_def)
    qed
  qed
qed


text \<open>
  A start without a time zone blocks the NVD synchronisation. The request accepts the text and queues the
  synchronisation; the connector then compares the naive start with the clock, which raises before anything is asked
  for; and the row says running from then on, whatever the network would have answered.
\<close>

lemma naive_since_never_ends:
  assumes "submit_sync E P token (source_value NVD) (Some since_text) request_id w = (Inr (sync_id, NVD, Some t), w1)"
    and "parse body = Inr \<lparr>sj_sync_id = sync_id, sj_source = NVD, sj_since = Some (t, None)\<rparr>"
    and "t + NVD_MAX_DATE_WINDOW \<le> DATETIME_MAX"
  shows "(\<exists>s. tbl_get is_sync_id sync_id (in_syncs w1) = Some s \<and> is_status s = SYNC_QUEUED)
    \<and> (\<exists>s. tbl_get is_sync_id sync_id (in_syncs (handle_sync_message E D X u dir parse body w1)) = Some s \<and> running_row NVD s)"
proof
  have "source_of_value (source_value NVD) = Some NVD" by (simp add: source_of_value_def)
  then show "\<exists>s. tbl_get is_sync_id sync_id (in_syncs w1) = Some s \<and> is_status s = SYNC_QUEUED"
    using assms(1) unfolding submit_sync_def bindE_Inr
    by (auto simp: app_m_defs save_sync_def audit_record_def audit_append_def tbl_get_upsert Let_def split: option.splits if_splits)
  have "fst (connector_fetch (message_connector_env X m) NVD (Some (since_of (message_connector_env X m) t)) no_requests)
      = ([], Some (TypeError ''can't compare offset-naive and offset-aware datetimes''))"
    if "sj_since m = Some (t, None)" for m
    using that assms(3) by (simp add: connector_fetch_def naive_since_raises message_connector_env_def since_of_def)
  then show "\<exists>s. tbl_get is_sync_id sync_id (in_syncs (handle_sync_message E D X u dir parse body w1)) = Some s \<and> running_row NVD s"
    using assms(2)
    by (simp add: handle_sync_message_def run_sync_job_def build_connector_def known_sources_def eff_steps run_sync_def save_sync_def
        bindE_def [of "sync_records E P u conn [] c" for E P u conn c] raiseE_def tbl_get_upsert sync_row_def running_row_def)
qed

definition demo_researcher :: user_with_credentials where
  "demo_researcher = demo_reviewer\<lparr>u_role := RESEARCHER\<rparr>"

definition demo_intel_researcher :: intel_state where
  "demo_intel_researcher = demo_intel\<lparr>au_users := [demo_researcher], au_sessions := au_sessions demo_studio\<rparr>"

definition demo_naive_parse :: parse_env where
  "demo_naive_parse = demo_parse\<lparr>pe_datetime := (\<lambda>_. Some (0, 0))\<rparr>"

lemma demo_submit_naive:
  "\<exists>sync_id w1. submit_sync demo_app_env demo_naive_parse (Some ''tok'') (source_value NVD) (Some ''1970-01-01'') None demo_intel_researcher
     = (Inr (sync_id, NVD, Some 0), w1)"
proof -
  obtain w1 where "require_role demo_app_env [RESEARCHER, ADMIN] (Some ''tok'') demo_intel_researcher = (Inr (user.truncate demo_researcher), w1)"
    by (simp add: require_role_def get_current_user_def get_user_for_session_def get_session_with_user_def app_m_defs
        demo_intel_researcher_def demo_researcher_def demo_intel_def demo_runs_def demo_studio_def demo_reviewer_def tbl_get_Cons user_from_orm_def
        user.truncate_def raise_if_def touch_session_def demo_app_env_def runs_state.defs)
  then show ?thesis
    by (simp add: submit_sync_def app_m_defs source_of_value_def known_sources_def demo_naive_parse_def save_sync_def audit_record_def Let_def)
qed

definition demo_sync_message :: "string \<Rightarrow> string \<Rightarrow> exn + sync_job_message" where
  "demo_sync_message sync_id body = Inr \<lparr>sj_sync_id = sync_id, sj_source = NVD, sj_since = Some (0, None)\<rparr>"

lemma demo_window: "(0::datetime) + NVD_MAX_DATE_WINDOW \<le> DATETIME_MAX"
  by (simp add: NVD_MAX_DATE_WINDOW_def DATETIME_MAX_def td_days_def)

lemma naive_since_never_ends_example:
  "\<exists>sync_id w1. submit_sync demo_app_env demo_naive_parse (Some ''tok'') (source_value NVD) (Some ''1970-01-01'') None demo_intel_researcher
      = (Inr (sync_id, NVD, Some 0), w1)
     \<and> (\<exists>s. tbl_get is_sync_id sync_id (in_syncs (handle_sync_message demo_app_env demo_discovery demo_connectors Some (PyPath [] [''experiments''])
            (demo_sync_message sync_id) [] w1)) = Some s \<and> running_row NVD s)"
proof -
  obtain sync_id w1 where q: "submit_sync demo_app_env demo_naive_parse (Some ''tok'') (source_value NVD) (Some ''1970-01-01'') None demo_intel_researcher
      = (Inr (sync_id, NVD, Some 0), w1)"
    using demo_submit_naive by blast
  from naive_since_never_ends [OF q, of "demo_sync_message sync_id" "[]", OF _ demo_window] q show ?thesis
    unfolding demo_sync_message_def by blast
qed


end
