(* ===== verification/Excel_Import.thy ===== *)
theory Excel_Import
  imports Intelligence_Routes
begin

text \<open>
  The importer of the research workbook (\<open>intelligence/excel_importer.py\<close>). What \<open>openpyxl\<close> reads is a
  parameter: for a path the sheets with their rows of cell values, or no file. A cell is a Python value of the kinds
  of \<open>Py_Values\<close> (a date cell is not modelled).
\<close>

section \<open>Cells\<close>

definition clean_str :: "pyval \<Rightarrow> string option" where
  "clean_str v = (if v = PNone then None else let s = str_strip (py_str v) in if s = [] then None else Some s)"

text \<open>\<open>float(value)\<close>, when it does not raise.\<close>

fun py_float :: "parse_env \<Rightarrow> pyval \<Rightarrow> float64 option" where
  "py_float P (PFloat x) = Some x"
| "py_float P (PInt i) = Some (fl (of_int i))"
| "py_float P (PBool b) = Some (if b then 1 else 0)"
| "py_float P (PStr s) = pe_float P s"
| "py_float P _ = None"

definition in_range :: "float64 \<Rightarrow> float64 \<Rightarrow> float64 \<Rightarrow> float64 option" where
  "in_range lo hi x = (if lo \<le> x \<and> x \<le> hi then Some x else None)"

definition parse_cvss :: "parse_env \<Rightarrow> pyval \<Rightarrow> float64 option" where
  "parse_cvss P v = (case py_float P v of None \<Rightarrow> None | Some score \<Rightarrow> in_range 0 10 score)"

text \<open>\<open>text.rstrip("%")\<close>.\<close>

definition rstrip_percent :: "string \<Rightarrow> string" where
  "rstrip_percent s = rev (dropWhile (\<lambda>c. c = CHR ''%'') (rev s))"

definition parse_percentage :: "parse_env \<Rightarrow> pyval \<Rightarrow> float64 option" where
  "parse_percentage P v =
     (if v = PNone then None
      else case v of
          PInt i \<Rightarrow> in_range 0 1 (fl (of_int i))
        | PFloat x \<Rightarrow> in_range 0 1 x
        | PBool b \<Rightarrow> in_range 0 1 (if b then 1 else 0)
        | _ \<Rightarrow> (case pe_float P (rstrip_percent (str_strip (py_str v))) of
            None \<Rightarrow> None
          | Some parsed \<Rightarrow> in_range 0 1 (if parsed > 1 then fl (parsed / 100) else parsed)))"

definition parse_bool :: "pyval \<Rightarrow> bool option" where
  "parse_bool v =
     (if v = PNone then None
      else let text = str_lower (str_strip (py_str v)) in
        if text \<in> {''yes'', ''true'', ''y''} then Some True
        else if text \<in> {''no'', ''false'', ''n''} then Some False else None)"

text \<open>\<open>re.compile(r"CWE-\d+").findall\<close>.\<close>

definition cwe_at :: "string \<Rightarrow> (string \<times> string) option" where
  "cwe_at s =
     (if \<not> prefix ''CWE-'' s then None
      else let digits = takeWhile is_digit (drop 4 s)
        in if digits = [] then None else Some (''CWE-'' @ digits, dropWhile is_digit (drop 4 s)))"

lemma cwe_at_shorter: "cwe_at s = Some (u, rest) \<Longrightarrow> length rest < length s"
  using dropWhile_drop_shorter [of 4 s is_digit] by (cases s) (auto simp: cwe_at_def Let_def split: if_splits)

function cwe_findall :: "string \<Rightarrow> string list" where
  "cwe_findall s =
     (if s = [] then []
      else case cwe_at s of None \<Rightarrow> cwe_findall (tl s) | Some (u, rest) \<Rightarrow> u # cwe_findall rest)"
  by pat_completeness auto
termination
  by (relation "measure length") (auto dest: cwe_at_shorter)

declare cwe_findall.simps [simp del]

definition zero_click_of :: "string \<Rightarrow> zero_click_relevance option" where
  "zero_click_of s = map_of [(''high'', ZC_HIGH), (''medium'', ZC_MEDIUM), (''low'', ZC_LOW)] s"

section \<open>Rows\<close>

record skipped_row =
  sw_row_number :: nat
  sw_reason :: string

record import_result =
  ir_contributions :: "normalised_contribution list"
  ir_skipped :: "skipped_row list"

text \<open>\<open>columns\<close>: of two columns with one name the later one counts.\<close>

definition header_columns :: "pyval list \<Rightarrow> (string \<rightharpoonup> nat)" where
  "header_columns header =
     map_of (rev (List.map_filter (\<lambda>(idx, name). if py_truthy name then Some (str_strip (py_str name), idx) else None) (enumerate 0 header)))"

definition cell :: "(string \<rightharpoonup> nat) \<Rightarrow> pyval list \<Rightarrow> string \<Rightarrow> pyval" where
  "cell columns row name =
     (case columns name of None \<Rightarrow> PNone | Some idx \<Rightarrow> if idx < length row then row ! idx else PNone)"

text \<open>The text of a column, empty if it has none.\<close>

definition cell_text :: "(string \<rightharpoonup> nat) \<Rightarrow> pyval list \<Rightarrow> string \<Rightarrow> string" where
  "cell_text columns row name = (case clean_str (cell columns row name) of None \<Rightarrow> [] | Some s \<Rightarrow> s)"

definition row_contribution :: "parse_env \<Rightarrow> (string \<rightharpoonup> nat) \<Rightarrow> pyval list \<Rightarrow> string \<Rightarrow> normalised_contribution" where
  "row_contribution P columns row cve_id =
     (let col = cell columns row; vendor = clean_str (col ''Vendor''); product = clean_str (col ''Product / Component'') in
      (blank_contribution cve_id MANUAL_IMPORT)\<lparr>
        nc_description := clean_str (col ''Trust Boundary Affected''),
        nc_cvss_score := parse_cvss P (col ''CVSS Score''),
        nc_epss_score := parse_percentage P (col ''EPSS Score''),
        nc_kev_listed := parse_bool (col ''CISA KEV?''),
        nc_cwe_ids := cwe_findall (cell_text columns row ''CWE''),
        nc_vendor := vendor,
        nc_products := (case (vendor, product) of (Some v, Some p) \<Rightarrow> [(v, p, None)] | _ \<Rightarrow> []),
        nc_references := List.map_filter (\<lambda>n. clean_str (col (''Source URL '' @ n))) [''1'', ''2'', ''3''],
        nc_zero_click_relevance := (case clean_str (col ''Zero-Click Relevance'') of None \<Rightarrow> None | Some s \<Rightarrow> zero_click_of (str_lower s))\<rparr>)"

text \<open>One data row: nothing for an empty one, else a reason to skip it or a contribution.\<close>

definition blank_row :: "pyval list \<Rightarrow> bool" where
  "blank_row row \<longleftrightarrow> list_all (\<lambda>v. v = PNone) row"

definition read_row :: "parse_env \<Rightarrow> (string \<rightharpoonup> nat) \<Rightarrow> nat \<times> pyval list \<Rightarrow> skipped_row + normalised_contribution" where
  "read_row P columns r =
     (case r of (row_number, row) \<Rightarrow>
       let cve_id = clean_str (cell columns row ''CVE ID'') in
       case cve_id of
         Some i \<Rightarrow>
           if cve_id_match i then Inr (row_contribution P columns row i)
           else Inl \<lparr>sw_row_number = row_number, sw_reason = ''missing/malformed CVE ID: '' @ repr_str i\<rparr>
       | None \<Rightarrow> Inl \<lparr>sw_row_number = row_number, sw_reason = ''missing/malformed CVE ID: None''\<rparr>)"

definition data_rows :: "pyval list list \<Rightarrow> (nat \<times> pyval list) list" where
  "data_rows rows = filter (\<lambda>(_, row). \<not> blank_row row) (enumerate 2 rows)"

section \<open>The workbook\<close>

type_synonym workbook = "(string \<times> pyval list list) list"

definition excel_error :: "string \<Rightarrow> exn" where
  "excel_error msg = OtherError ''ExcelImportError'' msg"

definition DEFAULT_SHEET_NAME :: string where "DEFAULT_SHEET_NAME = '' CVE Intelligence''"

text \<open>The arguments \<open>openpyxl\<close> (is it installed) and \<open>load\<close> (the sheets of a file, \<open>None\<close> if there is none).\<close>

definition import_workbook :: "parse_env \<Rightarrow> bool \<Rightarrow> (pypath \<Rightarrow> workbook option) \<Rightarrow> pypath \<Rightarrow> string \<Rightarrow> exn + import_result" where
  "import_workbook P openpyxl load path sheet_name =
     bindS (raise_if (\<not> openpyxl) (excel_error
       ''openpyxl is required to import the CVE research workbook - install the 'excel' extra'')) (\<lambda>_.
     case load path of
       None \<Rightarrow> Inl (excel_error (''workbook not found: '' @ path_str path))
     | Some sheets \<Rightarrow>
         (case map_of sheets sheet_name of
            None \<Rightarrow> Inl (excel_error (''sheet '' @ quoted sheet_name @ '' not found in '' @ path_str path
              @ ''; available sheets: '' @ repr_str_list (map fst sheets)))
          | Some [] \<Rightarrow> Inl (excel_error (''sheet '' @ quoted sheet_name @ '' is empty''))
          | Some (header # rows) \<Rightarrow>
              let columns = header_columns header in
              bindS (raise_if (columns ''CVE ID'' = None)
                (excel_error (''required column 'CVE ID' not found in sheet '' @ quoted sheet_name @ '' header''))) (\<lambda>_.
              let read = map (read_row P columns) (data_rows rows) in
              Inr \<lparr>ir_contributions = List.map_filter (\<lambda>x. case x of Inr c \<Rightarrow> Some c | Inl _ \<Rightarrow> None) read,
                ir_skipped = List.map_filter (\<lambda>x. case x of Inl s \<Rightarrow> Some s | Inr _ \<Rightarrow> None) read\<rparr>)))"

section \<open>Merging\<close>

record import_summary =
  iy_fetched_count :: nat
  iy_created_count :: nat
  iy_updated_count :: nat
  iy_unchanged_count :: nat
  iy_failed_count :: nat
  iy_skipped :: "skipped_row list"

definition import_contribution :: "app_env \<Rightarrow> (string \<Rightarrow> string option) \<Rightarrow> normalised_contribution \<Rightarrow> ('z, record_outcome) intel_m" where
  "import_contribution E u c =
     bindE (get_vulnerability u (nc_cve_id c)) (\<lambda>existing.
     bindE (utc_now E) (\<lambda>now.
     bindE (liftE (merge u existing c now)) (\<lambda>merged.
     bindE (upsert_vulnerability (mr_vulnerability merged)) (\<lambda>_.
     bindE (upsert_source_record (mr_source_record merged)) (\<lambda>_.
     bindE (append_history (mr_history merged)) (\<lambda>_.
     bindE (if mr_products merged \<noteq> [] then upsert_products (nc_cve_id c) (mr_products merged) else returnE ()) (\<lambda>_.
     returnE (if mr_is_new merged then Created else if mr_history merged \<noteq> [] then Updated else Unchanged))))))))"

definition outcome_count :: "record_outcome \<Rightarrow> record_outcome list \<Rightarrow> nat" where
  "outcome_count k ks = length (filter (\<lambda>x. x = k) ks)"

definition import_and_merge :: "app_env \<Rightarrow> parse_env \<Rightarrow> (string \<Rightarrow> string option) \<Rightarrow> bool \<Rightarrow> (pypath \<Rightarrow> workbook option) \<Rightarrow> pypath \<Rightarrow> string
    \<Rightarrow> ('z, import_summary) intel_m" where
  "import_and_merge E P u openpyxl load path sheet_name =
     bindE (liftE (import_workbook P openpyxl load path sheet_name)) (\<lambda>result.
     bindE (mapE (import_contribution E u) (ir_contributions result)) (\<lambda>outcomes.
     returnE \<lparr>iy_fetched_count = length (ir_contributions result), iy_created_count = outcome_count Created outcomes,
       iy_updated_count = outcome_count Updated outcomes, iy_unchanged_count = outcome_count Unchanged outcomes,
       iy_failed_count = length (ir_skipped result), iy_skipped = ir_skipped result\<rparr>))"

section \<open>Every row is accounted for\<close>

lemma length_parts:
  "length (List.map_filter (\<lambda>x. case x of Inr c \<Rightarrow> Some c | Inl _ \<Rightarrow> None) xs)
    + length (List.map_filter (\<lambda>x. case x of Inl s \<Rightarrow> Some s | Inr _ \<Rightarrow> None) xs) = length xs"
  by (induction xs) (auto simp: List.map_filter_def split: sum.split)

lemma outcome_counts: "length ks = outcome_count Created ks + outcome_count Updated ks + outcome_count Unchanged ks"
proof (induction ks)
  case (Cons k ks)
  then show ?case by (cases k) (simp_all add: outcome_count_def)
qed (simp add: outcome_count_def)

lemma import_contribution_rows:
  assumes "import_contribution E u c w = (Inr k, w')"
  shows "length (in_vulns w') = length (in_vulns w) + outcome_count Created [k]"
proof -
  obtain existing w1 now merged where got: "get_vulnerability u (nc_cve_id c) w = (Inr existing, w1)"
    and m: "merge u existing c now = Inr merged"
    and k: "k = (if mr_is_new merged then Created else if mr_history merged \<noteq> [] then Updated else Unchanged)"
    and store: "store_result (nc_cve_id c) merged (w1\<lparr>ap_clock_reads := Suc (ap_clock_reads w1)\<rparr>) = (Inr (), w')"
    using assms unfolding import_contribution_def bindE_Inr store_result_def
    by (auto simp: utc_now_def liftE_def returnE_def split: if_splits)
  have "in_vulns w1 = in_vulns w" using abidesD [OF vulns_upserts(7) got] by (simp add: vulns_kept_def)
  moreover have "existing = None \<longleftrightarrow> tbl_get vu_cve_id (nc_cve_id c) (in_vulns w) = None"
    using got unfolding get_vulnerability_def by (auto simp: app_m_defs split: option.splits sum.splits)
  ultimately show ?thesis
    using store_result_rows(1) [OF store] merge_new [OF m] k by (simp add: length_upsert outcome_count_def)
qed

lemma import_contributions_rows:
  assumes "mapE (import_contribution E u) cs w = (Inr ks, w')"
  shows "length ks = length cs \<and> length (in_vulns w') = length (in_vulns w) + outcome_count Created ks"
  using assms
proof (induction cs arbitrary: w ks)
  case Nil
  then show ?case by (simp add: returnE_def outcome_count_def)
next
  case (Cons c cs)
  then obtain k w1 ks' where k: "import_contribution E u c w = (Inr k, w1)" and ks: "mapE (import_contribution E u) cs w1 = (Inr ks', w')"
    and "ks = k # ks'"
    by (auto simp: bindE_Inr returnE_def)
  then show ?case using import_contribution_rows [OF k] Cons.IH [OF ks] by (simp add: outcome_count_def)
qed

text \<open>
  The import accounts for every row. If it returns, the sheet was there with a header; the rows that are not
  empty are exactly those fetched and those reported as failed; a fetched row was counted once, as created, updated or
  unchanged; and exactly the created ones added a vulnerability.
\<close>

lemma import_accounts:
  assumes "import_and_merge E P u openpyxl load path sheet w = (Inr s, w')"
  shows "\<exists>sheets header rows. load path = Some sheets \<and> map_of sheets sheet = Some (header # rows)
    \<and> iy_fetched_count s + iy_failed_count s = length (data_rows rows)
    \<and> iy_fetched_count s = iy_created_count s + iy_updated_count s + iy_unchanged_count s
    \<and> length (iy_skipped s) = iy_failed_count s
    \<and> length (in_vulns w') = length (in_vulns w) + iy_created_count s"
proof -
  obtain result ks where result: "import_workbook P openpyxl load path sheet = Inr result"
    and ks: "mapE (import_contribution E u) (ir_contributions result) w = (Inr ks, w')"
    and s: "s = \<lparr>iy_fetched_count = length (ir_contributions result), iy_created_count = outcome_count Created ks,
       iy_updated_count = outcome_count Updated ks, iy_unchanged_count = outcome_count Unchanged ks,
       iy_failed_count = length (ir_skipped result), iy_skipped = ir_skipped result\<rparr>"
    using assms unfolding import_and_merge_def bindE_Inr by (auto simp: liftE_def returnE_def)
  obtain sheets header rows where sheet: "load path = Some sheets" "map_of sheets sheet = Some (header # rows)"
    and "length (ir_contributions result) + length (ir_skipped result) = length (data_rows rows)"
    using result by (auto simp: import_workbook_def res_simps Let_def length_parts split: option.splits list.splits)
  then show ?thesis
    using s import_contributions_rows [OF ks] outcome_counts [of ks] by auto
qed

section \<open>Two readings of the importer\<close>

text \<open>
  What a percentage is read as. A text that ends in a per cent sign is the number divided by one hundred only
  if the number is greater than one; a percentage of one or less is taken as a fraction, so that 0.5 per cent is
  read as one half and 1 per cent as certainty.
\<close>

lemma percentage_reading:
  assumes "pe_float P text = Some x" and "0 \<le> x" and "fl (x / 100) \<le> 1"
    and "str_strip (text @ ''%'') = text @ ''%''" and "rstrip_percent (text @ ''%'') = text"
  shows "parse_percentage P (PStr (text @ ''%'')) = Some (if x \<le> 1 then x else fl (x / 100))"
proof -
  have "0 \<le> fl (x / 100)" using fl_mono [of 0 "x / 100"] assms(2) by simp
  then show ?thesis using assms by (auto simp: parse_percentage_def in_range_def)
qed

definition demo_half :: parse_env where
  "demo_half = demo_parse\<lparr>pe_float := (\<lambda>s. if s = ''0.5'' then Some (1 / 2) else None)\<rparr>"

text \<open>The text of a source column that is no URL ends the import with an error; the rows before it stay merged.\<close>

lemma bad_reference_raises:
  assumes "r \<in> set (nc_references c)" and "u r = None"
  shows "\<exists>e. merge u existing c now = Inl e"
proof (rule ccontr)
  assume "\<nexists>e. merge u existing c now = Inl e"
  then obtain res where "merge u existing c now = Inr res" by (cases "merge u existing c now") auto
  then obtain refs where refs: "mapS (validate_reference u) (fromkeys (map HttpUrl (vu_references
      (case existing of None \<Rightarrow> blank_vulnerability (nc_cve_id c) now | Some v \<Rightarrow> v)) @ map RefStr (nc_references c))) = Inr refs"
    unfolding merge_def Let_def bindS_eq_Inr by auto
  have "RefStr r \<in> set (fromkeys (map HttpUrl hs @ map RefStr (nc_references c)))" for hs
    using assms(1) by simp
  with refs obtain y where "validate_reference u (RefStr r) = Inr y"
    unfolding mapS_Inr_all2 list_all2_conv_all_nth by (metis in_set_conv_nth)
  then show False using assms(2) by simp
qed

lemma import_stops_at_error:
  assumes "mapE f xs w = (Inr ks, w1)" and "f c w1 = (Inl e, w2)"
  shows "mapE f (xs @ c # ys) w = (Inl e, w2)"
  using assms by (induction xs arbitrary: w ks) (auto simp: bindE_def returnE_def split: prod.splits sum.splits)

lemma percentage_reading_example:
  "parse_percentage demo_half (PStr ''0.5%'') = Some (1 / 2)"
proof -
  have "fl ((1 / 2) / 100) \<le> 1" using fl_mono [of "(1 / 2) / 100" 1] by simp
  with percentage_reading [of demo_half "''0.5''" "1 / 2"] show ?thesis
    by (simp add: demo_half_def str_strip_def is_space_def rstrip_percent_def)
qed

text \<open>A workbook with an empty row, a row without an identifier and a good one.\<close>

definition demo_workbook :: workbook where
  "demo_workbook = [(''S'', [[PStr ''CVE ID''], [PNone], [PStr ''CVE''], [PStr '' CVE-2024-0001'']])]"

lemma demo_no_cve: "\<not> is_cve_id ''CVE''"
  by code_simp

lemma demo_import:
  "import_workbook demo_parse True (\<lambda>_. Some demo_workbook) (PyPath [] [''w'']) ''S''
     = Inr \<lparr>ir_contributions = [row_contribution demo_parse [''CVE ID'' \<mapsto> 0] [PStr '' CVE-2024-0001''] ''CVE-2024-0001''],
         ir_skipped = [\<lparr>sw_row_number = 3, sw_reason = ''missing/malformed CVE ID: '' @ repr_str ''CVE''\<rparr>]\<rparr>"
  by (simp add: import_workbook_def demo_workbook_def header_columns_def data_rows_def blank_row_def read_row_def clean_str_def cell_def
      str_strip_def is_space_def cve_id_match_def demo_cve demo_no_cve List.map_filter_def)

lemma import_accounts_example:
  "\<exists>s w'. import_and_merge demo_app_env demo_parse Some True (\<lambda>_. Some demo_workbook) (PyPath [] [''w'']) ''S'' demo_intel = (Inr s, w')
     \<and> iy_fetched_count s = 1 \<and> iy_failed_count s = 1 \<and> length (in_vulns w') = iy_created_count s"
proof -
  let ?m = "import_and_merge demo_app_env demo_parse Some True (\<lambda>_. Some demo_workbook) (PyPath [] [''w'']) ''S''"
  let ?c = "row_contribution demo_parse [''CVE ID'' \<mapsto> 0] [PStr '' CVE-2024-0001''] ''CVE-2024-0001''"
  have c: "?c = (blank_contribution ''CVE-2024-0001'' MANUAL_IMPORT)\<lparr>nc_cwe_ids := []\<rparr>"
    by (simp add: row_contribution_def cell_def clean_str_def parse_cvss_def parse_percentage_def parse_bool_def cell_text_def
        cwe_findall.simps [of "[]"] List.map_filter_def blank_contribution_def)
  obtain x w' where run: "?m demo_intel = (x, w')" by (cases "?m demo_intel")
  then obtain s where s: "x = Inr s" "iy_fetched_count s = 1" "iy_failed_count s = 1"
    by (auto simp: import_and_merge_def demo_import c import_contribution_def get_vulnerability_def app_m_defs demo_intel_def demo_runs_def
        runs_state.defs merge_def merged_history_def blank_vulnerability_def track_def fromkeys_def merged_vulnerability_def
        validate_vulnerability_def opt_between_def validate_source_record_def contributed_record_def demo_cve raise_if_def ne_def
        upsert_vulnerability_def upsert_source_record_def append_history_def better_def truthy_str_def scalar_one_or_none_def
        blank_contribution_def Let_def)
  have "in_vulns demo_intel = []" by (simp add: demo_intel_def runs_state.defs)
  with import_accounts [OF run [unfolded s(1)]] run s show ?thesis by auto
qed

end
