(* ===== verification/Orchestration.thy ===== *)
theory Orchestration
  imports Evidence Verdict
begin

text \<open>
  Orchestration of a validation (\<open>orchestration/experiment_orchestrator.py\<close>) and the application
  service above it (\<open>services/experiment_service.py\<close>): run baseline and mitigation, score both,
  compare them, and persist the evidence of both runs and the comparison. The evidence repository is the
  interface \<open>evidence_store\<close>: its two operations are arguments of the definitions, and what follows from
  its laws is proved in the locale, for the directory tree and the object store alike.
\<close>

section \<open>\<open>experiment_orchestrator.py\<close>\<close>

record validation_result =
  vr_execution :: execution_result
  vr_baseline_manifest_path :: pypath
  vr_mitigation_manifest_path :: pypath
  vr_comparison_path :: pypath
  vr_comparison_report :: comparison_report

text \<open>The state is that of the runner and that of the evidence repository.\<close>

type_synonym ('s, 'a) orch_m = "(run_world \<times> 's, exn, 'a) eff"

definition on_run :: "'a run_m \<Rightarrow> ('s, 'a) orch_m" where
  "on_run m ws = (case ws of (w, s) \<Rightarrow> case m w of (r, w') \<Rightarrow> (r, (w', s)))"

definition on_store :: "('s \<Rightarrow> exn + ('a \<times> 's)) \<Rightarrow> ('s, 'a) orch_m" where
  "on_store f ws = (case ws of (w, s) \<Rightarrow> case f s of Inl e \<Rightarrow> (Inl e, (w, s)) | Inr (x, s') \<Rightarrow> (Inr x, (w, s')))"

definition execute_and_generate_evidence :: "run_env \<Rightarrow> codec \<Rightarrow> (evidence_bundle \<Rightarrow> 's \<Rightarrow> exn + (pypath \<times> 's))
    \<Rightarrow> (string \<Rightarrow> comparison_report \<Rightarrow> 's \<Rightarrow> pypath \<times> 's) \<Rightarrow> run_request \<Rightarrow> ('s, validation_result) orch_m" where
  "execute_and_generate_evidence E C save save_cmp q =
     bindE (on_run (load_test_set E (rq_dataset_path q))) (\<lambda>(test_set, _).
     bindE (on_run (run E q)) (\<lambda>result.
     bindE (on_run (emit E RE_ANALYSING)) (\<lambda>_.
     bindE (on_run (read_clock E)) (\<lambda>t1.
     bindE (liftE (calculate_metrics (rq_baseline_run_id q) (ro_case_results (xr_baseline result)) (ts_cases test_set) ''1.0.0'' t1)) (\<lambda>baseline_metrics.
     bindE (on_run (read_clock E)) (\<lambda>t2.
     bindE (liftE (calculate_metrics (rq_mitigation_run_id q) (ro_case_results (xr_mitigation result)) (ts_cases test_set) ''1.0.0'' t2)) (\<lambda>mitigation_metrics.
     bindE (liftE (build_run_evidence C (rq_experiment q) (ts_test_set_id test_set) (xr_baseline result) baseline_metrics
       (xr_safety_decision result) ''1.0.0'')) (\<lambda>baseline_bundle.
     bindE (liftE (build_run_evidence C (rq_experiment q) (ts_test_set_id test_set) (xr_mitigation result) mitigation_metrics
       (xr_safety_decision result) ''1.0.0'')) (\<lambda>mitigation_bundle.
     bindE (on_run (read_clock E)) (\<lambda>t3.
     bindE (liftE (compare (ed_experiment_id (rq_experiment q)) (int (length (ts_cases test_set))) baseline_metrics mitigation_metrics t3)) (\<lambda>report.
     bindE (on_run (emit E RE_GENERATING_EVIDENCE)) (\<lambda>_.
     bindE (on_store (save baseline_bundle)) (\<lambda>baseline_dir.
     bindE (on_store (save mitigation_bundle)) (\<lambda>mitigation_dir.
     bindE (on_store (\<lambda>s. Inr (save_cmp (ed_experiment_id (rq_experiment q)) report s))) (\<lambda>comparison_path.
     returnE \<lparr>vr_execution = result, vr_baseline_manifest_path = path_join baseline_dir ''manifest.json'',
       vr_mitigation_manifest_path = path_join mitigation_dir ''manifest.json'', vr_comparison_path = comparison_path,
       vr_comparison_report = report\<rparr>)))))))))))))))"

section \<open>\<open>experiment_service.py\<close>\<close>

definition check_safety :: "experiment_definition \<Rightarrow> execution_context \<Rightarrow> datetime \<Rightarrow> exn + (policy_decision \<times> execution_context)" where
  "check_safety e ctx now = bindS (evaluate e ctx now) (\<lambda>d. Inr (d, ctx))"

record run_outcome_summary =
  rs_comparison_report :: comparison_report
  rs_baseline_manifest_path :: pypath
  rs_mitigation_manifest_path :: pypath
  rs_results_dir :: pypath

text \<open>\<open>base / path\<close> of two paths.\<close>

definition path_under :: "pypath \<Rightarrow> pypath \<Rightarrow> pypath" where
  "path_under p q = (if path_root q \<noteq> [] then q else PyPath (path_root p) (path_parts p @ path_parts q))"

definition resolve_pair :: "experiment_definition \<Rightarrow> exn + (strategy \<times> strategy)" where
  "resolve_pair e =
     (case bindS (resolve_strategy (ed_baseline_strategy e)) (\<lambda>b. bindS (resolve_strategy (ed_mitigation_strategy e)) (\<lambda>m. Inr (b, m))) of
        Inl (UnknownStrategyError msg) \<Rightarrow> Inl (ExperimentServiceError msg)
      | r \<Rightarrow> r)"

definition run_id_of :: "nat \<Rightarrow> string \<Rightarrow> string" where
  "run_id_of stamp mode_tag = ''RUN-'' @ nat_digits stamp @ mode_tag"

text \<open>\<open>cwd\<close> is the working directory, \<open>stamp\<close> the reading of the clock in milliseconds.\<close>

definition run_experiment :: "run_env \<Rightarrow> codec \<Rightarrow> (evidence_bundle \<Rightarrow> 's \<Rightarrow> exn + (pypath \<times> 's))
    \<Rightarrow> (string \<Rightarrow> comparison_report \<Rightarrow> 's \<Rightarrow> pypath \<times> 's) \<Rightarrow> pypath \<Rightarrow> nat \<Rightarrow> pypath \<Rightarrow> string
    \<Rightarrow> experiment_definition \<Rightarrow> execution_context \<Rightarrow> ('s, run_outcome_summary) orch_m" where
  "run_experiment E C save save_cmp cwd stamp results_root git_commit e ctx =
     bindE (on_run (emit E RE_PREPARING)) (\<lambda>_.
     let dataset_path = path_under cwd (ed_dataset_path e) in
     if re_files E dataset_path = None
     then liftE (Inl (ExperimentServiceError (''dataset not found: '' @ path_str dataset_path)))
     else
       bindE (liftE (resolve_pair e)) (\<lambda>(baseline, mitigation).
       bindE (execute_and_generate_evidence E C save save_cmp
         \<lparr>rq_experiment = e, rq_dataset_path = dataset_path, rq_baseline = baseline, rq_mitigation = mitigation,
          rq_baseline_run_id = run_id_of stamp ''01'', rq_mitigation_run_id = run_id_of stamp ''02'',
          rq_git_commit = git_commit, rq_environment = None, rq_execution_context = ctx\<rparr>) (\<lambda>result.
       returnE \<lparr>rs_comparison_report = vr_comparison_report result,
         rs_baseline_manifest_path = vr_baseline_manifest_path result,
         rs_mitigation_manifest_path = vr_mitigation_manifest_path result,
         rs_results_dir = path_join results_root (ed_experiment_id e)\<rparr>)))"

section \<open>Reading evidence back\<close>

record case_comparison =
  cc_case_id :: string
  cc_test_case :: "test_case option"
  cc_baseline :: case_result
  cc_mitigation :: case_result

record evidence_view =
  ew_experiment_id :: string
  ew_baseline_manifest :: evidence_manifest
  ew_mitigation_manifest :: evidence_manifest
  ew_comparison :: comparison_report
  ew_case_comparisons :: "case_comparison list"
  ew_results_dir :: pypath
  ew_dataset_note :: "string option"

text \<open>
  An evidence repository as its readers see it, and the two JSON artefacts that are parsed back
  (\<open>json.loads\<close> with \<open>model_validate\<close>): the list of results and the dataset's path.
\<close>

record 's evidence_reader =
  rd_load_comparison :: "string \<Rightarrow> 's \<Rightarrow> exn + comparison_report option"
  rd_load_manifest :: "string \<Rightarrow> string \<Rightarrow> 's \<Rightarrow> exn + evidence_manifest"
  rd_load_artefact :: "string \<Rightarrow> string \<Rightarrow> string \<Rightarrow> 's \<Rightarrow> exn + string"
  rd_parse_results :: "string \<Rightarrow> exn + case_result list"
  rd_parse_dataset_path :: "string \<Rightarrow> exn + string"
  rd_exc_text :: "exn \<Rightarrow> string"

definition read_artefact :: "'s evidence_reader \<Rightarrow> string \<Rightarrow> string \<Rightarrow> evidence_manifest \<Rightarrow> string \<Rightarrow> 's \<Rightarrow> exn + string" where
  "read_artefact R experiment_id run_id manifest name s =
     (case map_of (mf_artefact_paths manifest) name of
        None \<Rightarrow> Inl (OtherError ''KeyError'' name)
      | Some p \<Rightarrow> rd_load_artefact R experiment_id run_id (path_str p) s)"

definition join_cases :: "case_result list \<Rightarrow> case_result list \<Rightarrow> (string \<rightharpoonup> test_case) \<Rightarrow> case_comparison list" where
  "join_cases baseline_results mitigation_results test_cases_by_id =
     concat (map (\<lambda>b. case map_of (rev (map (\<lambda>r. (cr_case_id r, r)) mitigation_results)) (cr_case_id b) of
         None \<Rightarrow> []
       | Some m \<Rightarrow> [\<lparr>cc_case_id = cr_case_id b, cc_test_case = test_cases_by_id (cr_case_id b), cc_baseline = b, cc_mitigation = m\<rparr>])
       baseline_results)"

text \<open>The exceptions that leave the view without per-case detail; others propagate.\<close>

fun dataset_unreadable :: "exn \<Rightarrow> bool" where
  "dataset_unreadable (FileNotFoundError _) = True"
| "dataset_unreadable (ValueError _) = True"
| "dataset_unreadable (ValidationError _ _) = True"
| "dataset_unreadable (OtherError c _) = (c = ''KeyError'')"
| "dataset_unreadable _ = False"

definition reload_dataset :: "run_env \<Rightarrow> 's evidence_reader \<Rightarrow> pypath \<Rightarrow> string \<Rightarrow> string \<Rightarrow> evidence_manifest \<Rightarrow> 's
    \<Rightarrow> run_world \<Rightarrow> exn + test_set" where
  "reload_dataset E R cwd experiment_id run_id manifest s w =
     bindS (read_artefact R experiment_id run_id manifest ''dataset_manifest'' s) (\<lambda>raw.
     bindS (rd_parse_dataset_path R raw) (\<lambda>p.
     bindS (fst (load_test_set E (path_join cwd p) w)) (\<lambda>(test_set, _). Inr test_set)))"

definition load_latest_evidence :: "run_env \<Rightarrow> 's evidence_reader \<Rightarrow> pypath \<Rightarrow> pypath \<Rightarrow> string \<Rightarrow> run_world \<Rightarrow> 's
    \<Rightarrow> exn + evidence_view option" where
  "load_latest_evidence E R cwd results_root experiment_id w s =
     bindS (rd_load_comparison R experiment_id s) (\<lambda>cmp.
     case cmp of
       None \<Rightarrow> Inr None
     | Some comparison \<Rightarrow>
         bindS (rd_load_manifest R experiment_id (cp_baseline_run_id comparison) s) (\<lambda>baseline_manifest.
         bindS (rd_load_manifest R experiment_id (cp_mitigation_run_id comparison) s) (\<lambda>mitigation_manifest.
         bindS (read_artefact R experiment_id (cp_baseline_run_id comparison) baseline_manifest ''results'' s) (\<lambda>braw.
         bindS (rd_parse_results R braw) (\<lambda>baseline_results.
         bindS (read_artefact R experiment_id (cp_mitigation_run_id comparison) mitigation_manifest ''results'' s) (\<lambda>mraw.
         bindS (rd_parse_results R mraw) (\<lambda>mitigation_results.
         let view = (\<lambda>cases note. Inr (Some \<lparr>ew_experiment_id = experiment_id, ew_baseline_manifest = baseline_manifest,
           ew_mitigation_manifest = mitigation_manifest, ew_comparison = comparison,
           ew_case_comparisons = join_cases baseline_results mitigation_results cases,
           ew_results_dir = path_join results_root experiment_id, ew_dataset_note = note\<rparr>))
         in case reload_dataset E R cwd experiment_id (cp_baseline_run_id comparison) baseline_manifest s w of
              Inr test_set \<Rightarrow> view (map_of (rev (map (\<lambda>c. (tc_case_id c, c)) (ts_cases test_set)))) None
            | Inl e \<Rightarrow>
                if dataset_unreadable e
                then view Map.empty (Some (''original dataset could not be re-loaded for per-case detail: '' @ rd_exc_text R e))
                else Inl e)))))))"

record case_category_breakdown =
  cb_valid_count :: nat
  cb_malformed_count :: nat
  cb_boundary_count :: nat
  cb_baseline_malformed_block_rate :: "float64 option"
  cb_mitigation_malformed_block_rate :: "float64 option"

definition in_category :: "test_case_category \<Rightarrow> case_comparison \<Rightarrow> bool" where
  "in_category c x \<longleftrightarrow> (case cc_test_case x of None \<Rightarrow> False | Some t \<Rightarrow> tc_category t = c)"

definition summarise_case_categories :: "case_comparison list \<Rightarrow> case_category_breakdown" where
  "summarise_case_categories case_comparisons =
     (let known = filter (\<lambda>c. cc_test_case c \<noteq> None) case_comparisons;
          malformed = filter (in_category TC_MALFORMED) known;
          rate = (\<lambda>side. if malformed = [] then None
            else Some (fl (of_nat (count_if (\<lambda>c. cr_decision (side c) = BLOCKED) malformed) / of_nat (length malformed))))
      in \<lparr>cb_valid_count = count_if (in_category TC_VALID) known, cb_malformed_count = length malformed,
          cb_boundary_count = count_if (in_category TC_BOUNDARY) known,
          cb_baseline_malformed_block_rate = rate cc_baseline,
          cb_mitigation_malformed_block_rate = rate cc_mitigation\<rparr>)"

section \<open>A refused experiment leaves no evidence\<close>

lemma on_run_Inr: "on_run m (w, s) = (Inr x, ws) \<longleftrightarrow> (\<exists>w'. m w = (Inr x, w') \<and> ws = (w', s))"
  by (auto simp: on_run_def split: prod.splits)

lemma on_store_Inr: "on_store f (w, s) = (Inr x, ws) \<longleftrightarrow> (\<exists>s'. f s = Inr (x, s') \<and> ws = (w, s'))"
  by (auto simp: on_store_def split: sum.splits prod.splits)

lemma load_test_set_trace: "snd (load_test_set E p w) = w\<lparr>rw_trace := rw_trace w @ [DatasetRead p]\<rparr>"
  by (auto simp: load_test_set_def bindE_def perform_def liftE_def returnE_def Let_def split: option.split sum.split prod.split)

lemma refused_run:
  assumes "\<not> safe_to_run (rq_experiment q) (rq_execution_context q)"
  shows "\<exists>d w'. run E q w = (Inl (PolicyRefusalError d), w') \<and> \<not> pd_allowed d
    \<and> rw_trace w' = rw_trace w @ sent E RE_SAFETY_CHECK"
proof -
  obtain d where "evaluate (rq_experiment q) (rq_execution_context q) (re_clock E (rw_clock_reads w)) = Inr d" "\<not> pd_allowed d"
    using policy.unsafe_refused [OF assms] by blast
  then show ?thesis by (simp add: run_def emit_eq bindE_def read_clock_def liftE_def Let_def)
qed

lemma refused_orchestration:
  assumes "\<not> safe_to_run (rq_experiment q) (rq_execution_context q)"
  shows "\<exists>e w'. execute_and_generate_evidence E C save save_cmp q (w, s) = (Inl e, (w', s))
    \<and> (rw_trace w' = rw_trace w @ [DatasetRead (rq_dataset_path q)]
       \<or> (\<exists>d. e = PolicyRefusalError d \<and> rw_trace w' = rw_trace w @ DatasetRead (rq_dataset_path q) # sent E RE_SAFETY_CHECK))"
proof -
  let ?w1 = "w\<lparr>rw_trace := rw_trace w @ [DatasetRead (rq_dataset_path q)]\<rparr>"
  obtain r where l: "load_test_set E (rq_dataset_path q) w = (r, ?w1)"
    using load_test_set_trace by (metis prod.exhaust_sel)
  show ?thesis
  proof (cases r)
    case (Inl e)
    then show ?thesis using l by (simp add: execute_and_generate_evidence_def bindE_def [of "on_run (load_test_set _ _)"] on_run_def)
  next
    case (Inr x)
    obtain d w' where "run E q ?w1 = (Inl (PolicyRefusalError d), w')" "rw_trace w' = rw_trace ?w1 @ sent E RE_SAFETY_CHECK"
      using refused_run [OF assms] by blast
    then show ?thesis using l Inr
      by (cases x) (simp add: execute_and_generate_evidence_def bindE_def [of "on_run (load_test_set _ _)"]
          bindE_def [of "on_run (run _ _)"] on_run_def)
  qed
qed

text \<open>
  An experiment that the safety rules forbid produces no evidence: orchestrating it fails, calls no
  strategy and leaves the evidence repository exactly as it was, whichever repository it is; the dataset
  file is read once before the policy refuses.
\<close>

theorem refused_leaves_no_evidence:
  assumes "\<not> safe_to_run (rq_experiment q) (rq_execution_context q)"
  shows "\<exists>e w' acts. execute_and_generate_evidence E C save save_cmp q (w, s) = (Inl e, (w', s))
    \<and> rw_trace w' = rw_trace w @ DatasetRead (rq_dataset_path q) # acts \<and> (\<forall>i c. ProcessCall i c \<notin> set acts)"
  using refused_orchestration [OF assms, of E C save save_cmp w s] by (auto simp: sent_def)

theorem refused_leaves_no_evidence_witness:
  "\<exists>e w'. execute_and_generate_evidence demo_env demo_codec (local_save_run_evidence (PyPath [] [''results'']))
     (local_save_comparison demo_codec (PyPath [] [''results''])) (demo_request AS_DRAFT) (demo_world, []) = (Inl e, (w', []))"
  using refused_leaves_no_evidence [of "demo_request AS_DRAFT" demo_env demo_codec] 
  by (fastforce simp: demo_request_def demo_experiment_def safe_to_run_def)

section \<open>The chain of evidence\<close>

lemma load_test_set_Inr_of:
  "load_test_set E path w = (Inr (ts, h), w') \<longleftrightarrow> dataset_of E path ts h \<and> w' = w\<lparr>rw_trace := rw_trace w @ [DatasetRead path]\<rparr>"
  by (auto simp: load_test_set_Inr dataset_of_def)

lemma orchestration_Inr:
  assumes "execute_and_generate_evidence E C save save_cmp q (w, s) = (Inr x, (w', s'))"
  obtains ts h w1 w2 res bm mm bb mb t1 t2 t3 rep p1 p2 s1 s2 where
    "dataset_of E (rq_dataset_path q) ts h" "run E q w1 = (Inr res, w2)"
    "calculate_metrics (rq_baseline_run_id q) (ro_case_results (xr_baseline res)) (ts_cases ts) ''1.0.0'' t1 = Inr bm"
    "calculate_metrics (rq_mitigation_run_id q) (ro_case_results (xr_mitigation res)) (ts_cases ts) ''1.0.0'' t2 = Inr mm"
    "build_run_evidence C (rq_experiment q) (ts_test_set_id ts) (xr_baseline res) bm (xr_safety_decision res) ''1.0.0'' = Inr bb"
    "build_run_evidence C (rq_experiment q) (ts_test_set_id ts) (xr_mitigation res) mm (xr_safety_decision res) ''1.0.0'' = Inr mb"
    "compare (ed_experiment_id (rq_experiment q)) (int (length (ts_cases ts))) bm mm t3 = Inr rep"
    "save bb s = Inr (p1, s1)" "save mb s1 = Inr (p2, s2)"
    "s' = snd (save_cmp (ed_experiment_id (rq_experiment q)) rep s2)"
    "vr_execution x = res" "vr_comparison_report x = rep"
    "rw_trace w1 = rw_trace w @ [DatasetRead (rq_dataset_path q)]"
    "rw_trace w' = rw_trace w2 @ sent E RE_ANALYSING @ sent E RE_GENERATING_EVIDENCE"
  using assms
  by (clarsimp simp: execute_and_generate_evidence_def bindE_Inr on_run_Inr on_store_Inr load_test_set_Inr_of emit_eq read_clock_def
      liftE_def returnE_def split: prod.splits)

text \<open>Some facts about what a run records.\<close>

lemma metrics_run_id: "calculate_metrics rid rs cs v t = Inr m \<Longrightarrow> em_run_id m = rid"
  by (auto simp: calculate_metrics_def Let_def res_simps dest!: validate_metrics_id)

lemma run_outcome_ids:
  assumes "run E q w = (Inr x, w')"
  shows "er_run_id (ro_run (xr_baseline x)) = rq_baseline_run_id q \<and> er_run_id (ro_run (xr_mitigation x)) = rq_mitigation_run_id q
    \<and> ro_strategy_id (xr_baseline x) = ed_baseline_strategy (rq_experiment q)
    \<and> ro_strategy_id (xr_mitigation x) = ed_mitigation_strategy (rq_experiment q)
    \<and> er_dataset_hash (ro_run (xr_baseline x)) = er_dataset_hash (ro_run (xr_mitigation x))
    \<and> pd_allowed (xr_safety_decision x) \<and> safe_to_run (rq_experiment q) (rq_execution_context q)"
proof -
  obtain d ts h w1 where e: "evaluate (rq_experiment q) (rq_execution_context q) (re_clock E (rw_clock_reads w)) = Inr d" "pd_allowed d"
    and c: "check_request q = Inr ()" and rm: "run_modes E q d ts h w1 = (Inr x, w')"
    using assms unfolding run_Inr by blast
  have "safe_to_run (rq_experiment q) (rq_execution_context q)" using policy.allowed_iff [OF e(1)] e(2) by simp
  with rm c e(2) show ?thesis
    unfolding run_modes_def Let_def bindE_Inr execute_mode_Inr
    by (auto simp: emit_eq returnE_def check_request_Inr mode_run_def)
qed

lemma compare_sel:
  "compare i n bm mm t = Inr r \<Longrightarrow> cp_experiment_id r = i \<and> cp_baseline_metrics r = bm \<and> cp_mitigation_metrics r = mm
     \<and> cp_total_cases r = n \<and> cp_baseline_run_id r = em_run_id bm \<and> cp_mitigation_run_id r = em_run_id mm \<and> em_run_id bm \<noteq> em_run_id mm"
  by (auto simp: compare_def validate_comparison_def res_simps)

lemma built_manifest:
  assumes "dump_excludes_digest C" and "build_run_evidence C e i out ms d v = Inr b"
  shows "mf_run_id (eb_manifest b) = er_run_id (ro_run out)" "mf_experiment_id (eb_manifest b) = ed_experiment_id e"
    "mf_strategy_id (eb_manifest b) = ro_strategy_id out" "mf_metrics (eb_manifest b) = ms"
    "mf_test_set_sha256 (eb_manifest b) = er_dataset_hash (ro_run out)" "mf_safety_decision (eb_manifest b) = d"
    "verify_manifest_integrity C (eb_manifest b)"
    "map_of (eb_artefacts b) ''manifest.json'' = Some (cd_manifest_text C (eb_manifest b))"
    "good_bundle b"
proof -
  obtain c where m: "eb_manifest b = manifest_with e i out ms d v c (mf_manifest_sha256 (eb_manifest b))"
    using build_run_evidence_Inr [OF assms] by blast
  show "mf_run_id (eb_manifest b) = er_run_id (ro_run out)" "mf_experiment_id (eb_manifest b) = ed_experiment_id e"
    "mf_strategy_id (eb_manifest b) = ro_strategy_id out" "mf_metrics (eb_manifest b) = ms"
    "mf_test_set_sha256 (eb_manifest b) = er_dataset_hash (ro_run out)" "mf_safety_decision (eb_manifest b) = d"
    by (subst m, simp add: manifest_with_def Let_def)+
  show "verify_manifest_integrity C (eb_manifest b)"
    "map_of (eb_artefacts b) ''manifest.json'' = Some (cd_manifest_text C (eb_manifest b))"
    using build_run_evidence_Inr [OF assms] by auto
  show "good_bundle b" using built_bundle_good [OF assms(2)] .
qed

context evidence_store
begin

text \<open>What a successful orchestration leaves in the repository.\<close>

lemma chain:
  assumes ex: "dump_excludes_digest C" and rt: "dec (enc (vr_comparison_report x)) = Inr (vr_comparison_report x)"
    and o: "execute_and_generate_evidence E C save save_cmp q (w, s) = (Inr x, (w', s'))"
  shows "\<exists>mb mm. load (ed_experiment_id (rq_experiment q)) (rq_baseline_run_id q) ''manifest.json'' s' = Inr (cd_manifest_text C mb)
    \<and> load (ed_experiment_id (rq_experiment q)) (rq_mitigation_run_id q) ''manifest.json'' s' = Inr (cd_manifest_text C mm)
    \<and> load_cmp (ed_experiment_id (rq_experiment q)) s' = Inr (Some (vr_comparison_report x))
    \<and> verify_manifest_integrity C mb \<and> verify_manifest_integrity C mm
    \<and> mf_strategy_id mb = ed_baseline_strategy (rq_experiment q) \<and> mf_strategy_id mm = ed_mitigation_strategy (rq_experiment q)
    \<and> mf_metrics mb = cp_baseline_metrics (vr_comparison_report x) \<and> mf_metrics mm = cp_mitigation_metrics (vr_comparison_report x)
    \<and> mf_test_set_sha256 mb = mf_test_set_sha256 mm \<and> mf_safety_decision mb = mf_safety_decision mm
    \<and> pd_allowed (mf_safety_decision mb) \<and> safe_to_run (rq_experiment q) (rq_execution_context q)"
  using o
proof (rule orchestration_Inr)
  fix ts h w1 w2 res bm mm bb mb t1 t2 t3 rep p1 p2 s1 s2
  assume r: "run E q w1 = (Inr res, w2)"
    and m: "calculate_metrics (rq_baseline_run_id q) (ro_case_results (xr_baseline res)) (ts_cases ts) ''1.0.0'' t1 = Inr bm"
      "calculate_metrics (rq_mitigation_run_id q) (ro_case_results (xr_mitigation res)) (ts_cases ts) ''1.0.0'' t2 = Inr mm"
    and b: "build_run_evidence C (rq_experiment q) (ts_test_set_id ts) (xr_baseline res) bm (xr_safety_decision res) ''1.0.0'' = Inr bb"
    and b': "build_run_evidence C (rq_experiment q) (ts_test_set_id ts) (xr_mitigation res) mm (xr_safety_decision res) ''1.0.0'' = Inr mb"
    and c: "compare (ed_experiment_id (rq_experiment q)) (int (length (ts_cases ts))) bm mm t3 = Inr rep"
    and s: "save bb s = Inr (p1, s1)" "save mb s1 = Inr (p2, s2)" "s' = snd (save_cmp (ed_experiment_id (rq_experiment q)) rep s2)"
    and x: "vr_execution x = res" "vr_comparison_report x = rep"
  note bi = built_manifest [OF ex b] and mi = built_manifest [OF ex b'] and ids = run_outcome_ids [OF r] and cs = compare_sel [OF c]
  have keys: "bundle_key bb = (ed_experiment_id (rq_experiment q), rq_baseline_run_id q)"
    "bundle_key mb = (ed_experiment_id (rq_experiment q), rq_mitigation_run_id q)"
    using bi(1,2) mi(1,2) ids by (simp_all add: bundle_key_def)
  have ne: "rq_baseline_run_id q \<noteq> rq_mitigation_run_id q" using cs metrics_run_id m by metis
  have gp: "good_part (ed_experiment_id (rq_experiment q))" "good_part (rq_baseline_run_id q)" "good_part (rq_mitigation_run_id q)"
    "good_part ''manifest.json''"
    using bi(9) mi(9) keys by (auto simp: good_bundle_def bundle_key_def good_part_def)
  have 1: "load (ed_experiment_id (rq_experiment q)) (rq_baseline_run_id q) ''manifest.json'' s1 = Inr (cd_manifest_text C (eb_manifest bb))"
    using load_saved [OF bi(9) s(1) gp(4) bi(8)] keys by simp
  have 2: "load (ed_experiment_id (rq_experiment q)) (rq_baseline_run_id q) ''manifest.json'' s2 = Inr (cd_manifest_text C (eb_manifest bb))"
    using load_other [OF mi(9) s(2) gp(1,2,4)] keys ne 1 by simp
  have 3: "load (ed_experiment_id (rq_experiment q)) (rq_mitigation_run_id q) ''manifest.json'' s2 = Inr (cd_manifest_text C (eb_manifest mb))"
    using load_saved [OF mi(9) s(2) gp(4) mi(8)] keys by simp
  show ?thesis
    using load_save_cmp [OF gp(1) gp(1) gp(2) gp(4)] load_save_cmp [OF gp(1) gp(1) gp(3) gp(4)] latest_comparison [OF gp(1), of rep]
      bi mi ids cs 2 3 s(3) x rt
    by (intro exI [of _ "eb_manifest bb"] exI [of _ "eb_manifest mb"]) simp
qed

end

text \<open>
  C16. The chain of evidence. When an orchestration over the directory repository returns, the experiment
  was allowed by the policy, and what can be read back afterwards hangs together: both manifests load and
  pass their integrity check, carry the declared strategies, the same dataset digest and the same allowing
  decision, and the stored comparison is the one returned, built from exactly the metrics in the two
  manifests. (A manifest loads as the parse of the JSON text written for it; the report's text is assumed
  to parse back to the report.)
\<close>

theorem evidence_chain:
  assumes "dump_excludes_digest C"
    and "cd_comparison_of C (cd_comparison_text C (vr_comparison_report x)) = Inr (vr_comparison_report x)"
    and "execute_and_generate_evidence E C (local_save_run_evidence base) (local_save_comparison C base) q (w, fs) = (Inr x, (w', fs'))"
  shows "\<exists>mb mm. local_load_manifest C base (ed_experiment_id (rq_experiment q)) (rq_baseline_run_id q) fs' = cd_manifest_of C (cd_manifest_text C mb)
    \<and> local_load_manifest C base (ed_experiment_id (rq_experiment q)) (rq_mitigation_run_id q) fs' = cd_manifest_of C (cd_manifest_text C mm)
    \<and> local_load_comparison C base (ed_experiment_id (rq_experiment q)) fs' = Inr (Some (vr_comparison_report x))
    \<and> verify_manifest_integrity C mb \<and> verify_manifest_integrity C mm
    \<and> mf_strategy_id mb = ed_baseline_strategy (rq_experiment q) \<and> mf_strategy_id mm = ed_mitigation_strategy (rq_experiment q)
    \<and> mf_metrics mb = cp_baseline_metrics (vr_comparison_report x) \<and> mf_metrics mm = cp_mitigation_metrics (vr_comparison_report x)
    \<and> mf_test_set_sha256 mb = mf_test_set_sha256 mm \<and> mf_safety_decision mb = mf_safety_decision mm
    \<and> pd_allowed (mf_safety_decision mb) \<and> safe_to_run (rq_experiment q) (rq_execution_context q)"
proof -
  obtain mb mm where
    "local_load_artefact base (ed_experiment_id (rq_experiment q)) (rq_baseline_run_id q) ''manifest.json'' fs' = Inr (cd_manifest_text C mb)"
    "local_load_artefact base (ed_experiment_id (rq_experiment q)) (rq_mitigation_run_id q) ''manifest.json'' fs' = Inr (cd_manifest_text C mm)"
    and r: "local_load_comparison C base (ed_experiment_id (rq_experiment q)) fs' = Inr (Some (vr_comparison_report x))
      \<and> verify_manifest_integrity C mb \<and> verify_manifest_integrity C mm
      \<and> mf_strategy_id mb = ed_baseline_strategy (rq_experiment q) \<and> mf_strategy_id mm = ed_mitigation_strategy (rq_experiment q)
      \<and> mf_metrics mb = cp_baseline_metrics (vr_comparison_report x) \<and> mf_metrics mm = cp_mitigation_metrics (vr_comparison_report x)
      \<and> mf_test_set_sha256 mb = mf_test_set_sha256 mm \<and> mf_safety_decision mb = mf_safety_decision mm
      \<and> pd_allowed (mf_safety_decision mb) \<and> safe_to_run (rq_experiment q) (rq_execution_context q)"
    using local_store.chain [OF assms] by blast
  then show ?thesis by - (rule exI [of _ mb], rule exI [of _ mm], auto simp: local_load_manifest_def)
qed

section \<open>An allowed experiment produces evidence\<close>

text \<open>The conditions under which a request can be orchestrated to the end.\<close>

definition ready_request :: "run_env \<Rightarrow> run_request \<Rightarrow> test_set \<Rightarrow> string \<Rightarrow> bool" where
  "ready_request E q ts h \<longleftrightarrow> safe_to_run (rq_experiment q) (rq_execution_context q) \<and> definition_fields_ok (rq_experiment q)
     \<and> check_request q = Inr () \<and> dataset_of E (rq_dataset_path q) ts h \<and> ts_domain ts = ed_domain (rq_experiment q)
     \<and> is_run_id (rq_baseline_run_id q) \<and> is_run_id (rq_mitigation_run_id q) \<and> rq_baseline_run_id q \<noteq> rq_mitigation_run_id q
     \<and> is_git_commit (rq_git_commit q) \<and> mono_readings (re_clock E) \<and> mono_readings (re_perf E)
     \<and> strategy_ok (rq_baseline q) \<and> strategy_ok (rq_mitigation q)"

lemma ready_run:
  assumes "ready_request E q ts h"
  shows "\<exists>x w'. run E q w = (Inr x, w')"
  using assms by (intro run_total [where ts = ts and h = h]) (auto simp: ready_request_def definition_fields_ok_def)

text \<open>What scoring and the manifest need of the outcome of one mode.\<close>

definition scorable :: "test_set \<Rightarrow> run_outcome \<Rightarrow> bool" where
  "scorable ts out \<longleftrightarrow> known_cases (ts_cases ts) (ro_case_results out) \<and> latencies_ok (ro_case_results out)
     \<and> valid_run (ro_run out) \<and> er_completed_at (ro_run out) \<noteq> None"

lemma raw_results_scorable:
  assumes "list_all valid_result (raw_results E s rid k cs)"
  shows "known_cases cs (raw_results E s rid k cs)" and "latencies_ok (raw_results E s rid k cs)"
proof -
  have "list_all2 (result_for s rid) cs (raw_results E s rid k cs)" by (rule raw_results_for)
  then show "known_cases cs (raw_results E s rid k cs)"
    by (auto simp: known_cases_def list_all_iff result_for_def list_all2_conv_all_nth in_set_conv_nth) (metis image_eqI nth_mem)
  show "latencies_ok (raw_results E s rid k cs)" using assms
    by (induction cs arbitrary: k)
      (auto simp: latencies_ok_def valid_result_def raw_result_def Let_def elapsed_ms_def split: sum.splits)
qed

lemma execute_mode_scorable:
  "execute_mode E s (ts_cases ts) eid rid mode h g env w = (Inr out, w') \<Longrightarrow> scorable ts out"
  by (auto simp: execute_mode_Inr Let_def scorable_def raw_results_scorable mode_run_def)

lemma run_scorable:
  assumes "run E q w = (Inr x, w')" and "dataset_of E (rq_dataset_path q) ts h"
  shows "scorable ts (xr_baseline x) \<and> scorable ts (xr_mitigation x)"
proof -
  obtain d ts' h' w1 where d: "dataset_of E (rq_dataset_path q) ts' h'" and r: "run_modes E q d ts' h' w1 = (Inr x, w')"
    using assms(1) unfolding run_Inr by blast
  have "ts' = ts" using d assms(2) by (auto simp: dataset_of_def)
  then show ?thesis using r
    unfolding run_modes_def Let_def bindE_Inr by (auto simp: returnE_def dest!: execute_mode_scorable)
qed

lemma scorable_metrics:
  assumes "scorable ts out" and "is_run_id rid"
  shows "\<exists>m. calculate_metrics rid (ro_case_results out) (ts_cases ts) ''1.0.0'' t = Inr m \<and> metrics_fields_ok m \<and> em_run_id m = rid"
  using calculate_metrics_eq [of "ts_cases ts" "ro_case_results out" rid "''1.0.0''" t] assms
  by (auto simp: scorable_def ne_def)

lemma scorable_evidence:
  assumes "scorable ts out" and "er_run_id (ro_run out) = em_run_id m" and "definition_fields_ok e"
    and "is_strategy_id (ro_strategy_id out)" and "ne (ts_test_set_id ts)"
  shows "\<exists>b. build_run_evidence C e (ts_test_set_id ts) out m d ''1.0.0'' = Inr b"
proof -
  obtain c where c: "er_completed_at (ro_run out) = Some c" using assms(1) by (auto simp: scorable_def)
  have ok: "is_sha256 hh \<Longrightarrow> validate_manifest (manifest_with e (ts_test_set_id ts) out m d ''1.0.0'' c hh)
      = Inr (manifest_with e (ts_test_set_id ts) out m d ''1.0.0'' c hh)" for hh
    using assms c demo_artefact_paths_ok
    by (auto simp: validate_manifest_def raise_if_def manifest_with_def Let_def manifest_fields_ok_def scorable_def valid_run_def
        validate_run_def definition_fields_ok_def ne_def split: if_splits)
  show ?thesis unfolding build_run_evidence_def c option.case Let_def ok [OF demo_zeros] bindS_Inr manifest_digest_def
    ok [OF is_sha256_hex] by simp
qed

lemma compare_ok:
  assumes "metrics_fields_ok b" and "metrics_fields_ok m" and "em_run_id b \<noteq> em_run_id m" and "is_experiment_id eid" and "1 \<le> n"
  shows "\<exists>r. compare eid n b m now = Inr r"
  using compare_total [OF assms] by blast

text \<open>Two runs of one experiment can both be saved where neither directory is occupied.\<close>

lemma dir_occupied_keys:
  "dir_occupied d fs \<longleftrightarrow> (\<exists>p \<in> fst ` set fs. path_root p = path_root d \<and> strict_prefix (path_parts d) (path_parts p))"
  by (simp add: dir_occupied_def list_ex_iff case_prod_beta)

lemma upsert_keys: "fst ` set (tbl_upsert fst x t) \<subseteq> insert (fst x) (fst ` set t)"
  by (auto simp: tbl_upsert_def tbl_modify_def split: option.splits if_splits)

lemma saved_keys:
  "fst ` set (fold (\<lambda>(name, content). tbl_upsert fst (f name, content)) xs t) \<subseteq> fst ` set t \<union> range f"
proof (induction xs arbitrary: t)
  case (Cons x xs)
  have "fst ` set (fold (\<lambda>(name, content). tbl_upsert fst (f name, content)) (x # xs) t)
      \<subseteq> fst ` set (tbl_upsert fst (f (fst x), snd x) t) \<union> range f"
    using Cons.IH [of "tbl_upsert fst (f (fst x), snd x) t"] by (cases x) simp
  also have "\<dots> \<subseteq> fst ` set t \<union> range f" using upsert_keys [of "(f (fst x), snd x)" t] by auto
  finally show ?case .
qed simp

lemma local_saves:
  assumes "good_bundle b" and "good_bundle b'" and "bundle_key b = (e, r)" and "bundle_key b' = (e, r')" and "r \<noteq> r'"
    and "\<not> dir_occupied (path_join (path_join base e) r) fs" and "\<not> dir_occupied (path_join (path_join base e) r') fs"
  shows "\<exists>p s p' s'. local_save_run_evidence base b fs = Inr (p, s) \<and> local_save_run_evidence base b' s = Inr (p', s')"
proof -
  have g: "good_part e" "good_part r" "good_part r'"
    using assms(1-4) by (auto simp: good_bundle_def bundle_key_def)
  obtain p s where s: "local_save_run_evidence base b fs = Inr (p, s)"
    using assms(3,6) by (auto simp: local_save_run_evidence_def bundle_key_def Let_def)
  have keys: "fst ` set s \<subseteq> fst ` set fs \<union> range (\<lambda>n. PyPath (path_root base) (path_parts base @ [e, r, n]))"
    unfolding local_save_eq(1) [OF assms(1) s] assms(3) fst_conv snd_conv by (rule saved_keys)
  have "\<not> dir_occupied (PyPath (path_root base) (path_parts base @ [e, r'])) s"
  proof
    assume "dir_occupied (PyPath (path_root base) (path_parts base @ [e, r'])) s"
    then obtain k where k: "k \<in> fst ` set s" "path_root k = path_root base" "strict_prefix (path_parts base @ [e, r']) (path_parts k)"
      unfolding dir_occupied_keys by auto
    from k(1) keys consider "k \<in> fst ` set fs" | n where "k = PyPath (path_root base) (path_parts base @ [e, r, n])" by blast
    then show False
    proof cases
      case 1
      then show False using k(2,3) assms(7) unfolding local_run_dir [OF g(1,3)] dir_occupied_keys by auto
    next
      case 2
      then show False using k(3) assms(5) by (auto simp: strict_prefix_def prefix_def)
    qed
  qed
  then have "\<not> dir_occupied (path_join (path_join base e) r') s"
    by (simp add: local_run_dir [OF g(1,3)])
  then have "\<exists>p' s'. local_save_run_evidence base b' s = Inr (p', s')"
    using assms(4) by (auto simp: local_save_run_evidence_def bundle_key_def Let_def)
  then show ?thesis using s by blast
qed

lemma orchestration_InrI:
  assumes "dataset_of E (rq_dataset_path q) ts h"
    and "run E q (w\<lparr>rw_trace := rw_trace w @ [DatasetRead (rq_dataset_path q)]\<rparr>) = (Inr res, w2)"
    and "\<And>t. \<exists>bm. calculate_metrics (rq_baseline_run_id q) (ro_case_results (xr_baseline res)) (ts_cases ts) ''1.0.0'' t = Inr bm \<and> P bm"
    and "\<And>t. \<exists>mm. calculate_metrics (rq_mitigation_run_id q) (ro_case_results (xr_mitigation res)) (ts_cases ts) ''1.0.0'' t = Inr mm \<and> Q mm"
    and "\<And>bm. P bm \<Longrightarrow> \<exists>b. build_run_evidence C (rq_experiment q) (ts_test_set_id ts) (xr_baseline res) bm (xr_safety_decision res) ''1.0.0'' = Inr b \<and> R b"
    and "\<And>mm. Q mm \<Longrightarrow> \<exists>b. build_run_evidence C (rq_experiment q) (ts_test_set_id ts) (xr_mitigation res) mm (xr_safety_decision res) ''1.0.0'' = Inr b \<and> R' b"
    and "\<And>bm mm t. P bm \<Longrightarrow> Q mm \<Longrightarrow> \<exists>r. compare (ed_experiment_id (rq_experiment q)) (int (length (ts_cases ts))) bm mm t = Inr r"
    and "\<And>b b'. R b \<Longrightarrow> R' b' \<Longrightarrow> \<exists>p s1 p' s2. save b s = Inr (p, s1) \<and> save b' s1 = Inr (p', s2)"
  shows "\<exists>x ws. execute_and_generate_evidence E C save save_cmp q (w, s) = (Inr x, ws)"
proof -
  let ?k = "rw_clock_reads w2"
  obtain bm mm where m: "calculate_metrics (rq_baseline_run_id q) (ro_case_results (xr_baseline res)) (ts_cases ts) ''1.0.0'' (re_clock E ?k) = Inr bm"
    "calculate_metrics (rq_mitigation_run_id q) (ro_case_results (xr_mitigation res)) (ts_cases ts) ''1.0.0'' (re_clock E (Suc ?k)) = Inr mm"
    "P bm" "Q mm" using assms(3,4) by blast
  obtain b b' r where b: "build_run_evidence C (rq_experiment q) (ts_test_set_id ts) (xr_baseline res) bm (xr_safety_decision res) ''1.0.0'' = Inr b"
    "build_run_evidence C (rq_experiment q) (ts_test_set_id ts) (xr_mitigation res) mm (xr_safety_decision res) ''1.0.0'' = Inr b'" "R b" "R' b'"
    "compare (ed_experiment_id (rq_experiment q)) (int (length (ts_cases ts))) bm mm (re_clock E (Suc (Suc ?k))) = Inr r"
    using assms(5-7) m(3,4) by metis
  obtain p s1 p' s2 where "save b s = Inr (p, s1)" "save b' s1 = Inr (p', s2)" using assms(8) b(3,4) by blast
  moreover have "load_test_set E (rq_dataset_path q) w = (Inr (ts, h), w\<lparr>rw_trace := rw_trace w @ [DatasetRead (rq_dataset_path q)]\<rparr>)"
    using assms(1) by (simp add: load_test_set_Inr_of)
  ultimately show ?thesis using assms(2) m(1,2) b
    by (simp add: execute_and_generate_evidence_def bindE_def on_run_def on_store_def emit_eq read_clock_def liftE_def returnE_def
        split: prod.split)
qed

lemma orchestration_total:
  assumes rq: "ready_request E q ts h" and ex: "dump_excludes_digest C"
    and "\<not> dir_occupied (path_join (path_join base (ed_experiment_id (rq_experiment q))) (rq_baseline_run_id q)) fs"
    and "\<not> dir_occupied (path_join (path_join base (ed_experiment_id (rq_experiment q))) (rq_mitigation_run_id q)) fs"
  shows "\<exists>x ws. execute_and_generate_evidence E C (local_save_run_evidence base) save_cmp q (w, fs) = (Inr x, ws)"
proof -
  obtain res w2 where r: "run E q (w\<lparr>rw_trace := rw_trace w @ [DatasetRead (rq_dataset_path q)]\<rparr>) = (Inr res, w2)"
    using ready_run [OF rq] by blast
  have ds: "dataset_of E (rq_dataset_path q) ts h" and df: "definition_fields_ok (rq_experiment q)"
    and ri: "is_run_id (rq_baseline_run_id q)" "is_run_id (rq_mitigation_run_id q)" "rq_baseline_run_id q \<noteq> rq_mitigation_run_id q"
    using rq by (auto simp: ready_request_def)
  have tn: "ne (ts_test_set_id ts)" "1 \<le> int (length (ts_cases ts))" and ei: "is_experiment_id (ed_experiment_id (rq_experiment q))"
    using ds df by (auto simp: dataset_of_def validate_test_set_def res_simps definition_fields_ok_def Suc_le_eq)
  have sc: "scorable ts (xr_baseline res)" "scorable ts (xr_mitigation res)" using run_scorable [OF r ds] by auto
  note ids = run_outcome_ids [OF r]
  have st: "is_strategy_id (ro_strategy_id (xr_baseline res))" "is_strategy_id (ro_strategy_id (xr_mitigation res))"
    using ids df by (simp_all add: definition_fields_ok_def)
  let ?M = "\<lambda>i m. metrics_fields_ok m \<and> em_run_id m = i"
  let ?B = "\<lambda>i b. good_bundle b \<and> bundle_key b = (ed_experiment_id (rq_experiment q), i)"
  have B: "\<exists>b. build_run_evidence C (rq_experiment q) (ts_test_set_id ts) out m (xr_safety_decision res) ''1.0.0'' = Inr b \<and> ?B i b"
    if "scorable ts out" "er_run_id (ro_run out) = i" "?M i m" "is_strategy_id (ro_strategy_id out)" for out i m
    using scorable_evidence [OF that(1) _ df that(4) tn(1), of m C "xr_safety_decision res"] that built_manifest(1,2,9) [OF ex]
    by (fastforce simp: bundle_key_def)
  show ?thesis
  proof (rule orchestration_InrI [OF ds r, where P = "?M (rq_baseline_run_id q)" and Q = "?M (rq_mitigation_run_id q)"
        and R = "?B (rq_baseline_run_id q)" and R' = "?B (rq_mitigation_run_id q)"])
    show "\<exists>p s1 p' s2. local_save_run_evidence base b fs = Inr (p, s1) \<and> local_save_run_evidence base b' s1 = Inr (p', s2)"
      if "?B (rq_baseline_run_id q) b" "?B (rq_mitigation_run_id q) b'" for b b'
      using local_saves that ri(3) assms(3,4) by blast
    show "\<exists>b. build_run_evidence C (rq_experiment q) (ts_test_set_id ts) (xr_baseline res) m (xr_safety_decision res) ''1.0.0'' = Inr b
        \<and> ?B (rq_baseline_run_id q) b" if "?M (rq_baseline_run_id q) m" for m
      using B [OF sc(1) _ that st(1)] ids by blast
    show "\<exists>b. build_run_evidence C (rq_experiment q) (ts_test_set_id ts) (xr_mitigation res) m (xr_safety_decision res) ''1.0.0'' = Inr b
        \<and> ?B (rq_mitigation_run_id q) b" if "?M (rq_mitigation_run_id q) m" for m
      using B [OF sc(2) _ that st(2)] ids by blast
  qed (use scorable_metrics sc ri compare_ok ei tn in auto)
qed

text \<open>
  An allowed experiment produces evidence. If the safety rules allow the experiment, the dataset is
  well formed and of the experiment's domain, the strategies are the declared ones, the clocks do not run
  backwards and the two run directories are free, then orchestration returns: no validator, division or
  bound between the policy check and the written comparison can fail.
\<close>

lemma orchestration_completes:
  assumes "ready_request E q ts h" and "dump_excludes_digest C"
    and "\<not> dir_occupied (path_join (path_join base (ed_experiment_id (rq_experiment q))) (rq_baseline_run_id q)) fs"
    and "\<not> dir_occupied (path_join (path_join base (ed_experiment_id (rq_experiment q))) (rq_mitigation_run_id q)) fs"
  shows "\<exists>x w' fs'. execute_and_generate_evidence E C (local_save_run_evidence base) (local_save_comparison C base) q (w, fs)
    = (Inr x, (w', fs'))"
  using orchestration_total [OF assms, of "local_save_comparison C base" w] by (metis prod.exhaust)

lemma demo_ready: "ready_request demo_env (demo_request AS_APPROVED) demo_test_set (sha256_hex ''raw'')"
  using demo_request_ok
  by (simp add: ready_request_def demo_request_def demo_experiment_def definition_fields_ok_def demo_ids ne_def
      is_strategy_id_def is_alpha_def lower_char_def)

lemma demo_free: "\<not> dir_occupied d []"
  by (simp add: dir_occupied_def)

lemma demo_dump: "dump_excludes_digest (demo_codec\<lparr>cd_comparison_of := f\<rparr>)"
  by (simp add: dump_excludes_digest_def demo_codec_def)

lemma orchestration_completes_example:
  "\<exists>x w' fs'. execute_and_generate_evidence demo_env (demo_codec\<lparr>cd_comparison_of := (\<lambda>_. Inl (ValueError []))\<rparr>) (local_save_run_evidence (PyPath [] [''results'']))
     (local_save_comparison (demo_codec\<lparr>cd_comparison_of := (\<lambda>_. Inl (ValueError []))\<rparr>) (PyPath [] [''results''])) (demo_request AS_APPROVED) (demo_world, [])
     = (Inr x, (w', fs'))"
  by (rule orchestration_completes [OF demo_ready demo_dump demo_free demo_free])

text \<open>Writing evidence never decodes a report.\<close>

lemma decoding_unused:
  "build_run_evidence (C\<lparr>cd_comparison_of := f\<rparr>) = build_run_evidence C"
  "local_save_comparison (C\<lparr>cd_comparison_of := f\<rparr>) base = local_save_comparison C base"
  by (intro ext, simp add: build_run_evidence_def manifest_digest_def cong: option.case_cong)
    (intro ext, simp add: local_save_comparison_def)

lemma execute_decoding:
  "execute_and_generate_evidence E (C\<lparr>cd_comparison_of := f\<rparr>) save save_cmp q = execute_and_generate_evidence E C save save_cmp q"
  by (simp add: execute_and_generate_evidence_def decoding_unused)

theorem evidence_chain_witness:
  "\<exists>C x w' fs'. execute_and_generate_evidence demo_env C (local_save_run_evidence (PyPath [] [''results'']))
     (local_save_comparison C (PyPath [] [''results''])) (demo_request AS_APPROVED) (demo_world, []) = (Inr x, (w', fs'))
     \<and> local_load_comparison C (PyPath [] [''results'']) ''ZC-VPN-EXP-001'' fs' = Inr (Some (vr_comparison_report x))"
proof -
  let ?base = "PyPath [] [''results'']"
  let ?C = "\<lambda>f. demo_codec\<lparr>cd_comparison_of := f\<rparr>"
  let ?go = "\<lambda>C. execute_and_generate_evidence demo_env C (local_save_run_evidence ?base) (local_save_comparison C ?base)
     (demo_request AS_APPROVED) (demo_world, [])"
  have same: "?go (?C f) = ?go demo_codec" for f
    by (simp add: execute_decoding decoding_unused)
  obtain x w' fs' where x: "?go demo_codec = (Inr x, (w', fs'))"
    using orchestration_total [OF demo_ready demo_dump demo_free demo_free, where base = ?base
        and save_cmp = "local_save_comparison demo_codec ?base" and w = demo_world] unfolding decoding_unused
    by (metis (no_types) prod.exhaust execute_decoding)
  let ?D = "?C (\<lambda>_. Inr (vr_comparison_report x))"
  have "?go ?D = (Inr x, (w', fs'))" unfolding same by (rule x)
  from evidence_chain [OF demo_dump _ this] this show ?thesis
    by (intro exI [of _ ?D]) (auto simp: demo_request_def demo_experiment_def)
qed

end
