(* ===== verification/Assurance.thy ===== *)
theory Assurance
  imports Intel_Repository Orchestration
begin

text \<open>
  Control assurance: the records of \<open>assurance/models.py\<close>, regression detection between two validations
  of a control (\<open>regression.py\<close>), the aggregation of a control's history (\<open>effectiveness.py\<close>), the tables
  (\<open>repository.py\<close>) and the binding of an experiment to a control and its version (\<open>control_binding.py\<close>).
\<close>

section \<open>\<open>models.py\<close>\<close>

record asset =
  at_asset_id :: string
  at_name :: string
  at_vendor :: string
  at_product :: string
  at_version :: "string option"
  at_environment :: string
  at_exposure :: string
  at_criticality :: string
  at_active :: bool
  at_created_at :: datetime
  at_updated_at :: datetime

record control =
  ct_control_id :: string
  ct_name :: string
  ct_domain :: string
  ct_mitigation_strategy_id :: string
  ct_created_at :: datetime

record control_version =
  cv_version_id :: string
  cv_control_id :: string
  cv_version_label :: string
  cv_domain_pack_id :: string
  cv_template_id :: string
  cv_template_version :: string
  cv_created_at :: datetime

record control_validation =
  cl_validation_id :: string
  cl_control_id :: string
  cl_version_id :: string
  cl_experiment_id :: string
  cl_baseline_run_id :: string
  cl_mitigation_run_id :: string
  cl_total_cases :: int
  cl_block_rate_improvement :: float64
  cl_false_positive_rate :: float64
  cl_false_negative_rate :: float64
  cl_valid_acceptance_rate :: float64
  cl_parser_reach_rate :: float64
  cl_latency_overhead_ms :: float64
  cl_verdict_label :: string
  cl_validated_at :: datetime

definition NEW_RELATED_CVE :: string where "NEW_RELATED_CVE = ''new_related_cve''"
definition KEV_STATE_CHANGE :: string where "KEV_STATE_CHANGE = ''kev_state_change''"
definition EPSS_MATERIAL_CHANGE_TRIGGER :: string where "EPSS_MATERIAL_CHANGE_TRIGGER = ''epss_material_change''"
definition ADVISORY_UPDATE :: string where "ADVISORY_UPDATE = ''advisory_update''"
definition VERSION_CHANGE :: string where "VERSION_CHANGE = ''version_change''"
definition SCHEDULED :: string where "SCHEDULED = ''scheduled''"
definition REGRESSION_TRIGGER :: string where "REGRESSION_TRIGGER = ''regression''"

record revalidation_candidate =
  rl_candidate_id :: string
  rl_control_id :: string
  rl_experiment_id :: "string option"
  rl_trigger_type :: string
  rl_trigger_detail :: string
  rl_status :: string
  rl_created_at :: datetime
  rl_reviewed_by :: "string option"
  rl_reviewed_at :: "datetime option"
  rl_review_note :: "string option"

record ai_assessment =
  ai_assessment_id :: string
  ai_assessment_type :: string
  ai_subject_type :: string
  ai_subject_id :: string
  ai_payload :: pydict
  ai_confidence :: float64
  ai_reviewed :: bool
  ai_reviewed_by :: "string option"
  ai_reviewed_at :: "datetime option"
  ai_review_note :: "string option"
  ai_created_at :: datetime

record assurance_state = intel_state +
  as_assets :: "asset list"
  as_controls :: "control list"
  as_versions :: "control_version list"
  as_validations :: "control_validation list"
  as_candidates :: "revalidation_candidate list"
  as_assessments :: "ai_assessment list"

type_synonym ('z, 'a) assurance_m = "('z assurance_state_scheme, exn, 'a) eff"

section \<open>\<open>regression.py\<close>\<close>

definition verdict_severity :: "string \<Rightarrow> int" where
  "verdict_severity s =
     (if s = verdict_value EFFECTIVE then 4 else if s = verdict_value PARTIALLY_EFFECTIVE then 3
      else if s = verdict_value INCONCLUSIVE then 2 else if s = verdict_value INEFFECTIVE then 1
      else if s = verdict_value REGRESSION then 0 else 2)"

record regression_thresholds =
  rt_max_block_rate_improvement_drop :: float64
  rt_max_false_positive_rate_increase :: float64
  rt_max_false_negative_rate_increase :: float64
  rt_max_valid_acceptance_rate_drop :: float64
  rt_max_parser_reach_rate_increase :: float64

definition REGRESSION_THRESHOLDS :: regression_thresholds where
  "REGRESSION_THRESHOLDS = \<lparr>rt_max_block_rate_improvement_drop = fl (1 / 10), rt_max_false_positive_rate_increase = fl (5 / 100),
     rt_max_false_negative_rate_increase = fl (5 / 100), rt_max_valid_acceptance_rate_drop = fl (5 / 100),
     rt_max_parser_reach_rate_increase = fl (5 / 100)\<rparr>"

record regression_result =
  rg_is_regression :: bool
  rg_reasons :: "string list"
  rg_thresholds_used :: "(string \<times> float64) list"

definition regression_thresholds_dict :: "regression_thresholds \<Rightarrow> (string \<times> float64) list" where
  "regression_thresholds_dict t =
     [(''max_block_rate_improvement_drop'', rt_max_block_rate_improvement_drop t),
      (''max_false_positive_rate_increase'', rt_max_false_positive_rate_increase t),
      (''max_false_negative_rate_increase'', rt_max_false_negative_rate_increase t),
      (''max_valid_acceptance_rate_drop'', rt_max_valid_acceptance_rate_drop t),
      (''max_parser_reach_rate_increase'', rt_max_parser_reach_rate_increase t)]"

text \<open>One rule: the change from \<open>a\<close> to \<open>b\<close> exceeds the allowed one.\<close>

definition degradation :: "string \<Rightarrow> string \<Rightarrow> float64 \<Rightarrow> float64 \<Rightarrow> float64 \<Rightarrow> float64 \<Rightarrow> string list" where
  "degradation what verb change old new allowed =
     (if change > allowed
      then [what @ '' '' @ verb @ '' by '' @ fmt_fixed 3 change @ '' ('' @ fmt_fixed 3 old @ '' -> '' @ fmt_fixed 3 new
        @ ''), exceeding the allowed '' @ fmt_fixed 3 allowed @ ''.'']
      else [])"

definition detect_regressions :: "control_validation \<Rightarrow> control_validation \<Rightarrow> regression_thresholds \<Rightarrow> regression_result" where
  "detect_regressions previous latest t =
     (let reasons =
        (if verdict_severity (cl_verdict_label latest) < verdict_severity (cl_verdict_label previous)
         then [''Verdict deteriorated from '' @ quoted (cl_verdict_label previous) @ '' to '' @ quoted (cl_verdict_label latest) @ ''.'']
         else [])
        @ degradation ''block_rate_improvement'' ''dropped'' (fl (cl_block_rate_improvement previous - cl_block_rate_improvement latest))
            (cl_block_rate_improvement previous) (cl_block_rate_improvement latest) (rt_max_block_rate_improvement_drop t)
        @ degradation ''false_positive_rate'' ''increased'' (fl (cl_false_positive_rate latest - cl_false_positive_rate previous))
            (cl_false_positive_rate previous) (cl_false_positive_rate latest) (rt_max_false_positive_rate_increase t)
        @ degradation ''false_negative_rate'' ''increased'' (fl (cl_false_negative_rate latest - cl_false_negative_rate previous))
            (cl_false_negative_rate previous) (cl_false_negative_rate latest) (rt_max_false_negative_rate_increase t)
        @ degradation ''valid_acceptance_rate'' ''dropped'' (fl (cl_valid_acceptance_rate previous - cl_valid_acceptance_rate latest))
            (cl_valid_acceptance_rate previous) (cl_valid_acceptance_rate latest) (rt_max_valid_acceptance_rate_drop t)
        @ degradation ''parser_reach_rate (parser exposure)'' ''increased'' (fl (cl_parser_reach_rate latest - cl_parser_reach_rate previous))
            (cl_parser_reach_rate previous) (cl_parser_reach_rate latest) (rt_max_parser_reach_rate_increase t)
      in \<lparr>rg_is_regression = reasons \<noteq> [], rg_reasons = reasons, rg_thresholds_used = regression_thresholds_dict t\<rparr>)"

section \<open>\<open>effectiveness.py\<close>\<close>

record effectiveness_summary =
  ef_control_id :: string
  ef_current_version_id :: "string option"
  ef_current_version_label :: "string option"
  ef_validation_count_current_version :: nat
  ef_total_validation_count :: nat
  ef_mean_block_rate_improvement :: "float64 option"
  ef_latest_verdict :: "string option"
  ef_previous_verdict :: "string option"
  ef_last_validated_at :: "datetime option"
  ef_trend :: "control_validation list"

definition same_version :: "control_validation list \<Rightarrow> string \<Rightarrow> control_validation list" where
  "same_version validations version_id = filter (\<lambda>v. cl_version_id v = version_id) validations"

definition summarise_effectiveness :: "string \<Rightarrow> control_validation list \<Rightarrow> effectiveness_summary option" where
  "summarise_effectiveness control_id validations =
     (if validations = [] then None
      else
        let latest = last validations;
            previous = (if 2 \<le> length validations then Some (validations ! (length validations - 2)) else None);
            current = same_version validations (cl_version_id latest);
            mean = fl (float_sum (map cl_block_rate_improvement current) / fl (of_nat (length current)))
        in Some \<lparr>ef_control_id = control_id, ef_current_version_id = Some (cl_version_id latest),
             ef_current_version_label = Some (cl_version_id latest),
             ef_validation_count_current_version = length current, ef_total_validation_count = length validations,
             ef_mean_block_rate_improvement = Some (py_round mean 4), ef_latest_verdict = Some (cl_verdict_label latest),
             ef_previous_verdict = map_option cl_verdict_label previous, ef_last_validated_at = Some (cl_validated_at latest),
             ef_trend = validations\<rparr>)"

section \<open>\<open>repository.py\<close>\<close>

definition strip_upper :: "string \<Rightarrow> string" where
  "strip_upper s = str_upper (str_strip s)"

definition control_id_for :: "string \<Rightarrow> string \<Rightarrow> string" where
  "control_id_for dm mitigation_strategy_id = strip_upper dm @ '':'' @ str_strip mitigation_strategy_id"

text \<open>Reading a row builds the model: an asset's text fields must not be empty.\<close>

definition asset_from_orm :: "asset \<Rightarrow> exn + asset" where
  "asset_from_orm a =
     bindS (raise_if (\<not> list_all ne [at_asset_id a, at_name a, at_vendor a, at_product a, at_environment a, at_exposure a, at_criticality a])
       (ValidationError ''Asset'' ''fields'')) (\<lambda>_. Inr a)"

definition create_asset :: "asset \<Rightarrow> ('z, asset) assurance_m" where
  "create_asset a =
     bindE (getE (\<lambda>w. tbl_get at_asset_id (at_asset_id a) (as_assets w))) (\<lambda>dup.
     if dup \<noteq> None then raiseE (OtherError ''IntegrityError'' ''assets.asset_id'')
     else bindE (modifyE (\<lambda>w. w\<lparr>as_assets := as_assets w @ [a]\<rparr>)) (\<lambda>_. returnE a))"

definition get_asset :: "string \<Rightarrow> ('z, asset option) assurance_m" where
  "get_asset asset_id =
     bindE (getE (\<lambda>w. tbl_get at_asset_id asset_id (as_assets w))) (\<lambda>row.
     case row of None \<Rightarrow> returnE None | Some r \<Rightarrow> bindE (liftE (asset_from_orm r)) (\<lambda>a. returnE (Some a)))"

definition list_assets :: "bool option \<Rightarrow> string option \<Rightarrow> ('z, asset list) assurance_m" where
  "list_assets active vendor =
     bindE (getE (\<lambda>w. sorted_by at_name (filter (\<lambda>a. given active (\<lambda>b. at_active a = b)
       \<and> given vendor (\<lambda>s. ilike_contains (at_vendor a) s)) (as_assets w)))) (\<lambda>rows. liftE (mapS asset_from_orm rows))"

record asset_update =
  ua_name :: "string option"
  ua_version :: "string option"
  ua_environment :: "string option"
  ua_exposure :: "string option"
  ua_criticality :: "string option"
  ua_active :: "bool option"

definition apply_asset_update :: "asset_update \<Rightarrow> datetime \<Rightarrow> asset \<Rightarrow> asset" where
  "apply_asset_update q now a =
     a\<lparr>at_name := (case ua_name q of None \<Rightarrow> at_name a | Some x \<Rightarrow> x),
       at_version := (case ua_version q of None \<Rightarrow> at_version a | Some x \<Rightarrow> Some x),
       at_environment := (case ua_environment q of None \<Rightarrow> at_environment a | Some x \<Rightarrow> x),
       at_exposure := (case ua_exposure q of None \<Rightarrow> at_exposure a | Some x \<Rightarrow> x),
       at_criticality := (case ua_criticality q of None \<Rightarrow> at_criticality a | Some x \<Rightarrow> x),
       at_active := (case ua_active q of None \<Rightarrow> at_active a | Some x \<Rightarrow> x), at_updated_at := now\<rparr>"

text \<open>The row is committed before the model is built from it.\<close>

definition update_asset :: "app_env \<Rightarrow> string \<Rightarrow> asset_update \<Rightarrow> ('z, asset option) assurance_m" where
  "update_asset E asset_id q =
     bindE (getE (\<lambda>w. tbl_get at_asset_id asset_id (as_assets w))) (\<lambda>row.
     case row of
       None \<Rightarrow> returnE None
     | Some r \<Rightarrow>
         bindE (utc_now E) (\<lambda>now.
         bindE (modifyE (\<lambda>w. w\<lparr>as_assets := tbl_modify at_asset_id asset_id (apply_asset_update q now) (as_assets w)\<rparr>)) (\<lambda>_.
         bindE (liftE (asset_from_orm (apply_asset_update q now r))) (\<lambda>a. returnE (Some a)))))"

fun add_unseen :: "asset list \<Rightarrow> asset list \<Rightarrow> asset list" where
  "add_unseen rows [] = rows"
| "add_unseen rows (m # ms) =
     add_unseen (if at_asset_id m \<in> at_asset_id ` set rows then rows else rows @ [m]) ms"

definition product_pairs :: "string \<Rightarrow> 'z intel_state_scheme \<Rightarrow> (string \<times> string) list" where
  "product_pairs cve_id w =
     concat (map (\<lambda>l. map (\<lambda>p. (pd_vendor p, pd_name p)) (filter (\<lambda>p. pd_id p = lk_product_id l) (in_products w)))
       (filter (\<lambda>l. lk_cve_id l = cve_id) (in_affected w)))"

definition list_potentially_affected_assets :: "string \<Rightarrow> ('z, asset list) assurance_m" where
  "list_potentially_affected_assets cve_id =
     bindE (getE (\<lambda>w. fold (\<lambda>(vendor, product) rows. add_unseen rows
       (filter (\<lambda>a. ilike (at_vendor a) vendor \<and> ilike_contains (at_product a) product) (as_assets w))) (product_pairs cve_id w) [])) (\<lambda>rows.
     liftE (mapS asset_from_orm rows))"

definition get_or_create_control :: "app_env \<Rightarrow> string \<Rightarrow> string \<Rightarrow> string \<Rightarrow> ('z, control) assurance_m" where
  "get_or_create_control E dm mitigation_strategy_id name =
     (let cid = control_id_for dm mitigation_strategy_id in
      bindE (getE (\<lambda>w. tbl_get ct_control_id cid (as_controls w))) (\<lambda>row.
      case row of
        Some c \<Rightarrow> returnE c
      | None \<Rightarrow>
          bindE (utc_now E) (\<lambda>now.
          let c = \<lparr>ct_control_id = cid, ct_name = name, ct_domain = dm, ct_mitigation_strategy_id = mitigation_strategy_id, ct_created_at = now\<rparr> in
          bindE (modifyE (\<lambda>w. w\<lparr>as_controls := as_controls w @ [c]\<rparr>)) (\<lambda>_. returnE c))))"

definition get_control :: "string \<Rightarrow> ('z, control option) assurance_m" where
  "get_control control_id = getE (\<lambda>w. tbl_get ct_control_id control_id (as_controls w))"

definition list_controls :: "('z, control list) assurance_m" where
  "list_controls = getE (\<lambda>w. sorted_by ct_name (as_controls w))"

definition get_or_create_control_version :: "app_env \<Rightarrow> string \<Rightarrow> string \<Rightarrow> string \<Rightarrow> string \<Rightarrow> string \<Rightarrow> ('z, control_version) assurance_m" where
  "get_or_create_control_version E control_id version_label domain_pack_id template_id template_version =
     bindE (getE (\<lambda>w. filter (\<lambda>v. cv_control_id v = control_id \<and> cv_version_label v = version_label) (as_versions w))) (\<lambda>rows.
     bindE (liftE (scalar_one_or_none rows)) (\<lambda>row.
     case row of
       Some v \<Rightarrow> returnE v
     | None \<Rightarrow>
         bindE (uuid4_hex E) (\<lambda>h.
         bindE (utc_now E) (\<lambda>now.
         let v = \<lparr>cv_version_id = ''CV-'' @ h, cv_control_id = control_id, cv_version_label = version_label,
           cv_domain_pack_id = domain_pack_id, cv_template_id = template_id, cv_template_version = template_version, cv_created_at = now\<rparr> in
         bindE (modifyE (\<lambda>w. w\<lparr>as_versions := as_versions w @ [v]\<rparr>)) (\<lambda>_. returnE v)))))"

definition list_control_versions :: "string \<Rightarrow> ('z, control_version list) assurance_m" where
  "list_control_versions control_id =
     getE (\<lambda>w. sorted_by cv_created_at (filter (\<lambda>v. cv_control_id v = control_id) (as_versions w)))"

definition record_validation :: "control_validation \<Rightarrow> ('z, control_validation) assurance_m" where
  "record_validation v = bindE (modifyE (\<lambda>w. w\<lparr>as_validations := as_validations w @ [v]\<rparr>)) (\<lambda>_. returnE v)"

definition list_validations :: "string \<Rightarrow> ('z, control_validation list) assurance_m" where
  "list_validations control_id =
     getE (\<lambda>w. sorted_by cl_validated_at (filter (\<lambda>v. cl_control_id v = control_id) (as_validations w)))"

definition is_pending :: "string \<Rightarrow> string \<Rightarrow> revalidation_candidate \<Rightarrow> bool" where
  "is_pending control_id trigger_type c \<longleftrightarrow> rl_control_id c = control_id \<and> rl_trigger_type c = trigger_type \<and> rl_status c = ''pending''"

definition find_pending_candidate :: "string \<Rightarrow> string \<Rightarrow> ('z, revalidation_candidate option) assurance_m" where
  "find_pending_candidate control_id trigger_type =
     bindE (getE (\<lambda>w. filter (is_pending control_id trigger_type) (as_candidates w))) (\<lambda>rows. liftE (scalar_one_or_none rows))"

definition create_candidate :: "revalidation_candidate \<Rightarrow> ('z, revalidation_candidate) assurance_m" where
  "create_candidate c = bindE (modifyE (\<lambda>w. w\<lparr>as_candidates := as_candidates w @ [c]\<rparr>)) (\<lambda>_. returnE c)"

definition get_candidate :: "string \<Rightarrow> ('z, revalidation_candidate option) assurance_m" where
  "get_candidate candidate_id = getE (\<lambda>w. tbl_get rl_candidate_id candidate_id (as_candidates w))"

definition list_candidates :: "string option \<Rightarrow> ('z, revalidation_candidate list) assurance_m" where
  "list_candidates status =
     getE (\<lambda>w. sorted_by_desc rl_created_at (filter (\<lambda>c. given status (\<lambda>s. rl_status c = s)) (as_candidates w)))"

definition update_candidate_status :: "app_env \<Rightarrow> string \<Rightarrow> string \<Rightarrow> string \<Rightarrow> string option \<Rightarrow> ('z, revalidation_candidate option) assurance_m" where
  "update_candidate_status E candidate_id status reviewed_by review_note =
     bindE (getE (\<lambda>w. tbl_get rl_candidate_id candidate_id (as_candidates w))) (\<lambda>row.
     case row of
       None \<Rightarrow> returnE None
     | Some c \<Rightarrow>
         bindE (utc_now E) (\<lambda>now.
         let f = (\<lambda>c. c\<lparr>rl_status := status, rl_reviewed_by := Some reviewed_by, rl_reviewed_at := Some now, rl_review_note := review_note\<rparr>) in
         bindE (modifyE (\<lambda>w. w\<lparr>as_candidates := tbl_modify rl_candidate_id candidate_id f (as_candidates w)\<rparr>)) (\<lambda>_. returnE (Some (f c)))))"

definition save_assessment :: "app_env \<Rightarrow> string \<Rightarrow> string \<Rightarrow> string \<Rightarrow> pydict \<Rightarrow> float64 \<Rightarrow> ('z, ai_assessment) assurance_m" where
  "save_assessment E assessment_type subject_type subject_id payload confidence =
     bindE (uuid4_hex E) (\<lambda>h.
     bindE (utc_now E) (\<lambda>now.
     let a = \<lparr>ai_assessment_id = ''ASSESS-'' @ h, ai_assessment_type = assessment_type, ai_subject_type = subject_type,
       ai_subject_id = subject_id, ai_payload = payload, ai_confidence = confidence, ai_reviewed = False, ai_reviewed_by = None,
       ai_reviewed_at = None, ai_review_note = None, ai_created_at = now\<rparr> in
     bindE (modifyE (\<lambda>w. w\<lparr>as_assessments := as_assessments w @ [a]\<rparr>)) (\<lambda>_. returnE a)))"

definition get_assessment :: "string \<Rightarrow> ('z, ai_assessment option) assurance_m" where
  "get_assessment assessment_id = getE (\<lambda>w. tbl_get ai_assessment_id assessment_id (as_assessments w))"

definition list_assessments :: "string option \<Rightarrow> string option \<Rightarrow> string option \<Rightarrow> bool option \<Rightarrow> ('z, ai_assessment list) assurance_m" where
  "list_assessments subject_type subject_id assessment_type reviewed =
     getE (\<lambda>w. sorted_by_desc ai_created_at (filter (\<lambda>a. given subject_type (\<lambda>s. ai_subject_type a = s)
       \<and> given subject_id (\<lambda>s. ai_subject_id a = s) \<and> given assessment_type (\<lambda>s. ai_assessment_type a = s)
       \<and> given reviewed (\<lambda>b. ai_reviewed a = b)) (as_assessments w)))"

definition mark_assessment_reviewed :: "app_env \<Rightarrow> string \<Rightarrow> string \<Rightarrow> string option \<Rightarrow> ('z, ai_assessment option) assurance_m" where
  "mark_assessment_reviewed E assessment_id reviewed_by review_note =
     bindE (getE (\<lambda>w. tbl_get ai_assessment_id assessment_id (as_assessments w))) (\<lambda>row.
     case row of
       None \<Rightarrow> returnE None
     | Some a \<Rightarrow>
         bindE (utc_now E) (\<lambda>now.
         let f = (\<lambda>a. a\<lparr>ai_reviewed := True, ai_reviewed_by := Some reviewed_by, ai_reviewed_at := Some now, ai_review_note := review_note\<rparr>) in
         bindE (modifyE (\<lambda>w. w\<lparr>as_assessments := tbl_modify ai_assessment_id assessment_id f (as_assessments w)\<rparr>)) (\<lambda>_. returnE (Some (f a)))))"

section \<open>\<open>control_binding.py\<close>\<close>

text \<open>The template identifier and version of the first template that allows the strategy.\<close>

definition bound_template :: "template_registry \<Rightarrow> experiment_definition \<Rightarrow> string \<times> string" where
  "bound_template reg e =
     (case find (\<lambda>t. ed_mitigation_strategy e \<in> set (vt_allowed_mitigation_strategies t))
         (list_templates reg (Some (str_lower (domain_value (ed_domain e))))) of
        None \<Rightarrow> (''unknown'', ed_version e)
      | Some t \<Rightarrow> (vt_template_id t, vt_version t))"

definition bind_experiment_to_control :: "app_env \<Rightarrow> template_registry \<Rightarrow> experiment_definition \<Rightarrow> ('z, control \<times> control_version) assurance_m" where
  "bind_experiment_to_control E reg e =
     bindE (get_or_create_control E (domain_value (ed_domain e)) (ed_mitigation_strategy e)
       (domain_value (ed_domain e) @ '' '' @ ed_mitigation_strategy e)) (\<lambda>c.
     bindE (get_or_create_control_version E (ct_control_id c) (ed_version e) (str_lower (domain_value (ed_domain e)))
       (fst (bound_template reg e)) (snd (bound_template reg e))) (\<lambda>v. returnE (c, v)))"

end
