(* ===== verification/Correlation.thy ===== *)
theory Correlation
  imports Vulnerability
begin

text \<open>
  Similarity of vulnerabilities (\<open>intelligence/correlation.py\<close>), with the text ratio of the standard
  library's \<open>difflib.SequenceMatcher\<close> that it uses. The matcher's index bounds are sublists here: a block
  is found in \<open>a[alo:ahi]\<close> and \<open>b[blo:bhi]\<close>, and the search goes on to its left and to its right.
\<close>

section \<open>\<open>difflib.SequenceMatcher(None, a, b).ratio()\<close>\<close>

text \<open>With 200 elements or more in \<open>b\<close>, those on more than one per cent of the positions are popular and not indexed.\<close>

definition is_popular :: "string \<Rightarrow> char \<Rightarrow> bool" where
  "is_popular b c \<longleftrightarrow> 200 \<le> length b \<and> length b div 100 + 1 < count_list b c"

text \<open>The lengths of the matches that end at each position of \<open>b\<close> (\<open>j2len\<close>), and the first longest of them.\<close>

definition match_row :: "(char \<Rightarrow> bool) \<Rightarrow> char \<Rightarrow> string \<Rightarrow> nat list \<Rightarrow> nat list" where
  "match_row popular x b old = map (\<lambda>(c, d). if c = x \<and> \<not> popular c then Suc d else 0) (zip b (0 # old))"

fun best_in_row :: "nat \<Rightarrow> nat \<Rightarrow> nat list \<Rightarrow> nat \<times> nat \<times> nat \<Rightarrow> nat \<times> nat \<times> nat" where
  "best_in_row i j [] best = best"
| "best_in_row i j (k # ks) (bi, bj, bk) =
     best_in_row i (Suc j) ks (if bk < k then (Suc i - k, Suc j - k, k) else (bi, bj, bk))"

fun best_match :: "(char \<Rightarrow> bool) \<Rightarrow> nat \<Rightarrow> string \<Rightarrow> string \<Rightarrow> nat list \<Rightarrow> nat \<times> nat \<times> nat \<Rightarrow> nat \<times> nat \<times> nat" where
  "best_match popular i [] b old best = best"
| "best_match popular i (x # xs) b old best =
     (let row = match_row popular x b old in best_match popular (Suc i) xs b row (best_in_row i 0 row best))"

text \<open>The block grows over equal popular elements on both sides.\<close>

fun grow_left :: "string \<Rightarrow> string \<Rightarrow> nat \<Rightarrow> nat \<Rightarrow> nat \<Rightarrow> nat \<times> nat \<times> nat" where
  "grow_left a b (Suc i) (Suc j) k = (if a ! i = b ! j then grow_left a b i j (Suc k) else (Suc i, Suc j, k))"
| "grow_left a b i j k = (i, j, k)"

fun common_prefix :: "string \<Rightarrow> string \<Rightarrow> nat" where
  "common_prefix (x # xs) (y # ys) = (if x = y then Suc (common_prefix xs ys) else 0)"
| "common_prefix _ _ = 0"

definition find_longest_match :: "(char \<Rightarrow> bool) \<Rightarrow> string \<Rightarrow> string \<Rightarrow> nat \<times> nat \<times> nat" where
  "find_longest_match popular a b =
     (let (i, j, k) = best_match popular 0 a b (replicate (length b) 0) (0, 0, 0);
          (i, j, k) = grow_left a b i j k
      in (i, j, k + common_prefix (drop (i + k) a) (drop (j + k) b)))"

section \<open>The blocks match\<close>

text \<open>A match of length \<open>k\<close> at \<open>i\<close> and \<open>j\<close>.\<close>

definition matches_at :: "string \<Rightarrow> string \<Rightarrow> nat \<Rightarrow> nat \<Rightarrow> nat \<Rightarrow> bool" where
  "matches_at a b i j k \<longleftrightarrow> i + k \<le> length a \<and> j + k \<le> length b \<and> (\<forall>n < k. a ! (i + n) = b ! (j + n))"

text \<open>Every entry \<open>d\<close> of a row for position \<open>i\<close> of \<open>a\<close> is a match that ends there.\<close>

definition row_ok :: "string \<Rightarrow> string \<Rightarrow> nat \<Rightarrow> nat list \<Rightarrow> bool" where
  "row_ok a b i row \<longleftrightarrow> length row = length b
     \<and> (\<forall>j < length b. row ! j \<le> i \<and> row ! j \<le> Suc j \<and> matches_at a b (i - row ! j) (Suc j - row ! j) (row ! j))"

lemma matches_extend:
  assumes "matches_at a b (i - d) (j - d) d" and "d \<le> i" "d \<le> j" "i < length a" "j < length b" "a ! i = b ! j"
  shows "matches_at a b (i - d) (j - d) (Suc d)"
  using assms by (auto simp: matches_at_def less_Suc_eq)

lemma match_row_ok:
  assumes "row_ok a b i old" and "i < length a"
  shows "row_ok a b (Suc i) (match_row popular (a ! i) b old)"
proof -
  have len: "length (match_row popular (a ! i) b old) = length b" using assms(1) by (simp add: match_row_def row_ok_def)
  have "match_row popular (a ! i) b old ! j \<le> Suc i \<and> match_row popular (a ! i) b old ! j \<le> Suc j
      \<and> matches_at a b (Suc i - match_row popular (a ! i) b old ! j) (Suc j - match_row popular (a ! i) b old ! j) (match_row popular (a ! i) b old ! j)"
    if j: "j < length b" for j
  proof -
    let ?d = "(0 # old) ! j"
    have r: "match_row popular (a ! i) b old ! j = (if b ! j = a ! i \<and> \<not> popular (b ! j) then Suc ?d else 0)"
      using j assms(1) by (simp add: match_row_def row_ok_def)
    have d: "?d \<le> i \<and> ?d \<le> j \<and> matches_at a b (i - ?d) (j - ?d) ?d"
    proof (cases j)
      case 0
      then show ?thesis using assms(2) by (simp add: matches_at_def)
    next
      case (Suc m)
      then show ?thesis using assms(1) j by (auto simp: row_ok_def)
    qed
    have "matches_at a b (i - ?d) (j - ?d) (Suc ?d)" if "b ! j = a ! i"
      using matches_extend [of a b i "?d" j] d j assms(2) that by simp
    moreover have "matches_at a b (Suc i) (Suc j) 0" using j assms(2) by (simp add: matches_at_def)
    ultimately show ?thesis using d by (simp add: r)
  qed
  then show ?thesis using len by (simp add: row_ok_def)
qed

lemma best_in_row_matches:
  assumes "\<And>m. m < length ks \<Longrightarrow> matches_at a b (Suc i - ks ! m) (Suc (j + m) - ks ! m) (ks ! m)"
    and "case best of (bi, bj, bk) \<Rightarrow> matches_at a b bi bj bk"
  shows "case best_in_row i j ks best of (bi, bj, bk) \<Rightarrow> matches_at a b bi bj bk"
  using assms
proof (induction i j ks best rule: best_in_row.induct)
  case (2 i j k ks bi bj bk)
  have "\<And>m. m < length ks \<Longrightarrow> matches_at a b (Suc i - ks ! m) (Suc (Suc j + m) - ks ! m) (ks ! m)"
    using "2.prems"(1) [of "Suc _"] by simp
  then show ?case using "2.IH" "2.prems"(1) [of 0] "2.prems"(2) by simp
qed simp

lemma best_match_matches:
  assumes "row_ok a b i old" and "drop i a = xs" and "case best of (bi, bj, bk) \<Rightarrow> matches_at a b bi bj bk"
  shows "case best_match popular i xs b old best of (bi, bj, bk) \<Rightarrow> matches_at a b bi bj bk"
  using assms
proof (induction popular i xs b old best rule: best_match.induct)
  case (2 popular i x xs b old best)
  have i: "i < length a" "a ! i = x" "drop (Suc i) a = xs"
    using "2.prems"(2) by (metis drop_eq_Nil leI list.discI, metis Cons_nth_drop_Suc drop_eq_Nil leI list.inject list.discI,
      metis Cons_nth_drop_Suc drop_eq_Nil leI list.inject list.discI)
  let ?row = "match_row popular x b old"
  have ok: "row_ok a b (Suc i) ?row" using match_row_ok [OF "2.prems"(1) i(1)] i(2) by simp
  then have "case best_in_row i 0 ?row best of (bi, bj, bk) \<Rightarrow> matches_at a b bi bj bk"
    using best_in_row_matches [of ?row a b i 0 best] "2.prems"(3) by (simp add: row_ok_def)
  then show ?case using "2.IH" [OF refl ok i(3)] by (simp add: Let_def)
qed simp

lemma grow_left_matches:
  "matches_at a b i j k \<Longrightarrow> case grow_left a b i j k of (i', j', k') \<Rightarrow> matches_at a b i' j' k' \<and> k \<le> k'"
proof (induction a b i j k rule: grow_left.induct)
  case (1 a b i j k)
  have "matches_at a b i j (Suc k)" if "a ! i = b ! j"
    using "1.prems" that by (auto simp: matches_at_def less_Suc_eq_0_disj)
  then show ?case using 1 by (auto split: prod.splits)
qed simp_all

lemma common_prefix_matches:
  "common_prefix xs ys \<le> length xs \<and> common_prefix xs ys \<le> length ys \<and> (\<forall>n < common_prefix xs ys. xs ! n = ys ! n)"
  by (induction xs ys rule: common_prefix.induct) (auto simp: less_Suc_eq_0_disj)

lemma grow_right_matches:
  assumes "matches_at a b i j k"
  shows "matches_at a b i j (k + common_prefix (drop (i + k) a) (drop (j + k) b))"
proof -
  note p = common_prefix_matches [of "drop (i + k) a" "drop (j + k) b"]
  have "a ! (i + n) = b ! (j + n)" if "n < k + common_prefix (drop (i + k) a) (drop (j + k) b)" for n
  proof (cases "n < k")
    case True
    then show ?thesis using assms by (simp add: matches_at_def)
  next
    case False
    then have n: "n - k < common_prefix (drop (i + k) a) (drop (j + k) b)" using that by simp
    then have "drop (i + k) a ! (n - k) = drop (j + k) b ! (n - k)" using p by blast
    then show ?thesis using False assms by (simp add: matches_at_def)
  qed
  then show ?thesis using assms p by (auto simp: matches_at_def)
qed

lemma find_longest_match_matches:
  assumes "find_longest_match popular a b = (i, j, k)"
  shows "matches_at a b i j k"
proof -
  have "row_ok a b 0 (replicate (length b) 0)" by (simp add: row_ok_def matches_at_def)
  then have "case best_match popular 0 a b (replicate (length b) 0) (0, 0, 0) of (i, j, k) \<Rightarrow> matches_at a b i j k"
    by (rule best_match_matches) (simp_all add: matches_at_def)
  then show ?thesis using assms grow_left_matches grow_right_matches
    by (fastforce simp: find_longest_match_def Let_def split: prod.splits)
qed

text \<open>\<open>sum(size for each of get_matching_blocks())\<close>: it ends because a block is not empty.\<close>

function matched_total :: "(char \<Rightarrow> bool) \<Rightarrow> string \<Rightarrow> string \<Rightarrow> nat" where
  "matched_total popular a b =
     (case find_longest_match popular a b of (i, j, k) \<Rightarrow>
        if k = 0 then 0
        else k + (if 0 < i \<and> 0 < j then matched_total popular (take i a) (take j b) else 0)
          + (if i + k < length a \<and> j + k < length b then matched_total popular (drop (i + k) a) (drop (j + k) b) else 0))"
  by pat_completeness auto

lemma find_longest_match_shorter:
  "(i, j, k) = find_longest_match popular a b \<Longrightarrow> k \<noteq> 0 \<Longrightarrow> i + k \<le> length a"
  using find_longest_match_matches [of popular a b i j k] by (simp add: matches_at_def)

termination matched_total
  by (relation "measure (\<lambda>(_, a, _). length a)") (auto dest!: find_longest_match_shorter)

declare matched_total.simps [simp del]

definition sequence_ratio :: "string \<Rightarrow> string \<Rightarrow> float64" where
  "sequence_ratio a b =
     (let len = length a + length b in
      if len \<noteq> 0 then fl (fl (2 * of_nat (matched_total (is_popular b) a b)) / fl (of_nat len)) else 1)"

section \<open>\<open>correlation.py\<close>\<close>

record correlation_weights =
  cw_cwe_overlap_max :: float64
  cw_vendor_match_flat :: float64
  cw_domain_match_flat :: float64
  cw_trust_boundary_match_flat :: float64
  cw_text_similarity_max :: float64
  cw_shared_experiment_flat :: float64

definition CORRELATION_WEIGHTS :: correlation_weights where
  "CORRELATION_WEIGHTS = \<lparr>cw_cwe_overlap_max = 25, cw_vendor_match_flat = 15, cw_domain_match_flat = 10,
     cw_trust_boundary_match_flat = 10, cw_text_similarity_max = 20, cw_shared_experiment_flat = 20\<rparr>"

definition correlation_total_max :: "correlation_weights \<Rightarrow> float64" where
  "correlation_total_max w = fl (fl (fl (fl (fl (cw_cwe_overlap_max w + cw_vendor_match_flat w) + cw_domain_match_flat w)
     + cw_trust_boundary_match_flat w) + cw_text_similarity_max w) + cw_shared_experiment_flat w)"

definition CAVEAT :: string where
  "CAVEAT = ''Similarity is a structured/textual signal, not proof of identical root cause.''"

record correlation_result =
  co_cve_id :: string
  co_score :: float64
  co_explanation :: "string list"
  co_shared_experiment_ids :: "string list"

definition cwe_overlap :: "string list \<Rightarrow> string list \<Rightarrow> correlation_weights \<Rightarrow> float64 \<times> string" where
  "cwe_overlap a b w =
     (if a = [] \<or> b = [] then (0, ''No CWE data to compare on one or both sides: +0.0/'' @ fmt_fixed 1 (cw_cwe_overlap_max w))
      else
        let overlap = sorted_set id (filter (\<lambda>x. x \<in> set b) a);
            jaccard = fl (of_nat (length overlap) / of_nat (length (remdups (a @ b))));
            points = fl (jaccard * cw_cwe_overlap_max w)
        in (points, ''CWE overlap '' @ (if overlap = [] then ''(none)'' else repr_str_list overlap) @ '' (Jaccard '' @ fmt_fixed 2 jaccard
             @ ''): +'' @ fmt_fixed 1 points @ ''/'' @ fmt_fixed 1 (cw_cwe_overlap_max w)))"

definition text_similarity :: "string option \<Rightarrow> string option \<Rightarrow> correlation_weights \<Rightarrow> float64 \<times> string" where
  "text_similarity a b w =
     (case (a, b) of
        (Some (x # xs), Some (y # ys)) \<Rightarrow>
          let ratio = sequence_ratio (str_lower (x # xs)) (str_lower (y # ys));
              points = fl (ratio * cw_text_similarity_max w)
          in (points, ''Description text similarity '' @ fmt_fixed 2 ratio @ '': +'' @ fmt_fixed 1 points @ ''/''
               @ fmt_fixed 1 (cw_text_similarity_max w))
      | _ \<Rightarrow> (0, ''No description to compare on one or both sides: +0.0/'' @ fmt_fixed 1 (cw_text_similarity_max w)))"

text \<open>The three features that match or do not, each with its points.\<close>

definition vendor_part :: "vulnerability \<Rightarrow> vulnerability \<Rightarrow> correlation_weights \<Rightarrow> float64 \<Rightarrow> float64 \<times> string" where
  "vendor_part subject candidate w so_far =
     (case (vu_vendor subject, vu_vendor candidate) of
        (Some (x # xs), Some (y # ys)) \<Rightarrow>
          if str_lower (str_strip (x # xs)) = str_lower (str_strip (y # ys))
          then (fl (so_far + cw_vendor_match_flat w), ''Same vendor ('' @ (x # xs) @ ''): +'' @ fmt_fixed 1 (cw_vendor_match_flat w))
          else (so_far, ''Different or unknown vendor: +0.0/'' @ fmt_fixed 1 (cw_vendor_match_flat w))
      | _ \<Rightarrow> (so_far, ''Different or unknown vendor: +0.0/'' @ fmt_fixed 1 (cw_vendor_match_flat w)))"

definition domain_part :: "vulnerability \<Rightarrow> vulnerability \<Rightarrow> correlation_weights \<Rightarrow> float64 \<Rightarrow> float64 \<times> string" where
  "domain_part subject candidate w so_far =
     (case vu_domain_guess subject of
        Some d \<Rightarrow>
          if vu_domain_guess candidate = Some d
          then (fl (so_far + cw_domain_match_flat w), ''Same domain ('' @ domain_value d @ ''): +'' @ fmt_fixed 1 (cw_domain_match_flat w))
          else (so_far, ''Different or unknown domain: +0.0/'' @ fmt_fixed 1 (cw_domain_match_flat w))
      | None \<Rightarrow> (so_far, ''Different or unknown domain: +0.0/'' @ fmt_fixed 1 (cw_domain_match_flat w)))"

definition trust_part :: "vulnerability \<Rightarrow> vulnerability \<Rightarrow> correlation_weights \<Rightarrow> float64 \<Rightarrow> float64 \<times> string" where
  "trust_part subject candidate w so_far =
     (case vu_zero_click_relevance subject of
        Some z \<Rightarrow>
          if vu_zero_click_relevance candidate = Some z
          then (fl (so_far + cw_trust_boundary_match_flat w), ''Same zero-interaction/pre-auth relevance ('' @ zero_click_value z @ ''): +''
            @ fmt_fixed 1 (cw_trust_boundary_match_flat w))
          else (so_far, ''Zero-interaction/pre-auth relevance differs or unknown: +0.0/'' @ fmt_fixed 1 (cw_trust_boundary_match_flat w))
      | None \<Rightarrow> (so_far, ''Zero-interaction/pre-auth relevance differs or unknown: +0.0/'' @ fmt_fixed 1 (cw_trust_boundary_match_flat w)))"

definition shared_part :: "string list \<Rightarrow> correlation_weights \<Rightarrow> float64 \<Rightarrow> float64 \<times> string" where
  "shared_part shared w so_far =
     (if shared \<noteq> []
      then (fl (so_far + cw_shared_experiment_flat w), ''Already linked to a shared experiment '' @ repr_str_list shared @ '': +''
        @ fmt_fixed 1 (cw_shared_experiment_flat w))
      else (so_far, ''No shared experiment coverage: +0.0/'' @ fmt_fixed 1 (cw_shared_experiment_flat w)))"

definition correlate :: "vulnerability \<Rightarrow> vulnerability \<Rightarrow> string list \<Rightarrow> string list \<Rightarrow> correlation_weights \<Rightarrow> correlation_result" where
  "correlate subject candidate subject_experiment_ids candidate_experiment_ids w =
     (let (cwe_points, e1) = cwe_overlap (vu_cwe_ids subject) (vu_cwe_ids candidate) w;
          (t2, e2) = vendor_part subject candidate w (fl (0 + cwe_points));
          (t3, e3) = domain_part subject candidate w t2;
          (t4, e4) = trust_part subject candidate w t3;
          (text_points, e5) = text_similarity (vu_description subject) (vu_description candidate) w;
          shared = sorted_set id (filter (\<lambda>x. x \<in> set candidate_experiment_ids) subject_experiment_ids);
          (t6, e6) = shared_part shared w (fl (t4 + text_points));
          t = min t6 (correlation_total_max w)
      in \<lparr>co_cve_id = vu_cve_id candidate, co_score = py_round t 1,
          co_explanation = [e1, e2, e3, e4, e5, e6, ''Total: '' @ fmt_fixed 1 t @ ''/'' @ fmt_fixed 0 (correlation_total_max w) @ ''. '' @ CAVEAT],
          co_shared_experiment_ids = shared\<rparr>)"

definition rank_correlations :: "vulnerability \<Rightarrow> vulnerability list \<Rightarrow> string list \<Rightarrow> (string \<rightharpoonup> string list) \<Rightarrow> correlation_weights
    \<Rightarrow> float64 \<Rightarrow> nat \<Rightarrow> correlation_result list" where
  "rank_correlations subject candidates subject_experiment_ids candidate_experiment_ids w min_score limit =
     (let results = map (\<lambda>candidate. correlate subject candidate subject_experiment_ids
            (case candidate_experiment_ids (vu_cve_id candidate) of None \<Rightarrow> [] | Some is \<Rightarrow> is) w)
          (filter (\<lambda>candidate. vu_cve_id candidate \<noteq> vu_cve_id subject) candidates)
      in take limit (sorted_by_desc co_score (filter (\<lambda>r. min_score \<le> co_score r) results)))"

section \<open>Scores\<close>

lemma matched_total_le: "matched_total popular a b \<le> min (length a) (length b)"
proof (induction popular a b rule: matched_total.induct)
  case (1 popular a b)
  obtain i j k where f: "find_longest_match popular a b = (i, j, k)" by (cases "find_longest_match popular a b") auto
  then have m: "i + k \<le> length a" "j + k \<le> length b" using find_longest_match_matches [OF f] by (simp_all add: matches_at_def)
  have l: "matched_total popular (take i a) (take j b) \<le> min i j" if "k \<noteq> 0" "0 < i \<and> 0 < j"
    using "1.IH"(1) [OF f [symmetric] refl that] m by simp
  have r: "matched_total popular (drop (i + k) a) (drop (j + k) b) \<le> min (length a - (i + k)) (length b - (j + k))"
    if "k \<noteq> 0" "i + k < length a \<and> j + k < length b"
    using "1.IH"(2) [OF f [symmetric] refl that] by simp
  show ?case using l r m by (subst matched_total.simps) (auto simp: f)
qed

lemma sequence_ratio_bounds: "0 \<le> sequence_ratio a b \<and> sequence_ratio a b \<le> 1"
proof (cases "length a + length b = 0")
  case False
  let ?M = "2 * of_nat (matched_total (is_popular b) a b) :: rat" and ?L = "of_nat (length a + length b) :: rat"
  have "2 * matched_total (is_popular b) a b \<le> length a + length b" using matched_total_le [of "is_popular b" a b] by simp
  then have "?M \<le> ?L" by (metis of_nat_le_iff of_nat_mult of_nat_numeral)
  then have le: "fl ?M \<le> fl ?L" by (rule fl_mono)
  have nn: "0 \<le> fl ?M" by (rule fl_nonneg) simp
  then have "fl ?M / fl ?L \<le> 1" "0 \<le> fl ?M / fl ?L" using le by (auto simp: divide_le_eq_1)
  then have "fl (fl ?M / fl ?L) \<le> 1" "0 \<le> fl (fl ?M / fl ?L)" using fl_mono [of _ 1] by (simp, intro fl_nonneg)
  then show ?thesis using False by (simp add: sequence_ratio_def Let_def)
qed (simp add: sequence_ratio_def)

lemma text_similarity_nonneg: "0 \<le> fst (text_similarity a b CORRELATION_WEIGHTS)"
  using sequence_ratio_bounds
  by (auto simp: text_similarity_def CORRELATION_WEIGHTS_def Let_def intro!: fl_nonneg split: option.split list.split)

lemma cwe_overlap_nonneg: "0 \<le> fst (cwe_overlap a b CORRELATION_WEIGHTS)"
  by (simp add: cwe_overlap_def CORRELATION_WEIGHTS_def Let_def fl_nonneg)

lemma parts_nonneg:
  "0 \<le> t \<Longrightarrow> 0 \<le> fst (vendor_part a b CORRELATION_WEIGHTS t)"
  "0 \<le> t \<Longrightarrow> 0 \<le> fst (domain_part a b CORRELATION_WEIGHTS t)"
  "0 \<le> t \<Longrightarrow> 0 \<le> fst (trust_part a b CORRELATION_WEIGHTS t)"
  "0 \<le> t \<Longrightarrow> 0 \<le> fst (shared_part sh CORRELATION_WEIGHTS t)"
  by (auto simp: vendor_part_def domain_part_def trust_part_def shared_part_def CORRELATION_WEIGHTS_def fl_nonneg
      split: option.split list.split)

lemma correlation_max: "correlation_total_max CORRELATION_WEIGHTS = 100"
  by (simp add: correlation_total_max_def CORRELATION_WEIGHTS_def fl_numeral)

text \<open>A correlation score is a score: in [0, 100].\<close>

lemma correlation_bounds:
  "0 \<le> co_score (correlate s c is js CORRELATION_WEIGHTS) \<and> co_score (correlate s c is js CORRELATION_WEIGHTS) \<le> 100"
proof -
  let ?W = CORRELATION_WEIGHTS
  let ?t4 = "fst (trust_part s c ?W (fst (domain_part s c ?W (fst (vendor_part s c ?W (fl (0 + fst (cwe_overlap (vu_cwe_ids s) (vu_cwe_ids c) ?W))))))))"
  let ?t = "fst (shared_part (sorted_set id (filter (\<lambda>x. x \<in> set js) is)) ?W (fl (?t4 + fst (text_similarity (vu_description s) (vu_description c) ?W))))"
  have "0 \<le> ?t4" by (intro parts_nonneg fl_nonneg add_nonneg_nonneg cwe_overlap_nonneg order_refl)
  then have "0 \<le> ?t" by - (rule parts_nonneg(4), rule fl_nonneg, rule add_nonneg_nonneg, assumption, rule text_similarity_nonneg)
  moreover have "co_score (correlate s c is js ?W) = py_round (min ?t 100) 1"
    by (simp add: correlate_def Let_def case_prod_beta correlation_max)
  ultimately show ?thesis using py_round_nonneg [of "min ?t 100" 1] py_round_mono [of "min ?t 100" 100 1] py_round_100 by simp
qed

section \<open>Similarity is not symmetric\<close>

lemma tide_diet:
  "matched_total (\<lambda>_. False) ''tide'' ''diet'' = 1" "matched_total (\<lambda>_. False) ''diet'' ''tide'' = 2"
  by code_simp+

lemma fl_half_quarter: "fl (1 / 2) = 1 / 2" "fl (1 / 4) = 1 / 4"
  using representableI [of "1 / 2" 1 "- 1"] representableI [of "1 / 4" 1 "- 2"] by (simp_all add: representable_def)

definition described :: "string \<Rightarrow> string \<Rightarrow> vulnerability" where
  "described cve text = (blank_vulnerability cve 0)\<lparr>vu_description := Some text\<rparr>"

lemma tide_diet_ratio: "sequence_ratio ''tide'' ''diet'' = 1 / 4" "sequence_ratio ''diet'' ''tide'' = 1 / 2"
proof -
  have p: "is_popular ''diet'' = (\<lambda>_. False)" "is_popular ''tide'' = (\<lambda>_. False)" by (simp_all add: is_popular_def fun_eq_iff)
  show "sequence_ratio ''tide'' ''diet'' = 1 / 4" "sequence_ratio ''diet'' ''tide'' = 1 / 2"
    unfolding sequence_ratio_def p tide_diet by (simp_all add: Let_def fl_numeral fl_half_quarter)
qed

lemma described_parts:
  "fst (cwe_overlap (vu_cwe_ids (described c x)) (vu_cwe_ids (described d y)) CORRELATION_WEIGHTS) = 0"
  "fst (vendor_part (described c x) (described d y) CORRELATION_WEIGHTS t) = t"
  "fst (domain_part (described c x) (described d y) CORRELATION_WEIGHTS t) = t"
  "fst (trust_part (described c x) (described d y) CORRELATION_WEIGHTS t) = t"
  "fst (shared_part [] CORRELATION_WEIGHTS t) = t"
  by (simp_all add: cwe_overlap_def vendor_part_def domain_part_def trust_part_def shared_part_def described_def
      blank_vulnerability_def)

lemma described_text:
  "fst (text_similarity (vu_description (described c (x # xs))) (vu_description (described d (y # ys))) CORRELATION_WEIGHTS) =
     fl (sequence_ratio (str_lower (x # xs)) (str_lower (y # ys)) * 20)"
  by (simp add: text_similarity_def described_def blank_vulnerability_def CORRELATION_WEIGHTS_def Let_def)

lemma described_score:
  assumes "fl (sequence_ratio (str_lower (x # xs)) (str_lower (y # ys)) * 20) = p" and "fl p = p" and "p \<le> 100"
  shows "co_score (correlate (described c (x # xs)) (described d (y # ys)) [] [] CORRELATION_WEIGHTS) = py_round p 1"
  unfolding correlate_def Let_def case_prod_beta correlation_result.select_convs filter.simps sorted_set_def
  using assms by (simp add: described_parts described_text correlation_max)

text \<open>Similarity is computed by \<open>difflib\<close>, whose longest-match recursion depends on the order of its arguments: the
  score of two vulnerabilities is not symmetric, though the docstring of the module says it is.\<close>

lemma similarity_not_symmetric:
  "co_score (correlate (described c ''tide'') (described d ''diet'') [] [] CORRELATION_WEIGHTS) = 5"
  "co_score (correlate (described d ''diet'') (described c ''tide'') [] [] CORRELATION_WEIGHTS) = 10"
proof -
  have "py_round 5 1 = 5" "py_round 10 1 = 10"
    by (simp_all add: py_round_def rhe_int [of 50, simplified] rhe_int [of 100, simplified] fl_numeral)
  moreover have "str_lower ''tide'' = ''tide''" "str_lower ''diet'' = ''diet''" by code_simp+
  ultimately show
    "co_score (correlate (described c ''tide'') (described d ''diet'') [] [] CORRELATION_WEIGHTS) = 5"
    "co_score (correlate (described d ''diet'') (described c ''tide'') [] [] CORRELATION_WEIGHTS) = 10"
    by (simp_all add: described_score [where p = 5] described_score [where p = 10] tide_diet_ratio fl_numeral)
qed

end
