(* ===== verification/Revalidation.thy ===== *)
theory Revalidation
  imports Assurance Intelligence_Sync Correlation
begin

text \<open>
  Revalidation candidates (\<open>assurance/revalidation.py\<close>, \<open>api/routes/revalidation.py\<close>): the scan for
  triggers, the manual request, and the review that approves or dismisses a candidate. Nothing here queues
  or runs an experiment. The last section is about duplicates.
\<close>

section \<open>Candidates\<close>

definition create_candidate_if_new :: "app_env \<Rightarrow> string \<Rightarrow> string option \<Rightarrow> string \<Rightarrow> string \<Rightarrow> ('z, revalidation_candidate option) assurance_m" where
  "create_candidate_if_new E control_id experiment_id trigger_type trigger_detail =
     bindE (find_pending_candidate control_id trigger_type) (\<lambda>pending.
     if pending \<noteq> None then returnE None
     else
       bindE (uuid4_hex E) (\<lambda>h.
       bindE (utc_now E) (\<lambda>now.
       bindE (create_candidate \<lparr>rl_candidate_id = ''REVAL-'' @ h, rl_control_id = control_id, rl_experiment_id = experiment_id,
         rl_trigger_type = trigger_type, rl_trigger_detail = trigger_detail, rl_status = ''pending'', rl_created_at = now,
         rl_reviewed_by = None, rl_reviewed_at = None, rl_review_note = None\<rparr>) (\<lambda>c. returnE (Some c)))))"

text \<open>\<open>if candidate: created.append(candidate)\<close>, and a loop of such steps.\<close>

definition created_if_new :: "app_env \<Rightarrow> string \<Rightarrow> string option \<Rightarrow> string \<Rightarrow> string \<Rightarrow> ('z, revalidation_candidate list) assurance_m" where
  "created_if_new E control_id experiment_id trigger_type trigger_detail =
     bindE (create_candidate_if_new E control_id experiment_id trigger_type trigger_detail) (\<lambda>c.
     returnE (case c of None \<Rightarrow> [] | Some x \<Rightarrow> [x]))"

definition collectE :: "('a \<Rightarrow> ('s, 'e, 'b list) eff) \<Rightarrow> 'a list \<Rightarrow> ('s, 'e, 'b list) eff" where
  "collectE f xs = bindE (mapE f xs) (\<lambda>yss. returnE (concat yss))"

section \<open>The scan\<close>

definition EPSS_MATERIAL_CHANGE :: float64 where "EPSS_MATERIAL_CHANGE = fl (1 / 5)"
definition DEFAULT_STALENESS :: timedelta where "DEFAULT_STALENESS = td_days 90"
definition NEW_RELATED_CVE_MIN_SCORE :: float64 where "NEW_RELATED_CVE_MIN_SCORE = 60"

definition scan_staleness :: "app_env \<Rightarrow> timedelta \<Rightarrow> datetime \<Rightarrow> control \<Rightarrow> control_validation \<Rightarrow> ('z, revalidation_candidate list) assurance_m" where
  "scan_staleness E window now c latest =
     (let age = now - cl_validated_at latest in
      if age > window
      then created_if_new E (ct_control_id c) (Some (cl_experiment_id latest)) SCHEDULED
        (''Last validated '' @ str_int (td_whole_days age) @ '' days ago (window: '' @ str_int (td_whole_days window) @ '' days).'')
      else returnE [])"

definition scan_versions :: "app_env \<Rightarrow> control \<Rightarrow> control_validation list \<Rightarrow> ('z, revalidation_candidate list) assurance_m" where
  "scan_versions E c validations =
     bindE (list_control_versions (ct_control_id c)) (\<lambda>versions.
     collectE (\<lambda>v. if cv_version_id v \<in> cl_version_id ` set validations then returnE []
       else created_if_new E (ct_control_id c) None VERSION_CHANGE
         (''Control version '' @ quoted (cv_version_label v) @ '' has never been validated.'')) versions)"

definition scan_history_entry :: "app_env \<Rightarrow> parse_env \<Rightarrow> control \<Rightarrow> control_validation \<Rightarrow> string \<Rightarrow> vulnerability_history_entry
    \<Rightarrow> ('z, revalidation_candidate list) assurance_m" where
  "scan_history_entry E P c latest cve_id h =
     (if vh_observed_at h \<le> cl_validated_at latest then returnE []
      else if vh_field h = ''kev_listed'' \<and> (case vh_new_value h of None \<Rightarrow> False | Some s \<Rightarrow> str_lower (str_strip s) = ''true'')
      then created_if_new E (ct_control_id c) (Some (cl_experiment_id latest)) KEV_STATE_CHANGE
        (cve_id @ '' was added to CISA KEV on '' @ date_iso (vh_observed_at h) @ ''.'')
      else if vh_field h = ''epss_score''
      then (case (vh_old_value h, vh_new_value h) of
          (Some o', Some n) \<Rightarrow>
            (case (pe_float P o', pe_float P n) of
               (Some old_v, Some new_v) \<Rightarrow>
                 if \<bar>fl (new_v - old_v)\<bar> \<ge> EPSS_MATERIAL_CHANGE
                 then created_if_new E (ct_control_id c) (Some (cl_experiment_id latest)) EPSS_MATERIAL_CHANGE_TRIGGER
                   (cve_id @ '' EPSS moved from '' @ fmt_fixed 2 old_v @ '' to '' @ fmt_fixed 2 new_v @ '' on ''
                     @ date_iso (vh_observed_at h) @ ''.'')
                 else returnE []
             | _ \<Rightarrow> returnE [])
        | _ \<Rightarrow> returnE [])
      else returnE [])"

definition scan_history :: "app_env \<Rightarrow> parse_env \<Rightarrow> control \<Rightarrow> control_validation \<Rightarrow> string \<Rightarrow> ('z, revalidation_candidate list) assurance_m" where
  "scan_history E P c latest cve_id =
     bindE (get_history cve_id) (collectE (scan_history_entry E P c latest cve_id))"

definition scan_advisories :: "app_env \<Rightarrow> control \<Rightarrow> control_validation \<Rightarrow> string \<Rightarrow> ('z, revalidation_candidate list) assurance_m" where
  "scan_advisories E c latest cve_id =
     bindE (get_advisories_for_cve cve_id) (collectE (\<lambda>a.
       case or_else (va_updated_at a) (va_published_at a) of
         None \<Rightarrow> returnE []
       | Some changed_at \<Rightarrow>
           if changed_at \<le> cl_validated_at latest then returnE []
           else created_if_new E (ct_control_id c) (Some (cl_experiment_id latest)) ADVISORY_UPDATE
             (''Vendor advisory '' @ quoted (va_advisory_id a) @ '' for '' @ cve_id @ '' was updated on '' @ date_iso changed_at @ ''.'')))"

definition scan_correlations :: "app_env \<Rightarrow> (string \<Rightarrow> string option) \<Rightarrow> control \<Rightarrow> control_validation \<Rightarrow> string list \<Rightarrow> string
    \<Rightarrow> ('z, revalidation_candidate list) assurance_m" where
  "scan_correlations E u c latest related cve_id =
     bindE (get_vulnerability u cve_id) (\<lambda>found.
     case found of
       None \<Rightarrow> returnE []
     | Some subject \<Rightarrow>
         bindE (list_vulnerabilities u \<lparr>vf_domain = vu_domain_guess subject, vf_kev = None, vf_cvss_gte = None, vf_epss_gte = None,
           vf_vendor = None, vf_product = None\<rparr> 200 0) (\<lambda>(candidates, _).
         let newly_observed = filter (\<lambda>v. vu_cve_id v \<noteq> cve_id \<and> vu_cve_id v \<notin> set related
           \<and> vu_last_updated_at v > cl_validated_at latest) candidates in
         collectE (\<lambda>r. created_if_new E (ct_control_id c) (Some (cl_experiment_id latest)) NEW_RELATED_CVE
             (co_cve_id r @ '' newly observed and correlates '' @ fmt_fixed 1 (co_score r) @ ''/100 with already-validated '' @ cve_id @ ''. ''
               @ (if co_explanation r = [] then [] else last (co_explanation r))))
           (rank_correlations subject newly_observed [] Map.empty CORRELATION_WEIGHTS NEW_RELATED_CVE_MIN_SCORE 5)))"

definition scan_control :: "app_env \<Rightarrow> discovery_env \<Rightarrow> parse_env \<Rightarrow> (string \<Rightarrow> string option) \<Rightarrow> pypath \<Rightarrow> timedelta \<Rightarrow> datetime \<Rightarrow> control
    \<Rightarrow> ('z, revalidation_candidate list) assurance_m" where
  "scan_control E D P u experiments_dir window now c =
     bindE (list_validations (ct_control_id c)) (\<lambda>validations.
     if validations = [] then returnE []
     else
       let latest = last validations in
       bindE (scan_staleness E window now c latest) (\<lambda>c1.
       bindE (scan_versions E c validations) (\<lambda>c2.
       bindE (getE (\<lambda>w. case find_experiment D experiments_dir (cl_experiment_id latest) (sd_files w) of
           None \<Rightarrow> [] | Some e \<Rightarrow> map cve_cve_id (ed_related_cves e))) (\<lambda>related.
       bindE (collectE (scan_history E P c latest) related) (\<lambda>c3.
       bindE (collectE (scan_advisories E c latest) related) (\<lambda>c4.
       bindE (collectE (scan_correlations E u c latest related) related) (\<lambda>c5.
       returnE (c1 @ c2 @ c3 @ c4 @ c5))))))))"

record scan_summary =
  ss_candidates_created :: "revalidation_candidate list"
  ss_controls_scanned :: nat

definition scan :: "app_env \<Rightarrow> discovery_env \<Rightarrow> parse_env \<Rightarrow> (string \<Rightarrow> string option) \<Rightarrow> pypath \<Rightarrow> timedelta \<Rightarrow> datetime option
    \<Rightarrow> ('z, scan_summary) assurance_m" where
  "scan E D P u experiments_dir window now_opt =
     bindE (case now_opt of None \<Rightarrow> utc_now E | Some t \<Rightarrow> returnE t) (\<lambda>now.
     bindE list_controls (\<lambda>controls.
     bindE (collectE (scan_control E D P u experiments_dir window now) controls) (\<lambda>created.
     bindE list_controls (\<lambda>again.
     returnE \<lparr>ss_candidates_created = created, ss_controls_scanned = length again\<rparr>))))"

section \<open>Requests\<close>

definition REVALIDATION_CANDIDATE_APPROVED :: string where "REVALIDATION_CANDIDATE_APPROVED = ''revalidation_candidate.approved''"
definition REVALIDATION_CANDIDATE_DISMISSED :: string where "REVALIDATION_CANDIDATE_DISMISSED = ''revalidation_candidate.dismissed''"

definition scan_handler :: "app_env \<Rightarrow> discovery_env \<Rightarrow> parse_env \<Rightarrow> (string \<Rightarrow> string option) \<Rightarrow> pypath \<Rightarrow> string option
    \<Rightarrow> ('z, scan_summary) assurance_m" where
  "scan_handler E D P u experiments_dir token =
     bindE (require_role E [RESEARCHER, REVIEWER, ADMIN] token) (\<lambda>_. scan E D P u experiments_dir DEFAULT_STALENESS None)"

definition list_candidates_handler :: "app_env \<Rightarrow> string option \<Rightarrow> string option \<Rightarrow> ('z, revalidation_candidate list) assurance_m" where
  "list_candidates_handler E token status = bindE (get_current_user E token) (\<lambda>_. list_candidates status)"

record candidate_request =
  cq_control_id :: string
  cq_experiment_id :: "string option"
  cq_trigger_type :: string
  cq_trigger_detail :: string

definition create_candidate_handler :: "app_env \<Rightarrow> string option \<Rightarrow> candidate_request \<Rightarrow> ('z, revalidation_candidate) assurance_m" where
  "create_candidate_handler E token q =
     bindE (require_role E [RESEARCHER, REVIEWER, ADMIN] token) (\<lambda>_.
     bindE (get_control (cq_control_id q)) (\<lambda>c.
     if c = None then raiseE (http_error 404 ''control_not_found'')
     else
       bindE (uuid4_hex E) (\<lambda>h.
       bindE (utc_now E) (\<lambda>now.
       create_candidate \<lparr>rl_candidate_id = ''REVAL-'' @ h, rl_control_id = cq_control_id q, rl_experiment_id = cq_experiment_id q,
         rl_trigger_type = cq_trigger_type q, rl_trigger_detail = cq_trigger_detail q, rl_status = ''pending'', rl_created_at = now,
         rl_reviewed_by = None, rl_reviewed_at = None, rl_review_note = None\<rparr>))))"

definition get_candidate_handler :: "app_env \<Rightarrow> string option \<Rightarrow> string \<Rightarrow> ('z, revalidation_candidate) assurance_m" where
  "get_candidate_handler E token candidate_id =
     bindE (get_current_user E token) (\<lambda>_.
     bindE (get_candidate candidate_id) (\<lambda>c.
     case c of None \<Rightarrow> raiseE (http_error 404 ''candidate_not_found'') | Some x \<Rightarrow> returnE x))"

definition decision_audit_action :: "string \<Rightarrow> string option" where
  "decision_audit_action status =
     (if status = ''approved'' then Some REVALIDATION_CANDIDATE_APPROVED
      else if status = ''dismissed'' then Some REVALIDATION_CANDIDATE_DISMISSED else None)"

definition decide_candidate :: "app_env \<Rightarrow> string \<Rightarrow> string \<Rightarrow> string option \<Rightarrow> user \<Rightarrow> string option \<Rightarrow> ('z, revalidation_candidate) assurance_m" where
  "decide_candidate E candidate_id status note u request_id =
     bindE (get_candidate candidate_id) (\<lambda>existing.
     case existing of
       None \<Rightarrow> raiseE (http_error 404 ''candidate_not_found'')
     | Some c \<Rightarrow>
         if rl_status c \<noteq> ''pending'' then raiseE (http_error 409 ''candidate_not_pending'')
         else
           bindE (update_candidate_status E candidate_id status (u_username u) note) (\<lambda>updated.
           case updated of
             None \<Rightarrow> raiseE (OtherError ''AssertionError'' [])
           | Some n \<Rightarrow>
               (case decision_audit_action status of
                  None \<Rightarrow> raiseE (OtherError ''KeyError'' status)
                | Some action \<Rightarrow>
                    bindE (audit_record E (Some (u_user_id u)) (Some (u_username u)) (Some (role_value (u_role u))) action
                      (Some ''revalidation_candidate'') (Some candidate_id) request_id
                      [(''control_id'', PStr (rl_control_id c)), (''trigger_type'', PStr (rl_trigger_type c))] None None) (\<lambda>_.
                    returnE n))))"

definition approve_candidate_handler :: "app_env \<Rightarrow> string option \<Rightarrow> string \<Rightarrow> string option \<Rightarrow> string option \<Rightarrow> ('z, revalidation_candidate) assurance_m" where
  "approve_candidate_handler E token candidate_id note request_id =
     bindE (require_role E [REVIEWER, ADMIN] token) (\<lambda>u. decide_candidate E candidate_id ''approved'' note u request_id)"

definition dismiss_candidate_handler :: "app_env \<Rightarrow> string option \<Rightarrow> string \<Rightarrow> string option \<Rightarrow> string option \<Rightarrow> ('z, revalidation_candidate) assurance_m" where
  "dismiss_candidate_handler E token candidate_id note request_id =
     bindE (require_role E [REVIEWER, ADMIN] token) (\<lambda>u. decide_candidate E candidate_id ''dismissed'' note u request_id)"

section \<open>Recording a completed run\<close>

text \<open>
  \<open>record_control_validation_and_check_regression\<close> of \<open>worker/processor.py\<close>: the validation is recorded, and
  compared with the previous one of the same control version.
\<close>

definition control_validation_of :: "control \<times> control_version \<Rightarrow> experiment_definition \<Rightarrow> comparison_report \<Rightarrow> verdict_result \<Rightarrow> string
    \<Rightarrow> datetime \<Rightarrow> control_validation" where
  "control_validation_of b e cmp verdict validation_id now =
     \<lparr>cl_validation_id = validation_id, cl_control_id = ct_control_id (fst b), cl_version_id = cv_version_id (snd b),
      cl_experiment_id = ed_experiment_id e, cl_baseline_run_id = cp_baseline_run_id cmp, cl_mitigation_run_id = cp_mitigation_run_id cmp,
      cl_total_cases = cp_total_cases cmp, cl_block_rate_improvement = cp_block_rate_improvement cmp,
      cl_false_positive_rate = em_false_positive_rate (cp_mitigation_metrics cmp),
      cl_false_negative_rate = em_false_negative_rate (cp_mitigation_metrics cmp),
      cl_valid_acceptance_rate = em_valid_acceptance_rate (cp_mitigation_metrics cmp),
      cl_parser_reach_rate = em_parser_reach_rate (cp_mitigation_metrics cmp),
      cl_latency_overhead_ms = cp_latency_overhead_ms cmp, cl_verdict_label = verdict_value (vr_label verdict), cl_validated_at = now\<rparr>"

definition check_regression :: "app_env \<Rightarrow> control \<times> control_version \<Rightarrow> experiment_definition \<Rightarrow> control_validation \<Rightarrow> ('z, unit) assurance_m" where
  "check_regression E b e new_validation =
     bindE (list_validations (ct_control_id (fst b))) (\<lambda>validations.
     let same = same_version validations (cl_version_id new_validation) in
     if length same < 2 then returnE ()
     else
       let result = detect_regressions (same ! (length same - 2)) (same ! (length same - 1)) REGRESSION_THRESHOLDS in
       if \<not> rg_is_regression result then returnE ()
       else
         bindE (create_candidate_if_new E (ct_control_id (fst b)) (Some (ed_experiment_id e)) REGRESSION_TRIGGER
           (''Deterministic regression detected for '' @ ct_control_id (fst b) @ '' ('' @ cv_version_label (snd b)
             @ '') at validation '' @ cl_validation_id new_validation @ '': '' @ str_join ''; '' (rg_reasons result))) (\<lambda>_. returnE ()))"

definition record_validation_and_check :: "app_env \<Rightarrow> control \<times> control_version \<Rightarrow> experiment_definition \<Rightarrow> comparison_report \<Rightarrow> ('z, unit) assurance_m" where
  "record_validation_and_check E b e cmp =
     bindE (utc_now E) (\<lambda>generated_at.
     let verdict = compute_verdict cmp None DEFAULT_THRESHOLDS generated_at in
     bindE (uuid4_hex E) (\<lambda>h.
     bindE (utc_now E) (\<lambda>now.
     bindE (record_validation (control_validation_of b e cmp verdict (''VAL-'' @ h) now)) (check_regression E b e))))"

text \<open>An exception is logged and dropped.\<close>

definition best_effort :: "('s, 'e, 'a) eff \<Rightarrow> ('s, 'e, unit) eff" where
  "best_effort m w = (Inr (), snd (m w))"

definition record_control_validation :: "app_env \<Rightarrow> template_registry \<Rightarrow> experiment_definition \<Rightarrow> comparison_report \<Rightarrow> ('z, unit) assurance_m" where
  "record_control_validation E reg e cmp =
     best_effort (bindE (bind_experiment_to_control E reg e) (\<lambda>b. record_validation_and_check E b e cmp))"

section \<open>One pending candidate per control and trigger\<close>

definition pending_unique :: "'z assurance_state_scheme \<Rightarrow> bool" where
  "pending_unique w \<longleftrightarrow> (\<forall>c t. length (filter (is_pending c t) (as_candidates w)) \<le> 1)"

definition keeps_unique :: "'z assurance_state_scheme \<Rightarrow> 'z assurance_state_scheme \<Rightarrow> bool" where
  "keeps_unique w w' \<longleftrightarrow> (pending_unique w \<longrightarrow> pending_unique w')"

interpretation unique: effect_frame keeps_unique
  by unfold_locales (simp_all add: keeps_unique_def)

text \<open>What leaves the candidates alone.\<close>

lemma unique_same: "as_candidates w' = as_candidates w \<Longrightarrow> keeps_unique w w'"
  by (simp add: keeps_unique_def pending_unique_def)

lemma unique_modify:
  "keeps_unique w (w\<lparr>as_controls := a\<rparr>)" "keeps_unique w (w\<lparr>as_versions := b\<rparr>)" "keeps_unique w (w\<lparr>as_validations := c\<rparr>)"
  "keeps_unique w (w\<lparr>au_sessions := d\<rparr>)" "keeps_unique w (w\<lparr>au_users := e\<rparr>)"
  by (simp_all add: unique_same)

lemma unique_env: "abides keeps_unique (utc_now E)" "abides keeps_unique (uuid4_hex E)" "abides keeps_unique (audit_record E p b c d e f g h i j)"
  by (simp_all add: abides_def app_m_defs audit_record_eq Let_def audit_append_def unique_same)

lemma unique_collect: "(\<And>x. abides keeps_unique (f x)) \<Longrightarrow> abides keeps_unique (collectE f xs)"
proof -
  assume f: "\<And>x. abides keeps_unique (f x)"
  have "abides keeps_unique (mapE f xs)" by (induction xs) (auto intro!: unique.resp_rules f)
  then show ?thesis unfolding collectE_def by (intro unique.resp_rules)
qed

lemma unique_best_effort: "abides keeps_unique m \<Longrightarrow> abides keeps_unique (best_effort m)"
  by (simp add: abides_def best_effort_def)

lemmas unique_rules = unique.resp_rules unique_env unique_modify unique_collect unique_best_effort

lemma unique_require_role: "abides keeps_unique (require_role E rs tok)"
  unfolding require_role_def get_current_user_def get_user_for_session_def get_session_with_user_def delete_session_def touch_session_def
  by (intro unique_rules)

lemma unique_create: "abides keeps_unique (create_candidate_if_new E c e t d)"
  unfolding abides_def
proof
  fix w
  let ?w = "snd (create_candidate_if_new E c e t d w)"
  show "keeps_unique w ?w"
  proof (cases "filter (is_pending c t) (as_candidates w)")
    case (Cons x xs)
    then have "as_candidates ?w = as_candidates w"
      by (cases xs) (simp_all add: create_candidate_if_new_def find_pending_candidate_def app_m_defs scalar_one_or_none_def)
    then show ?thesis by (rule unique_same)
  next
    case Nil
    obtain x where x: "as_candidates ?w = as_candidates w @ [x]" "rl_control_id x = c" "rl_trigger_type x = t"
      using Nil by (simp add: create_candidate_if_new_def find_pending_candidate_def app_m_defs scalar_one_or_none_def create_candidate_def)
    have "length (filter (is_pending c' t') (as_candidates ?w)) \<le> 1"
      if "length (filter (is_pending c' t') (as_candidates w)) \<le> 1" for c' t'
      using that Nil x by (cases "c' = c \<and> t' = t") (auto simp: is_pending_def)
    then show ?thesis by (simp add: keeps_unique_def pending_unique_def)
  qed
qed

lemma filter_modify_le:
  assumes "\<And>x. P (f x) \<Longrightarrow> P x"
  shows "length (filter P (tbl_modify key k f t)) \<le> length (filter P t)"
  using assms by (induction t) (auto simp: tbl_modify_def)

lemma keeps_unique_modify:
  assumes "\<And>x. rl_status (f x) \<noteq> ''pending''"
  shows "keeps_unique w (w\<lparr>as_candidates := tbl_modify rl_candidate_id i f (as_candidates w)\<rparr>)"
proof -
  have le: "length (filter (is_pending c t) (tbl_modify rl_candidate_id i f (as_candidates w))) \<le> length (filter (is_pending c t) (as_candidates w))" for c t
    by (rule filter_modify_le) (use assms in \<open>simp add: is_pending_def\<close>)
  show ?thesis unfolding keeps_unique_def pending_unique_def
    by (intro impI allI) (simp, rule order_trans [OF le], simp)
qed

lemma unique_decide: "status \<noteq> ''pending'' \<Longrightarrow> abides keeps_unique (update_candidate_status E i status n r)"
  unfolding update_candidate_status_def Let_def by (intro unique_rules keeps_unique_modify) simp_all

lemma unique_scan: "abides keeps_unique (scan E D P u dir window now)"
  unfolding scan_def list_controls_def scan_control_def list_validations_def scan_staleness_def scan_versions_def list_control_versions_def
    scan_history_def get_history_def scan_history_entry_def scan_advisories_def get_advisories_for_cve_def scan_correlations_def
    get_vulnerability_def list_vulnerabilities_def created_if_new_def Let_def
  by (intro unique_rules unique_create)

lemma unique_record: "abides keeps_unique (record_control_validation E reg e cmp)"
  unfolding record_control_validation_def bind_experiment_to_control_def get_or_create_control_def get_or_create_control_version_def
    record_validation_and_check_def record_validation_def check_regression_def list_validations_def Let_def
  by (intro unique_rules unique_create)

text \<open>The operations of the program on candidates, the manual request apart.\<close>

datatype candidate_op =
    ScanRequest "string option"
  | ApproveRequest "string option" string "string option" "string option"
  | DismissRequest "string option" string "string option" "string option"
  | RunCompleted experiment_definition comparison_report

fun candidate_op_step :: "app_env \<Rightarrow> discovery_env \<Rightarrow> parse_env \<Rightarrow> (string \<Rightarrow> string option) \<Rightarrow> pypath \<Rightarrow> candidate_op
    \<Rightarrow> 'z assurance_state_scheme \<Rightarrow> 'z assurance_state_scheme" where
  "candidate_op_step E D P u dir (ScanRequest token) w = snd (scan_handler E D P u dir token w)"
| "candidate_op_step E D P u dir (ApproveRequest token i note rq) w = snd (approve_candidate_handler E token i note rq w)"
| "candidate_op_step E D P u dir (DismissRequest token i note rq) w = snd (dismiss_candidate_handler E token i note rq w)"
| "candidate_op_step E D P u dir (RunCompleted e cmp) w = snd (record_control_validation E builtin_templates e cmp w)"

lemma unique_handlers:
  "abides keeps_unique (scan_handler E D P u dir token)"
  "abides keeps_unique (approve_candidate_handler E token i note rq)"
  "abides keeps_unique (dismiss_candidate_handler E token i note rq)"
  unfolding scan_handler_def approve_candidate_handler_def dismiss_candidate_handler_def decide_candidate_def get_candidate_def
  by (intro unique_rules unique_require_role unique_scan unique_decide; simp)+

lemma abides_unique: "abides keeps_unique m \<Longrightarrow> pending_unique w \<Longrightarrow> pending_unique (snd (m w))"
  by (simp add: abides_def keeps_unique_def)

lemma candidate_op_unique: "pending_unique w \<Longrightarrow> pending_unique (candidate_op_step E D P u dir x w)"
  by (cases x) (simp_all add: abides_unique unique_handlers unique_record)

text \<open>
  C23. No duplicate candidates. Whatever scans, approvals, dismissals and completed runs happen, in any order
  and however often, there is never more than one pending candidate for one control and one trigger type,
  and a candidate is never created while another of its kind waits for review.
\<close>

theorem one_pending_candidate:
  assumes "as_candidates w = []"
  shows "length (filter (is_pending c t) (as_candidates (fold (candidate_op_step E D P u dir) ops w))) \<le> 1"
proof -
  have "pending_unique w \<Longrightarrow> pending_unique (fold (candidate_op_step E D P u dir) ops w)" for w :: "'a assurance_state_scheme"
    by (induction ops arbitrary: w) (auto intro: candidate_op_unique)
  then show ?thesis using assms by (simp add: pending_unique_def)
qed

section \<open>Manual requests are not deduplicated\<close>

definition candidates_grow :: "'z assurance_state_scheme \<Rightarrow> 'z assurance_state_scheme \<Rightarrow> bool" where
  "candidates_grow w w' \<longleftrightarrow> as_controls w' = as_controls w \<and> as_validations w' = as_validations w \<and> prefix (as_candidates w) (as_candidates w')"

interpretation growing: effect_frame candidates_grow
  by unfold_locales (auto simp: candidates_grow_def intro: prefix_order.trans)

lemma growing_env: "abides candidates_grow (utc_now E)" "abides candidates_grow (uuid4_hex E)"
  by (simp_all add: abides_def app_m_defs candidates_grow_def)

lemma growing_append: "candidates_grow w (w\<lparr>as_candidates := as_candidates w @ xs\<rparr>)"
  by (simp add: candidates_grow_def)

lemma growing_mapE: "(\<And>x. abides candidates_grow (f x)) \<Longrightarrow> abides candidates_grow (mapE f xs)"
  by (induction xs) (auto intro!: growing.resp_rules)

lemma growing_scan_control: "abides candidates_grow (scan_control E D P u dir window now c)"
  unfolding scan_control_def list_validations_def scan_staleness_def scan_versions_def list_control_versions_def
    scan_history_def get_history_def scan_history_entry_def scan_advisories_def get_advisories_for_cve_def scan_correlations_def
    get_vulnerability_def list_vulnerabilities_def created_if_new_def create_candidate_if_new_def find_pending_candidate_def
    create_candidate_def collectE_def Let_def
  by (intro growing.resp_rules growing_env growing_mapE growing_append)

text \<open>A loop fails if the step for one of its elements fails in every state the loop can reach.\<close>

lemma mapE_fails:
  assumes "x \<in> set xs" and "\<And>y. abides candidates_grow (f y)" and "\<And>w'. candidates_grow w w' \<Longrightarrow> \<exists>e. fst (f x w') = Inl e"
  shows "\<exists>e. fst (mapE f xs w) = Inl e"
  using assms(1,3)
proof (induction xs arbitrary: w)
  case (Cons y ys)
  obtain r w1 where r: "f y w = (r, w1)" by (cases "f y w")
  have w1: "candidates_grow w w1" by (rule abidesD [OF assms(2) r])
  show ?case
  proof (cases r)
    case (Inl e)
    then show ?thesis using r by (simp add: bindE_def)
  next
    case (Inr z)
    show ?thesis
    proof (cases "x = y")
      case True
      then show ?thesis using Cons.prems(2) [OF growing.R_refl] r Inr by simp
    next
      case False
      then have "\<exists>e. fst (mapE f ys w1) = Inl e"
        using Cons.prems growing.R_trans [OF w1] by (intro Cons.IH) auto
      then show ?thesis using r Inr by (cases "mapE f ys w1") (auto simp: bindE_def)
    qed
  qed
qed simp

lemma two_pending_fails:
  assumes "2 \<le> length (filter (is_pending c t) (as_candidates w))"
  shows "create_candidate_if_new E c e t d w = (Inl MultipleResultsFound, w)"
proof -
  obtain x y zs where "filter (is_pending c t) (as_candidates w) = x # y # zs"
    using assms by (metis (no_types) Suc_le_length_iff numeral_2_eq_2)
  then show ?thesis by (simp add: create_candidate_if_new_def find_pending_candidate_def app_m_defs scalar_one_or_none_def)
qed

definition candidates_same :: "'z assurance_state_scheme \<Rightarrow> 'z assurance_state_scheme \<Rightarrow> bool" where
  "candidates_same w w' \<longleftrightarrow> as_controls w' = as_controls w \<and> as_validations w' = as_validations w \<and> as_candidates w' = as_candidates w"

interpretation same_candidates: effect_frame candidates_same
  by unfold_locales (auto simp: candidates_same_def)

lemma same_candidates_auth:
  "abides candidates_same (utc_now E)" "abides candidates_same (uuid4_hex E)"
  "candidates_same w (w\<lparr>au_sessions := d\<rparr>)"
  by (simp_all add: abides_def app_m_defs candidates_same_def)

lemma same_candidates_require_role: "abides candidates_same (require_role E rs tok)"
  unfolding require_role_def get_current_user_def get_user_for_session_def get_session_with_user_def delete_session_def touch_session_def
  by (intro same_candidates.resp_rules same_candidates_auth)

lemma create_handler_appends:
  assumes "create_candidate_handler E token q w = (Inr c, w')"
  shows "as_candidates w' = as_candidates w @ [c]" "is_pending (cq_control_id q) (cq_trigger_type q) c"
    "as_controls w' = as_controls w" "as_validations w' = as_validations w"
proof -
  obtain u w1 where r: "require_role E [RESEARCHER, REVIEWER, ADMIN] token w = (Inr u, w1)"
    using assms by (cases "require_role E [RESEARCHER, REVIEWER, ADMIN] token w" rule: prod.exhaust; cases "fst (require_role E [RESEARCHER, REVIEWER, ADMIN] token w)")
      (auto simp: create_candidate_handler_def bindE_def)
  from abidesD [OF same_candidates_require_role r] have same: "candidates_same w w1" .
  show "as_candidates w' = as_candidates w @ [c]" "is_pending (cq_control_id q) (cq_trigger_type q) c"
    "as_controls w' = as_controls w" "as_validations w' = as_validations w"
    using assms r same
    by (auto simp: create_candidate_handler_def app_m_defs create_candidate_def get_control_def is_pending_def candidates_same_def
        split: if_splits)
qed

text \<open>
  A manual request is not deduplicated, and two of them stop the scan. When two requests to create a
  pending candidate for the same control and trigger succeed one after the other, every later attempt to
  raise a candidate of that kind fails with MultipleResultsFound instead of being skipped as a duplicate;
  and if the trigger is the schedule and the control's last validation is stale, the scan of the whole
  registry raises, for every control, until one of the two is decided.
\<close>

lemma manual_duplicate_breaks_scan:
  assumes "create_candidate_handler E tok1 q1 w = (Inr c1, w1)" and "create_candidate_handler E tok2 q2 w1 = (Inr c2, w2)"
    and "cq_control_id q2 = cq_control_id q1" and "cq_trigger_type q2 = cq_trigger_type q1"
  shows "create_candidate_if_new E (cq_control_id q1) x (cq_trigger_type q1) d w2 = (Inl MultipleResultsFound, w2)
    \<and> (\<forall>c v vs window now.
         cq_trigger_type q1 = SCHEDULED \<longrightarrow> c \<in> set (as_controls w) \<longrightarrow> ct_control_id c = cq_control_id q1 \<longrightarrow>
         fst (list_validations (cq_control_id q1) w) = Inr (vs @ [v]) \<longrightarrow> window < now - cl_validated_at v \<longrightarrow>
         (\<exists>e. fst (scan E D P u dir window (Some now) w2) = Inl e))"
proof -
  note A = create_handler_appends [OF assms(1)] create_handler_appends [OF assms(2)]
  have two: "2 \<le> length (filter (is_pending (cq_control_id q1) (cq_trigger_type q1)) (as_candidates w'))"
    if "candidates_grow w2 w'" for w'
    using that A assms(3,4) by (auto simp: candidates_grow_def prefix_def)
  have "\<exists>e. fst (scan E D P u dir window (Some now) w2) = Inl e"
    if h: "cq_trigger_type q1 = SCHEDULED" "c \<in> set (as_controls w)" "ct_control_id c = cq_control_id q1"
      "fst (list_validations (cq_control_id q1) w) = Inr (vs @ [v])" "window < now - cl_validated_at v" for c v vs window now
  proof -
    let ?f = "scan_control E D P u dir window now"
    have "\<exists>e. fst (mapE ?f (sorted_by ct_name (as_controls w2)) w2) = Inl e"
    proof (rule mapE_fails [OF _ growing_scan_control])
      show "c \<in> set (sorted_by ct_name (as_controls w2))" using h(2) A by simp
      show "\<exists>e. fst (?f c w') = Inl e" if g: "candidates_grow w2 w'" for w'
      proof -
        have "fst (list_validations (cq_control_id q1) w') = Inr (vs @ [v])"
          using h(4) A g by (simp add: list_validations_def app_m_defs candidates_grow_def)
        then have "sorted_by cl_validated_at (filter (\<lambda>v. cl_control_id v = cq_control_id q1) (as_validations w')) = vs @ [v]"
          by (simp add: list_validations_def app_m_defs)
        then show ?thesis
          using h(3,5) two_pending_fails [OF two [OF g, unfolded h(1)]]
          by (simp add: scan_control_def list_validations_def app_m_defs scan_staleness_def created_if_new_def)
      qed
    qed
    then show ?thesis
      by (cases "mapE ?f (sorted_by ct_name (as_controls w2)) w2")
        (auto simp: scan_def list_controls_def collectE_def app_m_defs)
  qed
  then show ?thesis using two_pending_fails [OF two [OF growing.R_refl]] by blast
qed

section \<open>An example\<close>

definition demo_control :: control where
  "demo_control = \<lparr>ct_control_id = ''CTRL-1'', ct_name = ''VPN strict'', ct_domain = ''VPN'', ct_mitigation_strategy_id = ''strict'', ct_created_at = 0\<rparr>"

definition demo_assurance :: assurance_state where
  "demo_assurance = intel_state.extend (demo_intel\<lparr>au_users := [demo_reviewer], au_sessions := au_sessions demo_studio\<rparr>)
     \<lparr>as_assets = [], as_controls = [demo_control], as_versions = [], as_validations = [], as_candidates = [], as_assessments = []\<rparr>"

definition demo_manual :: candidate_request where
  "demo_manual = \<lparr>cq_control_id = ''CTRL-1'', cq_experiment_id = None, cq_trigger_type = SCHEDULED, cq_trigger_detail = ''please''\<rparr>"

lemma demo_manual_created:
  "\<exists>c1 w1 c2 w2. create_candidate_handler demo_app_env (Some ''tok'') demo_manual demo_assurance = (Inr c1, w1)
     \<and> create_candidate_handler demo_app_env (Some ''tok'') demo_manual w1 = (Inr c2, w2)"
  by (simp add: create_candidate_handler_def require_role_def get_current_user_def get_user_for_session_def get_session_with_user_def
      app_m_defs demo_assurance_def demo_intel_def demo_runs_def demo_studio_def demo_reviewer_def tbl_get_Cons user_from_orm_def user.truncate_def
      raise_if_def touch_session_def demo_app_env_def get_control_def demo_manual_def demo_control_def create_candidate_def
      runs_state.defs intel_state.defs tbl_modify_def)

lemma manual_duplicate_breaks_scan_example:
  "\<exists>c1 w1 c2 w2. create_candidate_handler demo_app_env (Some ''tok'') demo_manual demo_assurance = (Inr c1, w1)
     \<and> create_candidate_handler demo_app_env (Some ''tok'') demo_manual w1 = (Inr c2, w2)
     \<and> create_candidate_if_new demo_app_env ''CTRL-1'' None SCHEDULED ''stale'' w2 = (Inl MultipleResultsFound, w2)"
proof -
  obtain c1 w1 c2 w2 where c: "create_candidate_handler demo_app_env (Some ''tok'') demo_manual demo_assurance = (Inr c1, w1)"
      "create_candidate_handler demo_app_env (Some ''tok'') demo_manual w1 = (Inr c2, w2)"
    using demo_manual_created by blast
  from manual_duplicate_breaks_scan [OF c refl refl] c show ?thesis
    by (fastforce simp: demo_manual_def)
qed

theorem one_pending_candidate_witness:
  "length (filter (is_pending ''CTRL-1'' SCHEDULED) (as_candidates (fold (candidate_op_step demo_app_env demo_discovery demo_parse Some
     (PyPath [] [''experiments''])) [ScanRequest (Some ''tok''), ScanRequest (Some ''tok'')] demo_assurance))) \<le> 1"
  by (rule one_pending_candidate) (simp add: demo_assurance_def intel_state.defs)

end
