(* ===== verification/Analyst_Routes.thy ===== *)
theory Analyst_Routes
  imports Ai_Analyst Revalidation
begin

text \<open>
  The routes of the research analyst (\<open>api/routes/analyst.py\<close>): each resolves its context from the stored
  records, asks the service once and stores the accepted answer as an assessment that nobody has reviewed yet. The
  clock is read once for the time stamp of the answer.
\<close>

section \<open>Helpers\<close>

definition AI_ASSESSMENT_REVIEWED :: string where "AI_ASSESSMENT_REVIEWED = ''ai_assessment.reviewed''"

definition ANALYST_ROLES :: "role list" where "ANALYST_ROLES = [RESEARCHER, REVIEWER, ADMIN]"

record ai_assessment_response =
  ax_assessment_id :: string
  ax_assessment_type :: string
  ax_subject_type :: string
  ax_subject_id :: string
  ax_payload :: pydict
  ax_confidence :: float64
  ax_reviewed :: bool
  ax_reviewed_by :: "string option"
  ax_reviewed_at :: "string option"
  ax_review_note :: "string option"
  ax_created_at :: string

definition assessment_response :: "ai_assessment \<Rightarrow> ai_assessment_response" where
  "assessment_response a =
     \<lparr>ax_assessment_id = ai_assessment_id a, ax_assessment_type = ai_assessment_type a, ax_subject_type = ai_subject_type a,
      ax_subject_id = ai_subject_id a, ax_payload = ai_payload a, ax_confidence = ai_confidence a, ax_reviewed = ai_reviewed a,
      ax_reviewed_by = ai_reviewed_by a, ax_reviewed_at = map_option datetime_iso (ai_reviewed_at a), ax_review_note = ai_review_note a,
      ax_created_at = datetime_iso (ai_created_at a)\<rparr>"

definition require_vulnerability :: "(string \<Rightarrow> string option) \<Rightarrow> string \<Rightarrow> ('z, vulnerability) intel_m" where
  "require_vulnerability u cve_id =
     bindE (get_vulnerability u cve_id) (\<lambda>found.
     case found of None \<Rightarrow> raiseE (http_error 404 ''vulnerability_not_found'') | Some v \<Rightarrow> returnE v)"

text \<open>The confidence of a validated assessment, which is a number.\<close>

definition payload_confidence :: "pydict \<Rightarrow> float64" where
  "payload_confidence d = (case dict_get d ''confidence'' of PFloat x \<Rightarrow> x | _ \<Rightarrow> 0)"

definition save_ai :: "app_env \<Rightarrow> string \<Rightarrow> string \<Rightarrow> pydict \<Rightarrow> ('z, ai_assessment_response) assurance_m" where
  "save_ai E assessment_type subject_id payload =
     bindE (save_assessment E assessment_type ''vulnerability'' subject_id payload (payload_confidence payload)) (\<lambda>a.
     returnE (assessment_response a))"

text \<open>\<open>_ai_call\<close>.\<close>

fun ai_http_error :: "exn \<Rightarrow> exn" where
  "ai_http_error (OtherError c msg) =
     (if c = ''AIUnavailableError'' then http_error 503 ''ai_unavailable''
      else if c = ''AIResponseError'' then http_error 502 ''ai_response_invalid'' else OtherError c msg)"
| "ai_http_error e = e"

definition ai_call :: "app_env \<Rightarrow> (datetime \<Rightarrow> exn + pydict) \<Rightarrow> ('z app_state_scheme, exn, pydict) eff" where
  "ai_call E f =
     bindE (utc_now E) (\<lambda>now.
     liftE (case f now of Inl e \<Rightarrow> Inl (ai_http_error e) | Inr d \<Rightarrow> Inr d))"

section \<open>Asking\<close>

definition lower_domain :: "domain \<Rightarrow> string" where
  "lower_domain d = str_lower (domain_value d)"

definition classify_failure_pattern_handler :: "app_env \<Rightarrow> analyst_env \<Rightarrow> (string \<Rightarrow> string option) \<Rightarrow> string option \<Rightarrow> string
    \<Rightarrow> ('z, ai_assessment_response) assurance_m" where
  "classify_failure_pattern_handler E A u token cve_id =
     bindE (require_role E ANALYST_ROLES token) (\<lambda>_.
     bindE (require_vulnerability u cve_id) (\<lambda>v.
     let candidates = (case vu_domain_guess v of
         None \<Rightarrow> []
       | Some d \<Rightarrow> (case resolve_domain_pack (lower_domain d) of Inl _ \<Rightarrow> [] | Inr pack \<Rightarrow> dp_supported_failure_patterns pack)) in
     bindE (ai_call E (\<lambda>now. classify_failure_pattern A now
       \<lparr>fq_cve_id = cve_id, fq_description = vu_description v, fq_cvss_score = vu_cvss_score v, fq_epss_score = vu_epss_score v,
        fq_kev_listed = vu_kev_listed v, fq_domain_hint = map_option domain_value (vu_domain_guess v), fq_candidates = candidates\<rparr>)) (\<lambda>d.
     save_ai E ''failure_pattern'' cve_id d)))"

definition advisory_line :: "vendor_advisory \<Rightarrow> string" where
  "advisory_line a = ''['' @ va_advisory_id a @ ''] '' @ va_title a @ '': ''
     @ (case va_summary a of None \<Rightarrow> ''(no summary)'' | Some s \<Rightarrow> if s = [] then ''(no summary)'' else s)"

definition analyze_mitigation_gap_handler :: "app_env \<Rightarrow> analyst_env \<Rightarrow> (string \<Rightarrow> string option) \<Rightarrow> string option \<Rightarrow> string
    \<Rightarrow> ('z, ai_assessment_response) assurance_m" where
  "analyze_mitigation_gap_handler E A u token cve_id =
     bindE (require_role E ANALYST_ROLES token) (\<lambda>_.
     bindE (require_vulnerability u cve_id) (\<lambda>v.
     bindE (get_advisories_for_cve cve_id) (\<lambda>advisories.
     let vendor_mitigation = (if advisories = [] then None else Some (str_join (nl @ nl) (map advisory_line advisories))) in
     bindE (ai_call E (\<lambda>now. analyze_mitigation_gap A now cve_id (vu_description v) vendor_mitigation)) (\<lambda>d.
     save_ai E ''mitigation_gap'' cve_id d))))"

text \<open>The deterministic correlations of a vulnerability, as two of the routes compute them.\<close>

definition correlations_of :: "discovery_env \<Rightarrow> (string \<Rightarrow> string option) \<Rightarrow> pypath \<Rightarrow> vulnerability \<Rightarrow> string
    \<Rightarrow> ('z, correlation_result list) intel_m" where
  "correlations_of D u experiments_dir subject cve_id =
     bindE (list_vulnerabilities u \<lparr>vf_domain = vu_domain_guess subject, vf_kev = None, vf_cvss_gte = None, vf_epss_gte = None,
       vf_vendor = None, vf_product = None\<rparr> 200 0) (\<lambda>(candidates, _).
     bindE (getE (\<lambda>w. build_experiment_ids_by_cve D experiments_dir (sd_files w))) (\<lambda>ids.
     returnE (rank_correlations subject candidates (case ids cve_id of None \<Rightarrow> [] | Some is \<Rightarrow> is) ids CORRELATION_WEIGHTS 20 10)))"

record correlated_vulnerability_response =
  cx_cve_id :: string
  cx_score :: float64
  cx_explanation :: "string list"
  cx_shared_experiment_ids :: "string list"

record correlation_list_response =
  cs_cve_id :: string
  cs_correlations :: "correlated_vulnerability_response list"
  cs_caveat :: string

definition get_correlations :: "app_env \<Rightarrow> discovery_env \<Rightarrow> (string \<Rightarrow> string option) \<Rightarrow> pypath \<Rightarrow> string option \<Rightarrow> string
    \<Rightarrow> ('z, correlation_list_response) intel_m" where
  "get_correlations E D u experiments_dir token cve_id =
     bindE (get_current_user E token) (\<lambda>_.
     bindE (require_vulnerability u cve_id) (\<lambda>subject.
     bindE (correlations_of D u experiments_dir subject cve_id) (\<lambda>results.
     returnE \<lparr>cs_cve_id = cve_id,
       cs_correlations = map (\<lambda>r. \<lparr>cx_cve_id = co_cve_id r, cx_score = co_score r, cx_explanation = co_explanation r,
         cx_shared_experiment_ids = co_shared_experiment_ids r\<rparr>) results,
       cs_caveat = ''Similarity is a structured/textual signal, not proof of identical root cause.''\<rparr>)))"

definition summarise_similarity_handler :: "app_env \<Rightarrow> analyst_env \<Rightarrow> discovery_env \<Rightarrow> (string \<Rightarrow> string option) \<Rightarrow> pypath \<Rightarrow> string option \<Rightarrow> string
    \<Rightarrow> ('z, ai_assessment_response) assurance_m" where
  "summarise_similarity_handler E A D u experiments_dir token cve_id =
     bindE (require_role E ANALYST_ROLES token) (\<lambda>_.
     bindE (require_vulnerability u cve_id) (\<lambda>subject.
     bindE (correlations_of D u experiments_dir subject cve_id) (\<lambda>correlations.
     if correlations = [] then raiseE (http_error 404 ''no_correlations'')
     else
       let notes = str_join nl (map (\<lambda>r. co_cve_id r @ '': '' @ str_join ''; '' (co_explanation r)) correlations) in
       bindE (ai_call E (\<lambda>now. summarise_similarity A now cve_id (map co_cve_id correlations) notes)) (\<lambda>d.
       save_ai E ''similarity'' cve_id d))))"

text \<open>The failure pattern of the newest assessment of that type.\<close>

definition latest_failure_pattern :: "string \<Rightarrow> ('z, string option) assurance_m" where
  "latest_failure_pattern cve_id =
     bindE (list_assessments (Some ''vulnerability'') (Some cve_id) (Some ''failure_pattern'') None) (\<lambda>as.
     returnE (case as of [] \<Rightarrow> None | a # _ \<Rightarrow> as_str (dict_get (ai_payload a) ''failure_pattern'')))"

definition recommend_template_handler :: "app_env \<Rightarrow> analyst_env \<Rightarrow> template_registry \<Rightarrow> (string \<Rightarrow> string option) \<Rightarrow> string option \<Rightarrow> string
    \<Rightarrow> ('z, ai_assessment_response) assurance_m" where
  "recommend_template_handler E A reg u token cve_id =
     bindE (require_role E ANALYST_ROLES token) (\<lambda>_.
     bindE (require_vulnerability u cve_id) (\<lambda>v.
     case vu_domain_guess v of
       None \<Rightarrow> raiseE (http_error 422 ''unsupported_domain'')
     | Some d \<Rightarrow>
         (case resolve_domain_pack (lower_domain d) of
            Inl _ \<Rightarrow> raiseE (http_error 422 ''unsupported_domain'')
          | Inr _ \<Rightarrow>
              let candidates = map (\<lambda>t. (lower_domain d, vt_template_id t, vt_version t)) (list_templates reg (Some (lower_domain d))) in
              bindE (latest_failure_pattern cve_id) (\<lambda>pattern.
              bindE (ai_call E (\<lambda>now. recommend_template A now cve_id pattern (vu_description v) candidates)) (\<lambda>d.
              save_ai E ''template_recommendation'' cve_id d)))))"

definition draft_experiment_proposal_handler :: "app_env \<Rightarrow> analyst_env \<Rightarrow> template_registry \<Rightarrow> (string \<Rightarrow> string option) \<Rightarrow> string option
    \<Rightarrow> string \<Rightarrow> string \<Rightarrow> string \<Rightarrow> ('z, ai_assessment_response) assurance_m" where
  "draft_experiment_proposal_handler E A reg u token cve_id domain_pack_id template_id =
     bindE (require_role E ANALYST_ROLES token) (\<lambda>_.
     bindE (require_valid (ne domain_pack_id \<and> ne template_id)) (\<lambda>_.
     bindE (require_vulnerability u cve_id) (\<lambda>v.
     case resolve_domain_pack domain_pack_id of
       Inl _ \<Rightarrow> raiseE (http_error 422 ''unsupported_domain'')
     | Inr _ \<Rightarrow>
         if template_id \<notin> vt_template_id ` set (list_templates reg (Some domain_pack_id))
         then raiseE (http_error 422 ''unknown_template'')
         else
           bindE (latest_failure_pattern cve_id) (\<lambda>pattern.
           bindE (ai_call E (\<lambda>now. draft_experiment_proposal A now cve_id (vu_description v) pattern domain_pack_id template_id)) (\<lambda>d.
           save_ai E ''experiment_draft'' cve_id d)))))"

section \<open>Reading and reviewing\<close>

definition list_assessments_handler :: "app_env \<Rightarrow> string option \<Rightarrow> string option \<Rightarrow> string option \<Rightarrow> string option \<Rightarrow> bool option
    \<Rightarrow> ('z, ai_assessment_response list) assurance_m" where
  "list_assessments_handler E token subject_type subject_id assessment_type reviewed =
     bindE (get_current_user E token) (\<lambda>_.
     bindE (list_assessments subject_type subject_id assessment_type reviewed) (\<lambda>as. returnE (map assessment_response as)))"

definition get_assessment_handler :: "app_env \<Rightarrow> string option \<Rightarrow> string \<Rightarrow> ('z, ai_assessment_response) assurance_m" where
  "get_assessment_handler E token assessment_id =
     bindE (get_current_user E token) (\<lambda>_.
     bindE (get_assessment assessment_id) (\<lambda>a.
     case a of None \<Rightarrow> raiseE (http_error 404 ''assessment_not_found'') | Some x \<Rightarrow> returnE (assessment_response x)))"

definition review_assessment :: "app_env \<Rightarrow> string option \<Rightarrow> string \<Rightarrow> string option \<Rightarrow> string option \<Rightarrow> ('z, ai_assessment_response) assurance_m" where
  "review_assessment E token assessment_id note request_id =
     bindE (require_role E ANALYST_ROLES token) (\<lambda>u.
     bindE (mark_assessment_reviewed E assessment_id (u_username u) note) (\<lambda>a.
     case a of
       None \<Rightarrow> raiseE (http_error 404 ''assessment_not_found'')
     | Some x \<Rightarrow>
         bindE (audit_record E (Some (u_user_id u)) (Some (u_username u)) (Some (role_value (u_role u))) AI_ASSESSMENT_REVIEWED
           (Some ''ai_assessment'') (Some assessment_id) request_id [(''assessment_type'', PStr (ai_assessment_type x))] None None) (\<lambda>_.
         returnE (assessment_response x))))"

section \<open>What asking can change\<close>

datatype analyst_request =
    AskFailurePattern
  | AskMitigationGap
  | AskSimilar
  | AskTemplate
  | AskDraft string string

fun analyst_post :: "app_env \<Rightarrow> analyst_env \<Rightarrow> discovery_env \<Rightarrow> template_registry \<Rightarrow> (string \<Rightarrow> string option) \<Rightarrow> pypath \<Rightarrow> string option
    \<Rightarrow> string \<Rightarrow> analyst_request \<Rightarrow> ('z, ai_assessment_response) assurance_m" where
  "analyst_post E A D reg u dir token cve_id AskFailurePattern = classify_failure_pattern_handler E A u token cve_id"
| "analyst_post E A D reg u dir token cve_id AskMitigationGap = analyze_mitigation_gap_handler E A u token cve_id"
| "analyst_post E A D reg u dir token cve_id AskSimilar = summarise_similarity_handler E A D u dir token cve_id"
| "analyst_post E A D reg u dir token cve_id AskTemplate = recommend_template_handler E A reg u token cve_id"
| "analyst_post E A D reg u dir token cve_id (AskDraft pack template) =
     draft_experiment_proposal_handler E A reg u token cve_id pack template"

text \<open>Only the sessions, the clock and the supply of identifiers may differ.\<close>

definition only_session :: "'z assurance_state_scheme \<Rightarrow> 'z assurance_state_scheme \<Rightarrow> bool" where
  "only_session w w' \<longleftrightarrow> (\<exists>ss n k. w' = w\<lparr>au_sessions := ss, ap_clock_reads := n, ap_uuid_reads := k\<rparr>)"

lemma only_session_refl: "only_session w w"
  unfolding only_session_def by (intro exI [of _ "au_sessions w"] exI [of _ "ap_clock_reads w"] exI [of _ "ap_uuid_reads w"]) simp

lemma only_sessionI: "w' = w\<lparr>au_sessions := ss, ap_clock_reads := n, ap_uuid_reads := k\<rparr> \<Longrightarrow> only_session w w'"
  unfolding only_session_def by blast

lemma only_session_trans:
  assumes "only_session w w'" and "only_session w' w''"
  shows "only_session w w''"
proof -
  obtain ss n k where 1: "w' = w\<lparr>au_sessions := ss, ap_clock_reads := n, ap_uuid_reads := k\<rparr>" using assms(1) unfolding only_session_def by blast
  obtain ss' n' k' where 2: "w'' = w'\<lparr>au_sessions := ss', ap_clock_reads := n', ap_uuid_reads := k'\<rparr>"
    using assms(2) unfolding only_session_def by blast
  show ?thesis by (rule only_sessionI [where ss = ss' and n = n' and k = k']) (simp add: 1 2)
qed

interpretation session_only: effect_frame only_session
  by unfold_locales (rule only_session_refl, rule only_session_trans)

lemma only_session_updates:
  "only_session w (w\<lparr>au_sessions := ss\<rparr>)" "only_session w (w\<lparr>ap_clock_reads := n\<rparr>)" "only_session w (w\<lparr>ap_uuid_reads := k\<rparr>)"
proof -
  show "only_session w (w\<lparr>au_sessions := ss\<rparr>)"
    by (rule only_sessionI [where ss = ss and n = "ap_clock_reads w" and k = "ap_uuid_reads w"]) simp
  show "only_session w (w\<lparr>ap_clock_reads := n\<rparr>)"
    by (rule only_sessionI [where ss = "au_sessions w" and n = n and k = "ap_uuid_reads w"]) simp
  show "only_session w (w\<lparr>ap_uuid_reads := k\<rparr>)"
    by (rule only_sessionI [where ss = "au_sessions w" and n = "ap_clock_reads w" and k = k]) simp
qed

lemma session_env: "abides only_session (utc_now E)" "abides only_session (uuid4_hex E)"
  by (simp_all add: abides_def app_m_defs only_session_updates)

lemma session_mapE: "(\<And>x. abides only_session (f x)) \<Longrightarrow> abides only_session (mapE f xs)"
  by (induction xs) (auto intro!: session_only.resp_rules)

lemmas session_rules = session_only.resp_rules session_env session_mapE only_session_updates

lemma session_current_user: "abides only_session (get_current_user E token)"
  unfolding get_current_user_def get_user_for_session_def get_session_with_user_def delete_session_def touch_session_def
  by (intro session_rules)

lemma session_require_role: "abides only_session (require_role E rs token)"
  unfolding require_role_def by (intro session_rules session_current_user)

lemma session_reads:
  "abides only_session (require_vulnerability u i)" "abides only_session (get_advisories_for_cve i)"
  "abides only_session (list_vulnerabilities u f l n)" "abides only_session (list_assessments st si ty rv)"
  "abides only_session (latest_failure_pattern i)" "abides only_session (correlations_of D u dir v i)"
  "abides only_session (require_valid b)" "abides only_session (ai_call E g)"
  unfolding require_vulnerability_def get_vulnerability_def get_advisories_for_cve_def list_vulnerabilities_def list_assessments_def
    latest_failure_pattern_def correlations_of_def require_valid_def ai_call_def
  by (intro session_rules)+

text \<open>What a request that asks about a vulnerability may do: fail, or add one assessment that nobody has reviewed.\<close>

definition asks :: "string \<Rightarrow> ('z, ai_assessment_response) assurance_m \<Rightarrow> bool" where
  "asks cve_id m \<longleftrightarrow> (\<forall>w. case m w of
     (Inl e, w') \<Rightarrow> only_session w w'
   | (Inr x, w') \<Rightarrow> \<exists>a w1. only_session w w1 \<and> w' = w1\<lparr>as_assessments := as_assessments w1 @ [a]\<rparr>
       \<and> \<not> ai_reviewed a \<and> ai_reviewed_by a = None \<and> ai_subject_id a = cve_id \<and> x = assessment_response a)"

lemma asks_raise: "asks i (raiseE e)"
  by (simp add: asks_def raiseE_def only_session_refl)

lemma asks_bind:
  assumes "abides only_session m" and "\<And>x. asks i (k x)"
  shows "asks i (bindE m k)"
  unfolding asks_def
proof
  fix w
  obtain r w1 where m: "m w = (r, w1)" by (cases "m w")
  have s: "only_session w w1" using abidesD [OF assms(1) m] .
  show "case bindE m k w of (Inl e, w') \<Rightarrow> only_session w w'
    | (Inr x, w') \<Rightarrow> \<exists>a w1. only_session w w1 \<and> w' = w1\<lparr>as_assessments := as_assessments w1 @ [a]\<rparr>
       \<and> \<not> ai_reviewed a \<and> ai_reviewed_by a = None \<and> ai_subject_id a = i \<and> x = assessment_response a"
  proof (cases r)
    case (Inl e)
    then show ?thesis using m s by (simp add: bindE_def)
  next
    case (Inr x)
    from assms(2) [of x] have "case k x w1 of (Inl e, w') \<Rightarrow> only_session w1 w'
      | (Inr x, w') \<Rightarrow> \<exists>a w2. only_session w1 w2 \<and> w' = w2\<lparr>as_assessments := as_assessments w2 @ [a]\<rparr>
         \<and> \<not> ai_reviewed a \<and> ai_reviewed_by a = None \<and> ai_subject_id a = i \<and> x = assessment_response a"
      by (simp add: asks_def)
    then show ?thesis using m Inr s only_session_trans by (fastforce simp: bindE_def split: prod.splits sum.splits)
  qed
qed

lemma asks_save: "asks i (save_ai E t i d)"
proof -
  have "only_session w (w\<lparr>ap_uuid_reads := n, ap_clock_reads := k\<rparr>)" for w :: "'z assurance_state_scheme" and n k
    by (rule only_sessionI [where ss = "au_sessions w" and n = k and k = n]) simp
  then show ?thesis
    by (auto simp: asks_def save_ai_def save_assessment_def app_m_defs Let_def intro!: exI)
qed

lemma asks_branches:
  "asks i m \<Longrightarrow> asks i m' \<Longrightarrow> asks i (if b then m else m')"
  "asks i m \<Longrightarrow> (\<And>x. asks i (k x)) \<Longrightarrow> asks i (case opt of None \<Rightarrow> m | Some x \<Rightarrow> k x)"
  "(\<And>x. asks i (kl x)) \<Longrightarrow> (\<And>x. asks i (kr x)) \<Longrightarrow> asks i (case s of Inl x \<Rightarrow> kl x | Inr x \<Rightarrow> kr x)"
  by (simp_all split: option.split sum.split)

lemmas asks_rules = asks_raise asks_bind asks_save asks_branches session_reads session_require_role

lemma asks_failure_pattern: "asks i (classify_failure_pattern_handler E A u token i)"
  unfolding classify_failure_pattern_handler_def Let_def by (intro asks_rules)

lemma asks_mitigation_gap: "asks i (analyze_mitigation_gap_handler E A u token i)"
  unfolding analyze_mitigation_gap_handler_def Let_def by (intro asks_rules)

lemma asks_similar: "asks i (summarise_similarity_handler E A D u dir token i)"
  unfolding summarise_similarity_handler_def Let_def by (intro asks_rules)

lemma asks_template: "asks i (recommend_template_handler E A reg u token i)"
  unfolding recommend_template_handler_def Let_def by (intro asks_rules)

lemma asks_draft: "asks i (draft_experiment_proposal_handler E A reg u token i pack template)"
  unfolding draft_experiment_proposal_handler_def Let_def by (intro asks_rules)

lemma analyst_post_asks: "asks cve_id (analyst_post E A D reg u dir token cve_id q)"
  by (cases q) (simp_all only: analyst_post.simps asks_failure_pattern asks_mitigation_gap asks_similar asks_template asks_draft)

lemma asksD:
  assumes "asks i m" and "m w = (r, w')"
  shows "case r of
      Inl e \<Rightarrow> only_session w w'
    | Inr x \<Rightarrow> \<exists>a w1. only_session w w1 \<and> w' = w1\<lparr>as_assessments := as_assessments w1 @ [a]\<rparr>
        \<and> \<not> ai_reviewed a \<and> ai_reviewed_by a = None \<and> ai_subject_id a = i \<and> x = assessment_response a"
  using assms(1) [unfolded asks_def, rule_format, of w] unfolding assms(2) by (cases r) simp_all

lemma bindE_ran: "bindE m k w = (Inr x, w') \<Longrightarrow> \<exists>y w1. m w = (Inr y, w1)"
  by (auto simp: bindE_def split: prod.splits sum.splits)

lemma analyst_post_role:
  assumes "analyst_post E A D reg u dir token cve_id q w = (Inr x, w')"
  shows "\<exists>who w1. require_role E ANALYST_ROLES token w = (Inr who, w1)"
proof (cases q)
  case AskFailurePattern
  with assms show ?thesis unfolding AskFailurePattern analyst_post.simps classify_failure_pattern_handler_def by (rule_tac bindE_ran)
next
  case AskMitigationGap
  with assms show ?thesis unfolding AskMitigationGap analyst_post.simps analyze_mitigation_gap_handler_def by (rule_tac bindE_ran)
next
  case AskSimilar
  with assms show ?thesis unfolding AskSimilar analyst_post.simps summarise_similarity_handler_def by (rule_tac bindE_ran)
next
  case AskTemplate
  with assms show ?thesis unfolding AskTemplate analyst_post.simps recommend_template_handler_def by (rule_tac bindE_ran)
next
  case (AskDraft pack template)
  with assms show ?thesis unfolding AskDraft analyst_post.simps draft_experiment_proposal_handler_def by (rule_tac bindE_ran)
qed

text \<open>
  C17. The AI is advisory only. Whatever the provider answers, a request to the analyst touches nothing but the
  session, the clock and the supply of identifiers, unless it succeeds: then it was made by a researcher, reviewer or
  administrator, and exactly one assessment was added, about the vulnerability asked about and marked as not
  reviewed. No experiment, approval, file, run, vulnerability, candidate or audit record changes.
\<close>

theorem ai_advisory_only:
  assumes "analyst_post E A D reg u dir token cve_id q w = (r, w')"
  shows "case r of
      Inl e \<Rightarrow> only_session w w'
    | Inr x \<Rightarrow> (\<exists>who w1. require_role E [RESEARCHER, REVIEWER, ADMIN] token w = (Inr who, w1))
        \<and> (\<exists>a w1. only_session w w1 \<and> w' = w1\<lparr>as_assessments := as_assessments w1 @ [a]\<rparr>
            \<and> \<not> ai_reviewed a \<and> ai_reviewed_by a = None \<and> ai_subject_id a = cve_id \<and> x = assessment_response a)"
  using asksD [OF analyst_post_asks assms] analyst_post_role [of E A D reg u dir token cve_id q w] assms
  by (cases r) (simp_all add: ANALYST_ROLES_def)

section \<open>An example\<close>

text \<open>A provider that names a gap and claims to be another model, asked about a stored vulnerability.\<close>

definition demo_gap_analyst :: analyst_env where
  "demo_gap_analyst = \<lparr>an_provider = (\<lambda>_. Inr \<lparr>ar_data = [(''confidence'', PFloat 1), (''rationale'', PStr ''no filter''),
       (''gaps'', PList [PStr ''length checks'']), (''model'', PStr ''forged'')], ar_provider = ''gemini'', ar_model = ''m''\<rparr>),
     an_schema = (\<lambda>_. [(''properties'', PDict [])]), an_parse = demo_parse\<rparr>"

definition demo_analyst_state :: assurance_state where
  "demo_analyst_state = demo_assurance\<lparr>in_vulns := [demo_vulnerability None False]\<rparr>"

lemma demo_gap:
  "\<exists>d. analyze_mitigation_gap demo_gap_analyst now ''CVE-2024-21762'' description mitigation = Inr d"
  by (simp add: analyze_mitigation_gap_def generate_assessment_def demo_gap_analyst_def ai_output_schema_def dict_get_default_def validate_assessment_def
      MitigationGapAssessment_def AIAssessmentBase_def required_def with_default_def read_schema_field_def dict_merge_def in_range_def str_items_def)

lemma demo_analyst_who:
  "\<exists>who w1. require_role demo_app_env ANALYST_ROLES (Some ''tok'') demo_analyst_state = (Inr who, w1)
     \<and> in_vulns w1 = [demo_vulnerability None False] \<and> in_advisories w1 = []"
  by (simp add: require_role_def get_current_user_def get_user_for_session_def get_session_with_user_def app_m_defs ANALYST_ROLES_def
      demo_analyst_state_def demo_assurance_def demo_intel_def demo_runs_def demo_studio_def demo_reviewer_def tbl_get_Cons user_from_orm_def
      user.truncate_def raise_if_def touch_session_def demo_app_env_def runs_state.defs intel_state.defs)

lemma demo_asked:
  "\<exists>x w'. analyst_post demo_app_env demo_gap_analyst demo_discovery [] Some (PyPath [] [''experiments'']) (Some ''tok'')
     ''CVE-2024-21762'' AskMitigationGap demo_analyst_state = (Inr x, w')"
proof -
  obtain who w1 where 1: "require_role demo_app_env ANALYST_ROLES (Some ''tok'') demo_analyst_state = (Inr who, w1)"
      "in_vulns w1 = [demo_vulnerability None False]" "in_advisories w1 = []"
    using demo_analyst_who by blast
  have v: "vuln_from_orm Some (demo_vulnerability None False) = Inr (demo_vulnerability None False)"
    using demo_vulnerability_valid [of None False] by (simp add: vuln_from_orm_def opt_between_def) (simp add: demo_vulnerability_def blank_vulnerability_def)
  have i: "vu_cve_id (demo_vulnerability None False) = ''CVE-2024-21762''"
    by (simp add: demo_vulnerability_def blank_vulnerability_def)
  show ?thesis
    using demo_gap [of "ae_clock demo_app_env (ap_clock_reads w1)" "vu_description (demo_vulnerability None False)" None] 1
    by (auto simp: analyze_mitigation_gap_handler_def app_m_defs require_vulnerability_def get_vulnerability_def tbl_get_Cons i v
        get_advisories_for_cve_def ai_call_def save_ai_def save_assessment_def Let_def sorted_desc_nulls_last_def sorted_by_desc_def sorted_by_def)
qed

theorem ai_advisory_only_witness:
  "\<exists>x w'. analyst_post demo_app_env demo_gap_analyst demo_discovery [] Some (PyPath [] [''experiments'']) (Some ''tok'')
       ''CVE-2024-21762'' AskMitigationGap demo_analyst_state = (Inr x, w')
     \<and> (\<exists>a w1. only_session demo_analyst_state w1 \<and> w' = w1\<lparr>as_assessments := as_assessments w1 @ [a]\<rparr>
          \<and> \<not> ai_reviewed a \<and> ai_subject_id a = ''CVE-2024-21762'' \<and> x = assessment_response a)"
proof -
  obtain x w' where a: "analyst_post demo_app_env demo_gap_analyst demo_discovery [] Some (PyPath [] [''experiments'']) (Some ''tok'')
      ''CVE-2024-21762'' AskMitigationGap demo_analyst_state = (Inr x, w')"
    using demo_asked by blast
  from ai_advisory_only [OF a] show ?thesis unfolding sum.case using a by blast
qed

end
