(* ===== verification/Assurance_Routes.thy ===== *)
theory Assurance_Routes
  imports Analyst_Routes
begin

text \<open>
  The routes of the asset inventory (\<open>api/routes/assets.py\<close>) and of the defensive controls
  (\<open>api/routes/controls.py\<close>). A control's regression status is computed afresh by every request that
  reports it, and the request that has the analyst explain it computes it by the same rules.
\<close>

section \<open>Assets\<close>

definition ASSET_CREATED :: string where "ASSET_CREATED = ''asset.created''"
definition ASSET_UPDATED :: string where "ASSET_UPDATED = ''asset.updated''"
definition ASSET_WRITE_ROLES :: "role list" where "ASSET_WRITE_ROLES = [RESEARCHER, ADMIN]"

record asset_response =
  asr_asset_id :: string
  asr_name :: string
  asr_vendor :: string
  asr_product :: string
  asr_version :: "string option"
  asr_environment :: string
  asr_exposure :: string
  asr_criticality :: string
  asr_active :: bool
  asr_created_at :: string
  asr_updated_at :: string

definition response_of_asset :: "asset \<Rightarrow> asset_response" where
  "response_of_asset a =
     \<lparr>asr_asset_id = at_asset_id a, asr_name = at_name a, asr_vendor = at_vendor a, asr_product = at_product a,
      asr_version = at_version a, asr_environment = at_environment a, asr_exposure = at_exposure a,
      asr_criticality = at_criticality a, asr_active = at_active a, asr_created_at = datetime_iso (at_created_at a),
      asr_updated_at = datetime_iso (at_updated_at a)\<rparr>"

record create_asset_request =
  caq_asset_id :: string
  caq_name :: string
  caq_vendor :: string
  caq_product :: string
  caq_version :: "string option"
  caq_environment :: string
  caq_exposure :: string
  caq_criticality :: string
  caq_active :: bool

definition create_asset_request_ok :: "create_asset_request \<Rightarrow> bool" where
  "create_asset_request_ok q \<longleftrightarrow> list_all ne [caq_asset_id q, caq_name q, caq_vendor q, caq_product q,
     caq_environment q, caq_exposure q, caq_criticality q]"

definition list_assets_handler :: "app_env \<Rightarrow> string option \<Rightarrow> bool option \<Rightarrow> string option \<Rightarrow> ('z, asset_response list) assurance_m" where
  "list_assets_handler E token active vendor =
     bindE (get_current_user E token) (\<lambda>_.
     bindE (list_assets active vendor) (\<lambda>as. returnE (map response_of_asset as)))"

definition create_asset_handler :: "app_env \<Rightarrow> string option \<Rightarrow> create_asset_request \<Rightarrow> string option \<Rightarrow> ('z, asset_response) assurance_m" where
  "create_asset_handler E token q request_id =
     bindE (require_role E ASSET_WRITE_ROLES token) (\<lambda>u.
     bindE (require_valid (create_asset_request_ok q)) (\<lambda>_.
     bindE (get_asset (caq_asset_id q)) (\<lambda>existing.
     if existing \<noteq> None then raiseE (http_error 409 ''asset_exists'')
     else
       bindE (utc_now E) (\<lambda>now.
       bindE (create_asset \<lparr>at_asset_id = caq_asset_id q, at_name = caq_name q, at_vendor = caq_vendor q, at_product = caq_product q,
         at_version = caq_version q, at_environment = caq_environment q, at_exposure = caq_exposure q,
         at_criticality = caq_criticality q, at_active = caq_active q, at_created_at = now, at_updated_at = now\<rparr>) (\<lambda>a.
       bindE (audit_record E (Some (u_user_id u)) (Some (u_username u)) (Some (role_value (u_role u))) ASSET_CREATED
         (Some ''asset'') (Some (at_asset_id a)) request_id [(''vendor'', PStr (at_vendor a)), (''product'', PStr (at_product a))] None None) (\<lambda>_.
       returnE (response_of_asset a)))))))"

definition get_asset_handler :: "app_env \<Rightarrow> string option \<Rightarrow> string \<Rightarrow> ('z, asset_response) assurance_m" where
  "get_asset_handler E token asset_id =
     bindE (get_current_user E token) (\<lambda>_.
     bindE (get_asset asset_id) (\<lambda>found.
     case found of None \<Rightarrow> raiseE (http_error 404 ''asset_not_found'') | Some a \<Rightarrow> returnE (response_of_asset a)))"

text \<open>The names of the fields that are given, sorted.\<close>

definition updated_fields :: "asset_update \<Rightarrow> string list" where
  "updated_fields q = map fst (filter snd
     [(''active'', ua_active q \<noteq> None), (''criticality'', ua_criticality q \<noteq> None), (''environment'', ua_environment q \<noteq> None),
      (''exposure'', ua_exposure q \<noteq> None), (''name'', ua_name q \<noteq> None), (''version'', ua_version q \<noteq> None)])"

definition update_asset_handler :: "app_env \<Rightarrow> string option \<Rightarrow> string \<Rightarrow> asset_update \<Rightarrow> string option \<Rightarrow> ('z, asset_response) assurance_m" where
  "update_asset_handler E token asset_id q request_id =
     bindE (require_role E ASSET_WRITE_ROLES token) (\<lambda>u.
     bindE (update_asset E asset_id q) (\<lambda>updated.
     case updated of
       None \<Rightarrow> raiseE (http_error 404 ''asset_not_found'')
     | Some a \<Rightarrow>
         bindE (audit_record E (Some (u_user_id u)) (Some (u_username u)) (Some (role_value (u_role u))) ASSET_UPDATED
           (Some ''asset'') (Some asset_id) request_id [(''fields_changed'', PList (map PStr (updated_fields q)))] None None) (\<lambda>_.
         returnE (response_of_asset a))))"

definition get_affected_assets :: "app_env \<Rightarrow> string option \<Rightarrow> string \<Rightarrow> ('z, string \<times> asset_response list) assurance_m" where
  "get_affected_assets E token cve_id =
     bindE (get_current_user E token) (\<lambda>_.
     bindE (list_potentially_affected_assets cve_id) (\<lambda>as. returnE (cve_id, map response_of_asset as)))"

section \<open>Controls\<close>

record control_response =
  ctr_control_id :: string
  ctr_name :: string
  ctr_domain :: string
  ctr_mitigation_strategy_id :: string
  ctr_created_at :: string

record control_version_response =
  cvr_version_id :: string
  cvr_control_id :: string
  cvr_version_label :: string
  cvr_domain_pack_id :: string
  cvr_template_id :: string
  cvr_template_version :: string
  cvr_created_at :: string

record control_validation_response =
  clr_validation_id :: string
  clr_control_id :: string
  clr_version_id :: string
  clr_experiment_id :: string
  clr_baseline_run_id :: string
  clr_mitigation_run_id :: string
  clr_total_cases :: int
  clr_block_rate_improvement :: float64
  clr_false_positive_rate :: float64
  clr_false_negative_rate :: float64
  clr_valid_acceptance_rate :: float64
  clr_parser_reach_rate :: float64
  clr_latency_overhead_ms :: float64
  clr_verdict_label :: string
  clr_validated_at :: string

definition response_of_control :: "control \<Rightarrow> control_response" where
  "response_of_control c =
     \<lparr>ctr_control_id = ct_control_id c, ctr_name = ct_name c, ctr_domain = ct_domain c,
      ctr_mitigation_strategy_id = ct_mitigation_strategy_id c, ctr_created_at = datetime_iso (ct_created_at c)\<rparr>"

definition response_of_version :: "control_version \<Rightarrow> control_version_response" where
  "response_of_version v =
     \<lparr>cvr_version_id = cv_version_id v, cvr_control_id = cv_control_id v, cvr_version_label = cv_version_label v,
      cvr_domain_pack_id = cv_domain_pack_id v, cvr_template_id = cv_template_id v, cvr_template_version = cv_template_version v,
      cvr_created_at = datetime_iso (cv_created_at v)\<rparr>"

definition response_of_validation :: "control_validation \<Rightarrow> control_validation_response" where
  "response_of_validation v =
     \<lparr>clr_validation_id = cl_validation_id v, clr_control_id = cl_control_id v, clr_version_id = cl_version_id v,
      clr_experiment_id = cl_experiment_id v, clr_baseline_run_id = cl_baseline_run_id v, clr_mitigation_run_id = cl_mitigation_run_id v,
      clr_total_cases = cl_total_cases v, clr_block_rate_improvement = cl_block_rate_improvement v,
      clr_false_positive_rate = cl_false_positive_rate v, clr_false_negative_rate = cl_false_negative_rate v,
      clr_valid_acceptance_rate = cl_valid_acceptance_rate v, clr_parser_reach_rate = cl_parser_reach_rate v,
      clr_latency_overhead_ms = cl_latency_overhead_ms v, clr_verdict_label = cl_verdict_label v,
      clr_validated_at = datetime_iso (cl_validated_at v)\<rparr>"

definition list_controls_handler :: "app_env \<Rightarrow> string option \<Rightarrow> ('z, control_response list) assurance_m" where
  "list_controls_handler E token =
     bindE (get_current_user E token) (\<lambda>_. bindE list_controls (\<lambda>cs. returnE (map response_of_control cs)))"

text \<open>The lookup that three routes share.\<close>

definition control_or_404 :: "string \<Rightarrow> ('z, control) assurance_m" where
  "control_or_404 control_id =
     bindE (get_control control_id) (\<lambda>c.
     case c of None \<Rightarrow> raiseE (http_error 404 ''control_not_found'') | Some x \<Rightarrow> returnE x)"

definition get_control_handler :: "app_env \<Rightarrow> string option \<Rightarrow> string \<Rightarrow> ('z, control_response) assurance_m" where
  "get_control_handler E token control_id =
     bindE (get_current_user E token) (\<lambda>_. bindE (control_or_404 control_id) (\<lambda>c. returnE (response_of_control c)))"

definition list_control_versions_handler :: "app_env \<Rightarrow> string option \<Rightarrow> string \<Rightarrow> ('z, control_version_response list) assurance_m" where
  "list_control_versions_handler E token control_id =
     bindE (get_current_user E token) (\<lambda>_. bindE (list_control_versions control_id) (\<lambda>vs. returnE (map response_of_version vs)))"

text \<open>The result of the regression rules on the two newest validations of the newest one's version.\<close>

definition current_regression :: "control_validation list \<Rightarrow> regression_result option" where
  "current_regression validations =
     (let current = same_version validations (cl_version_id (last validations)) in
      if 2 \<le> length current
      then Some (detect_regressions (current ! (length current - 2)) (last current) REGRESSION_THRESHOLDS) else None)"

definition COMPARABILITY_NOTE :: string where
  "COMPARABILITY_NOTE =
     ''Aggregate metrics are computed only across validations of the same control version - ''
     @ ''results are never averaged across versions with a different domain, strategy, or ''
     @ ''experiment-definition version.''"

record control_effectiveness_response =
  cer_control_id :: string
  cer_current_version_id :: "string option"
  cer_current_version_label :: "string option"
  cer_validation_count_current_version :: nat
  cer_total_validation_count :: nat
  cer_mean_block_rate_improvement_current_version :: "float64 option"
  cer_latest_verdict :: "string option"
  cer_previous_verdict :: "string option"
  cer_last_validated_at :: "string option"
  cer_trend :: "control_validation_response list"
  cer_comparability_note :: string
  cer_regression :: "regression_result option"

definition get_control_effectiveness :: "app_env \<Rightarrow> string option \<Rightarrow> string \<Rightarrow> ('z, control_effectiveness_response) assurance_m" where
  "get_control_effectiveness E token control_id =
     bindE (get_current_user E token) (\<lambda>_.
     bindE (control_or_404 control_id) (\<lambda>_.
     bindE (list_validations control_id) (\<lambda>validations.
     case summarise_effectiveness control_id validations of
       None \<Rightarrow> raiseE (http_error 404 ''no_validations'')
     | Some s \<Rightarrow>
         returnE \<lparr>cer_control_id = ef_control_id s, cer_current_version_id = ef_current_version_id s,
           cer_current_version_label = ef_current_version_label s,
           cer_validation_count_current_version = ef_validation_count_current_version s,
           cer_total_validation_count = ef_total_validation_count s,
           cer_mean_block_rate_improvement_current_version = ef_mean_block_rate_improvement s,
           cer_latest_verdict = ef_latest_verdict s, cer_previous_verdict = ef_previous_verdict s,
           cer_last_validated_at = map_option datetime_iso (ef_last_validated_at s),
           cer_trend = map response_of_validation (ef_trend s), cer_comparability_note = COMPARABILITY_NOTE,
           cer_regression = current_regression validations\<rparr>)))"

definition explain_regression_handler :: "app_env \<Rightarrow> analyst_env \<Rightarrow> string option \<Rightarrow> string \<Rightarrow> ('z, ai_assessment_response) assurance_m" where
  "explain_regression_handler E A token control_id =
     bindE (require_role E ANALYST_ROLES token) (\<lambda>_.
     bindE (control_or_404 control_id) (\<lambda>_.
     bindE (list_validations control_id) (\<lambda>validations.
     if validations = [] then raiseE (http_error 404 ''no_validations'')
     else (case current_regression validations of
         None \<Rightarrow> raiseE (http_error 404 ''no_regression'')
       | Some result \<Rightarrow>
           if \<not> rg_is_regression result then raiseE (http_error 404 ''no_regression'')
           else
             bindE (ai_call E (\<lambda>now. explain_regression A now control_id (rg_reasons result))) (\<lambda>d.
             bindE (save_assessment E ''regression_explanation'' ''control'' control_id d (payload_confidence d)) (\<lambda>a.
             returnE (assessment_response a)))))))"

section \<open>What the analyst may explain\<close>

lemma same_version_snoc: "same_version (vs @ [v]) (cl_version_id v) = same_version vs (cl_version_id v) @ [v]"
  by (simp add: same_version_def)

lemma current_regression_versions:
  assumes "current_regression vs = Some r" and "vs \<noteq> []"
  obtains older where "older \<in> set vs" and "cl_version_id older = cl_version_id (last vs)"
    and "r = detect_regressions older (last vs) REGRESSION_THRESHOLDS"
proof -
  let ?cur = "same_version vs (cl_version_id (last vs))"
  have two: "2 \<le> length ?cur" and r: "r = detect_regressions (?cur ! (length ?cur - 2)) (last ?cur) REGRESSION_THRESHOLDS"
    using assms(1) by (simp_all add: current_regression_def Let_def split: if_splits)
  have "?cur = same_version (butlast vs) (cl_version_id (last vs)) @ [last vs]"
    using same_version_snoc [of "butlast vs" "last vs"] unfolding append_butlast_last_id [OF assms(2)] .
  then have "last ?cur = last vs" by simp
  moreover have "?cur ! (length ?cur - 2) \<in> set ?cur" using two by (intro nth_mem) simp
  ultimately show thesis using that [of "?cur ! (length ?cur - 2)"] r by (auto simp: same_version_def)
qed

lemma regression_reasons: "rg_is_regression (detect_regressions a b t) \<longleftrightarrow> rg_reasons (detect_regressions a b t) \<noteq> []"
  unfolding detect_regressions_def Let_def regression_result.select_convs by (rule refl)

lemma effectiveness_regression:
  assumes "get_control_effectiveness E token control_id w = (Inr e, w')"
  shows "cer_regression e = current_regression (sorted_by cl_validated_at (filter (\<lambda>v. cl_control_id v = control_id) (as_validations w)))"
proof -
  obtain u w1 where u: "get_current_user E token w = (Inr u, w1)"
    and k: "bindE (control_or_404 control_id) (\<lambda>_. bindE (list_validations control_id) (\<lambda>validations.
      case summarise_effectiveness control_id validations of
       None \<Rightarrow> raiseE (http_error 404 ''no_validations'')
     | Some s \<Rightarrow>
         returnE \<lparr>cer_control_id = ef_control_id s, cer_current_version_id = ef_current_version_id s,
           cer_current_version_label = ef_current_version_label s,
           cer_validation_count_current_version = ef_validation_count_current_version s,
           cer_total_validation_count = ef_total_validation_count s,
           cer_mean_block_rate_improvement_current_version = ef_mean_block_rate_improvement s,
           cer_latest_verdict = ef_latest_verdict s, cer_previous_verdict = ef_previous_verdict s,
           cer_last_validated_at = map_option datetime_iso (ef_last_validated_at s),
           cer_trend = map response_of_validation (ef_trend s), cer_comparability_note = COMPARABILITY_NOTE,
           cer_regression = current_regression validations\<rparr>)) w1 = (Inr e, w')"
    using assms unfolding get_control_effectiveness_def bindE_Inr by blast
  have "as_validations w1 = as_validations w"
    using abidesD [OF session_current_user u] by (auto simp: only_session_def)
  with k show ?thesis
    by (auto simp: control_or_404_def get_control_def list_validations_def app_m_defs split: option.splits)
qed

definition control_history :: "string \<Rightarrow> 'z assurance_state_scheme \<Rightarrow> control_validation list" where
  "control_history control_id w = sorted_by cl_validated_at (filter (\<lambda>v. cl_control_id v = control_id) (as_validations w))"

lemma sorted_by_le_last:
  assumes "x \<in> set (sorted_by k xs)"
  shows "k x \<le> k (last (sorted_by k xs))"
proof -
  have ne: "sorted_by k xs \<noteq> []" using assms length_pos_if_in_set by fastforce
  have "sorted (map k (butlast (sorted_by k xs) @ [last (sorted_by k xs)]))"
    using sorted_by_sorted [of k xs] unfolding append_butlast_last_id [OF ne] .
  moreover have "x \<in> set (butlast (sorted_by k xs) @ [last (sorted_by k xs)])" using assms unfolding append_butlast_last_id [OF ne] .
  ultimately show ?thesis by (auto simp: sorted_append simp del: append_butlast_last_id)
qed

lemma effectiveness_reports:
  "get_control_effectiveness E token control_id w = (Inr e, w') \<Longrightarrow> cer_regression e = current_regression (control_history control_id w)"
  using effectiveness_regression by (simp add: control_history_def)

lemma explained:
  assumes "explain_regression_handler E A token control_id w = (Inr x, w')"
  obtains r a w1 where "current_regression (control_history control_id w) = Some r" and "rg_is_regression r" and "control_history control_id w \<noteq> []"
    and "only_session w w1" and "w' = w1\<lparr>as_assessments := as_assessments w1 @ [a]\<rparr>" and "\<not> ai_reviewed a"
    and "ai_subject_id a = control_id" and "ai_assessment_type a = ''regression_explanation''" and "x = assessment_response a"
proof -
  obtain u w1 where u: "require_role E ANALYST_ROLES token w = (Inr u, w1)"
    and k: "bindE (control_or_404 control_id) (\<lambda>_. bindE (list_validations control_id) (\<lambda>validations.
       if validations = [] then raiseE (http_error 404 ''no_validations'')
       else (case current_regression validations of
           None \<Rightarrow> raiseE (http_error 404 ''no_regression'')
         | Some result \<Rightarrow>
             if \<not> rg_is_regression result then raiseE (http_error 404 ''no_regression'')
             else
               bindE (ai_call E (\<lambda>now. explain_regression A now control_id (rg_reasons result))) (\<lambda>d.
               bindE (save_assessment E ''regression_explanation'' ''control'' control_id d (payload_confidence d)) (\<lambda>a.
               returnE (assessment_response a)))))) w1 = (Inr x, w')"
    using assms unfolding explain_regression_handler_def bindE_Inr by blast
  have s1: "only_session w w1" using abidesD [OF session_require_role u] .
  then have "as_validations w1 = as_validations w" by (auto simp: only_session_def)
  then have h: "list_validations control_id w1 = (Inr (control_history control_id w), w1)"
    by (simp add: list_validations_def control_history_def app_m_defs)
  have c: "control_or_404 control_id w1 = (r, w2) \<Longrightarrow> w2 = w1" for r w2
    by (auto simp: control_or_404_def get_control_def app_m_defs split: option.splits)
  have ne: "control_history control_id w \<noteq> []" and "\<exists>r. current_regression (control_history control_id w) = Some r \<and> rg_is_regression r
      \<and> bindE (ai_call E (\<lambda>now. explain_regression A now control_id (rg_reasons r))) (\<lambda>d.
          bindE (save_assessment E ''regression_explanation'' ''control'' control_id d (payload_confidence d))
          (\<lambda>a. returnE (assessment_response a))) w1 = (Inr x, w')"
    using k h c unfolding bindE_Inr [of "control_or_404 control_id"] bindE_Inr [of "list_validations control_id"]
    by (auto simp: raiseE_def split: if_splits option.splits)
  then obtain r d w3 where r: "current_regression (control_history control_id w) = Some r" "rg_is_regression r"
    and ai: "ai_call E (\<lambda>now. explain_regression A now control_id (rg_reasons r)) w1 = (Inr d, w3)"
    and sv: "bindE (save_assessment E ''regression_explanation'' ''control'' control_id d (payload_confidence d))
          (\<lambda>a. returnE (assessment_response a)) w3 = (Inr x, w')" unfolding bindE_Inr [of "ai_call E f" for f] by blast
  have s3: "only_session w w3" using only_session_trans [OF s1 abidesD [OF session_reads(8) ai]] .
  show thesis
    by (rule that [OF r ne only_session_trans [OF s3 only_sessionI [where w = w3 and ss = "au_sessions w3" and n = "Suc (ap_clock_reads w3)" and k = "Suc (ap_uuid_reads w3)", OF refl]]])
      (use sv in \<open>auto simp: save_assessment_def app_m_defs Let_def\<close>)
qed

text \<open>
  C18. The AI explains a regression but never declares one. A request that has a regression of a control explained
  succeeds only when the deterministic rules find one: the newest validation of the control is worse than an older one
  of the same control version, for at least one stated reason, and the effectiveness report gives exactly that
  regression. All that the request changes is one assessment about the control, marked as not reviewed.
\<close>

theorem ai_never_declares_regression:
  assumes "explain_regression_handler E A token control_id w = (Inr x, w')"
  shows "\<exists>older newest r. {older, newest} \<subseteq> set (as_validations w) \<and> cl_control_id newest = control_id
      \<and> cl_version_id older = cl_version_id newest \<and> cl_validated_at older \<le> cl_validated_at newest
      \<and> (\<forall>v \<in> set (as_validations w). cl_control_id v = control_id \<longrightarrow> cl_validated_at v \<le> cl_validated_at newest)
      \<and> r = detect_regressions older newest REGRESSION_THRESHOLDS \<and> rg_reasons r \<noteq> []
      \<and> (\<forall>E' token' e w''. get_control_effectiveness E' token' control_id w = (Inr e, w'') \<longrightarrow> cer_regression e = Some r)
      \<and> (\<exists>a w1. only_session w w1 \<and> w' = w1\<lparr>as_assessments := as_assessments w1 @ [a]\<rparr> \<and> \<not> ai_reviewed a
          \<and> ai_subject_id a = control_id \<and> x = assessment_response a)"
proof -
  obtain r a w1 where r: "current_regression (control_history control_id w) = Some r" "rg_is_regression r" "control_history control_id w \<noteq> []"
    and a: "only_session w w1" "w' = w1\<lparr>as_assessments := as_assessments w1 @ [a]\<rparr>" "\<not> ai_reviewed a" "ai_subject_id a = control_id"
      "x = assessment_response a"
    using explained [OF assms] by metis
  obtain older where o: "older \<in> set (control_history control_id w)" "cl_version_id older = cl_version_id (last (control_history control_id w))"
      "r = detect_regressions older (last (control_history control_id w)) REGRESSION_THRESHOLDS"
    using current_regression_versions [OF r(1,3)] .
  let ?new = "last (control_history control_id w)"
  have "{older, ?new} \<subseteq> set (as_validations w) \<and> cl_control_id ?new = control_id"
    using o(1) last_in_set [OF r(3)] by (auto simp: control_history_def)
  moreover have "cl_validated_at older \<le> cl_validated_at ?new"
    using sorted_by_le_last [of older cl_validated_at] o(1) unfolding control_history_def by blast
  moreover have "\<forall>v \<in> set (as_validations w). cl_control_id v = control_id \<longrightarrow> cl_validated_at v \<le> cl_validated_at ?new"
    using sorted_by_le_last [where k = cl_validated_at and xs = "filter (\<lambda>v. cl_control_id v = control_id) (as_validations w)"]
    unfolding control_history_def by simp
  moreover have "rg_reasons r \<noteq> []" using r(2) regression_reasons unfolding o(3) by blast
  moreover have "cer_regression e = Some r" if "get_control_effectiveness E' token' control_id w = (Inr e, w'')" for E' token' e w''
    using effectiveness_reports [OF that] r(1) by simp
  ultimately show ?thesis using o(2,3) a by blast
qed

section \<open>An example\<close>

lemma worse_verdict_regresses:
  "verdict_severity (cl_verdict_label b) < verdict_severity (cl_verdict_label a) \<Longrightarrow> rg_is_regression (detect_regressions a b t)"
  unfolding detect_regressions_def Let_def regression_result.select_convs by simp

definition demo_validation :: "verdict_label \<Rightarrow> datetime \<Rightarrow> control_validation" where
  "demo_validation v t = \<lparr>cl_validation_id = ''VAL'', cl_control_id = ''CTRL-1'', cl_version_id = ''CV-1'', cl_experiment_id = ''ZC-VPN-EXP-001'',
     cl_baseline_run_id = ''RUN-1'', cl_mitigation_run_id = ''RUN-2'', cl_total_cases = 1, cl_block_rate_improvement = 0,
     cl_false_positive_rate = 0, cl_false_negative_rate = 0, cl_valid_acceptance_rate = 0, cl_parser_reach_rate = 0,
     cl_latency_overhead_ms = 0, cl_verdict_label = verdict_value v, cl_validated_at = t\<rparr>"

definition demo_regressed :: assurance_state where
  "demo_regressed = demo_assurance\<lparr>as_validations := [demo_validation EFFECTIVE 0, demo_validation INEFFECTIVE 1]\<rparr>"

definition demo_narrator :: analyst_env where
  "demo_narrator = \<lparr>an_provider = (\<lambda>_. Inr \<lparr>ar_data = [(''confidence'', PFloat 1), (''rationale'', PStr ''given reasons''),
       (''explanation'', PStr ''the filter was dropped'')], ar_provider = ''gemini'', ar_model = ''m''\<rparr>),
     an_schema = (\<lambda>_. [(''properties'', PDict [])]), an_parse = demo_parse\<rparr>"

lemma demo_explanation: "\<exists>d. explain_regression demo_narrator now ''CTRL-1'' reasons = Inr d"
  by (simp add: explain_regression_def generate_assessment_def demo_narrator_def ai_output_schema_def dict_get_default_def validate_assessment_def
      RegressionExplanation_def AIAssessmentBase_def required_def with_default_def read_schema_field_def dict_merge_def in_range_def)

lemma demo_current_regression:
  "\<exists>r. current_regression [demo_validation EFFECTIVE 0, demo_validation INEFFECTIVE 1] = Some r \<and> rg_is_regression r"
proof -
  have "rg_is_regression (detect_regressions (demo_validation EFFECTIVE 0) (demo_validation INEFFECTIVE 1) REGRESSION_THRESHOLDS)"
    by (rule worse_verdict_regresses) (simp add: demo_validation_def verdict_severity_def)
  moreover have "same_version [demo_validation EFFECTIVE 0, demo_validation INEFFECTIVE 1] ''CV-1''
      = [demo_validation EFFECTIVE 0, demo_validation INEFFECTIVE 1]" and "cl_version_id (demo_validation INEFFECTIVE 1) = ''CV-1''"
    by (simp_all add: same_version_def demo_validation_def)
  ultimately show ?thesis by (simp add: current_regression_def)
qed

lemma demo_explained:
  "\<exists>x w'. explain_regression_handler demo_app_env demo_narrator (Some ''tok'') ''CTRL-1'' demo_regressed = (Inr x, w')"
proof -
  obtain who w1 where 1: "require_role demo_app_env ANALYST_ROLES (Some ''tok'') demo_regressed = (Inr who, w1)"
      "as_controls w1 = [demo_control]" "as_validations w1 = [demo_validation EFFECTIVE 0, demo_validation INEFFECTIVE 1]"
    by (simp add: require_role_def get_current_user_def get_user_for_session_def get_session_with_user_def app_m_defs ANALYST_ROLES_def
        demo_regressed_def demo_assurance_def demo_intel_def demo_runs_def demo_studio_def demo_reviewer_def tbl_get_Cons user_from_orm_def
        user.truncate_def raise_if_def touch_session_def demo_app_env_def runs_state.defs intel_state.defs)
  obtain r where r: "current_regression [demo_validation EFFECTIVE 0, demo_validation INEFFECTIVE 1] = Some r" "rg_is_regression r"
    using demo_current_regression by blast
  have h: "list_validations ''CTRL-1'' w1 = (Inr [demo_validation EFFECTIVE 0, demo_validation INEFFECTIVE 1], w1)"
    by (simp add: list_validations_def app_m_defs 1(3)) (simp add: demo_validation_def sorted_by_def)
  have c: "control_or_404 ''CTRL-1'' w1 = (Inr demo_control, w1)"
    by (simp add: control_or_404_def get_control_def app_m_defs 1(2) tbl_get_Cons) (simp add: demo_control_def)
  obtain d where "explain_regression demo_narrator (ae_clock demo_app_env (ap_clock_reads w1)) ''CTRL-1'' (rg_reasons r) = Inr d"
    using demo_explanation by blast
  then show ?thesis
    by (simp add: explain_regression_handler_def bindE_def [of "require_role a b c" for a b c] bindE_def [of "control_or_404 a" for a]
        bindE_def [of "list_validations a" for a] 1(1) h c r)
      (simp add: ai_call_def save_assessment_def app_m_defs Let_def)
qed

theorem ai_never_declares_regression_witness:
  "\<exists>x w' older newest. explain_regression_handler demo_app_env demo_narrator (Some ''tok'') ''CTRL-1'' demo_regressed = (Inr x, w')
     \<and> {older, newest} \<subseteq> set (as_validations demo_regressed) \<and> rg_reasons (detect_regressions older newest REGRESSION_THRESHOLDS) \<noteq> []"
proof -
  obtain x w' where e: "explain_regression_handler demo_app_env demo_narrator (Some ''tok'') ''CTRL-1'' demo_regressed = (Inr x, w')"
    using demo_explained by blast
  from ai_never_declares_regression [OF e] e show ?thesis by blast
qed

end
