(* ===== verification/Account_Routes.thy ===== *)
theory Account_Routes
  imports Intelligence_Routes
begin

text \<open>
  The routes of authentication and user management (\<open>api/routes/auth.py\<close>), of the audit trail
  (\<open>api/routes/audit.py\<close>), and the command that creates the first administrator
  (\<open>create_admin\<close> of \<open>cli/commands.py\<close>). The Argon2 hash of a password is a parameter.
\<close>

section \<open>Responses\<close>

record user_response =
  usr_user_id :: string
  usr_username :: string
  usr_role :: string
  usr_active :: bool
  usr_created_at :: string
  usr_updated_at :: string

definition response_of_user :: "user \<Rightarrow> user_response" where
  "response_of_user u =
     \<lparr>usr_user_id = u_user_id u, usr_username = u_username u, usr_role = role_value (u_role u), usr_active = u_active u,
      usr_created_at = datetime_iso (u_created_at u), usr_updated_at = datetime_iso (u_updated_at u)\<rparr>"

record session_cookie =
  ck_key :: string
  ck_value :: string
  ck_max_age :: nat
  ck_httponly :: bool
  ck_samesite :: string
  ck_secure :: bool
  ck_path :: string

definition SESSION_COOKIE_NAME :: string where "SESSION_COOKIE_NAME = ''zeroshield_session''"
definition COOKIE_MAX_AGE_SECONDS :: nat where "COOKIE_MAX_AGE_SECONDS = 12 * 60 * 60"

definition cookie_secure :: "(string \<Rightarrow> string option) \<Rightarrow> bool" where
  "cookie_secure environ \<longleftrightarrow>
     str_lower (str_strip (case environ ''ZEROSHIELD_SESSION_COOKIE_SECURE'' of None \<Rightarrow> ''false'' | Some v \<Rightarrow> v)) = ''true''"

section \<open>Sessions\<close>

text \<open>The exceptions that the login route turns into responses.\<close>

fun login_http_error :: "exn \<Rightarrow> exn option" where
  "login_http_error (AccountLockedError t) = Some (http_error 423 ''account_locked'')"
| "login_http_error (AccountInactiveError s) = Some (http_error 403 ''account_inactive'')"
| "login_http_error (InvalidCredentialsError s) = Some (http_error 401 ''invalid_credentials'')"
| "login_http_error _ = None"

definition login_handler :: "app_env \<Rightarrow> (string \<Rightarrow> string option) \<Rightarrow> string \<Rightarrow> string \<Rightarrow> string option \<Rightarrow> string option \<Rightarrow> string option
    \<Rightarrow> ('z, user_response \<times> session_cookie) auth_m" where
  "login_handler E environ username password ip_address user_agent request_id =
     bindE (require_valid (ne username \<and> ne password)) (\<lambda>_.
     bindE (catchE (login E username password ip_address user_agent request_id) login_http_error) (\<lambda>r.
     returnE (response_of_user (lr_user r),
       \<lparr>ck_key = SESSION_COOKIE_NAME, ck_value = lr_raw_session_token r, ck_max_age = COOKIE_MAX_AGE_SECONDS, ck_httponly = True,
        ck_samesite = ''lax'', ck_secure = cookie_secure environ, ck_path = ''/''\<rparr>)))"

text \<open>\<open>token\<close> is the session cookie of the request; its deletion in the browser is the response's.\<close>

definition logout_handler :: "app_env \<Rightarrow> string option \<Rightarrow> string option \<Rightarrow> ('z, unit) auth_m" where
  "logout_handler E token request_id =
     bindE (get_current_user E token) (\<lambda>u.
     case token of
       None \<Rightarrow> returnE ()
     | Some t \<Rightarrow> if t = [] then returnE () else logout E t (Some u) request_id)"

definition me_handler :: "app_env \<Rightarrow> string option \<Rightarrow> ('z, user_response) auth_m" where
  "me_handler E token = bindE (get_current_user E token) (\<lambda>u. returnE (response_of_user u))"

section \<open>Users\<close>

definition role_of_value :: "string \<Rightarrow> role option" where
  "role_of_value s = find (\<lambda>r. role_value r = s) [VIEWER, RESEARCHER, REVIEWER, ADMIN]"

definition MIN_PASSWORD_LENGTH :: nat where "MIN_PASSWORD_LENGTH = 12"

definition username_char :: "char \<Rightarrow> bool" where
  "username_char c \<longleftrightarrow> is_alpha c \<or> is_digit c \<or> c \<in> set ''_.-''"

record create_user_request =
  cuq_username :: string
  cuq_password :: string
  cuq_role :: string

definition create_user_request_ok :: "create_user_request \<Rightarrow> bool" where
  "create_user_request_ok q \<longleftrightarrow> ne (cuq_username q) \<and> length (cuq_username q) \<le> 64 \<and> list_all username_char (cuq_username q)
     \<and> 12 \<le> length (cuq_password q)"

definition list_users_handler :: "app_env \<Rightarrow> string option \<Rightarrow> ('z, user_response list) auth_m" where
  "list_users_handler E token =
     bindE (require_role E [ADMIN] token) (\<lambda>_. bindE list_users (\<lambda>us. returnE (map response_of_user us)))"

fun username_taken :: "exn \<Rightarrow> exn option" where
  "username_taken (UsernameAlreadyExistsError s) = Some (http_error 409 ''username_exists'')"
| "username_taken _ = None"

definition create_user_handler :: "app_env \<Rightarrow> (string \<Rightarrow> string) \<Rightarrow> string option \<Rightarrow> create_user_request \<Rightarrow> string option
    \<Rightarrow> ('z, user_response) auth_m" where
  "create_user_handler E hash_password token q request_id =
     bindE (require_role E [ADMIN] token) (\<lambda>actor.
     bindE (require_valid (create_user_request_ok q)) (\<lambda>_.
     case role_of_value (cuq_role q) of
       None \<Rightarrow> raiseE (http_error 422 ''invalid_role'')
     | Some rl \<Rightarrow>
         if length (cuq_password q) < MIN_PASSWORD_LENGTH then raiseE (http_error 422 ''weak_password'')
         else
           bindE (catchE (service_create_user E (cuq_username q) (hash_password (cuq_password q)) rl actor request_id) username_taken)
             (\<lambda>created. returnE (response_of_user created))))"

definition updated_or_404 :: "user option \<Rightarrow> ('z, user_response) auth_m" where
  "updated_or_404 updated =
     (case updated of None \<Rightarrow> raiseE (http_error 404 ''user_not_found'') | Some u \<Rightarrow> returnE (response_of_user u))"

definition update_user_role_handler :: "app_env \<Rightarrow> string option \<Rightarrow> string \<Rightarrow> string \<Rightarrow> string option \<Rightarrow> ('z, user_response) auth_m" where
  "update_user_role_handler E token user_id rl request_id =
     bindE (require_role E [ADMIN] token) (\<lambda>actor.
     case role_of_value rl of
       None \<Rightarrow> raiseE (http_error 422 ''invalid_role'')
     | Some r \<Rightarrow> bindE (update_user_role E user_id r actor request_id) updated_or_404)"

definition update_user_active_handler :: "app_env \<Rightarrow> string option \<Rightarrow> string \<Rightarrow> bool \<Rightarrow> string option \<Rightarrow> ('z, user_response) auth_m" where
  "update_user_active_handler E token user_id active request_id =
     bindE (require_role E [ADMIN] token) (\<lambda>actor.
     bindE (set_user_active E user_id active actor request_id) updated_or_404)"

section \<open>The audit trail\<close>

record audit_event_response =
  aur_audit_id :: string
  aur_occurred_at :: string
  aur_actor_user_id :: "string option"
  aur_actor_username :: "string option"
  aur_actor_role :: "string option"
  aur_action :: string
  aur_target_type :: "string option"
  aur_target_id :: "string option"
  aur_request_id :: "string option"
  aur_metadata :: pydict
  aur_previous_state :: "pydict option"
  aur_new_state :: "pydict option"

definition response_of_event :: "audit_event \<Rightarrow> audit_event_response" where
  "response_of_event e =
     \<lparr>aur_audit_id = av_audit_id e, aur_occurred_at = datetime_iso (av_occurred_at e), aur_actor_user_id = av_actor_user_id e,
      aur_actor_username = av_actor_username e, aur_actor_role = av_actor_role e, aur_action = av_action e,
      aur_target_type = av_target_type e, aur_target_id = av_target_id e, aur_request_id = av_request_id e,
      aur_metadata = av_metadata e, aur_previous_state = av_previous_state e, aur_new_state = av_new_state e\<rparr>"

record audit_list_response =
  alr_events :: "audit_event_response list"
  alr_total :: nat
  alr_limit :: int
  alr_offset :: int

text \<open>The route does not bound the page: PostgreSQL rejects a negative \<open>LIMIT\<close> or \<open>OFFSET\<close>.\<close>

definition list_audit_events_handler :: "app_env \<Rightarrow> string option \<Rightarrow> audit_filter \<Rightarrow> int \<Rightarrow> int \<Rightarrow> ('z, audit_list_response) auth_m" where
  "list_audit_events_handler E token f limit offset =
     bindE (require_role E [ADMIN] token) (\<lambda>_.
     if limit < 0 \<or> offset < 0 then raiseE (OtherError ''DataError'' ''LIMIT must not be negative'')
     else
       bindE (getE (audit_list_events f (nat limit) (nat offset))) (\<lambda>(events, n).
       returnE \<lparr>alr_events = map response_of_event events, alr_total = n, alr_limit = limit, alr_offset = offset\<rparr>))"

section \<open>The first administrator\<close>

text \<open>\<open>environ\<close> is the environment; \<open>token_urlsafe(18)\<close> is the next random token. Any failure is a \<open>CliError\<close>.\<close>

definition cli_error :: "string \<Rightarrow> exn" where
  "cli_error msg = OtherError ''CliError'' msg"

fun cli_username_taken :: "exn \<Rightarrow> exn option" where
  "cli_username_taken (UsernameAlreadyExistsError s) = Some (cli_error s)"
| "cli_username_taken _ = None"

definition create_admin :: "app_env \<Rightarrow> (string \<Rightarrow> string option) \<Rightarrow> (string \<Rightarrow> string) \<Rightarrow> string \<Rightarrow> string option \<Rightarrow> ('z, string option) auth_m" where
  "create_admin E environ hash_password username password =
     (if (case environ ''DATABASE_URL'' of None \<Rightarrow> True | Some url \<Rightarrow> url = []) then raiseE (cli_error ''DATABASE_URL is not set'')
      else
        bindE (case password of
            None \<Rightarrow> bindE (token_urlsafe E) (\<lambda>t. returnE (Some t, t))
          | Some p \<Rightarrow> if length p < MIN_PASSWORD_LENGTH then raiseE (cli_error ''password must be at least 12 characters'') else returnE (None, p))
        (\<lambda>(generated_password, p).
        bindE (catchE (create_user E username (hash_password p) ADMIN) cli_username_taken) (\<lambda>u.
        bindE (audit_record E None (Some ''cli:create-admin'') None USER_CREATED (Some ''user'') (Some (u_user_id u)) None
          [(''username'', PStr (u_username u)), (''role'', PStr (role_value (u_role u))), (''bootstrap'', PBool True)] None None) (\<lambda>_.
        returnE generated_password))))"

end
