(* ===== verification/Job_Store.thy ===== *)
theory Job_Store
  imports Discovery "HOL-Library.Countable"
begin

text \<open>
  Job tracking (\<open>services/job_store.py\<close>): one JSON file per job in a directory that the API and the
  worker process share. The serialisation of pydantic is a parameter. The last sections look at what the
  processes do to the directory one file-system operation at a time: any number of saves may be under way,
  interleaved, or die half way.
\<close>

datatype job_status = JS_QUEUED | JS_RUNNING | JS_COMPLETED | JS_FAILED | JS_DENIED

fun job_status_value :: "job_status \<Rightarrow> string" where
  "job_status_value JS_QUEUED = ''queued''"
| "job_status_value JS_RUNNING = ''running''"
| "job_status_value JS_COMPLETED = ''completed''"
| "job_status_value JS_FAILED = ''failed''"
| "job_status_value JS_DENIED = ''denied''"

record run_job_message =
  jm_job_id :: string
  jm_experiment_id :: string
  jm_execution_context :: execution_context
  jm_submitted_by_user_id :: "string option"
  jm_submitted_by_username :: "string option"

record run_result_summary =
  rx_baseline_run_id :: string
  rx_mitigation_run_id :: string
  rx_total_cases :: int
  rx_baseline_block_rate :: float64
  rx_mitigation_block_rate :: float64
  rx_block_rate_improvement :: float64
  rx_evidence_location :: string

record job_record =
  jr_job_id :: string
  jr_experiment_id :: string
  jr_execution_context :: execution_context
  jr_status :: job_status
  jr_submitted_at :: datetime
  jr_updated_at :: datetime
  jr_result :: "run_result_summary option"
  jr_error :: "string option"

text \<open>\<open>JobRecord.model_dump_json\<close> and \<open>model_validate_json\<close>.\<close>

record job_codec =
  jc_dump :: "job_record \<Rightarrow> string"
  jc_parse :: "string \<Rightarrow> exn + job_record"

definition job_codec_ok :: "job_codec \<Rightarrow> bool" where
  "job_codec_ok J \<longleftrightarrow> (\<forall>r. jc_parse J (jc_dump J r) = Inr r)"

section \<open>File operations\<close>

definition write_text :: "pypath \<Rightarrow> string \<Rightarrow> file_tree \<Rightarrow> file_tree" where
  "write_text path text files = tbl_upsert fst (path, text) files"

definition os_replace :: "pypath \<Rightarrow> pypath \<Rightarrow> file_tree \<Rightarrow> exn + file_tree" where
  "os_replace src dst files =
     (case tbl_get fst src files of
        None \<Rightarrow> Inl (FileNotFoundError (path_str src))
      | Some (_, content) \<Rightarrow> Inr (tbl_upsert fst (dst, content) (filter (\<lambda>f. fst f \<noteq> src) files)))"

definition path_name :: "pypath \<Rightarrow> string" where
  "path_name p = (if path_parts p = [] then [] else last (path_parts p))"

definition with_name :: "pypath \<Rightarrow> string \<Rightarrow> pypath" where
  "with_name p n = PyPath (path_root p) (butlast (path_parts p) @ [n])"

section \<open>\<open>JobStore\<close>\<close>

definition job_path :: "pypath \<Rightarrow> string \<Rightarrow> pypath" where
  "job_path jobs_dir job_id = path_join jobs_dir (job_id @ ''.json'')"

definition job_tmp_path :: "pypath \<Rightarrow> string \<Rightarrow> pypath" where
  "job_tmp_path path hex = with_name path (path_name path @ ''.'' @ hex @ ''.tmp'')"

definition job_save :: "job_codec \<Rightarrow> pypath \<Rightarrow> string \<Rightarrow> job_record \<Rightarrow> file_tree \<Rightarrow> exn + file_tree" where
  "job_save J jobs_dir hex r files =
     (let path = job_path jobs_dir (jr_job_id r); tmp_path = job_tmp_path path hex
      in os_replace tmp_path path (write_text tmp_path (jc_dump J r) files))"

definition job_load :: "job_codec \<Rightarrow> pypath \<Rightarrow> string \<Rightarrow> file_tree \<Rightarrow> exn + job_record option" where
  "job_load J jobs_dir job_id files =
     (case tbl_get fst (job_path jobs_dir job_id) files of
        None \<Rightarrow> Inr None
      | Some (_, text) \<Rightarrow> bindS (jc_parse J text) (\<lambda>r. Inr (Some r)))"

definition job_list_all :: "job_codec \<Rightarrow> pypath \<Rightarrow> file_tree \<Rightarrow> job_record list" where
  "job_list_all J jobs_dir files =
     sorted_by_desc jr_submitted_at
       (concat (map (\<lambda>(_, text). case jc_parse J text of Inl _ \<Rightarrow> [] | Inr r \<Rightarrow> [r]) (glob_json jobs_dir files)))"

text \<open>\<open>_JOB_ID_PATTERN\<close> of \<open>api/routes/jobs.py\<close>.\<close>

definition is_job_id :: "string \<Rightarrow> bool" where
  "is_job_id s \<longleftrightarrow> (case strip_prefix ''JOB-'' s of None \<Rightarrow> False | Some h \<Rightarrow> length h = 32 \<and> list_all is_hex h)"

section \<open>Names in the directory\<close>

lemma job_id_good: "is_job_id i \<Longrightarrow> good_part (i @ ''.json'')"
  by (auto simp: is_job_id_def good_part_def strip_prefix_def list_all_iff is_hex_def is_digit_def prefix_def
      split: if_splits option.splits)

lemma job_path_parts: "is_job_id i \<Longrightarrow> job_path dir i = PyPath (path_root dir) (path_parts dir @ [i @ ''.json''])"
  unfolding job_path_def by (rule path_join_good [OF job_id_good])

lemma job_path_eq: "is_job_id i \<Longrightarrow> is_job_id j \<Longrightarrow> job_path dir i = job_path dir j \<longleftrightarrow> i = j"
  by (simp add: job_path_parts)

lemma job_tmp_path_parts:
  "is_job_id i \<Longrightarrow> job_tmp_path (job_path dir i) h = PyPath (path_root dir) (path_parts dir @ [i @ ''.json.'' @ h @ ''.tmp''])"
  by (simp add: job_tmp_path_def job_path_parts with_name_def path_name_def)

lemma job_tmp_not_json: "is_job_id i \<Longrightarrow> \<not> suffix ''.json'' (last (path_parts (job_tmp_path (job_path dir i) h)))"
  by (auto simp: job_tmp_path_parts suffix_def)

lemma glob_job_path: "is_job_id i \<Longrightarrow> (job_path dir i, c) \<in> set (glob_json dir fs) \<longleftrightarrow> (job_path dir i, c) \<in> set fs"
  by (auto simp: glob_json_def job_path_parts suffix_def)

lemma glob_tmp: "is_job_id i \<Longrightarrow> (job_tmp_path (job_path dir i) h, c) \<notin> set (glob_json dir fs)"
  using job_tmp_not_json [of i dir h] by (auto simp: glob_json_def)

lemma job_tmp_ne_path: "is_job_id i \<Longrightarrow> is_job_id j \<Longrightarrow> job_tmp_path (job_path dir i) h \<noteq> job_path dir j"
  using job_tmp_not_json [of i dir h] by (auto simp: job_path_parts suffix_def)

section \<open>One save and one load\<close>

lemma set_upsert_key: "set (tbl_upsert key r t) = insert r {x \<in> set t. key x \<noteq> key r}"
proof (cases "tbl_get key (key r) t")
  case None
  then have "key r \<notin> key ` set t" by (simp add: tbl_get_None)
  then have "{x \<in> set t. key x \<noteq> key r} = set t" by (auto simp: image_iff)
  with None show ?thesis by (simp add: tbl_upsert_def)
next
  case (Some a)
  then have "a \<in> set t" "key a = key r" using tbl_get_SomeD [OF Some] by simp_all
  with Some show ?thesis by (auto simp: tbl_upsert_def tbl_modify_def)
qed

lemma mem_write_text: "(q, d) \<in> set (write_text p c fs) \<longleftrightarrow> (q = p \<and> d = c) \<or> (q \<noteq> p \<and> (q, d) \<in> set fs)"
  by (auto simp: write_text_def set_upsert_key)

lemma os_replace_Inr:
  assumes "os_replace src dst fs = Inr fs'" and "src \<noteq> dst" and "tbl_ok fst fs" and "(src, c) \<in> set fs"
  shows "tbl_ok fst fs'" "(q, d) \<in> set fs' \<longleftrightarrow> (q = dst \<and> d = c) \<or> (q \<noteq> dst \<and> q \<noteq> src \<and> (q, d) \<in> set fs)"
proof -
  have "tbl_get fst src fs = Some (src, c)" using tbl_get_in [OF assms(3,4)] by simp
  then have fs': "fs' = write_text dst c (filter (\<lambda>f. fst f \<noteq> src) fs)"
    using assms(1) by (simp add: os_replace_def write_text_def)
  show "tbl_ok fst fs'" unfolding fs' write_text_def by (rule tbl_ok_upsert [OF tbl_ok_filter [OF assms(3)]])
  show "(q, d) \<in> set fs' \<longleftrightarrow> (q = dst \<and> d = c) \<or> (q \<noteq> dst \<and> q \<noteq> src \<and> (q, d) \<in> set fs)"
    unfolding fs' mem_write_text by auto
qed

lemma tbl_get_filter_key: "k \<noteq> j \<Longrightarrow> tbl_get key k (filter (\<lambda>x. key x \<noteq> j) t) = tbl_get key k t"
  by (induction t) (auto simp: tbl_get_Cons)

text \<open>A save succeeds; the job is then loaded as saved and every other job as before.\<close>

definition job_saved :: "job_codec \<Rightarrow> pypath \<Rightarrow> string \<Rightarrow> job_record \<Rightarrow> file_tree \<Rightarrow> file_tree" where
  "job_saved J dir hex r fs =
     (let t = job_tmp_path (job_path dir (jr_job_id r)) hex
      in tbl_upsert fst (job_path dir (jr_job_id r), jc_dump J r) (filter (\<lambda>f. fst f \<noteq> t) (write_text t (jc_dump J r) fs)))"

lemma job_save_eq: "job_save J dir hex r fs = Inr (job_saved J dir hex r fs)"
  by (simp add: job_save_def job_saved_def os_replace_def write_text_def tbl_get_upsert Let_def)

lemma job_load_saved:
  assumes "job_codec_ok J" and "is_job_id (jr_job_id r)" and "is_job_id j"
  shows "job_load J dir j (job_saved J dir hex r fs) = (if j = jr_job_id r then Inr (Some r) else job_load J dir j fs)"
  using assms job_tmp_ne_path [OF assms(2,3), of dir hex]
  by (auto simp: job_load_def job_saved_def Let_def tbl_get_upsert job_path_eq tbl_get_filter_key write_text_def job_codec_ok_def)

section \<open>Concurrent saves, one file operation at a time\<close>

text \<open>
  \<open>save\<close> opens a temporary file of a fresh name (\<open>uuid4\<close>), writes the text in any number of pieces and
  renames it over the job's file. A writer is a save under way; its process may be killed between any two
  operations. Job identifiers are generated by the API (\<open>JOB-\<close> and a \<open>uuid4\<close>).
\<close>

record job_writer =
  jw_tmp :: pypath
  jw_record :: job_record
  jw_written :: nat

record job_fs =
  jf_files :: file_tree
  jf_writers :: "job_writer list"

datatype job_action = OpenTmp job_record string | WriteTmp pypath nat | ReplaceTmp pypath job_record | KillWriter pypath

inductive job_step :: "job_codec \<Rightarrow> pypath \<Rightarrow> job_fs \<Rightarrow> job_action \<Rightarrow> job_fs \<Rightarrow> bool" for J dir where
  open_tmp: "\<lbrakk>is_job_id (jr_job_id r); t = job_tmp_path (job_path dir (jr_job_id r)) hex; t \<notin> fst ` set (jf_files s)\<rbrakk> \<Longrightarrow>
     job_step J dir s (OpenTmp r hex)
       (s\<lparr>jf_files := write_text t [] (jf_files s), jf_writers := jf_writers s @ [\<lparr>jw_tmp = t, jw_record = r, jw_written = 0\<rparr>]\<rparr>)"
| write_tmp: "\<lbrakk>w \<in> set (jf_writers s); jw_written w \<le> n; n \<le> length (jc_dump J (jw_record w))\<rbrakk> \<Longrightarrow>
     job_step J dir s (WriteTmp (jw_tmp w) n)
       (s\<lparr>jf_files := write_text (jw_tmp w) (take n (jc_dump J (jw_record w))) (jf_files s),
          jf_writers := tbl_modify jw_tmp (jw_tmp w) (\<lambda>x. x\<lparr>jw_written := n\<rparr>) (jf_writers s)\<rparr>)"
| replace_tmp: "\<lbrakk>w \<in> set (jf_writers s); jw_written w = length (jc_dump J (jw_record w));
     os_replace (jw_tmp w) (job_path dir (jr_job_id (jw_record w))) (jf_files s) = Inr files\<rbrakk> \<Longrightarrow>
     job_step J dir s (ReplaceTmp (jw_tmp w) (jw_record w))
       (s\<lparr>jf_files := files, jf_writers := filter (\<lambda>x. jw_tmp x \<noteq> jw_tmp w) (jf_writers s)\<rparr>)"
| kill_writer: "w \<in> set (jf_writers s) \<Longrightarrow>
     job_step J dir s (KillWriter (jw_tmp w)) (s\<lparr>jf_writers := filter (\<lambda>x. jw_tmp x \<noteq> jw_tmp w) (jf_writers s)\<rparr>)"

inductive job_steps :: "job_codec \<Rightarrow> pypath \<Rightarrow> job_fs \<Rightarrow> job_action list \<Rightarrow> job_fs \<Rightarrow> bool" for J dir where
  no_step: "job_steps J dir s [] s"
| more_steps: "job_step J dir s a s1 \<Longrightarrow> job_steps J dir s1 as s2 \<Longrightarrow> job_steps J dir s (a # as) s2"

text \<open>The abstract store: a map from job identifiers to records, changed by the renames alone.\<close>

fun job_commit :: "job_action \<Rightarrow> (string \<rightharpoonup> job_record) \<Rightarrow> (string \<rightharpoonup> job_record)" where
  "job_commit (ReplaceTmp t r) m = m(jr_job_id r \<mapsto> r)"
| "job_commit a m = m"

text \<open>A save is such a sequence of steps.\<close>

lemma job_save_steps:
  assumes "is_job_id (jr_job_id r)" and "t = job_tmp_path (job_path dir (jr_job_id r)) hex" and "t \<notin> fst ` set fs"
  shows "job_steps J dir \<lparr>jf_files = fs, jf_writers = []\<rparr> [OpenTmp r hex, WriteTmp t (length (jc_dump J r)), ReplaceTmp t r]
    \<lparr>jf_files = job_saved J dir hex r (write_text t [] fs), jf_writers = []\<rparr>"
proof -
  let ?w = "\<lparr>jw_tmp = t, jw_record = r, jw_written = 0\<rparr>" and ?n = "length (jc_dump J r)"
  let ?s1 = "\<lparr>jf_files = write_text t [] fs, jf_writers = [?w]\<rparr>"
  let ?s2 = "\<lparr>jf_files = write_text t (jc_dump J r) (write_text t [] fs), jf_writers = [?w\<lparr>jw_written := ?n\<rparr>]\<rparr>"
  have 1: "job_step J dir \<lparr>jf_files = fs, jf_writers = []\<rparr> (OpenTmp r hex) ?s1"
    using open_tmp [OF assms(1,2), of "\<lparr>jf_files = fs, jf_writers = []\<rparr>" J] assms(3) by simp
  have 2: "job_step J dir ?s1 (WriteTmp t ?n) ?s2"
    using write_tmp [of ?w ?s1 ?n J dir] by (simp add: tbl_modify_def)
  have 3: "job_step J dir ?s2 (ReplaceTmp t r) \<lparr>jf_files = job_saved J dir hex r (write_text t [] fs), jf_writers = []\<rparr>"
    using replace_tmp [of "?w\<lparr>jw_written := ?n\<rparr>" ?s2 J dir] job_save_eq [of J dir hex r "write_text t [] fs"] assms(2)
    by (simp add: job_save_def Let_def)
  show ?thesis by (rule more_steps [OF 1 more_steps [OF 2 more_steps [OF 3 no_step]]])
qed

section \<open>The directory refines the map\<close>

definition job_inv :: "job_codec \<Rightarrow> pypath \<Rightarrow> (string \<rightharpoonup> job_record) \<Rightarrow> job_fs \<Rightarrow> bool" where
  "job_inv J dir m s \<longleftrightarrow> tbl_ok fst (jf_files s) \<and> tbl_ok jw_tmp (jf_writers s)
     \<and> (\<forall>p c. (p, c) \<in> set (glob_json dir (jf_files s)) \<longrightarrow> (\<exists>i r. m i = Some r \<and> p = job_path dir i))
     \<and> (\<forall>i r. m i = Some r \<longrightarrow> is_job_id i \<and> jr_job_id r = i \<and> (job_path dir i, jc_dump J r) \<in> set (jf_files s))
     \<and> (\<forall>w \<in> set (jf_writers s). is_job_id (jr_job_id (jw_record w))
         \<and> (\<exists>hex. jw_tmp w = job_tmp_path (job_path dir (jr_job_id (jw_record w))) hex)
         \<and> (jw_tmp w, take (jw_written w) (jc_dump J (jw_record w))) \<in> set (jf_files s))"

lemma glob_sub: "(p, c) \<in> set (glob_json dir fs) \<Longrightarrow> (p, c) \<in> set fs"
  by (simp add: glob_json_def)

lemma glob_mono: "(p, c) \<in> set (glob_json dir fs) \<Longrightarrow> (p, c') \<in> set fs' \<Longrightarrow> (p, c') \<in> set (glob_json dir fs')"
  by (auto simp: glob_json_def)

text \<open>Writing a temporary file of a writer changes none of the job files.\<close>

lemma write_tmp_job_files:
  assumes "is_job_id i" and "t = job_tmp_path (job_path dir i) hex"
  shows "set (glob_json dir (write_text t c fs)) = set (glob_json dir fs)"
proof -
  have "(p, d) \<in> set (glob_json dir (write_text t c fs)) \<longleftrightarrow> (p, d) \<in> set (glob_json dir fs)" for p d
    using glob_tmp [OF assms(1), of dir hex] assms(2)
    by (metis glob_mono glob_sub mem_write_text)
  then show ?thesis by auto
qed

lemma job_invD:
  assumes "job_inv J dir m s"
  shows "tbl_ok fst (jf_files s)" "tbl_ok jw_tmp (jf_writers s)"
    "(p, c) \<in> set (glob_json dir (jf_files s)) \<Longrightarrow> \<exists>i r. m i = Some r \<and> p = job_path dir i"
    "m i = Some r \<Longrightarrow> is_job_id i" "m i = Some r \<Longrightarrow> jr_job_id r = i"
    "m i = Some r \<Longrightarrow> (job_path dir i, jc_dump J r) \<in> set (jf_files s)"
    "w \<in> set (jf_writers s) \<Longrightarrow> is_job_id (jr_job_id (jw_record w))"
    "w \<in> set (jf_writers s) \<Longrightarrow> \<exists>hex. jw_tmp w = job_tmp_path (job_path dir (jr_job_id (jw_record w))) hex"
    "w \<in> set (jf_writers s) \<Longrightarrow> (jw_tmp w, take (jw_written w) (jc_dump J (jw_record w))) \<in> set (jf_files s)"
  using assms unfolding job_inv_def by blast+

lemma job_invI:
  assumes "tbl_ok fst (jf_files s)" "tbl_ok jw_tmp (jf_writers s)"
    and "\<And>p c. (p, c) \<in> set (glob_json dir (jf_files s)) \<Longrightarrow> \<exists>i r. m i = Some r \<and> p = job_path dir i"
    and "\<And>i r. m i = Some r \<Longrightarrow> is_job_id i \<and> jr_job_id r = i \<and> (job_path dir i, jc_dump J r) \<in> set (jf_files s)"
    and "\<And>w. w \<in> set (jf_writers s) \<Longrightarrow> is_job_id (jr_job_id (jw_record w))
         \<and> (\<exists>hex. jw_tmp w = job_tmp_path (job_path dir (jr_job_id (jw_record w))) hex)
         \<and> (jw_tmp w, take (jw_written w) (jc_dump J (jw_record w))) \<in> set (jf_files s)"
  shows "job_inv J dir m s"
  using assms unfolding job_inv_def by blast

text \<open>A temporary file never has the name of a job file.\<close>

lemma tmp_not_job:
  assumes "job_inv J dir m s" and "w \<in> set (jf_writers s)" and "is_job_id i"
  shows "job_path dir i \<noteq> jw_tmp w"
  using job_invD(7,8) [OF assms(1,2)] job_tmp_ne_path [OF _ assms(3)] by metis

lemma job_open_inv:
  assumes inv: "job_inv J dir m s" and r: "is_job_id (jr_job_id r)" and t: "t = job_tmp_path (job_path dir (jr_job_id r)) hex"
    and new: "t \<notin> fst ` set (jf_files s)"
  shows "job_inv J dir m (s\<lparr>jf_files := write_text t [] (jf_files s),
    jf_writers := jf_writers s @ [\<lparr>jw_tmp = t, jw_record = r, jw_written = 0\<rparr>]\<rparr>)"
proof (rule job_invI; simp)
  note D = job_invD [OF inv]
  have fresh: "p \<noteq> t" if "(p, c) \<in> set (jf_files s)" for p c using that new by force
  have "jw_tmp w \<noteq> t" if "w \<in> set (jf_writers s)" for w using fresh [OF D(9) [OF that]] .
  then have "tbl_get jw_tmp t (jf_writers s) = None" by (auto simp: tbl_get_None)
  then show "tbl_ok jw_tmp (jf_writers s @ [\<lparr>jw_tmp = t, jw_record = r, jw_written = 0\<rparr>])" using D(2) by (intro tbl_ok_append) simp_all
  show "tbl_ok fst (write_text t [] (jf_files s))" unfolding write_text_def by (rule tbl_ok_upsert [OF D(1)])
  show "\<exists>i. (\<exists>r. m i = Some r) \<and> p = job_path dir i" if "(p, c) \<in> set (glob_json dir (write_text t [] (jf_files s)))" for p c
    using D(3) that unfolding write_tmp_job_files [OF r t] by blast
  show "is_job_id i \<and> jr_job_id q = i \<and> (job_path dir i, jc_dump J q) \<in> set (write_text t [] (jf_files s))" if "m i = Some q" for i q
    using D(4,5,6) [OF that] fresh unfolding mem_write_text by blast
  show "is_job_id (jr_job_id (jw_record w)) \<and> (\<exists>hex. jw_tmp w = job_tmp_path (job_path dir (jr_job_id (jw_record w))) hex)
      \<and> (jw_tmp w, take (jw_written w) (jc_dump J (jw_record w))) \<in> set (write_text t [] (jf_files s))"
    if "w = \<lparr>jw_tmp = t, jw_record = r, jw_written = 0\<rparr> \<or> w \<in> set (jf_writers s)" for w
    using that
  proof
    assume "w = \<lparr>jw_tmp = t, jw_record = r, jw_written = 0\<rparr>"
    then show ?thesis using r t by (auto simp: mem_write_text)
  next
    assume w: "w \<in> set (jf_writers s)"
    then show ?thesis using D(7-9) [OF w] fresh unfolding mem_write_text by blast
  qed
qed

lemma job_write_inv:
  assumes inv: "job_inv J dir m s" and w: "w \<in> set (jf_writers s)"
  shows "job_inv J dir m (s\<lparr>jf_files := write_text (jw_tmp w) (take n (jc_dump J (jw_record w))) (jf_files s),
    jf_writers := tbl_modify jw_tmp (jw_tmp w) (\<lambda>x. x\<lparr>jw_written := n\<rparr>) (jf_writers s)\<rparr>)"
proof (rule job_invI; simp)
  note D = job_invD [OF inv]
  let ?fs = "write_text (jw_tmp w) (take n (jc_dump J (jw_record w))) (jf_files s)"
  obtain hex where t: "jw_tmp w = job_tmp_path (job_path dir (jr_job_id (jw_record w))) hex" using D(8) [OF w] by blast
  show "tbl_ok jw_tmp (tbl_modify jw_tmp (jw_tmp w) (\<lambda>x. x\<lparr>jw_written := n\<rparr>) (jf_writers s))" using D(2) by (simp add: tbl_ok_modify)
  show "tbl_ok fst ?fs" unfolding write_text_def by (rule tbl_ok_upsert [OF D(1)])
  show "\<exists>i. (\<exists>r. m i = Some r) \<and> p = job_path dir i" if "(p, c) \<in> set (glob_json dir ?fs)" for p c
    using D(3) that unfolding write_tmp_job_files [OF D(7) [OF w] t] by blast
  show "is_job_id i \<and> jr_job_id q = i \<and> (job_path dir i, jc_dump J q) \<in> set ?fs" if "m i = Some q" for i q
    using D(4,5,6) [OF that] tmp_not_job [OF inv w] unfolding mem_write_text by blast
  show "is_job_id (jr_job_id (jw_record x)) \<and> (\<exists>hex. jw_tmp x = job_tmp_path (job_path dir (jr_job_id (jw_record x))) hex)
      \<and> (jw_tmp x, take (jw_written x) (jc_dump J (jw_record x))) \<in> set ?fs"
    if mem: "x \<in> set (tbl_modify jw_tmp (jw_tmp w) (\<lambda>x. x\<lparr>jw_written := n\<rparr>) (jf_writers s))" for x
  proof -
    obtain y where y: "y \<in> set (jf_writers s)" "x = (if jw_tmp y = jw_tmp w then y\<lparr>jw_written := n\<rparr> else y)"
      using mem unfolding tbl_modify_def set_map by blast
    have same: "jw_tmp y = jw_tmp w \<Longrightarrow> y = w" using tbl_get_in [OF D(2)] y(1) w by (metis option.inject)
    show ?thesis
    proof (cases "jw_tmp y = jw_tmp w")
      case True
      then show ?thesis using same D(7,8) [OF w] y(2) by (auto simp: mem_write_text)
    next
      case False
      then show ?thesis using D(7-9) [OF y(1)] y(2) by (auto simp: mem_write_text)
    qed
  qed
qed

lemma job_replace_inv:
  assumes inv: "job_inv J dir m s" and w: "w \<in> set (jf_writers s)" and all: "jw_written w = length (jc_dump J (jw_record w))"
    and rep: "os_replace (jw_tmp w) (job_path dir (jr_job_id (jw_record w))) (jf_files s) = Inr fs"
  shows "job_inv J dir (m(jr_job_id (jw_record w) \<mapsto> jw_record w))
    (s\<lparr>jf_files := fs, jf_writers := filter (\<lambda>x. jw_tmp x \<noteq> jw_tmp w) (jf_writers s)\<rparr>)"
proof -
  note D = job_invD [OF inv]
  let ?r = "jw_record w" and ?p = "job_path dir (jr_job_id (jw_record w))" and ?m = "m(jr_job_id (jw_record w) \<mapsto> jw_record w)"
  have ne: "jw_tmp w \<noteq> ?p" using tmp_not_job [OF inv w D(7) [OF w]] by metis
  have c: "(jw_tmp w, jc_dump J ?r) \<in> set (jf_files s)" using D(9) [OF w] all by simp
  note R = os_replace_Inr [OF rep ne D(1) c]
  have files: "\<exists>i r. ?m i = Some r \<and> p = job_path dir i" if "(p, c) \<in> set (glob_json dir fs)" for p c
  proof (cases "p = ?p")
    case False
    then have "(p, c) \<in> set (glob_json dir (jf_files s))" using R(2) glob_sub [OF that] glob_mono [OF that] by blast
    then obtain i r where "m i = Some r" "p = job_path dir i" using D(3) by blast
    then show ?thesis by (intro exI [of _ i]) simp
  qed (rule exI [of _ "jr_job_id ?r"], simp)
  have recs: "is_job_id i \<and> jr_job_id q = i \<and> (job_path dir i, jc_dump J q) \<in> set fs" if "?m i = Some q" for i q
  proof (cases "i = jr_job_id ?r")
    case True
    then show ?thesis using that D(7) [OF w] R(2) by simp
  next
    case False
    then have q: "m i = Some q" using that by simp
    have "job_path dir i \<noteq> ?p" using False job_path_eq [OF D(4) [OF q] D(7) [OF w]] by simp
    then show ?thesis using R(2) D(4-6) [OF q] tmp_not_job [OF inv w D(4) [OF q]] by blast
  qed
  have wr: "is_job_id (jr_job_id (jw_record x)) \<and> (\<exists>hex. jw_tmp x = job_tmp_path (job_path dir (jr_job_id (jw_record x))) hex)
      \<and> (jw_tmp x, take (jw_written x) (jc_dump J (jw_record x))) \<in> set fs"
    if "x \<in> set (jf_writers s)" "jw_tmp x \<noteq> jw_tmp w" for x
  proof -
    have "?p \<noteq> jw_tmp x" by (rule tmp_not_job [OF inv that(1) D(7) [OF w]])
    then show ?thesis using D(7-9) [OF that(1)] R(2) that(2) by metis
  qed
  let ?s = "s\<lparr>jf_files := fs, jf_writers := filter (\<lambda>x. jw_tmp x \<noteq> jw_tmp w) (jf_writers s)\<rparr>"
  have sel: "jf_files ?s = fs" "jf_writers ?s = filter (\<lambda>x. jw_tmp x \<noteq> jw_tmp w) (jf_writers s)" by simp_all
  show ?thesis
    by (rule job_invI; unfold sel set_filter mem_Collect_eq)
      (rule R(1), rule tbl_ok_filter [OF D(2)], rule files, assumption, rule recs, assumption, (rule wr; blast))
qed

lemma job_step_inv:
  assumes "job_step J dir s a s'" and "job_inv J dir m s"
  shows "job_inv J dir (job_commit a m) s'"
  using assms(1)
proof cases
  case (open_tmp r t hex)
  then show ?thesis using job_open_inv [OF assms(2)] by simp
next
  case (write_tmp w n)
  then show ?thesis using job_write_inv [OF assms(2)] by simp
next
  case (replace_tmp w files)
  then show ?thesis using job_replace_inv [OF assms(2)] by simp
next
  case (kill_writer w)
  then show ?thesis using assms(2) by (auto simp: job_inv_def tbl_ok_filter)
qed

lemma job_steps_inv: "job_steps J dir s as s' \<Longrightarrow> job_inv J dir m s \<Longrightarrow> job_inv J dir (fold job_commit as m) s'"
  by (induction arbitrary: m rule: job_steps.induct) (auto intro: job_step_inv)

text \<open>What a reader of the directory sees in such a state.\<close>

lemma job_inv_load:
  assumes "job_codec_ok J" and inv: "job_inv J dir m s" and i: "is_job_id i"
  shows "job_load J dir i (jf_files s) = Inr (m i)"
proof (cases "tbl_get fst (job_path dir i) (jf_files s)")
  case None
  then have "m i = None" using job_invD(6) [OF inv, of i] by (cases "m i") (force simp: tbl_get_None)+
  with None show ?thesis by (simp add: job_load_def)
next
  case (Some x)
  then have x: "x \<in> set (jf_files s)" "fst x = job_path dir i" using tbl_get_SomeD [OF Some] by simp_all
  then have "(job_path dir i, snd x) \<in> set (glob_json dir (jf_files s))" using glob_job_path [OF i] by (metis prod.collapse)
  then obtain j r where r: "m j = Some r" "job_path dir i = job_path dir j" using job_invD(3) [OF inv] by blast
  then have j: "j = i" using job_path_eq [OF i job_invD(4) [OF inv r(1)]] by simp
  have "x = (job_path dir i, jc_dump J r)"
    using tbl_get_in [OF job_invD(1) [OF inv] job_invD(6) [OF inv r(1)]] Some j by simp
  then show ?thesis using Some assms(1) r(1) j by (simp add: job_load_def job_codec_ok_def)
qed

lemma job_inv_list:
  assumes "job_codec_ok J" and inv: "job_inv J dir m s"
  shows "set (job_list_all J dir (jf_files s)) = ran m"
proof -
  note D = job_invD [OF inv]
  have "(\<exists>f \<in> set (glob_json dir (jf_files s)). jc_parse J (snd f) = Inr r) \<longleftrightarrow> (\<exists>i. m i = Some r)" for r
  proof
    assume "\<exists>f \<in> set (glob_json dir (jf_files s)). jc_parse J (snd f) = Inr r"
    then obtain p c where pc: "(p, c) \<in> set (glob_json dir (jf_files s))" "jc_parse J c = Inr r" by force
    obtain i q where q: "m i = Some q" "p = job_path dir i" using D(3) [OF pc(1)] by blast
    have "c = jc_dump J q" using tbl_get_in [OF D(1)] glob_sub [OF pc(1)] D(6) [OF q(1)] q(2) by (metis fst_conv option.inject prod.inject)
    then show "\<exists>i. m i = Some r" using pc(2) q(1) assms(1) by (auto simp: job_codec_ok_def)
  next
    assume "\<exists>i. m i = Some r"
    then obtain i where i: "m i = Some r" by blast
    then have "(job_path dir i, jc_dump J r) \<in> set (glob_json dir (jf_files s))" using D(6) [OF i] glob_job_path [OF D(4) [OF i]] by simp
    then show "\<exists>f \<in> set (glob_json dir (jf_files s)). jc_parse J (snd f) = Inr r" using assms(1) by (force simp: job_codec_ok_def)
  qed
  moreover have "x \<in> set (case jc_parse J c of Inl _ \<Rightarrow> [] | Inr r \<Rightarrow> [r]) \<longleftrightarrow> jc_parse J c = Inr x" for x c
    by (auto split: sum.split)
  ultimately show ?thesis by (auto simp: job_list_all_def ran_def case_prod_beta)
qed

text \<open>
  C21. The job store is atomic. Let any number of saves run interleaved on an empty job directory, one file
  operation at a time, any of them possibly killed half way: at every moment each job loads as the record
  whose rename came last (or as unknown), and the listing holds exactly these records. No reader ever sees a
  torn, empty or temporary file: the directory refines a map that only the renames change.
\<close>

theorem job_store_atomic:
  assumes "job_codec_ok J" and "tbl_ok fst files" and "glob_json dir files = []"
    and "job_steps J dir \<lparr>jf_files = files, jf_writers = []\<rparr> as s"
  shows "(\<forall>i. is_job_id i \<longrightarrow> job_load J dir i (jf_files s) = Inr (fold job_commit as Map.empty i))
    \<and> set (job_list_all J dir (jf_files s)) = ran (fold job_commit as Map.empty)"
proof -
  have "job_inv J dir Map.empty \<lparr>jf_files = files, jf_writers = []\<rparr>"
    using assms(2,3) by (simp add: job_inv_def tbl_ok_def)
  from job_steps_inv [OF assms(4) this] show ?thesis using job_inv_load [OF assms(1)] job_inv_list [OF assms(1)] by blast
qed

text \<open>Records can be numbered, so there is such a serialisation.\<close>

instance execution_context :: countable by countable_datatype

instance job_status :: countable by countable_datatype

instance run_result_summary_ext :: (countable) countable
  by (rule countable_classI [of "\<lambda>r. to_nat (rx_baseline_run_id r, rx_mitigation_run_id r, rx_total_cases r,
    rx_baseline_block_rate r, rx_mitigation_block_rate r, rx_block_rate_improvement r, rx_evidence_location r,
    run_result_summary.more r)"]) simp

instance job_record_ext :: (countable) countable
  by (rule countable_classI [of "\<lambda>r. to_nat (jr_job_id r, jr_experiment_id r, jr_execution_context r, jr_status r,
    jr_submitted_at r, jr_updated_at r, jr_result r, jr_error r, job_record.more r)"]) simp

definition demo_job_codec :: job_codec where
  "demo_job_codec = \<lparr>jc_dump = (\<lambda>r. replicate (to_nat r) (CHR ''1'')), jc_parse = (\<lambda>s. Inr (from_nat (length s)))\<rparr>"

lemma demo_job_codec_ok: "job_codec_ok demo_job_codec"
  by (simp add: job_codec_ok_def demo_job_codec_def)

definition demo_job_id :: string where
  "demo_job_id = ''JOB-0123456789abcdef0123456789abcdef''"

lemma demo_job_id_ok: "is_job_id demo_job_id"
  by code_simp

definition demo_job :: "job_status \<Rightarrow> job_record" where
  "demo_job st = \<lparr>jr_job_id = demo_job_id, jr_experiment_id = ''ZC-VPN-EXP-001'', jr_execution_context = EXPERIMENT_RUN,
     jr_status = st, jr_submitted_at = 0, jr_updated_at = 0, jr_result = None, jr_error = None\<rparr>"

lemma job_steps_snoc: "job_steps J dir s as s1 \<Longrightarrow> job_step J dir s1 a s2 \<Longrightarrow> job_steps J dir s (as @ [a]) s2"
  by (induction rule: job_steps.induct) (auto intro: no_step more_steps)

text \<open>The job is queued; the worker has opened the file of its next save and written nothing of it.\<close>

theorem job_store_atomic_witness:
  "\<exists>as s. job_steps demo_job_codec (PyPath [] [''jobs'']) \<lparr>jf_files = [], jf_writers = []\<rparr> as s \<and> jf_writers s \<noteq> []
     \<and> job_load demo_job_codec (PyPath [] [''jobs'']) demo_job_id (jf_files s) = Inr (Some (demo_job JS_QUEUED))"
proof -
  let ?J = demo_job_codec and ?d = "PyPath [] [''jobs'']" and ?q = "demo_job JS_QUEUED" and ?r = "demo_job JS_RUNNING"
  let ?t = "\<lambda>h. job_tmp_path (job_path ?d demo_job_id) h"
  have id: "jr_job_id (demo_job st) = demo_job_id" for st by (simp add: demo_job_def)
  have ok: "is_job_id (jr_job_id (demo_job st))" for st by (simp add: id demo_job_id_ok)
  let ?s = "\<lparr>jf_files = job_saved ?J ?d ''a'' ?q (write_text (?t ''a'') [] []), jf_writers = []\<rparr>"
  let ?as = "[OpenTmp ?q ''a'', WriteTmp (?t ''a'') (length (jc_dump ?J ?q)), ReplaceTmp (?t ''a'') ?q]"
  have 1: "job_steps ?J ?d \<lparr>jf_files = [], jf_writers = []\<rparr> ?as ?s"
    using job_save_steps [of ?q "?t ''a''" ?d "''a''" "[]" ?J] ok id by simp
  have "fst ` set (jf_files ?s) \<subseteq> {job_path ?d demo_job_id}"
    by (auto simp: job_saved_def Let_def set_upsert_key write_text_def id)
  then have "?t ''b'' \<notin> fst ` set (jf_files ?s)" using job_tmp_ne_path [OF demo_job_id_ok demo_job_id_ok] by blast
  with open_tmp [of ?r "?t ''b''" ?d "''b''" ?s ?J] ok id
  obtain s where 2: "job_step ?J ?d ?s (OpenTmp ?r ''b'') s" "jf_writers s \<noteq> []" by simp
  have 3: "job_steps ?J ?d \<lparr>jf_files = [], jf_writers = []\<rparr> (?as @ [OpenTmp ?r ''b'']) s" by (rule job_steps_snoc [OF 1 2(1)])
  from job_store_atomic [OF demo_job_codec_ok _ _ 3] demo_job_id_ok
  have "job_load ?J ?d demo_job_id (jf_files s) = Inr (Some ?q)" by (simp add: tbl_ok_def glob_json_def id)
  with 2(2) 3 show ?thesis by blast
qed

end
