(* ===== verification/Worker.thy ===== *)
theory Worker
  imports Job_Store Orchestration Revalidation
begin

text \<open>
  The life of a run job, from the request that queues it (\<open>api/routes/experiments.py\<close>, \<open>studio.py\<close>)
  through the worker (\<open>worker/main.py\<close>, \<open>worker/processor.py\<close>) to the routes that report on it
  (\<open>api/routes/jobs.py\<close>). Dataset files, job files, experiment files and local evidence are one file
  tree. The repositories that only record (runs, assurance, audit) are configured apart: each may be absent
  or fail in any of its calls.
\<close>

section \<open>The worker's state and configuration\<close>

record worker_state = assurance_state +
  wk_run :: run_world
  wk_stamps :: nat
  wk_queue :: "string list"
  wk_published :: nat

type_synonym ('z, 'a) worker_m = "('z worker_state_scheme, exn, 'a) eff"

record worker_env =
  wv_app :: app_env
  wv_run :: run_env
  wv_codec :: codec
  wv_jobs :: job_codec
  wv_discovery :: discovery_env
  wv_cwd :: pypath
  wv_experiments_dir :: pypath
  wv_results_root :: pypath
  wv_jobs_dir :: pypath
  wv_stamp :: "nat \<Rightarrow> nat"
  wv_message :: "string \<Rightarrow> exn + run_job_message"
  wv_dump_message :: "run_job_message \<Rightarrow> string"
  wv_broker_fails :: "nat \<Rightarrow> bool"

record recorders =
  rc_runs :: run_repository
  rc_assurance :: "(nat \<Rightarrow> bool) option"
  rc_audit :: "(nat \<Rightarrow> bool) option"

text \<open>A call of the database: it may fail before anything is written.\<close>

definition database_call :: "(nat \<Rightarrow> bool) \<Rightarrow> ('z runs_state_scheme, exn, unit) eff" where
  "database_call fails =
     bindE (getE rr_calls) (\<lambda>n.
     bindE (modifyE (\<lambda>w. w\<lparr>rr_calls := Suc n\<rparr>)) (\<lambda>_.
     if fails n then raiseE (OtherError ''OperationalError'' []) else returnE ()))"

section \<open>\<open>processor.py\<close>\<close>

definition worker_audit :: "app_env \<Rightarrow> recorders \<Rightarrow> string \<Rightarrow> string \<Rightarrow> string \<Rightarrow> string option \<Rightarrow> string option \<Rightarrow> pydict \<Rightarrow> ('z, unit) worker_m" where
  "worker_audit E R action target_type target_id user_id username metadata =
     (case rc_audit R of
        None \<Rightarrow> returnE ()
      | Some fails \<Rightarrow> best_effort (bindE (database_call fails) (\<lambda>_.
          audit_record E user_id username None action (Some target_type) (Some target_id) None metadata None None)))"

definition worker_assurance :: "app_env \<Rightarrow> recorders \<Rightarrow> experiment_definition \<Rightarrow> comparison_report \<Rightarrow> ('z, unit) worker_m" where
  "worker_assurance E R e cmp =
     (case rc_assurance R of
        None \<Rightarrow> returnE ()
      | Some fails \<Rightarrow> best_effort (bindE (database_call fails) (\<lambda>_. record_control_validation E builtin_templates e cmp)))"

text \<open>\<open>_record\<close>.\<close>

definition save_job :: "worker_env \<Rightarrow> job_record \<Rightarrow> ('z, unit) worker_m" where
  "save_job W r =
     bindE (uuid4_hex (wv_app W)) (\<lambda>hex w.
     case job_save (wv_jobs W) (wv_jobs_dir W) hex r (sd_files w) of
       Inl e \<Rightarrow> (Inl e, w)
     | Inr files \<Rightarrow> (Inr (), w\<lparr>sd_files := files\<rparr>))"

definition record_status :: "worker_env \<Rightarrow> run_job_message \<Rightarrow> datetime \<Rightarrow> job_status \<Rightarrow> run_result_summary option \<Rightarrow> string option \<Rightarrow> ('z, unit) worker_m" where
  "record_status W m submitted_at status result error =
     bindE (utc_now (wv_app W)) (\<lambda>now.
     save_job W \<lparr>jr_job_id = jm_job_id m, jr_experiment_id = jm_experiment_id m, jr_execution_context = jm_execution_context m,
       jr_status = status, jr_submitted_at = submitted_at, jr_updated_at = now, jr_result = result, jr_error = error\<rparr>)"

text \<open>\<open>_emit\<close>.\<close>

definition emit_event :: "worker_env \<Rightarrow> recorders \<Rightarrow> run_job_message \<Rightarrow> run_event_type \<Rightarrow> pydict option \<Rightarrow> ('z, unit) worker_m" where
  "emit_event W R m event_type detail =
     best_effort (record_event (wv_app W) (rc_runs R) (jm_job_id m) (jm_experiment_id m) event_type
       (Some (context_value (jm_execution_context m))) detail)"

text \<open>
  \<open>experiment_service.run_experiment\<close> with \<open>event_sink=_emit\<close>. The sink never raises and touches neither
  the files nor the run, so the events are recorded after the run here, in the order it emitted them.
\<close>

definition emitted :: "run_world \<Rightarrow> run_world \<Rightarrow> run_event_type list" where
  "emitted before after =
     List.map_filter (\<lambda>a. case a of Emitted t \<Rightarrow> Some t | _ \<Rightarrow> None) (drop (length (rw_trace before)) (rw_trace after))"

definition files_of :: "file_tree \<Rightarrow> pypath \<Rightarrow> string option" where
  "files_of files p = map_option snd (tbl_get fst p files)"

definition run_once :: "worker_env \<Rightarrow> experiment_definition \<Rightarrow> execution_context \<Rightarrow> ('z, run_outcome_summary) worker_m" where
  "run_once W e ctx w =
     (case run_experiment ((wv_run W)\<lparr>re_files := files_of (sd_files w), re_has_sink := True\<rparr>) (wv_codec W)
         (local_save_run_evidence (wv_results_root W)) (local_save_comparison (wv_codec W) (wv_results_root W))
         (wv_cwd W) (wv_stamp W (wk_stamps w)) (wv_results_root W) ''0000000'' e ctx (wk_run w, sd_files w) of
       (r, (rw, files)) \<Rightarrow> (r, w\<lparr>wk_run := rw, sd_files := files, wk_stamps := Suc (wk_stamps w)\<rparr>))"

definition emit_events :: "worker_env \<Rightarrow> recorders \<Rightarrow> run_job_message \<Rightarrow> run_event_type list \<Rightarrow> ('z, unit) worker_m" where
  "emit_events W R m ts = bindE (mapE (\<lambda>t. emit_event W R m t None) ts) (\<lambda>_. returnE ())"

definition run_with_events :: "worker_env \<Rightarrow> recorders \<Rightarrow> run_job_message \<Rightarrow> experiment_definition \<Rightarrow> ('z, run_outcome_summary) worker_m" where
  "run_with_events W R m e w =
     (case run_once W e (jm_execution_context m) w of
       (r, w1) \<Rightarrow> (r, snd (emit_events W R m (emitted (wk_run w) (wk_run w1)) w1)))"

definition denied_error :: "string list \<Rightarrow> string" where
  "denied_error reasons = (let s = str_join ''; '' reasons in if s = [] then ''denied by safety policy'' else s)"

definition run_result_of :: "run_outcome_summary \<Rightarrow> run_result_summary" where
  "run_result_of s =
     (let c = rs_comparison_report s in
      \<lparr>rx_baseline_run_id = cp_baseline_run_id c, rx_mitigation_run_id = cp_mitigation_run_id c, rx_total_cases = cp_total_cases c,
       rx_baseline_block_rate = em_block_rate (cp_baseline_metrics c), rx_mitigation_block_rate = em_block_rate (cp_mitigation_metrics c),
       rx_block_rate_improvement = cp_block_rate_improvement c, rx_evidence_location = path_str (rs_results_dir s)\<rparr>)"

text \<open>The branches after the run: it returned, the policy refused, it was not runnable, or anything else.\<close>

definition job_completed :: "worker_env \<Rightarrow> recorders \<Rightarrow> run_job_message \<Rightarrow> datetime \<Rightarrow> experiment_definition \<Rightarrow> run_outcome_summary \<Rightarrow> ('z, unit) worker_m" where
  "job_completed W R m submitted_at e s =
     (let c = rs_comparison_report s in
      bindE (record_status W m submitted_at JS_COMPLETED (Some (run_result_of s)) None) (\<lambda>_.
      bindE (emit_event W R m RE_COMPLETED (Some [(''total_cases'', PInt (cp_total_cases c))])) (\<lambda>_.
      bindE (worker_audit (wv_app W) R EVIDENCE_CREATED ''experiment'' (jm_experiment_id m) (jm_submitted_by_user_id m) (jm_submitted_by_username m)
        [(''baseline_run_id'', PStr (cp_baseline_run_id c)), (''mitigation_run_id'', PStr (cp_mitigation_run_id c)),
         (''total_cases'', PInt (cp_total_cases c))]) (\<lambda>_.
      worker_assurance (wv_app W) R e c))))"

definition job_denied :: "worker_env \<Rightarrow> recorders \<Rightarrow> run_job_message \<Rightarrow> datetime \<Rightarrow> policy_decision \<Rightarrow> ('z, unit) worker_m" where
  "job_denied W R m submitted_at d =
     bindE (record_status W m submitted_at JS_DENIED None (Some (denied_error (pd_reasons d)))) (\<lambda>_.
     bindE (emit_event W R m RE_DENIED (Some [(''reasons'', PList (map PStr (pd_reasons d)))])) (\<lambda>_.
     worker_audit (wv_app W) R RUN_DENIED ''job'' (jm_job_id m) (jm_submitted_by_user_id m) (jm_submitted_by_username m)
       [(''experiment_id'', PStr (jm_experiment_id m)), (''reasons'', PList (map PStr (pd_reasons d)))]))"

definition job_failed :: "worker_env \<Rightarrow> recorders \<Rightarrow> run_job_message \<Rightarrow> datetime \<Rightarrow> string \<Rightarrow> string \<Rightarrow> ('z, unit) worker_m" where
  "job_failed W R m submitted_at error reason =
     bindE (record_status W m submitted_at JS_FAILED None (Some error)) (\<lambda>_.
     bindE (emit_event W R m RE_FAILED (Some [(''reason'', PStr reason)])) (\<lambda>_.
     worker_audit (wv_app W) R RUN_FAILED ''job'' (jm_job_id m) (jm_submitted_by_user_id m) (jm_submitted_by_username m)
       [(''experiment_id'', PStr (jm_experiment_id m)), (''reason'', PStr reason)]))"

definition NOT_RUNNABLE :: string where
  "NOT_RUNNABLE = ''the experiment's configured dataset or processing strategy could not be resolved on this server.''"

definition job_outcome :: "worker_env \<Rightarrow> recorders \<Rightarrow> run_job_message \<Rightarrow> datetime \<Rightarrow> experiment_definition \<Rightarrow> exn + run_outcome_summary \<Rightarrow> ('z, unit) worker_m" where
  "job_outcome W R m submitted_at e r =
     (case r of
        Inr s \<Rightarrow> job_completed W R m submitted_at e s
      | Inl x \<Rightarrow> (case x of
          PolicyRefusalError d \<Rightarrow> job_denied W R m submitted_at d
        | ExperimentServiceError _ \<Rightarrow> job_failed W R m submitted_at NOT_RUNNABLE ''service_error''
        | _ \<Rightarrow> job_failed W R m submitted_at ''an internal error occurred'' ''internal_error''))"

definition job_not_found :: "worker_env \<Rightarrow> recorders \<Rightarrow> run_job_message \<Rightarrow> datetime \<Rightarrow> ('z, unit) worker_m" where
  "job_not_found W R m submitted_at =
     bindE (record_status W m submitted_at JS_FAILED None
       (Some (''experiment '' @ quoted (jm_experiment_id m) @ '' could not be found when the job started''))) (\<lambda>_.
     emit_event W R m RE_FAILED (Some [(''reason'', PStr ''experiment_not_found'')]))"

text \<open>\<open>catch m\<close> runs \<open>m\<close> and returns its outcome as a value: the \<open>try\<close> block.\<close>

definition tryE :: "('s, 'e, 'a) eff \<Rightarrow> ('s, 'e, 'e + 'a) eff" where
  "tryE m w = (case m w of (r, w') \<Rightarrow> (Inr r, w'))"

definition process_run_job :: "worker_env \<Rightarrow> recorders \<Rightarrow> run_job_message \<Rightarrow> ('z, unit) worker_m" where
  "process_run_job W R m =
     bindE (getE sd_files) (\<lambda>files.
     bindE (liftE (job_load (wv_jobs W) (wv_jobs_dir W) (jm_job_id m) files)) (\<lambda>existing.
     bindE (case existing of Some r \<Rightarrow> returnE (jr_submitted_at r) | None \<Rightarrow> utc_now (wv_app W)) (\<lambda>submitted_at.
     bindE (record_status W m submitted_at JS_RUNNING None None) (\<lambda>_.
     bindE (getE (\<lambda>w. find_experiment (wv_discovery W) (wv_experiments_dir W) (jm_experiment_id m) (sd_files w))) (\<lambda>found.
     case found of
       None \<Rightarrow> job_not_found W R m submitted_at
     | Some e \<Rightarrow> bindE (tryE (run_with_events W R m e)) (job_outcome W R m submitted_at e))))))"

text \<open>\<open>handle_message_body\<close> of \<open>main.py\<close>: it never raises, and the message is then acknowledged.\<close>

definition handle_message_body :: "worker_env \<Rightarrow> recorders \<Rightarrow> string \<Rightarrow> ('z, unit) worker_m" where
  "handle_message_body W R body =
     (case wv_message W body of
        Inl _ \<Rightarrow> returnE ()
      | Inr m \<Rightarrow> best_effort (process_run_job W R m))"

section \<open>Submitting a run\<close>

record job_submitted_response =
  js_job_id :: string
  js_experiment_id :: string
  js_status :: string

text \<open>\<open>publish_run_job\<close>: the broker may be unreachable.\<close>

definition publish_run_job :: "worker_env \<Rightarrow> run_job_message \<Rightarrow> ('z, unit) worker_m" where
  "publish_run_job W m =
     bindE (getE wk_published) (\<lambda>n.
     bindE (modifyE (\<lambda>w. w\<lparr>wk_published := Suc n\<rparr>)) (\<lambda>_.
     if wv_broker_fails W n then raiseE (OtherError ''AMQPConnectionError'' [])
     else modifyE (\<lambda>w. w\<lparr>wk_queue := wk_queue w @ [wv_dump_message W m]\<rparr>)))"

definition queue_job :: "worker_env \<Rightarrow> string \<Rightarrow> execution_context \<Rightarrow> user \<Rightarrow> ('z, string) worker_m" where
  "queue_job W experiment_id ctx u =
     bindE (uuid4_hex (wv_app W)) (\<lambda>h.
     let job_id = ''JOB-'' @ h in
     bindE (utc_now (wv_app W)) (\<lambda>now.
     bindE (save_job W \<lparr>jr_job_id = job_id, jr_experiment_id = experiment_id, jr_execution_context = ctx, jr_status = JS_QUEUED,
       jr_submitted_at = now, jr_updated_at = now, jr_result = None, jr_error = None\<rparr>) (\<lambda>_.
     bindE (publish_run_job W \<lparr>jm_job_id = job_id, jm_experiment_id = experiment_id, jm_execution_context = ctx,
       jm_submitted_by_user_id = Some (u_user_id u), jm_submitted_by_username = Some (u_username u)\<rparr>) (\<lambda>_.
     returnE job_id))))"

definition submit_run :: "worker_env \<Rightarrow> recorders \<Rightarrow> string option \<Rightarrow> string option \<Rightarrow> string \<Rightarrow> execution_context
    \<Rightarrow> ('z, job_submitted_response) worker_m" where
  "submit_run W R token request_id experiment_id ctx =
     bindE (getE (\<lambda>w. find_experiment (wv_discovery W) (wv_experiments_dir W) experiment_id (sd_files w))) (\<lambda>found.
     case found of
       None \<Rightarrow> raiseE (http_error 404 ''experiment_not_found'')
     | Some e \<Rightarrow>
         bindE (require_role (wv_app W) [RESEARCHER, REVIEWER, ADMIN] token) (\<lambda>u.
         bindE (queue_job W (ed_experiment_id e) ctx u) (\<lambda>job_id.
         bindE (best_effort (record_event (wv_app W) (rc_runs R) job_id (ed_experiment_id e) RE_QUEUED (Some (context_value ctx)) None)) (\<lambda>_.
         bindE (audit_record (wv_app W) (Some (u_user_id u)) (Some (u_username u)) (Some (role_value (u_role u))) RUN_SUBMITTED
           (Some ''job'') (Some job_id) request_id
           [(''experiment_id'', PStr (ed_experiment_id e)), (''execution_context'', PStr (context_value ctx))] None None) (\<lambda>_.
         returnE \<lparr>js_job_id = job_id, js_experiment_id = ed_experiment_id e, js_status = job_status_value JS_QUEUED\<rparr>)))))"

definition submit_experiment_version_run :: "worker_env \<Rightarrow> string option \<Rightarrow> string option \<Rightarrow> string \<Rightarrow> ('z, job_submitted_response) worker_m" where
  "submit_experiment_version_run W token request_id version_id =
     bindE (require_role (wv_app W) [RESEARCHER, REVIEWER, ADMIN] token) (\<lambda>u.
     bindE (get_version version_id) (\<lambda>version.
     case version of
       None \<Rightarrow> raiseE (http_error 404 ''version_not_found'')
     | Some v \<Rightarrow>
         if ev_status v \<noteq> EV_APPROVED then raiseE (http_error 409 ''version_not_approved'')
         else
           bindE (materialise_to_experiments_dir (wv_codec W) (wv_experiments_dir W) v) (\<lambda>_.
           bindE (queue_job W (ev_experiment_id v) EXPERIMENT_RUN u) (\<lambda>job_id.
           bindE (audit_record (wv_app W) (Some (u_user_id u)) (Some (u_username u)) (Some (role_value (u_role u))) RUN_SUBMITTED
             (Some ''job'') (Some job_id) request_id
             [(''experiment_id'', PStr (ev_experiment_id v)), (''version_id'', PStr version_id)] None None) (\<lambda>_.
           returnE \<lparr>js_job_id = job_id, js_experiment_id = ev_experiment_id v, js_status = job_status_value JS_QUEUED\<rparr>)))))"

section \<open>Reporting on jobs\<close>

definition get_job_handler :: "worker_env \<Rightarrow> string option \<Rightarrow> string \<Rightarrow> ('z, job_record) worker_m" where
  "get_job_handler W token job_id =
     bindE (get_current_user (wv_app W) token) (\<lambda>_.
     if \<not> is_job_id job_id then raiseE (http_error 422 ''string_pattern_mismatch'')
     else
       bindE (getE sd_files) (\<lambda>files.
       bindE (liftE (job_load (wv_jobs W) (wv_jobs_dir W) job_id files)) (\<lambda>r.
       case r of None \<Rightarrow> raiseE (http_error 404 ''job_not_found'') | Some j \<Rightarrow> returnE j)))"

definition list_jobs_handler :: "worker_env \<Rightarrow> string option \<Rightarrow> string option \<Rightarrow> int \<Rightarrow> ('z, job_record list) worker_m" where
  "list_jobs_handler W token status limit =
     bindE (get_current_user (wv_app W) token) (\<lambda>_.
     bindE (getE (\<lambda>w. job_list_all (wv_jobs W) (wv_jobs_dir W) (sd_files w))) (\<lambda>records.
     returnE (take (nat (max 1 (min limit 200)))
       (case status of None \<Rightarrow> records | Some s \<Rightarrow> filter (\<lambda>r. job_status_value (jr_status r) = s) records))))"

end
