(* ===== verification/Experiment_Routes.thy ===== *)
theory Experiment_Routes
  imports Worker
begin

text \<open>
  The routes that report on experiments: the list, the details and the validation of an experiment
  (\<open>api/routes/experiments.py\<close>), its results, its evidence and the bundle of it
  (\<open>api/routes/evidence.py\<close>), its verdict and the responses of Experiment Studio
  (\<open>api/routes/studio.py\<close>), and the responses about jobs (\<open>api/routes/jobs.py\<close>). The experiment is
  looked up before the session is checked, as the routes declare their dependencies. \<open>R\<close> reads the evidence
  repository that is configured; the bundle is always read from the local directory tree.
\<close>

section \<open>Values of the enumerations\<close>

fun safety_level_value :: "safety_level \<Rightarrow> string" where
  "safety_level_value SYNTHETIC_ONLY = ''SYNTHETIC_ONLY''"

fun root_cause_value :: "root_cause_category \<Rightarrow> string" where
  "root_cause_value MEMORY_SAFETY_FAILURE = ''memory_safety_failure''"
| "root_cause_value PARSER_MESSAGE_HANDLING_FAILURE = ''parser_message_handling_failure''"
| "root_cause_value INPUT_VALIDATION_FAILURE = ''input_validation_failure''"
| "root_cause_value AUTHENTICATION_LOGIC_ERROR = ''authentication_logic_error''"
| "root_cause_value AUTHENTICATION_LOGIC_FLAW = ''authentication_logic_flaw''"
| "root_cause_value AUTHORIZATION_ACCESS_CONTROL_FAILURE = ''authorization_access_control_failure''"
| "root_cause_value INJECTION_FLAW = ''injection_flaw''"
| "root_cause_value UNSAFE_COMMAND_OR_CODE_EXECUTION = ''unsafe_command_or_code_execution''"

fun run_mode_value :: "run_mode \<Rightarrow> string" where
  "run_mode_value BASELINE = ''baseline''"
| "run_mode_value MITIGATED = ''mitigated''"

fun metric_value :: "metric_name \<Rightarrow> string" where
  "metric_value BLOCK_RATE = ''block_rate''"
| "metric_value VALID_ACCEPTANCE_RATE = ''valid_acceptance_rate''"
| "metric_value FALSE_POSITIVE_RATE = ''false_positive_rate''"
| "metric_value FALSE_NEGATIVE_RATE = ''false_negative_rate''"
| "metric_value PARSER_REACH_RATE = ''parser_reach_rate''"
| "metric_value MEAN_LATENCY_MS = ''mean_latency_ms''"
| "metric_value LOG_COMPLETENESS_RATE = ''log_completeness_rate''"

section \<open>Experiments\<close>

record experiment_summary =
  es_experiment_id :: string
  es_title :: string
  es_domain :: string
  es_safety_level :: string
  es_approval_status :: string

definition list_experiments_handler :: "worker_env \<Rightarrow> string option \<Rightarrow> ('z, experiment_summary list) worker_m" where
  "list_experiments_handler W token =
     bindE (get_current_user (wv_app W) token) (\<lambda>_.
     bindE (getE (\<lambda>w. discover_experiments (wv_discovery W) (wv_experiments_dir W) (sd_files w))) (\<lambda>discovery.
     returnE (map (\<lambda>e. \<lparr>es_experiment_id = ed_experiment_id e, es_title = ed_title e, es_domain = domain_value (ed_domain e),
       es_safety_level = safety_level_value (ed_safety_level e), es_approval_status = approval_status_value (ed_approval_status e)\<rparr>)
       (xd_experiments discovery))))"

text \<open>The dependency \<open>get_experiment\<close>.\<close>

definition experiment_or_404 :: "worker_env \<Rightarrow> string \<Rightarrow> ('z, experiment_definition) worker_m" where
  "experiment_or_404 W experiment_id =
     bindE (getE (\<lambda>w. find_experiment (wv_discovery W) (wv_experiments_dir W) experiment_id (sd_files w))) (\<lambda>found.
     case found of None \<Rightarrow> raiseE (http_error 404 ''experiment_not_found'') | Some e \<Rightarrow> returnE e)"

record cve_summary =
  cvs_cve_id :: string
  cvs_cvss_score :: "float64 option"
  cvs_cisa_kev :: bool

record experiment_detail =
  exd_experiment_id :: string
  exd_title :: string
  exd_domain :: string
  exd_description :: string
  exd_related_cves :: "cve_summary list"
  exd_failure_pattern :: string
  exd_root_cause :: string
  exd_vendor_mitigation :: string
  exd_mitigation_gap :: string
  exd_research_question :: string
  exd_hypothesis :: string
  exd_safety_level :: string
  exd_approval_status :: string
  exd_baseline_strategy :: string
  exd_mitigation_strategy :: string

definition detail_of_experiment :: "experiment_definition \<Rightarrow> experiment_detail" where
  "detail_of_experiment e =
     \<lparr>exd_experiment_id = ed_experiment_id e, exd_title = ed_title e, exd_domain = domain_value (ed_domain e),
      exd_description = ed_description e,
      exd_related_cves = map (\<lambda>c. \<lparr>cvs_cve_id = cve_cve_id c, cvs_cvss_score = cve_cvss_score c, cvs_cisa_kev = cve_cisa_kev c\<rparr>) (ed_related_cves e),
      exd_failure_pattern = ed_failure_pattern e, exd_root_cause = root_cause_value (ed_root_cause e),
      exd_vendor_mitigation = ed_vendor_mitigation e, exd_mitigation_gap = ed_mitigation_gap e,
      exd_research_question = ed_research_question e, exd_hypothesis = ed_hypothesis e,
      exd_safety_level = safety_level_value (ed_safety_level e), exd_approval_status = approval_status_value (ed_approval_status e),
      exd_baseline_strategy = ed_baseline_strategy e, exd_mitigation_strategy = ed_mitigation_strategy e\<rparr>"

definition get_experiment_detail :: "worker_env \<Rightarrow> string option \<Rightarrow> string \<Rightarrow> ('z, experiment_detail) worker_m" where
  "get_experiment_detail W token experiment_id =
     bindE (experiment_or_404 W experiment_id) (\<lambda>e.
     bindE (get_current_user (wv_app W) token) (\<lambda>_. returnE (detail_of_experiment e)))"

record validation_response =
  vdr_experiment_id :: string
  vdr_execution_context :: string
  vdr_dataset_available :: bool
  vdr_safety_passed :: bool
  vdr_safety_reasons :: "string list"
  vdr_overall_valid :: bool

definition validate_experiment_handler :: "worker_env \<Rightarrow> string option \<Rightarrow> string \<Rightarrow> execution_context \<Rightarrow> ('z, validation_response) worker_m" where
  "validate_experiment_handler W token experiment_id ctx =
     bindE (experiment_or_404 W experiment_id) (\<lambda>e.
     bindE (get_current_user (wv_app W) token) (\<lambda>_.
     bindE (getE (\<lambda>w. files_of (sd_files w) (path_under (wv_cwd W) (ed_dataset_path e)) \<noteq> None)) (\<lambda>dataset_available.
     bindE (utc_now (wv_app W)) (\<lambda>now.
     bindE (liftE (check_safety e ctx now)) (\<lambda>(d, _).
     returnE \<lparr>vdr_experiment_id = ed_experiment_id e, vdr_execution_context = context_value ctx, vdr_dataset_available = dataset_available,
       vdr_safety_passed = pd_allowed d, vdr_safety_reasons = pd_reasons d, vdr_overall_valid = (dataset_available \<and> pd_allowed d)\<rparr>)))))"

section \<open>Results and evidence\<close>

type_synonym file_reader = "file_tree evidence_reader"

text \<open>\<open>_load_view\<close> and the lookup of the verdict route.\<close>

definition latest_view :: "worker_env \<Rightarrow> file_reader \<Rightarrow> string \<Rightarrow> string \<Rightarrow> ('z, evidence_view) worker_m" where
  "latest_view W R missing experiment_id =
     bindE (getE (\<lambda>w. load_latest_evidence ((wv_run W)\<lparr>re_files := files_of (sd_files w)\<rparr>) R (wv_cwd W) (wv_results_root W) experiment_id
       (wk_run w) (sd_files w))) (\<lambda>r.
     bindE (liftE r) (\<lambda>view.
     case view of None \<Rightarrow> raiseE (http_error 404 missing) | Some v \<Rightarrow> returnE v))"

record metrics_summary =
  mes_processing_success_rate :: float64
  mes_block_rate :: float64
  mes_valid_acceptance_rate :: float64
  mes_false_positive_rate :: float64
  mes_false_negative_rate :: float64
  mes_parser_reach_rate :: float64
  mes_mean_latency_ms :: float64
  mes_log_completeness_rate :: float64

definition summary_of_metrics :: "experiment_metrics \<Rightarrow> metrics_summary" where
  "summary_of_metrics m =
     \<lparr>mes_processing_success_rate = em_processing_success_rate m, mes_block_rate = em_block_rate m,
      mes_valid_acceptance_rate = em_valid_acceptance_rate m, mes_false_positive_rate = em_false_positive_rate m,
      mes_false_negative_rate = em_false_negative_rate m, mes_parser_reach_rate = em_parser_reach_rate m,
      mes_mean_latency_ms = em_mean_latency_ms m, mes_log_completeness_rate = em_log_completeness_rate m\<rparr>"

record results_response =
  rsr_experiment_id :: string
  rsr_baseline_run_id :: string
  rsr_mitigation_run_id :: string
  rsr_total_cases :: int
  rsr_baseline_metrics :: metrics_summary
  rsr_mitigation_metrics :: metrics_summary
  rsr_block_rate_improvement :: float64
  rsr_latency_overhead_ms :: float64
  rsr_limitations :: "string list"

definition results_of_comparison :: "comparison_report \<Rightarrow> results_response" where
  "results_of_comparison c =
     \<lparr>rsr_experiment_id = cp_experiment_id c, rsr_baseline_run_id = cp_baseline_run_id c, rsr_mitigation_run_id = cp_mitigation_run_id c,
      rsr_total_cases = cp_total_cases c, rsr_baseline_metrics = summary_of_metrics (cp_baseline_metrics c),
      rsr_mitigation_metrics = summary_of_metrics (cp_mitigation_metrics c),
      rsr_block_rate_improvement = cp_block_rate_improvement c, rsr_latency_overhead_ms = cp_latency_overhead_ms c,
      rsr_limitations = cp_limitations c\<rparr>"

definition get_results :: "worker_env \<Rightarrow> file_reader \<Rightarrow> string option \<Rightarrow> string \<Rightarrow> ('z, results_response) worker_m" where
  "get_results W R token experiment_id =
     bindE (experiment_or_404 W experiment_id) (\<lambda>e.
     bindE (get_current_user (wv_app W) token) (\<lambda>_.
     bindE (latest_view W R ''evidence_not_found'' (ed_experiment_id e)) (\<lambda>view.
     returnE (results_of_comparison (ew_comparison view)))))"

record run_evidence_summary =
  res_run_id :: string
  res_mode :: string
  res_strategy_id :: string
  res_started_at :: string
  res_completed_at :: string
  res_dataset_id :: string
  res_dataset_sha256 :: string
  res_git_commit :: string
  res_manifest_sha256 :: string
  res_integrity_verified :: bool

definition manifest_summary :: "codec \<Rightarrow> evidence_manifest \<Rightarrow> run_evidence_summary" where
  "manifest_summary C m =
     \<lparr>res_run_id = mf_run_id m, res_mode = run_mode_value (mf_mode m), res_strategy_id = mf_strategy_id m,
      res_started_at = datetime_iso (mf_started_at m), res_completed_at = datetime_iso (mf_completed_at m),
      res_dataset_id = mf_test_set_id m, res_dataset_sha256 = mf_test_set_sha256 m, res_git_commit = mf_git_commit m,
      res_manifest_sha256 = mf_manifest_sha256 m, res_integrity_verified = verify_manifest_integrity C m\<rparr>"

record evidence_response =
  evr_experiment_id :: string
  evr_evidence_location :: string
  evr_baseline :: run_evidence_summary
  evr_mitigation :: run_evidence_summary

definition get_evidence :: "worker_env \<Rightarrow> file_reader \<Rightarrow> string option \<Rightarrow> string \<Rightarrow> ('z, evidence_response) worker_m" where
  "get_evidence W R token experiment_id =
     bindE (experiment_or_404 W experiment_id) (\<lambda>e.
     bindE (get_current_user (wv_app W) token) (\<lambda>_.
     bindE (latest_view W R ''evidence_not_found'' (ed_experiment_id e)) (\<lambda>view.
     returnE \<lparr>evr_experiment_id = ew_experiment_id view, evr_evidence_location = path_str (ew_results_dir view),
       evr_baseline = manifest_summary (wv_codec W) (ew_baseline_manifest view),
       evr_mitigation = manifest_summary (wv_codec W) (ew_mitigation_manifest view)\<rparr>)))"

definition EVIDENCE_VERIFIED :: string where "EVIDENCE_VERIFIED = ''evidence.verified''"

text \<open>\<open>sorted(run_dir.iterdir())\<close>, the files only; a directory without files adds nothing to the archive.\<close>

definition dir_files :: "pypath \<Rightarrow> file_tree \<Rightarrow> (pypath \<times> string) list" where
  "dir_files dir fs = sorted_by (\<lambda>(p, _). path_parts p)
     (filter (\<lambda>(p, _). path_root p = path_root dir \<and> path_parts p \<noteq> [] \<and> butlast (path_parts p) = path_parts dir) fs)"

text \<open>The entries of the archive: their names and contents.\<close>

definition bundle_entries :: "pypath \<Rightarrow> evidence_view \<Rightarrow> file_tree \<Rightarrow> (string \<times> string) list" where
  "bundle_entries experiment_dir view fs =
     (case files_of fs (path_join experiment_dir ''comparison.json'') of None \<Rightarrow> [] | Some content \<Rightarrow> [(''comparison.json'', content)])
     @ concat (map (\<lambda>m. map (\<lambda>(p, content). (mf_run_id m @ ''/'' @ last (path_parts p), content))
         (dir_files (path_join experiment_dir (mf_run_id m)) fs))
       [ew_baseline_manifest view, ew_mitigation_manifest view])"

definition download_evidence_bundle :: "worker_env \<Rightarrow> file_reader \<Rightarrow> string option \<Rightarrow> string \<Rightarrow> string option
    \<Rightarrow> ('z, string \<times> (string \<times> string) list) worker_m" where
  "download_evidence_bundle W R token experiment_id request_id =
     bindE (experiment_or_404 W experiment_id) (\<lambda>e.
     bindE (get_current_user (wv_app W) token) (\<lambda>u.
     bindE (latest_view W R ''evidence_not_found'' (ed_experiment_id e)) (\<lambda>view.
     bindE (audit_record (wv_app W) (Some (u_user_id u)) (Some (u_username u)) (Some (role_value (u_role u))) EVIDENCE_VERIFIED
       (Some ''experiment'') (Some (ed_experiment_id e)) request_id
       [(''baseline_run_id'', PStr (mf_run_id (ew_baseline_manifest view))),
        (''mitigation_run_id'', PStr (mf_run_id (ew_mitigation_manifest view)))] None None) (\<lambda>_.
     bindE (getE (\<lambda>w. bundle_entries (path_join (wv_results_root W) (ed_experiment_id e)) view (sd_files w))) (\<lambda>entries.
     returnE (ed_experiment_id e @ ''-evidence.zip'', entries))))))"

section \<open>The verdict\<close>

record verdict_response =
  ver_experiment_id :: string
  ver_label :: string
  ver_reasons :: "string list"
  ver_thresholds_used :: "(string \<times> float64) list"
  ver_failed_criteria :: "string list"
  ver_limitations :: "string list"
  ver_generated_at :: string

definition get_experiment_verdict :: "worker_env \<Rightarrow> file_reader \<Rightarrow> string option \<Rightarrow> string \<Rightarrow> ('z, verdict_response) worker_m" where
  "get_experiment_verdict W R token experiment_id =
     bindE (experiment_or_404 W experiment_id) (\<lambda>e.
     bindE (get_current_user (wv_app W) token) (\<lambda>_.
     bindE (latest_view W R ''no_evidence'' (ed_experiment_id e)) (\<lambda>view.
     bindE (utc_now (wv_app W)) (\<lambda>now.
     let v = compute_verdict (ew_comparison view) None DEFAULT_THRESHOLDS now in
     returnE \<lparr>ver_experiment_id = ed_experiment_id e, ver_label = verdict_value (vr_label v), ver_reasons = vr_reasons v,
       ver_thresholds_used = vr_thresholds_used v, ver_failed_criteria = vr_failed_criteria v, ver_limitations = vr_limitations v,
       ver_generated_at = datetime_iso (vr_generated_at v)\<rparr>))))"

section \<open>Jobs\<close>

record job_status_response =
  jsr_job_id :: string
  jsr_experiment_id :: string
  jsr_execution_context :: string
  jsr_status :: string
  jsr_submitted_at :: string
  jsr_updated_at :: string
  jsr_result :: "run_result_summary option"
  jsr_error :: "string option"

definition job_response :: "job_record \<Rightarrow> job_status_response" where
  "job_response r =
     \<lparr>jsr_job_id = jr_job_id r, jsr_experiment_id = jr_experiment_id r, jsr_execution_context = context_value (jr_execution_context r),
      jsr_status = job_status_value (jr_status r), jsr_submitted_at = datetime_iso (jr_submitted_at r),
      jsr_updated_at = datetime_iso (jr_updated_at r), jsr_result = jr_result r, jsr_error = jr_error r\<rparr>"

definition get_job_response :: "worker_env \<Rightarrow> string option \<Rightarrow> string \<Rightarrow> ('z, job_status_response) worker_m" where
  "get_job_response W token job_id = bindE (get_job_handler W token job_id) (\<lambda>r. returnE (job_response r))"

definition list_jobs_response :: "worker_env \<Rightarrow> string option \<Rightarrow> string option \<Rightarrow> int \<Rightarrow> ('z, job_status_response list) worker_m" where
  "list_jobs_response W token status limit =
     bindE (list_jobs_handler W token status limit) (\<lambda>rs. returnE (map job_response rs))"

section \<open>Responses of Experiment Studio\<close>

record domain_pack_response =
  dpr_pack_id :: string
  dpr_name :: string
  dpr_version :: string
  dpr_domain :: string
  dpr_supported_failure_patterns :: "string list"
  dpr_template_ids :: "string list"
  dpr_allowed_strategy_ids :: "string list"
  dpr_dataset_generator_id :: string
  dpr_domain_metrics :: "string list"
  dpr_compatibility :: "(string \<times> string) list"

definition response_of_pack :: "domain_pack \<Rightarrow> domain_pack_response" where
  "response_of_pack p =
     \<lparr>dpr_pack_id = dp_pack_id p, dpr_name = dp_name p, dpr_version = dp_version p, dpr_domain = domain_value (dp_domain p),
      dpr_supported_failure_patterns = dp_supported_failure_patterns p, dpr_template_ids = dp_template_ids p,
      dpr_allowed_strategy_ids = sort (dp_allowed_strategy_ids p), dpr_dataset_generator_id = dp_dataset_generator_id p,
      dpr_domain_metrics = map metric_value (dp_domain_metrics p), dpr_compatibility = dp_compatibility p\<rparr>"

definition list_domain_packs :: "app_env \<Rightarrow> string option \<Rightarrow> ('z, domain_pack_response list) auth_m" where
  "list_domain_packs E token =
     bindE (get_current_user E token) (\<lambda>_. returnE (map response_of_pack known_domain_packs))"

record template_response =
  tpr_template_id :: string
  tpr_version :: string
  tpr_domain_pack_id :: string
  tpr_name :: string
  tpr_supported_failure_patterns :: "string list"
  tpr_required_input_fields :: "string list"
  tpr_allowed_baseline_strategies :: "string list"
  tpr_allowed_mitigation_strategies :: "string list"
  tpr_configurable_parameters :: pydict
  tpr_metrics_to_collect :: "string list"
  tpr_safety_level :: string

definition response_of_template :: "validation_template \<Rightarrow> template_response" where
  "response_of_template t =
     \<lparr>tpr_template_id = vt_template_id t, tpr_version = vt_version t, tpr_domain_pack_id = vt_domain_pack_id t, tpr_name = vt_name t,
      tpr_supported_failure_patterns = vt_supported_failure_patterns t, tpr_required_input_fields = vt_required_input_fields t,
      tpr_allowed_baseline_strategies = vt_allowed_baseline_strategies t,
      tpr_allowed_mitigation_strategies = vt_allowed_mitigation_strategies t,
      tpr_configurable_parameters = vt_configurable_parameters t, tpr_metrics_to_collect = map metric_value (vt_metrics_to_collect t),
      tpr_safety_level = safety_level_value (vt_safety_level t)\<rparr>"

record version_response =
  evs_version_id :: string
  evs_experiment_id :: string
  evs_version_number :: int
  evs_status :: string
  evs_domain_pack_id :: string
  evs_template_id :: string
  evs_template_version :: string
  evs_created_by :: string
  evs_created_at :: string
  evs_updated_at :: string

definition response_of_experiment_version :: "experiment_version \<Rightarrow> version_response" where
  "response_of_experiment_version v =
     \<lparr>evs_version_id = ev_version_id v, evs_experiment_id = ev_experiment_id v, evs_version_number = ev_version_number v,
      evs_status = version_status_value (ev_status v), evs_domain_pack_id = ev_domain_pack_id v, evs_template_id = ev_template_id v,
      evs_template_version = ev_template_version v, evs_created_by = ev_created_by v, evs_created_at = datetime_iso (ev_created_at v),
      evs_updated_at = datetime_iso (ev_updated_at v)\<rparr>"

record decision_response =
  adr_version_id :: string
  adr_from_status :: string
  adr_to_status :: string
  adr_actor :: string
  adr_reason :: "string option"
  adr_decided_at :: string

definition response_of_decision :: "approval_decision \<Rightarrow> decision_response" where
  "response_of_decision d =
     \<lparr>adr_version_id = ad_version_id d, adr_from_status = version_status_value (ad_from_status d),
      adr_to_status = version_status_value (ad_to_status d), adr_actor = ad_actor d, adr_reason = ad_reason d,
      adr_decided_at = datetime_iso (ad_decided_at d)\<rparr>"

end
