(* ===== verification/Job_Lifecycle.thy ===== *)
theory Job_Lifecycle
  imports Worker
begin

text \<open>
  What a run job goes through. First what each step leaves alone; then one message: its job reaches a final
  status, and what is recorded about it on the way has no influence; then the queue: no job is lost.
\<close>

section \<open>Recording leaves the files and the run alone\<close>

definition same_files :: "'z worker_state_scheme \<Rightarrow> 'z worker_state_scheme \<Rightarrow> bool" where
  "same_files w w' \<longleftrightarrow> sd_files w' = sd_files w \<and> wk_run w' = wk_run w \<and> wk_queue w' = wk_queue w \<and> wk_stamps w' = wk_stamps w"

interpretation files_kept: effect_frame same_files
  by unfold_locales (auto simp: same_files_def)

lemma files_kept_env: "abides same_files (utc_now E)" "abides same_files (uuid4_hex E)" "abides same_files (audit_record E a b c d e f g h i j)"
  by (simp_all add: abides_def app_m_defs audit_record_eq Let_def audit_append_def same_files_def)

lemma files_kept_tables:
  "same_files w (w\<lparr>rr_calls := n\<rparr>)" "same_files w (w\<lparr>rr_runs := rs\<rparr>)" "same_files w (append_run_event ev w)"
  "same_files w (w\<lparr>as_controls := cs\<rparr>)" "same_files w (w\<lparr>as_versions := vs\<rparr>)" "same_files w (w\<lparr>as_validations := ls\<rparr>)"
  "same_files w (w\<lparr>as_candidates := rl\<rparr>)" "same_files w (w\<lparr>au_sessions := ss\<rparr>)" "same_files w (w\<lparr>wk_published := k\<rparr>)"
  by (simp_all add: same_files_def append_run_event_def)

lemma files_kept_best_effort: "abides same_files m \<Longrightarrow> abides same_files (best_effort m)"
  by (simp add: abides_def best_effort_def)

lemma files_kept_mapE: "(\<And>x. abides same_files (f x)) \<Longrightarrow> abides same_files (mapE f xs)"
  by (induction xs) (auto intro!: files_kept.resp_rules)

lemmas files_kept_rules = files_kept.resp_rules files_kept_env files_kept_tables files_kept_best_effort files_kept_mapE

lemma files_kept_event: "abides same_files (record_event E repo i e t c d)"
  unfolding record_event_def null_record_event_def postgres_record_event_def Let_def
  by (cases repo) (simp_all, (intro files_kept_rules)+)

lemma files_kept_emit: "abides same_files (emit_event W R m t d)"
  unfolding emit_event_def by (intro files_kept_rules files_kept_event)

lemma files_kept_audit: "abides same_files (worker_audit E R a t i u n d)"
  unfolding worker_audit_def database_call_def by (intro files_kept_rules)

lemma files_kept_assurance: "abides same_files (worker_assurance E R e c)"
  unfolding worker_assurance_def database_call_def record_control_validation_def bind_experiment_to_control_def get_or_create_control_def
    get_or_create_control_version_def record_validation_and_check_def record_validation_def check_regression_def list_validations_def
    create_candidate_if_new_def find_pending_candidate_def create_candidate_def Let_def
  by (intro files_kept_rules)

lemma files_kept_require_role: "abides same_files (require_role E rs tok)"
  unfolding require_role_def get_current_user_def get_user_for_session_def get_session_with_user_def delete_session_def touch_session_def
  by (intro files_kept_rules)

lemma best_effort_Inr: "fst (best_effort m w) = Inr ()"
  by (simp add: best_effort_def)

section \<open>How a job ends\<close>

text \<open>The status, result and error reported for the outcome of a run.\<close>

definition reported :: "exn + run_outcome_summary \<Rightarrow> job_status \<times> run_result_summary option \<times> string option" where
  "reported r =
     (case r of
        Inr s \<Rightarrow> (JS_COMPLETED, Some (run_result_of s), None)
      | Inl x \<Rightarrow> (case x of
          PolicyRefusalError d \<Rightarrow> (JS_DENIED, None, Some (denied_error (pd_reasons d)))
        | ExperimentServiceError _ \<Rightarrow> (JS_FAILED, None, Some NOT_RUNNABLE)
        | _ \<Rightarrow> (JS_FAILED, None, Some ''an internal error occurred'')))"

definition job_record_at :: "worker_env \<Rightarrow> run_job_message \<Rightarrow> datetime \<Rightarrow> job_status \<times> run_result_summary option \<times> string option \<Rightarrow> datetime \<Rightarrow> job_record" where
  "job_record_at W m submitted_at s now =
     \<lparr>jr_job_id = jm_job_id m, jr_experiment_id = jm_experiment_id m, jr_execution_context = jm_execution_context m,
      jr_status = fst s, jr_submitted_at = submitted_at, jr_updated_at = now, jr_result = fst (snd s), jr_error = snd (snd s)\<rparr>"

definition with_status :: "worker_env \<Rightarrow> run_job_message \<Rightarrow> datetime \<Rightarrow> job_status \<times> run_result_summary option \<times> string option
    \<Rightarrow> 'z worker_state_scheme \<Rightarrow> 'z worker_state_scheme" where
  "with_status W m submitted_at s w =
     w\<lparr>ap_clock_reads := Suc (ap_clock_reads w), ap_uuid_reads := Suc (ap_uuid_reads w),
       sd_files := job_saved (wv_jobs W) (wv_jobs_dir W) (ae_uuid (wv_app W) (ap_uuid_reads w))
         (job_record_at W m submitted_at s (ae_clock (wv_app W) (ap_clock_reads w))) (sd_files w)\<rparr>"

lemma save_job_eq:
  "save_job W r w = (Inr (), w\<lparr>ap_uuid_reads := Suc (ap_uuid_reads w),
     sd_files := job_saved (wv_jobs W) (wv_jobs_dir W) (ae_uuid (wv_app W) (ap_uuid_reads w)) r (sd_files w)\<rparr>)"
  by (simp add: save_job_def app_m_defs job_save_eq)

lemma record_status_eq: "record_status W m submitted_at status result error w = (Inr (), with_status W m submitted_at (status, result, error) w)"
  by (simp add: record_status_def save_job_eq app_m_defs with_status_def job_record_at_def)

text \<open>A computation that only records: it leaves the files alone and never fails.\<close>

definition recording :: "('z, unit) worker_m \<Rightarrow> bool" where
  "recording m \<longleftrightarrow> abides same_files m \<and> (\<forall>w. fst (m w) = Inr ())"

lemma recording_bind:
  assumes "recording m" and "recording n"
  shows "recording (bindE m (\<lambda>_. n))"
proof -
  have "fst (bindE m (\<lambda>_. n) w) = Inr ()" for w
  proof -
    obtain w1 where "m w = (Inr (), w1)" using assms(1) unfolding recording_def by (metis prod.collapse)
    then show ?thesis using assms(2) by (simp add: recording_def bindE_def)
  qed
  then show ?thesis using assms by (auto simp: recording_def intro: files_kept.resp_bind)
qed

lemma recording_steps:
  "recording (emit_event W R m t d)" "recording (worker_audit E R a tt i u n md)" "recording (worker_assurance E R e c)"
proof -
  have "fst (emit_event W R m t d w) = Inr ()" for w :: "'a worker_state_scheme"
    by (simp add: emit_event_def best_effort_Inr)
  then show "recording (emit_event W R m t d :: ('a, unit) worker_m)" by (simp add: recording_def files_kept_emit)
  have "fst (worker_audit E R a tt i u n md w) = Inr ()" for w :: "'b worker_state_scheme"
    by (simp add: worker_audit_def best_effort_Inr returnE_def split: option.split)
  then show "recording (worker_audit E R a tt i u n md :: ('b, unit) worker_m)" by (simp add: recording_def files_kept_audit)
  have "fst (worker_assurance E R e c w) = Inr ()" for w :: "'c worker_state_scheme"
    by (simp add: worker_assurance_def best_effort_Inr returnE_def split: option.split)
  then show "recording (worker_assurance E R e c :: ('c, unit) worker_m)" by (simp add: recording_def files_kept_assurance)
qed

lemma status_then_recording:
  assumes "recording n"
  shows "\<exists>w'. bindE (record_status W m t st res err) (\<lambda>_. n) w = (Inr (), w') \<and> same_files (with_status W m t (st, res, err) w) w'"
proof -
  let ?w = "with_status W m t (st, res, err) w"
  obtain w1 where n: "n ?w = (Inr (), w1)" using assms unfolding recording_def by (metis prod.collapse)
  have "abides same_files n" using assms by (simp add: recording_def)
  from abidesD [OF this n] have "same_files ?w w1" .
  then show ?thesis using n by (simp add: bindE_def record_status_eq)
qed

lemma job_outcome_eq: "\<exists>w'. job_outcome W R m t e r w = (Inr (), w') \<and> same_files (with_status W m t (reported r) w) w'"
proof -
  have completed: "\<exists>w'. job_completed W R m t e s w = (Inr (), w')
      \<and> same_files (with_status W m t (JS_COMPLETED, Some (run_result_of s), None) w) w'" for s
    unfolding job_completed_def Let_def by (rule status_then_recording) (intro recording_bind recording_steps)
  have denied: "\<exists>w'. job_denied W R m t d w = (Inr (), w')
      \<and> same_files (with_status W m t (JS_DENIED, None, Some (denied_error (pd_reasons d))) w) w'" for d
    unfolding job_denied_def by (rule status_then_recording) (intro recording_bind recording_steps)
  have failed: "\<exists>w'. job_failed W R m t err why w = (Inr (), w') \<and> same_files (with_status W m t (JS_FAILED, None, Some err) w) w'" for err why
    unfolding job_failed_def by (rule status_then_recording) (intro recording_bind recording_steps)
  show ?thesis
  proof (cases r)
    case (Inl x)
    then show ?thesis using denied failed by (cases x) (simp_all add: job_outcome_def reported_def)
  qed (use completed in \<open>simp add: job_outcome_def reported_def\<close>)
qed

definition not_found_status :: "run_job_message \<Rightarrow> job_status \<times> run_result_summary option \<times> string option" where
  "not_found_status m = (JS_FAILED, None, Some (''experiment '' @ quoted (jm_experiment_id m) @ '' could not be found when the job started''))"

lemma job_not_found_eq: "\<exists>w'. job_not_found W R m t w = (Inr (), w') \<and> same_files (with_status W m t (not_found_status m) w) w'"
  unfolding job_not_found_def not_found_status_def by (rule status_then_recording [OF recording_steps(1)])

text \<open>A message is processed in three stages: the start, the run, the report.\<close>

definition start_time :: "worker_env \<Rightarrow> job_record option \<Rightarrow> 'z worker_state_scheme \<Rightarrow> datetime" where
  "start_time W existing w = (case existing of Some r \<Rightarrow> jr_submitted_at r | None \<Rightarrow> ae_clock (wv_app W) (ap_clock_reads w))"

definition started :: "worker_env \<Rightarrow> run_job_message \<Rightarrow> job_record option \<Rightarrow> 'z worker_state_scheme \<Rightarrow> 'z worker_state_scheme" where
  "started W m existing w = with_status W m (start_time W existing w) (JS_RUNNING, None, None)
     (case existing of Some _ \<Rightarrow> w | None \<Rightarrow> w\<lparr>ap_clock_reads := Suc (ap_clock_reads w)\<rparr>)"

abbreviation job_at :: "worker_env \<Rightarrow> string \<Rightarrow> 'z worker_state_scheme \<Rightarrow> exn + job_record option" where
  "job_at W i w \<equiv> job_load (wv_jobs W) (wv_jobs_dir W) i (sd_files w)"

abbreviation experiment_at :: "worker_env \<Rightarrow> string \<Rightarrow> 'z worker_state_scheme \<Rightarrow> experiment_definition option" where
  "experiment_at W i w \<equiv> find_experiment (wv_discovery W) (wv_experiments_dir W) i (sd_files w)"

lemma process_eq:
  assumes "job_at W (jm_job_id m) w = Inr existing"
  shows "process_run_job W R m w =
    (let t = start_time W existing w; w1 = started W m existing w in
     case experiment_at W (jm_experiment_id m) w1 of
       None \<Rightarrow> job_not_found W R m t w1
     | Some e \<Rightarrow> (case run_with_events W R m e w1 of (r, w2) \<Rightarrow> job_outcome W R m t e r w2))"
  using assms
  by (simp add: process_run_job_def bindE_def getE_def liftE_def returnE_def utc_now_def record_status_eq tryE_def start_time_def started_def
      Let_def split: option.split prod.split)

text \<open>The last status that processing a message writes, and the state it writes it to.\<close>

lemma processed:
  assumes "job_at W (jm_job_id m) w = Inr existing"
  obtains w2 s w' where "process_run_job W R m w = (Inr (), w')"
    and "same_files (with_status W m (start_time W existing w) s w2) w'"
    and "(experiment_at W (jm_experiment_id m) (started W m existing w) = None \<and> w2 = started W m existing w
           \<and> s = not_found_status m)
       \<or> (\<exists>e r. experiment_at W (jm_experiment_id m) (started W m existing w) = Some e
           \<and> run_with_events W R m e (started W m existing w) = (r, w2) \<and> s = reported r)"
proof (cases "experiment_at W (jm_experiment_id m) (started W m existing w)")
  case None
  let ?t = "start_time W existing w" and ?w1 = "started W m existing w"
  obtain w' where "job_not_found W R m ?t ?w1 = (Inr (), w')" "same_files (with_status W m ?t (not_found_status m) ?w1) w'"
    using job_not_found_eq by blast
  then show ?thesis using None process_eq [OF assms] by (intro that [of w' "not_found_status m" ?w1]) (simp_all add: Let_def)
next
  case (Some e)
  let ?t = "start_time W existing w" and ?w1 = "started W m existing w"
  obtain r w2 where r: "run_with_events W R m e ?w1 = (r, w2)" by fastforce
  obtain w' where "job_outcome W R m ?t e r w2 = (Inr (), w')" "same_files (with_status W m ?t (reported r) w2) w'"
    using job_outcome_eq by blast
  then show ?thesis using Some r process_eq [OF assms] by (intro that [of w' "reported r" w2]) (auto simp: Let_def)
qed

definition terminal :: "job_status \<Rightarrow> bool" where
  "terminal s \<longleftrightarrow> s \<in> {JS_COMPLETED, JS_DENIED, JS_FAILED}"

lemma reported_terminal: "terminal (fst (reported r))"
  by (auto simp: reported_def terminal_def split: sum.split exn.split)

lemma reported_completed: "fst (reported r) = JS_COMPLETED \<longleftrightarrow> (\<exists>s. r = Inr s)"
  by (auto simp: reported_def split: sum.split exn.split)

lemma reported_shape:
  "fst (reported r) = JS_COMPLETED \<longleftrightarrow> fst (snd (reported r)) \<noteq> None" "fst (reported r) = JS_COMPLETED \<longleftrightarrow> snd (snd (reported r)) = None"
  by (simp_all add: reported_def split: sum.split exn.split)

lemma job_at_with_status:
  assumes "job_codec_ok (wv_jobs W)" and "is_job_id (jm_job_id m)" and "is_job_id i"
  shows "job_at W i (with_status W m t s w) =
    (if i = jm_job_id m then Inr (Some (job_record_at W m t s (ae_clock (wv_app W) (ap_clock_reads w)))) else job_at W i w)"
  using job_load_saved [OF assms(1) _ assms(3), of "job_record_at W m t s (ae_clock (wv_app W) (ap_clock_reads w))"] assms(2)
  by (simp add: with_status_def job_record_at_def)

text \<open>Completing means that the policy allowed it.\<close>

lemma bindE_on_run_fails: "fst (on_run m ws) = Inl e \<Longrightarrow> fst (bindE (on_run m) k ws) = Inl e"
  by (cases "on_run m ws") (simp add: bindE_def)

lemma run_experiment_safe:
  assumes "run_experiment E C save save_cmp cwd stamp base git e ctx ws = (Inr s, ws')"
  shows "safe_to_run e ctx"
proof (rule ccontr)
  assume unsafe: "\<not> safe_to_run e ctx"
  obtain q ws1 x ws2 where q: "rq_experiment q = e" "rq_execution_context q = ctx"
    and x: "execute_and_generate_evidence E C save save_cmp q ws1 = (Inr x, ws2)"
    using assms unfolding run_experiment_def Let_def bindE_Inr
    by (clarsimp simp: bindE_Inr liftE_def returnE_def split: if_splits prod.splits) (rule that [rotated 2], assumption, simp_all)
  show False using refused_orchestration [of q E C save save_cmp "fst ws1" "snd ws1"] unsafe q x by fastforce
qed

lemma run_completed_safe:
  assumes "run_with_events W R m e w = (Inr s, w2)"
  shows "safe_to_run e (jm_execution_context m)"
  using assms run_experiment_safe
  by (fastforce simp: run_with_events_def run_once_def split: prod.splits)

text \<open>
  C13. Every job ends. A worker that takes up a job whose file is readable, or not yet written, returns without
  an exception and leaves the job on file as completed, denied or failed, with the identity, experiment, context
  and time of submission it had; a completed job has a result and no error, any other an error and no
  result, and a job completes only if its experiment is known and the safety rules allow it.
\<close>

theorem processed_job_terminal:
  assumes "job_codec_ok (wv_jobs W)" and "is_job_id (jm_job_id m)" and "job_at W (jm_job_id m) w = Inr existing"
  shows "\<exists>w' r. process_run_job W R m w = (Inr (), w') \<and> job_at W (jm_job_id m) w' = Inr (Some r)
    \<and> terminal (jr_status r) \<and> jr_job_id r = jm_job_id m \<and> jr_experiment_id r = jm_experiment_id m
    \<and> jr_execution_context r = jm_execution_context m \<and> jr_submitted_at r = start_time W existing w
    \<and> (jr_status r = JS_COMPLETED \<longleftrightarrow> jr_result r \<noteq> None) \<and> (jr_status r = JS_COMPLETED \<longleftrightarrow> jr_error r = None)
    \<and> (jr_status r = JS_COMPLETED \<longrightarrow>
        (\<exists>e. experiment_at W (jm_experiment_id m) (started W m existing w) = Some e \<and> safe_to_run e (jm_execution_context m)))"
proof (rule processed [OF assms(3), of R])
  fix w2 s w'
  let ?t = "start_time W existing w" and ?w1 = "started W m existing w"
  assume p: "process_run_job W R m w = (Inr (), w')" and w': "same_files (with_status W m ?t s w2) w'"
    and s: "(experiment_at W (jm_experiment_id m) ?w1 = None \<and> w2 = ?w1 \<and> s = not_found_status m)
       \<or> (\<exists>e r. experiment_at W (jm_experiment_id m) ?w1 = Some e \<and> run_with_events W R m e ?w1 = (r, w2) \<and> s = reported r)"
  let ?r = "job_record_at W m ?t s (ae_clock (wv_app W) (ap_clock_reads w2))"
  have "job_at W (jm_job_id m) w' = Inr (Some ?r)"
    using job_at_with_status [OF assms(1,2,2), of ?t s w2] w' by (simp add: same_files_def)
  moreover have "terminal (fst s)" "fst s = JS_COMPLETED \<longleftrightarrow> fst (snd s) \<noteq> None" "fst s = JS_COMPLETED \<longleftrightarrow> snd (snd s) = None"
    using s reported_terminal reported_shape by (fastforce simp: terminal_def not_found_status_def)+
  moreover have "\<exists>e. experiment_at W (jm_experiment_id m) ?w1 = Some e \<and> safe_to_run e (jm_execution_context m)"
    if "fst s = JS_COMPLETED"
    using that s run_completed_safe reported_completed by (fastforce simp: not_found_status_def)
  ultimately show ?thesis using p by (auto simp: job_record_at_def)
qed

section \<open>What is recorded has no influence\<close>

text \<open>Two states that agree on all that a job depends on.\<close>

definition same_core :: "'z worker_state_scheme \<Rightarrow> 'z worker_state_scheme \<Rightarrow> bool" where
  "same_core w v \<longleftrightarrow> same_files w v \<and> ap_clock_reads v = ap_clock_reads w \<and> ap_uuid_reads v = ap_uuid_reads w"

lemma same_core_sym: "same_core w v \<Longrightarrow> same_core v w"
  by (simp add: same_core_def same_files_def)

text \<open>Recording an event reads the clock once, whether the repository is absent, works or fails.\<close>

lemma emit_counts:
  "ap_clock_reads (snd (emit_event W R m t d w)) = Suc (ap_clock_reads w)" "ap_uuid_reads (snd (emit_event W R m t d w)) = ap_uuid_reads w"
  by (cases "rc_runs R"; simp add: emit_event_def best_effort_def record_event_def null_record_event_def postgres_record_event_def
      app_m_defs append_run_event_def Let_def)+

lemma emit_core: "same_core w v \<Longrightarrow> same_core (snd (emit_event W R m t d w)) (snd (emit_event W R' m t d v))"
proof -
  assume c: "same_core w v"
  have "same_files w (snd (emit_event W R m t d w))" "same_files v (snd (emit_event W R' m t d v))"
    by (rule abidesD [OF files_kept_emit prod.collapse [symmetric]])+
  with c show ?thesis by (simp add: same_core_def same_files_def emit_counts)
qed

lemma emit_events_core:
  "same_core w v \<Longrightarrow> same_core (snd (emit_events W R m ts w)) (snd (emit_events W R' m ts v))"
proof (induction ts arbitrary: w v)
  case (Cons t ts)
  have step: "snd (emit_events W Q m (t # ts) u) = snd (emit_events W Q m ts (snd (emit_event W Q m t None u)))" for Q and u :: "'a worker_state_scheme"
    by (simp add: emit_events_def emit_event_def best_effort_def bindE_def returnE_def split: prod.split sum.split)
  show ?case unfolding step by (rule Cons.IH [OF emit_core [OF Cons.prems]])
qed (simp add: emit_events_def returnE_def bindE_def)

lemma same_core_refl: "same_core w w"
  by (simp add: same_core_def same_files_def)

lemma run_core: "same_core (snd (run_with_events W R m e w)) (snd (run_with_events W R' m e w))
    \<and> fst (run_with_events W R m e w) = fst (run_with_events W R' m e w)"
  by (simp add: run_with_events_def emit_events_core same_core_refl split: prod.split)

lemma with_status_core: "same_core w v \<Longrightarrow> same_core (with_status W m t s w) (with_status W m t s v)"
  by (simp add: same_core_def same_files_def with_status_def)

text \<open>
  Recording is only that. Whatever the databases for run events, control validations and the audit trail
  do - they may be absent, or fail in any of their calls - a worker that takes up the same job in the same
  state returns the same way, leaves the same files, job record and evidence included, makes the same calls of
  the strategies and leaves the same queue.
\<close>

lemma recording_is_auxiliary:
  "fst (process_run_job W R m w) = fst (process_run_job W R' m w)
   \<and> same_files (snd (process_run_job W R m w)) (snd (process_run_job W R' m w))"
proof (cases "job_at W (jm_job_id m) w")
  case (Inl x)
  then show ?thesis by (simp add: process_run_job_def bindE_def getE_def liftE_def same_files_def)
next
  case (Inr existing)
  let ?t = "start_time W existing w" and ?w1 = "started W m existing w"
  show ?thesis
  proof (cases "experiment_at W (jm_experiment_id m) ?w1")
    case None
    obtain w3 where a: "job_not_found W R m ?t ?w1 = (Inr (), w3)" "same_files (with_status W m ?t (not_found_status m) ?w1) w3"
      using job_not_found_eq by blast
    obtain w3' where b: "job_not_found W R' m ?t ?w1 = (Inr (), w3')" "same_files (with_status W m ?t (not_found_status m) ?w1) w3'"
      using job_not_found_eq by blast
    have "same_files w3 w3'" using a(2) b(2) by (simp add: same_files_def)
    then show ?thesis using None a(1) b(1) by (simp add: process_eq [OF Inr] Let_def)
  next
    case (Some e)
    obtain r w2 where r: "run_with_events W R m e ?w1 = (r, w2)" by fastforce
    obtain w2' where r': "run_with_events W R' m e ?w1 = (r, w2')" and c: "same_core w2 w2'"
      using run_core [of W R m e ?w1 R'] r by (metis fst_conv prod.collapse snd_conv)
    obtain w3 where a: "job_outcome W R m ?t e r w2 = (Inr (), w3)" "same_files (with_status W m ?t (reported r) w2) w3"
      using job_outcome_eq by blast
    obtain w3' where b: "job_outcome W R' m ?t e r w2' = (Inr (), w3')" "same_files (with_status W m ?t (reported r) w2') w3'"
      using job_outcome_eq by blast
    have "same_files w3 w3'" using a(2) b(2) with_status_core [OF c] by (simp add: same_files_def same_core_def)
    then show ?thesis using Some r r' a(1) b(1) by (simp add: process_eq [OF Inr] Let_def)
  qed
qed

section \<open>An unsafe job\<close>

definition run_env_at :: "worker_env \<Rightarrow> 'z worker_state_scheme \<Rightarrow> run_env" where
  "run_env_at W w = (wv_run W)\<lparr>re_files := files_of (sd_files w), re_has_sink := True\<rparr>"

definition runnable :: "worker_env \<Rightarrow> experiment_definition \<Rightarrow> 'z worker_state_scheme \<Rightarrow> bool" where
  "runnable W e w \<longleftrightarrow> (\<exists>ts h. dataset_of (run_env_at W w) (path_under (wv_cwd W) (ed_dataset_path e)) ts h) \<and> (\<exists>p. resolve_pair e = Inr p)"

lemma refused_when_loaded:
  assumes "\<not> safe_to_run (rq_experiment q) (rq_execution_context q)" and "dataset_of E (rq_dataset_path q) ts h"
  shows "\<exists>d ws. execute_and_generate_evidence E C save save_cmp q (w, s) = (Inl (PolicyRefusalError d), ws)"
proof -
  let ?w1 = "w\<lparr>rw_trace := rw_trace w @ [DatasetRead (rq_dataset_path q)]\<rparr>"
  have l: "load_test_set E (rq_dataset_path q) w = (Inr (ts, h), ?w1)" using assms(2) by (simp add: load_test_set_Inr_of)
  obtain d w' where "run E q ?w1 = (Inl (PolicyRefusalError d), w')" using refused_run [OF assms(1)] by blast
  then show ?thesis using l
    by (simp add: execute_and_generate_evidence_def bindE_def [of "on_run (load_test_set _ _)"] bindE_def [of "on_run (run _ _)"] on_run_def)
qed

lemma refused_experiment:
  assumes "\<not> safe_to_run e ctx"
  obtains x w' acts where "run_experiment E C save save_cmp cwd stamp base git e ctx (w, s) = (Inl x, (w', s))"
    and "rw_trace w' = rw_trace w @ acts" and "\<forall>i c. ProcessCall i c \<notin> set acts"
    and "(\<exists>ts h. dataset_of E (path_under cwd (ed_dataset_path e)) ts h) \<and> (\<exists>p. resolve_pair e = Inr p) \<Longrightarrow> \<exists>d. x = PolicyRefusalError d"
proof -
  let ?w1 = "w\<lparr>rw_trace := rw_trace w @ sent E RE_PREPARING\<rparr>" and ?p = "path_under cwd (ed_dataset_path e)"
  have emit: "on_run (emit E RE_PREPARING) (w, s) = (Inr (), (?w1, s))" by (simp add: on_run_def emit_eq)
  have sent: "\<forall>i c. ProcessCall i c \<notin> set (sent E t)" for t by (simp add: sent_def)
  show ?thesis
  proof (cases "re_files E ?p = None")
    case True
    then have "\<not> dataset_of E ?p ts h" for ts h by (simp add: dataset_of_def)
    then show ?thesis using emit sent True that [of _ ?w1 "sent E RE_PREPARING"]
      by (simp add: run_experiment_def bindE_def [of "on_run _"] liftE_def)
  next
    case False
    then obtain raw where raw: "re_files E ?p = Some raw" by blast
    show ?thesis
    proof (cases "resolve_pair e")
      case (Inl x)
      have "run_experiment E C save save_cmp cwd stamp base git e ctx (w, s) = (Inl x, (?w1, s))"
        using emit raw Inl by (simp add: run_experiment_def bindE_def liftE_def Let_def)
      then show ?thesis by (rule that [of _ _ "sent E RE_PREPARING"]) (use sent Inl in simp_all)
    next
      case (Inr bm)
      obtain b mi where bm: "bm = (b, mi)" by fastforce
      define q where "q = \<lparr>rq_experiment = e, rq_dataset_path = ?p, rq_baseline = b, rq_mitigation = mi,
          rq_baseline_run_id = run_id_of stamp ''01'', rq_mitigation_run_id = run_id_of stamp ''02'',
          rq_git_commit = git, rq_environment = None, rq_execution_context = ctx\<rparr>"
      have q: "\<not> safe_to_run (rq_experiment q) (rq_execution_context q)" "rq_dataset_path q = ?p" using assms by (simp_all add: q_def)
      obtain x w' where x: "execute_and_generate_evidence E C save save_cmp q (?w1, s) = (Inl x, (w', s))"
        and t: "rw_trace w' = rw_trace ?w1 @ [DatasetRead ?p] \<or> rw_trace w' = rw_trace ?w1 @ DatasetRead ?p # sent E RE_SAFETY_CHECK"
        using refused_orchestration [OF q(1), of E C save save_cmp ?w1 s] q(2) by auto
      have "run_experiment E C save save_cmp cwd stamp base git e ctx (w, s) = (Inl x, (w', s))"
        using raw Inr emit x by (simp add: run_experiment_def bindE_def liftE_def returnE_def bm q_def Let_def)
      moreover obtain acts where "rw_trace w' = rw_trace w @ acts" "\<forall>i c. ProcessCall i c \<notin> set acts"
        using t sent by (elim disjE; fastforce)
      moreover have "\<exists>d. x = PolicyRefusalError d" if "\<exists>ts h. dataset_of E ?p ts h"
        using refused_when_loaded [OF q(1), of E _ _ C save save_cmp ?w1 s] that x unfolding q(2) by fastforce
      ultimately show ?thesis by (intro that) auto
    qed
  qed
qed

text \<open>A save changes nothing but the job's file and temporary files.\<close>

definition job_paths :: "worker_env \<Rightarrow> string \<Rightarrow> pypath set" where
  "job_paths W i = insert (job_path (wv_jobs_dir W) i) (range (job_tmp_path (job_path (wv_jobs_dir W) i)))"

lemma files_with_status:
  assumes "p \<notin> job_paths W (jm_job_id m)"
  shows "tbl_get fst p (sd_files (with_status W m t s w)) = tbl_get fst p (sd_files w)"
proof -
  have "p \<noteq> job_tmp_path (job_path (wv_jobs_dir W) (jm_job_id m)) h" "p \<noteq> job_path (wv_jobs_dir W) (jm_job_id m)" for h
    using assms by (auto simp: job_paths_def)
  then show ?thesis by (simp add: with_status_def job_saved_def job_record_at_def Let_def tbl_get_upsert tbl_get_filter_key write_text_def)
qed

lemma files_started: "p \<notin> job_paths W (jm_job_id m) \<Longrightarrow> tbl_get fst p (sd_files (started W m existing w)) = tbl_get fst p (sd_files w)"
  by (simp add: started_def files_with_status split: option.split)

lemma run_started: "wk_run (started W m existing w) = wk_run w"
  by (simp add: started_def with_status_def split: option.split)

lemma emit_events_kept: "same_files w (snd (emit_events W R m ts w))"
proof -
  have "abides same_files (emit_events W R m ts)" unfolding emit_events_def by (intro files_kept_rules files_kept_emit)
  from abidesD [OF this prod.collapse [symmetric]] show ?thesis .
qed

text \<open>
  C15. The worker never runs what the rules forbid. Whatever a queued job asks for, if the experiment it names
  is not safe to run in its context, no strategy is called, no file but the job's own is written (no
  evidence in particular), and the job ends denied, or failed if its dataset or strategies cannot be
  resolved.
\<close>

theorem unsafe_job_refused:
  assumes "job_codec_ok (wv_jobs W)" and "is_job_id (jm_job_id m)" and "job_at W (jm_job_id m) w = Inr existing"
    and "experiment_at W (jm_experiment_id m) (started W m existing w) = Some e" and "\<not> safe_to_run e (jm_execution_context m)"
  shows "\<exists>w' r acts. process_run_job W R m w = (Inr (), w') \<and> job_at W (jm_job_id m) w' = Inr (Some r)
    \<and> jr_status r \<in> {JS_DENIED, JS_FAILED} \<and> (runnable W e (started W m existing w) \<longrightarrow> jr_status r = JS_DENIED)
    \<and> rw_trace (wk_run w') = rw_trace (wk_run w) @ acts \<and> (\<forall>i c. ProcessCall i c \<notin> set acts)
    \<and> (\<forall>p. p \<notin> job_paths W (jm_job_id m) \<longrightarrow> tbl_get fst p (sd_files w') = tbl_get fst p (sd_files w))"
proof -
  let ?w1 = "started W m existing w" and ?t = "start_time W existing w"
  obtain x rw acts where run: "run_experiment (run_env_at W ?w1) (wv_codec W) (local_save_run_evidence (wv_results_root W))
        (local_save_comparison (wv_codec W) (wv_results_root W)) (wv_cwd W) (wv_stamp W (wk_stamps ?w1)) (wv_results_root W) ''0000000'' e
        (jm_execution_context m) (wk_run ?w1, sd_files ?w1) = (Inl x, (rw, sd_files ?w1))"
    and acts: "rw_trace rw = rw_trace (wk_run w) @ acts" "\<forall>i c. ProcessCall i c \<notin> set acts"
    and d: "runnable W e ?w1 \<Longrightarrow> \<exists>d. x = PolicyRefusalError d"
    using refused_experiment [OF assms(5), of "run_env_at W ?w1" _ _ _ "wv_cwd W"] unfolding runnable_def run_started by metis
  define w3 where "w3 = ?w1\<lparr>wk_run := rw, sd_files := sd_files ?w1, wk_stamps := Suc (wk_stamps ?w1)\<rparr>"
  define w2 where "w2 = snd (emit_events W R m (emitted (wk_run ?w1) (wk_run w3)) w3)"
  have r: "run_with_events W R m e ?w1 = (Inl x, w2)"
    using run by (simp add: run_with_events_def run_once_def run_env_at_def w2_def w3_def)
  have "same_files w3 w2" unfolding w2_def by (rule emit_events_kept)
  then have w2: "sd_files w2 = sd_files ?w1" "wk_run w2 = rw" by (simp_all add: same_files_def w3_def)
  obtain w' where p: "process_run_job W R m w = (Inr (), w')" and w': "same_files (with_status W m ?t (reported (Inl x)) w2) w'"
    using process_eq [OF assms(3), of R] assms(4) r job_outcome_eq [of W R m ?t e "Inl x" w2] by (auto simp: Let_def)
  have "job_at W (jm_job_id m) w' = Inr (Some (job_record_at W m ?t (reported (Inl x)) (ae_clock (wv_app W) (ap_clock_reads w2))))"
    using job_at_with_status [OF assms(1,2,2), of ?t _ w2] w' by (simp add: same_files_def)
  moreover have "fst (reported (Inl x)) \<in> {JS_DENIED, JS_FAILED}" "runnable W e ?w1 \<Longrightarrow> fst (reported (Inl x)) = JS_DENIED"
    using reported_terminal [of "Inl x"] reported_completed [of "Inl x"] d by (auto simp: terminal_def) (auto simp: reported_def)
  moreover have "tbl_get fst p (sd_files w') = tbl_get fst p (sd_files w)" if "p \<notin> job_paths W (jm_job_id m)" for p
    using w' files_with_status [OF that, of ?t _ w2] files_started [OF that, of existing w] w2(1) by (simp add: same_files_def)
  moreover have "wk_run w' = rw" using w' w2(2) by (simp add: same_files_def with_status_def)
  ultimately show ?thesis using p acts by (intro exI [of _ w'] exI [of _ acts]) (auto simp: job_record_at_def)
qed

end
