(* ===== verification/Job_Queue.thy ===== *)
theory Job_Queue
  imports Job_Lifecycle
begin

text \<open>
  The API, the queue and the worker together: requests put jobs on the queue, the worker takes them off, a
  delivery may be repeated and the worker may die while it runs one. The result is that no job is lost: one
  that is not finished is still on the queue.
\<close>

section \<open>Operations\<close>

datatype job_op =
    SubmitRun "string option" "string option" string execution_context
  | SubmitVersionRun "string option" "string option" string
  | Deliver
  | DeliverUnacknowledged
  | DieRunning

text \<open>A delivery of the first message; the worker reads one at a time (\<open>prefetch_count=1\<close>).\<close>

definition deliver :: "worker_env \<Rightarrow> recorders \<Rightarrow> 'z worker_state_scheme \<Rightarrow> 'z worker_state_scheme" where
  "deliver W R w = (case wk_queue w of [] \<Rightarrow> w | body # _ \<Rightarrow> snd (handle_message_body W R body w))"

definition acknowledge :: "'z worker_state_scheme \<Rightarrow> 'z worker_state_scheme" where
  "acknowledge w = w\<lparr>wk_queue := tl (wk_queue w)\<rparr>"

text \<open>The worker dies during the run: the job is marked as running and the message was not acknowledged.\<close>

definition die_running :: "worker_env \<Rightarrow> 'z worker_state_scheme \<Rightarrow> 'z worker_state_scheme" where
  "die_running W w =
     (case wk_queue w of
        [] \<Rightarrow> w
      | body # _ \<Rightarrow> (case wv_message W body of
          Inl _ \<Rightarrow> w
        | Inr m \<Rightarrow> (case job_at W (jm_job_id m) w of Inl _ \<Rightarrow> w | Inr existing \<Rightarrow> started W m existing w)))"

fun job_op_step :: "worker_env \<Rightarrow> recorders \<Rightarrow> job_op \<Rightarrow> 'z worker_state_scheme \<Rightarrow> 'z worker_state_scheme" where
  "job_op_step W R (SubmitRun tok rq i ctx) w = snd (submit_run W R tok rq i ctx w)"
| "job_op_step W R (SubmitVersionRun tok rq v) w = snd (submit_experiment_version_run W tok rq v w)"
| "job_op_step W R Deliver w = acknowledge (deliver W R w)"
| "job_op_step W R DeliverUnacknowledged w = deliver W R w"
| "job_op_step W R DieRunning w = die_running W w"

text \<open>
  What the deployment provides: serialisations that are read back as written, identifiers of 32 hexadecimal
  digits, a broker that accepts messages, and directories of their own for jobs, experiments and results.
\<close>

definition deployment_ok :: "worker_env \<Rightarrow> bool" where
  "deployment_ok W \<longleftrightarrow> job_codec_ok (wv_jobs W) \<and> (\<forall>m. wv_message W (wv_dump_message W m) = Inr m)
     \<and> (\<forall>n. is_job_id (''JOB-'' @ ae_uuid (wv_app W) n)) \<and> (\<forall>n. \<not> wv_broker_fails W n)
     \<and> wv_jobs_dir W \<noteq> wv_experiments_dir W
     \<and> \<not> (path_root (wv_results_root W) = path_root (wv_jobs_dir W) \<and> prefix (path_parts (wv_results_root W)) (path_parts (wv_jobs_dir W)))"

section \<open>A run leaves the job files alone\<close>

definition jobs_kept :: "pypath \<Rightarrow> run_world \<times> file_tree \<Rightarrow> run_world \<times> file_tree \<Rightarrow> bool" where
  "jobs_kept dir ws ws' \<longleftrightarrow> (\<forall>i. is_job_id i \<longrightarrow> tbl_get fst (job_path dir i) (snd ws') = tbl_get fst (job_path dir i) (snd ws))"

interpretation jobs_apart: effect_frame "jobs_kept dir"
  by unfold_locales (auto simp: jobs_kept_def)

abbreviation apart :: "pypath \<Rightarrow> pypath \<Rightarrow> bool" where
  "apart base dir \<equiv> \<not> (path_root base = path_root dir \<and> prefix (path_parts base) (path_parts dir))"

lemma apart_path:
  assumes "apart base dir" and "is_job_id i" and "xs \<noteq> []"
  shows "job_path dir i \<noteq> PyPath (path_root base) (path_parts base @ x # xs)"
proof
  assume "job_path dir i = PyPath (path_root base) (path_parts base @ x # xs)"
  then have r: "path_root base = path_root dir" and p: "path_parts dir @ [i @ ''.json''] = path_parts base @ x # xs"
    by (simp_all add: job_path_parts [OF assms(2)])
  have "path_parts dir = butlast (path_parts base @ x # xs)" using p by (metis butlast_snoc)
  then have "path_parts dir = path_parts base @ x # butlast xs" using assms(3) by (simp add: butlast_append)
  with r assms(1) show False by (simp add: prefix_def)
qed

lemma on_run_keeps_jobs: "abides (jobs_kept dir) (on_run m)"
  by (auto simp: abides_def on_run_def jobs_kept_def split: prod.split)

lemma save_keeps_jobs:
  assumes "apart base dir" and "good_bundle b"
  shows "abides (jobs_kept dir) (on_store (local_save_run_evidence base b))"
  unfolding abides_def
proof
  fix ws :: "run_world \<times> file_tree"
  show "jobs_kept dir ws (snd (on_store (local_save_run_evidence base b) ws))"
  proof (cases "local_save_run_evidence base b (snd ws)")
    case (Inl e)
    then show ?thesis by (cases ws) (simp add: on_store_def jobs_kept_def)
  next
    case (Inr r)
    obtain p s' where r: "r = (p, s')" by fastforce
    have "tbl_get fst (job_path dir i) s' = tbl_get fst (job_path dir i) (snd ws)" if i: "is_job_id i" for i
    proof -
      have "job_path dir i \<noteq> PyPath (path_root base) (path_parts base @ [fst (bundle_key b), snd (bundle_key b), name])" for name
        by (rule apart_path [OF assms(1) i]) simp
      then show ?thesis unfolding local_save_eq(1) [OF assms(2) Inr [unfolded r]] by (rule get_fold_upsert_other)
    qed
    then show ?thesis using Inr r by (cases ws) (simp add: on_store_def jobs_kept_def)
  qed
qed

lemma comparison_keeps_jobs:
  assumes "apart base dir" and "is_experiment_id e"
  shows "abides (jobs_kept dir) (on_store (\<lambda>s. Inr (local_save_comparison C base e r s)))"
proof -
  have "path_join (path_join base e) ''comparison.json'' = PyPath (path_root base) (path_parts base @ [e, ''comparison.json''])"
    using experiment_id_good [OF assms(2)] good_comparison_json by (simp add: path_join_good)
  then show ?thesis using apart_path [OF assms(1)]
    by (auto simp: abides_def on_store_def local_save_comparison_def jobs_kept_def tbl_get_upsert Let_def split: prod.splits)
qed

lemma abides_lift: "(\<And>x. r = Inr x \<Longrightarrow> abides R (k x)) \<Longrightarrow> (\<And>w. R w w) \<Longrightarrow> abides R (bindE (liftE r) k)"
  by (cases r) (simp_all add: abides_def bindE_def liftE_def)

lemma orchestration_keeps_jobs:
  assumes "apart base dir" and "is_experiment_id (ed_experiment_id (rq_experiment q))"
  shows "abides (jobs_kept dir) (execute_and_generate_evidence E C (local_save_run_evidence base) (local_save_comparison C base) q)"
  unfolding execute_and_generate_evidence_def
  by (intro jobs_apart.resp_bind jobs_apart.resp_branches abides_lift jobs_apart.R_refl on_run_keeps_jobs save_keeps_jobs
      comparison_keeps_jobs jobs_apart.resp_pure assms built_bundle_good; assumption)

lemma experiment_keeps_jobs:
  assumes "apart base dir" and "is_experiment_id (ed_experiment_id e)"
  shows "abides (jobs_kept dir) (run_experiment E C (local_save_run_evidence base) (local_save_comparison C base) cwd stamp root' git e ctx)"
  unfolding run_experiment_def Let_def
  by (intro jobs_apart.resp_bind jobs_apart.resp_branches abides_lift jobs_apart.R_refl on_run_keeps_jobs orchestration_keeps_jobs
      jobs_apart.resp_pure assms; simp add: assms)

section \<open>One operation\<close>

lemma deploymentD:
  assumes "deployment_ok W"
  shows "job_codec_ok (wv_jobs W)" "wv_message W (wv_dump_message W m) = Inr m" "is_job_id (''JOB-'' @ ae_uuid (wv_app W) n)"
    "\<not> wv_broker_fails W n" "wv_jobs_dir W \<noteq> wv_experiments_dir W" "apart (wv_results_root W) (wv_jobs_dir W)"
  using assms by (auto simp: deployment_ok_def)

lemma job_at_cong:
  "tbl_get fst (job_path (wv_jobs_dir W) i) (sd_files w') = tbl_get fst (job_path (wv_jobs_dir W) i) (sd_files w) \<Longrightarrow> job_at W i w' = job_at W i w"
  by (simp add: job_load_def)

lemma found_id: "experiment_at W i w = Some e \<Longrightarrow> is_experiment_id (ed_experiment_id e)"
  using find_discovered [of "wv_discovery W" "wv_experiments_dir W" i "sd_files w" e]
  by (auto simp: validate_definition_def res_simps definition_fields_ok_def)

text \<open>The jobs on file and the queue, as far as a step can change them.\<close>

definition jobs_same :: "worker_env \<Rightarrow> 'z worker_state_scheme \<Rightarrow> 'z worker_state_scheme \<Rightarrow> bool" where
  "jobs_same W w w' \<longleftrightarrow> wk_queue w' = wk_queue w \<and> (\<forall>i. is_job_id i \<longrightarrow> job_at W i w' = job_at W i w)"

lemma jobs_same_files: "same_files w w' \<Longrightarrow> jobs_same W w w'"
  by (simp add: same_files_def jobs_same_def)

lemma jobs_same_trans: "jobs_same W w w' \<Longrightarrow> jobs_same W w' w'' \<Longrightarrow> jobs_same W w w''"
  by (simp add: jobs_same_def)

lemma run_jobs_same:
  assumes "deployment_ok W" and "is_experiment_id (ed_experiment_id e)" and "run_with_events W R m e w = (r, w')"
  shows "jobs_same W w w'"
proof -
  obtain r1 w1 where w1: "run_once W e (jm_execution_context m) w = (r1, w1)" by fastforce
  let ?E = "(wv_run W)\<lparr>re_files := files_of (sd_files w), re_has_sink := True\<rparr>"
  obtain rw fs where x: "run_experiment ?E (wv_codec W) (local_save_run_evidence (wv_results_root W))
      (local_save_comparison (wv_codec W) (wv_results_root W)) (wv_cwd W) (wv_stamp W (wk_stamps w)) (wv_results_root W) ''0000000'' e
      (jm_execution_context m) (wk_run w, sd_files w) = (r1, (rw, fs))"
      and sel: "sd_files w1 = fs" "wk_queue w1 = wk_queue w"
    using w1 unfolding run_once_def by (fastforce split: prod.splits)
  have "jobs_kept (wv_jobs_dir W) (wk_run w, sd_files w) (rw, fs)"
    by (rule abidesD [OF experiment_keeps_jobs [OF deploymentD(6) [OF assms(1)] assms(2)] x])
  then have "jobs_same W w w1" using sel by (auto simp: jobs_same_def jobs_kept_def intro!: job_at_cong)
  moreover have "same_files w1 w'" using assms(3) w1 emit_events_kept by (auto simp: run_with_events_def)
  ultimately show ?thesis by (metis jobs_same_files jobs_same_trans)
qed

lemma started_jobs:
  assumes "deployment_ok W" and "is_job_id (jm_job_id m)"
  shows "wk_queue (started W m existing w) = wk_queue w"
    "is_job_id i \<Longrightarrow> i \<noteq> jm_job_id m \<Longrightarrow> job_at W i (started W m existing w) = job_at W i w"
    "\<exists>r. job_at W (jm_job_id m) (started W m existing w) = Inr (Some r)"
proof -
  note st = job_at_with_status [OF deploymentD(1) [OF assms(1)] assms(2)]
  show "wk_queue (started W m existing w) = wk_queue w"
    by (simp add: started_def with_status_def split: option.split)
  show "is_job_id i \<Longrightarrow> i \<noteq> jm_job_id m \<Longrightarrow> job_at W i (started W m existing w) = job_at W i w"
    unfolding started_def by (simp only: st if_False) (simp split: option.split)
  show "\<exists>r. job_at W (jm_job_id m) (started W m existing w) = Inr (Some r)"
    unfolding started_def by (simp only: st [OF assms(2)] refl if_True, blast)
qed

lemma processed_jobs:
  assumes "deployment_ok W" and "is_job_id (jm_job_id m)" and "job_at W (jm_job_id m) w = Inr existing"
  obtains w' r where "process_run_job W R m w = (Inr (), w')" and "wk_queue w' = wk_queue w"
    and "job_at W (jm_job_id m) w' = Inr (Some r)" and "terminal (jr_status r)"
    and "\<And>i. is_job_id i \<Longrightarrow> i \<noteq> jm_job_id m \<Longrightarrow> job_at W i w' = job_at W i w"
proof (rule processed [OF assms(3), of R])
  fix w2 s w'
  let ?t = "start_time W existing w" and ?w1 = "started W m existing w"
  assume p: "process_run_job W R m w = (Inr (), w')" and w': "same_files (with_status W m ?t s w2) w'"
    and s: "(experiment_at W (jm_experiment_id m) ?w1 = None \<and> w2 = ?w1 \<and> s = not_found_status m)
       \<or> (\<exists>e r. experiment_at W (jm_experiment_id m) ?w1 = Some e \<and> run_with_events W R m e ?w1 = (r, w2) \<and> s = reported r)"
  have "jobs_same W ?w1 w2"
    using s
  proof (elim disjE exE conjE)
    fix e r
    assume "experiment_at W (jm_experiment_id m) ?w1 = Some e" and "run_with_events W R m e ?w1 = (r, w2)"
    then show ?thesis by (intro run_jobs_same [OF assms(1) found_id])
  qed (simp add: jobs_same_def)
  then have *: "wk_queue w2 = wk_queue w" "\<And>i. is_job_id i \<Longrightarrow> i \<noteq> jm_job_id m \<Longrightarrow> job_at W i w2 = job_at W i w"
    using started_jobs [OF assms(1,2)] by (simp_all add: jobs_same_def)
  have at: "job_at W i w' = job_at W i (with_status W m ?t s w2)" for i using w' by (simp add: same_files_def)
  note st = job_at_with_status [OF deploymentD(1) [OF assms(1)] assms(2)]
  show ?thesis
  proof (rule that [OF p])
    show "wk_queue w' = wk_queue w" using w' *(1) by (simp add: same_files_def with_status_def)
    show "job_at W (jm_job_id m) w' = Inr (Some (job_record_at W m ?t s (ae_clock (wv_app W) (ap_clock_reads w2))))"
      using st [OF assms(2)] at by simp
    show "terminal (jr_status (job_record_at W m ?t s (ae_clock (wv_app W) (ap_clock_reads w2))))"
      using s reported_terminal by (auto simp: job_record_at_def not_found_status_def terminal_def)
    show "job_at W i w' = job_at W i w" if "is_job_id i" "i \<noteq> jm_job_id m" for i
      unfolding at st [OF that(1)] using that *(2) by simp
  qed
qed

section \<open>No job is lost\<close>

definition on_queue :: "worker_env \<Rightarrow> string \<Rightarrow> 'z worker_state_scheme \<Rightarrow> bool" where
  "on_queue W i w \<longleftrightarrow> (\<exists>body \<in> set (wk_queue w). \<exists>m. wv_message W body = Inr m \<and> jm_job_id m = i)"

definition jobs_inv :: "worker_env \<Rightarrow> 'z worker_state_scheme \<Rightarrow> bool" where
  "jobs_inv W w \<longleftrightarrow> (\<forall>body \<in> set (wk_queue w). \<forall>m. wv_message W body = Inr m \<longrightarrow> is_job_id (jm_job_id m))
     \<and> (\<forall>i. is_job_id i \<longrightarrow> (\<exists>x. job_at W i w = Inr x \<and> (\<forall>r. x = Some r \<longrightarrow> terminal (jr_status r) \<or> on_queue W i w)))"

lemma jobs_inv_same: "jobs_same W w w' \<Longrightarrow> jobs_inv W w \<Longrightarrow> jobs_inv W w'"
  by (simp add: jobs_same_def jobs_inv_def on_queue_def)

lemma handled:
  assumes "deployment_ok W" and "jobs_inv W w" and "body \<in> set (wk_queue w)"
  shows "jobs_inv W (snd (handle_message_body W R body w)) \<and> wk_queue (snd (handle_message_body W R body w)) = wk_queue w
    \<and> (\<forall>m. wv_message W body = Inr m \<longrightarrow>
        (\<exists>r. job_at W (jm_job_id m) (snd (handle_message_body W R body w)) = Inr (Some r) \<and> terminal (jr_status r)))
    \<and> (\<forall>i. is_job_id i \<longrightarrow> job_at W i w \<noteq> Inr None \<longrightarrow> job_at W i (snd (handle_message_body W R body w)) \<noteq> Inr None)"
proof (cases "wv_message W body")
  case (Inl e)
  then show ?thesis using assms(2) by (simp add: handle_message_body_def returnE_def)
next
  case (Inr m)
  have id: "is_job_id (jm_job_id m)" using assms(2,3) Inr by (auto simp: jobs_inv_def)
  then obtain existing where "job_at W (jm_job_id m) w = Inr existing" using assms(2) by (auto simp: jobs_inv_def)
  from processed_jobs [OF assms(1) id this, of R] obtain w' r where w': "process_run_job W R m w = (Inr (), w')" "wk_queue w' = wk_queue w"
    "job_at W (jm_job_id m) w' = Inr (Some r)" "terminal (jr_status r)"
    "\<And>i. is_job_id i \<Longrightarrow> i \<noteq> jm_job_id m \<Longrightarrow> job_at W i w' = job_at W i w" by blast
  have "jobs_inv W w'" unfolding jobs_inv_def
  proof (intro conjI allI impI)
    show "\<forall>body\<in>set (wk_queue w'). \<forall>m. wv_message W body = Inr m \<longrightarrow> is_job_id (jm_job_id m)"
      using assms(2) w'(2) by (simp add: jobs_inv_def)
    fix i assume i: "is_job_id i"
    show "\<exists>x. job_at W i w' = Inr x \<and> (\<forall>r. x = Some r \<longrightarrow> terminal (jr_status r) \<or> on_queue W i w')"
      using w' assms(2) i by (cases "i = jm_job_id m") (auto simp: jobs_inv_def on_queue_def)
  qed
  moreover have "job_at W i w' \<noteq> Inr None" if "is_job_id i" "job_at W i w \<noteq> Inr None" for i
    using w'(3,5) that by (cases "i = jm_job_id m") simp_all
  ultimately show ?thesis using Inr w' by (simp add: handle_message_body_def best_effort_def)
qed

text \<open>Every operation keeps the invariant.\<close>

definition inv_kept :: "worker_env \<Rightarrow> 'z worker_state_scheme \<Rightarrow> 'z worker_state_scheme \<Rightarrow> bool" where
  "inv_kept W w w' \<longleftrightarrow> (jobs_inv W w \<longrightarrow> jobs_inv W w')"

interpretation kept: effect_frame "inv_kept W"
  by unfold_locales (auto simp: inv_kept_def)

lemma kept_files: "abides same_files m \<Longrightarrow> abides (inv_kept W) m"
  by (simp add: abides_def inv_kept_def) (metis jobs_inv_same jobs_same_files)

lemma kept_queue_job:
  assumes "deployment_ok W"
  shows "abides (inv_kept W) (queue_job W x ctx u)"
  unfolding abides_def inv_kept_def
proof (intro allI impI)
  fix w :: "'z worker_state_scheme"
  assume inv: "jobs_inv W w"
  let ?i = "''JOB-'' @ ae_uuid (wv_app W) (ap_uuid_reads w)" and ?now = "ae_clock (wv_app W) (ap_clock_reads w)"
  let ?r = "\<lparr>jr_job_id = ?i, jr_experiment_id = x, jr_execution_context = ctx, jr_status = JS_QUEUED,
       jr_submitted_at = ?now, jr_updated_at = ?now, jr_result = None, jr_error = None\<rparr>"
  let ?m = "\<lparr>jm_job_id = ?i, jm_experiment_id = x, jm_execution_context = ctx,
       jm_submitted_by_user_id = Some (u_user_id u), jm_submitted_by_username = Some (u_username u)\<rparr>"
  let ?w = "snd (queue_job W x ctx u w)"
  have id: "is_job_id ?i" by (rule deploymentD(3) [OF assms])
  have f: "sd_files ?w = job_saved (wv_jobs W) (wv_jobs_dir W) (ae_uuid (wv_app W) (Suc (ap_uuid_reads w))) ?r (sd_files w)"
    and q: "wk_queue ?w = wk_queue w @ [wv_dump_message W ?m]"
    using deploymentD(4) [OF assms] by (simp_all add: queue_job_def save_job_eq publish_run_job_def app_m_defs Let_def)
  have at: "job_at W i ?w = (if i = ?i then Inr (Some ?r) else job_at W i w)" if "is_job_id i" for i
    unfolding f using job_load_saved [OF deploymentD(1) [OF assms], of ?r i] id that by simp
  show "jobs_inv W ?w"
    unfolding jobs_inv_def
  proof (intro conjI allI impI ballI)
    fix body m assume "body \<in> set (wk_queue ?w)" "wv_message W body = Inr m"
    then show "is_job_id (jm_job_id m)" using inv id deploymentD(2) [OF assms] by (auto simp: jobs_inv_def q)
  next
    fix i assume i: "is_job_id i"
    have "on_queue W ?i ?w" using deploymentD(2) [OF assms, of ?m] by (force simp: on_queue_def q)
    moreover have "on_queue W i w \<Longrightarrow> on_queue W i ?w" by (auto simp: on_queue_def q)
    ultimately show "\<exists>y. job_at W i ?w = Inr y \<and> (\<forall>r. y = Some r \<longrightarrow> terminal (jr_status r) \<or> on_queue W i ?w)"
      unfolding at [OF i] using inv i unfolding jobs_inv_def by (cases "i = ?i") (simp, metis)
  qed
qed

lemma kept_audit: "abides (inv_kept W) (audit_record E a b c d e f g h i j)"
  by (rule kept_files [OF files_kept_env(3)])

lemma kept_submit: "deployment_ok W \<Longrightarrow> abides (inv_kept W) (submit_run W R tok rq i ctx)"
  unfolding submit_run_def
  by (intro kept.resp_rules kept_files [OF files_kept_require_role] kept_queue_job kept_audit
      kept_files [OF files_kept_best_effort [OF files_kept_event]])

lemma kept_materialise:
  assumes "deployment_ok W" and "is_experiment_id (ev_experiment_id v)"
  shows "abides (inv_kept W) (materialise_to_experiments_dir (wv_codec W) (wv_experiments_dir W) v)"
  unfolding abides_def inv_kept_def
proof (intro allI impI)
  fix w :: "'z worker_state_scheme"
  assume inv: "jobs_inv W w"
  let ?p = "path_join (wv_experiments_dir W) (ev_experiment_id v @ ''.json'')"
  let ?w = "snd (materialise_to_experiments_dir (wv_codec W) (wv_experiments_dir W) v w)"
  have "good_part (ev_experiment_id v @ ''.json'')" using experiment_id_good [OF assms(2)] by (auto simp: good_part_def)
  then have p: "?p = PyPath (path_root (wv_experiments_dir W)) (path_parts (wv_experiments_dir W) @ [ev_experiment_id v @ ''.json''])"
    by (rule path_join_good)
  have "job_path (wv_jobs_dir W) i \<noteq> ?p" if "is_job_id i" for i
    using deploymentD(5) [OF assms(1)] by (auto simp: p job_path_parts [OF that] intro: pypath.expand)
  then have "jobs_same W w ?w"
    by (simp add: jobs_same_def materialise_to_experiments_dir_def app_m_defs Let_def tbl_get_upsert job_load_def)
  then show "jobs_inv W ?w" using inv by (rule jobs_inv_same)
qed

lemma get_version_valid: "get_version i w = (Inr (Some v), w') \<Longrightarrow> is_experiment_id (ev_experiment_id v)"
  by (auto simp: get_version_def app_m_defs validate_version_iff split: option.splits sum.splits dest!: version_from_orm_Inr)

lemma files_kept_get_version: "abides same_files (get_version i)"
  unfolding get_version_def by (intro files_kept_rules)

lemma kept_found:
  "(\<And>v. found = Some v \<Longrightarrow> abides (inv_kept W) (f v)) \<Longrightarrow> abides (inv_kept W) (case found of None \<Rightarrow> raiseE x | Some v \<Rightarrow> f v)"
  by (cases found) (simp_all add: kept.resp_pure)

lemma kept_submit_version:
  assumes "deployment_ok W"
  shows "abides (inv_kept W) (submit_experiment_version_run W tok rq i)"
  unfolding submit_experiment_version_run_def
  apply (rule kept.resp_bind [OF kept_files [OF files_kept_require_role]])
  apply (rule kept.resp_bind_value [OF kept_files [OF files_kept_get_version]], rule kept_found)
  apply (rule kept.resp_branches(1) [OF kept.resp_pure(4)], rule kept.resp_bind, rule kept_materialise [OF assms], rule get_version_valid, simp)
  apply (intro kept.resp_bind kept_queue_job [OF assms] kept_audit kept.resp_pure)
  done

lemma delivered:
  assumes "deployment_ok W" and "jobs_inv W w"
  shows "jobs_inv W (deliver W R w)" "jobs_inv W (acknowledge (deliver W R w))"
    "wk_queue (acknowledge (deliver W R w)) = tl (wk_queue w)"
    "is_job_id i \<Longrightarrow> job_at W i w \<noteq> Inr None \<Longrightarrow> job_at W i (acknowledge (deliver W R w)) \<noteq> Inr None"
proof -
  have all: "jobs_inv W (deliver W R w) \<and> jobs_inv W (acknowledge (deliver W R w)) \<and> wk_queue (acknowledge (deliver W R w)) = tl (wk_queue w)
      \<and> (is_job_id i \<longrightarrow> job_at W i w \<noteq> Inr None \<longrightarrow> job_at W i (acknowledge (deliver W R w)) \<noteq> Inr None)"
  proof (cases "wk_queue w")
    case Nil
    have "jobs_same W w (acknowledge w)" using Nil by (simp add: jobs_same_def acknowledge_def)
    then have "jobs_inv W (acknowledge w)" using assms(2) by (rule jobs_inv_same)
    then show ?thesis using Nil assms(2) by (simp add: deliver_def) (simp add: acknowledge_def)
  next
    case (Cons body rest)
    let ?w = "snd (handle_message_body W R body w)"
    from handled [OF assms, where body = body and R = R] Cons have inv: "jobs_inv W ?w" and q: "wk_queue ?w = body # rest"
      and done': "\<And>m. wv_message W body = Inr m \<Longrightarrow> \<exists>r. job_at W (jm_job_id m) ?w = Inr (Some r) \<and> terminal (jr_status r)"
      and some: "is_job_id i \<Longrightarrow> job_at W i w \<noteq> Inr None \<Longrightarrow> job_at W i ?w \<noteq> Inr None" by auto
    have at: "job_at W j (acknowledge ?w) = job_at W j ?w" for j by (simp add: acknowledge_def)
    have "jobs_inv W (acknowledge ?w)"
      unfolding jobs_inv_def
    proof (intro conjI allI impI ballI)
      fix b m assume "b \<in> set (wk_queue (acknowledge ?w))" "wv_message W b = Inr m"
      then show "is_job_id (jm_job_id m)" using inv q by (simp add: acknowledge_def jobs_inv_def)
    next
      fix j assume j: "is_job_id j"
      then obtain x where x: "job_at W j ?w = Inr x" "\<And>r. x = Some r \<Longrightarrow> terminal (jr_status r) \<or> on_queue W j ?w"
        using inv by (auto simp: jobs_inv_def)
      have "on_queue W j (acknowledge ?w)" if "on_queue W j ?w" "x = Some r" "\<not> terminal (jr_status r)" for r
        using that done' x(1) q by (auto simp: on_queue_def acknowledge_def)
      then show "\<exists>x. job_at W j (acknowledge ?w) = Inr x \<and> (\<forall>r. x = Some r \<longrightarrow> terminal (jr_status r) \<or> on_queue W j (acknowledge ?w))"
        using x unfolding at by blast
    qed
    then show ?thesis using inv some q Cons unfolding at by (simp add: deliver_def) (simp add: acknowledge_def)
  qed
  then show "jobs_inv W (deliver W R w)" "jobs_inv W (acknowledge (deliver W R w))"
    "wk_queue (acknowledge (deliver W R w)) = tl (wk_queue w)"
    "is_job_id i \<Longrightarrow> job_at W i w \<noteq> Inr None \<Longrightarrow> job_at W i (acknowledge (deliver W R w)) \<noteq> Inr None" by blast+
qed

lemma died:
  assumes "deployment_ok W" and "jobs_inv W w"
  shows "jobs_inv W (die_running W w)"
proof -
  have "jobs_inv W (started W m existing w)" if q: "wk_queue w = body # rest" "wv_message W body = Inr m" for body rest m existing
  proof -
    have id: "is_job_id (jm_job_id m)" using assms(2) q by (auto simp: jobs_inv_def)
    note st = started_jobs [OF assms(1) id]
    have "on_queue W (jm_job_id m) (started W m existing w)" using q by (auto simp: on_queue_def st(1))
    moreover have "on_queue W i (started W m existing w) = on_queue W i w" for i by (simp add: on_queue_def st(1))
    ultimately show ?thesis
      using assms(2) st(1,2) st(3) [where w = w and existing = existing] unfolding jobs_inv_def by metis
  qed
  then show ?thesis using assms(2) by (auto simp: die_running_def split: list.split sum.split)
qed

lemma kept_step: "abides (inv_kept W) m \<Longrightarrow> jobs_inv W w \<Longrightarrow> jobs_inv W (snd (m w))"
  by (simp add: abides_def inv_kept_def)

lemma job_op_inv:
  assumes "deployment_ok W" and "jobs_inv W w"
  shows "jobs_inv W (job_op_step W R x w)"
  using assms by (cases x) (simp_all add: kept_step kept_submit kept_submit_version delivered died)


section \<open>When the broker fails\<close>

text \<open>The job is saved before it is published: a request that fails at the broker leaves a job that is queued on file alone.\<close>

lemma publish_failure_orphans_job:
  assumes "job_codec_ok (wv_jobs W)" and "is_job_id (''JOB-'' @ ae_uuid (wv_app W) (ap_uuid_reads w))" and "wv_broker_fails W (wk_published w)"
  shows "\<exists>e w' r. queue_job W x ctx u w = (Inl e, w') \<and> wk_queue w' = wk_queue w
    \<and> job_at W (''JOB-'' @ ae_uuid (wv_app W) (ap_uuid_reads w)) w' = Inr (Some r) \<and> jr_status r = JS_QUEUED"
proof -
  let ?i = "''JOB-'' @ ae_uuid (wv_app W) (ap_uuid_reads w)" and ?now = "ae_clock (wv_app W) (ap_clock_reads w)"
  let ?r = "\<lparr>jr_job_id = ?i, jr_experiment_id = x, jr_execution_context = ctx, jr_status = JS_QUEUED,
       jr_submitted_at = ?now, jr_updated_at = ?now, jr_result = None, jr_error = None\<rparr>"
  let ?w = "snd (queue_job W x ctx u w)"
  have "sd_files ?w = job_saved (wv_jobs W) (wv_jobs_dir W) (ae_uuid (wv_app W) (Suc (ap_uuid_reads w))) ?r (sd_files w)"
    "fst (queue_job W x ctx u w) = Inl (OtherError ''AMQPConnectionError'' [])" "wk_queue ?w = wk_queue w"
    using assms(3) by (simp_all add: queue_job_def save_job_eq publish_run_job_def app_m_defs Let_def)
  then show ?thesis using job_load_saved [OF assms(1) _ assms(2), of ?r] assms(2)
    by (intro exI [of _ "OtherError ''AMQPConnectionError'' []"] exI [of _ ?w] exI [of _ ?r]) (simp add: prod_eq_iff)
qed

text \<open>
  The request records that the job is queued after publishing it, and the table of runs takes the status
  of the last event: a worker that is faster than the request leaves a finished run that is shown as queued.
\<close>

lemma late_queued_event:
  assumes "\<not> fails (rr_calls w)"
  shows "map_option rn_current_status (tbl_get rn_job_id i (rr_runs (snd (record_event E (PostgresRunRepository fails) i x RE_QUEUED c d w)))) = Some RE_QUEUED"
  using assms by (simp add: record_event_def postgres_record_event_def app_m_defs Let_def append_run_event_def tbl_get_upsert_run)

end
