(* ===== verification/Job_Stream.thy ===== *)
theory Job_Stream
  imports Job_Queue
begin

text \<open>
  The event stream of a job (\<open>GET /jobs/{job_id}/events\<close> of \<open>api/routes/jobs.py\<close>): a loop that polls the
  recorded events and the job's file once a second, for at most 300 seconds. What the loop sees depends on
  the worker; the observations of each poll are arguments. Then examples for the theory of jobs.
\<close>

section \<open>The loop\<close>

datatype stream_message = RunEventMessage run_event | JobTerminalMessage job_status "string option" | StreamTimeoutMessage

definition MAX_STREAM_SECONDS :: float64 where "MAX_STREAM_SECONDS = 300"
definition POLL_INTERVAL_SECONDS :: float64 where "POLL_INTERVAL_SECONDS = 1"

text \<open>
  \<open>_generate\<close>: \<open>k\<close> counts the polls. The sums of the interval are integers below \<open>2 ^ 53\<close>, so they are exact.
  The second component is the exception that ends the stream, if one does.
\<close>

function stream_loop :: "(nat \<Rightarrow> run_event list) \<Rightarrow> (nat \<Rightarrow> exn + job_record option) \<Rightarrow> nat \<Rightarrow> nat \<Rightarrow> float64 \<Rightarrow> stream_message list \<times> exn option" where
  "stream_loop events job k seen elapsed =
     (if elapsed < MAX_STREAM_SECONDS
      then
        let out = map RunEventMessage (drop seen (events k));
            continue = (case stream_loop events job (Suc k) (length (events k)) (elapsed + POLL_INTERVAL_SECONDS) of (rest, e) \<Rightarrow> (out @ rest, e))
        in (case job k of
              Inl e \<Rightarrow> (out, Some e)
            | Inr None \<Rightarrow> continue
            | Inr (Some r) \<Rightarrow>
                if terminal (jr_status r) then (out @ [JobTerminalMessage (jr_status r) (jr_error r)], None) else continue)
      else ([StreamTimeoutMessage], None))"
  by pat_completeness auto

termination
proof (relation "measure (\<lambda>(_, _, _, _, elapsed). nat \<lceil>MAX_STREAM_SECONDS - elapsed\<rceil>)")
  fix elapsed :: float64
  assume "elapsed < MAX_STREAM_SECONDS"
  then have "\<lceil>MAX_STREAM_SECONDS - (elapsed + POLL_INTERVAL_SECONDS)\<rceil> < \<lceil>MAX_STREAM_SECONDS - elapsed\<rceil>" "0 < \<lceil>MAX_STREAM_SECONDS - elapsed\<rceil>"
    by (simp_all add: POLL_INTERVAL_SECONDS_def diff_diff_eq [symmetric] del: diff_diff_eq)
  then show "((events, job, Suc k, length (events k), elapsed + POLL_INTERVAL_SECONDS), (events, job, k, seen, elapsed))
      \<in> measure (\<lambda>(_, _, _, _, elapsed). nat \<lceil>MAX_STREAM_SECONDS - elapsed\<rceil>)"
    for events :: "nat \<Rightarrow> run_event list" and job :: "nat \<Rightarrow> exn + job_record option" and k seen
    by simp
qed simp_all

declare stream_loop.simps [simp del]

definition stream_job_events :: "worker_env \<Rightarrow> string option \<Rightarrow> string \<Rightarrow> (nat \<Rightarrow> run_event list) \<Rightarrow> (nat \<Rightarrow> exn + job_record option)
    \<Rightarrow> ('z, stream_message list \<times> exn option) worker_m" where
  "stream_job_events W token job_id events job =
     bindE (get_job_handler W token job_id) (\<lambda>_. returnE (stream_loop events job 0 0 0))"

section \<open>What a client sees\<close>

fun run_events_of :: "stream_message list \<Rightarrow> run_event list" where
  "run_events_of [] = []"
| "run_events_of (RunEventMessage ev # ms) = ev # run_events_of ms"
| "run_events_of (_ # ms) = run_events_of ms"

lemma run_events_of_append: "run_events_of (xs @ ys) = run_events_of xs @ run_events_of ys"
  by (induction xs rule: run_events_of.induct) simp_all

lemma run_events_of_map: "run_events_of (map RunEventMessage evs) = evs"
  by (induction evs) simp_all

text \<open>The job as the \<open>k\<close>-th poll sees it has ended.\<close>

definition ended :: "exn + job_record option \<Rightarrow> bool" where
  "ended j \<longleftrightarrow> (\<exists>r. j = Inr (Some r) \<and> terminal (jr_status r))"

lemma stream_loop_from:
  assumes "\<And>k. prefix (events k) (events (Suc k))" and "\<And>k e. job k \<noteq> Inl e"
    and "n \<le> 300" and "k = 300 - n" and "seen = (if k = 0 then 0 else length (events (k - 1)))" and "elapsed = of_nat k"
  shows "\<exists>out. stream_loop events job k seen elapsed = (out, None) \<and>
    ((\<exists>m r. k \<le> m \<and> m < 300 \<and> (\<forall>j. k \<le> j \<and> j < m \<longrightarrow> \<not> ended (job j)) \<and> job m = Inr (Some r) \<and> terminal (jr_status r)
        \<and> out = map RunEventMessage (drop seen (events m)) @ [JobTerminalMessage (jr_status r) (jr_error r)])
     \<or> ((\<forall>j. k \<le> j \<and> j < 300 \<longrightarrow> \<not> ended (job j))
        \<and> out = map RunEventMessage (if n = 0 then [] else drop seen (events 299)) @ [StreamTimeoutMessage]))"
  using assms(3-6)
proof (induction n arbitrary: k seen elapsed)
  case 0
  then show ?case by (auto simp: stream_loop.simps [of events job 300] MAX_STREAM_SECONDS_def)
next
  case (Suc n)
  have k: "k < 300" "elapsed < MAX_STREAM_SECONDS" using Suc.prems by (simp_all add: MAX_STREAM_SECONDS_def)
  show ?case
  proof (cases "ended (job k)")
    case True
    then obtain r where "job k = Inr (Some r)" "terminal (jr_status r)" by (auto simp: ended_def)
    then show ?thesis using k
      by (intro exI [of _ "map RunEventMessage (drop seen (events k)) @ [JobTerminalMessage (jr_status r) (jr_error r)]"])
        (auto simp: stream_loop.simps [of events job k] Let_def intro!: exI [of _ k])
  next
    case False
    let ?go = "stream_loop events job (Suc k) (length (events k)) (elapsed + POLL_INTERVAL_SECONDS)"
    have step: "stream_loop events job k seen elapsed = (case ?go of (rest, e) \<Rightarrow> (map RunEventMessage (drop seen (events k)) @ rest, e))"
      using k False assms(2) [of k]
      by (auto simp: stream_loop.simps [of events job k] Let_def ended_def split: sum.split option.split)
    have mono: "prefix (events i) (events j)" if "i \<le> j" for i j
      using that by (induction j rule: dec_induct) (auto intro: prefix_order.trans assms(1))
    have join: "map RunEventMessage (drop seen (events k)) @ map RunEventMessage (drop (length (events k)) (events m)) = map RunEventMessage (drop seen (events m))"
      if m: "k \<le> m" for m
    proof -
      have "seen \<le> length (events k)" using Suc.prems(3) mono [of "k - 1" k] by (auto dest: prefix_length_le)
      moreover obtain zs where "events m = events k @ zs" using mono [OF m] by (auto simp: prefix_def)
      ultimately show ?thesis by simp
    qed
    have pre: "n \<le> 300" "Suc k = 300 - n" "length (events k) = (if Suc k = 0 then 0 else length (events (Suc k - 1)))"
      "elapsed + POLL_INTERVAL_SECONDS = of_nat (Suc k)" using Suc.prems by (simp_all add: POLL_INTERVAL_SECONDS_def)
    from Suc.IH [OF pre] obtain out where out: "?go = (out, None)" and cases:
      "(\<exists>m r. Suc k \<le> m \<and> m < 300 \<and> (\<forall>j. Suc k \<le> j \<and> j < m \<longrightarrow> \<not> ended (job j)) \<and> job m = Inr (Some r) \<and> terminal (jr_status r)
          \<and> out = map RunEventMessage (drop (length (events k)) (events m)) @ [JobTerminalMessage (jr_status r) (jr_error r)])
       \<or> ((\<forall>j. Suc k \<le> j \<and> j < 300 \<longrightarrow> \<not> ended (job j))
          \<and> out = map RunEventMessage (if n = 0 then [] else drop (length (events k)) (events 299)) @ [StreamTimeoutMessage])"
      by blast
    have first: "\<not> ended (job j)" if "k \<le> j" "\<And>i. Suc k \<le> i \<Longrightarrow> i \<le> j \<Longrightarrow> \<not> ended (job i)" for j
      using that False by (cases "j = k") auto
    from cases show ?thesis
    proof
      assume "\<exists>m r. Suc k \<le> m \<and> m < 300 \<and> (\<forall>j. Suc k \<le> j \<and> j < m \<longrightarrow> \<not> ended (job j)) \<and> job m = Inr (Some r) \<and> terminal (jr_status r)
          \<and> out = map RunEventMessage (drop (length (events k)) (events m)) @ [JobTerminalMessage (jr_status r) (jr_error r)]"
      then obtain m r where m: "Suc k \<le> m" "m < 300" "\<forall>j. Suc k \<le> j \<and> j < m \<longrightarrow> \<not> ended (job j)" "job m = Inr (Some r)" "terminal (jr_status r)"
        "out = map RunEventMessage (drop (length (events k)) (events m)) @ [JobTerminalMessage (jr_status r) (jr_error r)]" by blast
      have "\<forall>j. k \<le> j \<and> j < m \<longrightarrow> \<not> ended (job j)" using m(3) first by (meson le_less_trans)
      then show ?thesis using step out m join [of m] by (auto intro!: exI [of _ m])
    next
      assume t: "(\<forall>j. Suc k \<le> j \<and> j < 300 \<longrightarrow> \<not> ended (job j))
          \<and> out = map RunEventMessage (if n = 0 then [] else drop (length (events k)) (events 299)) @ [StreamTimeoutMessage]"
      have "\<forall>j. k \<le> j \<and> j < 300 \<longrightarrow> \<not> ended (job j)" using t first by (meson le_less_trans)
      moreover have "n = 0 \<Longrightarrow> k = 299" using Suc.prems by simp
      ultimately show ?thesis using step out t join [of 299] k by auto
    qed
  qed
qed

text \<open>
  C39. The stream is faithful and ends. Provided that the recorded events of a job only grow and its file stays
  readable, the stream always ends, after at most 300 polls: the run events it sends are exactly the
  events that were recorded when it last polled, each once and in order, and its last message is the status
  and error of the job at the first poll that found it ended, or the timeout if none of 300 polls did.
\<close>

theorem stream_ends_faithful:
  assumes "\<And>k. prefix (events k) (events (Suc k))" and "\<And>k e. job k \<noteq> Inl e"
  shows "\<exists>out m last_message. stream_loop events job 0 0 0 = (out, None) \<and> m < 300 \<and> out = map RunEventMessage (events m) @ [last_message]
    \<and> (\<forall>j < m. \<not> ended (job j))
    \<and> (case job m of Inr (Some r) \<Rightarrow> (if terminal (jr_status r) then last_message = JobTerminalMessage (jr_status r) (jr_error r)
         else m = 299 \<and> last_message = StreamTimeoutMessage) | _ \<Rightarrow> m = 299 \<and> last_message = StreamTimeoutMessage)"
proof -
  from stream_loop_from [where n = 300 and k = 0 and seen = 0 and elapsed = 0 and events = events and job = job, OF assms]
  obtain out where out: "stream_loop events job 0 0 0 = (out, None)" and c:
    "(\<exists>m r. m < 300 \<and> (\<forall>j < m. \<not> ended (job j)) \<and> job m = Inr (Some r) \<and> terminal (jr_status r)
        \<and> out = map RunEventMessage (events m) @ [JobTerminalMessage (jr_status r) (jr_error r)])
     \<or> ((\<forall>j < 300. \<not> ended (job j)) \<and> out = map RunEventMessage (events 299) @ [StreamTimeoutMessage])"
    by auto
  from c show ?thesis
  proof (elim disjE exE conjE)
    fix m r
    assume "m < 300" "\<forall>j < m. \<not> ended (job j)" "job m = Inr (Some r)" "terminal (jr_status r)"
      "out = map RunEventMessage (events m) @ [JobTerminalMessage (jr_status r) (jr_error r)]"
    then show ?thesis using out by (intro exI [of _ out] exI [of _ m] exI [of _ "JobTerminalMessage (jr_status r) (jr_error r)"]) simp
  next
    assume not: "\<forall>j < 300. \<not> ended (job j)" and o: "out = map RunEventMessage (events 299) @ [StreamTimeoutMessage]"
    have "\<not> ended (job 299)" "\<forall>j < 299. \<not> ended (job j)" using not by simp_all
    moreover from this(1) have "job 299 = Inr (Some r) \<Longrightarrow> \<not> terminal (jr_status r)" for r by (simp add: ended_def)
    ultimately show ?thesis using out o
      by (intro exI [of _ out] exI [of _ 299] exI [of _ StreamTimeoutMessage]) (simp split: sum.split option.split)
  qed
qed

text \<open>
  The worker writes the final status before it records the final event: a poll in between closes the stream
  without that event.
\<close>

lemma final_event_after_status:
  assumes "job_codec_ok (wv_jobs W)" and "is_job_id (jm_job_id m)"
  shows "ended (job_at W (jm_job_id m) (with_status W m t (reported r) w))"
    "list_run_events repo (jm_job_id m) (with_status W m t (reported r) w) = list_run_events repo (jm_job_id m) w"
proof -
  show "ended (job_at W (jm_job_id m) (with_status W m t (reported r) w))"
    using reported_terminal [of r] unfolding job_at_with_status [OF assms(1,2,2)] by (simp add: ended_def job_record_at_def)
  show "list_run_events repo (jm_job_id m) (with_status W m t (reported r) w) = list_run_events repo (jm_job_id m) w"
    by (cases repo) (simp_all add: list_run_events_def with_status_def)
qed

section \<open>Examples\<close>

text \<open>Job files do not disturb the discovery of experiments.\<close>

lemma filter_upsert:
  assumes "\<And>x. key x = key r \<Longrightarrow> \<not> P x"
  shows "filter P (tbl_upsert key r t) = filter P t"
proof -
  have "filter P (tbl_modify key (key r) (\<lambda>_. r) t) = filter P t"
    using assms by (induction t) (auto simp: tbl_modify_def)
  moreover have "\<not> P r" using assms by simp
  ultimately show ?thesis by (simp add: tbl_upsert_def split: option.split)
qed

lemma glob_json_other:
  assumes "\<not> (path_root p = path_root dir \<and> butlast (path_parts p) = path_parts dir)"
  shows "glob_json dir (tbl_upsert fst (p, x) fs) = glob_json dir fs" "glob_json dir (filter (\<lambda>f. fst f \<noteq> p) fs) = glob_json dir fs"
  unfolding glob_json_def filter_filter using assms by (auto intro!: filter_upsert filter_cong)

lemma experiment_at_started:
  assumes "is_job_id (jm_job_id m)" and "wv_jobs_dir W \<noteq> wv_experiments_dir W"
  shows "experiment_at W i (started W m existing w) = experiment_at W i w"
proof -
  let ?p = "job_path (wv_jobs_dir W) (jm_job_id m)"
  have dirs: "\<not> (path_root (wv_jobs_dir W) = path_root (wv_experiments_dir W) \<and> path_parts (wv_jobs_dir W) = path_parts (wv_experiments_dir W))"
    using assms(2) by (auto intro: pypath.expand)
  have tmp: "\<not> (path_root (job_tmp_path ?p h) = path_root (wv_experiments_dir W) \<and> butlast (path_parts (job_tmp_path ?p h)) = path_parts (wv_experiments_dir W))" for h
    using dirs unfolding job_tmp_path_parts [OF assms(1)] by simp
  have job: "\<not> (path_root ?p = path_root (wv_experiments_dir W) \<and> butlast (path_parts ?p) = path_parts (wv_experiments_dir W))"
    using dirs unfolding job_path_parts [OF assms(1)] by simp
  have "glob_json (wv_experiments_dir W) (sd_files (with_status W m t s v)) = glob_json (wv_experiments_dir W) (sd_files v)"
    for t s and v :: "'a worker_state_scheme"
    by (simp add: with_status_def job_saved_def job_record_at_def Let_def write_text_def glob_json_other [OF job] glob_json_other [OF tmp])
  then show ?thesis
    by (simp add: started_def find_experiment_def discover_experiments_def json_files_def split: option.split)
qed

instance run_job_message_ext :: (countable) countable
  by (rule countable_classI [of "\<lambda>r. to_nat (jm_job_id r, jm_experiment_id r, jm_execution_context r, jm_submitted_by_user_id r,
    jm_submitted_by_username r, run_job_message.more r)"]) simp

text \<open>A deployment in which the one experiment file is a draft.\<close>

definition demo_worker_env :: worker_env where
  "demo_worker_env = \<lparr>wv_app = demo_app_env\<lparr>ae_uuid := (\<lambda>_. drop 4 demo_job_id)\<rparr>, wv_run = demo_env, wv_codec = demo_codec, wv_jobs = demo_job_codec,
     wv_discovery = demo_discovery\<lparr>de_build := (\<lambda>_. Inr (demo_experiment AS_DRAFT))\<rparr>, wv_cwd = PyPath [] [], wv_experiments_dir = PyPath [] [''experiments''],
     wv_results_root = PyPath [] [''results''], wv_jobs_dir = PyPath [] [''jobs''], wv_stamp = (\<lambda>n. n),
     wv_message = (\<lambda>s. Inr (from_nat (length s))), wv_dump_message = (\<lambda>m. replicate (to_nat m) (CHR ''1'')), wv_broker_fails = (\<lambda>_. False)\<rparr>"

definition demo_worker :: worker_state where
  "demo_worker = assurance_state.extend (demo_assurance\<lparr>sd_files := [(PyPath [] [''experiments'', ''a.json''], [])]\<rparr>)
     \<lparr>wk_run = demo_world, wk_stamps = 0, wk_queue = [], wk_published = 0\<rparr>"

definition demo_recorders :: recorders where
  "demo_recorders = \<lparr>rc_runs = PostgresRunRepository (\<lambda>n. n = 1), rc_assurance = Some (\<lambda>_. False), rc_audit = Some (\<lambda>_. True)\<rparr>"

definition demo_message :: run_job_message where
  "demo_message = \<lparr>jm_job_id = demo_job_id, jm_experiment_id = ''ZC-VPN-EXP-001'', jm_execution_context = EXPERIMENT_RUN,
     jm_submitted_by_user_id = Some ''USER-2'', jm_submitted_by_username = Some ''bob''\<rparr>"

lemma demo_deployment: "deployment_ok demo_worker_env"
  using demo_job_codec_ok demo_job_id_ok by (simp add: deployment_ok_def demo_worker_env_def demo_job_id_def)

lemma demo_worker_files: "sd_files demo_worker = [(PyPath [] [''experiments'', ''a.json''], [])]" "wk_queue demo_worker = []"
  by (simp_all add: demo_worker_def assurance_state.defs)

lemma demo_no_jobs: "is_job_id i \<Longrightarrow> job_at demo_worker_env i demo_worker = Inr None"
  by (simp add: demo_worker_files job_load_def tbl_get_Cons job_path_parts demo_worker_env_def)

lemma demo_message_id: "is_job_id (jm_job_id demo_message)"
  by (simp add: demo_message_def demo_job_id_ok)

lemma demo_draft_file: "file_experiment (wv_discovery demo_worker_env) c = Some (demo_experiment AS_DRAFT)"
  using demo_experiment_valid [of AS_DRAFT]
  by (simp add: file_experiment_def definition_model_validate_def demo_worker_env_def demo_discovery_def)

lemma demo_draft_found: "experiment_at demo_worker_env ''ZC-VPN-EXP-001'' demo_worker = Some (demo_experiment AS_DRAFT)"
proof -
  have "ed_experiment_id (demo_experiment AS_DRAFT) = ''ZC-VPN-EXP-001''" by (simp add: demo_experiment_def)
  moreover have "json_files (wv_experiments_dir demo_worker_env) (sd_files demo_worker) = [(PyPath [] [''experiments'', ''a.json''], [])]"
    by (simp add: json_files_def glob_json_def demo_worker_files demo_worker_env_def sorted_by_def suffix_def)
  ultimately show ?thesis
    by (simp add: find_experiment_def discover_experiments_def discover_files_experiments List.map_filter_simps demo_draft_file del: discover_files.simps)
qed

theorem processed_job_terminal_witness:
  "\<exists>w' r. process_run_job demo_worker_env demo_recorders demo_message demo_worker = (Inr (), w')
     \<and> job_at demo_worker_env demo_job_id w' = Inr (Some r) \<and> terminal (jr_status r)"
  using processed_job_terminal [OF deploymentD(1) [OF demo_deployment] demo_message_id demo_no_jobs [OF demo_message_id], of demo_recorders]
  by (auto simp: demo_message_def)

theorem unsafe_job_refused_witness:
  "\<exists>w' r. process_run_job demo_worker_env demo_recorders demo_message demo_worker = (Inr (), w')
     \<and> job_at demo_worker_env demo_job_id w' = Inr (Some r) \<and> jr_status r \<in> {JS_DENIED, JS_FAILED}"
proof -
  have found: "experiment_at demo_worker_env (jm_experiment_id demo_message) (started demo_worker_env demo_message None demo_worker)
      = Some (demo_experiment AS_DRAFT)"
    using demo_draft_found by (simp add: experiment_at_started demo_message_id deploymentD(5) demo_deployment) (simp add: demo_message_def)
  have unsafe: "\<not> safe_to_run (demo_experiment AS_DRAFT) (jm_execution_context demo_message)"
    by (simp add: safe_to_run_def demo_experiment_def demo_message_def)
  from unsafe_job_refused [OF deploymentD(1) [OF demo_deployment] demo_message_id demo_no_jobs [OF demo_message_id] found unsafe, of demo_recorders]
  show ?thesis by (auto simp: demo_message_def)
qed


definition demo_queued :: run_event where
  "demo_queued = \<lparr>rv_run_id = demo_job_id, rv_experiment_id = ''ZC-VPN-EXP-001'', rv_event_type = RE_QUEUED, rv_occurred_at = 0, rv_detail = None\<rparr>"

definition demo_seen :: "nat \<Rightarrow> exn + job_record option" where
  "demo_seen k = Inr (if k < 2 then None else Some (demo_job JS_COMPLETED))"

theorem stream_ends_faithful_witness:
  "\<exists>m. stream_loop (\<lambda>k. take k [demo_queued]) demo_seen 0 0 0 = (map RunEventMessage (take m [demo_queued]) @ [JobTerminalMessage JS_COMPLETED None], None)"
proof -
  have p: "prefix (take k [demo_queued]) (take (Suc k) [demo_queued])" for k by (cases k) simp_all
  have j: "demo_seen k \<noteq> Inl e" for k e by (simp add: demo_seen_def)
  from stream_ends_faithful [where events = "\<lambda>k. take k [demo_queued]" and job = demo_seen, OF p j]
  obtain out m l where o: "stream_loop (\<lambda>k. take k [demo_queued]) demo_seen 0 0 0 = (out, None)" "out = map RunEventMessage (take m [demo_queued]) @ [l]"
    and l: "case demo_seen m of Inr (Some r) \<Rightarrow> (if terminal (jr_status r) then l = JobTerminalMessage (jr_status r) (jr_error r)
         else m = 299 \<and> l = StreamTimeoutMessage) | _ \<Rightarrow> m = 299 \<and> l = StreamTimeoutMessage" by blast
  from l have "l = JobTerminalMessage JS_COMPLETED None"
    by (cases "m < 2") (simp_all add: demo_seen_def demo_job_def terminal_def)
  then show ?thesis using o by blast
qed

end
