(* ===== verification/Api.thy ===== *)
theory Api
  imports Assurance_Routes Account_Routes Experiment_Routes Job_Stream
begin

text \<open>
  The whole HTTP interface (\<open>api/app.py\<close>): the health routes (\<open>api/routes/health.py\<close>), the request a client
  can make for every route but the Prometheus page, and what the access rules of all routes together guarantee. The
  state is the one of the platform; what a route returns is left out here, since its handler says it.
\<close>

section \<open>Health\<close>

record dependency_health =
  dh_name :: string
  dh_available :: bool
  dh_detail :: "string option"
  dh_checked_at :: string

text \<open>What the probes find: the database, the number of consumers of the run queue, the object store.\<close>

record probes =
  pb_database :: "exn + unit"
  pb_consumers :: "exn + nat"
  pb_minio :: "exn + unit"
  pb_exc_text :: "exn \<Rightarrow> string"

definition RUN_JOB_QUEUE_NAME :: string where "RUN_JOB_QUEUE_NAME = ''zeroshield.experiment_runs''"

definition get_health :: "string \<times> string" where "get_health = (''healthy'', ''zeroshield'')"

definition now_iso :: "app_env \<Rightarrow> ('z app_state_scheme, exn, string) eff" where
  "now_iso E = bindE (utc_now E) (\<lambda>t. returnE (datetime_iso t))"

definition check_api :: "app_env \<Rightarrow> ('z app_state_scheme, exn, dependency_health) eff" where
  "check_api E = bindE (now_iso E) (\<lambda>t. returnE \<lparr>dh_name = ''api'', dh_available = True, dh_detail = None, dh_checked_at = t\<rparr>)"

definition check_database :: "app_env \<Rightarrow> (string \<Rightarrow> string option) \<Rightarrow> probes \<Rightarrow> ('z app_state_scheme, exn, dependency_health) eff" where
  "check_database E environ B =
     bindE (now_iso E) (\<lambda>checked_at.
     returnE (
       if (case environ ''DATABASE_URL'' of None \<Rightarrow> True | Some url \<Rightarrow> url = [])
       then \<lparr>dh_name = ''database'', dh_available = False, dh_detail = Some ''DATABASE_URL is not configured'', dh_checked_at = checked_at\<rparr>
       else (case pb_database B of
           Inr _ \<Rightarrow> \<lparr>dh_name = ''database'', dh_available = True, dh_detail = None, dh_checked_at = checked_at\<rparr>
         | Inl exc \<Rightarrow> \<lparr>dh_name = ''database'', dh_available = False, dh_detail = Some (pb_exc_text B exc), dh_checked_at = checked_at\<rparr>)))"

definition check_rabbitmq_and_worker :: "app_env \<Rightarrow> probes \<Rightarrow> ('z app_state_scheme, exn, dependency_health \<times> dependency_health) eff" where
  "check_rabbitmq_and_worker E B =
     bindE (now_iso E) (\<lambda>checked_at.
     returnE (case pb_consumers B of
         Inl exc \<Rightarrow>
           (\<lparr>dh_name = ''rabbitmq'', dh_available = False, dh_detail = Some (pb_exc_text B exc), dh_checked_at = checked_at\<rparr>,
            \<lparr>dh_name = ''worker'', dh_available = False, dh_detail = Some ''cannot be checked: rabbitmq is unreachable'', dh_checked_at = checked_at\<rparr>)
       | Inr n \<Rightarrow>
           (\<lparr>dh_name = ''rabbitmq'', dh_available = True, dh_detail = None, dh_checked_at = checked_at\<rparr>,
            \<lparr>dh_name = ''worker'', dh_available = (0 < n),
             dh_detail = Some (nat_digits n @ '' consumer(s) attached to queue '' @ quoted RUN_JOB_QUEUE_NAME), dh_checked_at = checked_at\<rparr>)))"

definition check_minio :: "app_env \<Rightarrow> (string \<Rightarrow> string option) \<Rightarrow> probes \<Rightarrow> ('z app_state_scheme, exn, dependency_health) eff" where
  "check_minio E environ B =
     bindE (now_iso E) (\<lambda>checked_at.
     returnE (
       if str_lower (str_strip (case environ ''ZEROSHIELD_EVIDENCE_BACKEND'' of None \<Rightarrow> ''local'' | Some v \<Rightarrow> v)) \<noteq> ''minio''
       then \<lparr>dh_name = ''minio'', dh_available = False,
          dh_detail = Some ''ZEROSHIELD_EVIDENCE_BACKEND is not 'minio' (evidence is stored on the local filesystem)'', dh_checked_at = checked_at\<rparr>
       else (case pb_minio B of
           Inr _ \<Rightarrow> \<lparr>dh_name = ''minio'', dh_available = True, dh_detail = None, dh_checked_at = checked_at\<rparr>
         | Inl exc \<Rightarrow> \<lparr>dh_name = ''minio'', dh_available = False, dh_detail = Some (pb_exc_text B exc), dh_checked_at = checked_at\<rparr>)))"

definition get_system_status :: "app_env \<Rightarrow> (string \<Rightarrow> string option) \<Rightarrow> probes \<Rightarrow> ('z app_state_scheme, exn, dependency_health list) eff" where
  "get_system_status E environ B =
     bindE (check_rabbitmq_and_worker E B) (\<lambda>(rabbitmq, worker).
     bindE (check_api E) (\<lambda>a.
     bindE (check_database E environ B) (\<lambda>d.
     bindE (check_minio E environ B) (\<lambda>m.
     returnE [a, d, rabbitmq, worker, m]))))"

section \<open>The platform\<close>

record platform =
  pf_worker :: worker_env
  pf_recorders :: recorders
  pf_analyst :: analyst_env
  pf_generator :: generator_env
  pf_templates :: template_registry
  pf_config :: "string \<Rightarrow> pydict \<Rightarrow> exn + generator_config"
  pf_connectors :: connector_env
  pf_url :: "string \<Rightarrow> string option"
  pf_evidence :: file_reader
  pf_environ :: "string \<Rightarrow> string option"
  pf_probes :: probes
  pf_hash :: "string \<Rightarrow> string"
  pf_stream_events :: "string \<Rightarrow> nat \<Rightarrow> run_event list"
  pf_stream_jobs :: "string \<Rightarrow> nat \<Rightarrow> exn + job_record option"

definition void :: "('s, exn, 'a) eff \<Rightarrow> ('s, exn, unit) eff" where
  "void m = bindE m (\<lambda>_. returnE ())"

text \<open>
  A constructor for each route, a datatype for each group of routes; the roles that a route admits (\<open>None\<close> for
  the public ones); and the routes that only read: queries, checks and previews, and the download of evidence, which is
  audited.
\<close>

subsection \<open>The routes of \<open>health.py\<close>, \<open>auth.py\<close> and \<open>audit.py\<close>\<close>

datatype account_request =
    Health
  | SystemStatus
  | Login string string "string option" "string option"
  | Logout
  | Me
  | ListUsers
  | CreateUser create_user_request
  | UpdateUserRole string string
  | UpdateUserActive string bool
  | ListAuditEvents audit_filter int int

primrec account_api :: "platform \<Rightarrow> string option \<Rightarrow> string option \<Rightarrow> account_request \<Rightarrow> ('z, unit) worker_m" where
  "account_api P token rq Health =
     returnE ()"
| "account_api P token rq SystemStatus =
     void (get_system_status (wv_app (pf_worker P)) (pf_environ P) (pf_probes P))"
| "account_api P token rq (Login a0 a1 a2 a3) =
     void (login_handler (wv_app (pf_worker P)) (pf_environ P) a0 a1 a2 a3 rq)"
| "account_api P token rq Logout =
     void (logout_handler (wv_app (pf_worker P)) token rq)"
| "account_api P token rq Me =
     void (me_handler (wv_app (pf_worker P)) token)"
| "account_api P token rq ListUsers =
     void (list_users_handler (wv_app (pf_worker P)) token)"
| "account_api P token rq (CreateUser a0) =
     void (create_user_handler (wv_app (pf_worker P)) (pf_hash P) token a0 rq)"
| "account_api P token rq (UpdateUserRole a0 a1) =
     void (update_user_role_handler (wv_app (pf_worker P)) token a0 a1 rq)"
| "account_api P token rq (UpdateUserActive a0 a1) =
     void (update_user_active_handler (wv_app (pf_worker P)) token a0 a1 rq)"
| "account_api P token rq (ListAuditEvents a0 a1 a2) =
     void (list_audit_events_handler (wv_app (pf_worker P)) token a0 a1 a2)"

primrec account_roles :: "account_request \<Rightarrow> role list option" where
  "account_roles Health = None"
| "account_roles SystemStatus = None"
| "account_roles (Login a0 a1 a2 a3) = None"
| "account_roles Logout = Some [VIEWER, RESEARCHER, REVIEWER, ADMIN]"
| "account_roles Me = Some [VIEWER, RESEARCHER, REVIEWER, ADMIN]"
| "account_roles ListUsers = Some [ADMIN]"
| "account_roles (CreateUser a0) = Some [ADMIN]"
| "account_roles (UpdateUserRole a0 a1) = Some [ADMIN]"
| "account_roles (UpdateUserActive a0 a1) = Some [ADMIN]"
| "account_roles (ListAuditEvents a0 a1 a2) = Some [ADMIN]"

primrec account_reading :: "account_request \<Rightarrow> bool" where
  "account_reading Health = True"
| "account_reading SystemStatus = True"
| "account_reading (Login a0 a1 a2 a3) = False"
| "account_reading Logout = False"
| "account_reading Me = True"
| "account_reading ListUsers = True"
| "account_reading (CreateUser a0) = False"
| "account_reading (UpdateUserRole a0 a1) = False"
| "account_reading (UpdateUserActive a0 a1) = False"
| "account_reading (ListAuditEvents a0 a1 a2) = True"

subsection \<open>\<open>experiments.py\<close>, \<open>evidence.py\<close>, \<open>jobs.py\<close> and the verdict of \<open>studio.py\<close>\<close>

datatype experiment_request =
    ListExperiments
  | ExperimentDetail string
  | ValidateExperimentRequest string execution_context
  | SubmitRun string execution_context
  | GetResults string
  | GetEvidence string
  | DownloadBundle string
  | GetVerdict string
  | GetJob string
  | ListJobs "string option" int
  | JobEvents string

primrec experiment_api :: "platform \<Rightarrow> string option \<Rightarrow> string option \<Rightarrow> experiment_request \<Rightarrow> ('z, unit) worker_m" where
  "experiment_api P token rq ListExperiments =
     void (list_experiments_handler (pf_worker P) token)"
| "experiment_api P token rq (ExperimentDetail a0) =
     void (get_experiment_detail (pf_worker P) token a0)"
| "experiment_api P token rq (ValidateExperimentRequest a0 a1) =
     void (validate_experiment_handler (pf_worker P) token a0 a1)"
| "experiment_api P token rq (SubmitRun a0 a1) =
     void (submit_run (pf_worker P) (pf_recorders P) token rq a0 a1)"
| "experiment_api P token rq (GetResults a0) =
     void (get_results (pf_worker P) (pf_evidence P) token a0)"
| "experiment_api P token rq (GetEvidence a0) =
     void (get_evidence (pf_worker P) (pf_evidence P) token a0)"
| "experiment_api P token rq (DownloadBundle a0) =
     void (download_evidence_bundle (pf_worker P) (pf_evidence P) token a0 rq)"
| "experiment_api P token rq (GetVerdict a0) =
     void (get_experiment_verdict (pf_worker P) (pf_evidence P) token a0)"
| "experiment_api P token rq (GetJob a0) =
     void (get_job_response (pf_worker P) token a0)"
| "experiment_api P token rq (ListJobs a0 a1) =
     void (list_jobs_response (pf_worker P) token a0 a1)"
| "experiment_api P token rq (JobEvents a0) =
     void (stream_job_events (pf_worker P) token a0 (pf_stream_events P a0) (pf_stream_jobs P a0))"

primrec experiment_roles :: "experiment_request \<Rightarrow> role list option" where
  "experiment_roles ListExperiments = Some [VIEWER, RESEARCHER, REVIEWER, ADMIN]"
| "experiment_roles (ExperimentDetail a0) = Some [VIEWER, RESEARCHER, REVIEWER, ADMIN]"
| "experiment_roles (ValidateExperimentRequest a0 a1) = Some [VIEWER, RESEARCHER, REVIEWER, ADMIN]"
| "experiment_roles (SubmitRun a0 a1) = Some [RESEARCHER, REVIEWER, ADMIN]"
| "experiment_roles (GetResults a0) = Some [VIEWER, RESEARCHER, REVIEWER, ADMIN]"
| "experiment_roles (GetEvidence a0) = Some [VIEWER, RESEARCHER, REVIEWER, ADMIN]"
| "experiment_roles (DownloadBundle a0) = Some [VIEWER, RESEARCHER, REVIEWER, ADMIN]"
| "experiment_roles (GetVerdict a0) = Some [VIEWER, RESEARCHER, REVIEWER, ADMIN]"
| "experiment_roles (GetJob a0) = Some [VIEWER, RESEARCHER, REVIEWER, ADMIN]"
| "experiment_roles (ListJobs a0 a1) = Some [VIEWER, RESEARCHER, REVIEWER, ADMIN]"
| "experiment_roles (JobEvents a0) = Some [VIEWER, RESEARCHER, REVIEWER, ADMIN]"

primrec experiment_reading :: "experiment_request \<Rightarrow> bool" where
  "experiment_reading ListExperiments = True"
| "experiment_reading (ExperimentDetail a0) = True"
| "experiment_reading (ValidateExperimentRequest a0 a1) = True"
| "experiment_reading (SubmitRun a0 a1) = False"
| "experiment_reading (GetResults a0) = True"
| "experiment_reading (GetEvidence a0) = True"
| "experiment_reading (DownloadBundle a0) = True"
| "experiment_reading (GetVerdict a0) = True"
| "experiment_reading (GetJob a0) = True"
| "experiment_reading (ListJobs a0 a1) = True"
| "experiment_reading (JobEvents a0) = True"

subsection \<open>\<open>intelligence.py\<close>\<close>

datatype intelligence_request =
    ListVulnerabilities vulnerability_filter nat nat
  | VulnerabilityDetail string
  | VulnerabilityHistory string
  | VulnerabilityAdvisories string
  | PriorityQueue "domain option" "support_status option" "float64 option" nat nat
  | ListSources
  | ListIntegrations
  | SubmitSync string "string option"
  | ListSyncs nat nat
  | SyncStatus string

primrec intelligence_api :: "platform \<Rightarrow> string option \<Rightarrow> string option \<Rightarrow> intelligence_request \<Rightarrow> ('z, unit) worker_m" where
  "intelligence_api P token rq (ListVulnerabilities a0 a1 a2) =
     void (list_vulnerabilities_handler (wv_app (pf_worker P)) (pf_url P) token a0 a1 a2)"
| "intelligence_api P token rq (VulnerabilityDetail a0) =
     void (get_vulnerability_detail (wv_app (pf_worker P)) (pf_url P) token a0)"
| "intelligence_api P token rq (VulnerabilityHistory a0) =
     void (get_vulnerability_history (wv_app (pf_worker P)) token a0)"
| "intelligence_api P token rq (VulnerabilityAdvisories a0) =
     void (get_vulnerability_advisories (wv_app (pf_worker P)) token a0)"
| "intelligence_api P token rq (PriorityQueue a0 a1 a2 a3 a4) =
     void (get_priority_queue (wv_app (pf_worker P)) token a0 a1 a2 a3 a4)"
| "intelligence_api P token rq ListSources =
     void (list_sources (wv_app (pf_worker P)) (pf_connectors P) token)"
| "intelligence_api P token rq ListIntegrations =
     void (list_integrations (wv_app (pf_worker P)) (pf_connectors P) token)"
| "intelligence_api P token rq (SubmitSync a0 a1) =
     void (submit_sync (wv_app (pf_worker P)) (ce_parse (pf_connectors P)) token a0 a1 rq)"
| "intelligence_api P token rq (ListSyncs a0 a1) =
     void (list_syncs_handler (wv_app (pf_worker P)) token a0 a1)"
| "intelligence_api P token rq (SyncStatus a0) =
     void (get_sync_status (wv_app (pf_worker P)) token a0)"

primrec intelligence_roles :: "intelligence_request \<Rightarrow> role list option" where
  "intelligence_roles (ListVulnerabilities a0 a1 a2) = Some [VIEWER, RESEARCHER, REVIEWER, ADMIN]"
| "intelligence_roles (VulnerabilityDetail a0) = Some [VIEWER, RESEARCHER, REVIEWER, ADMIN]"
| "intelligence_roles (VulnerabilityHistory a0) = Some [VIEWER, RESEARCHER, REVIEWER, ADMIN]"
| "intelligence_roles (VulnerabilityAdvisories a0) = Some [VIEWER, RESEARCHER, REVIEWER, ADMIN]"
| "intelligence_roles (PriorityQueue a0 a1 a2 a3 a4) = Some [VIEWER, RESEARCHER, REVIEWER, ADMIN]"
| "intelligence_roles ListSources = Some [VIEWER, RESEARCHER, REVIEWER, ADMIN]"
| "intelligence_roles ListIntegrations = Some [VIEWER, RESEARCHER, REVIEWER, ADMIN]"
| "intelligence_roles (SubmitSync a0 a1) = Some [RESEARCHER, ADMIN]"
| "intelligence_roles (ListSyncs a0 a1) = Some [VIEWER, RESEARCHER, REVIEWER, ADMIN]"
| "intelligence_roles (SyncStatus a0) = Some [VIEWER, RESEARCHER, REVIEWER, ADMIN]"

primrec intelligence_reading :: "intelligence_request \<Rightarrow> bool" where
  "intelligence_reading (ListVulnerabilities a0 a1 a2) = True"
| "intelligence_reading (VulnerabilityDetail a0) = True"
| "intelligence_reading (VulnerabilityHistory a0) = True"
| "intelligence_reading (VulnerabilityAdvisories a0) = True"
| "intelligence_reading (PriorityQueue a0 a1 a2 a3 a4) = True"
| "intelligence_reading ListSources = True"
| "intelligence_reading ListIntegrations = True"
| "intelligence_reading (SubmitSync a0 a1) = False"
| "intelligence_reading (ListSyncs a0 a1) = True"
| "intelligence_reading (SyncStatus a0) = True"

subsection \<open>The catalogue and the queries of \<open>studio.py\<close>\<close>

datatype catalog_request =
    ListDomainPacks
  | DomainPackTemplates string
  | GetTemplate string string
  | GenerateDataset string int pydict
  | GetVersion string
  | ListVersions "string option" "experiment_version_status option"
  | ApprovalHistory string

primrec catalog_api :: "platform \<Rightarrow> string option \<Rightarrow> string option \<Rightarrow> catalog_request \<Rightarrow> ('z, unit) worker_m" where
  "catalog_api P token rq ListDomainPacks =
     void (list_domain_packs (wv_app (pf_worker P)) token)"
| "catalog_api P token rq (DomainPackTemplates a0) =
     void (domain_pack_templates_handler (wv_app (pf_worker P)) (pf_templates P) token a0)"
| "catalog_api P token rq (GetTemplate a0 a1) =
     void (get_template_handler (wv_app (pf_worker P)) (pf_templates P) token a0 a1)"
| "catalog_api P token rq (GenerateDataset a0 a1 a2) =
     void (generate_dataset_handler (wv_app (pf_worker P)) (pf_generator P) (pf_config P) token a0 a1 a2)"
| "catalog_api P token rq (GetVersion a0) =
     void (get_version_handler (wv_app (pf_worker P)) token a0)"
| "catalog_api P token rq (ListVersions a0 a1) =
     void (list_versions_handler (wv_app (pf_worker P)) token a0 a1)"
| "catalog_api P token rq (ApprovalHistory a0) =
     void (approval_history_handler (wv_app (pf_worker P)) token a0)"

primrec catalog_roles :: "catalog_request \<Rightarrow> role list option" where
  "catalog_roles ListDomainPacks = Some [VIEWER, RESEARCHER, REVIEWER, ADMIN]"
| "catalog_roles (DomainPackTemplates a0) = Some [VIEWER, RESEARCHER, REVIEWER, ADMIN]"
| "catalog_roles (GetTemplate a0 a1) = Some [VIEWER, RESEARCHER, REVIEWER, ADMIN]"
| "catalog_roles (GenerateDataset a0 a1 a2) = Some [RESEARCHER, ADMIN]"
| "catalog_roles (GetVersion a0) = Some [VIEWER, RESEARCHER, REVIEWER, ADMIN]"
| "catalog_roles (ListVersions a0 a1) = Some [VIEWER, RESEARCHER, REVIEWER, ADMIN]"
| "catalog_roles (ApprovalHistory a0) = Some [VIEWER, RESEARCHER, REVIEWER, ADMIN]"

primrec catalog_reading :: "catalog_request \<Rightarrow> bool" where
  "catalog_reading ListDomainPacks = True"
| "catalog_reading (DomainPackTemplates a0) = True"
| "catalog_reading (GetTemplate a0 a1) = True"
| "catalog_reading (GenerateDataset a0 a1 a2) = True"
| "catalog_reading (GetVersion a0) = True"
| "catalog_reading (ListVersions a0 a1) = True"
| "catalog_reading (ApprovalHistory a0) = True"

subsection \<open>The workflow of \<open>studio.py\<close>\<close>

datatype workflow_request =
    CreateVersion draft_request pydict
  | EditVersion string edit_request
  | SubmitReview string "string option"
  | StartReview string "string option"
  | ApproveVersion string "string option"
  | RejectVersion string "string option"
  | RetireVersion string "string option"
  | RunVersion string

primrec workflow_api :: "platform \<Rightarrow> string option \<Rightarrow> string option \<Rightarrow> workflow_request \<Rightarrow> ('z, unit) worker_m" where
  "workflow_api P token rq (CreateVersion a0 a1) =
     void (create_handler (wv_app (pf_worker P)) (pf_generator P) (pf_templates P) (pf_config P) token a0 a1 rq)"
| "workflow_api P token rq (EditVersion a0 a1) =
     void (edit_handler (wv_app (pf_worker P)) token a0 a1 rq)"
| "workflow_api P token rq (SubmitReview a0 a1) =
     void (submit_review_handler (wv_app (pf_worker P)) (wv_codec (pf_worker P)) token a0 a1 rq)"
| "workflow_api P token rq (StartReview a0 a1) =
     void (start_review_handler (wv_app (pf_worker P)) (wv_codec (pf_worker P)) token a0 a1 rq)"
| "workflow_api P token rq (ApproveVersion a0 a1) =
     void (approve_handler (wv_app (pf_worker P)) (wv_codec (pf_worker P)) (wv_experiments_dir (pf_worker P)) token a0 a1 rq)"
| "workflow_api P token rq (RejectVersion a0 a1) =
     void (reject_handler (wv_app (pf_worker P)) (wv_codec (pf_worker P)) token a0 a1 rq)"
| "workflow_api P token rq (RetireVersion a0 a1) =
     void (retire_handler (wv_app (pf_worker P)) (wv_codec (pf_worker P)) token a0 a1 rq)"
| "workflow_api P token rq (RunVersion a0) =
     void (submit_experiment_version_run (pf_worker P) token rq a0)"

primrec workflow_roles :: "workflow_request \<Rightarrow> role list option" where
  "workflow_roles (CreateVersion a0 a1) = Some [RESEARCHER, ADMIN]"
| "workflow_roles (EditVersion a0 a1) = Some [RESEARCHER, ADMIN]"
| "workflow_roles (SubmitReview a0 a1) = Some [RESEARCHER, ADMIN]"
| "workflow_roles (StartReview a0 a1) = Some [REVIEWER, ADMIN]"
| "workflow_roles (ApproveVersion a0 a1) = Some [REVIEWER, ADMIN]"
| "workflow_roles (RejectVersion a0 a1) = Some [REVIEWER, ADMIN]"
| "workflow_roles (RetireVersion a0 a1) = Some [REVIEWER, ADMIN]"
| "workflow_roles (RunVersion a0) = Some [RESEARCHER, REVIEWER, ADMIN]"

primrec workflow_reading :: "workflow_request \<Rightarrow> bool" where
  "workflow_reading (CreateVersion a0 a1) = False"
| "workflow_reading (EditVersion a0 a1) = False"
| "workflow_reading (SubmitReview a0 a1) = False"
| "workflow_reading (StartReview a0 a1) = False"
| "workflow_reading (ApproveVersion a0 a1) = False"
| "workflow_reading (RejectVersion a0 a1) = False"
| "workflow_reading (RetireVersion a0 a1) = False"
| "workflow_reading (RunVersion a0) = False"

subsection \<open>\<open>analyst.py\<close>\<close>

datatype analysis_request =
    AskAnalyst string analyst_request
  | GetCorrelations string
  | ListAssessments "string option" "string option" "string option" "bool option"
  | GetAssessment string
  | ReviewAssessment string "string option"

primrec analysis_api :: "platform \<Rightarrow> string option \<Rightarrow> string option \<Rightarrow> analysis_request \<Rightarrow> ('z, unit) worker_m" where
  "analysis_api P token rq (AskAnalyst a0 a1) =
     void (analyst_post (wv_app (pf_worker P)) (pf_analyst P) (wv_discovery (pf_worker P)) (pf_templates P) (pf_url P) (wv_experiments_dir (pf_worker P)) token a0 a1)"
| "analysis_api P token rq (GetCorrelations a0) =
     void (get_correlations (wv_app (pf_worker P)) (wv_discovery (pf_worker P)) (pf_url P) (wv_experiments_dir (pf_worker P)) token a0)"
| "analysis_api P token rq (ListAssessments a0 a1 a2 a3) =
     void (list_assessments_handler (wv_app (pf_worker P)) token a0 a1 a2 a3)"
| "analysis_api P token rq (GetAssessment a0) =
     void (get_assessment_handler (wv_app (pf_worker P)) token a0)"
| "analysis_api P token rq (ReviewAssessment a0 a1) =
     void (review_assessment (wv_app (pf_worker P)) token a0 a1 rq)"

primrec analysis_roles :: "analysis_request \<Rightarrow> role list option" where
  "analysis_roles (AskAnalyst a0 a1) = Some [RESEARCHER, REVIEWER, ADMIN]"
| "analysis_roles (GetCorrelations a0) = Some [VIEWER, RESEARCHER, REVIEWER, ADMIN]"
| "analysis_roles (ListAssessments a0 a1 a2 a3) = Some [VIEWER, RESEARCHER, REVIEWER, ADMIN]"
| "analysis_roles (GetAssessment a0) = Some [VIEWER, RESEARCHER, REVIEWER, ADMIN]"
| "analysis_roles (ReviewAssessment a0 a1) = Some [RESEARCHER, REVIEWER, ADMIN]"

primrec analysis_reading :: "analysis_request \<Rightarrow> bool" where
  "analysis_reading (AskAnalyst a0 a1) = False"
| "analysis_reading (GetCorrelations a0) = True"
| "analysis_reading (ListAssessments a0 a1 a2 a3) = True"
| "analysis_reading (GetAssessment a0) = True"
| "analysis_reading (ReviewAssessment a0 a1) = False"

subsection \<open>\<open>assets.py\<close> and \<open>controls.py\<close>\<close>

datatype inventory_request =
    ListAssets "bool option" "string option"
  | CreateAsset create_asset_request
  | GetAsset string
  | UpdateAsset string asset_update
  | AffectedAssets string
  | ListControls
  | GetControl string
  | ListControlVersions string
  | ControlEffectiveness string
  | ExplainRegression string

primrec inventory_api :: "platform \<Rightarrow> string option \<Rightarrow> string option \<Rightarrow> inventory_request \<Rightarrow> ('z, unit) worker_m" where
  "inventory_api P token rq (ListAssets a0 a1) =
     void (list_assets_handler (wv_app (pf_worker P)) token a0 a1)"
| "inventory_api P token rq (CreateAsset a0) =
     void (create_asset_handler (wv_app (pf_worker P)) token a0 rq)"
| "inventory_api P token rq (GetAsset a0) =
     void (get_asset_handler (wv_app (pf_worker P)) token a0)"
| "inventory_api P token rq (UpdateAsset a0 a1) =
     void (update_asset_handler (wv_app (pf_worker P)) token a0 a1 rq)"
| "inventory_api P token rq (AffectedAssets a0) =
     void (get_affected_assets (wv_app (pf_worker P)) token a0)"
| "inventory_api P token rq ListControls =
     void (list_controls_handler (wv_app (pf_worker P)) token)"
| "inventory_api P token rq (GetControl a0) =
     void (get_control_handler (wv_app (pf_worker P)) token a0)"
| "inventory_api P token rq (ListControlVersions a0) =
     void (list_control_versions_handler (wv_app (pf_worker P)) token a0)"
| "inventory_api P token rq (ControlEffectiveness a0) =
     void (get_control_effectiveness (wv_app (pf_worker P)) token a0)"
| "inventory_api P token rq (ExplainRegression a0) =
     void (explain_regression_handler (wv_app (pf_worker P)) (pf_analyst P) token a0)"

primrec inventory_roles :: "inventory_request \<Rightarrow> role list option" where
  "inventory_roles (ListAssets a0 a1) = Some [VIEWER, RESEARCHER, REVIEWER, ADMIN]"
| "inventory_roles (CreateAsset a0) = Some [RESEARCHER, ADMIN]"
| "inventory_roles (GetAsset a0) = Some [VIEWER, RESEARCHER, REVIEWER, ADMIN]"
| "inventory_roles (UpdateAsset a0 a1) = Some [RESEARCHER, ADMIN]"
| "inventory_roles (AffectedAssets a0) = Some [VIEWER, RESEARCHER, REVIEWER, ADMIN]"
| "inventory_roles ListControls = Some [VIEWER, RESEARCHER, REVIEWER, ADMIN]"
| "inventory_roles (GetControl a0) = Some [VIEWER, RESEARCHER, REVIEWER, ADMIN]"
| "inventory_roles (ListControlVersions a0) = Some [VIEWER, RESEARCHER, REVIEWER, ADMIN]"
| "inventory_roles (ControlEffectiveness a0) = Some [VIEWER, RESEARCHER, REVIEWER, ADMIN]"
| "inventory_roles (ExplainRegression a0) = Some [RESEARCHER, REVIEWER, ADMIN]"

primrec inventory_reading :: "inventory_request \<Rightarrow> bool" where
  "inventory_reading (ListAssets a0 a1) = True"
| "inventory_reading (CreateAsset a0) = False"
| "inventory_reading (GetAsset a0) = True"
| "inventory_reading (UpdateAsset a0 a1) = False"
| "inventory_reading (AffectedAssets a0) = True"
| "inventory_reading ListControls = True"
| "inventory_reading (GetControl a0) = True"
| "inventory_reading (ListControlVersions a0) = True"
| "inventory_reading (ControlEffectiveness a0) = True"
| "inventory_reading (ExplainRegression a0) = False"

subsection \<open>\<open>revalidation.py\<close>\<close>

datatype revalidation_request =
    ScanControls
  | ListCandidates "string option"
  | CreateCandidate candidate_request
  | GetCandidate string
  | ApproveCandidate string "string option"
  | DismissCandidate string "string option"

primrec revalidation_api :: "platform \<Rightarrow> string option \<Rightarrow> string option \<Rightarrow> revalidation_request \<Rightarrow> ('z, unit) worker_m" where
  "revalidation_api P token rq ScanControls =
     void (scan_handler (wv_app (pf_worker P)) (wv_discovery (pf_worker P)) (ce_parse (pf_connectors P)) (pf_url P) (wv_experiments_dir (pf_worker P)) token)"
| "revalidation_api P token rq (ListCandidates a0) =
     void (list_candidates_handler (wv_app (pf_worker P)) token a0)"
| "revalidation_api P token rq (CreateCandidate a0) =
     void (create_candidate_handler (wv_app (pf_worker P)) token a0)"
| "revalidation_api P token rq (GetCandidate a0) =
     void (get_candidate_handler (wv_app (pf_worker P)) token a0)"
| "revalidation_api P token rq (ApproveCandidate a0 a1) =
     void (approve_candidate_handler (wv_app (pf_worker P)) token a0 a1 rq)"
| "revalidation_api P token rq (DismissCandidate a0 a1) =
     void (dismiss_candidate_handler (wv_app (pf_worker P)) token a0 a1 rq)"

primrec revalidation_roles :: "revalidation_request \<Rightarrow> role list option" where
  "revalidation_roles ScanControls = Some [RESEARCHER, REVIEWER, ADMIN]"
| "revalidation_roles (ListCandidates a0) = Some [VIEWER, RESEARCHER, REVIEWER, ADMIN]"
| "revalidation_roles (CreateCandidate a0) = Some [RESEARCHER, REVIEWER, ADMIN]"
| "revalidation_roles (GetCandidate a0) = Some [VIEWER, RESEARCHER, REVIEWER, ADMIN]"
| "revalidation_roles (ApproveCandidate a0 a1) = Some [REVIEWER, ADMIN]"
| "revalidation_roles (DismissCandidate a0 a1) = Some [REVIEWER, ADMIN]"

primrec revalidation_reading :: "revalidation_request \<Rightarrow> bool" where
  "revalidation_reading ScanControls = False"
| "revalidation_reading (ListCandidates a0) = True"
| "revalidation_reading (CreateCandidate a0) = False"
| "revalidation_reading (GetCandidate a0) = True"
| "revalidation_reading (ApproveCandidate a0 a1) = False"
| "revalidation_reading (DismissCandidate a0 a1) = False"

subsection \<open>All routes\<close>

datatype api_request =
    Account account_request
  | Experiment experiment_request
  | Intelligence intelligence_request
  | Catalog catalog_request
  | Workflow workflow_request
  | Analysis analysis_request
  | Inventory inventory_request
  | Revalidate revalidation_request

primrec api :: "platform \<Rightarrow> string option \<Rightarrow> string option \<Rightarrow> api_request \<Rightarrow> ('z, unit) worker_m" where
  "api P token rq (Account q) = account_api P token rq q"
| "api P token rq (Experiment q) = experiment_api P token rq q"
| "api P token rq (Intelligence q) = intelligence_api P token rq q"
| "api P token rq (Catalog q) = catalog_api P token rq q"
| "api P token rq (Workflow q) = workflow_api P token rq q"
| "api P token rq (Analysis q) = analysis_api P token rq q"
| "api P token rq (Inventory q) = inventory_api P token rq q"
| "api P token rq (Revalidate q) = revalidation_api P token rq q"

primrec allowed_roles :: "api_request \<Rightarrow> role list option" where
  "allowed_roles (Account q) = account_roles q"
| "allowed_roles (Experiment q) = experiment_roles q"
| "allowed_roles (Intelligence q) = intelligence_roles q"
| "allowed_roles (Catalog q) = catalog_roles q"
| "allowed_roles (Workflow q) = workflow_roles q"
| "allowed_roles (Analysis q) = analysis_roles q"
| "allowed_roles (Inventory q) = inventory_roles q"
| "allowed_roles (Revalidate q) = revalidation_roles q"

primrec reading :: "api_request \<Rightarrow> bool" where
  "reading (Account q) = account_reading q"
| "reading (Experiment q) = experiment_reading q"
| "reading (Intelligence q) = intelligence_reading q"
| "reading (Catalog q) = catalog_reading q"
| "reading (Workflow q) = workflow_reading q"
| "reading (Analysis q) = analysis_reading q"
| "reading (Inventory q) = inventory_reading q"
| "reading (Revalidate q) = revalidation_reading q"

end
