(* ===== verification/Access_Control.thy ===== *)
theory Access_Control
  imports Api
begin

text \<open>
  Who may do what: the rules of all routes together. Every route but the public ones checks the session first (those of
  an experiment after looking the experiment up), then the role, then its body; the routes that only read change nothing but
  the session and, when they hand out evidence, the audit trail.
\<close>

section \<open>Routes that are gated\<close>

text \<open>
  What a request does that is admitted for the roles \<open>rs\<close> only; \<open>b\<close> tells whether it may answer that the experiment
  does not exist before it looks at the session.
\<close>

definition gate :: "bool \<Rightarrow> app_env \<Rightarrow> string option \<Rightarrow> role set \<Rightarrow> ('z worker_state_scheme, exn, 'a) eff \<Rightarrow> bool" where
  "gate b E token rs m \<longleftrightarrow> (\<forall>w r w1. get_current_user E token w = (r, w1) \<longrightarrow>
     (case r of Inl e \<Rightarrow> m w = (Inl e, w1) | Inr u \<Rightarrow> u_role u \<notin> rs \<longrightarrow> m w = (Inl (http_error 403 ''forbidden''), w1))
     \<or> b \<and> m w = (Inl (http_error 404 ''experiment_not_found''), w))"

lemma gate_user: "gate b E token UNIV (bindE (get_current_user E token) k)"
  by (auto simp: gate_def bindE_def split: sum.splits)

lemma gate_role: "gate b E token (set rs) (bindE (require_role E rs token) k)"
  by (auto simp: gate_def bindE_def require_role_def raiseE_def split: sum.splits prod.splits)

lemma gate_bind: "gate b E token rs m \<Longrightarrow> gate b E token rs (bindE m k)"
  unfolding gate_def bindE_def [of m] by (fastforce split: sum.splits prod.splits)

lemma gate_void: "gate b E token rs m \<Longrightarrow> gate b E token rs (void m)"
  unfolding void_def by (rule gate_bind)

lemma gate_experiment:
  fixes k :: "experiment_definition \<Rightarrow> ('z worker_state_scheme, exn, 'a) eff"
  assumes "\<And>e. gate True E token rs (k e)"
  shows "gate True E token rs (bindE (experiment_or_404 W i) k)"
proof -
  have step: "bindE (experiment_or_404 W i) k w = (case find_experiment (wv_discovery W) (wv_experiments_dir W) i (sd_files w) of
      None \<Rightarrow> (Inl (http_error 404 ''experiment_not_found''), w) | Some e \<Rightarrow> k e w)" for w
    by (simp add: experiment_or_404_def app_m_defs split: option.split)
  show ?thesis unfolding gate_def step
  proof (intro allI impI)
    fix w :: "'z worker_state_scheme" and r w1 assume "get_current_user E token w = (r, w1)"
    then show "(case r of Inl e \<Rightarrow> (case find_experiment (wv_discovery W) (wv_experiments_dir W) i (sd_files w) of
          None \<Rightarrow> (Inl (http_error 404 ''experiment_not_found''), w) | Some e \<Rightarrow> k e w) = (Inl e, w1)
        | Inr u \<Rightarrow> u_role u \<notin> rs \<longrightarrow> (case find_experiment (wv_discovery W) (wv_experiments_dir W) i (sd_files w) of
          None \<Rightarrow> (Inl (http_error 404 ''experiment_not_found''), w) | Some e \<Rightarrow> k e w) = (Inl (http_error 403 ''forbidden''), w1))
      \<or> True \<and> (case find_experiment (wv_discovery W) (wv_experiments_dir W) i (sd_files w) of
          None \<Rightarrow> (Inl (http_error 404 ''experiment_not_found''), w) | Some e \<Rightarrow> k e w) = (Inl (http_error 404 ''experiment_not_found''), w)"
      using assms [unfolded gate_def, rule_format, of w r w1]
      by (cases "find_experiment (wv_discovery W) (wv_experiments_dir W) i (sd_files w)") (simp, simp only: option.case)
  qed
qed

lemma gate_weaken: "gate False E token rs m \<Longrightarrow> gate b E token rs m"
  unfolding gate_def by blast

lemma all_roles: "set [VIEWER, RESEARCHER, REVIEWER, ADMIN] = UNIV"
proof -
  have "x \<in> set [VIEWER, RESEARCHER, REVIEWER, ADMIN]" for x by (cases x) simp_all
  then show ?thesis by auto
qed

lemma gate_user_only:
  "gate b E token UNIV (me_handler E token)"
  "gate b (wv_app W) token UNIV (list_experiments_handler W token)"
  "gate b (wv_app W) token UNIV (get_job_response W token i)"
  "gate b (wv_app W) token UNIV (list_jobs_response W token st n)"
  "gate b (wv_app W) token UNIV (stream_job_events W token i ev jb)"
  "gate b E token UNIV (list_vulnerabilities_handler E u token f l o1)"
  "gate b E token UNIV (get_vulnerability_detail E u token i)"
  "gate b E token UNIV (get_vulnerability_history E token i)"
  "gate b E token UNIV (get_vulnerability_advisories E token i)"
  "gate b E token UNIV (get_priority_queue E token dm sp ge l o1)"
  "gate b E token UNIV (list_sources E X token)"
  "gate b E token UNIV (list_integrations E X token)"
  "gate b E token UNIV (list_syncs_handler E token l o1)"
  "gate b E token UNIV (get_sync_status E token i)"
  "gate b E token UNIV (list_domain_packs E token)"
  "gate b E token UNIV (domain_pack_templates_handler E reg token i)"
  "gate b E token UNIV (get_template_handler E reg token i v)"
  "gate b E token UNIV (get_version_handler E token i)"
  "gate b E token UNIV (list_versions_handler E token oi os)"
  "gate b E token UNIV (approval_history_handler E token i)"
  "gate b E token UNIV (get_correlations E D u dir token i)"
  "gate b E token UNIV (list_assessments_handler E token oi oi1 oi2 ob)"
  "gate b E token UNIV (get_assessment_handler E token i)"
  "gate b E token UNIV (list_assets_handler E token ob oi)"
  "gate b E token UNIV (get_asset_handler E token i)"
  "gate b E token UNIV (get_affected_assets E token i)"
  "gate b E token UNIV (list_controls_handler E token)"
  "gate b E token UNIV (get_control_handler E token i)"
  "gate b E token UNIV (list_control_versions_handler E token i)"
  "gate b E token UNIV (get_control_effectiveness E token i)"
  "gate b E token UNIV (list_candidates_handler E token oi)"
  "gate b E token UNIV (get_candidate_handler E token i)"
  "gate b E token UNIV (logout_handler E token rq)"
  unfolding me_handler_def list_experiments_handler_def get_job_response_def list_jobs_response_def stream_job_events_def
    list_vulnerabilities_handler_def get_vulnerability_detail_def get_vulnerability_history_def
    get_vulnerability_advisories_def get_priority_queue_def list_sources_def list_integrations_def list_syncs_handler_def
    get_sync_status_def list_domain_packs_def domain_pack_templates_handler_def get_template_handler_def
    get_version_handler_def list_versions_handler_def approval_history_handler_def get_correlations_def
    list_assessments_handler_def get_assessment_handler_def list_assets_handler_def get_asset_handler_def
    get_affected_assets_def list_controls_handler_def get_control_handler_def list_control_versions_handler_def
    get_control_effectiveness_def list_candidates_handler_def get_candidate_handler_def logout_handler_def
    get_job_handler_def list_jobs_handler_def
  by (intro gate_user gate_bind)+

lemma gate_of_experiment:
  "gate True (wv_app W) token UNIV (get_experiment_detail W token i)"
  "gate True (wv_app W) token UNIV (validate_experiment_handler W token i ctx)"
  "gate True (wv_app W) token UNIV (get_results W R token i)"
  "gate True (wv_app W) token UNIV (get_evidence W R token i)"
  "gate True (wv_app W) token UNIV (download_evidence_bundle W R token i rq)"
  "gate True (wv_app W) token UNIV (get_experiment_verdict W R token i)"
  unfolding get_experiment_detail_def validate_experiment_handler_def get_results_def get_evidence_def download_evidence_bundle_def get_experiment_verdict_def
  by (intro gate_experiment gate_user)+

lemma gate_admin:
  "gate b E token (set [ADMIN]) (list_users_handler E token)"
  "gate b E token (set [ADMIN]) (create_user_handler E h token cu rq)"
  "gate b E token (set [ADMIN]) (update_user_role_handler E token i v rq)"
  "gate b E token (set [ADMIN]) (update_user_active_handler E token i b1 rq)"
  "gate b E token (set [ADMIN]) (list_audit_events_handler E token af n n1)"
  unfolding list_users_handler_def create_user_handler_def update_user_role_handler_def update_user_active_handler_def list_audit_events_handler_def
  by (rule gate_role)+

lemma gate_researcher:
  "gate b E token (set [RESEARCHER, ADMIN]) (submit_sync E pe token i oi rq)"
  "gate b E token (set [RESEARCHER, ADMIN]) (generate_dataset_handler E G cf token i n d)"
  "gate b E token (set [RESEARCHER, ADMIN]) (create_handler E G reg cf token dq d rq)"
  "gate b E token (set [RESEARCHER, ADMIN]) (edit_handler E token i eq rq)"
  "gate b E token (set [RESEARCHER, ADMIN]) (submit_review_handler E C token i oi rq)"
  "gate b E token (set [RESEARCHER, ADMIN]) (create_asset_handler E token ca rq)"
  "gate b E token (set [RESEARCHER, ADMIN]) (update_asset_handler E token i ua rq)"
  unfolding submit_sync_def generate_dataset_handler_def create_handler_def edit_handler_def submit_review_handler_def create_asset_handler_def update_asset_handler_def ASSET_WRITE_ROLES_def ANALYST_ROLES_def
  by (rule gate_role)+

lemma gate_reviewer:
  "gate b E token (set [REVIEWER, ADMIN]) (start_review_handler E C token i oi rq)"
  "gate b E token (set [REVIEWER, ADMIN]) (approve_handler E C dir token i oi rq)"
  "gate b E token (set [REVIEWER, ADMIN]) (reject_handler E C token i oi rq)"
  "gate b E token (set [REVIEWER, ADMIN]) (retire_handler E C token i oi rq)"
  "gate b E token (set [REVIEWER, ADMIN]) (approve_candidate_handler E token i oi rq)"
  "gate b E token (set [REVIEWER, ADMIN]) (dismiss_candidate_handler E token i oi rq)"
  unfolding start_review_handler_def approve_handler_def reject_handler_def retire_handler_def approve_candidate_handler_def dismiss_candidate_handler_def
  by (rule gate_role)+

lemma gate_analyst:
  "gate b (wv_app W) token (set [RESEARCHER, REVIEWER, ADMIN]) (submit_experiment_version_run W token rq i)"
  "gate b E token (set [RESEARCHER, REVIEWER, ADMIN]) (review_assessment E token i oi rq)"
  "gate b E token (set [RESEARCHER, REVIEWER, ADMIN]) (explain_regression_handler E A token i)"
  "gate b E token (set [RESEARCHER, REVIEWER, ADMIN]) (scan_handler E D pe u dir token)"
  "gate b E token (set [RESEARCHER, REVIEWER, ADMIN]) (create_candidate_handler E token cq)"
  unfolding submit_experiment_version_run_def review_assessment_def explain_regression_handler_def scan_handler_def create_candidate_handler_def ASSET_WRITE_ROLES_def ANALYST_ROLES_def
  by (rule gate_role)+

lemma gate_ask: "gate b E token (set [RESEARCHER, REVIEWER, ADMIN]) (analyst_post E A D reg u dir token i q)"
  by (cases q) (simp_all only: analyst_post.simps classify_failure_pattern_handler_def analyze_mitigation_gap_handler_def
      summarise_similarity_handler_def recommend_template_handler_def draft_experiment_proposal_handler_def gate_role
      ANALYST_ROLES_def)

lemma submit_run_eq:
  "submit_run W R token rq i ctx = bindE (experiment_or_404 W i) (\<lambda>e.
     bindE (require_role (wv_app W) [RESEARCHER, REVIEWER, ADMIN] token) (\<lambda>u.
     bindE (queue_job W (ed_experiment_id e) ctx u) (\<lambda>job_id.
     bindE (best_effort (record_event (wv_app W) (rc_runs R) job_id (ed_experiment_id e) RE_QUEUED (Some (context_value ctx)) None)) (\<lambda>_.
     bindE (audit_record (wv_app W) (Some (u_user_id u)) (Some (u_username u)) (Some (role_value (u_role u))) RUN_SUBMITTED
       (Some ''job'') (Some job_id) rq
       [(''experiment_id'', PStr (ed_experiment_id e)), (''execution_context'', PStr (context_value ctx))] None None) (\<lambda>_.
     returnE \<lparr>js_job_id = job_id, js_experiment_id = ed_experiment_id e, js_status = job_status_value JS_QUEUED\<rparr>)))))"
  by (rule ext) (simp add: submit_run_def experiment_or_404_def app_m_defs split: option.split)

lemma gate_submit_run: "gate True (wv_app W) token (set [RESEARCHER, REVIEWER, ADMIN]) (submit_run W R token rq i ctx)"
  unfolding submit_run_eq by (intro gate_experiment gate_role)

lemmas gates = gate_user_only gate_admin gate_researcher gate_reviewer gate_analyst gate_ask gate_of_experiment gate_submit_run

section \<open>All routes are gated\<close>

lemma account_gate: "account_roles q = Some rs \<Longrightarrow> gate False (wv_app (pf_worker P)) token (set rs) (account_api P token rq q)"
  by (cases q) (auto simp: all_roles simp del: list.set, (rule gate_void, rule gates)+)

lemma experiment_gate: "experiment_roles q = Some rs \<Longrightarrow> gate True (wv_app (pf_worker P)) token (set rs) (experiment_api P token rq q)"
  by (cases q) (auto simp: all_roles simp del: list.set, (rule gate_void, rule gates)+)

lemma intelligence_gate: "intelligence_roles q = Some rs \<Longrightarrow> gate False (wv_app (pf_worker P)) token (set rs) (intelligence_api P token rq q)"
  by (cases q) (auto simp: all_roles simp del: list.set, (rule gate_void, rule gates)+)

lemma catalog_gate: "catalog_roles q = Some rs \<Longrightarrow> gate False (wv_app (pf_worker P)) token (set rs) (catalog_api P token rq q)"
  by (cases q) (auto simp: all_roles simp del: list.set, (rule gate_void, rule gates)+)

lemma workflow_gate: "workflow_roles q = Some rs \<Longrightarrow> gate False (wv_app (pf_worker P)) token (set rs) (workflow_api P token rq q)"
  by (cases q) (auto simp: all_roles simp del: list.set, (rule gate_void, rule gates)+)

lemma analysis_gate: "analysis_roles q = Some rs \<Longrightarrow> gate False (wv_app (pf_worker P)) token (set rs) (analysis_api P token rq q)"
  by (cases q) (auto simp: all_roles simp del: list.set, (rule gate_void, rule gates)+)

lemma inventory_gate: "inventory_roles q = Some rs \<Longrightarrow> gate False (wv_app (pf_worker P)) token (set rs) (inventory_api P token rq q)"
  by (cases q) (auto simp: all_roles simp del: list.set, (rule gate_void, rule gates)+)

lemma revalidation_gate: "revalidation_roles q = Some rs \<Longrightarrow> gate False (wv_app (pf_worker P)) token (set rs) (revalidation_api P token rq q)"
  by (cases q) (auto simp: all_roles simp del: list.set, (rule gate_void, rule gates)+)

definition asks_experiment :: "api_request \<Rightarrow> bool" where
  "asks_experiment q \<longleftrightarrow> (\<exists>x. q = Experiment x)"

lemma api_gate:
  assumes "allowed_roles q = Some rs"
  shows "gate (asks_experiment q) (wv_app (pf_worker P)) token (set rs) (api P token rq q)"
  using assms
  by (cases q) (simp_all add: asks_experiment_def account_gate experiment_gate intelligence_gate catalog_gate workflow_gate
      analysis_gate inventory_gate revalidation_gate)

text \<open>
  C5. Access control of the whole interface. Take any request to a route that is not public. Without a valid session
  it fails with the very error of the session check; with the session of a user whose role the route does not admit it fails
  with 403. In both cases nothing but the session itself changes. The only other answer such a request can get is the 404
  of an unknown experiment, which the routes of an experiment give before they look at the session.
\<close>

theorem access_control:
  assumes "allowed_roles q = Some rs" and "get_current_user (wv_app (pf_worker P)) token w = (r, w1)"
    and "case r of Inl e \<Rightarrow> True | Inr u \<Rightarrow> u_role u \<notin> set rs"
  shows "only_session w w1
    \<and> (api P token rq q w = (Inl (case r of Inl e \<Rightarrow> e | Inr u \<Rightarrow> http_error 403 ''forbidden''), w1)
       \<or> asks_experiment q \<and> api P token rq q w = (Inl (http_error 404 ''experiment_not_found''), w))"
  using abidesD [OF session_current_user assms(2)] api_gate [OF assms(1), of P token rq, unfolded gate_def, rule_format, OF assms(2)] assms(3)
  by (auto split: sum.splits)

section \<open>Routes that only read\<close>

definition viewing :: "'z worker_state_scheme \<Rightarrow> 'z worker_state_scheme \<Rightarrow> bool" where
  "viewing w w' \<longleftrightarrow> (\<exists>ss n k evs. w' = w\<lparr>au_sessions := ss, ap_clock_reads := n, ap_uuid_reads := k, ap_audit := ap_audit w @ evs\<rparr>)"

lemma viewingI: "w' = w\<lparr>au_sessions := ss, ap_clock_reads := n, ap_uuid_reads := k, ap_audit := ap_audit w @ evs\<rparr> \<Longrightarrow> viewing w w'"
  unfolding viewing_def by blast

lemma viewing_session: "only_session w w' \<Longrightarrow> viewing w w'"
  unfolding only_session_def by (elim exE) (rule viewingI [where evs = "[]"], simp)

lemma viewing_trans:
  assumes "viewing w w'" and "viewing w' w''"
  shows "viewing w w''"
proof -
  obtain ss n k evs where 1: "w' = w\<lparr>au_sessions := ss, ap_clock_reads := n, ap_uuid_reads := k, ap_audit := ap_audit w @ evs\<rparr>"
    using assms(1) unfolding viewing_def by blast
  obtain ss' n' k' evs' where 2: "w'' = w'\<lparr>au_sessions := ss', ap_clock_reads := n', ap_uuid_reads := k', ap_audit := ap_audit w' @ evs'\<rparr>"
    using assms(2) unfolding viewing_def by blast
  show ?thesis by (rule viewingI [where ss = ss' and n = n' and k = k' and evs = "evs @ evs'"]) (simp add: 1 2)
qed

interpretation view: effect_frame viewing
  by unfold_locales (rule viewing_session, rule only_session_refl, rule viewing_trans)

lemma view_session: "abides only_session m \<Longrightarrow> abides viewing m"
  unfolding abides_def using viewing_session by blast

lemma view_audit: "abides viewing (audit_record E a b c d f g h md ps ns)"
  unfolding abides_def
proof
  fix w :: "'z worker_state_scheme"
  obtain ev where "snd (audit_record E a b c d f g h md ps ns w)
      = audit_append ev (w\<lparr>ap_uuid_reads := Suc (ap_uuid_reads w), ap_clock_reads := Suc (ap_clock_reads w)\<rparr>)"
    by (simp add: audit_record_eq Let_def)
  then show "viewing w (snd (audit_record E a b c d f g h md ps ns w))"
    by (intro viewingI [where ss = "au_sessions w" and n = "Suc (ap_clock_reads w)" and k = "Suc (ap_uuid_reads w)" and evs = "[ev]"])
      (simp add: audit_append_def)
qed

lemmas session_steps = session_rules session_current_user session_require_role session_reads

lemma reads_account:
  "abides only_session (get_system_status E en B)" "abides only_session (me_handler E token)" "abides only_session (list_users_handler E token)"
  "abides only_session (list_audit_events_handler E token af n n1)"
  unfolding get_system_status_def check_rabbitmq_and_worker_def check_api_def check_database_def check_minio_def now_iso_def
    me_handler_def list_users_handler_def list_users_def list_audit_events_handler_def
  by (intro session_steps)+

lemma reads_intelligence:
  "abides only_session (list_vulnerabilities_handler E u token f l o1)" "abides only_session (get_vulnerability_detail E u token i)"
  "abides only_session (get_vulnerability_history E token i)" "abides only_session (get_vulnerability_advisories E token i)"
  "abides only_session (get_priority_queue E token dm sp ge l o1)" "abides only_session (list_sources E X token)"
  "abides only_session (list_integrations E X token)" "abides only_session (list_syncs_handler E token l o1)"
  "abides only_session (get_sync_status E token i)" "abides only_session (get_correlations E D u dir token i)"
  unfolding list_vulnerabilities_handler_def get_vulnerability_detail_def get_vulnerability_history_def get_vulnerability_advisories_def
    get_priority_queue_def list_sources_def list_integrations_def list_syncs_handler_def get_sync_status_def get_correlations_def
    get_vulnerability_def get_sources_def get_history_def list_priority_queue_def check_source_def list_syncs_def get_sync_def
  by (intro session_steps)+

lemma reads_catalog:
  "abides only_session (list_domain_packs E token)" "abides only_session (domain_pack_templates_handler E reg token i)"
  "abides only_session (get_template_handler E reg token i v)" "abides only_session (generate_dataset_handler E G cf token i n d)"
  "abides only_session (get_version_handler E token i)" "abides only_session (list_versions_handler E token oi os)"
  "abides only_session (approval_history_handler E token i)"
  unfolding list_domain_packs_def domain_pack_templates_handler_def get_template_handler_def generate_dataset_handler_def
    get_version_handler_def list_versions_handler_def approval_history_handler_def version_or_404_def get_version_def list_versions_def
    get_approval_history_def
  by (intro session_steps)+

lemma reads_assurance:
  "abides only_session (list_assessments_handler E token oi oi1 oi2 ob)" "abides only_session (get_assessment_handler E token i)"
  "abides only_session (list_assets_handler E token ob oi)" "abides only_session (get_asset_handler E token i)"
  "abides only_session (get_affected_assets E token i)" "abides only_session (list_controls_handler E token)"
  "abides only_session (get_control_handler E token i)" "abides only_session (list_control_versions_handler E token i)"
  "abides only_session (get_control_effectiveness E token i)" "abides only_session (list_candidates_handler E token oi)"
  "abides only_session (get_candidate_handler E token i)"
  unfolding list_assessments_handler_def get_assessment_handler_def list_assets_handler_def get_asset_handler_def get_affected_assets_def
    list_controls_handler_def get_control_handler_def list_control_versions_handler_def get_control_effectiveness_def
    list_candidates_handler_def get_candidate_handler_def get_assessment_def list_assets_def get_asset_def
    list_potentially_affected_assets_def list_controls_def control_or_404_def get_control_def list_control_versions_def
    list_validations_def list_candidates_def get_candidate_def
  by (intro session_steps)+

lemma reads_experiment:
  "abides only_session (list_experiments_handler W token)" "abides only_session (get_experiment_detail W token i)"
  "abides only_session (validate_experiment_handler W token i ctx)" "abides only_session (get_results W R token i)"
  "abides only_session (get_evidence W R token i)" "abides only_session (get_experiment_verdict W R token i)"
  "abides only_session (get_job_response W token i)" "abides only_session (list_jobs_response W token st n)"
  "abides only_session (stream_job_events W token i ev jb)"
  unfolding list_experiments_handler_def get_experiment_detail_def validate_experiment_handler_def get_results_def get_evidence_def
    get_experiment_verdict_def get_job_response_def list_jobs_response_def stream_job_events_def experiment_or_404_def latest_view_def
    get_job_handler_def list_jobs_handler_def Let_def
  by (intro session_steps)+

lemma view_bundle: "abides viewing (download_evidence_bundle W R token i rq)"
proof -
  have "abides viewing (experiment_or_404 W i)" "abides viewing (get_current_user (wv_app W) token)" "abides viewing (latest_view W R m j)" for m j
    unfolding experiment_or_404_def latest_view_def by (intro view_session session_steps)+
  then show ?thesis unfolding download_evidence_bundle_def by (intro view.resp_rules view_audit)
qed

lemma view_void: "abides viewing m \<Longrightarrow> abides viewing (void m)"
  unfolding void_def by (intro view.resp_rules)

lemmas views = reads_account [THEN view_session] reads_intelligence [THEN view_session] reads_catalog [THEN view_session]
  reads_assurance [THEN view_session] reads_experiment [THEN view_session] view_bundle

lemma reading_abides:
  assumes "reading q"
  shows "abides viewing (api P token rq q)"
proof (cases q)
  case (Account x)
  with assms show ?thesis by (cases x) (simp_all, (rule view.resp_rules | rule view_void, rule views)+)
next
  case (Experiment x)
  with assms show ?thesis by (cases x) (simp_all, (rule view_void, rule views)+)
next
  case (Intelligence x)
  with assms show ?thesis by (cases x) (simp_all, (rule view_void, rule views)+)
next
  case (Catalog x)
  with assms show ?thesis by (cases x) (simp_all, (rule view_void, rule views)+)
next
  case (Workflow x)
  with assms show ?thesis by (cases x) simp_all
next
  case (Analysis x)
  with assms show ?thesis by (cases x) (simp_all, (rule view_void, rule views)+)
next
  case (Inventory x)
  with assms show ?thesis by (cases x) (simp_all, (rule view_void, rule views)+)
next
  case (Revalidate x)
  with assms show ?thesis by (cases x) (simp_all, (rule view_void, rule views)+)
qed

text \<open>What a viewer is admitted to is a route that reads, or the end of the own session.\<close>

lemma viewer_group:
  "account_roles a = Some rs \<Longrightarrow> VIEWER \<in> set rs \<Longrightarrow> a \<noteq> Logout \<Longrightarrow> account_reading a"
  "experiment_roles e = Some rs \<Longrightarrow> VIEWER \<in> set rs \<Longrightarrow> experiment_reading e"
  "intelligence_roles i = Some rs \<Longrightarrow> VIEWER \<in> set rs \<Longrightarrow> intelligence_reading i"
  "catalog_roles c = Some rs \<Longrightarrow> VIEWER \<in> set rs \<Longrightarrow> catalog_reading c"
  "workflow_roles x = Some rs \<Longrightarrow> VIEWER \<in> set rs \<Longrightarrow> workflow_reading x"
  "analysis_roles y = Some rs \<Longrightarrow> VIEWER \<in> set rs \<Longrightarrow> analysis_reading y"
  "inventory_roles v = Some rs \<Longrightarrow> VIEWER \<in> set rs \<Longrightarrow> inventory_reading v"
  "revalidation_roles r = Some rs \<Longrightarrow> VIEWER \<in> set rs \<Longrightarrow> revalidation_reading r"
  by ((cases a; auto), (cases e; auto), (cases i; auto), (cases c; auto), (cases x; auto), (cases y; auto), (cases v; auto),
      (cases r; auto))

lemma viewer_routes:
  "allowed_roles q = Some rs \<Longrightarrow> VIEWER \<in> set rs \<Longrightarrow> q \<noteq> Account Logout \<Longrightarrow> reading q"
  by (cases q) (auto intro: viewer_group)


section \<open>What the order of the checks shows\<close>

text \<open>
  Without a session a client is told whether an experiment exists: the dependency that looks it up runs before the
  session check.
\<close>

lemma experiment_revealed:
  "fst (get_experiment_detail W None i w) = Inl (if find_experiment (wv_discovery W) (wv_experiments_dir W) i (sd_files w) = None
     then http_error 404 ''experiment_not_found'' else http_error 401 ''not_authenticated'')"
  by (simp add: get_experiment_detail_def experiment_or_404_def get_current_user_def app_m_defs split: option.split)

text \<open>
  The archive is read from the local results tree whatever backend keeps the evidence: when nothing lies there, it is
  an empty archive, although the view was found.
\<close>

lemma bundle_of_nothing:
  assumes "\<And>p c. (p, c) \<in> set fs \<Longrightarrow> \<not> prefix (path_parts experiment_dir) (path_parts p)"
    and "\<And>m. m \<in> {ew_baseline_manifest view, ew_mitigation_manifest view} \<Longrightarrow> path_root (path_of_string (mf_run_id m)) = []"
  shows "bundle_entries experiment_dir view fs = []"
proof -
  have below: "prefix (path_parts experiment_dir) (path_parts (path_join experiment_dir s))" if "path_root (path_of_string s) = []" for s
    using that by (simp add: path_join_def Let_def)
  have "prefix (path_parts experiment_dir) (path_parts (path_join experiment_dir ''comparison.json''))"
    by (rule below) (simp add: path_of_string_def)
  then have "files_of fs (path_join experiment_dir ''comparison.json'') = None"
    using assms(1) by (auto simp: files_of_def tbl_get_None)
  moreover have "dir_files (path_join experiment_dir (mf_run_id m)) fs = []" if m: "m \<in> {ew_baseline_manifest view, ew_mitigation_manifest view}" for m
  proof -
    have "\<not> butlast (path_parts p) = path_parts (path_join experiment_dir (mf_run_id m))" if "(p, c) \<in> set fs" for p c
      using assms(1) [OF that] below [OF assms(2) [OF m]] by (metis prefix_order.trans prefixeq_butlast)
    then have "filter (\<lambda>(p, _). path_root p = path_root (path_join experiment_dir (mf_run_id m)) \<and> path_parts p \<noteq> []
        \<and> butlast (path_parts p) = path_parts (path_join experiment_dir (mf_run_id m))) fs = []"
      by (auto simp: filter_empty_conv)
    then show ?thesis by (simp add: dir_files_def sorted_by_def)
  qed
  ultimately show ?thesis by (simp add: bundle_entries_def)
qed

section \<open>An example\<close>

definition demo_probes :: probes where
  "demo_probes = \<lparr>pb_database = Inr (), pb_consumers = Inr 0, pb_minio = Inr (), pb_exc_text = (\<lambda>_. [])\<rparr>"

definition demo_reader :: file_reader where
  "demo_reader = \<lparr>rd_load_comparison = local_load_comparison demo_codec (PyPath [] [''results'']),
     rd_load_manifest = local_load_manifest demo_codec (PyPath [] [''results'']),
     rd_load_artefact = local_load_artefact (PyPath [] [''results'']), rd_parse_results = (\<lambda>_. Inr []), rd_parse_dataset_path = Inr,
     rd_exc_text = (\<lambda>_. [])\<rparr>"

definition demo_platform :: platform where
  "demo_platform = \<lparr>pf_worker = demo_worker_env, pf_recorders = demo_recorders, pf_analyst = demo_analyst, pf_generator = demo_gen_env,
     pf_templates = builtin_templates, pf_config = (\<lambda>_ _. Inr (VPNConfig vpn_default_config)), pf_connectors = demo_connectors, pf_url = Some,
     pf_evidence = demo_reader, pf_environ = (\<lambda>_. None), pf_probes = demo_probes, pf_hash = id,
     pf_stream_events = (\<lambda>_ _. []), pf_stream_jobs = (\<lambda>_ _. Inr None)\<rparr>"

text \<open>A reviewer may not list the accounts.\<close>

lemma demo_reviewer_user:
  "\<exists>u w1. get_current_user (wv_app (pf_worker demo_platform)) (Some ''tok'') demo_worker = (Inr u, w1) \<and> u_role u = REVIEWER"
  by (simp add: get_current_user_def get_user_for_session_def get_session_with_user_def app_m_defs demo_worker_def demo_platform_def
      demo_assurance_def demo_intel_def demo_runs_def demo_studio_def demo_reviewer_def tbl_get_Cons user_from_orm_def
      user.truncate_def raise_if_def touch_session_def demo_worker_env_def demo_app_env_def runs_state.defs intel_state.defs assurance_state.defs)

theorem access_control_witness:
  "\<exists>w1. only_session demo_worker w1
     \<and> api demo_platform (Some ''tok'') None (Account ListUsers) demo_worker = (Inl (http_error 403 ''forbidden''), w1)"
proof -
  obtain u w1 where u: "get_current_user (wv_app (pf_worker demo_platform)) (Some ''tok'') demo_worker = (Inr u, w1)" "u_role u = REVIEWER"
    using demo_reviewer_user by blast
  show ?thesis using access_control [where q = "Account ListUsers" and rs = "[ADMIN]" and rq = None, OF _ u(1)] u(2)
    by (auto simp: asks_experiment_def)
qed


end
