(* ===== verification/Governance.thy ===== *)
theory Governance
  imports Access_Control
begin

text \<open>
  What governs an experiment: its versions, the decisions about them, and the files that discovery reads. Here it is
  shown that all of the platform but the workflow of Experiment Studio leaves these alone and at most appends to the audit
  trail: accounts, intelligence, assurance, analysis, the submission of runs, and the worker with everything a run
  writes.
\<close>

section \<open>The layout of the deployment\<close>

text \<open>
  What the deployment provides: identifiers of 32 hexadecimal digits, messages that are read back as written, and a
  directory of experiments in which neither job files nor results nor generated datasets are written.
\<close>

definition layout_ok :: "worker_env \<Rightarrow> bool" where
  "layout_ok W \<longleftrightarrow> (\<forall>n. is_job_id (''JOB-'' @ ae_uuid (wv_app W) n)) \<and> (\<forall>m. wv_message W (wv_dump_message W m) = Inr m)
     \<and> wv_jobs_dir W \<noteq> wv_experiments_dir W \<and> apart (wv_results_root W) (wv_experiments_dir W)
     \<and> apart dataset_root (wv_experiments_dir W)"

section \<open>What most operations leave alone\<close>

definition queue_ids :: "worker_env \<Rightarrow> 'z worker_state_scheme \<Rightarrow> bool" where
  "queue_ids W w \<longleftrightarrow> (\<forall>body \<in> set (wk_queue w). \<forall>m. wv_message W body = Inr m \<longrightarrow> is_job_id (jm_job_id m))"

abbreviation experiment_files :: "worker_env \<Rightarrow> 'z worker_state_scheme \<Rightarrow> (pypath \<times> string) list" where
  "experiment_files W w \<equiv> glob_json (wv_experiments_dir W) (sd_files w)"

definition governed :: "worker_env \<Rightarrow> 'z worker_state_scheme \<Rightarrow> 'z worker_state_scheme \<Rightarrow> bool" where
  "governed W w w' \<longleftrightarrow> sd_versions w' = sd_versions w \<and> sd_approvals w' = sd_approvals w \<and> prefix (ap_audit w) (ap_audit w')
     \<and> experiment_files W w' = experiment_files W w \<and> (queue_ids W w \<longrightarrow> queue_ids W w')"

interpretation gov: effect_frame "governed W"
  by unfold_locales (auto simp: governed_def intro: prefix_order.trans)

lemma gov_env:
  "abides (governed W) (utc_now E)" "abides (governed W) (uuid4_hex E)" "abides (governed W) (token_urlsafe E)"
  "abides (governed W) (audit_record E a b c d e f g h i j)"
  by (simp_all add: abides_def app_m_defs audit_record_eq Let_def audit_append_def governed_def queue_ids_def)

lemma gov_tables:
  "governed W w (w\<lparr>au_users := us\<rparr>)" "governed W w (w\<lparr>au_sessions := ss\<rparr>)" "governed W w (w\<lparr>rr_calls := n\<rparr>)"
  "governed W w (w\<lparr>rr_runs := rs\<rparr>)" "governed W w (append_run_event ev w)"
  "governed W w (w\<lparr>in_vulns := vs\<rparr>)" "governed W w (w\<lparr>in_sources := so\<rparr>)" "governed W w (w\<lparr>in_history := hs\<rparr>)"
  "governed W w (w\<lparr>in_products := ps\<rparr>)" "governed W w (w\<lparr>in_affected := ls\<rparr>)" "governed W w (w\<lparr>in_advisories := vd\<rparr>)"
  "governed W w (w\<lparr>in_candidates := cs\<rparr>)" "governed W w (w\<lparr>in_syncs := sy\<rparr>)"
  "governed W w (w\<lparr>as_assets := aa\<rparr>)" "governed W w (w\<lparr>as_controls := ac\<rparr>)" "governed W w (w\<lparr>as_versions := av\<rparr>)"
  "governed W w (w\<lparr>as_validations := al\<rparr>)" "governed W w (w\<lparr>as_candidates := ad\<rparr>)" "governed W w (w\<lparr>as_assessments := ae\<rparr>)"
  "governed W w (w\<lparr>wk_published := k\<rparr>)"
  by (simp_all add: governed_def queue_ids_def append_run_event_def)

lemma gov_mapE: "(\<And>x. abides (governed W) (f x)) \<Longrightarrow> abides (governed W) (mapE f xs)"
  by (induction xs) (auto intro!: gov.resp_rules)

lemma gov_best_effort: "abides (governed W) m \<Longrightarrow> abides (governed W) (best_effort m)"
  by (simp add: abides_def best_effort_def)

lemmas gov_rules = gov.resp_rules gov_env gov_tables gov_mapE gov_best_effort

lemma gov_collect: "(\<And>x. abides (governed W) (f x)) \<Longrightarrow> abides (governed W) (collectE f xs)"
  unfolding collectE_def by (intro gov_rules)

lemma gov_viewing: "viewing w w' \<Longrightarrow> governed W w w'"
  unfolding viewing_def governed_def queue_ids_def by (elim exE) simp

lemma gov_view: "abides viewing m \<Longrightarrow> abides (governed W) m"
  unfolding abides_def using gov_viewing by blast

lemma gov_session: "abides only_session m \<Longrightarrow> abides (governed W) m"
  by (rule gov_view [OF view_session])

lemma gov_same_files:
  "same_files w w' \<Longrightarrow> sd_versions w' = sd_versions w \<Longrightarrow> sd_approvals w' = sd_approvals w \<Longrightarrow> prefix (ap_audit w) (ap_audit w')
    \<Longrightarrow> governed W w w'"
  by (simp add: same_files_def governed_def queue_ids_def)

lemmas gov_role = gov_session [OF session_require_role] gov_session [OF session_current_user]

lemma gov_reads:
  "abides (governed W) (require_valid b)" "abides (governed W) (ai_call E g)" "abides (governed W) (get_vulnerability u i)"
  unfolding require_valid_def ai_call_def get_vulnerability_def by (intro gov_rules)+

section \<open>Accounts\<close>

lemma gov_account:
  "abides (governed W) (login_handler E environ n pw ip ua rq)" "abides (governed W) (logout_handler E token rq)"
  "abides (governed W) (create_user_handler E h token cu rq)" "abides (governed W) (update_user_role_handler E token i v rq)"
  "abides (governed W) (update_user_active_handler E token i b rq)" "abides (governed W) (create_admin E environ h n po)"
  unfolding login_handler_def logout_handler_def create_user_handler_def update_user_role_handler_def update_user_active_handler_def
    create_admin_def login_def get_user_by_username_def check_lock_def audit_user_def record_failed_attempt_def Let_def
    record_login_failure_def get_user_def open_session_def record_login_success_def delete_expired_sessions_def
    create_session_def logout_def delete_session_def service_create_user_def create_user_def update_user_role_def update_user_def
    set_user_active_def updated_or_404_def require_valid_def
  by (intro gov_rules gov_role)+

section \<open>Intelligence\<close>

lemma gov_upserts:
  "abides (governed W) (upsert_source_record r)" "abides (governed W) (append_history h)" "abides (governed W) (upsert_products i ps)"
  "abides (governed W) (upsert_vendor_advisory a)" "abides (governed W) (upsert_vulnerability v)"
  "abides (governed W) (upsert_validation_candidate c)" "abides (governed W) (save_sync s)"
  unfolding upsert_source_record_def append_history_def upsert_products_def upsert_product_def upsert_vendor_advisory_def
    upsert_vulnerability_def upsert_validation_candidate_def save_sync_def
  by (intro gov_rules)+

lemma gov_sync_record: "abides (governed W) (sync_record E P u conn r)"
  unfolding sync_record_def sync_contribution_def contribution_result_def store_result_def
  by (intro gov_rules gov_upserts gov_reads)

lemma gov_sync_records: "abides (governed W) (sync_records E P u conn rs c)"
proof (induction rs arbitrary: c)
  case Nil
  then show ?case by (simp add: abides_def gov.R_refl)
next
  case (Cons r rs)
  show ?case unfolding abides_def
  proof
    fix w :: "'a worker_state_scheme"
    obtain x w1 where x: "sync_record E P u conn r w = (x, w1)" by (cases "sync_record E P u conn r w")
    have 1: "governed W w w1" by (rule abidesD [OF gov_sync_record x])
    have 2: "governed W w1 (snd (sync_records E P u conn rs c' w1))" for c' using Cons.IH by (simp add: abides_def)
    show "governed W w (snd (sync_records E P u conn (r # rs) c w))"
      using 1 gov.R_trans [OF 1 2] x by (cases x) simp_all
  qed
qed

lemma gov_run_sync: "abides (governed W) (run_sync E D P u conn i since dir b ws)"
  unfolding run_sync_def regenerate_candidate_def Let_def by (intro gov_rules gov_sync_records gov_upserts gov_reads)

lemma gov_intelligence:
  "abides (governed W) (submit_sync E P token i oi rq)" "abides (governed W) (run_sync_job E D X u dir m)"
  "abides (governed W) (import_and_merge E P u b f path sheet)"
  unfolding submit_sync_def run_sync_job_def import_and_merge_def import_contribution_def Let_def
  by (intro gov_rules gov_role gov_upserts gov_reads gov_run_sync)+

section \<open>Assurance and analysis\<close>

lemma gov_create_if_new: "abides (governed W) (create_candidate_if_new E c e t d)"
  unfolding create_candidate_if_new_def find_pending_candidate_def create_candidate_def Let_def by (intro gov_rules)

lemma gov_scan: "abides (governed W) (scan E D P u dir window now)"
  unfolding scan_def list_controls_def scan_control_def list_validations_def scan_staleness_def scan_versions_def list_control_versions_def
    scan_history_def get_history_def scan_history_entry_def scan_advisories_def get_advisories_for_cve_def scan_correlations_def
    get_vulnerability_def list_vulnerabilities_def created_if_new_def Let_def
  by (intro gov_rules gov_collect gov_create_if_new)

lemma gov_revalidation:
  "abides (governed W) (scan_handler E D pe u dir token)" "abides (governed W) (create_candidate_handler E token cq)"
  "abides (governed W) (approve_candidate_handler E token i oi rq)" "abides (governed W) (dismiss_candidate_handler E token i oi rq)"
  unfolding scan_handler_def create_candidate_handler_def approve_candidate_handler_def dismiss_candidate_handler_def decide_candidate_def
    get_candidate_def update_candidate_status_def get_control_def create_candidate_def Let_def
  by (intro gov_rules gov_role gov_scan)+

lemma gov_inventory:
  "abides (governed W) (create_asset_handler E token ca rq)" "abides (governed W) (update_asset_handler E token i ua rq)"
  "abides (governed W) (explain_regression_handler E A token i)" "abides (governed W) (review_assessment E token i oi rq)"
  unfolding create_asset_handler_def update_asset_handler_def explain_regression_handler_def review_assessment_def get_asset_def create_asset_def
    update_asset_def control_or_404_def get_control_def list_validations_def save_assessment_def mark_assessment_reviewed_def Let_def
  by (intro gov_rules gov_role gov_reads)+

lemma gov_ask: "abides (governed W) (analyst_post E A D reg u dir token i q)"
  by (cases q; simp only: analyst_post.simps classify_failure_pattern_handler_def analyze_mitigation_gap_handler_def
      summarise_similarity_handler_def recommend_template_handler_def draft_experiment_proposal_handler_def save_ai_def save_assessment_def Let_def)
    (intro gov_rules gov_role gov_reads session_reads [THEN gov_session])+

section \<open>Jobs and runs\<close>

lemma layoutD:
  assumes "layout_ok W"
  shows "is_job_id (''JOB-'' @ ae_uuid (wv_app W) n)" "wv_message W (wv_dump_message W m) = Inr m" "wv_jobs_dir W \<noteq> wv_experiments_dir W"
    "apart (wv_results_root W) (wv_experiments_dir W)" "apart dataset_root (wv_experiments_dir W)"
  using assms by (auto simp: layout_ok_def)

lemma glob_job_saved:
  assumes "is_job_id (jr_job_id r)" and "dir \<noteq> dir'"
  shows "glob_json dir' (job_saved J dir h r fs) = glob_json dir' fs"
proof -
  let ?p = "job_path dir (jr_job_id r)"
  have dirs: "\<not> (path_root dir = path_root dir' \<and> path_parts dir = path_parts dir')" using assms(2) by (auto intro: pypath.expand)
  have tmp: "\<not> (path_root (job_tmp_path ?p h) = path_root dir' \<and> butlast (path_parts (job_tmp_path ?p h)) = path_parts dir')"
    using dirs unfolding job_tmp_path_parts [OF assms(1)] by simp
  have job: "\<not> (path_root ?p = path_root dir' \<and> butlast (path_parts ?p) = path_parts dir')"
    using dirs unfolding job_path_parts [OF assms(1)] by simp
  show ?thesis by (simp add: job_saved_def Let_def write_text_def glob_json_other [OF job] glob_json_other [OF tmp])
qed

lemma gov_save_job: "layout_ok W \<Longrightarrow> is_job_id (jr_job_id r) \<Longrightarrow> abides (governed W) (save_job W r)"
  by (simp add: abides_def save_job_eq governed_def queue_ids_def glob_job_saved layoutD)

lemma gov_publish: "layout_ok W \<Longrightarrow> is_job_id (jm_job_id m) \<Longrightarrow> abides (governed W) (publish_run_job W m)"
  by (auto simp: abides_def publish_run_job_def app_m_defs governed_def queue_ids_def layoutD)

lemma gov_queue_job:
  assumes "layout_ok W"
  shows "abides (governed W) (queue_job W x ctx u)"
  unfolding queue_job_def Let_def
proof (rule gov.resp_bind_value [OF gov_env(2)])
  fix h and w w' :: "'a worker_state_scheme" assume "uuid4_hex (wv_app W) w = (Inr h, w')"
  then have "is_job_id (''JOB-'' @ h)" using layoutD(1) [OF assms] by (auto simp: app_m_defs)
  then show "abides (governed W) (bindE (utc_now (wv_app W)) (\<lambda>now.
     bindE (save_job W \<lparr>jr_job_id = ''JOB-'' @ h, jr_experiment_id = x, jr_execution_context = ctx, jr_status = JS_QUEUED,
       jr_submitted_at = now, jr_updated_at = now, jr_result = None, jr_error = None\<rparr>) (\<lambda>_.
     bindE (publish_run_job W \<lparr>jm_job_id = ''JOB-'' @ h, jm_experiment_id = x, jm_execution_context = ctx,
       jm_submitted_by_user_id = Some (u_user_id u), jm_submitted_by_username = Some (u_username u)\<rparr>) (\<lambda>_.
     returnE (''JOB-'' @ h)))))"
    by (intro gov_rules gov_save_job gov_publish assms) simp_all
qed

lemma gov_record_event: "abides (governed W) (record_event E repo i e t c d)"
  unfolding record_event_def null_record_event_def postgres_record_event_def Let_def
  by (cases repo) (simp_all, (intro gov_rules)+)

lemma gov_submit_run: "layout_ok W \<Longrightarrow> abides (governed W) (submit_run W R token rq i ctx)"
  unfolding submit_run_def by (intro gov_rules gov_role gov_queue_job gov_record_event)

section \<open>A run writes no experiment\<close>

definition experiments_kept :: "pypath \<Rightarrow> run_world \<times> file_tree \<Rightarrow> run_world \<times> file_tree \<Rightarrow> bool" where
  "experiments_kept dir ws ws' \<longleftrightarrow> glob_json dir (snd ws') = glob_json dir (snd ws)"

interpretation experiments_apart: effect_frame "experiments_kept dir"
  by unfold_locales (simp_all add: experiments_kept_def)

lemma apart_not_in:
  assumes "apart base dir" and "xs \<noteq> []"
  shows "\<not> (path_root (PyPath (path_root base) (path_parts base @ xs)) = path_root dir
    \<and> butlast (path_parts (PyPath (path_root base) (path_parts base @ xs))) = path_parts dir)"
  using assms by (auto simp: butlast_append prefix_def) metis

lemma glob_fold_upsert:
  assumes "\<And>n. \<not> (path_root (f n) = path_root dir \<and> butlast (path_parts (f n)) = path_parts dir)"
  shows "glob_json dir (fold (\<lambda>(n, c). tbl_upsert fst (f n, c)) xs fs) = glob_json dir fs"
  by (induction xs arbitrary: fs) (auto simp: glob_json_other [OF assms])

lemma experiments_on_run: "abides (experiments_kept dir) (on_run m)"
  by (auto simp: abides_def on_run_def experiments_kept_def split: prod.split)

lemma experiments_save:
  assumes "apart base dir" and "good_bundle b"
  shows "abides (experiments_kept dir) (on_store (local_save_run_evidence base b))"
  unfolding abides_def
proof
  fix ws :: "run_world \<times> file_tree"
  show "experiments_kept dir ws (snd (on_store (local_save_run_evidence base b) ws))"
  proof (cases "local_save_run_evidence base b (snd ws)")
    case (Inl e)
    then show ?thesis by (cases ws) (simp add: on_store_def experiments_kept_def)
  next
    case (Inr r)
    obtain p s' where r: "r = (p, s')" by fastforce
    have "glob_json dir s' = glob_json dir (snd ws)"
      unfolding local_save_eq(1) [OF assms(2) Inr [unfolded r]] by (rule glob_fold_upsert [OF apart_not_in [OF assms(1)]]) simp
    then show ?thesis using Inr r by (cases ws) (simp add: on_store_def experiments_kept_def)
  qed
qed

lemma experiments_comparison:
  assumes "apart base dir" and "is_experiment_id e"
  shows "abides (experiments_kept dir) (on_store (\<lambda>s. Inr (local_save_comparison C base e r s)))"
proof -
  have p: "path_join (path_join base e) ''comparison.json'' = PyPath (path_root base) (path_parts base @ [e, ''comparison.json''])"
    using experiment_id_good [OF assms(2)] good_comparison_json by (simp add: path_join_good)
  show ?thesis
    by (auto simp: abides_def on_store_def local_save_comparison_def experiments_kept_def Let_def p
        glob_json_other [OF apart_not_in [OF assms(1)]] split: prod.splits)
qed

lemma experiments_run:
  assumes "apart base dir" and "is_experiment_id (ed_experiment_id e)"
  shows "abides (experiments_kept dir) (run_experiment E C (local_save_run_evidence base) (local_save_comparison C base) cwd stamp root' git e ctx)"
proof -
  have orchestration: "abides (experiments_kept dir)
      (execute_and_generate_evidence E C (local_save_run_evidence base) (local_save_comparison C base) q)"
    if "is_experiment_id (ed_experiment_id (rq_experiment q))" for q
    unfolding execute_and_generate_evidence_def
    by (intro experiments_apart.resp_bind experiments_apart.resp_branches abides_lift experiments_apart.R_refl experiments_on_run
        experiments_save experiments_comparison experiments_apart.resp_pure assms that built_bundle_good; assumption)
  show ?thesis unfolding run_experiment_def Let_def
    by (intro experiments_apart.resp_bind experiments_apart.resp_branches abides_lift experiments_apart.R_refl experiments_on_run
        orchestration experiments_apart.resp_pure assms; simp add: assms)
qed

lemma gov_run_once:
  assumes "layout_ok W" and "is_experiment_id (ed_experiment_id e)"
  shows "governed W w (snd (run_once W e ctx w))"
proof -
  let ?E = "(wv_run W)\<lparr>re_files := files_of (sd_files w), re_has_sink := True\<rparr>"
  obtain r rw fs where x: "run_experiment ?E (wv_codec W) (local_save_run_evidence (wv_results_root W))
      (local_save_comparison (wv_codec W) (wv_results_root W)) (wv_cwd W) (wv_stamp W (wk_stamps w)) (wv_results_root W) ''0000000'' e
      ctx (wk_run w, sd_files w) = (r, (rw, fs))" by (metis surj_pair)
  have "experiments_kept (wv_experiments_dir W) (wk_run w, sd_files w) (rw, fs)"
    by (rule abidesD [OF experiments_run [OF layoutD(4) [OF assms(1)] assms(2)] x])
  then show ?thesis using x by (simp add: run_once_def governed_def queue_ids_def experiments_kept_def)
qed

lemma gov_emit_event: "abides (governed W) (emit_event W' R m t d)"
  unfolding emit_event_def by (intro gov_rules gov_record_event)

lemma gov_run_with_events:
  assumes "layout_ok W" and "is_experiment_id (ed_experiment_id e)"
  shows "abides (governed W) (run_with_events W R m e :: ('z, run_outcome_summary) worker_m)"
proof -
  have emit: "abides (governed W) (emit_events W R m ts :: ('z, unit) worker_m)" for ts unfolding emit_events_def by (intro gov_rules gov_emit_event)
  have "governed W w' (snd (emit_events W R m ts w'))" for ts and w' :: "'z worker_state_scheme" using emit [of ts] by (simp add: abides_def)
  then have "governed W w (snd (run_with_events W R m e w))" for w :: "'z worker_state_scheme"
    unfolding run_with_events_def split_beta snd_conv by (rule gov.R_trans [OF gov_run_once [OF assms]])
  then show ?thesis by (simp add: abides_def)
qed

lemma gov_try: "abides (governed W) m \<Longrightarrow> abides (governed W) (tryE m)"
  by (simp add: abides_def tryE_def split: prod.split) (metis snd_conv)

lemma gov_record_status:
  "layout_ok W \<Longrightarrow> is_job_id (jm_job_id m) \<Longrightarrow> abides (governed W) (record_status W m t st res err)"
  unfolding record_status_def by (intro gov_rules gov_save_job) simp_all

lemma gov_worker_records: "abides (governed W) (worker_audit E R a t i u n d)" "abides (governed W) (worker_assurance E R e c)"
  unfolding worker_audit_def database_call_def worker_assurance_def record_control_validation_def bind_experiment_to_control_def
    get_or_create_control_def get_or_create_control_version_def record_validation_and_check_def record_validation_def check_regression_def
    list_validations_def Let_def
  by (intro gov_rules gov_create_if_new)+

lemma gov_job_outcome:
  assumes "layout_ok W" and "is_job_id (jm_job_id m)"
  shows "abides (governed W) (job_outcome W R m t e r)" "abides (governed W) (job_not_found W R m t)"
proof -
  note rules = gov_rules gov_record_status [OF assms] gov_emit_event gov_worker_records
  have "abides (governed W) (job_completed W R m t e s)" "abides (governed W) (job_denied W R m t d)" "abides (governed W) (job_failed W R m t err why)" for s d err why
    unfolding job_completed_def job_denied_def job_failed_def Let_def by (intro rules)+
  then show "abides (governed W) (job_outcome W R m t e r)"
    by (cases r; cases "projl r") (simp_all add: job_outcome_def)
  show "abides (governed W) (job_not_found W R m t)" unfolding job_not_found_def by (intro rules)
qed

lemma gov_process:
  assumes "layout_ok W" and "is_job_id (jm_job_id m)"
  shows "abides (governed W) (process_run_job W R m)"
proof -
  have found: "abides (governed W) (case x of None \<Rightarrow> job_not_found W R m t
      | Some e \<Rightarrow> bindE (tryE (run_with_events W R m e)) (job_outcome W R m t e))"
    if "getE (\<lambda>w. find_experiment (wv_discovery W) (wv_experiments_dir W) (jm_experiment_id m) (sd_files w)) w = (Inr x, w')"
    for t x and w w' :: "'a worker_state_scheme"
  proof (cases x)
    case (Some e)
    then have "is_experiment_id (ed_experiment_id e)" using that by (auto simp: getE_def intro: found_id)
    then show ?thesis using Some
      by (simp, intro gov_rules gov_try gov_run_with_events gov_job_outcome assms)
  qed (simp add: gov_job_outcome assms)
  show ?thesis unfolding process_run_job_def
    by (intro gov_rules gov_record_status assms gov.resp_bind_value [OF gov.resp_pure(3)] found)
qed

end
