(* ===== verification/Platform.thy ===== *)
theory Platform
  imports Governance
begin

section \<open>The operations of the platform\<close>

datatype platform_op =
    Request "string option" "string option" api_request
  | RunDelivered
  | RunRedelivered
  | WorkerDied
  | SyncDelivered sync_job_message
  | WorkbookImported bool "workbook option" pypath string
  | AdminCreated string "string option"

fun platform_step :: "platform \<Rightarrow> platform_op \<Rightarrow> 'z worker_state_scheme \<Rightarrow> 'z worker_state_scheme" where
  "platform_step P (Request token rq q) w = snd (api P token rq q w)"
| "platform_step P RunDelivered w = acknowledge (deliver (pf_worker P) (pf_recorders P) w)"
| "platform_step P RunRedelivered w = deliver (pf_worker P) (pf_recorders P) w"
| "platform_step P WorkerDied w = die_running (pf_worker P) w"
| "platform_step P (SyncDelivered m) w =
     handle_sync_message (wv_app (pf_worker P)) (wv_discovery (pf_worker P)) (pf_connectors P) (pf_url P) (wv_experiments_dir (pf_worker P))
       (\<lambda>_. Inr m) [] w"
| "platform_step P (WorkbookImported openpyxl wb path sheet) w =
     snd (import_and_merge (wv_app (pf_worker P)) (ce_parse (pf_connectors P)) (pf_url P) openpyxl (\<lambda>_. wb) path sheet w)"
| "platform_step P (AdminCreated name password) w =
     snd (create_admin (wv_app (pf_worker P)) (pf_environ P) (pf_hash P) name password w)"

section \<open>Everything but the workflow leaves the governance alone\<close>

lemma gov_void: "abides (governed W) m \<Longrightarrow> abides (governed W) (void m)"
  unfolding void_def by (intro gov_rules)

lemma gov_request:
  assumes "layout_ok (pf_worker P)" and "\<And>x. q \<noteq> Workflow x"
  shows "abides (governed (pf_worker P)) (api P token rq q)"
proof (cases "reading q")
  case True
  then show ?thesis by (rule gov_view [OF reading_abides])
next
  case False
  show ?thesis
  proof (cases q)
    case (Account x)
    with False show ?thesis by (cases x) (simp_all, (rule gov_void, rule gov_account)+)
  next
    case (Experiment x)
    with False show ?thesis by (cases x) (simp_all, (rule gov_void, rule gov_submit_run [OF assms(1)])+)
  next
    case (Intelligence x)
    with False show ?thesis by (cases x) (simp_all, (rule gov_void, rule gov_intelligence)+)
  next
    case (Catalog x)
    with False show ?thesis by (cases x) simp_all
  next
    case (Workflow x)
    with assms(2) [of x] show ?thesis by simp
  next
    case (Analysis x)
    with False show ?thesis by (cases x) (simp_all, (rule gov_void, (rule gov_ask | rule gov_inventory))+)
  next
    case (Inventory x)
    with False show ?thesis by (cases x) (simp_all, (rule gov_void, rule gov_inventory)+)
  next
    case (Revalidate x)
    with False show ?thesis by (cases x) (simp_all, (rule gov_void, rule gov_revalidation)+)
  qed
qed

lemma abides_snd: "abides R m \<Longrightarrow> R w (snd (m w))"
  by (simp add: abides_def)

lemma gov_deliver:
  assumes "layout_ok W" and "queue_ids W w"
  shows "governed W w (deliver W R w)"
proof (cases "wk_queue w")
  case Nil
  then show ?thesis by (simp add: deliver_def gov.R_refl)
next
  case (Cons body rest)
  show ?thesis
  proof (cases "wv_message W body")
    case (Inl e)
    then show ?thesis by (simp add: deliver_def Cons handle_message_body_def returnE_def gov.R_refl)
  next
    case (Inr m)
    then have "is_job_id (jm_job_id m)" using assms(2) Cons by (simp add: queue_ids_def)
    then have "abides (governed W) (best_effort (process_run_job W R m) :: ('a, unit) worker_m)"
      by (intro gov_best_effort gov_process assms)
    then show ?thesis by (simp add: deliver_def Cons handle_message_body_def Inr abides_snd)
  qed
qed

lemma gov_acknowledge: "governed W w (acknowledge w)"
  by (cases "wk_queue w") (auto simp: governed_def acknowledge_def queue_ids_def)

lemma gov_started: "layout_ok W \<Longrightarrow> is_job_id (jm_job_id m) \<Longrightarrow> governed W w (started W m existing w)"
  by (auto simp: started_def with_status_def governed_def queue_ids_def glob_job_saved job_record_at_def layoutD split: option.split)

lemma gov_die:
  assumes "layout_ok W" and "queue_ids W w"
  shows "governed W w (die_running W w)"
  using assms(2) unfolding die_running_def
  by (auto simp: queue_ids_def gov.R_refl intro!: gov_started assms(1) split: list.split sum.split)

fun outside_workflow :: "platform_op \<Rightarrow> bool" where
  "outside_workflow (Request token rq (Workflow x)) = False"
| "outside_workflow op = True"

lemma gov_step:
  assumes "layout_ok (pf_worker P)" and "queue_ids (pf_worker P) w" and "outside_workflow op"
  shows "governed (pf_worker P) w (platform_step P op w)"
proof (cases op)
  case (Request token rq q)
  with assms(3) have "\<And>x. q \<noteq> Workflow x" by auto
  then show ?thesis using Request by (simp add: abides_snd gov_request assms(1))
next
  case RunDelivered
  then show ?thesis using gov.R_trans [OF gov_deliver [OF assms(1,2)] gov_acknowledge] by simp
next
  case RunRedelivered
  then show ?thesis by (simp add: gov_deliver assms)
next
  case WorkerDied
  then show ?thesis by (simp add: gov_die assms)
next
  case (SyncDelivered m)
  then show ?thesis by (simp add: handle_sync_message_def abides_snd gov_intelligence)
next
  case (WorkbookImported openpyxl wb path sheet)
  then show ?thesis by (simp add: abides_snd gov_intelligence)
next
  case (AdminCreated name password)
  then show ?thesis by (simp add: abides_snd gov_account)
qed

section \<open>The workflow\<close>

text \<open>What a workflow request leaves alone outside the tables of the studio; without \<open>b\<close> the files are left out of it.\<close>

definition drafted :: "bool \<Rightarrow> worker_env \<Rightarrow> 'z worker_state_scheme \<Rightarrow> 'z worker_state_scheme \<Rightarrow> bool" where
  "drafted b W w w' \<longleftrightarrow> wk_queue w' = wk_queue w \<and> (b \<longrightarrow> experiment_files W w' = experiment_files W w)"

interpretation draft: effect_frame "drafted b W"
  by unfold_locales (auto simp: drafted_def)

lemma draft_env:
  "abides (drafted b W) (utc_now E)" "abides (drafted b W) (uuid4_hex E)" "abides (drafted b W) (audit_record E a1 b1 c d e f g h i j)"
  by (simp_all add: abides_def app_m_defs audit_record_eq Let_def audit_append_def drafted_def)

lemma draft_tables:
  "drafted b W w (w\<lparr>sd_versions := vs\<rparr>)" "drafted b W w (w\<lparr>sd_approvals := ds\<rparr>)" "drafted False W w (w\<lparr>sd_files := fs\<rparr>)"
  by (simp_all add: drafted_def)

lemma session_drafted: "only_session w w' \<Longrightarrow> drafted b W w w'"
  unfolding only_session_def drafted_def by (elim exE) simp

lemma draft_session: "abides only_session m \<Longrightarrow> abides (drafted b W) m"
  unfolding abides_def using session_drafted by blast

lemmas draft_rules = draft.resp_rules draft_env draft_tables draft_session [OF session_require_role]

lemma hex_no_slash: "list_all is_hex s \<Longrightarrow> CHR ''/'' \<notin> set s"
proof
  assume "list_all is_hex s" "CHR ''/'' \<in> set s"
  then have "is_hex (CHR ''/'')" by (auto simp: list_all_iff)
  then show False by (simp add: is_hex_def is_digit_def)
qed

lemma dataset_path_apart:
  assumes "layout_ok W" and "generate G generator seed config now = Inr g" and "resolve_generator k = Inr generator"
  shows "drafted b W w (w\<lparr>sd_files := tbl_upsert fst (path_join (path_join dataset_root (dv_generator_id (gd_provenance g)))
     (take 16 (dv_sha256 (gd_provenance g)) @ ''.json''), x) (sd_files w)\<rparr>)"
proof -
  have gen: "dv_generator_id (gd_provenance g) = generator" "is_sha256 (dv_sha256 (gd_provenance g))"
    using assms(2) by (auto simp: generate_def res_simps canonical_sha256_def)
  have "good_part generator" using assms(3)
    by (auto simp: resolve_generator_def known_generator_ids_def good_part_def split: if_splits)
  moreover have "good_part (take 16 (dv_sha256 (gd_provenance g)) @ ''.json'')"
    using gen(2) by (auto simp: is_sha256_def good_part_def hex_no_slash dest!: in_set_takeD)
  ultimately have p: "path_join (path_join dataset_root (dv_generator_id (gd_provenance g))) (take 16 (dv_sha256 (gd_provenance g)) @ ''.json'')
      = PyPath (path_root dataset_root) (path_parts dataset_root @ [generator, take 16 (dv_sha256 (gd_provenance g)) @ ''.json''])"
    by (simp add: path_join_good gen(1))
  show ?thesis unfolding p
    by (simp add: drafted_def glob_json_other [OF apart_not_in [OF layoutD(5) [OF assms(1)]]])
qed

lemma draft_build:
  assumes "layout_ok W"
  shows "abides (drafted b W) (build_experiment_draft E G reg q :: ('z, experiment_version) worker_m)"
proof -
  have gen: "abides (drafted b W) (bindE (liftE (generate G generator s c t)) (\<lambda>g. bindE (materialise_dataset G g) (k g)))"
    if "resolve_generator i = Inr generator" "\<And>g x. abides (drafted b W) (k g x)" for i generator s c t and k :: "generated_dataset \<Rightarrow> pypath \<Rightarrow> ('z, experiment_version) worker_m"
  proof (rule draft.resp_bind_value [OF draft.resp_pure(2)])
    fix g and w w' :: "'z worker_state_scheme" assume "liftE (generate G generator s c t) w = (Inr g, w')"
    then have "generate G generator s c t = Inr g" by (simp add: liftE_def)
    from dataset_path_apart [OF assms this that(1)] show "abides (drafted b W) (bindE (materialise_dataset G g) (k g))"
      unfolding materialise_dataset_def Let_def by (intro draft_rules that(2)) (auto simp: draft.R_refl)
  qed
  show ?thesis unfolding build_experiment_draft_def Let_def
  proof (rule draft.resp_bind [OF draft.resp_pure(2)], rule draft.resp_bind [OF draft.resp_pure(2)], rule draft.resp_bind [OF draft.resp_pure(2)],
      rule draft.resp_bind_value [OF draft.resp_pure(2)])
    fix pack :: domain_pack and t generator and w w' :: "'z worker_state_scheme"
    assume "liftE (resolve_generator (dp_dataset_generator_id pack)) w = (Inr generator, w')"
    then have r: "resolve_generator (dp_dataset_generator_id pack) = Inr generator" by (simp add: liftE_def)
    show "abides (drafted b W) (bindE (utc_now E) (\<lambda>generated_at.
       bindE (liftE (generate G generator (dq_seed q) (dq_dataset_config q) generated_at)) (\<lambda>g.
       bindE (materialise_dataset G g) (\<lambda>dataset_path.
       bindE (liftE (check_strategy_allowed q pack (hd (vt_allowed_baseline_strategies t)))) (\<lambda>_.
       bindE (liftE (check_strategy_allowed q pack (hd (vt_allowed_mitigation_strategies t)))) (\<lambda>_.
       bindE (utc_now E) (\<lambda>now.
       bindE (liftE (validate_definition (draft_definition q pack t (hd (vt_allowed_baseline_strategies t))
         (hd (vt_allowed_mitigation_strategies t)) dataset_path))) (\<lambda>d.
       liftE (validate_version (draft_version q d (gd_provenance g) now)))))))))
       :: ('z, experiment_version) worker_m)"
      by (rule draft.resp_bind [OF draft_env(1)], rule gen [OF r]) (intro draft_rules)
  qed
qed

lemmas draft_unfold = latest_version_number_def list_versions_def version_or_404_def get_version_def save_version_def audit_version_def
  edit_draft_def transition_def append_approval_decision_def materialise_to_experiments_dir_def Let_def option.case

lemma draft_create: "layout_ok W \<Longrightarrow> abides (drafted b W) (create_handler E G reg parse token q cfg rq)"
  unfolding create_handler_def draft_unfold by (intro draft_rules draft_build)

lemma draft_edit: "abides (drafted b W) (edit_handler E token i eq rq)"
  unfolding edit_handler_def draft_unfold by (intro draft_rules)

lemma draft_transition:
  "abides (drafted b W) (do_transition E C i target reason None u rq)" "abides (drafted False W) (do_transition E C i target reason dir u rq)"
  unfolding do_transition_def draft_unfold by (intro draft_rules)+

section \<open>What has been reviewed\<close>

text \<open>The text is the definition of a version that was approved; it may have been retired since.\<close>

definition reviewed :: "experiment_version \<Rightarrow> bool" where
  "reviewed v \<longleftrightarrow> ev_status v \<in> {EV_APPROVED, EV_RETIRED}"

definition approved_text :: "codec \<Rightarrow> experiment_version \<Rightarrow> string" where
  "approved_text C v = cd_experiment_text C ((ev_definition v)\<lparr>ed_approval_status := AS_APPROVED\<rparr>)"

definition reviewed_text :: "codec \<Rightarrow> string \<Rightarrow> 'z studio_state_scheme \<Rightarrow> bool" where
  "reviewed_text C c w \<longleftrightarrow> (\<exists>v \<in> set (sd_versions w). reviewed v \<and> c = approved_text C v)"

lemma frozen_fields:
  "ev_experiment_id (frozen v) = ev_experiment_id v" "ev_version_number (frozen v) = ev_version_number v"
  "approved_text C (frozen v) = approved_text C v"
  by (simp_all add: frozen_def approved_text_def)

lemma reviewed_text_kept:
  assumes "studio_effect w w'" and "studio_inv w" and "reviewed_text C c w"
  shows "reviewed_text C c w'"
proof -
  obtain v where v: "v \<in> set (sd_versions w)" "reviewed v" "c = approved_text C v" using assms(3) by (auto simp: reviewed_text_def)
  have ok: "tbl_ok ev_version_id (sd_versions w)" "studio_inv w'" using assms(2) effect_inv [OF assms(1,2)] by (simp_all add: studio_inv_def)
  have g: "tbl_get ev_version_id (ev_version_id v) (sd_versions w) = Some v" using ok(1) v(1) by (rule tbl_get_in)
  have "ev_status v \<noteq> EV_DRAFT" using v(2) by (auto simp: reviewed_def)
  then have "keeps_frozen v w" using assms(2) g by (simp add: keeps_frozen_def)
  then have "keeps_frozen v w'" by (rule effect_frozen [OF assms(1)])
  then obtain v' where v': "tbl_get ev_version_id (ev_version_id v) (sd_versions w') = Some v'" "frozen v' = frozen v" by (auto simp: keeps_frozen_def)
  have same: "ev_experiment_id v' = ev_experiment_id v" "ev_version_number v' = ev_version_number v"
    using v'(2) frozen_fields by metis+
  have "reviewed v'"
    using assms(1)
  proof cases
    case quiet
    then show ?thesis using g v' v(2) by simp
  next
    case (created u x)
    have "ev_version_id v \<noteq> ev_version_id x"
    proof
      assume "ev_version_id v = ev_version_id x"
      then have "v' = x" using v'(1) created(2) by (simp add: tbl_get_upsert)
      moreover have "\<forall>r \<in> set (sd_versions w). ev_experiment_id r = ev_experiment_id x \<longrightarrow> ev_version_number r < ev_version_number x"
        using created(1) by (simp add: fresh_draft_def)
      ultimately show False using v(1) same by fastforce
    qed
    then show ?thesis using g v'(1) v(2) created(2) by (simp add: tbl_get_upsert)
  next
    case (edited x now q)
    then have "x \<noteq> v" using v(2) by (auto simp: reviewed_def)
    then have "ev_version_id v \<noteq> ev_version_id x" using g edited(1) by auto
    then show ?thesis using g v'(1) v(2) edited(3) by (simp add: tbl_get_upsert)
  next
    case (moves x target u C' reason dir now)
    then have t: "sd_versions w' = tbl_upsert ev_version_id (moved x target now) (sd_versions w)" by (simp add: transition_done_def)
    have m: "ev_version_id (moved x target now) = ev_version_id x" "ev_status (moved x target now) = target" by (simp_all add: moved_def)
    show ?thesis
    proof (cases "ev_version_id v = ev_version_id x")
      case True
      have x: "x = v" using moves(1) g True by (metis option.inject)
      have "tbl_get ev_version_id (ev_version_id x) (sd_versions w') = Some (moved x target now)" by (simp add: t tbl_get_upsert m(1))
      then have "v' = moved x target now" using v'(1) True by (metis option.inject)
      with x show ?thesis using v(2) moves(2) m(2) by (auto simp: reviewed_def)
    next
      case False
      then show ?thesis using g v'(1) v(2) by (simp add: t tbl_get_upsert m(1))
    qed
  qed
  moreover have "approved_text C v' = approved_text C v" using v'(2) frozen_fields by metis
  ultimately show ?thesis using v(3) tbl_get_SomeD [OF v'(1)] by (auto simp: reviewed_text_def)
qed

section \<open>The review is kept\<close>

text \<open>
  A step of the platform: an effect of the studio on its tables, and no new file that discovery reads but the text of a
  version that was reviewed.
\<close>

definition review_kept :: "worker_env \<Rightarrow> 'z worker_state_scheme \<Rightarrow> 'z worker_state_scheme \<Rightarrow> bool" where
  "review_kept W w w' \<longleftrightarrow> studio_effect w w' \<and> (queue_ids W w \<longrightarrow> queue_ids W w')
     \<and> (\<forall>f \<in> set (experiment_files W w'). f \<in> set (experiment_files W w) \<or> reviewed_text (wv_codec W) (snd f) w')"

lemma governed_review: "governed W w w' \<Longrightarrow> review_kept W w w'"
  by (auto simp: governed_def review_kept_def intro: studio_effect.quiet)

lemma drafted_review: "drafted True W w w' \<Longrightarrow> studio_effect w w' \<Longrightarrow> review_kept W w w'"
  by (simp add: drafted_def review_kept_def queue_ids_def)

lemma written_experiment:
  assumes "f \<in> set (glob_json dir (tbl_upsert fst (p, c) fs))"
  shows "f \<in> set (glob_json dir fs) \<or> snd f = c"
  using assms by (auto simp: glob_json_def dest: mem_upsert)

lemma snd_void: "snd (void m w) = snd (m w)"
  by (simp add: void_def bindE_def returnE_def split: prod.split sum.split)

lemma create_effect: "studio_effect w (snd (create_handler E G reg parse tok q cfg rq w))"
  using studio_step_effect [of w "\<lparr>st_app = E, st_gen = G, st_templates = reg, st_parse = parse, st_codec = C, st_experiments_dir = d\<rparr>" "OpCreate tok q cfg rq" for C d]
  by simp

lemma edit_effect: "studio_effect w (snd (edit_handler E tok i q rq w))"
  using studio_step_effect [of w "\<lparr>st_app = E, st_gen = G, st_templates = reg, st_parse = parse, st_codec = C, st_experiments_dir = d\<rparr>" "OpEdit tok i q rq" for G reg parse C d]
  by simp

lemma review_transition:
  fixes w :: "'z worker_state_scheme"
  assumes "transition_audit_action target = Some act"
  shows "review_kept W w (snd (bindE (require_role E rs tok) (\<lambda>u. do_transition E C i target reason None u rq) w))"
proof (rule drafted_review [OF _ guarded_transition_effect [OF assms(1)]])
  have "abides (drafted True W) (bindE (require_role E rs tok) (\<lambda>u. do_transition E C i target reason None u rq)
      :: ('z, experiment_version) worker_m)"
    by (intro draft_rules draft_transition)
  then show "drafted True W w (snd (bindE (require_role E rs tok) (\<lambda>u. do_transition E C i target reason None u rq) w))"
    by (simp add: abides_def)
qed

lemma approval_written:
  assumes "transition_done C i EV_APPROVED reason (Some dir) u v now w w'" and "f \<in> set (glob_json dir (sd_files w'))"
    and "tbl_ok ev_version_id (sd_versions w)"
  shows "f \<in> set (glob_json dir (sd_files w)) \<or> reviewed_text C (snd f) w'"
proof -
  let ?v = "moved v EV_APPROVED now"
  have t: "sd_versions w' = tbl_upsert ev_version_id ?v (sd_versions w)"
    "sd_files w' = tbl_upsert fst (path_join dir (ev_experiment_id v @ ''.json''), cd_experiment_text C (ev_definition ?v)) (sd_files w)"
    using assms(1) by (simp_all add: transition_done_def)
  have "?v \<in> set (sd_versions w')" by (simp add: t(1) set_upsert [OF assms(3)])
  moreover have "reviewed ?v" "cd_experiment_text C (ev_definition ?v) = approved_text C ?v"
    by (simp_all add: reviewed_def moved_def approved_text_def)
  moreover have "f \<in> set (glob_json dir (sd_files w)) \<or> snd f = cd_experiment_text C (ev_definition ?v)"
    using written_experiment assms(2) unfolding t(2) by blast
  ultimately show ?thesis by (auto simp: reviewed_text_def)
qed

lemma review_approval:
  fixes w :: "'z worker_state_scheme"
  assumes "studio_inv w"
  shows "review_kept W w (snd (approve_handler E (wv_codec W) (wv_experiments_dir W) tok i reason rq w))"
proof (cases "require_role E [REVIEWER, ADMIN] tok w")
  case (Pair ru w1)
  let ?m = "approve_handler E (wv_codec W) (wv_experiments_dir W) tok i reason rq :: ('z, experiment_version) worker_m"
  have d1: "drafted True W w w1" by (rule abidesD [OF draft_session [OF session_require_role] Pair])
  have eff: "studio_effect w (snd (?m w))" unfolding approve_handler_def by (rule guarded_transition_effect) simp
  have "abides (drafted False W) ?m" unfolding approve_handler_def by (intro draft_rules draft_transition)
  then have q: "wk_queue (snd (?m w)) = wk_queue w" by (simp add: abides_def drafted_def)
  have files: "f \<in> set (experiment_files W w) \<or> reviewed_text (wv_codec W) (snd f) (snd (?m w))"
    if f: "f \<in> set (experiment_files W (snd (?m w)))" for f
  proof (cases ru)
    case (Inl e)
    then show ?thesis using f Pair d1 by (simp add: approve_handler_def bindE_def drafted_def)
  next
    case (Inr u)
    obtain r w' where d: "do_transition E (wv_codec W) i EV_APPROVED reason (Some (wv_experiments_dir W)) u rq w1 = (r, w')" by fastforce
    have w': "snd (?m w) = w'" using Pair Inr d by (simp add: approve_handler_def bindE_def)
    have ok: "tbl_ok ev_version_id (sd_versions w1)"
      using abidesD [OF same_require_role Pair] assms by (simp add: studio_same_def studio_inv_def)
    from do_transition_outcome [OF d transition_audit_action.simps(3)] show ?thesis
    proof (elim disjE exE conjE)
      assume "studio_quiet w1 w'"
      then show ?thesis using f d1 by (simp add: w' studio_quiet_def drafted_def)
    next
      fix v now assume "transition_done (wv_codec W) i EV_APPROVED reason (Some (wv_experiments_dir W)) u v now w1 w'"
      from approval_written [OF this _ ok] show ?thesis using f d1 by (simp add: w' drafted_def)
    qed
  qed
  then show ?thesis using eff q by (simp add: review_kept_def queue_ids_def)
qed

lemma approved_text_eq:
  assumes "ed_approval_status (ev_definition v) = AS_APPROVED"
  shows "approved_text C v = cd_experiment_text C (ev_definition v)"
  using assms by (cases "ev_definition v") (simp add: approved_text_def)

text \<open>Running a version writes its definition again.\<close>

lemma review_run_version:
  fixes w :: "'z worker_state_scheme"
  assumes "layout_ok W"
  shows "review_kept W w (snd (submit_experiment_version_run W tok rq i w))"
proof (cases "require_role (wv_app W) [RESEARCHER, REVIEWER, ADMIN] tok w")
  case (Pair ru w1)
  let ?m = "submit_experiment_version_run W tok rq i :: ('z, job_submitted_response) worker_m"
  have g1: "governed W w w1" by (rule abidesD [OF gov_role(1) Pair])
  show ?thesis
  proof (cases ru)
    case (Inl e)
    then show ?thesis using Pair g1 by (simp add: submit_experiment_version_run_def bindE_def governed_review)
  next
    case (Inr u)
    have m: "?m w = bindE (get_version i) (\<lambda>version. case version of
         None \<Rightarrow> raiseE (http_error 404 ''version_not_found'')
       | Some v \<Rightarrow> if ev_status v \<noteq> EV_APPROVED then raiseE (http_error 409 ''version_not_approved'')
         else bindE (materialise_to_experiments_dir (wv_codec W) (wv_experiments_dir W) v) (\<lambda>_.
           bindE (queue_job W (ev_experiment_id v) EXPERIMENT_RUN u) (\<lambda>job_id.
           bindE (audit_record (wv_app W) (Some (u_user_id u)) (Some (u_username u)) (Some (role_value (u_role u))) RUN_SUBMITTED
             (Some ''job'') (Some job_id) rq
             [(''experiment_id'', PStr (ev_experiment_id v)), (''version_id'', PStr i)] None None) (\<lambda>_.
           returnE \<lparr>js_job_id = job_id, js_experiment_id = ev_experiment_id v, js_status = job_status_value JS_QUEUED\<rparr>)))) w1"
      using Pair Inr by (simp add: submit_experiment_version_run_def bindE_def [of "require_role _ _ _"])
    show ?thesis
    proof (cases rule: get_version_cases [of i w1])
      case (row v)
      show ?thesis
      proof (cases "ev_status v = EV_APPROVED")
        case True
        let ?w2 = "w1\<lparr>sd_files := tbl_upsert fst (path_join (wv_experiments_dir W) (ev_experiment_id v @ ''.json''),
          cd_experiment_text (wv_codec W) (ev_definition v)) (sd_files w1)\<rparr>"
        have "abides (governed W) (bindE (queue_job W (ev_experiment_id v) EXPERIMENT_RUN u) (\<lambda>job_id.
           bindE (audit_record (wv_app W) (Some (u_user_id u)) (Some (u_username u)) (Some (role_value (u_role u))) RUN_SUBMITTED
             (Some ''job'') (Some job_id) rq
             [(''experiment_id'', PStr (ev_experiment_id v)), (''version_id'', PStr i)] None None) (\<lambda>_.
           returnE \<lparr>js_job_id = job_id, js_experiment_id = ev_experiment_id v, js_status = job_status_value JS_QUEUED\<rparr>))
           :: ('z, job_submitted_response) worker_m)"
          by (intro gov_rules gov_queue_job assms)
        then have g2: "governed W ?w2 (snd (?m w))"
          using row(1) True
          by (simp add: m bindE_def [of "get_version i"] materialise_to_experiments_dir_def Let_def bindE_def [of "modifyE f" for f]
              modifyE_def bindE_def [of "bindE m f" for m f] returnE_def abides_def)
        have "v \<in> set (sd_versions w1)" using row(2) by (auto dest: tbl_get_SomeD)
        moreover have "cd_experiment_text (wv_codec W) (ev_definition v) = approved_text (wv_codec W) v"
          using row(3) True by (simp add: validate_version_iff approved_text_eq expected_approval_status_def)
        ultimately have r: "reviewed_text (wv_codec W) (cd_experiment_text (wv_codec W) (ev_definition v)) (snd (?m w))"
          using True g2 by (auto simp: reviewed_text_def reviewed_def governed_def)
        have "f \<in> set (experiment_files W w) \<or> reviewed_text (wv_codec W) (snd f) (snd (?m w))"
          if f: "f \<in> set (experiment_files W (snd (?m w)))" for f
        proof -
          have "experiment_files W (snd (?m w)) = experiment_files W ?w2" "experiment_files W w1 = experiment_files W w"
            using g1 g2 unfolding governed_def by blast+
          then show ?thesis using f r written_experiment [of f "wv_experiments_dir W"] by fastforce
        qed
        moreover have "studio_effect w (snd (?m w))" using g1 g2
          by (intro studio_effect.quiet) (auto simp: governed_def intro: prefix_order.trans)
        ultimately show ?thesis using g1 g2 by (simp add: review_kept_def governed_def queue_ids_def)
      next
        case False
        then show ?thesis using row(1) g1 by (simp add: m bindE_def [of "get_version i"] raiseE_def governed_review)
      qed
    qed (use g1 in \<open>simp_all add: m bindE_def [of "get_version i"] raiseE_def governed_review\<close>)
  qed
qed

lemma review_request:
  assumes "layout_ok (pf_worker P)" and "studio_inv w"
  shows "review_kept (pf_worker P) w (snd (workflow_api P token rq x w))"
proof (cases x)
  case (CreateVersion q cfg)
  then show ?thesis by (simp add: snd_void drafted_review [OF abides_snd [OF draft_create [OF assms(1)]] create_effect])
next
  case (EditVersion i q)
  then show ?thesis by (simp add: snd_void drafted_review [OF abides_snd [OF draft_edit] edit_effect])
next
  case (ApproveVersion i reason)
  then show ?thesis by (simp add: snd_void review_approval assms(2))
next
  case (RunVersion i)
  then show ?thesis by (simp add: snd_void review_run_version assms(1))
qed (simp_all add: snd_void submit_review_handler_def start_review_handler_def reject_handler_def retire_handler_def review_transition)

lemma review_step:
  assumes "layout_ok (pf_worker P)" and "queue_ids (pf_worker P) w" and "studio_inv w"
  shows "review_kept (pf_worker P) w (platform_step P op w)"
proof (cases "outside_workflow op")
  case True
  then show ?thesis by (simp add: governed_review gov_step assms(1,2))
next
  case False
  then obtain token rq x where "op = Request token rq (Workflow x)" by (cases op rule: outside_workflow.cases) auto
  then show ?thesis by (simp add: review_request assms)
qed

section \<open>What holds after any history of the platform\<close>

text \<open>The invariant: \<open>base\<close> are the experiment files that the platform was delivered with.\<close>

definition platform_inv :: "platform \<Rightarrow> (pypath \<times> string) list \<Rightarrow> 'z worker_state_scheme \<Rightarrow> bool" where
  "platform_inv P base w \<longleftrightarrow> layout_ok (pf_worker P) \<and> queue_ids (pf_worker P) w \<and> studio_inv w
     \<and> (\<forall>f \<in> set (experiment_files (pf_worker P) w). f \<in> set base \<or> reviewed_text (wv_codec (pf_worker P)) (snd f) w)"

interpretation platform: op_system "platform_step P" "platform_inv P base"
proof
  fix w :: "'a worker_state_scheme" and op assume inv: "platform_inv P base w"
  then have r: "review_kept (pf_worker P) w (platform_step P op w)" by (simp add: review_step platform_inv_def)
  then have eff: "studio_effect w (platform_step P op w)" by (simp add: review_kept_def)
  have s: "studio_inv w" using inv by (simp add: platform_inv_def)
  show "platform_inv P base (platform_step P op w)"
    using inv r effect_inv [OF eff s] reviewed_text_kept [OF eff s] by (auto simp: platform_inv_def review_kept_def)
qed

lemma platform_effect: "platform_inv P base w \<Longrightarrow> studio_effect w (platform_step P op w)"
  using review_step by (auto simp: platform_inv_def review_kept_def)

interpretation platform_freezing: op_system "platform_step P" "\<lambda>w. platform_inv P base w \<and> keeps_frozen v w"
  by unfold_locales (auto intro: platform.step_inv effect_frozen [OF platform_effect])

lemma platform_start:
  "layout_ok (pf_worker P) \<Longrightarrow> studio_inv w \<Longrightarrow> queue_ids (pf_worker P) w \<Longrightarrow> platform_inv P (experiment_files (pf_worker P) w) w"
  by (simp add: platform_inv_def)

lemma platform_run_inv:
  assumes "layout_ok (pf_worker P)" and "studio_inv w" and "queue_ids (pf_worker P) w"
  shows "studio_inv (fold (platform_step P) ops w)"
  using platform.run_inv [OF platform_start [OF assms]] by (simp add: platform_inv_def)

lemma found_in_file:
  assumes "experiment_at W i w = Some e"
  obtains f where "f \<in> set (experiment_files W w)" "file_experiment (wv_discovery W) (snd f) = Some e"
proof -
  have "e \<in> set (xd_experiments (discover_experiments (wv_discovery W) (wv_experiments_dir W) (sd_files w)))"
    using find_eq_Some_D [OF assms [unfolded find_experiment_def]] by blast
  then show ?thesis
    by (auto simp: discover_experiments_def discover_files_experiments json_files_def map_filter_def split: prod.splits intro: that)
qed

text \<open>
  C9. The approval state machine of the whole platform. From a well-formed state, after any sequence of requests to any
  route by anybody, deliveries and repeated deliveries to the worker, crashes, synchronisations, imports and bootstraps of
  administrators, the recorded decisions of every experiment version, read in order, are allowed transitions that lead from
  draft to its present status, its identifier names exactly it, and the safety policy lets its definition run exactly when
  that status is approved.
\<close>

theorem platform_lifecycle:
  assumes "layout_ok (pf_worker P)" and "studio_inv w" and "queue_ids (pf_worker P) w"
    and "v \<in> set (sd_versions (fold (platform_step P) ops w))"
  shows "decision_path EV_DRAFT (decisions_for (ev_version_id v) (fold (platform_step P) ops w)) = Some (ev_status v)
    \<and> tbl_get ev_version_id (version_id_of (ev_experiment_id v) (ev_version_number v)) (sd_versions (fold (platform_step P) ops w)) = Some v
    \<and> (\<exists>d. evaluate (ev_definition v) EXPERIMENT_RUN now = Inr d \<and> (pd_allowed d \<longleftrightarrow> ev_status v = EV_APPROVED))"
  by (rule version_governed [OF platform_run_inv [OF assms(1-3)] assms(4)])

text \<open>
  C10. Separation of duties on the whole platform. After any such history, every version that is approved, or was
  approved and is retired, has a decision from under review to approved whose actor did not create the version, unless the
  audit trail has an approval of that version by that actor acting as an administrator.
\<close>

theorem platform_separation_of_duties:
  assumes "layout_ok (pf_worker P)" and "studio_inv w" and "queue_ids (pf_worker P) w"
    and "v \<in> set (sd_versions (fold (platform_step P) ops w))" and "ev_status v \<in> {EV_APPROVED, EV_RETIRED}"
  shows "\<exists>d \<in> set (decisions_for (ev_version_id v) (fold (platform_step P) ops w)).
    ad_from_status d = EV_UNDER_REVIEW \<and> ad_to_status d = EV_APPROVED
    \<and> (ad_actor d \<noteq> ev_created_by v \<or> admin_approval_audited d (ap_audit (fold (platform_step P) ops w)))"
  by (rule approved_by_another [OF platform_run_inv [OF assms(1-3)] assms(4,5)])

text \<open>
  C11. Content is immutable once submitted. A version that has left draft stays in the table for ever, never becomes a
  draft again, and nothing that happens on the platform changes anything of it but its status, the approval field that
  follows the status, and the time of its last change: not its author, not its definition, not its dataset.
\<close>

theorem platform_content_immutable:
  assumes "layout_ok (pf_worker P)" and "studio_inv w" and "queue_ids (pf_worker P) w"
    and "tbl_get ev_version_id i (sd_versions w) = Some v" and "ev_status v \<noteq> EV_DRAFT"
  shows "\<exists>v'. tbl_get ev_version_id i (sd_versions (fold (platform_step P) ops w)) = Some v'
    \<and> frozen v' = frozen v \<and> ev_status v' \<noteq> EV_DRAFT"
proof -
  have i: "ev_version_id v = i" using assms(4) by (auto dest: tbl_get_SomeD)
  have "platform_inv P (experiment_files (pf_worker P) w) w \<and> keeps_frozen v w"
    using platform_start [OF assms(1-3)] assms(2,4,5) i by (simp add: keeps_frozen_def)
  then have "keeps_frozen v (fold (platform_step P) ops w)" using platform_freezing.run_inv by blast
  then show ?thesis by (simp add: keeps_frozen_def i)
qed

text \<open>
  C8. Only what was delivered or reviewed can run. After any history of the platform, the experiment that a request or
  a job finds under an identifier is the content of a file that was in the directory of experiments from the start, or the
  definition of a version that was approved, by a decision from under review to approved whose actor did not create
  the version unless an administrator's approval is in the audit trail. No other route, no run and no import brings an
  experiment in.
\<close>

theorem only_reviewed_experiments:
  assumes "layout_ok (pf_worker P)" and "studio_inv w" and "queue_ids (pf_worker P) w"
    and "experiment_at (pf_worker P) i (fold (platform_step P) ops w) = Some e"
  shows "(\<exists>f \<in> set (experiment_files (pf_worker P) w). file_experiment (wv_discovery (pf_worker P)) (snd f) = Some e)
    \<or> (\<exists>v \<in> set (sd_versions (fold (platform_step P) ops w)).
        file_experiment (wv_discovery (pf_worker P)) (approved_text (wv_codec (pf_worker P)) v) = Some e
        \<and> ev_status v \<in> {EV_APPROVED, EV_RETIRED}
        \<and> (\<exists>d \<in> set (decisions_for (ev_version_id v) (fold (platform_step P) ops w)).
             ad_from_status d = EV_UNDER_REVIEW \<and> ad_to_status d = EV_APPROVED
             \<and> (ad_actor d \<noteq> ev_created_by v \<or> admin_approval_audited d (ap_audit (fold (platform_step P) ops w)))))"
proof -
  let ?W = "pf_worker P" and ?w = "fold (platform_step P) ops w"
  have inv: "platform_inv P (experiment_files ?W w) ?w" by (rule platform.run_inv [OF platform_start [OF assms(1-3)]])
  obtain f where f: "f \<in> set (experiment_files ?W ?w)" "file_experiment (wv_discovery ?W) (snd f) = Some e"
    using assms(4) by (rule found_in_file)
  then consider "f \<in> set (experiment_files ?W w)" | "reviewed_text (wv_codec ?W) (snd f) ?w" using inv by (auto simp: platform_inv_def)
  then show ?thesis
  proof cases
    case 2
    then obtain v where v: "v \<in> set (sd_versions ?w)" "reviewed v" "snd f = approved_text (wv_codec ?W) v" by (auto simp: reviewed_text_def)
    from approved_by_another [OF _ v(1)] inv v f(2) show ?thesis by (auto simp: platform_inv_def reviewed_def)
  qed (use f(2) in blast)
qed

section \<open>An example\<close>

definition demo_site :: worker_state where
  "demo_site = demo_worker\<lparr>sd_versions := [demo_version EV_UNDER_REVIEW], sd_approvals := sd_approvals demo_studio\<rparr>"

definition demo_approval :: platform_op where
  "demo_approval = Request (Some ''tok'') None (Workflow (ApproveVersion ''ZC-VPN-EXP-001@v1'' None))"

lemma dataset_root_parts: "dataset_root = PyPath [] [''test_data'', ''generated'']"
  by code_simp

lemma studio_inv_cong:
  "sd_versions w = sd_versions w' \<Longrightarrow> sd_approvals w = sd_approvals w' \<Longrightarrow> ap_audit w = ap_audit w' \<Longrightarrow> studio_inv w = studio_inv w'"
  by (simp add: studio_inv_def duties_separate_def decisions_for_def)

lemma demo_layout: "layout_ok (pf_worker demo_platform)"
  using deploymentD(2,3) [OF demo_deployment]
  by (simp add: layout_ok_def demo_platform_def dataset_root_parts) (simp add: demo_worker_env_def)

lemma demo_site_audit: "ap_audit demo_site = []" "wk_queue demo_site = []"
  by (simp_all add: demo_site_def demo_worker_def demo_assurance_def demo_intel_def demo_runs_def runs_state.defs intel_state.defs assurance_state.defs)

lemma demo_site_inv: "studio_inv demo_site"
proof -
  have "studio_inv demo_site = studio_inv demo_studio"
    by (rule studio_inv_cong) (simp_all add: demo_site_audit, simp_all add: demo_site_def demo_studio_def)
  then show ?thesis using demo_studio_inv by simp
qed

lemma demo_site_queue: "queue_ids (pf_worker demo_platform) demo_site"
  by (simp add: queue_ids_def demo_site_audit)

lemma demo_approved_platform:
  "\<exists>now. moved (demo_version EV_UNDER_REVIEW) EV_APPROVED now \<in> set (sd_versions (platform_step demo_platform demo_approval demo_site))"
proof -
  let ?W = "pf_worker demo_platform"
  obtain w1 where rr: "require_role (wv_app ?W) [REVIEWER, ADMIN] (Some ''tok'') demo_site = (Inr (user.truncate demo_reviewer), w1)"
    by (simp add: require_role_def get_current_user_def get_user_for_session_def get_session_with_user_def app_m_defs demo_site_def demo_worker_def
        demo_platform_def demo_assurance_def demo_intel_def demo_runs_def demo_studio_def demo_reviewer_def tbl_get_Cons user_from_orm_def
        user.truncate_def raise_if_def touch_session_def demo_worker_env_def demo_app_env_def runs_state.defs intel_state.defs assurance_state.defs)
  have w1: "sd_versions w1 = [demo_version EV_UNDER_REVIEW]"
    using abidesD [OF same_require_role rr] by (simp add: studio_same_def demo_site_def)
  have row: "get_version ''ZC-VPN-EXP-001@v1'' w1 = (Inr (Some (demo_version EV_UNDER_REVIEW)), w1)"
    by (simp add: get_version_eq w1 tbl_get_Cons demo_version_sel demo_version_valid)
  have u: "u_username (user.truncate demo_reviewer) = ''bob''" by (simp add: demo_reviewer_def user.truncate_def)
  obtain w' now where d: "do_transition (wv_app ?W) (wv_codec ?W) ''ZC-VPN-EXP-001@v1'' EV_APPROVED None (Some (wv_experiments_dir ?W))
      (user.truncate demo_reviewer) None w1 = (Inr (moved (demo_version EV_UNDER_REVIEW) EV_APPROVED now), w')"
    "transition_done (wv_codec ?W) ''ZC-VPN-EXP-001@v1'' EV_APPROVED None (Some (wv_experiments_dir ?W)) (user.truncate demo_reviewer)
       (demo_version EV_UNDER_REVIEW) now w1 w'"
    using do_transition_eq [OF _ row, of EV_APPROVED _ "wv_app ?W" "wv_codec ?W" None "Some (wv_experiments_dir ?W)"
        "user.truncate demo_reviewer" None]
    by (auto simp: self_approval_def demo_version_sel u)
  then have "platform_step demo_platform demo_approval demo_site = w'"
    using rr by (simp add: demo_approval_def snd_void approve_handler_def bindE_def)
  moreover have "tbl_ok ev_version_id (sd_versions w1)" by (simp add: w1 tbl_ok_def)
  ultimately show ?thesis using d(2) by (auto simp: transition_done_def set_upsert)
qed

lemma demo_approved_version:
  obtains v where "v \<in> set (sd_versions (fold (platform_step demo_platform) [demo_approval] demo_site))" "ev_status v = EV_APPROVED"
    "ev_version_id v = ''ZC-VPN-EXP-001@v1''"
proof -
  obtain now where "moved (demo_version EV_UNDER_REVIEW) EV_APPROVED now \<in> set (sd_versions (platform_step demo_platform demo_approval demo_site))"
    using demo_approved_platform by blast
  then show ?thesis by (intro that [of "moved (demo_version EV_UNDER_REVIEW) EV_APPROVED now"]) (simp_all add: moved_def demo_version_sel)
qed

lemmas demo_start = demo_layout demo_site_inv demo_site_queue

theorem platform_lifecycle_witness:
  "\<exists>v. v \<in> set (sd_versions (fold (platform_step demo_platform) [demo_approval] demo_site)) \<and> ev_status v = EV_APPROVED
     \<and> (\<exists>d. evaluate (ev_definition v) EXPERIMENT_RUN 0 = Inr d \<and> pd_allowed d)"
proof -
  obtain v where "v \<in> set (sd_versions (fold (platform_step demo_platform) [demo_approval] demo_site))" "ev_status v = EV_APPROVED"
    using demo_approved_version .
  then show ?thesis using platform_lifecycle [OF demo_start, of v "[demo_approval]" 0] by blast
qed

theorem platform_separation_of_duties_witness:
  "\<exists>d \<in> set (decisions_for ''ZC-VPN-EXP-001@v1'' (fold (platform_step demo_platform) [demo_approval] demo_site)).
     ad_from_status d = EV_UNDER_REVIEW \<and> ad_to_status d = EV_APPROVED"
proof -
  obtain v where "v \<in> set (sd_versions (fold (platform_step demo_platform) [demo_approval] demo_site))" "ev_status v = EV_APPROVED"
    "ev_version_id v = ''ZC-VPN-EXP-001@v1''"
    using demo_approved_version .
  then show ?thesis using platform_separation_of_duties [OF demo_start, of v "[demo_approval]"] by auto
qed

theorem platform_content_immutable_witness:
  "\<exists>v'. tbl_get ev_version_id ''ZC-VPN-EXP-001@v1'' (sd_versions (fold (platform_step demo_platform) [demo_approval] demo_site)) = Some v'
     \<and> frozen v' = frozen (demo_version EV_UNDER_REVIEW)"
  using platform_content_immutable [OF demo_start, of "''ZC-VPN-EXP-001@v1''" "demo_version EV_UNDER_REVIEW" "[demo_approval]"]
  by (auto simp: demo_site_def tbl_get_Cons demo_version_sel)

theorem only_reviewed_experiments_witness:
  "\<exists>e. experiment_at (pf_worker demo_platform) ''ZC-VPN-EXP-001'' (fold (platform_step demo_platform) [RunDelivered, WorkerDied] demo_site) = Some e
     \<and> ((\<exists>f \<in> set (experiment_files (pf_worker demo_platform) demo_site). file_experiment (wv_discovery (pf_worker demo_platform)) (snd f) = Some e)
       \<or> (\<exists>v \<in> set (sd_versions (fold (platform_step demo_platform) [RunDelivered, WorkerDied] demo_site)). ev_status v \<in> {EV_APPROVED, EV_RETIRED}))"
proof -
  have "sd_files (fold (platform_step demo_platform) [RunDelivered, WorkerDied] demo_site) = sd_files demo_worker"
    by (simp add: deliver_def acknowledge_def die_running_def demo_site_audit) (simp add: demo_site_def)
  then have "experiment_at (pf_worker demo_platform) ''ZC-VPN-EXP-001'' (fold (platform_step demo_platform) [RunDelivered, WorkerDied] demo_site)
      = Some (demo_experiment AS_DRAFT)"
    using demo_draft_found by (simp add: demo_platform_def)
  then show ?thesis using only_reviewed_experiments [OF demo_start, of "''ZC-VPN-EXP-001''" "[RunDelivered, WorkerDied]"] by blast
qed

end
