(* ===== verification/Db_Models.thy ===== *)
theory Db_Models
  imports Py_Prelude
begin

text \<open>
  The tables of the database as SQLAlchemy's declarations give them (\<open>db/models.py\<close>): columns with their types,
  keys, references and indexes, and the schema that the declarations stand for.
\<close>

section \<open>Schemas\<close>

datatype sql_type = SqlString | SqlInteger | SqlFloat | SqlBoolean | SqlDateTime | SqlJSON

record column =
  co_name :: string
  co_type :: sql_type
  co_nullable :: bool
  co_primary_key :: bool
  co_autoincrement :: bool
  co_references :: "(string \<times> string) option"
  co_server_default :: "string option"
  co_unique :: bool
  co_index :: bool

definition column :: "string \<Rightarrow> sql_type \<Rightarrow> column" where
  "column n t = \<lparr>co_name = n, co_type = t, co_nullable = False, co_primary_key = False, co_autoincrement = False,
     co_references = None, co_server_default = None, co_unique = False, co_index = False\<rparr>"

definition nullable :: "column \<Rightarrow> column" where "nullable c = c\<lparr>co_nullable := True\<rparr>"
definition primary_key :: "column \<Rightarrow> column" where "primary_key c = c\<lparr>co_primary_key := True\<rparr>"
definition autoincrement :: "column \<Rightarrow> column" where "autoincrement c = c\<lparr>co_autoincrement := True\<rparr>"
definition references :: "string \<Rightarrow> string \<Rightarrow> column \<Rightarrow> column" where "references t k c = c\<lparr>co_references := Some (t, k)\<rparr>"
definition server_default :: "string \<Rightarrow> column \<Rightarrow> column" where "server_default d c = c\<lparr>co_server_default := Some d\<rparr>"
definition unique :: "column \<Rightarrow> column" where "unique c = c\<lparr>co_unique := True\<rparr>"
definition indexed :: "column \<Rightarrow> column" where "indexed c = c\<lparr>co_index := True\<rparr>"

text \<open>
  In the database a unique column is a constraint of its table and an index stands for itself, so the two marks are
  dropped from the column. PostgreSQL names the constraint of a column after the table and the column.
\<close>

record table_def =
  tb_name :: string
  tb_columns :: "column list"
  tb_uniques :: "(string \<times> string list) list"

record index_def =
  ix_name :: string
  ix_table :: string
  ix_columns :: "string list"
  ix_unique :: bool

record schema =
  sc_tables :: "table_def list"
  sc_indexes :: "index_def list"

definition plain :: "column \<Rightarrow> column" where
  "plain c = c\<lparr>co_unique := False, co_index := False\<rparr>"

definition column_key :: "string \<Rightarrow> column \<Rightarrow> string \<times> string list" where
  "column_key t c = (t @ ''_'' @ co_name c @ ''_key'', [co_name c])"

section \<open>Declarations\<close>

record orm_table =
  ot_name :: string
  ot_columns :: "column list"
  ot_uniques :: "(string \<times> string list) list"

definition orm :: "string \<Rightarrow> column list \<Rightarrow> (string \<times> string list) list \<Rightarrow> orm_table" where
  "orm n cs us = \<lparr>ot_name = n, ot_columns = cs, ot_uniques = us\<rparr>"

definition RunORM :: orm_table where
  "RunORM = orm ''runs''
    [primary_key (column ''job_id'' SqlString),
     indexed (column ''experiment_id'' SqlString),
     column ''execution_context'' SqlString,
     column ''current_status'' SqlString,
     column ''created_at'' SqlDateTime,
     column ''updated_at'' SqlDateTime]
    []"

definition RunEventORM :: orm_table where
  "RunEventORM = orm ''run_events''
    [autoincrement (primary_key (column ''id'' SqlInteger)),
     indexed (references ''runs'' ''job_id'' (column ''job_id'' SqlString)),
     column ''experiment_id'' SqlString,
     column ''event_type'' SqlString,
     column ''occurred_at'' SqlDateTime,
     nullable (column ''detail'' SqlJSON)]
    []"

definition VulnerabilityORM :: orm_table where
  "VulnerabilityORM = orm ''vulnerabilities''
    [primary_key (column ''cve_id'' SqlString),
     nullable (column ''description'' SqlString),
     nullable (column ''published_at'' SqlDateTime),
     nullable (column ''last_modified_at'' SqlDateTime),
     nullable (column ''cvss_score'' SqlFloat),
     nullable (column ''cvss_vector'' SqlString),
     nullable (column ''cvss_version'' SqlString),
     nullable (column ''epss_score'' SqlFloat),
     nullable (column ''epss_percentile'' SqlFloat),
     nullable (column ''epss_date'' SqlString),
     column ''kev_listed'' SqlBoolean,
     nullable (column ''kev_date_added'' SqlString),
     nullable (column ''kev_due_date'' SqlString),
     nullable (column ''kev_known_ransomware'' SqlString),
     column ''cwe_ids'' SqlJSON,
     nullable (column ''vendor'' SqlString),
     nullable (column ''domain_guess'' SqlString),
     nullable (column ''zero_click_relevance'' SqlString),
     column ''references'' SqlJSON,
     column ''sources'' SqlJSON,
     column ''first_seen_at'' SqlDateTime,
     column ''last_updated_at'' SqlDateTime]
    []"

definition VulnerabilitySourceORM :: orm_table where
  "VulnerabilitySourceORM = orm ''vulnerability_sources''
    [autoincrement (primary_key (column ''id'' SqlInteger)),
     indexed (references ''vulnerabilities'' ''cve_id'' (column ''cve_id'' SqlString)),
     column ''source'' SqlString,
     nullable (column ''source_identifier'' SqlString),
     nullable (column ''description'' SqlString),
     nullable (column ''published_at'' SqlDateTime),
     nullable (column ''last_modified_at'' SqlDateTime),
     nullable (column ''cvss_score'' SqlFloat),
     nullable (column ''cvss_vector'' SqlString),
     nullable (column ''cvss_version'' SqlString),
     nullable (column ''epss_score'' SqlFloat),
     nullable (column ''epss_percentile'' SqlFloat),
     nullable (column ''kev_listed'' SqlBoolean),
     nullable (column ''kev_date_added'' SqlString),
     nullable (column ''kev_due_date'' SqlString),
     column ''cwe_ids'' SqlJSON,
     nullable (column ''vendor'' SqlString),
     column ''references'' SqlJSON,
     column ''first_seen_at'' SqlDateTime,
     column ''last_seen_at'' SqlDateTime]
    [(''uq_vulnerability_sources_cve_source'', [''cve_id'', ''source''])]"

definition VulnerabilityHistoryORM :: orm_table where
  "VulnerabilityHistoryORM = orm ''vulnerability_history''
    [autoincrement (primary_key (column ''id'' SqlInteger)),
     indexed (references ''vulnerabilities'' ''cve_id'' (column ''cve_id'' SqlString)),
     column ''source'' SqlString,
     column ''field'' SqlString,
     nullable (column ''old_value'' SqlString),
     nullable (column ''new_value'' SqlString),
     column ''observed_at'' SqlDateTime]
    []"

definition ProductORM :: orm_table where
  "ProductORM = orm ''products''
    [autoincrement (primary_key (column ''id'' SqlInteger)),
     column ''vendor'' SqlString,
     column ''name'' SqlString,
     nullable (column ''cpe'' SqlString)]
    [(''uq_products_vendor_name'', [''vendor'', ''name''])]"

definition AffectedProductORM :: orm_table where
  "AffectedProductORM = orm ''affected_products''
    [autoincrement (primary_key (column ''id'' SqlInteger)),
     indexed (references ''vulnerabilities'' ''cve_id'' (column ''cve_id'' SqlString)),
     references ''products'' ''id'' (column ''product_id'' SqlInteger),
     nullable (column ''version_range'' SqlString)]
    []"

definition VendorAdvisoryORM :: orm_table where
  "VendorAdvisoryORM = orm ''vendor_advisories''
    [primary_key (column ''advisory_id'' SqlString),
     column ''source'' SqlString,
     indexed (nullable (column ''cve_id'' SqlString)),
     column ''title'' SqlString,
     nullable (column ''summary'' SqlString),
     nullable (column ''severity'' SqlString),
     nullable (column ''published_at'' SqlDateTime),
     nullable (column ''updated_at'' SqlDateTime),
     column ''references'' SqlJSON]
    []"

definition IntelligenceSyncORM :: orm_table where
  "IntelligenceSyncORM = orm ''intelligence_syncs''
    [primary_key (column ''sync_id'' SqlString),
     indexed (column ''source'' SqlString),
     column ''status'' SqlString,
     nullable (column ''since'' SqlDateTime),
     column ''started_at'' SqlDateTime,
     nullable (column ''completed_at'' SqlDateTime),
     column ''fetched_count'' SqlInteger,
     column ''created_count'' SqlInteger,
     column ''updated_count'' SqlInteger,
     column ''unchanged_count'' SqlInteger,
     column ''failed_count'' SqlInteger,
     nullable (column ''error_summary'' SqlString)]
    []"

definition ValidationCandidateORM :: orm_table where
  "ValidationCandidateORM = orm ''validation_candidates''
    [autoincrement (primary_key (column ''id'' SqlInteger)),
     indexed (references ''vulnerabilities'' ''cve_id'' (column ''cve_id'' SqlString)),
     nullable (column ''domain'' SqlString),
     indexed (column ''support_status'' SqlString),
     indexed (column ''priority_score'' SqlFloat),
     indexed (column ''priority_label'' SqlString),
     column ''explanation'' SqlJSON,
     column ''existing_experiment_ids'' SqlJSON,
     column ''generated_at'' SqlDateTime]
    [(''uq_validation_candidates_cve_domain'', [''cve_id'', ''domain''])]"

definition ExperimentVersionORM :: orm_table where
  "ExperimentVersionORM = orm ''experiment_versions''
    [primary_key (column ''version_id'' SqlString),
     indexed (column ''experiment_id'' SqlString),
     column ''version_number'' SqlInteger,
     indexed (column ''status'' SqlString),
     column ''domain_pack_id'' SqlString,
     column ''template_id'' SqlString,
     column ''template_version'' SqlString,
     column ''definition'' SqlJSON,
     nullable (column ''dataset_provenance'' SqlJSON),
     column ''created_by'' SqlString,
     column ''created_at'' SqlDateTime,
     column ''updated_at'' SqlDateTime]
    [(''uq_experiment_versions_id_number'', [''experiment_id'', ''version_number''])]"

definition ExperimentVersionApprovalORM :: orm_table where
  "ExperimentVersionApprovalORM = orm ''experiment_version_approvals''
    [autoincrement (primary_key (column ''id'' SqlInteger)),
     indexed (references ''experiment_versions'' ''version_id'' (column ''version_id'' SqlString)),
     column ''from_status'' SqlString,
     column ''to_status'' SqlString,
     column ''actor'' SqlString,
     nullable (column ''reason'' SqlString),
     column ''decided_at'' SqlDateTime]
    []"

definition AssetORM :: orm_table where
  "AssetORM = orm ''assets''
    [primary_key (column ''asset_id'' SqlString),
     column ''name'' SqlString,
     indexed (column ''vendor'' SqlString),
     indexed (column ''product'' SqlString),
     nullable (column ''version'' SqlString),
     column ''environment'' SqlString,
     column ''exposure'' SqlString,
     indexed (column ''criticality'' SqlString),
     indexed (column ''active'' SqlBoolean),
     column ''created_at'' SqlDateTime,
     column ''updated_at'' SqlDateTime]
    []"

definition ControlORM :: orm_table where
  "ControlORM = orm ''controls''
    [primary_key (column ''control_id'' SqlString),
     column ''name'' SqlString,
     indexed (column ''domain'' SqlString),
     column ''mitigation_strategy_id'' SqlString,
     column ''created_at'' SqlDateTime]
    []"

definition ControlVersionORM :: orm_table where
  "ControlVersionORM = orm ''control_versions''
    [primary_key (column ''version_id'' SqlString),
     indexed (references ''controls'' ''control_id'' (column ''control_id'' SqlString)),
     column ''version_label'' SqlString,
     column ''domain_pack_id'' SqlString,
     column ''template_id'' SqlString,
     column ''template_version'' SqlString,
     column ''created_at'' SqlDateTime]
    [(''uq_control_versions_control_label'', [''control_id'', ''version_label''])]"

definition ControlValidationORM :: orm_table where
  "ControlValidationORM = orm ''control_validations''
    [primary_key (column ''validation_id'' SqlString),
     indexed (references ''controls'' ''control_id'' (column ''control_id'' SqlString)),
     indexed (references ''control_versions'' ''version_id'' (column ''version_id'' SqlString)),
     indexed (column ''experiment_id'' SqlString),
     column ''baseline_run_id'' SqlString,
     column ''mitigation_run_id'' SqlString,
     column ''total_cases'' SqlInteger,
     column ''block_rate_improvement'' SqlFloat,
     column ''false_positive_rate'' SqlFloat,
     column ''false_negative_rate'' SqlFloat,
     column ''valid_acceptance_rate'' SqlFloat,
     column ''parser_reach_rate'' SqlFloat,
     column ''latency_overhead_ms'' SqlFloat,
     column ''verdict_label'' SqlString,
     indexed (column ''validated_at'' SqlDateTime)]
    []"

definition RevalidationCandidateORM :: orm_table where
  "RevalidationCandidateORM = orm ''revalidation_candidates''
    [primary_key (column ''candidate_id'' SqlString),
     indexed (references ''controls'' ''control_id'' (column ''control_id'' SqlString)),
     nullable (column ''experiment_id'' SqlString),
     indexed (column ''trigger_type'' SqlString),
     column ''trigger_detail'' SqlString,
     indexed (column ''status'' SqlString),
     column ''created_at'' SqlDateTime,
     nullable (column ''reviewed_by'' SqlString),
     nullable (column ''reviewed_at'' SqlDateTime),
     nullable (column ''review_note'' SqlString)]
    []"

definition AIAssessmentORM :: orm_table where
  "AIAssessmentORM = orm ''ai_assessments''
    [primary_key (column ''assessment_id'' SqlString),
     indexed (column ''assessment_type'' SqlString),
     indexed (column ''subject_type'' SqlString),
     indexed (column ''subject_id'' SqlString),
     column ''payload'' SqlJSON,
     column ''confidence'' SqlFloat,
     indexed (column ''reviewed'' SqlBoolean),
     nullable (column ''reviewed_by'' SqlString),
     nullable (column ''reviewed_at'' SqlDateTime),
     nullable (column ''review_note'' SqlString),
     indexed (column ''created_at'' SqlDateTime)]
    []"

definition UserORM :: orm_table where
  "UserORM = orm ''users''
    [primary_key (column ''user_id'' SqlString),
     indexed (unique (column ''username'' SqlString)),
     column ''password_hash'' SqlString,
     indexed (column ''role'' SqlString),
     indexed (column ''active'' SqlBoolean),
     column ''failed_login_attempts'' SqlInteger,
     nullable (column ''locked_until'' SqlDateTime),
     column ''created_at'' SqlDateTime,
     column ''updated_at'' SqlDateTime]
    []"

definition SessionORM :: orm_table where
  "SessionORM = orm ''sessions''
    [primary_key (column ''session_id'' SqlString),
     indexed (references ''users'' ''user_id'' (column ''user_id'' SqlString)),
     column ''created_at'' SqlDateTime,
     indexed (column ''expires_at'' SqlDateTime),
     column ''last_used_at'' SqlDateTime,
     nullable (column ''ip_address'' SqlString),
     nullable (column ''user_agent'' SqlString)]
    []"

definition AuditEventORM :: orm_table where
  "AuditEventORM = orm ''audit_events''
    [primary_key (column ''audit_id'' SqlString),
     indexed (column ''occurred_at'' SqlDateTime),
     indexed (nullable (column ''actor_user_id'' SqlString)),
     nullable (column ''actor_username'' SqlString),
     nullable (column ''actor_role'' SqlString),
     indexed (column ''action'' SqlString),
     indexed (nullable (column ''target_type'' SqlString)),
     indexed (nullable (column ''target_id'' SqlString)),
     indexed (nullable (column ''request_id'' SqlString)),
     column ''metadata_json'' SqlJSON,
     nullable (column ''previous_state'' SqlJSON),
     nullable (column ''new_state'' SqlJSON)]
    []"

definition MODELS :: "orm_table list" where
  "MODELS = [RunORM, RunEventORM, VulnerabilityORM, VulnerabilitySourceORM, VulnerabilityHistoryORM, ProductORM, AffectedProductORM, VendorAdvisoryORM, IntelligenceSyncORM, ValidationCandidateORM, ExperimentVersionORM, ExperimentVersionApprovalORM, AssetORM, ControlORM, ControlVersionORM, ControlValidationORM, RevalidationCandidateORM, AIAssessmentORM, UserORM, SessionORM, AuditEventORM]"

section \<open>The schema of the declarations\<close>

text \<open>
  What SQLAlchemy declares for a class: an index per column with \<open>index=True\<close>, which is a unique index when the column is
  also \<open>unique=True\<close>.
\<close>

definition orm_table_def :: "orm_table \<Rightarrow> table_def" where
  "orm_table_def t = \<lparr>tb_name = ot_name t, tb_columns = map plain (ot_columns t),
     tb_uniques = ot_uniques t @ map (column_key (ot_name t)) (filter (\<lambda>c. co_unique c \<and> \<not> co_index c) (ot_columns t))\<rparr>"

definition orm_indexes :: "orm_table \<Rightarrow> index_def list" where
  "orm_indexes t = map (\<lambda>c. \<lparr>ix_name = ''ix_'' @ ot_name t @ ''_'' @ co_name c, ix_table = ot_name t, ix_columns = [co_name c],
     ix_unique = co_unique c\<rparr>) (filter co_index (ot_columns t))"

definition metadata :: "orm_table list \<Rightarrow> schema" where
  "metadata ts = \<lparr>sc_tables = map orm_table_def ts, sc_indexes = concat (map orm_indexes ts)\<rparr>"

end
