(* ===== verification/Migrations.thy ===== *)
theory Migrations
  imports Db_Models
begin

text \<open>
  The migrations of the database (\<open>alembic/versions\<close>) and what running them does to a schema, with the errors of
  PostgreSQL. Upgraded from nothing the database has the schema that the application declares, and each migration is undone by its
  downgrade, whatever else the database contains.
\<close>

section \<open>Operations\<close>

datatype migration_op =
    CreateTable string "column list" "(string \<times> string list) list"
  | CreateIndex string string "string list" bool
  | DropIndex string string
  | DropTable string

datatype ddl_error =
    DuplicateRelation string
  | UndefinedTable string
  | UndefinedColumn string
  | UndefinedIndex string
  | InvalidForeignKey string
  | DependentObjects string
  | UnknownRevision string

definition table_names :: "schema \<Rightarrow> string list" where
  "table_names s = map tb_name (sc_tables s)"

text \<open>Tables, indexes and the indexes behind constraints share one space of names.\<close>

definition table_relations :: "table_def \<Rightarrow> string list" where
  "table_relations t = tb_name t # map fst (tb_uniques t)"

definition relation_names :: "schema \<Rightarrow> string list" where
  "relation_names s = concat (map table_relations (sc_tables s)) @ map ix_name (sc_indexes s)"

definition created_table :: "string \<Rightarrow> column list \<Rightarrow> (string \<times> string list) list \<Rightarrow> table_def" where
  "created_table n cs us = \<lparr>tb_name = n, tb_columns = map plain cs, tb_uniques = us @ map (column_key n) (filter co_unique cs)\<rparr>"

text \<open>A column can be referenced if it is the primary key of its table.\<close>

definition referable :: "table_def list \<Rightarrow> string \<times> string \<Rightarrow> bool" where
  "referable ts r \<longleftrightarrow> (\<exists>t \<in> set ts. tb_name t = fst r \<and> (\<exists>c \<in> set (tb_columns t). co_name c = snd r \<and> co_primary_key c))"

definition references_ok :: "table_def list \<Rightarrow> table_def \<Rightarrow> bool" where
  "references_ok ts t \<longleftrightarrow> (\<forall>c \<in> set (tb_columns t). case co_references c of None \<Rightarrow> True | Some r \<Rightarrow> referable ts r)"

definition refers_to :: "string \<Rightarrow> table_def \<Rightarrow> bool" where
  "refers_to n t \<longleftrightarrow> (\<exists>c \<in> set (tb_columns t). map_option fst (co_references c) = Some n)"

fun exec_op :: "migration_op \<Rightarrow> schema \<Rightarrow> ddl_error + schema" where
  "exec_op (CreateTable n cs us) s =
     (let t = created_table n cs us in
      if \<not> distinct (table_relations t) \<or> set (table_relations t) \<inter> set (relation_names s) \<noteq> {} then Inl (DuplicateRelation n)
      else if \<not> references_ok (sc_tables s @ [t]) t then Inl (InvalidForeignKey n)
      else Inr (s\<lparr>sc_tables := sc_tables s @ [t]\<rparr>))"
| "exec_op (CreateIndex n t cs u) s =
     (if n \<in> set (relation_names s) then Inl (DuplicateRelation n)
      else case find (\<lambda>d. tb_name d = t) (sc_tables s) of
        None \<Rightarrow> Inl (UndefinedTable t)
      | Some d \<Rightarrow> if \<not> set cs \<subseteq> set (map co_name (tb_columns d)) then Inl (UndefinedColumn n)
          else Inr (s\<lparr>sc_indexes := sc_indexes s @ [\<lparr>ix_name = n, ix_table = t, ix_columns = cs, ix_unique = u\<rparr>]\<rparr>))"
| "exec_op (DropIndex n t) s =
     (if n \<notin> set (map ix_name (sc_indexes s)) then Inl (UndefinedIndex n)
      else Inr (s\<lparr>sc_indexes := filter (\<lambda>i. ix_name i \<noteq> n) (sc_indexes s)\<rparr>))"
| "exec_op (DropTable n) s =
     (if n \<notin> set (table_names s) then Inl (UndefinedTable n)
      else if list_ex (\<lambda>t. tb_name t \<noteq> n \<and> refers_to n t) (sc_tables s) then Inl (DependentObjects n)
      else Inr \<lparr>sc_tables = filter (\<lambda>t. tb_name t \<noteq> n) (sc_tables s), sc_indexes = filter (\<lambda>i. ix_table i \<noteq> n) (sc_indexes s)\<rparr>)"

fun exec_ops :: "migration_op list \<Rightarrow> schema \<Rightarrow> ddl_error + schema" where
  "exec_ops [] s = Inr s"
| "exec_ops (p # ps) s = bindS (exec_op p s) (exec_ops ps)"

section \<open>Revisions\<close>

record revision =
  mg_revision :: string
  mg_down_revision :: "string option"
  mg_upgrade :: "migration_op list"
  mg_downgrade :: "migration_op list"

definition upgrade_0001 :: "migration_op list" where
  "upgrade_0001 =
    [CreateTable ''runs''
      [primary_key (column ''job_id'' SqlString),
       column ''experiment_id'' SqlString,
       column ''execution_context'' SqlString,
       column ''current_status'' SqlString,
       column ''created_at'' SqlDateTime,
       column ''updated_at'' SqlDateTime]
      [],
     CreateIndex ''ix_runs_experiment_id'' ''runs'' [''experiment_id''] False,
     CreateTable ''run_events''
      [autoincrement (primary_key (column ''id'' SqlInteger)),
       references ''runs'' ''job_id'' (column ''job_id'' SqlString),
       column ''experiment_id'' SqlString,
       column ''event_type'' SqlString,
       column ''occurred_at'' SqlDateTime,
       nullable (column ''detail'' SqlJSON)]
      [],
     CreateIndex ''ix_run_events_job_id'' ''run_events'' [''job_id''] False]"

definition downgrade_0001 :: "migration_op list" where
  "downgrade_0001 =
    [DropIndex ''ix_run_events_job_id'' ''run_events'',
     DropTable ''run_events'',
     DropIndex ''ix_runs_experiment_id'' ''runs'',
     DropTable ''runs'']"

definition revision_0001 :: revision where
  "revision_0001 = \<lparr>mg_revision = ''0001'', mg_down_revision = None,
     mg_upgrade = upgrade_0001, mg_downgrade = downgrade_0001\<rparr>"

definition upgrade_0002 :: "migration_op list" where
  "upgrade_0002 =
    [CreateTable ''vulnerabilities''
      [primary_key (column ''cve_id'' SqlString),
       nullable (column ''description'' SqlString),
       nullable (column ''published_at'' SqlDateTime),
       nullable (column ''last_modified_at'' SqlDateTime),
       nullable (column ''cvss_score'' SqlFloat),
       nullable (column ''cvss_vector'' SqlString),
       nullable (column ''cvss_version'' SqlString),
       nullable (column ''epss_score'' SqlFloat),
       nullable (column ''epss_percentile'' SqlFloat),
       nullable (column ''epss_date'' SqlString),
       column ''kev_listed'' SqlBoolean,
       nullable (column ''kev_date_added'' SqlString),
       nullable (column ''kev_due_date'' SqlString),
       nullable (column ''kev_known_ransomware'' SqlString),
       column ''cwe_ids'' SqlJSON,
       nullable (column ''vendor'' SqlString),
       nullable (column ''domain_guess'' SqlString),
       nullable (column ''zero_click_relevance'' SqlString),
       column ''references'' SqlJSON,
       column ''sources'' SqlJSON,
       column ''first_seen_at'' SqlDateTime,
       column ''last_updated_at'' SqlDateTime]
      [],
     CreateTable ''vulnerability_sources''
      [autoincrement (primary_key (column ''id'' SqlInteger)),
       references ''vulnerabilities'' ''cve_id'' (column ''cve_id'' SqlString),
       column ''source'' SqlString,
       nullable (column ''source_identifier'' SqlString),
       nullable (column ''description'' SqlString),
       nullable (column ''published_at'' SqlDateTime),
       nullable (column ''last_modified_at'' SqlDateTime),
       nullable (column ''cvss_score'' SqlFloat),
       nullable (column ''cvss_vector'' SqlString),
       nullable (column ''cvss_version'' SqlString),
       nullable (column ''epss_score'' SqlFloat),
       nullable (column ''epss_percentile'' SqlFloat),
       nullable (column ''kev_listed'' SqlBoolean),
       nullable (column ''kev_date_added'' SqlString),
       nullable (column ''kev_due_date'' SqlString),
       column ''cwe_ids'' SqlJSON,
       nullable (column ''vendor'' SqlString),
       column ''references'' SqlJSON,
       column ''first_seen_at'' SqlDateTime,
       column ''last_seen_at'' SqlDateTime]
      [(''uq_vulnerability_sources_cve_source'', [''cve_id'', ''source''])],
     CreateIndex ''ix_vulnerability_sources_cve_id'' ''vulnerability_sources'' [''cve_id''] False,
     CreateTable ''vulnerability_history''
      [autoincrement (primary_key (column ''id'' SqlInteger)),
       references ''vulnerabilities'' ''cve_id'' (column ''cve_id'' SqlString),
       column ''source'' SqlString,
       column ''field'' SqlString,
       nullable (column ''old_value'' SqlString),
       nullable (column ''new_value'' SqlString),
       column ''observed_at'' SqlDateTime]
      [],
     CreateIndex ''ix_vulnerability_history_cve_id'' ''vulnerability_history'' [''cve_id''] False,
     CreateTable ''products''
      [autoincrement (primary_key (column ''id'' SqlInteger)),
       column ''vendor'' SqlString,
       column ''name'' SqlString,
       nullable (column ''cpe'' SqlString)]
      [(''uq_products_vendor_name'', [''vendor'', ''name''])],
     CreateTable ''affected_products''
      [autoincrement (primary_key (column ''id'' SqlInteger)),
       references ''vulnerabilities'' ''cve_id'' (column ''cve_id'' SqlString),
       references ''products'' ''id'' (column ''product_id'' SqlInteger),
       nullable (column ''version_range'' SqlString)]
      [],
     CreateIndex ''ix_affected_products_cve_id'' ''affected_products'' [''cve_id''] False,
     CreateTable ''vendor_advisories''
      [primary_key (column ''advisory_id'' SqlString),
       column ''source'' SqlString,
       nullable (column ''cve_id'' SqlString),
       column ''title'' SqlString,
       nullable (column ''summary'' SqlString),
       nullable (column ''severity'' SqlString),
       nullable (column ''published_at'' SqlDateTime),
       nullable (column ''updated_at'' SqlDateTime),
       column ''references'' SqlJSON]
      [],
     CreateIndex ''ix_vendor_advisories_cve_id'' ''vendor_advisories'' [''cve_id''] False,
     CreateTable ''intelligence_syncs''
      [primary_key (column ''sync_id'' SqlString),
       column ''source'' SqlString,
       column ''status'' SqlString,
       nullable (column ''since'' SqlDateTime),
       column ''started_at'' SqlDateTime,
       nullable (column ''completed_at'' SqlDateTime),
       column ''fetched_count'' SqlInteger,
       column ''created_count'' SqlInteger,
       column ''updated_count'' SqlInteger,
       column ''unchanged_count'' SqlInteger,
       column ''failed_count'' SqlInteger,
       nullable (column ''error_summary'' SqlString)]
      [],
     CreateIndex ''ix_intelligence_syncs_source'' ''intelligence_syncs'' [''source''] False,
     CreateTable ''validation_candidates''
      [autoincrement (primary_key (column ''id'' SqlInteger)),
       references ''vulnerabilities'' ''cve_id'' (column ''cve_id'' SqlString),
       nullable (column ''domain'' SqlString),
       column ''support_status'' SqlString,
       column ''priority_score'' SqlFloat,
       column ''priority_label'' SqlString,
       column ''explanation'' SqlJSON,
       column ''existing_experiment_ids'' SqlJSON,
       column ''generated_at'' SqlDateTime]
      [(''uq_validation_candidates_cve_domain'', [''cve_id'', ''domain''])],
     CreateIndex ''ix_validation_candidates_cve_id'' ''validation_candidates'' [''cve_id''] False,
     CreateIndex ''ix_validation_candidates_support_status'' ''validation_candidates'' [''support_status''] False,
     CreateIndex ''ix_validation_candidates_priority_score'' ''validation_candidates'' [''priority_score''] False,
     CreateIndex ''ix_validation_candidates_priority_label'' ''validation_candidates'' [''priority_label''] False]"

definition downgrade_0002 :: "migration_op list" where
  "downgrade_0002 =
    [DropTable ''validation_candidates'',
     DropTable ''intelligence_syncs'',
     DropTable ''vendor_advisories'',
     DropTable ''affected_products'',
     DropTable ''products'',
     DropTable ''vulnerability_history'',
     DropTable ''vulnerability_sources'',
     DropTable ''vulnerabilities'']"

definition revision_0002 :: revision where
  "revision_0002 = \<lparr>mg_revision = ''0002'', mg_down_revision = Some ''0001'',
     mg_upgrade = upgrade_0002, mg_downgrade = downgrade_0002\<rparr>"

definition upgrade_0003 :: "migration_op list" where
  "upgrade_0003 =
    [CreateTable ''experiment_versions''
      [primary_key (column ''version_id'' SqlString),
       column ''experiment_id'' SqlString,
       column ''version_number'' SqlInteger,
       column ''status'' SqlString,
       column ''domain_pack_id'' SqlString,
       column ''template_id'' SqlString,
       column ''template_version'' SqlString,
       column ''definition'' SqlJSON,
       nullable (column ''dataset_provenance'' SqlJSON),
       column ''created_by'' SqlString,
       column ''created_at'' SqlDateTime,
       column ''updated_at'' SqlDateTime]
      [(''uq_experiment_versions_id_number'', [''experiment_id'', ''version_number''])],
     CreateIndex ''ix_experiment_versions_experiment_id'' ''experiment_versions'' [''experiment_id''] False,
     CreateIndex ''ix_experiment_versions_status'' ''experiment_versions'' [''status''] False,
     CreateTable ''experiment_version_approvals''
      [autoincrement (primary_key (column ''id'' SqlInteger)),
       references ''experiment_versions'' ''version_id'' (column ''version_id'' SqlString),
       column ''from_status'' SqlString,
       column ''to_status'' SqlString,
       column ''actor'' SqlString,
       nullable (column ''reason'' SqlString),
       column ''decided_at'' SqlDateTime]
      [],
     CreateIndex ''ix_experiment_version_approvals_version_id'' ''experiment_version_approvals'' [''version_id''] False]"

definition downgrade_0003 :: "migration_op list" where
  "downgrade_0003 =
    [DropTable ''experiment_version_approvals'',
     DropTable ''experiment_versions'']"

definition revision_0003 :: revision where
  "revision_0003 = \<lparr>mg_revision = ''0003'', mg_down_revision = Some ''0002'',
     mg_upgrade = upgrade_0003, mg_downgrade = downgrade_0003\<rparr>"

definition upgrade_0004 :: "migration_op list" where
  "upgrade_0004 =
    [CreateTable ''assets''
      [primary_key (column ''asset_id'' SqlString),
       column ''name'' SqlString,
       column ''vendor'' SqlString,
       column ''product'' SqlString,
       nullable (column ''version'' SqlString),
       column ''environment'' SqlString,
       column ''exposure'' SqlString,
       column ''criticality'' SqlString,
       server_default ''true'' (column ''active'' SqlBoolean),
       column ''created_at'' SqlDateTime,
       column ''updated_at'' SqlDateTime]
      [],
     CreateIndex ''ix_assets_vendor'' ''assets'' [''vendor''] False,
     CreateIndex ''ix_assets_product'' ''assets'' [''product''] False,
     CreateIndex ''ix_assets_criticality'' ''assets'' [''criticality''] False,
     CreateIndex ''ix_assets_active'' ''assets'' [''active''] False,
     CreateTable ''controls''
      [primary_key (column ''control_id'' SqlString),
       column ''name'' SqlString,
       column ''domain'' SqlString,
       column ''mitigation_strategy_id'' SqlString,
       column ''created_at'' SqlDateTime]
      [],
     CreateIndex ''ix_controls_domain'' ''controls'' [''domain''] False,
     CreateTable ''control_versions''
      [primary_key (column ''version_id'' SqlString),
       references ''controls'' ''control_id'' (column ''control_id'' SqlString),
       column ''version_label'' SqlString,
       column ''domain_pack_id'' SqlString,
       column ''template_id'' SqlString,
       column ''template_version'' SqlString,
       column ''created_at'' SqlDateTime]
      [(''uq_control_versions_control_label'', [''control_id'', ''version_label''])],
     CreateIndex ''ix_control_versions_control_id'' ''control_versions'' [''control_id''] False,
     CreateTable ''control_validations''
      [primary_key (column ''validation_id'' SqlString),
       references ''controls'' ''control_id'' (column ''control_id'' SqlString),
       references ''control_versions'' ''version_id'' (column ''version_id'' SqlString),
       column ''experiment_id'' SqlString,
       column ''baseline_run_id'' SqlString,
       column ''mitigation_run_id'' SqlString,
       column ''total_cases'' SqlInteger,
       column ''block_rate_improvement'' SqlFloat,
       column ''false_positive_rate'' SqlFloat,
       column ''false_negative_rate'' SqlFloat,
       column ''valid_acceptance_rate'' SqlFloat,
       column ''parser_reach_rate'' SqlFloat,
       column ''latency_overhead_ms'' SqlFloat,
       column ''verdict_label'' SqlString,
       column ''validated_at'' SqlDateTime]
      [],
     CreateIndex ''ix_control_validations_control_id'' ''control_validations'' [''control_id''] False,
     CreateIndex ''ix_control_validations_version_id'' ''control_validations'' [''version_id''] False,
     CreateIndex ''ix_control_validations_experiment_id'' ''control_validations'' [''experiment_id''] False,
     CreateIndex ''ix_control_validations_validated_at'' ''control_validations'' [''validated_at''] False,
     CreateTable ''revalidation_candidates''
      [primary_key (column ''candidate_id'' SqlString),
       references ''controls'' ''control_id'' (column ''control_id'' SqlString),
       nullable (column ''experiment_id'' SqlString),
       column ''trigger_type'' SqlString,
       column ''trigger_detail'' SqlString,
       server_default ''pending'' (column ''status'' SqlString),
       column ''created_at'' SqlDateTime,
       nullable (column ''reviewed_by'' SqlString),
       nullable (column ''reviewed_at'' SqlDateTime),
       nullable (column ''review_note'' SqlString)]
      [],
     CreateIndex ''ix_revalidation_candidates_control_id'' ''revalidation_candidates'' [''control_id''] False,
     CreateIndex ''ix_revalidation_candidates_trigger_type'' ''revalidation_candidates'' [''trigger_type''] False,
     CreateIndex ''ix_revalidation_candidates_status'' ''revalidation_candidates'' [''status''] False,
     CreateTable ''ai_assessments''
      [primary_key (column ''assessment_id'' SqlString),
       column ''assessment_type'' SqlString,
       column ''subject_type'' SqlString,
       column ''subject_id'' SqlString,
       column ''payload'' SqlJSON,
       column ''confidence'' SqlFloat,
       server_default ''false'' (column ''reviewed'' SqlBoolean),
       nullable (column ''reviewed_by'' SqlString),
       nullable (column ''reviewed_at'' SqlDateTime),
       nullable (column ''review_note'' SqlString),
       column ''created_at'' SqlDateTime]
      [],
     CreateIndex ''ix_ai_assessments_assessment_type'' ''ai_assessments'' [''assessment_type''] False,
     CreateIndex ''ix_ai_assessments_subject_type'' ''ai_assessments'' [''subject_type''] False,
     CreateIndex ''ix_ai_assessments_subject_id'' ''ai_assessments'' [''subject_id''] False,
     CreateIndex ''ix_ai_assessments_reviewed'' ''ai_assessments'' [''reviewed''] False,
     CreateIndex ''ix_ai_assessments_created_at'' ''ai_assessments'' [''created_at''] False]"

definition downgrade_0004 :: "migration_op list" where
  "downgrade_0004 =
    [DropTable ''ai_assessments'',
     DropTable ''revalidation_candidates'',
     DropTable ''control_validations'',
     DropTable ''control_versions'',
     DropTable ''controls'',
     DropTable ''assets'']"

definition revision_0004 :: revision where
  "revision_0004 = \<lparr>mg_revision = ''0004'', mg_down_revision = Some ''0003'',
     mg_upgrade = upgrade_0004, mg_downgrade = downgrade_0004\<rparr>"

definition upgrade_0005 :: "migration_op list" where
  "upgrade_0005 =
    [CreateTable ''users''
      [primary_key (column ''user_id'' SqlString),
       unique (column ''username'' SqlString),
       column ''password_hash'' SqlString,
       column ''role'' SqlString,
       server_default ''true'' (column ''active'' SqlBoolean),
       server_default ''0'' (column ''failed_login_attempts'' SqlInteger),
       nullable (column ''locked_until'' SqlDateTime),
       column ''created_at'' SqlDateTime,
       column ''updated_at'' SqlDateTime]
      [],
     CreateIndex ''ix_users_username'' ''users'' [''username''] True,
     CreateIndex ''ix_users_role'' ''users'' [''role''] False,
     CreateIndex ''ix_users_active'' ''users'' [''active''] False,
     CreateTable ''sessions''
      [primary_key (column ''session_id'' SqlString),
       references ''users'' ''user_id'' (column ''user_id'' SqlString),
       column ''created_at'' SqlDateTime,
       column ''expires_at'' SqlDateTime,
       column ''last_used_at'' SqlDateTime,
       nullable (column ''ip_address'' SqlString),
       nullable (column ''user_agent'' SqlString)]
      [],
     CreateIndex ''ix_sessions_user_id'' ''sessions'' [''user_id''] False,
     CreateIndex ''ix_sessions_expires_at'' ''sessions'' [''expires_at''] False,
     CreateTable ''audit_events''
      [primary_key (column ''audit_id'' SqlString),
       column ''occurred_at'' SqlDateTime,
       nullable (column ''actor_user_id'' SqlString),
       nullable (column ''actor_username'' SqlString),
       nullable (column ''actor_role'' SqlString),
       column ''action'' SqlString,
       nullable (column ''target_type'' SqlString),
       nullable (column ''target_id'' SqlString),
       nullable (column ''request_id'' SqlString),
       column ''metadata_json'' SqlJSON,
       nullable (column ''previous_state'' SqlJSON),
       nullable (column ''new_state'' SqlJSON)]
      [],
     CreateIndex ''ix_audit_events_occurred_at'' ''audit_events'' [''occurred_at''] False,
     CreateIndex ''ix_audit_events_actor_user_id'' ''audit_events'' [''actor_user_id''] False,
     CreateIndex ''ix_audit_events_action'' ''audit_events'' [''action''] False,
     CreateIndex ''ix_audit_events_target_type'' ''audit_events'' [''target_type''] False,
     CreateIndex ''ix_audit_events_target_id'' ''audit_events'' [''target_id''] False,
     CreateIndex ''ix_audit_events_request_id'' ''audit_events'' [''request_id''] False]"

definition downgrade_0005 :: "migration_op list" where
  "downgrade_0005 =
    [DropTable ''audit_events'',
     DropTable ''sessions'',
     DropTable ''users'']"

definition revision_0005 :: revision where
  "revision_0005 = \<lparr>mg_revision = ''0005'', mg_down_revision = Some ''0004'',
     mg_upgrade = upgrade_0005, mg_downgrade = downgrade_0005\<rparr>"

definition REVISIONS :: "revision list" where
  "REVISIONS = [revision_0001, revision_0002, revision_0003, revision_0004, revision_0005]"

text \<open>
  The way from nothing to a revision, along the revisions that each one names as its predecessor; the first argument bounds its
  length. An upgrade runs what the way has after the revision the database is at, in one transaction.
\<close>

fun revision_path :: "nat \<Rightarrow> revision list \<Rightarrow> string \<Rightarrow> revision list option" where
  "revision_path 0 revs i = None"
| "revision_path (Suc n) revs i =
     (case find (\<lambda>r. mg_revision r = i) revs of
        None \<Rightarrow> None
      | Some r \<Rightarrow> (case mg_down_revision r of
          None \<Rightarrow> Some [r]
        | Some d \<Rightarrow> map_option (\<lambda>p. p @ [r]) (revision_path n revs d)))"

record database =
  db_version :: "string option"
  db_schema :: schema

definition pending :: "string option \<Rightarrow> revision list \<Rightarrow> revision list" where
  "pending v path = (case v of None \<Rightarrow> path | Some i \<Rightarrow> tl (dropWhile (\<lambda>r. mg_revision r \<noteq> i) path))"

definition alembic_upgrade :: "revision list \<Rightarrow> string \<Rightarrow> database \<Rightarrow> ddl_error + database" where
  "alembic_upgrade revs i d =
     (case revision_path (length revs) revs i of
        None \<Rightarrow> Inl (UnknownRevision i)
      | Some path \<Rightarrow>
          bindS (exec_ops (concat (map mg_upgrade (pending (db_version d) path))) (db_schema d)) (\<lambda>s.
          Inr \<lparr>db_version = Some i, db_schema = s\<rparr>))"

definition empty_database :: database where
  "empty_database = \<lparr>db_version = None, db_schema = \<lparr>sc_tables = [], sc_indexes = []\<rparr>\<rparr>"

text \<open>The schema without the defaults that the database fills in.\<close>

definition without_defaults :: "schema \<Rightarrow> schema" where
  "without_defaults s = s\<lparr>sc_tables := map (\<lambda>t. t\<lparr>tb_columns := map (\<lambda>c. c\<lparr>co_server_default := None\<rparr>) (tb_columns t)\<rparr>) (sc_tables s)\<rparr>"

definition with_unique :: "string \<Rightarrow> string \<times> string list \<Rightarrow> schema \<Rightarrow> schema" where
  "with_unique n u s = s\<lparr>sc_tables := map (\<lambda>t. if tb_name t = n then t\<lparr>tb_uniques := tb_uniques t @ [u]\<rparr> else t) (sc_tables s)\<rparr>"

definition defaults :: "schema \<Rightarrow> (string \<times> string \<times> string) list" where
  "defaults s = concat (map (\<lambda>t. List.map_filter (\<lambda>c. map_option (\<lambda>d. (tb_name t, co_name c, d)) (co_server_default c)) (tb_columns t)) (sc_tables s))"

section \<open>Migrations that create and drop\<close>

fun creates :: "migration_op \<Rightarrow> bool" where
  "creates (CreateTable n cs us) = True"
| "creates (CreateIndex n t cs u) = True"
| "creates _ = False"

fun created :: "migration_op \<Rightarrow> schema" where
  "created (CreateTable n cs us) = \<lparr>sc_tables = [created_table n cs us], sc_indexes = []\<rparr>"
| "created (CreateIndex n t cs u) = \<lparr>sc_tables = [], sc_indexes = [\<lparr>ix_name = n, ix_table = t, ix_columns = cs, ix_unique = u\<rparr>]\<rparr>"
| "created _ = \<lparr>sc_tables = [], sc_indexes = []\<rparr>"

definition joined :: "schema \<Rightarrow> schema \<Rightarrow> schema" where
  "joined s c = \<lparr>sc_tables = sc_tables s @ sc_tables c, sc_indexes = sc_indexes s @ sc_indexes c\<rparr>"

fun created_all :: "migration_op list \<Rightarrow> schema" where
  "created_all [] = \<lparr>sc_tables = [], sc_indexes = []\<rparr>"
| "created_all (p # ps) = joined (created p) (created_all ps)"

text \<open>References and indexes stay within the schema.\<close>

definition schema_ok :: "schema \<Rightarrow> bool" where
  "schema_ok s \<longleftrightarrow> (\<forall>t \<in> set (sc_tables s). \<forall>c \<in> set (tb_columns t). \<forall>r. co_references c = Some r \<longrightarrow> fst r \<in> set (table_names s))
     \<and> (\<forall>i \<in> set (sc_indexes s). ix_table i \<in> set (table_names s))"

definition disjoint_names :: "schema \<Rightarrow> schema \<Rightarrow> bool" where
  "disjoint_names s c \<longleftrightarrow> set (table_names s) \<inter> set (table_names c) = {}
     \<and> ix_name ` set (sc_indexes s) \<inter> ix_name ` set (sc_indexes c) = {}"

lemma joined_names: "set (relation_names (joined s c)) = set (relation_names s) \<union> set (relation_names c)"
  by (auto simp: relation_names_def joined_def)

lemma joined_assoc: "joined (joined s c) d = joined s (joined c d)"
  by (simp add: joined_def)

lemma exec_created:
  "creates p \<Longrightarrow> exec_op p s = Inr s' \<Longrightarrow> s' = joined s (created p) \<and> set (relation_names s) \<inter> set (relation_names (created p)) = {}"
  by (cases p) (auto simp: joined_def relation_names_def Let_def split: if_splits option.splits)

lemma exec_created_all:
  "list_all creates ps \<Longrightarrow> exec_ops ps s = Inr s' \<Longrightarrow>
     s' = joined s (created_all ps) \<and> set (relation_names s) \<inter> set (relation_names (created_all ps)) = {}"
proof (induction ps arbitrary: s)
  case Nil
  then show ?case by (simp add: joined_def relation_names_def)
next
  case (Cons p ps)
  then obtain s1 where s1: "exec_op p s = Inr s1" "exec_ops ps s1 = Inr s'" by (auto simp: res_simps)
  with Cons.prems exec_created [of p s s1] have p: "s1 = joined s (created p)" "set (relation_names s) \<inter> set (relation_names (created p)) = {}"
    by auto
  from Cons.IH [OF _ s1(2)] Cons.prems(1) show ?case unfolding p(1) using p(2) by (auto simp: joined_assoc joined_names)
qed

lemma relations_disjoint: "set (relation_names s) \<inter> set (relation_names c) = {} \<Longrightarrow> disjoint_names s c"
  by (auto simp: disjoint_names_def relation_names_def table_names_def table_relations_def)

lemma exec_drop:
  assumes "\<not> creates p" and "schema_ok s" and "disjoint_names s c" and "exec_op p c = Inr c'"
  shows "exec_op p (joined s c) = Inr (joined s c') \<and> disjoint_names s c'"
proof (cases p)
  case (DropIndex n t)
  then have c': "n \<in> ix_name ` set (sc_indexes c)" "c' = c\<lparr>sc_indexes := filter (\<lambda>i. ix_name i \<noteq> n) (sc_indexes c)\<rparr>"
    using assms(4) by (auto split: if_splits)
  then have "n \<notin> ix_name ` set (sc_indexes s)" using assms(3) by (auto simp: disjoint_names_def)
  then have "filter (\<lambda>i. ix_name i \<noteq> n) (sc_indexes s) = sc_indexes s" by (auto simp: filter_id_conv)
  then show ?thesis using c' assms(3) DropIndex by (auto simp: joined_def disjoint_names_def table_names_def)
next
  case (DropTable n)
  then have c': "n \<in> set (table_names c)" "\<not> list_ex (\<lambda>t. tb_name t \<noteq> n \<and> refers_to n t) (sc_tables c)"
    "c' = \<lparr>sc_tables = filter (\<lambda>t. tb_name t \<noteq> n) (sc_tables c), sc_indexes = filter (\<lambda>i. ix_table i \<noteq> n) (sc_indexes c)\<rparr>"
    using assms(4) by (auto split: if_splits)
  then have n: "n \<notin> set (table_names s)" using assms(3) by (auto simp: disjoint_names_def)
  then have "filter (\<lambda>t. tb_name t \<noteq> n) (sc_tables s) = sc_tables s" "filter (\<lambda>i. ix_table i \<noteq> n) (sc_indexes s) = sc_indexes s"
    using assms(2) by (auto simp: filter_id_conv table_names_def schema_ok_def)
  moreover have "\<not> list_ex (\<lambda>t. tb_name t \<noteq> n \<and> refers_to n t) (sc_tables s)"
    using assms(2) n by (fastforce simp: list_ex_iff refers_to_def schema_ok_def)
  ultimately show ?thesis using c' assms(3) DropTable by (auto simp: joined_def disjoint_names_def table_names_def)
qed (use assms(1) in simp_all)

lemma exec_drops:
  "list_all (Not \<circ> creates) ps \<Longrightarrow> schema_ok s \<Longrightarrow> disjoint_names s c \<Longrightarrow> exec_ops ps c = Inr c' \<Longrightarrow> exec_ops ps (joined s c) = Inr (joined s c')"
proof (induction ps arbitrary: c)
  case (Cons p ps)
  then obtain c1 where c1: "exec_op p c = Inr c1" "exec_ops ps c1 = Inr c'" by (auto simp: res_simps)
  with Cons.prems exec_drop [of p s c c1] have "exec_op p (joined s c) = Inr (joined s c1)" "disjoint_names s c1" by auto
  then show ?case using Cons.IH [OF _ Cons.prems(2) _ c1(2)] Cons.prems(1) by simp
qed simp

lemma exec_op_ok:
  assumes "schema_ok s" and "exec_op p s = Inr s'"
  shows "schema_ok s'"
proof (cases p)
  case (CreateTable n cs us)
  let ?t = "created_table n cs us"
  have s': "s' = s\<lparr>sc_tables := sc_tables s @ [?t]\<rparr>" "references_ok (sc_tables s @ [?t]) ?t"
    using assms(2) CreateTable by (auto simp: Let_def split: if_splits)
  have new: "fst r \<in> set (table_names s')" if "c \<in> set (tb_columns ?t)" "co_references c = Some r" for c r
  proof -
    have "referable (sc_tables s @ [?t]) r" using s'(2) that by (auto simp: references_ok_def)
    then obtain t where t: "t \<in> set (sc_tables s @ [?t])" "tb_name t = fst r" by (auto simp: referable_def)
    from t(1) have "tb_name t \<in> tb_name ` set (sc_tables s @ [?t])" by (rule imageI)
    then show ?thesis by (simp add: table_names_def s'(1) t(2))
  qed
  have "fst r \<in> set (table_names s')" if "t \<in> set (sc_tables s')" "c \<in> set (tb_columns t)" "co_references c = Some r" for t c r
    using that new [of c r] assms(1) by (cases r; cases "t = ?t") (auto simp: s'(1) schema_ok_def table_names_def)
  then show ?thesis using assms(1) by (simp add: schema_ok_def) (simp add: s'(1) table_names_def)
next
  case (CreateIndex n t cs u)
  then have "s' = s\<lparr>sc_indexes := sc_indexes s @ [\<lparr>ix_name = n, ix_table = t, ix_columns = cs, ix_unique = u\<rparr>]\<rparr>" "t \<in> set (table_names s)"
    using assms(2) by (auto simp: table_names_def split: if_splits option.splits dest: find_eq_Some_D)
  then show ?thesis using assms(1) by (auto simp: schema_ok_def table_names_def)
next
  case (DropIndex n t)
  then show ?thesis using assms by (auto simp: schema_ok_def table_names_def split: if_splits)
next
  case (DropTable n)
  then have s': "s' = \<lparr>sc_tables = filter (\<lambda>t. tb_name t \<noteq> n) (sc_tables s), sc_indexes = filter (\<lambda>i. ix_table i \<noteq> n) (sc_indexes s)\<rparr>"
    and ref: "\<And>t. t \<in> set (sc_tables s) \<Longrightarrow> tb_name t \<noteq> n \<Longrightarrow> \<not> refers_to n t"
    using assms(2) by (auto simp: list_ex_iff split: if_splits)
  have "fst r \<in> set (table_names s')" if "t \<in> set (sc_tables s')" "c \<in> set (tb_columns t)" "co_references c = Some r" for t c r
  proof -
    have t: "t \<in> set (sc_tables s)" "tb_name t \<noteq> n" using that(1) by (simp_all add: s')
    have "fst r \<noteq> n" using ref [OF t] that(2,3) by (cases r) (auto simp: refers_to_def)
    moreover have "fst r \<in> set (table_names s)" using assms(1) t(1) that(2,3) unfolding schema_ok_def by blast
    ultimately show ?thesis by (auto simp: s' table_names_def)
  qed
  moreover have "ix_table i \<in> set (table_names s')" if "i \<in> set (sc_indexes s')" for i
    using that assms(1) by (auto simp: s' schema_ok_def table_names_def)
  ultimately show ?thesis by (simp add: schema_ok_def)
qed

lemma exec_ops_ok: "schema_ok s \<Longrightarrow> exec_ops ps s = Inr s' \<Longrightarrow> schema_ok s'"
  by (induction ps arbitrary: s) (auto simp: res_simps intro: exec_op_ok)

lemma exec_ops_append: "exec_ops (ps @ qs) s = bindS (exec_ops ps s) (exec_ops qs)"
  by (induction ps arbitrary: s) (auto simp: bindS_def split: sum.split)

section \<open>From nothing to the declared schema\<close>

text \<open>Creations succeed when no relation is there twice and every reference is to a key that is there before.\<close>

fun op_relations :: "migration_op \<Rightarrow> string list" where
  "op_relations (CreateTable n cs us) = table_relations (created_table n cs us)"
| "op_relations (CreateIndex n t cs u) = [n]"
| "op_relations _ = []"

fun fits :: "migration_op list \<Rightarrow> table_def list \<Rightarrow> bool" where
  "fits [] ts = True"
| "fits (CreateTable n cs us # ps) ts = (let ts' = ts @ [created_table n cs us] in references_ok ts' (created_table n cs us) \<and> fits ps ts')"
| "fits (CreateIndex n t cs u # ps) ts =
     ((case find (\<lambda>d. tb_name d = t) ts of None \<Rightarrow> False | Some d \<Rightarrow> set cs \<subseteq> set (map co_name (tb_columns d))) \<and> fits ps ts)"
| "fits _ ts = False"

lemma exec_fits:
  "fits ps (sc_tables s) \<Longrightarrow> distinct (relation_names s @ concat (map op_relations ps)) \<Longrightarrow> exec_ops ps s = Inr (joined s (created_all ps))"
proof (induction ps arbitrary: s)
  case Nil
  then show ?case by (simp add: joined_def)
next
  case (Cons p ps)
  have fresh: "set (op_relations p) \<inter> set (relation_names s) = {}" "distinct (op_relations p)" using Cons.prems(2) by auto
  have p: "exec_op p s = Inr (joined s (created p)) \<and> fits ps (sc_tables (joined s (created p)))"
    using Cons.prems(1) fresh by (cases p) (auto simp: joined_def Let_def split: option.splits)
  have perm: "distinct (relation_names (joined s (created p)) @ xs) = distinct (relation_names s @ op_relations p @ xs)" for xs
    by (cases p) (auto simp: relation_names_def joined_def)
  have "exec_ops ps (joined s (created p)) = Inr (joined (joined s (created p)) (created_all ps))"
    using Cons.IH p Cons.prems(2) by (simp add: perm del: distinct_append)
  then show ?case using p by (simp add: joined_assoc)
qed

lemma head_distinct: "distinct (concat (map op_relations (concat (map mg_upgrade REVISIONS))))"
  by code_simp

lemma head_fits: "fits (concat (map mg_upgrade REVISIONS)) []"
  by code_simp

lemma head_tables:
  "without_defaults (created_all (concat (map mg_upgrade REVISIONS))) = with_unique ''users'' (''users_username_key'', [''username'']) (metadata MODELS)"
  by code_simp

lemma head_defaults:
  "defaults (created_all (concat (map mg_upgrade REVISIONS))) =
     [(''assets'', ''active'', ''true''), (''revalidation_candidates'', ''status'', ''pending''),
      (''ai_assessments'', ''reviewed'', ''false''), (''users'', ''active'', ''true''), (''users'', ''failed_login_attempts'', ''0'')]"
  by code_simp

lemma head_upgrade:
  "exec_ops (concat (map mg_upgrade REVISIONS)) \<lparr>sc_tables = [], sc_indexes = []\<rparr> = Inr (created_all (concat (map mg_upgrade REVISIONS)))"
  using exec_fits [of "concat (map mg_upgrade REVISIONS)" "\<lparr>sc_tables = [], sc_indexes = []\<rparr>"] head_fits head_distinct
  by (simp add: relation_names_def joined_def)

lemma revision_paths:
  "revision_path (length REVISIONS) REVISIONS ''0001'' = Some (take 1 REVISIONS)"
  "revision_path (length REVISIONS) REVISIONS ''0002'' = Some (take 2 REVISIONS)"
  "revision_path (length REVISIONS) REVISIONS ''0003'' = Some (take 3 REVISIONS)"
  "revision_path (length REVISIONS) REVISIONS ''0004'' = Some (take 4 REVISIONS)"
  "revision_path (length REVISIONS) REVISIONS ''0005'' = Some REVISIONS"
  by (simp_all add: REVISIONS_def revision_0001_def revision_0002_def revision_0003_def revision_0004_def revision_0005_def eval_nat_numeral)

lemma pending_after:
  "pending (Some ''0001'') REVISIONS = drop 1 REVISIONS" "pending (Some ''0002'') REVISIONS = drop 2 REVISIONS"
  "pending (Some ''0003'') REVISIONS = drop 3 REVISIONS" "pending (Some ''0004'') REVISIONS = drop 4 REVISIONS"
  "pending (Some ''0005'') REVISIONS = []"
  by (simp_all add: pending_def REVISIONS_def revision_0001_def revision_0002_def revision_0003_def revision_0004_def revision_0005_def)

lemma upgrade_in_stages:
  assumes "revision_path (length REVISIONS) REVISIONS i = Some (take k REVISIONS)" and "pending (Some i) REVISIONS = drop k REVISIONS"
  shows "bindS (alembic_upgrade REVISIONS i empty_database) (alembic_upgrade REVISIONS ''0005'') = alembic_upgrade REVISIONS ''0005'' empty_database"
proof -
  have "concat (map mg_upgrade REVISIONS) = concat (map mg_upgrade (take k REVISIONS)) @ concat (map mg_upgrade (drop k REVISIONS))"
    by (simp flip: concat_append map_append)
  then have e: "exec_ops (concat (map mg_upgrade REVISIONS)) \<lparr>sc_tables = [], sc_indexes = []\<rparr> =
      bindS (exec_ops (concat (map mg_upgrade (take k REVISIONS))) \<lparr>sc_tables = [], sc_indexes = []\<rparr>)
        (exec_ops (concat (map mg_upgrade (drop k REVISIONS))))"
    by (metis exec_ops_append)
  show ?thesis
    by (cases "exec_ops (concat (map mg_upgrade (take k REVISIONS))) \<lparr>sc_tables = [], sc_indexes = []\<rparr>")
      (simp_all add: alembic_upgrade_def revision_paths(5) assms empty_database_def pending_def [of None] e)
qed

lemma upgrade_stages:
  "list_all (\<lambda>i. bindS (alembic_upgrade REVISIONS i empty_database) (alembic_upgrade REVISIONS ''0005'')
     = alembic_upgrade REVISIONS ''0005'' empty_database) [''0001'', ''0002'', ''0003'', ''0004'', ''0005'']"
proof -
  have "take 5 REVISIONS = REVISIONS" "drop 5 REVISIONS = []" by (simp_all add: REVISIONS_def)
  then show ?thesis
    using upgrade_in_stages [OF revision_paths(1) pending_after(1)] upgrade_in_stages [OF revision_paths(2) pending_after(2)]
      upgrade_in_stages [OF revision_paths(3) pending_after(3)] upgrade_in_stages [OF revision_paths(4) pending_after(4)]
      upgrade_in_stages [where k = 5 and i = "''0005''"] revision_paths(5) pending_after(5)
    by simp
qed


section \<open>Back again\<close>

definition undone :: "revision \<Rightarrow> bool" where
  "undone r \<longleftrightarrow> list_all creates (mg_upgrade r) \<and> list_all (Not \<circ> creates) (mg_downgrade r)
     \<and> exec_ops (mg_downgrade r) (created_all (mg_upgrade r)) = Inr \<lparr>sc_tables = [], sc_indexes = []\<rparr>"

lemma revisions_undone: "list_all undone REVISIONS"
  by code_simp

text \<open>
  C31. Every migration is undone by its downgrade. On any database whose references and indexes stay within it, whatever
  tables of others it contains: if the upgrade of one of the five revisions succeeds, its downgrade succeeds afterwards
  and leaves exactly the schema that was there before, and references and indexes stay within the schema all along.
\<close>

theorem downgrade_undoes_upgrade:
  assumes "schema_ok s" and "r \<in> set REVISIONS" and "exec_ops (mg_upgrade r) s = Inr s'"
  shows "exec_ops (mg_downgrade r) s' = Inr s \<and> schema_ok s'"
proof -
  have r: "undone r" using revisions_undone assms(2) by (simp add: list_all_iff)
  then have s': "s' = joined s (created_all (mg_upgrade r))" "disjoint_names s (created_all (mg_upgrade r))"
    using exec_created_all [OF _ assms(3)] relations_disjoint by (auto simp: undone_def)
  moreover have "joined s \<lparr>sc_tables = [], sc_indexes = []\<rparr> = s" by (simp add: joined_def)
  ultimately show ?thesis
    using r exec_drops [OF _ assms(1) s'(2)] exec_ops_ok [OF assms(1,3)] by (fastforce simp: undone_def)
qed

theorem downgrade_undoes_upgrade_witness:
  "\<exists>s'. exec_ops upgrade_0001 \<lparr>sc_tables = [], sc_indexes = []\<rparr> = Inr s' \<and> exec_ops downgrade_0001 s' = Inr \<lparr>sc_tables = [], sc_indexes = []\<rparr>"
proof -
  have "case exec_ops upgrade_0001 \<lparr>sc_tables = [], sc_indexes = []\<rparr> of Inl e \<Rightarrow> False | Inr s \<Rightarrow> True" by code_simp
  then obtain s' where s': "exec_ops upgrade_0001 \<lparr>sc_tables = [], sc_indexes = []\<rparr> = Inr s'" by (auto split: sum.splits)
  moreover have "schema_ok \<lparr>sc_tables = [], sc_indexes = []\<rparr>" by (simp add: schema_ok_def)
  moreover have "revision_0001 \<in> set REVISIONS" "mg_upgrade revision_0001 = upgrade_0001" "mg_downgrade revision_0001 = downgrade_0001"
    by (simp_all add: REVISIONS_def revision_0001_def)
  ultimately show ?thesis using downgrade_undoes_upgrade [of "\<lparr>sc_tables = [], sc_indexes = []\<rparr>" revision_0001 s'] by auto
qed

end
