(* ===== verification/Routing.thy ===== *)
theory Routing
  imports Api
begin

text \<open>
  The table of routes of the HTTP interface (\<open>api/routes/\<close>, \<open>api/app.py\<close>): for each handler its method, the
  template of its path, the status of a success and the dependencies of its signature in their order, and the routers in
  the order in which \<open>app.py\<close> includes them. A template is matched segment by segment, a parameter by any segment that
  is not empty (the converter of the framework); the first route that matches path and method answers, otherwise the
  first whose path matches refuses the method. A request of the model (\<open>api_request\<close>) has one route and one path.
\<close>

section \<open>Routes\<close>

datatype path_part = Lit string | Param string

text \<open>
  The dependencies that can refuse a request: the repositories that need the database, the lookup of the experiment of the
  path, and the session, with the roles when \<open>require_role\<close> asks for some.
\<close>

datatype dependency =
    RunRepo
  | VulnerabilityRepo
  | VersionRepo
  | AssuranceRepo
  | AuditRepo
  | AuthServiceDep
  | ExperimentDep
  | SessionDep "role list option"

record route =
  rt_method :: string
  rt_path :: "path_part list"
  rt_status :: nat
  rt_depends :: "dependency list"

subsection \<open>\<open>health.py\<close>\<close>

definition route_get_health :: route where
  "route_get_health = \<lparr>rt_method = ''GET'', rt_path = [Lit ''health''], rt_status = 200,
     rt_depends = []\<rparr>"

definition route_get_system_status :: route where
  "route_get_system_status = \<lparr>rt_method = ''GET'', rt_path = [Lit ''system'', Lit ''status''], rt_status = 200,
     rt_depends = []\<rparr>"

subsection \<open>\<open>auth.py\<close>\<close>

definition route_login :: route where
  "route_login = \<lparr>rt_method = ''POST'', rt_path = [Lit ''auth'', Lit ''login''], rt_status = 200,
     rt_depends = [AuthServiceDep]\<rparr>"

definition route_logout :: route where
  "route_logout = \<lparr>rt_method = ''POST'', rt_path = [Lit ''auth'', Lit ''logout''], rt_status = 204,
     rt_depends = [AuthServiceDep, SessionDep None]\<rparr>"

definition route_me :: route where
  "route_me = \<lparr>rt_method = ''GET'', rt_path = [Lit ''auth'', Lit ''me''], rt_status = 200,
     rt_depends = [SessionDep None]\<rparr>"

definition route_list_users :: route where
  "route_list_users = \<lparr>rt_method = ''GET'', rt_path = [Lit ''users''], rt_status = 200,
     rt_depends = [AuthServiceDep, SessionDep (Some [ADMIN])]\<rparr>"

definition route_create_user :: route where
  "route_create_user = \<lparr>rt_method = ''POST'', rt_path = [Lit ''users''], rt_status = 201,
     rt_depends = [AuthServiceDep, SessionDep (Some [ADMIN])]\<rparr>"

definition route_update_user_role :: route where
  "route_update_user_role = \<lparr>rt_method = ''PATCH'', rt_path = [Lit ''users'', Param ''user_id'', Lit ''role''], rt_status = 200,
     rt_depends = [AuthServiceDep, SessionDep (Some [ADMIN])]\<rparr>"

definition route_update_user_active :: route where
  "route_update_user_active = \<lparr>rt_method = ''PATCH'', rt_path = [Lit ''users'', Param ''user_id'', Lit ''active''], rt_status = 200,
     rt_depends = [AuthServiceDep, SessionDep (Some [ADMIN])]\<rparr>"

subsection \<open>\<open>experiments.py\<close>\<close>

definition route_list_experiments :: route where
  "route_list_experiments = \<lparr>rt_method = ''GET'', rt_path = [Lit ''experiments''], rt_status = 200,
     rt_depends = [SessionDep None]\<rparr>"

definition route_get_experiment_detail :: route where
  "route_get_experiment_detail = \<lparr>rt_method = ''GET'', rt_path = [Lit ''experiments'', Param ''experiment_id''], rt_status = 200,
     rt_depends = [ExperimentDep, SessionDep None]\<rparr>"

definition route_validate_experiment :: route where
  "route_validate_experiment = \<lparr>rt_method = ''POST'', rt_path = [Lit ''experiments'', Param ''experiment_id'', Lit ''validate''], rt_status = 200,
     rt_depends = [ExperimentDep, SessionDep None]\<rparr>"

definition route_submit_run :: route where
  "route_submit_run = \<lparr>rt_method = ''POST'', rt_path = [Lit ''experiments'', Param ''experiment_id'', Lit ''runs''], rt_status = 202,
     rt_depends = [ExperimentDep, RunRepo, AuditRepo, SessionDep (Some [RESEARCHER, REVIEWER, ADMIN])]\<rparr>"

subsection \<open>\<open>evidence.py\<close>\<close>

definition route_get_results :: route where
  "route_get_results = \<lparr>rt_method = ''GET'', rt_path = [Lit ''experiments'', Param ''experiment_id'', Lit ''results''], rt_status = 200,
     rt_depends = [ExperimentDep, SessionDep None]\<rparr>"

definition route_get_evidence :: route where
  "route_get_evidence = \<lparr>rt_method = ''GET'', rt_path = [Lit ''experiments'', Param ''experiment_id'', Lit ''evidence''], rt_status = 200,
     rt_depends = [ExperimentDep, SessionDep None]\<rparr>"

definition route_download_evidence_bundle :: route where
  "route_download_evidence_bundle = \<lparr>rt_method = ''GET'', rt_path = [Lit ''experiments'', Param ''experiment_id'', Lit ''evidence'', Lit ''bundle''], rt_status = 200,
     rt_depends = [ExperimentDep, AuditRepo, SessionDep None]\<rparr>"

subsection \<open>\<open>jobs.py\<close>\<close>

definition route_get_job :: route where
  "route_get_job = \<lparr>rt_method = ''GET'', rt_path = [Lit ''jobs'', Param ''job_id''], rt_status = 200,
     rt_depends = [SessionDep None]\<rparr>"

definition route_list_jobs :: route where
  "route_list_jobs = \<lparr>rt_method = ''GET'', rt_path = [Lit ''jobs''], rt_status = 200,
     rt_depends = [SessionDep None]\<rparr>"

definition route_stream_job_events :: route where
  "route_stream_job_events = \<lparr>rt_method = ''GET'', rt_path = [Lit ''jobs'', Param ''job_id'', Lit ''events''], rt_status = 200,
     rt_depends = [RunRepo, SessionDep None]\<rparr>"

subsection \<open>\<open>metrics.py\<close>\<close>

definition route_get_metrics :: route where
  "route_get_metrics = \<lparr>rt_method = ''GET'', rt_path = [Lit ''metrics''], rt_status = 200,
     rt_depends = []\<rparr>"

subsection \<open>\<open>intelligence.py\<close>\<close>

definition route_list_vulnerabilities :: route where
  "route_list_vulnerabilities = \<lparr>rt_method = ''GET'', rt_path = [Lit ''vulnerabilities''], rt_status = 200,
     rt_depends = [VulnerabilityRepo, SessionDep None]\<rparr>"

definition route_get_vulnerability_detail :: route where
  "route_get_vulnerability_detail = \<lparr>rt_method = ''GET'', rt_path = [Lit ''vulnerabilities'', Param ''cve_id''], rt_status = 200,
     rt_depends = [VulnerabilityRepo, SessionDep None]\<rparr>"

definition route_get_vulnerability_history :: route where
  "route_get_vulnerability_history = \<lparr>rt_method = ''GET'', rt_path = [Lit ''vulnerabilities'', Param ''cve_id'', Lit ''history''], rt_status = 200,
     rt_depends = [VulnerabilityRepo, SessionDep None]\<rparr>"

definition route_get_vulnerability_advisories :: route where
  "route_get_vulnerability_advisories = \<lparr>rt_method = ''GET'', rt_path = [Lit ''vulnerabilities'', Param ''cve_id'', Lit ''advisories''], rt_status = 200,
     rt_depends = [VulnerabilityRepo, SessionDep None]\<rparr>"

definition route_get_priority_queue :: route where
  "route_get_priority_queue = \<lparr>rt_method = ''GET'', rt_path = [Lit ''priority-queue''], rt_status = 200,
     rt_depends = [VulnerabilityRepo, SessionDep None]\<rparr>"

definition route_list_sources :: route where
  "route_list_sources = \<lparr>rt_method = ''GET'', rt_path = [Lit ''sources''], rt_status = 200,
     rt_depends = [SessionDep None]\<rparr>"

definition route_list_integrations :: route where
  "route_list_integrations = \<lparr>rt_method = ''GET'', rt_path = [Lit ''integrations''], rt_status = 200,
     rt_depends = [SessionDep None]\<rparr>"

definition route_submit_sync :: route where
  "route_submit_sync = \<lparr>rt_method = ''POST'', rt_path = [Lit ''intelligence'', Lit ''sync''], rt_status = 202,
     rt_depends = [VulnerabilityRepo, AuditRepo, SessionDep (Some [RESEARCHER, ADMIN])]\<rparr>"

definition route_list_syncs :: route where
  "route_list_syncs = \<lparr>rt_method = ''GET'', rt_path = [Lit ''intelligence'', Lit ''syncs''], rt_status = 200,
     rt_depends = [VulnerabilityRepo, SessionDep None]\<rparr>"

definition route_get_sync_status :: route where
  "route_get_sync_status = \<lparr>rt_method = ''GET'', rt_path = [Lit ''intelligence'', Lit ''syncs'', Param ''sync_id''], rt_status = 200,
     rt_depends = [VulnerabilityRepo, SessionDep None]\<rparr>"

subsection \<open>\<open>studio.py\<close>\<close>

definition route_list_domain_packs :: route where
  "route_list_domain_packs = \<lparr>rt_method = ''GET'', rt_path = [Lit ''domain-packs''], rt_status = 200,
     rt_depends = [SessionDep None]\<rparr>"

definition route_list_domain_pack_templates :: route where
  "route_list_domain_pack_templates = \<lparr>rt_method = ''GET'', rt_path = [Lit ''domain-packs'', Param ''pack_id'', Lit ''templates''], rt_status = 200,
     rt_depends = [SessionDep None]\<rparr>"

definition route_get_template :: route where
  "route_get_template = \<lparr>rt_method = ''GET'', rt_path = [Lit ''templates'', Param ''template_id'', Param ''version''], rt_status = 200,
     rt_depends = [SessionDep None]\<rparr>"

definition route_generate_dataset :: route where
  "route_generate_dataset = \<lparr>rt_method = ''POST'', rt_path = [Lit ''datasets'', Lit ''generate''], rt_status = 200,
     rt_depends = [SessionDep (Some [RESEARCHER, ADMIN])]\<rparr>"

definition route_create_experiment_version :: route where
  "route_create_experiment_version = \<lparr>rt_method = ''POST'', rt_path = [Lit ''experiment-versions''], rt_status = 201,
     rt_depends = [VersionRepo, AuditRepo, SessionDep (Some [RESEARCHER, ADMIN])]\<rparr>"

definition route_edit_experiment_version :: route where
  "route_edit_experiment_version = \<lparr>rt_method = ''PATCH'', rt_path = [Lit ''experiment-versions'', Param ''version_id''], rt_status = 200,
     rt_depends = [VersionRepo, AuditRepo, SessionDep (Some [RESEARCHER, ADMIN])]\<rparr>"

definition route_get_experiment_version :: route where
  "route_get_experiment_version = \<lparr>rt_method = ''GET'', rt_path = [Lit ''experiment-versions'', Param ''version_id''], rt_status = 200,
     rt_depends = [VersionRepo, SessionDep None]\<rparr>"

definition route_list_experiment_versions :: route where
  "route_list_experiment_versions = \<lparr>rt_method = ''GET'', rt_path = [Lit ''experiment-versions''], rt_status = 200,
     rt_depends = [VersionRepo, SessionDep None]\<rparr>"

definition route_get_approval_history :: route where
  "route_get_approval_history = \<lparr>rt_method = ''GET'', rt_path = [Lit ''experiment-versions'', Param ''version_id'', Lit ''approvals''], rt_status = 200,
     rt_depends = [VersionRepo, SessionDep None]\<rparr>"

definition route_submit_review :: route where
  "route_submit_review = \<lparr>rt_method = ''POST'', rt_path = [Lit ''experiment-versions'', Param ''version_id'', Lit ''submit-review''], rt_status = 200,
     rt_depends = [VersionRepo, AuditRepo, SessionDep (Some [RESEARCHER, ADMIN])]\<rparr>"

definition route_start_review :: route where
  "route_start_review = \<lparr>rt_method = ''POST'', rt_path = [Lit ''experiment-versions'', Param ''version_id'', Lit ''start-review''], rt_status = 200,
     rt_depends = [VersionRepo, AuditRepo, SessionDep (Some [REVIEWER, ADMIN])]\<rparr>"

definition route_approve_version :: route where
  "route_approve_version = \<lparr>rt_method = ''POST'', rt_path = [Lit ''experiment-versions'', Param ''version_id'', Lit ''approve''], rt_status = 200,
     rt_depends = [VersionRepo, AuditRepo, SessionDep (Some [REVIEWER, ADMIN])]\<rparr>"

definition route_reject_version :: route where
  "route_reject_version = \<lparr>rt_method = ''POST'', rt_path = [Lit ''experiment-versions'', Param ''version_id'', Lit ''reject''], rt_status = 200,
     rt_depends = [VersionRepo, AuditRepo, SessionDep (Some [REVIEWER, ADMIN])]\<rparr>"

definition route_retire_version :: route where
  "route_retire_version = \<lparr>rt_method = ''POST'', rt_path = [Lit ''experiment-versions'', Param ''version_id'', Lit ''retire''], rt_status = 200,
     rt_depends = [VersionRepo, AuditRepo, SessionDep (Some [REVIEWER, ADMIN])]\<rparr>"

definition route_submit_experiment_version_run :: route where
  "route_submit_experiment_version_run = \<lparr>rt_method = ''POST'', rt_path = [Lit ''experiment-versions'', Param ''version_id'', Lit ''runs''], rt_status = 202,
     rt_depends = [VersionRepo, AuditRepo, SessionDep (Some [RESEARCHER, REVIEWER, ADMIN])]\<rparr>"

definition route_get_experiment_verdict :: route where
  "route_get_experiment_verdict = \<lparr>rt_method = ''GET'', rt_path = [Lit ''experiments'', Param ''experiment_id'', Lit ''verdict''], rt_status = 200,
     rt_depends = [ExperimentDep, SessionDep None]\<rparr>"

subsection \<open>\<open>analyst.py\<close>\<close>

definition route_classify_failure_pattern :: route where
  "route_classify_failure_pattern = \<lparr>rt_method = ''POST'', rt_path = [Lit ''vulnerabilities'', Param ''cve_id'', Lit ''analyst'', Lit ''failure-pattern''], rt_status = 201,
     rt_depends = [VulnerabilityRepo, AssuranceRepo, SessionDep (Some [RESEARCHER, REVIEWER, ADMIN])]\<rparr>"

definition route_analyze_mitigation_gap :: route where
  "route_analyze_mitigation_gap = \<lparr>rt_method = ''POST'', rt_path = [Lit ''vulnerabilities'', Param ''cve_id'', Lit ''analyst'', Lit ''mitigation-gap''], rt_status = 201,
     rt_depends = [VulnerabilityRepo, AssuranceRepo, SessionDep (Some [RESEARCHER, REVIEWER, ADMIN])]\<rparr>"

definition route_get_correlations :: route where
  "route_get_correlations = \<lparr>rt_method = ''GET'', rt_path = [Lit ''vulnerabilities'', Param ''cve_id'', Lit ''correlations''], rt_status = 200,
     rt_depends = [VulnerabilityRepo, SessionDep None]\<rparr>"

definition route_summarise_similarity :: route where
  "route_summarise_similarity = \<lparr>rt_method = ''POST'', rt_path = [Lit ''vulnerabilities'', Param ''cve_id'', Lit ''analyst'', Lit ''similar''], rt_status = 201,
     rt_depends = [VulnerabilityRepo, AssuranceRepo, SessionDep (Some [RESEARCHER, REVIEWER, ADMIN])]\<rparr>"

definition route_recommend_template :: route where
  "route_recommend_template = \<lparr>rt_method = ''POST'', rt_path = [Lit ''vulnerabilities'', Param ''cve_id'', Lit ''analyst'', Lit ''template-recommendation''], rt_status = 201,
     rt_depends = [VulnerabilityRepo, AssuranceRepo, SessionDep (Some [RESEARCHER, REVIEWER, ADMIN])]\<rparr>"

definition route_draft_experiment_proposal :: route where
  "route_draft_experiment_proposal = \<lparr>rt_method = ''POST'', rt_path = [Lit ''vulnerabilities'', Param ''cve_id'', Lit ''analyst'', Lit ''experiment-draft''], rt_status = 201,
     rt_depends = [VulnerabilityRepo, AssuranceRepo, SessionDep (Some [RESEARCHER, REVIEWER, ADMIN])]\<rparr>"

definition route_list_assessments :: route where
  "route_list_assessments = \<lparr>rt_method = ''GET'', rt_path = [Lit ''ai-assessments''], rt_status = 200,
     rt_depends = [AssuranceRepo, SessionDep None]\<rparr>"

definition route_get_assessment :: route where
  "route_get_assessment = \<lparr>rt_method = ''GET'', rt_path = [Lit ''ai-assessments'', Param ''assessment_id''], rt_status = 200,
     rt_depends = [AssuranceRepo, SessionDep None]\<rparr>"

definition route_review_assessment :: route where
  "route_review_assessment = \<lparr>rt_method = ''POST'', rt_path = [Lit ''ai-assessments'', Param ''assessment_id'', Lit ''review''], rt_status = 200,
     rt_depends = [AssuranceRepo, AuditRepo, SessionDep (Some [RESEARCHER, REVIEWER, ADMIN])]\<rparr>"

subsection \<open>\<open>assets.py\<close>\<close>

definition route_list_assets :: route where
  "route_list_assets = \<lparr>rt_method = ''GET'', rt_path = [Lit ''assets''], rt_status = 200,
     rt_depends = [AssuranceRepo, SessionDep None]\<rparr>"

definition route_create_asset :: route where
  "route_create_asset = \<lparr>rt_method = ''POST'', rt_path = [Lit ''assets''], rt_status = 201,
     rt_depends = [AssuranceRepo, AuditRepo, SessionDep (Some [RESEARCHER, ADMIN])]\<rparr>"

definition route_get_asset :: route where
  "route_get_asset = \<lparr>rt_method = ''GET'', rt_path = [Lit ''assets'', Param ''asset_id''], rt_status = 200,
     rt_depends = [AssuranceRepo, SessionDep None]\<rparr>"

definition route_update_asset :: route where
  "route_update_asset = \<lparr>rt_method = ''PATCH'', rt_path = [Lit ''assets'', Param ''asset_id''], rt_status = 200,
     rt_depends = [AssuranceRepo, AuditRepo, SessionDep (Some [RESEARCHER, ADMIN])]\<rparr>"

definition route_get_affected_assets :: route where
  "route_get_affected_assets = \<lparr>rt_method = ''GET'', rt_path = [Lit ''vulnerabilities'', Param ''cve_id'', Lit ''affected-assets''], rt_status = 200,
     rt_depends = [AssuranceRepo, SessionDep None]\<rparr>"

subsection \<open>\<open>controls.py\<close>\<close>

definition route_list_controls :: route where
  "route_list_controls = \<lparr>rt_method = ''GET'', rt_path = [Lit ''controls''], rt_status = 200,
     rt_depends = [AssuranceRepo, SessionDep None]\<rparr>"

definition route_get_control :: route where
  "route_get_control = \<lparr>rt_method = ''GET'', rt_path = [Lit ''controls'', Param ''control_id''], rt_status = 200,
     rt_depends = [AssuranceRepo, SessionDep None]\<rparr>"

definition route_list_control_versions :: route where
  "route_list_control_versions = \<lparr>rt_method = ''GET'', rt_path = [Lit ''controls'', Param ''control_id'', Lit ''versions''], rt_status = 200,
     rt_depends = [AssuranceRepo, SessionDep None]\<rparr>"

definition route_get_control_effectiveness :: route where
  "route_get_control_effectiveness = \<lparr>rt_method = ''GET'', rt_path = [Lit ''controls'', Param ''control_id'', Lit ''effectiveness''], rt_status = 200,
     rt_depends = [AssuranceRepo, SessionDep None]\<rparr>"

definition route_explain_regression :: route where
  "route_explain_regression = \<lparr>rt_method = ''POST'', rt_path = [Lit ''controls'', Param ''control_id'', Lit ''regression'', Lit ''explain''], rt_status = 201,
     rt_depends = [AssuranceRepo, SessionDep (Some [RESEARCHER, REVIEWER, ADMIN])]\<rparr>"

subsection \<open>\<open>revalidation.py\<close>\<close>

definition route_scan_for_revalidation :: route where
  "route_scan_for_revalidation = \<lparr>rt_method = ''POST'', rt_path = [Lit ''revalidation'', Lit ''scan''], rt_status = 200,
     rt_depends = [AssuranceRepo, VulnerabilityRepo, SessionDep (Some [RESEARCHER, REVIEWER, ADMIN])]\<rparr>"

definition route_list_revalidation_candidates :: route where
  "route_list_revalidation_candidates = \<lparr>rt_method = ''GET'', rt_path = [Lit ''revalidation''], rt_status = 200,
     rt_depends = [AssuranceRepo, SessionDep None]\<rparr>"

definition route_create_revalidation_candidate :: route where
  "route_create_revalidation_candidate = \<lparr>rt_method = ''POST'', rt_path = [Lit ''revalidation''], rt_status = 201,
     rt_depends = [AssuranceRepo, SessionDep (Some [RESEARCHER, REVIEWER, ADMIN])]\<rparr>"

definition route_get_revalidation_candidate :: route where
  "route_get_revalidation_candidate = \<lparr>rt_method = ''GET'', rt_path = [Lit ''revalidation'', Param ''candidate_id''], rt_status = 200,
     rt_depends = [AssuranceRepo, SessionDep None]\<rparr>"

definition route_approve_revalidation_candidate :: route where
  "route_approve_revalidation_candidate = \<lparr>rt_method = ''POST'', rt_path = [Lit ''revalidation'', Param ''candidate_id'', Lit ''approve''], rt_status = 200,
     rt_depends = [AssuranceRepo, AuditRepo, SessionDep (Some [REVIEWER, ADMIN])]\<rparr>"

definition route_dismiss_revalidation_candidate :: route where
  "route_dismiss_revalidation_candidate = \<lparr>rt_method = ''POST'', rt_path = [Lit ''revalidation'', Param ''candidate_id'', Lit ''dismiss''], rt_status = 200,
     rt_depends = [AssuranceRepo, AuditRepo, SessionDep (Some [REVIEWER, ADMIN])]\<rparr>"

subsection \<open>\<open>audit.py\<close>\<close>

definition route_list_audit_events :: route where
  "route_list_audit_events = \<lparr>rt_method = ''GET'', rt_path = [Lit ''audit-events''], rt_status = 200,
     rt_depends = [AuditRepo, SessionDep (Some [ADMIN])]\<rparr>"

definition health_router :: "route list" where
  "health_router = [route_get_health, route_get_system_status]"

definition auth_router :: "route list" where
  "auth_router = [route_login, route_logout, route_me, route_list_users, route_create_user, route_update_user_role, route_update_user_active]"

definition experiments_router :: "route list" where
  "experiments_router = [route_list_experiments, route_get_experiment_detail, route_validate_experiment, route_submit_run]"

definition evidence_router :: "route list" where
  "evidence_router = [route_get_results, route_get_evidence, route_download_evidence_bundle]"

definition jobs_router :: "route list" where
  "jobs_router = [route_get_job, route_list_jobs, route_stream_job_events]"

definition metrics_router :: "route list" where
  "metrics_router = [route_get_metrics]"

definition intelligence_router :: "route list" where
  "intelligence_router = [route_list_vulnerabilities, route_get_vulnerability_detail, route_get_vulnerability_history, route_get_vulnerability_advisories, route_get_priority_queue, route_list_sources, route_list_integrations, route_submit_sync, route_list_syncs, route_get_sync_status]"

definition studio_router :: "route list" where
  "studio_router = [route_list_domain_packs, route_list_domain_pack_templates, route_get_template, route_generate_dataset, route_create_experiment_version, route_edit_experiment_version, route_get_experiment_version, route_list_experiment_versions, route_get_approval_history, route_submit_review, route_start_review, route_approve_version, route_reject_version, route_retire_version, route_submit_experiment_version_run, route_get_experiment_verdict]"

definition analyst_router :: "route list" where
  "analyst_router = [route_classify_failure_pattern, route_analyze_mitigation_gap, route_get_correlations, route_summarise_similarity, route_recommend_template, route_draft_experiment_proposal, route_list_assessments, route_get_assessment, route_review_assessment]"

definition assets_router :: "route list" where
  "assets_router = [route_list_assets, route_create_asset, route_get_asset, route_update_asset, route_get_affected_assets]"

definition controls_router :: "route list" where
  "controls_router = [route_list_controls, route_get_control, route_list_control_versions, route_get_control_effectiveness, route_explain_regression]"

definition revalidation_router :: "route list" where
  "revalidation_router = [route_scan_for_revalidation, route_list_revalidation_candidates, route_create_revalidation_candidate, route_get_revalidation_candidate, route_approve_revalidation_candidate, route_dismiss_revalidation_candidate]"

definition audit_router :: "route list" where
  "audit_router = [route_list_audit_events]"

section \<open>\<open>api/app.py\<close>\<close>

definition ROUTES :: "route list" where
  "ROUTES = concat [health_router, auth_router, experiments_router, evidence_router, jobs_router, metrics_router, intelligence_router, studio_router, analyst_router, assets_router, controls_router, revalidation_router, audit_router]"

section \<open>Matching\<close>

fun matches :: "path_part list \<Rightarrow> string list \<Rightarrow> bool" where
  "matches [] [] = True"
| "matches (Lit a # ps) (s # ss) = (a = s \<and> matches ps ss)"
| "matches (Param n # ps) (s # ss) = (s \<noteq> [] \<and> matches ps ss)"
| "matches _ _ = False"

fun captures :: "path_part list \<Rightarrow> string list \<Rightarrow> string list" where
  "captures (Param n # ps) (s # ss) = s # captures ps ss"
| "captures (Lit a # ps) (s # ss) = captures ps ss"
| "captures _ _ = []"

definition template :: "path_part list \<Rightarrow> string" where
  "template ps = concat (map (\<lambda>p. CHR ''/'' # (case p of Lit a \<Rightarrow> a | Param n \<Rightarrow> ''{'' @ n @ ''}'')) ps)"

definition segments :: "string \<Rightarrow> string list" where
  "segments path = tl (str_split (CHR ''/'') path)"

datatype routing = Matched route | WrongMethod route | Unrouted

definition dispatch :: "route list \<Rightarrow> string \<Rightarrow> string \<Rightarrow> routing" where
  "dispatch rs http_method path =
     (let here = (\<lambda>r. matches (rt_path r) (segments path)) in
      case find (\<lambda>r. here r \<and> rt_method r = http_method) rs of
        Some r \<Rightarrow> Matched r
      | None \<Rightarrow> (case find here rs of Some r \<Rightarrow> WrongMethod r | None \<Rightarrow> Unrouted))"

section \<open>The route and the path of a request\<close>

primrec ask_route :: "analyst_request \<Rightarrow> route" where
  "ask_route AskFailurePattern = route_classify_failure_pattern"
| "ask_route AskMitigationGap = route_analyze_mitigation_gap"
| "ask_route AskSimilar = route_summarise_similarity"
| "ask_route AskTemplate = route_recommend_template"
| "ask_route (AskDraft a b) = route_draft_experiment_proposal"

primrec ask_path :: "analyst_request \<Rightarrow> string" where
  "ask_path AskFailurePattern = ''failure-pattern''"
| "ask_path AskMitigationGap = ''mitigation-gap''"
| "ask_path AskSimilar = ''similar''"
| "ask_path AskTemplate = ''template-recommendation''"
| "ask_path (AskDraft a b) = ''experiment-draft''"

primrec account_route :: "account_request \<Rightarrow> route" where
  "account_route Health = route_get_health"
| "account_route SystemStatus = route_get_system_status"
| "account_route (Login a b c d) = route_login"
| "account_route Logout = route_logout"
| "account_route Me = route_me"
| "account_route ListUsers = route_list_users"
| "account_route (CreateUser a) = route_create_user"
| "account_route (UpdateUserRole i a) = route_update_user_role"
| "account_route (UpdateUserActive i a) = route_update_user_active"
| "account_route (ListAuditEvents a b c) = route_list_audit_events"

primrec account_path :: "account_request \<Rightarrow> string list" where
  "account_path Health = [''health'']"
| "account_path SystemStatus = [''system'', ''status'']"
| "account_path (Login a b c d) = [''auth'', ''login'']"
| "account_path Logout = [''auth'', ''logout'']"
| "account_path Me = [''auth'', ''me'']"
| "account_path ListUsers = [''users'']"
| "account_path (CreateUser a) = [''users'']"
| "account_path (UpdateUserRole i a) = [''users'', i, ''role'']"
| "account_path (UpdateUserActive i a) = [''users'', i, ''active'']"
| "account_path (ListAuditEvents a b c) = [''audit-events'']"

primrec experiment_route :: "experiment_request \<Rightarrow> route" where
  "experiment_route ListExperiments = route_list_experiments"
| "experiment_route (ExperimentDetail i) = route_get_experiment_detail"
| "experiment_route (ValidateExperimentRequest i a) = route_validate_experiment"
| "experiment_route (SubmitRun i a) = route_submit_run"
| "experiment_route (GetResults i) = route_get_results"
| "experiment_route (GetEvidence i) = route_get_evidence"
| "experiment_route (DownloadBundle i) = route_download_evidence_bundle"
| "experiment_route (GetVerdict i) = route_get_experiment_verdict"
| "experiment_route (GetJob i) = route_get_job"
| "experiment_route (ListJobs a b) = route_list_jobs"
| "experiment_route (JobEvents i) = route_stream_job_events"

primrec experiment_path :: "experiment_request \<Rightarrow> string list" where
  "experiment_path ListExperiments = [''experiments'']"
| "experiment_path (ExperimentDetail i) = [''experiments'', i]"
| "experiment_path (ValidateExperimentRequest i a) = [''experiments'', i, ''validate'']"
| "experiment_path (SubmitRun i a) = [''experiments'', i, ''runs'']"
| "experiment_path (GetResults i) = [''experiments'', i, ''results'']"
| "experiment_path (GetEvidence i) = [''experiments'', i, ''evidence'']"
| "experiment_path (DownloadBundle i) = [''experiments'', i, ''evidence'', ''bundle'']"
| "experiment_path (GetVerdict i) = [''experiments'', i, ''verdict'']"
| "experiment_path (GetJob i) = [''jobs'', i]"
| "experiment_path (ListJobs a b) = [''jobs'']"
| "experiment_path (JobEvents i) = [''jobs'', i, ''events'']"

primrec intelligence_route :: "intelligence_request \<Rightarrow> route" where
  "intelligence_route (ListVulnerabilities a b c) = route_list_vulnerabilities"
| "intelligence_route (VulnerabilityDetail i) = route_get_vulnerability_detail"
| "intelligence_route (VulnerabilityHistory i) = route_get_vulnerability_history"
| "intelligence_route (VulnerabilityAdvisories i) = route_get_vulnerability_advisories"
| "intelligence_route (PriorityQueue a b c d e) = route_get_priority_queue"
| "intelligence_route ListSources = route_list_sources"
| "intelligence_route ListIntegrations = route_list_integrations"
| "intelligence_route (SubmitSync a b) = route_submit_sync"
| "intelligence_route (ListSyncs a b) = route_list_syncs"
| "intelligence_route (SyncStatus i) = route_get_sync_status"

primrec intelligence_path :: "intelligence_request \<Rightarrow> string list" where
  "intelligence_path (ListVulnerabilities a b c) = [''vulnerabilities'']"
| "intelligence_path (VulnerabilityDetail i) = [''vulnerabilities'', i]"
| "intelligence_path (VulnerabilityHistory i) = [''vulnerabilities'', i, ''history'']"
| "intelligence_path (VulnerabilityAdvisories i) = [''vulnerabilities'', i, ''advisories'']"
| "intelligence_path (PriorityQueue a b c d e) = [''priority-queue'']"
| "intelligence_path ListSources = [''sources'']"
| "intelligence_path ListIntegrations = [''integrations'']"
| "intelligence_path (SubmitSync a b) = [''intelligence'', ''sync'']"
| "intelligence_path (ListSyncs a b) = [''intelligence'', ''syncs'']"
| "intelligence_path (SyncStatus i) = [''intelligence'', ''syncs'', i]"

primrec catalog_route :: "catalog_request \<Rightarrow> route" where
  "catalog_route ListDomainPacks = route_list_domain_packs"
| "catalog_route (DomainPackTemplates i) = route_list_domain_pack_templates"
| "catalog_route (GetTemplate i j) = route_get_template"
| "catalog_route (GenerateDataset a b c) = route_generate_dataset"
| "catalog_route (GetVersion i) = route_get_experiment_version"
| "catalog_route (ListVersions a b) = route_list_experiment_versions"
| "catalog_route (ApprovalHistory i) = route_get_approval_history"

primrec catalog_path :: "catalog_request \<Rightarrow> string list" where
  "catalog_path ListDomainPacks = [''domain-packs'']"
| "catalog_path (DomainPackTemplates i) = [''domain-packs'', i, ''templates'']"
| "catalog_path (GetTemplate i j) = [''templates'', i, j]"
| "catalog_path (GenerateDataset a b c) = [''datasets'', ''generate'']"
| "catalog_path (GetVersion i) = [''experiment-versions'', i]"
| "catalog_path (ListVersions a b) = [''experiment-versions'']"
| "catalog_path (ApprovalHistory i) = [''experiment-versions'', i, ''approvals'']"

primrec workflow_route :: "workflow_request \<Rightarrow> route" where
  "workflow_route (CreateVersion a b) = route_create_experiment_version"
| "workflow_route (EditVersion i a) = route_edit_experiment_version"
| "workflow_route (SubmitReview i a) = route_submit_review"
| "workflow_route (StartReview i a) = route_start_review"
| "workflow_route (ApproveVersion i a) = route_approve_version"
| "workflow_route (RejectVersion i a) = route_reject_version"
| "workflow_route (RetireVersion i a) = route_retire_version"
| "workflow_route (RunVersion i) = route_submit_experiment_version_run"

primrec workflow_path :: "workflow_request \<Rightarrow> string list" where
  "workflow_path (CreateVersion a b) = [''experiment-versions'']"
| "workflow_path (EditVersion i a) = [''experiment-versions'', i]"
| "workflow_path (SubmitReview i a) = [''experiment-versions'', i, ''submit-review'']"
| "workflow_path (StartReview i a) = [''experiment-versions'', i, ''start-review'']"
| "workflow_path (ApproveVersion i a) = [''experiment-versions'', i, ''approve'']"
| "workflow_path (RejectVersion i a) = [''experiment-versions'', i, ''reject'']"
| "workflow_path (RetireVersion i a) = [''experiment-versions'', i, ''retire'']"
| "workflow_path (RunVersion i) = [''experiment-versions'', i, ''runs'']"

primrec analysis_route :: "analysis_request \<Rightarrow> route" where
  "analysis_route (AskAnalyst i q) = ask_route q"
| "analysis_route (GetCorrelations i) = route_get_correlations"
| "analysis_route (ListAssessments a b c d) = route_list_assessments"
| "analysis_route (GetAssessment i) = route_get_assessment"
| "analysis_route (ReviewAssessment i a) = route_review_assessment"

primrec analysis_path :: "analysis_request \<Rightarrow> string list" where
  "analysis_path (AskAnalyst i q) = [''vulnerabilities'', i, ''analyst'', ask_path q]"
| "analysis_path (GetCorrelations i) = [''vulnerabilities'', i, ''correlations'']"
| "analysis_path (ListAssessments a b c d) = [''ai-assessments'']"
| "analysis_path (GetAssessment i) = [''ai-assessments'', i]"
| "analysis_path (ReviewAssessment i a) = [''ai-assessments'', i, ''review'']"

primrec inventory_route :: "inventory_request \<Rightarrow> route" where
  "inventory_route (ListAssets a b) = route_list_assets"
| "inventory_route (CreateAsset a) = route_create_asset"
| "inventory_route (GetAsset i) = route_get_asset"
| "inventory_route (UpdateAsset i a) = route_update_asset"
| "inventory_route (AffectedAssets i) = route_get_affected_assets"
| "inventory_route ListControls = route_list_controls"
| "inventory_route (GetControl i) = route_get_control"
| "inventory_route (ListControlVersions i) = route_list_control_versions"
| "inventory_route (ControlEffectiveness i) = route_get_control_effectiveness"
| "inventory_route (ExplainRegression i) = route_explain_regression"

primrec inventory_path :: "inventory_request \<Rightarrow> string list" where
  "inventory_path (ListAssets a b) = [''assets'']"
| "inventory_path (CreateAsset a) = [''assets'']"
| "inventory_path (GetAsset i) = [''assets'', i]"
| "inventory_path (UpdateAsset i a) = [''assets'', i]"
| "inventory_path (AffectedAssets i) = [''vulnerabilities'', i, ''affected-assets'']"
| "inventory_path ListControls = [''controls'']"
| "inventory_path (GetControl i) = [''controls'', i]"
| "inventory_path (ListControlVersions i) = [''controls'', i, ''versions'']"
| "inventory_path (ControlEffectiveness i) = [''controls'', i, ''effectiveness'']"
| "inventory_path (ExplainRegression i) = [''controls'', i, ''regression'', ''explain'']"

primrec revalidation_route :: "revalidation_request \<Rightarrow> route" where
  "revalidation_route ScanControls = route_scan_for_revalidation"
| "revalidation_route (ListCandidates a) = route_list_revalidation_candidates"
| "revalidation_route (CreateCandidate a) = route_create_revalidation_candidate"
| "revalidation_route (GetCandidate i) = route_get_revalidation_candidate"
| "revalidation_route (ApproveCandidate i a) = route_approve_revalidation_candidate"
| "revalidation_route (DismissCandidate i a) = route_dismiss_revalidation_candidate"

primrec revalidation_path :: "revalidation_request \<Rightarrow> string list" where
  "revalidation_path ScanControls = [''revalidation'', ''scan'']"
| "revalidation_path (ListCandidates a) = [''revalidation'']"
| "revalidation_path (CreateCandidate a) = [''revalidation'']"
| "revalidation_path (GetCandidate i) = [''revalidation'', i]"
| "revalidation_path (ApproveCandidate i a) = [''revalidation'', i, ''approve'']"
| "revalidation_path (DismissCandidate i a) = [''revalidation'', i, ''dismiss'']"

primrec route_of :: "api_request \<Rightarrow> route" where
  "route_of (Account q) = account_route q"
| "route_of (Experiment q) = experiment_route q"
| "route_of (Intelligence q) = intelligence_route q"
| "route_of (Catalog q) = catalog_route q"
| "route_of (Workflow q) = workflow_route q"
| "route_of (Analysis q) = analysis_route q"
| "route_of (Inventory q) = inventory_route q"
| "route_of (Revalidate q) = revalidation_route q"

primrec path_segments :: "api_request \<Rightarrow> string list" where
  "path_segments (Account q) = account_path q"
| "path_segments (Experiment q) = experiment_path q"
| "path_segments (Intelligence q) = intelligence_path q"
| "path_segments (Catalog q) = catalog_path q"
| "path_segments (Workflow q) = workflow_path q"
| "path_segments (Analysis q) = analysis_path q"
| "path_segments (Inventory q) = inventory_path q"
| "path_segments (Revalidate q) = revalidation_path q"

definition path_of :: "api_request \<Rightarrow> string" where
  "path_of q = concat (map (\<lambda>s. CHR ''/'' # s) (path_segments q))"

text \<open>What a signature asks of the session: \<open>None\<close> for a public route.\<close>

fun session_roles :: "dependency list \<Rightarrow> role list option" where
  "session_roles [] = None"
| "session_roles (SessionDep None # ds) = Some [VIEWER, RESEARCHER, REVIEWER, ADMIN]"
| "session_roles (SessionDep (Some roles) # ds) = Some roles"
| "session_roles (d # ds) = session_roles ds"

section \<open>The table is unambiguous\<close>

fun overlap :: "path_part list \<Rightarrow> path_part list \<Rightarrow> bool" where
  "overlap [] [] = True"
| "overlap (Lit a # ps) (Lit b # qs) = (a = b \<and> overlap ps qs)"
| "overlap (_ # ps) (_ # qs) = overlap ps qs"
| "overlap _ _ = False"

fun disjoint_routes :: "route list \<Rightarrow> bool" where
  "disjoint_routes [] = True"
| "disjoint_routes (r # rs) =
     (list_all (\<lambda>s. \<not> (rt_method r = rt_method s \<and> overlap (rt_path r) (rt_path s))) rs \<and> disjoint_routes rs)"

lemma matches_Nil: "matches [] ss \<longleftrightarrow> ss = []"
  by (cases ss) auto

lemma matches_Cons:
  "matches (p # ps) ss \<longleftrightarrow> (\<exists>s t. ss = s # t \<and> (case p of Lit a \<Rightarrow> a = s | Param _ \<Rightarrow> s \<noteq> []) \<and> matches ps t)"
  by (cases p; cases ss) auto

lemma matches_overlap: "matches ps ss \<Longrightarrow> matches qs ss \<Longrightarrow> overlap ps qs"
  by (induction ps qs arbitrary: ss rule: overlap.induct) (auto simp: matches_Nil matches_Cons)

lemma ROUTES_disjoint: "disjoint_routes ROUTES"
  by code_simp

lemma str_split_plain: "c \<notin> set s \<Longrightarrow> str_split c s = [s]"
  by (induction s) auto

lemma str_split_append: "c \<notin> set s \<Longrightarrow> str_split c (s @ c # t) = s # str_split c t"
  by (induction s) auto

lemma split_rendered:
  "list_all (\<lambda>s. c \<notin> set s) ss \<Longrightarrow> str_split c (concat (map (\<lambda>s. c # s) ss)) = [] # ss"
proof (induction ss)
  case (Cons s ss)
  then show ?case
    by (cases ss) (auto simp: str_split_plain str_split_append [of c s] dest!: arg_cong [where f = tl])
qed simp

definition clean_path :: "api_request \<Rightarrow> bool" where
  "clean_path q \<longleftrightarrow> list_all (\<lambda>s. s \<noteq> [] \<and> CHR ''/'' \<notin> set s) (path_segments q)"

lemma segments_path_of: "clean_path q \<Longrightarrow> segments (path_of q) = path_segments q"
  by (simp add: segments_def path_of_def clean_path_def split_rendered list_all_iff)


lemmas router_defs =
  health_router_def auth_router_def experiments_router_def evidence_router_def jobs_router_def metrics_router_def
  intelligence_router_def studio_router_def analyst_router_def assets_router_def controls_router_def
  revalidation_router_def audit_router_def

lemmas route_defs =
  route_get_health_def route_get_system_status_def route_login_def route_logout_def route_me_def
  route_list_users_def route_create_user_def route_update_user_role_def route_update_user_active_def
  route_list_experiments_def route_get_experiment_detail_def route_validate_experiment_def route_submit_run_def
  route_get_results_def route_get_evidence_def route_download_evidence_bundle_def route_get_job_def
  route_list_jobs_def route_stream_job_events_def route_get_metrics_def route_list_vulnerabilities_def
  route_get_vulnerability_detail_def route_get_vulnerability_history_def route_get_vulnerability_advisories_def
  route_get_priority_queue_def route_list_sources_def route_list_integrations_def route_submit_sync_def
  route_list_syncs_def route_get_sync_status_def route_list_domain_packs_def route_list_domain_pack_templates_def
  route_get_template_def route_generate_dataset_def route_create_experiment_version_def
  route_edit_experiment_version_def route_get_experiment_version_def route_list_experiment_versions_def
  route_get_approval_history_def route_submit_review_def route_start_review_def route_approve_version_def
  route_reject_version_def route_retire_version_def route_submit_experiment_version_run_def
  route_get_experiment_verdict_def route_classify_failure_pattern_def route_analyze_mitigation_gap_def
  route_get_correlations_def route_summarise_similarity_def route_recommend_template_def
  route_draft_experiment_proposal_def route_list_assessments_def route_get_assessment_def
  route_review_assessment_def route_list_assets_def route_create_asset_def route_get_asset_def
  route_update_asset_def route_get_affected_assets_def route_list_controls_def route_get_control_def
  route_list_control_versions_def route_get_control_effectiveness_def route_explain_regression_def
  route_scan_for_revalidation_def route_list_revalidation_candidates_def route_create_revalidation_candidate_def
  route_get_revalidation_candidate_def route_approve_revalidation_candidate_def
  route_dismiss_revalidation_candidate_def route_list_audit_events_def

lemma account_routed:
  "account_route q \<in> set ROUTES \<and> (list_all (\<lambda>s. s \<noteq> []) (account_path q) \<longrightarrow> matches (rt_path (account_route q)) (account_path q))
   \<and> session_roles (rt_depends (account_route q)) = account_roles q"
  by (cases q) (simp_all add: ROUTES_def router_defs route_defs)

lemma experiment_routed:
  "experiment_route q \<in> set ROUTES \<and> (list_all (\<lambda>s. s \<noteq> []) (experiment_path q) \<longrightarrow> matches (rt_path (experiment_route q)) (experiment_path q))
   \<and> session_roles (rt_depends (experiment_route q)) = experiment_roles q"
  by (cases q) (simp_all add: ROUTES_def router_defs route_defs)

lemma intelligence_routed:
  "intelligence_route q \<in> set ROUTES \<and> (list_all (\<lambda>s. s \<noteq> []) (intelligence_path q) \<longrightarrow> matches (rt_path (intelligence_route q)) (intelligence_path q))
   \<and> session_roles (rt_depends (intelligence_route q)) = intelligence_roles q"
  by (cases q) (simp_all add: ROUTES_def router_defs route_defs)

lemma catalog_routed:
  "catalog_route q \<in> set ROUTES \<and> (list_all (\<lambda>s. s \<noteq> []) (catalog_path q) \<longrightarrow> matches (rt_path (catalog_route q)) (catalog_path q))
   \<and> session_roles (rt_depends (catalog_route q)) = catalog_roles q"
  by (cases q) (simp_all add: ROUTES_def router_defs route_defs)

lemma workflow_routed:
  "workflow_route q \<in> set ROUTES \<and> (list_all (\<lambda>s. s \<noteq> []) (workflow_path q) \<longrightarrow> matches (rt_path (workflow_route q)) (workflow_path q))
   \<and> session_roles (rt_depends (workflow_route q)) = workflow_roles q"
  by (cases q) (simp_all add: ROUTES_def router_defs route_defs)

lemma analysis_routed:
  "analysis_route q \<in> set ROUTES \<and> (list_all (\<lambda>s. s \<noteq> []) (analysis_path q) \<longrightarrow> matches (rt_path (analysis_route q)) (analysis_path q))
   \<and> session_roles (rt_depends (analysis_route q)) = analysis_roles q"
  proof (cases q)
  case (AskAnalyst i a)
  then show ?thesis by (cases a) (simp_all add: ROUTES_def router_defs route_defs)
qed (simp_all add: ROUTES_def router_defs route_defs)

lemma inventory_routed:
  "inventory_route q \<in> set ROUTES \<and> (list_all (\<lambda>s. s \<noteq> []) (inventory_path q) \<longrightarrow> matches (rt_path (inventory_route q)) (inventory_path q))
   \<and> session_roles (rt_depends (inventory_route q)) = inventory_roles q"
  by (cases q) (simp_all add: ROUTES_def router_defs route_defs)

lemma revalidation_routed:
  "revalidation_route q \<in> set ROUTES \<and> (list_all (\<lambda>s. s \<noteq> []) (revalidation_path q) \<longrightarrow> matches (rt_path (revalidation_route q)) (revalidation_path q))
   \<and> session_roles (rt_depends (revalidation_route q)) = revalidation_roles q"
  by (cases q) (simp_all add: ROUTES_def router_defs route_defs)

lemma routed:
  "route_of q \<in> set ROUTES \<and> (list_all (\<lambda>s. s \<noteq> []) (path_segments q) \<longrightarrow> matches (rt_path (route_of q)) (path_segments q))
   \<and> session_roles (rt_depends (route_of q)) = allowed_roles q"
  by (cases q) (simp_all add: account_routed experiment_routed intelligence_routed catalog_routed workflow_routed analysis_routed
      inventory_routed revalidation_routed)

lemma disjoint_unique:
  "disjoint_routes rs \<Longrightarrow> r \<in> set rs \<Longrightarrow> s \<in> set rs \<Longrightarrow> matches (rt_path r) ss \<Longrightarrow> matches (rt_path s) ss
    \<Longrightarrow> rt_method s = rt_method r \<Longrightarrow> s = r"
  by (induction rs) (auto simp: list_all_iff dest: matches_overlap)

lemma find_only:
  assumes "r \<in> set rs" and "P r" and "\<And>s. s \<in> set rs \<Longrightarrow> P s \<Longrightarrow> s = r"
  shows "find P rs = Some r"
proof (cases "find P rs")
  case None
  then show ?thesis using assms(1,2) by (simp add: find_None_iff)
next
  case (Some s)
  then show ?thesis using assms(3) find_eq_Some_D by metis
qed

text \<open>
  C22. Every request reaches its own handler, and only with the session it asks for. Whatever the identifiers in its path
  are, as long as they are not empty and contain no slash, the path and the method of a request of the interface are
  matched by exactly one of the 72 routes, the one of its handler, whatever the order in which the routers are included;
  and the session and the roles that the signature of this route demands are those of the access rules.
\<close>

theorem requests_reach_their_routes:
  assumes "clean_path q" and "set rs = set ROUTES"
  shows "dispatch rs (rt_method (route_of q)) (path_of q) = Matched (route_of q)
    \<and> session_roles (rt_depends (route_of q)) = allowed_roles q"
proof -
  have q: "route_of q \<in> set ROUTES" "matches (rt_path (route_of q)) (path_segments q)"
      "session_roles (rt_depends (route_of q)) = allowed_roles q"
    using routed [of q] assms(1) by (auto simp: clean_path_def list_all_iff)
  have "find (\<lambda>s. matches (rt_path s) (path_segments q) \<and> rt_method s = rt_method (route_of q)) rs = Some (route_of q)"
    using disjoint_unique [OF ROUTES_disjoint q(1) _ q(2)] q(1,2) assms(2) by (intro find_only) auto
  then show ?thesis using q(3) by (simp add: dispatch_def segments_path_of [OF assms(1)])
qed

theorem requests_reach_their_routes_witness:
  "dispatch (rev ROUTES) ''POST'' ''/experiments/ZS-1/runs'' = Matched route_submit_run"
proof -
  have "clean_path (Experiment (SubmitRun ''ZS-1'' EXPERIMENT_RUN))" by (simp add: clean_path_def)
  from requests_reach_their_routes [OF this, of "rev ROUTES"] show ?thesis
    by (simp add: path_of_def route_submit_run_def)
qed

end
