(* ===== verification/Observability.thy ===== *)
theory Observability
  imports Startup
begin

text \<open>
  The lines of the log (\<open>observability/logging.py\<close>) and the configuration of tracing (\<open>observability/tracing.py\<close>). A record
  of the standard library's \<open>logging\<close> is its attributes; the span of the moment and the format of a traceback are
  parameters.
\<close>

section \<open>\<open>observability/logging.py\<close>\<close>

text \<open>The attributes that every record of \<open>logging\<close> has.\<close>

definition RESERVED_RECORD_ATTRS :: "string list" where
  "RESERVED_RECORD_ATTRS = [''name'', ''msg'', ''args'', ''levelname'', ''levelno'', ''pathname'', ''filename'', ''module'', ''exc_info'',
     ''exc_text'', ''stack_info'', ''lineno'', ''funcName'', ''created'', ''msecs'', ''relativeCreated'', ''thread'', ''threadName'',
     ''processName'', ''process'', ''taskName'', ''message'', ''asctime'']"

record log_record =
  lg_created :: datetime
  lg_levelname :: string
  lg_name :: string
  lg_message :: string
  lg_attributes :: pydict
  lg_exception :: "string option"

record span_context =
  sc_is_valid :: bool
  sc_trace_id :: nat
  sc_span_id :: nat

definition hex_of :: "nat \<Rightarrow> nat \<Rightarrow> string" where
  "hex_of bytes n = concat (map hex_byte (be_bytes bytes n))"

text \<open>\<open>getattr(record, "request_id", None) or request_id_var.get()\<close>.\<close>

definition record_request_id :: "log_record \<Rightarrow> string option \<Rightarrow> pyval" where
  "record_request_id r var =
     (let own = dict_get (lg_attributes r) ''request_id'' in
      if py_truthy own then own else (case var of None \<Rightarrow> PNone | Some i \<Rightarrow> PStr i))"

fun add_extras :: "pydict \<Rightarrow> pydict \<Rightarrow> pydict" where
  "add_extras payload [] = payload"
| "add_extras payload ((key, value) # d) =
     add_extras (if key \<notin> set RESERVED_RECORD_ATTRS \<and> key \<notin> fst ` set payload then payload @ [(key, value)] else payload) d"

definition log_payload :: "log_record \<Rightarrow> string option \<Rightarrow> span_context \<Rightarrow> pydict" where
  "log_payload r var sp =
     (let base = [(''timestamp'', PStr (datetime_iso (lg_created r))), (''level'', PStr (lg_levelname r)),
            (''logger'', PStr (lg_name r)), (''message'', PStr (lg_message r))];
          request_id = record_request_id r var;
          with_id = (if request_id \<noteq> PNone then base @ [(''request_id'', request_id)] else base);
          with_span = (if sc_is_valid sp
            then with_id @ [(''trace_id'', PStr (hex_of 16 (sc_trace_id sp))), (''span_id'', PStr (hex_of 8 (sc_span_id sp)))]
            else with_id);
          payload = add_extras with_span (lg_attributes r) in
      case lg_exception r of None \<Rightarrow> payload | Some t \<Rightarrow> dict_set payload ''exception'' (PStr t))"

lemma add_extras_base: "\<exists>more. add_extras p d = p @ more \<and> (distinct (map fst p) \<longrightarrow> distinct (map fst (p @ more)))"
proof (induction d arbitrary: p)
  case (Cons x d)
  obtain key v where x: "x = (key, v)" by fastforce
  show ?case
  proof (cases "key \<notin> set RESERVED_RECORD_ATTRS \<and> key \<notin> fst ` set p")
    case True
    then show ?thesis using Cons.IH [of "p @ [(key, v)]"] x by auto
  next
    case False
    then show ?thesis using Cons.IH [of p] x by auto
  qed
qed simp

lemma dict_get_set: "dict_get (dict_set d k v) j = (if j = k then v else dict_get d j)"
  by (induction d k v rule: dict_set.induct) (auto simp: dict_get_def)

lemma dict_get_prefix: "k \<in> fst ` set p \<Longrightarrow> dict_get (p @ q) k = dict_get p k"
  by (induction p) (auto simp: dict_get_def)

text \<open>
  Whatever fields a caller adds, a line says when, how severe, who and what, and which request it belongs to while one is
  being handled.
\<close>

lemma log_line_core:
  shows "dict_get (log_payload r var sp) ''timestamp'' = PStr (datetime_iso (lg_created r))"
    and "dict_get (log_payload r var sp) ''level'' = PStr (lg_levelname r)"
    and "dict_get (log_payload r var sp) ''message'' = PStr (lg_message r)"
    and "dict_get (lg_attributes r) ''request_id'' = PNone \<Longrightarrow> dict_get (log_payload r (Some i) sp) ''request_id'' = PStr i"
proof -
  have get: "dict_get (case lg_exception r of None \<Rightarrow> add_extras p d | Some t \<Rightarrow> dict_set (add_extras p d) ''exception'' (PStr t)) k = dict_get p k"
    if "k \<in> fst ` set p" "k \<noteq> ''exception''" for p d k
  proof -
    obtain more where "add_extras p d = p @ more" using add_extras_base by blast
    then show ?thesis using dict_get_prefix [OF that(1)] that(2) by (simp add: dict_get_set split: option.split)
  qed
  show "dict_get (log_payload r var sp) ''timestamp'' = PStr (datetime_iso (lg_created r))"
    "dict_get (log_payload r var sp) ''level'' = PStr (lg_levelname r)"
    "dict_get (log_payload r var sp) ''message'' = PStr (lg_message r)"
    by (simp_all add: log_payload_def Let_def get) (simp_all add: dict_get_def)
  show "dict_get (log_payload r (Some i) sp) ''request_id'' = PStr i" if "dict_get (lg_attributes r) ''request_id'' = PNone"
    using that by (simp add: log_payload_def Let_def record_request_id_def get) (simp add: dict_get_def)
qed

section \<open>\<open>observability/tracing.py\<close>\<close>

text \<open>The providers that were installed, each with its service and its exporter, the last one in force.\<close>

datatype span_exporter = OTLPSpanExporter string | ConsoleSpanExporter

record tracing =
  tr_configured :: "string list"
  tr_providers :: "(string \<times> span_exporter option) list"

definition span_exporter_of :: "environ \<Rightarrow> span_exporter option" where
  "span_exporter_of environ =
     (case environ ''OTEL_EXPORTER_OTLP_ENDPOINT'' of
        Some (c # cs) \<Rightarrow> Some (OTLPSpanExporter ((c # cs) @ ''/v1/traces''))
      | _ \<Rightarrow> if environ ''ZEROSHIELD_TRACING_CONSOLE'' = Some ''1'' then Some ConsoleSpanExporter else None)"

definition configure_tracing :: "environ \<Rightarrow> string \<Rightarrow> tracing \<Rightarrow> tracing" where
  "configure_tracing environ service_name t =
     (if service_name \<in> set (tr_configured t) then t
      else t\<lparr>tr_configured := tr_configured t @ [service_name],
          tr_providers := tr_providers t @ [(service_name, span_exporter_of environ)]\<rparr>)"

lemma configure_tracing_idempotent: "configure_tracing environ s (configure_tracing environ s t) = configure_tracing environ s t"
  by (simp add: configure_tracing_def)

lemma exports_nothing_by_default:
  "environ ''OTEL_EXPORTER_OTLP_ENDPOINT'' = None \<Longrightarrow> environ ''ZEROSHIELD_TRACING_CONSOLE'' = None
    \<Longrightarrow> span_exporter_of environ = None"
  by (simp add: span_exporter_of_def)

end
