(* ===== verification/Command_Line.thy ===== *)
theory Command_Line
  imports Experiment_Routes
begin

text \<open>
  The commands of the command line on files (\<open>cli/commands.py\<close>, \<open>cli/main.py\<close>): validate an experiment, run
  it, compare and verify evidence. The state is the file tree, the run's world and the lines printed so far. The parsing of
  JSON and of models is the parameter \<open>discovery_env\<close> or \<open>codec\<close>; a failure that a command reports is a
  \<open>CliError\<close>.
\<close>

section \<open>State and printing\<close>

record cli_state =
  cli_files :: file_tree
  cli_run :: run_world
  cli_out :: "string list"

record cli_env =
  ce_codec :: codec
  ce_discovery :: discovery_env
  ce_run :: run_env
  ce_clock :: datetime
  ce_cwd :: pypath
  ce_stamp :: nat

type_synonym 'a cli_m = "(cli_state, exn, 'a) eff"

definition print_line :: "string \<Rightarrow> unit cli_m" where
  "print_line s = modifyE (\<lambda>w. w\<lparr>cli_out := cli_out w @ [s]\<rparr>)"

definition print_lines :: "string list \<Rightarrow> unit cli_m" where
  "print_lines ls = modifyE (\<lambda>w. w\<lparr>cli_out := cli_out w @ ls\<rparr>)"

definition CliError :: "string \<Rightarrow> exn" where "CliError msg = OtherError ''CliError'' msg"

definition NL :: string where "NL = [CHR 0x0A]"

definition pass_fail :: "bool \<Rightarrow> string" where "pass_fail ok = (if ok then ''PASS'' else ''FAIL'')"

section \<open>Loading an experiment\<close>

text \<open>\<open>ExperimentDefinition(**raw)\<close>: only a mapping can be expanded.\<close>

definition build_experiment :: "discovery_env \<Rightarrow> pyval \<Rightarrow> exn + experiment_definition" where
  "build_experiment D raw =
     (case raw of PDict _ \<Rightarrow> definition_model_validate D raw | _ \<Rightarrow> Inl (TypeError ''argument after ** must be a mapping''))"

definition load_experiment :: "cli_env \<Rightarrow> pypath \<Rightarrow> experiment_definition cli_m" where
  "load_experiment V experiment_path =
     bindE (getE (\<lambda>w. files_of (cli_files w) experiment_path)) (\<lambda>content.
     case content of
       None \<Rightarrow> raiseE (CliError (''experiment file not found: '' @ path_str experiment_path))
     | Some text \<Rightarrow>
         (case de_loads (ce_discovery V) text of
            Inl exc \<Rightarrow> raiseE (CliError (''experiment file is not valid JSON: '' @ path_str experiment_path @ '' ('' @ exc @ '')''))
          | Inr raw \<Rightarrow>
              (case build_experiment (ce_discovery V) raw of
                 Inl (ValidationError m f) \<Rightarrow>
                   raiseE (CliError (''experiment failed schema validation:'' @ NL @ de_error_text (ce_discovery V) (ValidationError m f)))
               | r \<Rightarrow> liftE r)))"

section \<open>\<open>validate-experiment\<close>\<close>

fun is_cli_error :: "exn \<Rightarrow> string option" where
  "is_cli_error (OtherError c msg) = (if c = ''CliError'' then Some msg else None)"
| "is_cli_error _ = None"

definition validate_loaded :: "cli_env \<Rightarrow> execution_context \<Rightarrow> experiment_definition \<Rightarrow> bool cli_m" where
  "validate_loaded V ctx e =
     bindE (print_lines [''Experiment ID: '' @ ed_experiment_id e, ''Domain: '' @ domain_value (ed_domain e),
       ''Schema validation: PASS (includes required research metadata)'']) (\<lambda>_.
     bindE (getE (\<lambda>w. files_of (cli_files w) (path_under (ce_cwd V) (ed_dataset_path e)) \<noteq> None)) (\<lambda>dataset_ok.
     bindE (print_line (''Dataset ('' @ path_str (ed_dataset_path e) @ ''): '' @ (if dataset_ok then ''PASS'' else ''FAIL (not found)''))) (\<lambda>_.
     bindE (liftE (evaluate e ctx (ce_clock V))) (\<lambda>d.
     bindE (print_lines ([''Safety policy ('' @ context_value ctx @ ''): '' @ pass_fail (pd_allowed d)]
       @ map (\<lambda>r. ''  - '' @ r) (pd_reasons d))) (\<lambda>_.
     let overall = (dataset_ok \<and> pd_allowed d) in
     bindE (print_line (NL @ ''VALIDATION: '' @ pass_fail overall)) (\<lambda>_. returnE overall))))))"

definition cli_validate_experiment :: "cli_env \<Rightarrow> execution_context \<Rightarrow> pypath \<Rightarrow> bool cli_m" where
  "cli_validate_experiment V ctx experiment_path =
     bindE (print_line (''Experiment file: '' @ path_str experiment_path)) (\<lambda>_.
     bindE (tryE (load_experiment V experiment_path)) (\<lambda>r.
     case r of
       Inr e \<Rightarrow> validate_loaded V ctx e
     | Inl exc \<Rightarrow>
         (case is_cli_error exc of
            None \<Rightarrow> raiseE exc
          | Some msg \<Rightarrow>
              bindE (print_lines [''Schema validation: FAIL'' @ NL @ ''  '' @ msg, NL @ ''VALIDATION: FAIL'']) (\<lambda>_. returnE False))))"

section \<open>\<open>run\<close>\<close>

definition cli_run_id :: "nat \<Rightarrow> string \<Rightarrow> string option \<Rightarrow> string" where
  "cli_run_id stamp mode_tag given_id =
     (case given_id of None \<Rightarrow> run_id_of stamp mode_tag | Some i \<Rightarrow> if i = [] then run_id_of stamp mode_tag else i)"

text \<open>The clock is only read when an identifier is missing; then an empty one is replaced as well.\<close>

definition cli_run_ids :: "nat \<Rightarrow> string option \<Rightarrow> string option \<Rightarrow> string \<times> string" where
  "cli_run_ids stamp b m =
     (case (b, m) of (Some x, Some y) \<Rightarrow> (x, y) | _ \<Rightarrow> (cli_run_id stamp ''01'' b, cli_run_id stamp ''02'' m))"

definition cli_execute :: "cli_env \<Rightarrow> pypath \<Rightarrow> run_request \<Rightarrow> validation_result cli_m" where
  "cli_execute V results_root q w =
     (case execute_and_generate_evidence ((ce_run V)\<lparr>re_files := files_of (cli_files w), re_has_sink := False\<rparr>) (ce_codec V)
         (local_save_run_evidence results_root) (local_save_comparison (ce_codec V) results_root) q (cli_run w, cli_files w) of
       (r, (rw, files)) \<Rightarrow> (r, w\<lparr>cli_run := rw, cli_files := files\<rparr>))"

fun run_status_value :: "run_status \<Rightarrow> string" where
  "run_status_value RS_PENDING = ''pending''"
| "run_status_value RS_RUNNING = ''running''"
| "run_status_value RS_COMPLETED = ''completed''"
| "run_status_value RS_FAILED = ''failed''"

definition path_parent :: "pypath \<Rightarrow> pypath" where
  "path_parent p = PyPath (path_root p) (butlast (path_parts p))"

definition path_name :: "pypath \<Rightarrow> string" where
  "path_name p = (if path_parts p = [] then [] else last (path_parts p))"

definition run_report :: "execution_context \<Rightarrow> string \<times> string \<Rightarrow> validation_result \<Rightarrow> string list" where
  "run_report ctx ids r =
     (let bm = cp_baseline_metrics (vr_comparison_report r); mm = cp_mitigation_metrics (vr_comparison_report r);
          base = xr_baseline (vr_execution r); mit = xr_mitigation (vr_execution r) in
      [''Safety decision: ALLOWED ('' @ context_value ctx @ '')'',
       ''Cases: '' @ nat_digits (length (ro_case_results base)),
       ''Baseline status: '' @ run_status_value (er_status (ro_run base)) @ '' (run_id='' @ fst ids @ '')'',
       ''Mitigation status: '' @ run_status_value (er_status (ro_run mit)) @ '' (run_id='' @ snd ids @ '')'',
       ''Key metrics:'',
       ''  block_rate: baseline='' @ fmt_fixed 3 (em_block_rate bm) @ '' mitigation='' @ fmt_fixed 3 (em_block_rate mm),
       ''  valid_acceptance_rate: baseline='' @ fmt_fixed 3 (em_valid_acceptance_rate bm) @ '' mitigation=''
         @ fmt_fixed 3 (em_valid_acceptance_rate mm),
       ''  block_rate_improvement: '' @ fmt_fixed 3 (cp_block_rate_improvement (vr_comparison_report r)),
       ''Evidence output path: '' @ path_str (path_parent (path_parent (vr_baseline_manifest_path r))),
       NL @ ''COMPLETION: SUCCESS''])"

definition cli_run_experiment :: "cli_env \<Rightarrow> execution_context \<Rightarrow> pypath \<Rightarrow> string option \<Rightarrow> string option \<Rightarrow> string \<Rightarrow> pypath
    \<Rightarrow> bool cli_m" where
  "cli_run_experiment V ctx experiment_path baseline_run_id mitigation_run_id git_commit results_root =
     bindE (load_experiment V experiment_path) (\<lambda>e.
     bindE (print_line (''Experiment: '' @ ed_experiment_id e @ '' (domain='' @ domain_value (ed_domain e) @ '')'')) (\<lambda>_.
     let dataset_path = path_under (ce_cwd V) (ed_dataset_path e) in
     bindE (getE (\<lambda>w. files_of (cli_files w) dataset_path)) (\<lambda>dataset.
     if dataset = None then raiseE (CliError (''dataset not found: '' @ path_str dataset_path))
     else
       bindE (catchE (liftE (resolve_pair e)) (\<lambda>exc. case exc of ExperimentServiceError msg \<Rightarrow> Some (CliError msg) | _ \<Rightarrow> None)) (\<lambda>(baseline, mitigation).
       let ids = cli_run_ids (ce_stamp V) baseline_run_id mitigation_run_id in
       bindE (tryE (cli_execute V results_root
         \<lparr>rq_experiment = e, rq_dataset_path = dataset_path, rq_baseline = baseline, rq_mitigation = mitigation,
          rq_baseline_run_id = fst ids, rq_mitigation_run_id = snd ids, rq_git_commit = git_commit, rq_environment = None,
          rq_execution_context = ctx\<rparr>)) (\<lambda>r.
       case r of
         Inr result \<Rightarrow> bindE (print_lines (run_report ctx ids result)) (\<lambda>_. returnE True)
       | Inl (PolicyRefusalError d) \<Rightarrow>
           bindE (print_lines ([''Safety decision: DENIED ('' @ context_value ctx @ '')''] @ map (\<lambda>r. ''  - '' @ r) (pd_reasons d)
             @ [NL @ ''COMPLETION: FAILED (refused by safety policy before execution)''])) (\<lambda>_. returnE False)
       | Inl exc \<Rightarrow> raiseE exc)))))"

section \<open>\<open>compare\<close>\<close>

definition ljust :: "nat \<Rightarrow> string \<Rightarrow> string" where
  "ljust n s = s @ replicate (n - length s) (CHR '' '')"

definition rjust :: "nat \<Rightarrow> string \<Rightarrow> string" where
  "rjust n s = replicate (n - length s) (CHR '' '') @ s"

definition compared_fields :: "(string \<times> (experiment_metrics \<Rightarrow> float64)) list" where
  "compared_fields =
     [(''processing_success_rate'', em_processing_success_rate), (''block_rate'', em_block_rate),
      (''valid_acceptance_rate'', em_valid_acceptance_rate), (''false_positive_rate'', em_false_positive_rate),
      (''false_negative_rate'', em_false_negative_rate), (''parser_reach_rate'', em_parser_reach_rate),
      (''mean_latency_ms'', em_mean_latency_ms), (''log_completeness_rate'', em_log_completeness_rate)]"

definition comparison_table :: "comparison_report \<Rightarrow> string list" where
  "comparison_table report =
     [''Experiment: '' @ cp_experiment_id report,
      ''Baseline run: '' @ cp_baseline_run_id report @ ''  Mitigation run: '' @ cp_mitigation_run_id report,
      ''Total cases: '' @ str_int (cp_total_cases report),
      ljust 26 ''Metric'' @ rjust 12 ''Baseline'' @ rjust 12 ''Mitigation'' @ rjust 12 ''Difference'']
     @ map (\<lambda>(name, f). let b = f (cp_baseline_metrics report); m = f (cp_mitigation_metrics report) in
         ljust 26 name @ rjust 12 (fmt_fixed 4 b) @ rjust 12 (fmt_fixed 4 m) @ rjust 12 (fmt_fixed 4 (fl (m - b)))) compared_fields
     @ [NL @ ''Block-rate improvement: '' @ fmt_fixed 4 (cp_block_rate_improvement report),
        ''Latency overhead (ms): '' @ fmt_fixed 4 (cp_latency_overhead_ms report), NL @ ''Limitations:'']
     @ map (\<lambda>item. ''  - '' @ item) (cp_limitations report)"

definition compare_experiment :: "cli_env \<Rightarrow> pypath \<Rightarrow> bool cli_m" where
  "compare_experiment V experiment_dir =
     bindE (getE (\<lambda>w. files_of (cli_files w) (path_join experiment_dir ''comparison.json''))) (\<lambda>content.
     case content of
       None \<Rightarrow> raiseE (CliError (''comparison.json not found under '' @ path_str experiment_dir))
     | Some text \<Rightarrow>
         (case cd_comparison_of (ce_codec V) text of
            Inl (ValidationError m f) \<Rightarrow>
              raiseE (CliError (''comparison.json failed schema validation:'' @ NL @ de_error_text (ce_discovery V) (ValidationError m f)))
          | Inl exc \<Rightarrow> raiseE exc
          | Inr report \<Rightarrow> bindE (print_lines (comparison_table report)) (\<lambda>_. returnE True)))"

section \<open>\<open>verify-evidence\<close>\<close>

text \<open>\<open>run_dir\<close> is resolved already; a directory is there when it holds a file.\<close>

fun manifest_cli_error :: "cli_env \<Rightarrow> pypath \<Rightarrow> exn \<Rightarrow> exn option" where
  "manifest_cli_error V run_dir (FileNotFoundError s) = Some (CliError (''manifest.json not found under '' @ path_str run_dir))"
| "manifest_cli_error V run_dir (ValidationError m f) =
     Some (CliError (''manifest.json failed schema validation:'' @ NL @ de_error_text (ce_discovery V) (ValidationError m f)))"
| "manifest_cli_error V run_dir (OtherError c msg) =
     (if c = ''JSONDecodeError'' then Some (CliError (''manifest.json is not valid JSON: '' @ msg)) else None)"
| "manifest_cli_error V run_dir _ = None"

definition missing_artefacts :: "pypath \<Rightarrow> evidence_manifest \<Rightarrow> file_tree \<Rightarrow> string list" where
  "missing_artefacts run_dir m files =
     map fst (filter (\<lambda>(_, rel). files_of files (path_under run_dir rel) = None) (mf_artefact_paths m))"

definition verify_report :: "codec \<Rightarrow> pypath \<Rightarrow> string \<Rightarrow> string \<Rightarrow> evidence_manifest \<Rightarrow> string list \<Rightarrow> string list \<times> bool" where
  "verify_report C run_dir experiment_id run_id m missing =
     (let integrity_ok = verify_manifest_integrity C m;
          ok = (mf_experiment_id m = experiment_id \<and> mf_run_id m = run_id \<and> missing = [] \<and> integrity_ok) in
      ([''Manifest: '' @ path_str (path_join run_dir ''manifest.json''),
        ''Experiment ID: '' @ mf_experiment_id m @ ''  Run ID: '' @ mf_run_id m @ ''  Mode: '' @ run_mode_value (mf_mode m)]
       @ (if mf_experiment_id m \<noteq> experiment_id
          then [''Consistency: FAIL (manifest experiment_id '' @ quoted (mf_experiment_id m) @ '' != directory '' @ quoted experiment_id @ '')''] else [])
       @ (if mf_run_id m \<noteq> run_id
          then [''Consistency: FAIL (manifest run_id '' @ quoted (mf_run_id m) @ '' != directory '' @ quoted run_id @ '')''] else [])
       @ [if missing \<noteq> [] then ''Artefact files: FAIL (missing: '' @ repr_str_list missing @ '')''
          else ''Artefact files: PASS ('' @ nat_digits (length (mf_artefact_paths m)) @ '' present)'',
          ''Manifest integrity (SHA-256): '' @ (if integrity_ok then ''PASS'' else ''FAIL (manifest may have been modified)''),
          NL @ ''VERIFICATION: '' @ pass_fail ok], ok))"

definition verify_evidence :: "cli_env \<Rightarrow> pypath \<Rightarrow> bool cli_m" where
  "verify_evidence V run_dir =
     bindE (getE (\<lambda>w. dir_occupied run_dir (cli_files w))) (\<lambda>there.
     if \<not> there then raiseE (CliError (''run directory not found: '' @ path_str run_dir))
     else
       let run_id = path_name run_dir; experiment_id = path_name (path_parent run_dir); base = path_parent (path_parent run_dir) in
       bindE (catchE (bindE (getE (\<lambda>w. local_load_manifest (ce_codec V) base experiment_id run_id (cli_files w))) liftE)
         (manifest_cli_error V run_dir)) (\<lambda>m.
       bindE (getE (\<lambda>w. missing_artefacts run_dir m (cli_files w))) (\<lambda>missing.
       let (lines, ok) = verify_report (ce_codec V) run_dir experiment_id run_id m missing in
       bindE (print_lines lines) (\<lambda>_. returnE ok))))"

section \<open>\<open>main\<close>\<close>

text \<open>The commands on files: 1 for a \<open>CliError\<close> or a negative outcome; other exceptions end the process.\<close>

datatype command =
    ValidateExperiment pypath execution_context
  | Run pypath execution_context "string option" "string option" string pypath
  | Compare pypath
  | VerifyEvidence pypath

fun command_action :: "cli_env \<Rightarrow> command \<Rightarrow> bool cli_m" where
  "command_action V (ValidateExperiment p ctx) = cli_validate_experiment V ctx p"
| "command_action V (Run p ctx b m git_commit results_root) = cli_run_experiment V ctx p b m git_commit results_root"
| "command_action V (Compare d) = compare_experiment V d"
| "command_action V (VerifyEvidence d) = verify_evidence V d"

definition main_command :: "cli_env \<Rightarrow> command \<Rightarrow> nat cli_m" where
  "main_command V c =
     bindE (tryE (command_action V c)) (\<lambda>r.
     case r of
       Inr ok \<Rightarrow> returnE (if ok then 0 else 1)
     | Inl exc \<Rightarrow> (case is_cli_error exc of None \<Rightarrow> raiseE exc | Some msg \<Rightarrow>
         bindE (print_line (''ERROR: '' @ msg)) (\<lambda>_. returnE 1)))"

section \<open>What verification covers\<close>

lemma verify_evidence_eq:
  assumes "dir_occupied d (cli_files w)"
    and "local_load_manifest (ce_codec V) (path_parent (path_parent d)) (path_name (path_parent d)) (path_name d) (cli_files w) = Inr m"
  shows "fst (verify_evidence V d w) = Inr (mf_experiment_id m = path_name (path_parent d) \<and> mf_run_id m = path_name d
      \<and> missing_artefacts d m (cli_files w) = [] \<and> verify_manifest_integrity (ce_codec V) m)"
  using assms by (simp add: verify_evidence_def app_m_defs catchE_def verify_report_def print_lines_def Let_def)

lemma missing_artefacts_present:
  "missing_artefacts d m files = [] \<longleftrightarrow> (\<forall>(n, rel) \<in> set (mf_artefact_paths m). path_under d rel \<in> fst ` set files)"
  by (auto simp: missing_artefacts_def files_of_def filter_empty_conv tbl_get_None split_beta)

lemma saved_dir:
  assumes "good_bundle b" and "local_save_run_evidence base b fs = Inr (dir, fs1)"
  shows "dir = PyPath (path_root base) (path_parts base @ [mf_experiment_id (eb_manifest b), mf_run_id (eb_manifest b)])"
  using assms by (auto simp: local_save_run_evidence_def Let_def good_bundle_def path_join_good split: if_splits)

lemma saved_artefact:
  assumes "good_bundle b" and "local_save_run_evidence base b fs = Inr (dir, fs1)" and "map_of (eb_artefacts b) n = Some c"
  shows "files_of fs1 (PyPath (path_root dir) (path_parts dir @ [n])) = Some c"
proof -
  have g: "good_part (mf_experiment_id (eb_manifest b))" "good_part (mf_run_id (eb_manifest b))" "good_part n"
    using assms(1) map_of_SomeD [OF assms(3)] by (auto simp: good_bundle_def list_all_iff)
  have "local_load_artefact base (mf_experiment_id (eb_manifest b)) (mf_run_id (eb_manifest b)) n fs1 = Inr c"
    using local_store.load_saved [OF assms(1,2) g(3) assms(3)] by (simp add: bundle_key_def)
  then show ?thesis
    by (auto simp: local_load_artefact_def Let_def local_key [OF g] saved_dir [OF assms(1,2)] files_of_def split: option.splits)
qed

lemma built_artefacts:
  assumes "build_run_evidence C e i out ms d v = Inr b"
  shows "map fst (eb_artefacts b) = [''experiment.json'', ''dataset_manifest.json'', ''results.json'', ''metrics.json'', ''manifest.json'']"
    and "mf_artefact_paths (eb_manifest b) = evidence_artefact_paths"
proof -
  show "map fst (eb_artefacts b) = [''experiment.json'', ''dataset_manifest.json'', ''results.json'', ''metrics.json'', ''manifest.json'']"
    using assms by (fastforce simp: build_run_evidence_def Let_def res_simps split: option.splits)
  show "mf_artefact_paths (eb_manifest b) = evidence_artefact_paths"
    using assms by (auto simp: build_run_evidence_def Let_def res_simps manifest_with_def split: option.splits dest!: validate_manifest_id)
qed

lemma paths_in: "p \<in> fst ` set files \<longleftrightarrow> files_of files p \<noteq> None"
  by (auto simp: files_of_def tbl_get_None)

lemma evidence_paths_eq:
  "evidence_artefact_paths = [(''experiment'', PyPath [] [''experiment.json'']), (''dataset_manifest'', PyPath [] [''dataset_manifest.json'']),
     (''results'', PyPath [] [''results.json'']), (''metrics'', PyPath [] [''metrics.json''])]"
  by (simp add: evidence_artefact_paths_def path_of_string_good good_part_def)

text \<open>
  C29. What \<open>verify-evidence\<close> covers. The evidence of a run verifies after it was saved, and it still verifies
  whatever is written over the experiment, the dataset manifest, the results and the metrics of the run, as long as the
  files are there and \<open>manifest.json\<close> is left alone: the digest covers the manifest only. A manifest that is replaced
  is rejected exactly if it does not match its own digest, the directory or the files.
\<close>

theorem verification_scope:
  assumes "dump_excludes_digest (ce_codec V)" and "build_run_evidence (ce_codec V) e i out ms d v = Inr b"
    and "cd_manifest_of (ce_codec V) (cd_manifest_text (ce_codec V) (eb_manifest b)) = Inr (eb_manifest b)"
    and "local_save_run_evidence base b fs = Inr (dir, fs1)" and "fst ` set fs1 \<subseteq> fst ` set (cli_files w)"
  shows "(files_of (cli_files w) (path_join dir ''manifest.json'') = files_of fs1 (path_join dir ''manifest.json'')
      \<longrightarrow> fst (verify_evidence V dir w) = Inr True)
    \<and> (\<forall>m. local_load_manifest (ce_codec V) base (mf_experiment_id (eb_manifest b)) (mf_run_id (eb_manifest b)) (cli_files w) = Inr m
      \<longrightarrow> fst (verify_evidence V dir w) = Inr (mf_experiment_id m = mf_experiment_id (eb_manifest b) \<and> mf_run_id m = mf_run_id (eb_manifest b)
        \<and> missing_artefacts dir m (cli_files w) = [] \<and> verify_manifest_integrity (ce_codec V) m))"
proof -
  let ?C = "ce_codec V" and ?m = "eb_manifest b" and ?fs = "cli_files w"
  let ?e = "mf_experiment_id ?m" and ?r = "mf_run_id ?m"
  note good = built_bundle_good [OF assms(2)]
  have g: "good_part ?e" "good_part ?r" "good_part ''manifest.json''" using good by (auto simp: good_bundle_def) (simp add: good_part_def)
  have mj: "map_of (eb_artefacts b) ''manifest.json'' = Some (cd_manifest_text ?C ?m)" and ok: "verify_manifest_integrity ?C ?m"
    using build_run_evidence_Inr [OF assms(1,2)] by auto
  note dir = saved_dir [OF good assms(4)]
  have there: "files_of ?fs (PyPath (path_root dir) (path_parts dir @ [n])) \<noteq> None" if "n \<in> fst ` set (eb_artefacts b)" for n
  proof -
    obtain c where "map_of (eb_artefacts b) n = Some c" using \<open>n \<in> _\<close> by (metis map_of_eq_None_iff not_None_eq)
    then have "PyPath (path_root dir) (path_parts dir @ [n]) \<in> fst ` set fs1"
      using saved_artefact [OF good assms(4)] unfolding paths_in by simp
    from subsetD [OF assms(5) this] show ?thesis unfolding paths_in .
  qed
  have names: "{''experiment.json'', ''dataset_manifest.json'', ''results.json'', ''metrics.json'', ''manifest.json''} \<subseteq> fst ` set (eb_artefacts b)"
    using arg_cong [OF built_artefacts(1) [OF assms(2)], of set] by simp
  have occ: "dir_occupied dir ?fs"
    using there [of "''manifest.json''"] names unfolding dir
    by (intro local_occupied [of _ _ _ "''manifest.json''"]) (auto simp: files_of_def)
  have parts: "path_parent (path_parent dir) = base" "path_name (path_parent dir) = ?e" "path_name dir = ?r"
    by (cases base; simp add: dir path_parent_def path_name_def butlast_append)+
  have replaced: "fst (verify_evidence V dir w) = Inr (mf_experiment_id m = ?e \<and> mf_run_id m = ?r
        \<and> missing_artefacts dir m ?fs = [] \<and> verify_manifest_integrity ?C m)"
    if "local_load_manifest ?C base ?e ?r ?fs = Inr m" for m
    using verify_evidence_eq [OF occ, of V m] that unfolding parts by simp
  have "missing_artefacts dir ?m ?fs = []"
    unfolding missing_artefacts_present built_artefacts(2) [OF assms(2)] evidence_paths_eq paths_in
    using there names by (simp add: path_under_def)
  moreover have "local_load_manifest ?C base ?e ?r ?fs = Inr ?m"
    if "files_of ?fs (path_join dir ''manifest.json'') = files_of fs1 (path_join dir ''manifest.json'')"
  proof -
    have "files_of ?fs (PyPath (path_root base) (path_parts base @ [?e, ?r, ''manifest.json''])) = Some (cd_manifest_text ?C ?m)"
      using that saved_artefact [OF good assms(4) mj] g(3) by (simp add: path_join_good dir)
    then show ?thesis using assms(3)
      by (auto simp: local_load_manifest_def local_load_artefact_def Let_def local_key [OF g] files_of_def split: option.splits)
  qed
  ultimately show ?thesis using replaced ok by auto
qed

section \<open>An example\<close>

definition demo_cli :: cli_env where
  "demo_cli = \<lparr>ce_codec = demo_codec, ce_discovery = demo_discovery, ce_run = demo_env, ce_clock = 0, ce_cwd = PyPath ''/'' [], ce_stamp = 0\<rparr>"

definition demo_files :: "file_tree \<Rightarrow> cli_state" where
  "demo_files fs = \<lparr>cli_files = fs, cli_run = demo_world, cli_out = []\<rparr>"

text \<open>The results of a saved run are emptied, and the run still verifies.\<close>

theorem verification_scope_witness:
  "\<exists>b dir fs1. build_run_evidence demo_codec (demo_experiment AS_APPROVED) ''T'' demo_outcome (demo_metrics ''RUN-002'' 1) demo_decision ''1.0.0'' = Inr b
     \<and> local_save_run_evidence (PyPath [] [''results'']) b [] = Inr (dir, fs1)
     \<and> fst (verify_evidence demo_cli dir (demo_files (tbl_upsert fst (path_join dir ''results.json'', []) fs1))) = Inr True"
proof -
  obtain b where b: "build_run_evidence demo_codec (demo_experiment AS_APPROVED) ''T'' demo_outcome (demo_metrics ''RUN-002'' 1)
      demo_decision ''1.0.0'' = Inr b" and m: "eb_manifest b = demo_manifest"
    using demo_build by blast
  obtain dir fs1 where s: "local_save_run_evidence (PyPath [] [''results'']) b [] = Inr (dir, fs1)"
    by (simp add: local_save_run_evidence_def Let_def dir_occupied_def)
  let ?fs = "tbl_upsert fst (path_join dir ''results.json'', []) fs1"
  have ex: "dump_excludes_digest (ce_codec demo_cli)" by (simp add: dump_excludes_digest_def demo_codec_def demo_cli_def)
  have rt: "cd_manifest_of (ce_codec demo_cli) (cd_manifest_text (ce_codec demo_cli) (eb_manifest b)) = Inr (eb_manifest b)"
    by (simp add: demo_cli_def demo_codec_def m)
  have sub: "fst ` set fs1 \<subseteq> fst ` set (cli_files (demo_files ?fs))"
  proof
    fix p assume "p \<in> fst ` set fs1"
    then show "p \<in> fst ` set (cli_files (demo_files ?fs))"
      unfolding paths_in by (simp add: demo_files_def files_of_def tbl_get_upsert)
  qed
  have "files_of (cli_files (demo_files ?fs)) (path_join dir ''manifest.json'') = files_of fs1 (path_join dir ''manifest.json'')"
    by (simp add: demo_files_def files_of_def tbl_get_upsert path_join_good good_part_def)
  then show ?thesis
    using verification_scope [OF ex _ rt s sub] b s by (auto simp: demo_cli_def)
qed

end
