(* ===== verification/Exports.thy ===== *)
theory Exports
  imports Worker
begin

text \<open>
  The export of a comparison for a LaTeX document (\<open>exports/overleaf_exporter.py\<close>): a CSV file, a table and a
  summary with every text escaped. Beside it a reader of CSV (RFC 4180) and a reader of escaped LaTeX text, against
  which the export is checked.
\<close>

section \<open>The exporter\<close>

definition METRIC_ROWS :: "(string \<times> (experiment_metrics \<Rightarrow> float64)) list" where
  "METRIC_ROWS =
     [(''Processing success rate'', em_processing_success_rate), (''Block rate'', em_block_rate),
      (''Valid acceptance rate'', em_valid_acceptance_rate), (''False positive rate'', em_false_positive_rate),
      (''False negative rate'', em_false_negative_rate), (''Parser reach rate'', em_parser_reach_rate),
      (''Mean latency (ms)'', em_mean_latency_ms), (''Log completeness rate'', em_log_completeness_rate)]"

definition BS :: char where "BS = CHR 0x5C"
definition DQ :: char where "DQ = CHR 0x22"
definition CR :: char where "CR = CHR 0x0D"
definition LF :: char where "LF = CHR 0x0A"

definition LATEX_ESCAPES :: "(char \<times> string) list" where
  "LATEX_ESCAPES =
     [(BS, BS # ''textbackslash{}''), (CHR ''&'', BS # ''&''), (CHR ''%'', BS # ''%''), (CHR ''$'', BS # ''$''), (CHR ''#'', BS # ''#''),
      (CHR ''_'', BS # ''_''), (CHR ''{'', BS # ''{''), (CHR ''}'', BS # ''}''), (CHR ''~'', BS # ''textasciitilde{}''),
      (CHR ''^'', BS # ''textasciicircum{}'')]"

text \<open>\<open>text.replace(char, replacement)\<close> for a single character.\<close>

definition replace_char :: "char \<Rightarrow> string \<Rightarrow> string \<Rightarrow> string" where
  "replace_char c r s = concat (map (\<lambda>x. if x = c then r else [x]) s)"

definition escape_latex :: "string \<Rightarrow> string" where
  "escape_latex s = fold (\<lambda>(c, r) t. replace_char c r t) LATEX_ESCAPES s"

definition metric_rows :: "comparison_report \<Rightarrow> (string \<times> float64 \<times> float64 \<times> float64) list" where
  "metric_rows report =
     map (\<lambda>(label, f). let b = f (cp_baseline_metrics report); m = f (cp_mitigation_metrics report) in (label, b, m, fl (m - b))) METRIC_ROWS"

text \<open>\<open>csv.writer\<close> with its defaults: minimal quoting, rows ended by CR LF.\<close>

definition csv_special :: "char \<Rightarrow> bool" where
  "csv_special c \<longleftrightarrow> c = CHR '','' \<or> c = DQ \<or> c = CR \<or> c = LF"

definition csv_field :: "string \<Rightarrow> string" where
  "csv_field s = (if list_ex csv_special s then DQ # replace_char DQ [DQ, DQ] s @ [DQ] else s)"

definition csv_row :: "string list \<Rightarrow> string" where
  "csv_row fs = (if fs = [[]] then [DQ, DQ] else str_join '','' (map csv_field fs)) @ [CR, LF]"

definition csv_table :: "comparison_report \<Rightarrow> string list list" where
  "csv_table report = [''metric'', ''baseline'', ''mitigation'', ''difference'']
     # map (\<lambda>(label, b, m, d). [label, fmt_fixed 6 b, fmt_fixed 6 m, fmt_fixed 6 d]) (metric_rows report)"

definition export_comparison_csv :: "comparison_report \<Rightarrow> string" where
  "export_comparison_csv report = concat (map csv_row (csv_table report))"

definition export_metrics_tex :: "comparison_report \<Rightarrow> string" where
  "export_metrics_tex report = str_join [LF] (
     [''% Auto-generated by ZeroShield - factual metrics only, do not edit by hand.'',
      ''% Experiment: '' @ escape_latex (cp_experiment_id report),
      BS # ''begin{tabular}{lrrr}'', BS # ''hline'',
      ''Metric & Baseline & Mitigation & Difference '' @ [BS, BS], BS # ''hline'']
     @ map (\<lambda>(label, b, m, d). escape_latex label @ '' & '' @ fmt_fixed 3 b @ '' & '' @ fmt_fixed 3 m @ '' & '' @ fmt_fixed 3 d @ '' '' @ [BS, BS])
         (metric_rows report)
     @ [BS # ''hline'', BS # ''end{tabular}'']) @ [LF]"

definition percent_text :: "float64 \<Rightarrow> string" where
  "percent_text x = fmt_fixed 1 (fl (x * 100))"

definition factual_summary :: "comparison_report \<Rightarrow> experiment_definition \<Rightarrow> string" where
  "factual_summary report e =
     (let cve_ids = str_join '', '' (map cve_cve_id (ed_related_cves e)); bm = cp_baseline_metrics report; mm = cp_mitigation_metrics report;
          pc = BS # ''%'' in
      ''In a controlled synthetic ZeroShield experiment ('' @ escape_latex (cp_experiment_id report) @ '', ''
      @ str_int (cp_total_cases report) @ '' test cases, dataset derived from '' @ escape_latex cve_ids @ ''), the ''
      @ ''baseline strategy ('' @ escape_latex (ed_baseline_strategy e) @ '') blocked ''
      @ percent_text (em_block_rate bm) @ pc @ '' of cases expected to be blocked, while the mitigation ''
      @ ''strategy ('' @ escape_latex (ed_mitigation_strategy e) @ '') blocked ''
      @ percent_text (em_block_rate mm) @ pc @ '' of the same cases (a measured difference of ''
      @ percent_text (cp_block_rate_improvement report) @ '' percentage points). The baseline accepted ''
      @ percent_text (em_valid_acceptance_rate bm) @ pc @ '' of cases expected to be accepted, and the mitigation ''
      @ ''accepted '' @ percent_text (em_valid_acceptance_rate mm) @ pc @ ''. The measured mean-latency overhead of the ''
      @ ''mitigation relative to the baseline was '' @ fmt_fixed 3 (cp_latency_overhead_ms report) @ '' ms.'')"

definition export_factual_summary_tex :: "comparison_report \<Rightarrow> experiment_definition \<Rightarrow> string" where
  "export_factual_summary_tex report e = str_join [LF]
     [''% Auto-generated by ZeroShield - factual run outputs only, do not edit by hand.'',
      ''% Experiment: '' @ escape_latex (cp_experiment_id report), [], factual_summary report e, [],
      BS # ''textbf{Limitations:}'', str_join '' '' (map escape_latex (cp_limitations report))] @ [LF]"

definition save_overleaf_export :: "pypath \<Rightarrow> comparison_report \<Rightarrow> experiment_definition \<Rightarrow> file_tree \<Rightarrow> pypath \<times> file_tree" where
  "save_overleaf_export base report e fs =
     (let export_dir = path_join base (cp_experiment_id report);
          fs1 = tbl_upsert fst (path_join export_dir ''comparison.csv'', export_comparison_csv report) fs;
          fs2 = tbl_upsert fst (path_join export_dir ''metrics.tex'', export_metrics_tex report) fs1;
          fs3 = tbl_upsert fst (path_join export_dir ''factual_summary.tex'', export_factual_summary_tex report e) fs2 in
      (export_dir, fs3))"

section \<open>Reading CSV\<close>

fun csv_quoted :: "string \<Rightarrow> string \<times> string" where
  "csv_quoted [] = ([], [])"
| "csv_quoted (c # s) =
     (if c \<noteq> DQ then apfst (Cons c) (csv_quoted s)
      else case s of d # t \<Rightarrow> if d = DQ then apfst (Cons DQ) (csv_quoted t) else ([], s) | [] \<Rightarrow> ([], []))"

definition csv_cell :: "string \<Rightarrow> string \<times> string" where
  "csv_cell s = (case s of c # t \<Rightarrow> if c = DQ then csv_quoted t else (takeWhile (Not \<circ> csv_special) s, dropWhile (Not \<circ> csv_special) s)
     | [] \<Rightarrow> ([], []))"

lemma csv_quoted_shrinks: "length (snd (csv_quoted s)) \<le> length s"
proof (induction s rule: csv_quoted.induct)
  case (2 c s)
  show ?case
  proof (cases "c = DQ")
    case True
    then show ?thesis using 2(2) [of "hd s" "tl s"] by (cases s) (auto simp: le_SucI)
  next
    case False
    then show ?thesis using 2(1) by simp
  qed
qed simp

lemma csv_cell_shrinks: "length (snd (csv_cell s)) \<le> length s"
  using csv_quoted_shrinks by (auto simp: csv_cell_def length_dropWhile_le le_SucI split: list.split)

function csv_line :: "string \<Rightarrow> string list \<times> string" where
  "csv_line s = (case csv_cell s of (f, r) \<Rightarrow>
     case r of c # t \<Rightarrow> if c = CHR '','' then apfst (Cons f) (csv_line t) else ([f], drop 1 t) | [] \<Rightarrow> ([f], []))"
  by auto
termination
proof (relation "measure length")
  fix s f r and c :: char and t assume "(f, r) = csv_cell s" "r = c # t"
  then show "(t, s) \<in> measure length" using csv_cell_shrinks [of s] by (cases "csv_cell s") auto
qed simp

declare csv_line.simps [simp del]

lemma csv_line_shrinks: "length (snd (csv_line s)) \<le> length s - 1"
proof (induction s rule: csv_line.induct)
  case (1 s)
  then show ?case using csv_cell_shrinks [of s]
    by (subst csv_line.simps) (fastforce split: prod.split list.split)
qed

function csv_read :: "string \<Rightarrow> string list list" where
  "csv_read s = (if s = [] then [] else case csv_line s of (row, t) \<Rightarrow> row # csv_read t)"
  by auto
termination
proof (relation "measure length")
  fix s row t assume "s \<noteq> []" "(row, t) = csv_line s"
  then show "(t, s) \<in> measure length" using csv_line_shrinks [of s] by (cases "csv_line s") (cases s, auto)
qed simp

declare csv_read.simps [simp del]

lemma csv_quoted_written: "t = [] \<or> hd t \<noteq> DQ \<Longrightarrow> csv_quoted (replace_char DQ [DQ, DQ] s @ DQ # t) = (s, t)"
  by (induction s) (auto simp: replace_char_def split: list.split)

lemma csv_cell_written:
  assumes "t \<noteq> []" and "csv_special (hd t)" and "hd t \<noteq> DQ"
  shows "csv_cell (csv_field s @ t) = (s, t)"
proof (cases "list_ex csv_special s")
  case True
  then show ?thesis using assms by (simp add: csv_field_def csv_cell_def csv_quoted_written)
next
  case False
  then have plain: "\<forall>c \<in> set s. (Not \<circ> csv_special) c" by (simp add: list_ex_iff)
  have "takeWhile (Not \<circ> csv_special) (s @ t) = s" "dropWhile (Not \<circ> csv_special) (s @ t) = t"
    using assms plain by (cases t; simp)+
  moreover have "\<not> (\<exists>u. s @ t = DQ # u)"
    using assms plain by (cases s; cases t) (auto simp: csv_special_def)
  ultimately show ?thesis using False assms by (auto simp: csv_field_def csv_cell_def split: list.split)
qed

lemma csv_line_written: "csv_line (str_join '','' (map csv_field (f # fs)) @ CR # LF # t) = (f # fs, t)"
proof (induction fs arbitrary: f)
  case Nil
  have "csv_cell (csv_field f @ CR # LF # t) = (f, CR # LF # t)" by (rule csv_cell_written) (simp_all add: csv_special_def CR_def DQ_def)
  then show ?case by (simp add: csv_line.simps CR_def)
next
  case (Cons g fs)
  have "csv_cell (csv_field f @ CHR '','' # (str_join '','' (map csv_field (g # fs)) @ CR # LF # t))
      = (f, CHR '','' # (str_join '','' (map csv_field (g # fs)) @ CR # LF # t))"
    by (rule csv_cell_written) (simp_all add: csv_special_def DQ_def)
  then show ?case using Cons.IH by (subst csv_line.simps) (simp del: csv_line.simps)
qed

lemma csv_row_read: "fs \<noteq> [] \<Longrightarrow> csv_line (csv_row fs @ t) = (fs, t)"
proof (cases "fs = [[]]")
  case True
  have "csv_line (DQ # DQ # CR # LF # t) = ([[]], t)" by (simp add: csv_line.simps csv_cell_def DQ_def CR_def)
  then show ?thesis using True by (simp add: csv_row_def)
next
  case False
  assume "fs \<noteq> []"
  then obtain f gs where "fs = f # gs" by (cases fs) auto
  then show ?thesis using False csv_line_written [of f gs t] by (auto simp: csv_row_def)
qed

lemma csv_read_written: "[] \<notin> set rows \<Longrightarrow> csv_read (concat (map csv_row rows)) = rows"
proof (induction rows)
  case Nil
  then show ?case by (simp add: csv_read.simps)
next
  case (Cons r rows)
  then have "r \<noteq> []" "csv_row r \<noteq> []" by (auto simp: csv_row_def)
  then show ?case using Cons csv_row_read [of r "concat (map csv_row rows)"] by (subst csv_read.simps) simp
qed

section \<open>Reading escaped text\<close>

text \<open>
  What TeX prints for a piece of text: \<open>None\<close> if a character in it would be taken for markup, braces print
  nothing, a backslash starts the name of one of the three symbols or stands before the character to print.
\<close>

fun latex_print :: "string \<Rightarrow> string option" where
  "latex_print [] = Some []"
| "latex_print (c # s) =
     (if c = BS then
        (if prefix ''textbackslash'' s then map_option (Cons BS) (latex_print (drop 13 s))
         else if prefix ''textasciitilde'' s then map_option (Cons (CHR ''~'')) (latex_print (drop 14 s))
         else if prefix ''textasciicircum'' s then map_option (Cons (CHR ''^'')) (latex_print (drop 15 s))
         else case s of [] \<Rightarrow> None | x # t \<Rightarrow> map_option (Cons x) (latex_print t))
      else if c \<in> set ''{}'' then latex_print s
      else if c \<in> set ''&%$#_~^'' then None
      else map_option (Cons c) (latex_print s))"

definition latex_char :: "char \<Rightarrow> string" where
  "latex_char c = (if c = BS then BS # ''textbackslash'' @ [BS, CHR ''{'', BS, CHR ''}'']
     else case map_of LATEX_ESCAPES c of None \<Rightarrow> [c] | Some r \<Rightarrow> r)"

lemma replace_char_append: "replace_char c r (s @ t) = replace_char c r s @ replace_char c r t"
  by (simp add: replace_char_def)

lemma escape_latex_append: "escape_latex (s @ t) = escape_latex s @ escape_latex t"
  by (simp add: escape_latex_def LATEX_ESCAPES_def replace_char_append)

lemma escape_latex_char: "escape_latex [c] = latex_char c"
  by (simp add: escape_latex_def LATEX_ESCAPES_def replace_char_def latex_char_def BS_def)

lemma escape_latex_chars: "escape_latex s = concat (map latex_char s)"
proof (induction s)
  case Nil
  show ?case by (simp add: escape_latex_def LATEX_ESCAPES_def replace_char_def)
next
  case (Cons c s)
  then show ?case using escape_latex_append [of "[c]" s] by (simp add: escape_latex_char)
qed

declare latex_print.simps(2) [simp del]

lemma latex_print_plain: "c \<notin> set (BS # ''{}&%$#_~^'') \<Longrightarrow> latex_print (c # t) = map_option (Cons c) (latex_print t)"
  by (subst latex_print.simps(2)) simp

lemma latex_print_brace: "c \<in> set ''{}'' \<Longrightarrow> latex_print (c # t) = latex_print t"
  by (subst latex_print.simps(2)) (auto simp: BS_def)

lemma latex_print_symbol: "x \<noteq> CHR ''t'' \<Longrightarrow> latex_print (BS # x # t) = map_option (Cons x) (latex_print t)"
  by (subst latex_print.simps(2)) simp

lemma latex_print_word:
  "latex_print (BS # ''textbackslash'' @ t) = map_option (Cons BS) (latex_print t)"
  "latex_print (BS # ''textasciitilde'' @ t) = map_option (Cons (CHR ''~'')) (latex_print t)"
  "latex_print (BS # ''textasciicircum'' @ t) = map_option (Cons (CHR ''^'')) (latex_print t)"
  by (subst latex_print.simps(2), simp)+

definition latex_symbols :: string where "latex_symbols = ''&%$#_{}''"

lemma latex_char_cases:
  "latex_char BS = BS # ''textbackslash'' @ [BS, CHR ''{'', BS, CHR ''}'']"
  "latex_char (CHR ''~'') = BS # ''textasciitilde'' @ ''{}''"
  "latex_char (CHR ''^'') = BS # ''textasciicircum'' @ ''{}''"
  "c \<in> set latex_symbols \<Longrightarrow> latex_char c = [BS, c]"
  "c \<notin> set (BS # ''~^'' @ latex_symbols) \<Longrightarrow> latex_char c = [c]"
  by (auto simp: latex_char_def LATEX_ESCAPES_def BS_def latex_symbols_def)

lemma latex_print_char:
  "latex_print (latex_char c @ t) = map_option ((@) (if c = BS then BS # ''{}'' else [c])) (latex_print t)"
proof -
  consider "c = BS" | "c = CHR ''~''" | "c = CHR ''^''" | "c \<in> set latex_symbols" | "c \<notin> set (BS # ''~^'' @ latex_symbols)" by auto
  then show ?thesis
  proof cases
    case 1
    have "latex_print (BS # ''textbackslash'' @ BS # CHR ''{'' # BS # CHR ''}'' # t) = map_option ((@) (BS # ''{}'')) (latex_print t)"
      by (simp only: latex_print_word latex_print_symbol) (cases "latex_print t"; simp add: latex_print_symbol)
    with 1 show ?thesis by (simp add: latex_char_cases)
  next
    case 2
    have "latex_print (BS # ''textasciitilde'' @ CHR ''{'' # CHR ''}'' # t) = map_option (Cons c) (latex_print t)"
      by (simp only: latex_print_word) (simp add: latex_print_brace 2)
    with 2 show ?thesis by (cases "latex_print t") (simp_all add: latex_char_cases BS_def)
  next
    case 3
    have "latex_print (BS # ''textasciicircum'' @ CHR ''{'' # CHR ''}'' # t) = map_option (Cons c) (latex_print t)"
      by (simp only: latex_print_word) (simp add: latex_print_brace 3)
    with 3 show ?thesis by (cases "latex_print t") (simp_all add: latex_char_cases BS_def)
  next
    case 4
    then have "c \<noteq> BS" "c \<noteq> CHR ''t''" by (auto simp: latex_symbols_def BS_def)
    with 4 show ?thesis by (cases "latex_print t") (simp_all add: latex_char_cases latex_print_symbol)
  next
    case 5
    then show ?thesis by (cases "latex_print t") (simp_all add: latex_char_cases latex_print_plain latex_symbols_def)
  qed
qed

text \<open>
  The exported texts print what was meant, but for the backslash: an escaped text contains nothing that LaTeX
  would take for markup and prints as the text itself, except that every backslash prints with an opening and a closing
  brace after it, since the braces of its replacement are escaped in turn.
\<close>

lemma escaped_text_prints:
  "latex_print (escape_latex s) = Some (concat (map (\<lambda>c. if c = BS then BS # ''{}'' else [c]) s))"
  unfolding escape_latex_chars by (induction s) (simp_all add: latex_print_char)

section \<open>What an export leaves\<close>



end
