(* ===== verification/Dashboard.thy ===== *)
theory Dashboard
  imports Command_Line Exports
begin

text \<open>
  The legacy dashboard (\<open>dashboard/app.py\<close>), a script that Streamlit runs from top to bottom for every interaction. A run
  of it reads files and puts widgets on the page, in order; what the user has selected and whether the export button was
  pressed are parameters, and so is the moment. The state is the file tree and the page. A page that an exception ends keeps
  the widgets before it.
\<close>

section \<open>The page\<close>

datatype widget =
    Title string
  | Subheader string
  | Markdown string
  | Caption string
  | BadgeText string string
  | WarningBox string
  | InfoBox string
  | SuccessBox string
  | ErrorBox string
  | Divider
  | Expander string
  | MetricBox string string
  | DataFrame "pydict list"
  | BarChart "(string \<times> pydict) list"
  | JsonDict pydict
  | JsonResult case_result
  | JsonText string
  | CodeBlock string
  | Tab string
  | Column nat

record dash_state =
  da_files :: file_tree
  da_page :: "widget list"

record dash_env =
  dv_codec :: codec
  dv_discovery :: discovery_env
  dv_run :: run_env
  dv_reader :: "file_tree evidence_reader"
  dv_now :: datetime
  dv_cwd :: pypath

text \<open>The selections: an index into the options, which the widget keeps within them.\<close>

record dash_choices =
  dc_experiment :: nat
  dc_context :: nat
  dc_case :: nat
  dc_artefact :: "string \<Rightarrow> nat"
  dc_export :: bool

type_synonym 'a dash_m = "(dash_state, exn, 'a) eff"

definition display :: "widget \<Rightarrow> unit dash_m" where
  "display x = modifyE (\<lambda>w. w\<lparr>da_page := da_page w @ [x]\<rparr>)"

definition display_all :: "widget list \<Rightarrow> unit dash_m" where
  "display_all xs = modifyE (\<lambda>w. w\<lparr>da_page := da_page w @ xs\<rparr>)"

definition pick :: "'a list \<Rightarrow> nat \<Rightarrow> 'a option" where
  "pick options i = (if options = [] then None else Some (options ! min i (length options - 1)))"

definition EM_DASH :: string where "EM_DASH = [CHR 0xE2, CHR 0x80, CHR 0x94]"
definition ARROW :: string where "ARROW = [CHR 0xE2, CHR 0x86, CHR 0x92]"
definition CHECK_MARK :: string where "CHECK_MARK = [CHR 0xE2, CHR 0x9C, CHR 0x85]"
definition CROSS_MARK :: string where "CROSS_MARK = [CHR 0xE2, CHR 0x9D, CHR 0x8C]"
definition SHIELD :: string where
  "SHIELD = [CHR 0xF0, CHR 0x9F, CHR 0x9B, CHR 0xA1, CHR 0xEF, CHR 0xB8, CHR 0x8F]"

definition EXPERIMENTS_DIR :: "dash_env \<Rightarrow> pypath" where "EXPERIMENTS_DIR V = path_join (dv_cwd V) ''experiments''"
definition RESULTS_ROOT :: "dash_env \<Rightarrow> pypath" where "RESULTS_ROOT V = path_join (dv_cwd V) ''results''"
definition OVERLEAF_EXPORT_ROOT :: "dash_env \<Rightarrow> pypath" where "OVERLEAF_EXPORT_ROOT V = path_join (dv_cwd V) ''overleaf_exports''"

section \<open>Overview and experiment\<close>

definition domain_badge :: "domain \<Rightarrow> widget" where
  "domain_badge d = (if d = VPN then BadgeText ''VPN'' ''blue'' else BadgeText ''TELECOM'' ''violet'')"

definition render_overview :: "unit dash_m" where
  "render_overview = display_all
     [Title ''ZeroShield'',
      Subheader ''A Sandbox-Based Validation Framework for Zero-Click Vulnerability Mitigations'',
      Markdown (''ZeroShield turns curated zero-click CVE research into controlled, reproducible, ''
        @ ''**synthetic** experiments that measure whether a candidate mitigation changes ''
        @ ''defensive behaviour compared to a deliberately weak baseline, over the same dataset.''),
      Markdown ''#### Pipeline'',
      Markdown ''Research &rarr; Experiment &rarr; Baseline &rarr; Mitigation &rarr; Comparison &rarr; Evidence'',
      WarningBox (''**Phase 1 uses synthetic experiments only.** ZeroShield does not reproduce real vendor ''
        @ ''exploits, does not target real systems or vendor products, and does not process real ''
        @ ''attacker traffic.'')]"

fun category_value :: "test_case_category \<Rightarrow> string" where
  "category_value TC_VALID = ''valid''"
| "category_value TC_MALFORMED = ''malformed''"
| "category_value TC_BOUNDARY = ''boundary''"

fun decision_value :: "decision \<Rightarrow> string" where
  "decision_value ACCEPTED = ''accepted''"
| "decision_value BLOCKED = ''blocked''"

definition score_cell :: "float64 option \<Rightarrow> pyval" where
  "score_cell x = (case x of None \<Rightarrow> PNone | Some s \<Rightarrow> PFloat s)"

definition cve_row :: "cve_reference \<Rightarrow> pydict" where
  "cve_row cve = [(''CVE'', PStr (cve_cve_id cve)), (''CVSS'', score_cell (cve_cvss_score cve)), (''CISA KEV'', PBool (cve_cisa_kev cve)),
     (''EPSS'', score_cell (cve_epss_score cve)), (''Trust boundary'', PStr (cve_trust_boundary cve))]"

definition render_experiment_details :: "experiment_definition \<Rightarrow> unit dash_m" where
  "render_experiment_details e = display_all
     [Subheader (ed_experiment_id e @ '' '' @ EM_DASH @ '' '' @ ed_title e),
      domain_badge (ed_domain e),
      Caption (ed_description e),
      Column 1,
      Markdown (''**Root cause:** '' @ root_cause_value (ed_root_cause e)),
      Markdown (''**Failure pattern:** '' @ ed_failure_pattern e),
      Markdown (''**Vendor mitigation:** '' @ ed_vendor_mitigation e),
      Markdown (''**Mitigation gap:** '' @ ed_mitigation_gap e),
      Column 2,
      Markdown (''**Safety level:** '' @ safety_level_value (ed_safety_level e)),
      Markdown (''**Approval status:** `'' @ approval_status_value (ed_approval_status e) @ ''`''),
      Markdown (''**Baseline strategy:** `'' @ ed_baseline_strategy e @ ''`''),
      Markdown (''**Mitigation strategy:** `'' @ ed_mitigation_strategy e @ ''`''),
      Markdown (''**Research question:** '' @ ed_research_question e),
      Markdown (''**Hypothesis:** '' @ ed_hypothesis e),
      Markdown ''**Related CVEs**'',
      DataFrame (map cve_row (ed_related_cves e))]"

section \<open>Safety status\<close>

definition CONTEXT_OPTIONS :: "execution_context list" where "CONTEXT_OPTIONS = [EXPERIMENT_RUN, LOCAL_UNIT_TEST]"

definition chosen_context :: "dash_choices \<Rightarrow> execution_context" where
  "chosen_context ch = the (pick CONTEXT_OPTIONS (dc_context ch))"

definition render_safety_and_run :: "dash_env \<Rightarrow> dash_choices \<Rightarrow> experiment_definition \<Rightarrow> unit dash_m" where
  "render_safety_and_run V ch e =
     bindE (display (Markdown ''#### Safety status'')) (\<lambda>_.
     let context_label = chosen_context ch in
     bindE (if context_label = LOCAL_UNIT_TEST
       then display (Caption (''local_unit_test only relaxes the approval-status check (SAFE-004) for local ''
         @ ''demonstration of draft experiments. All other safety rules still apply and ''
         @ ''approval status is never changed automatically.''))
       else returnE ()) (\<lambda>_.
     bindE (liftE (check_safety e context_label (dv_now V))) (\<lambda>(decision, _).
     bindE (if pd_allowed decision then display (SuccessBox ''Safety Policy: PASSED'')
       else display_all (ErrorBox ''Safety Policy: DENIED'' # map (\<lambda>reason. Markdown (''- '' @ reason)) (pd_reasons decision))) (\<lambda>_.
     display_all [Markdown ''#### Run experiment'',
       InfoBox (''Run execution has moved to the ZeroShield web application (Experiment Studio / Experiments), so every ''
         @ ''run goes through the same approval-gated, queued path and can't bypass it from here. This dashboard is ''
         @ ''read-only for run submission - browse existing results/evidence below instead.'')]))))"

section \<open>Results\<close>

definition METRIC_LABELS :: "(string \<times> string \<times> (experiment_metrics \<Rightarrow> float64)) list" where
  "METRIC_LABELS =
     [(''processing_success_rate'', ''Processing success'', em_processing_success_rate),
      (''block_rate'', ''Block rate (cases expected to be blocked)'', em_block_rate),
      (''valid_acceptance_rate'', ''Valid acceptance rate'', em_valid_acceptance_rate),
      (''false_positive_rate'', ''False-positive rate'', em_false_positive_rate),
      (''false_negative_rate'', ''False-negative rate'', em_false_negative_rate),
      (''parser_reach_rate'', ''Parser exposure rate'', em_parser_reach_rate),
      (''mean_latency_ms'', ''Mean latency (ms)'', em_mean_latency_ms),
      (''log_completeness_rate'', ''Log completeness rate'', em_log_completeness_rate)]"

text \<open>\<open>f"{x:.n%}"\<close> and the sign of \<open>f"{x:+...}"\<close>.\<close>

definition fmt_percent :: "nat \<Rightarrow> float64 \<Rightarrow> string" where
  "fmt_percent n x = fmt_fixed n (fl (x * 100)) @ ''%''"

definition fmt_signed :: "string \<Rightarrow> string" where
  "fmt_signed s = (case s of c # _ \<Rightarrow> if c = CHR ''-'' then s else CHR ''+'' # s | [] \<Rightarrow> ''+'')"

definition rate_text :: "float64 option \<Rightarrow> string" where
  "rate_text r = (case r of None \<Rightarrow> ''n/a'' | Some x \<Rightarrow> fmt_percent 0 x)"

definition metric_row :: "comparison_report \<Rightarrow> string \<times> string \<times> (experiment_metrics \<Rightarrow> float64) \<Rightarrow> pydict" where
  "metric_row comparison m = (case m of (_, label, f) \<Rightarrow>
     let baseline_value = f (cp_baseline_metrics comparison); mitigation_value = f (cp_mitigation_metrics comparison) in
     [(''Metric'', PStr label), (''Baseline'', PFloat baseline_value), (''Mitigation'', PFloat mitigation_value),
      (''Difference'', PFloat (fl (mitigation_value - baseline_value)))])"

definition chart_bar :: "comparison_report \<Rightarrow> string \<times> string \<times> (experiment_metrics \<Rightarrow> float64) \<Rightarrow> string \<times> pydict" where
  "chart_bar comparison m = (case m of (_, label, f) \<Rightarrow>
     (label, [(''Baseline'', PFloat (f (cp_baseline_metrics comparison))), (''Mitigation'', PFloat (f (cp_mitigation_metrics comparison)))]))"

definition render_results :: "comparison_report \<Rightarrow> case_comparison list \<Rightarrow> unit dash_m" where
  "render_results comparison case_comparisons =
     (let breakdown = summarise_case_categories case_comparisons in
      display_all (
        [Markdown (''**Total test cases:** '' @ str_int (cp_total_cases comparison)),
         MetricBox ''Valid cases'' (nat_digits (cb_valid_count breakdown)),
         MetricBox ''Malformed cases'' (nat_digits (cb_malformed_count breakdown)),
         MetricBox ''Boundary cases'' (nat_digits (cb_boundary_count breakdown))]
        @ (if cb_malformed_count breakdown \<noteq> 0
           then [MetricBox (''Malformed block rate '' @ EM_DASH @ '' baseline'') (rate_text (cb_baseline_malformed_block_rate breakdown)),
                 MetricBox (''Malformed block rate '' @ EM_DASH @ '' mitigation'') (rate_text (cb_mitigation_malformed_block_rate breakdown))]
           else [])
        @ [Markdown ''#### Baseline vs. mitigation'',
           DataFrame (map (metric_row comparison) METRIC_LABELS),
           Markdown ''#### Rate metrics (baseline vs. mitigation)'',
           BarChart (map (chart_bar comparison) (filter (\<lambda>(field, _, _). field \<noteq> ''mean_latency_ms'') METRIC_LABELS)),
           Markdown (''**Block-rate improvement:** '' @ fmt_signed (fmt_percent 1 (cp_block_rate_improvement comparison)) @ ''  '' @ NL
             @ ''**Mitigation overhead (mean latency):** '' @ fmt_signed (fmt_fixed 4 (cp_latency_overhead_ms comparison)) @ '' ms''),
           Markdown ''#### Limitations'']
        @ map (\<lambda>item. Markdown (''- '' @ item)) (cp_limitations comparison)))"

section \<open>Test cases\<close>

definition result_column :: "nat \<Rightarrow> string \<Rightarrow> case_result \<Rightarrow> widget list" where
  "result_column col side_label result =
     [Column col,
      Markdown (''**'' @ side_label @ ''**''),
      Markdown (if cr_decision result = ACCEPTED then ''Accepted'' else ''Rejected/blocked''),
      Markdown (''Parser reached: `'' @ (if cr_parser_reached result then ''True'' else ''False'') @ ''`''),
      Markdown (''Reason: '' @ (if cr_errored result then (case cr_error_message result of None \<Rightarrow> ''None'' | Some m \<Rightarrow> m)
        else ''No processing error was recorded.'')),
      Markdown ''Processing result:'',
      JsonResult result]"

definition render_case :: "case_comparison \<Rightarrow> unit dash_m" where
  "render_case c = display_all (
     (case cc_test_case c of
        Some t \<Rightarrow> [Markdown (''**Input classification:** `'' @ category_value (tc_category t) @ ''`''),
          Markdown (''**Expected outcome:** `'' @ decision_value (tc_expected_outcome t) @ ''`''),
          Expander ''Raw input data'', JsonDict (tc_input_data t)]
      | None \<Rightarrow> [InfoBox ''Original dataset could not be re-located; showing recorded results only.''])
     @ result_column 1 ''BASELINE'' (cc_baseline c) @ result_column 2 ''MITIGATION'' (cc_mitigation c))"

definition render_test_cases :: "dash_choices \<Rightarrow> case_comparison list \<Rightarrow> unit dash_m" where
  "render_test_cases ch case_comparisons =
     (case pick (sort (map cc_case_id case_comparisons)) (dc_case ch) of
        None \<Rightarrow> display (InfoBox ''No test cases available.'')
      | Some selected_id \<Rightarrow>
          (case find (\<lambda>c. cc_case_id c = selected_id) case_comparisons of
             None \<Rightarrow> raiseE (OtherError ''StopIteration'' [])
           | Some c \<Rightarrow> render_case c))"

section \<open>Evidence\<close>

text \<open>\<open>str(datetime)\<close>: the ISO format with a space.\<close>

definition datetime_str :: "datetime \<Rightarrow> string" where
  "datetime_str t = map (\<lambda>c. if c = CHR ''T'' then CHR '' '' else c) (datetime_iso t)"

definition manifest_status :: "codec \<Rightarrow> evidence_manifest \<Rightarrow> string" where
  "manifest_status C manifest = ''Manifest status: ''
     @ (if verify_manifest_integrity C manifest then CHECK_MARK @ '' integrity verified'' else CROSS_MARK @ '' integrity check FAILED'')"

definition manifest_widgets :: "codec \<Rightarrow> string \<Rightarrow> evidence_manifest \<Rightarrow> widget list" where
  "manifest_widgets C label manifest =
     [Markdown (''#### '' @ label @ '' run '' @ EM_DASH @ '' `'' @ mf_run_id manifest @ ''`''),
      Markdown (manifest_status C manifest),
      Column 1,
      Markdown (''Strategy: `'' @ mf_strategy_id manifest @ ''`''),
      Markdown (''Started: '' @ datetime_str (mf_started_at manifest)),
      Markdown (''Completed: '' @ datetime_str (mf_completed_at manifest)),
      Markdown (''Review status at run time: `'' @ approval_status_value (mf_review_status manifest) @ ''`''),
      Column 2,
      Markdown (''Dataset ID: `'' @ mf_test_set_id manifest @ ''`''),
      Markdown (''Dataset SHA-256: `'' @ mf_test_set_sha256 manifest @ ''`''),
      Markdown (''Git commit: `'' @ mf_git_commit manifest @ ''`''),
      Markdown (''Manifest SHA-256: `'' @ mf_manifest_sha256 manifest @ ''`'')]"

text \<open>Without an artefact there is nothing to select, and the look-up of the selection fails.\<close>

definition render_manifest :: "dash_env \<Rightarrow> dash_choices \<Rightarrow> pypath \<Rightarrow> string \<Rightarrow> evidence_manifest \<Rightarrow> unit dash_m" where
  "render_manifest V ch results_dir label manifest =
     bindE (display_all (manifest_widgets (dv_codec V) label manifest)) (\<lambda>_.
     let run_dir = path_join results_dir (mf_run_id manifest) in
     case pick (sort (map fst (mf_artefact_paths manifest))) (dc_artefact ch (mf_run_id manifest)) of
       None \<Rightarrow> raiseE (OtherError ''KeyError'' ''None'')
     | Some artefact_name \<Rightarrow>
         (case map_of (mf_artefact_paths manifest) artefact_name of
            None \<Rightarrow> raiseE (OtherError ''KeyError'' artefact_name)
          | Some rel \<Rightarrow>
              bindE (getE (\<lambda>w. files_of (da_files w) (path_under run_dir rel))) (\<lambda>content.
              case content of None \<Rightarrow> returnE () | Some text \<Rightarrow> display (JsonText text))))"

definition render_evidence :: "dash_env \<Rightarrow> dash_choices \<Rightarrow> evidence_view \<Rightarrow> unit dash_m" where
  "render_evidence V ch view =
     bindE (display_all ([Markdown (''**Experiment ID:** '' @ ew_experiment_id view),
       Markdown (''**Evidence location:** `'' @ path_str (ew_results_dir view) @ ''`'')]
       @ (case ew_dataset_note view of None \<Rightarrow> [] | Some note \<Rightarrow> if note = [] then [] else [InfoBox note]))) (\<lambda>_.
     bindE (render_manifest V ch (ew_results_dir view) ''Baseline'' (ew_baseline_manifest view)) (\<lambda>_.
     render_manifest V ch (ew_results_dir view) ''Mitigation'' (ew_mitigation_manifest view)))"

section \<open>Export\<close>

definition EXPORT_FILES :: "string list" where
  "EXPORT_FILES = [''comparison.csv'', ''metrics.tex'', ''factual_summary.tex'']"

definition export_now :: "dash_env \<Rightarrow> experiment_definition \<Rightarrow> comparison_report \<Rightarrow> pypath dash_m" where
  "export_now V e comparison w =
     (case save_overleaf_export (OVERLEAF_EXPORT_ROOT V) comparison e (da_files w) of (d, fs) \<Rightarrow> (Inr d, w\<lparr>da_files := fs\<rparr>))"

definition show_file :: "pypath \<Rightarrow> string \<Rightarrow> unit dash_m" where
  "show_file export_dir filename =
     bindE (getE (\<lambda>w. files_of (da_files w) (path_join export_dir filename))) (\<lambda>content.
     case content of None \<Rightarrow> returnE () | Some text \<Rightarrow> display_all [Expander filename, CodeBlock text])"

definition render_overleaf_export :: "dash_env \<Rightarrow> dash_choices \<Rightarrow> experiment_definition \<Rightarrow> comparison_report \<Rightarrow> unit dash_m" where
  "render_overleaf_export V ch e comparison =
     bindE (display_all
       [Markdown (''Generates a factual, auto-generated CSV/LaTeX export of this run's comparison for ''
          @ ''manual researcher review. ZeroShield never writes to or modifies the shared ''
          @ ''collaborative Overleaf document directly.''),
        CodeBlock (''ZeroShield '' @ ARROW @ '' overleaf_exports '' @ ARROW @ '' researcher review '' @ ARROW
          @ '' manual inclusion in VPN/Telecom sections'')]) (\<lambda>_.
     if \<not> dc_export ch then returnE ()
     else
       bindE (export_now V e comparison) (\<lambda>export_dir.
       bindE (display (SuccessBox (''Export written to `'' @ path_str export_dir @ ''`''))) (\<lambda>_.
       bindE (mapE (show_file export_dir) EXPORT_FILES) (\<lambda>_. returnE ()))))"

definition render_research_pipeline :: "unit dash_m" where
  "render_research_pipeline = display_all
     [Markdown (str_join NL [[],
        ''- **Excel CVE workbook** '' @ EM_DASH @ '' a broad, structured research/intelligence registry of candidate'',
        ''  zero-click CVEs across VPN and Telecom. Not all rows become experiments.'',
        ''- **ExperimentDefinition** '' @ EM_DASH @ '' a manually reviewed bridge between one CVE-backed research finding'',
        ''  and a runnable, safety-checked ZeroShield experiment.'',
        ''- **ZeroShield** '' @ EM_DASH @ '' the controlled mitigation-validation engine: it runs the baseline and'',
        ''  mitigation strategies over the same synthetic dataset and measures the difference.'',
        ''- **Results / Evidence** '' @ EM_DASH @ '' the demonstrated findings of one synthetic experiment run, with a'',
        ''  reproducible, hashed evidence package.'',
        ''- **Overleaf** '' @ EM_DASH @ '' where results are interpreted and written up as research, by a person, from'',
        ''  the factual export ZeroShield produces.'',
        ''        '']),
      InfoBox (''The Excel workbook is a research registry, not a runtime database: ZeroShield never ''
        @ ''automatically executes experiments from arbitrary Excel rows.'')]"

section \<open>The script\<close>

definition unread :: run_world where
  "unread = \<lparr>rw_clock_reads = 0, rw_perf_reads = 0, rw_trace = []\<rparr>"

definition load_view :: "dash_env \<Rightarrow> string \<Rightarrow> evidence_view option dash_m" where
  "load_view V experiment_id =
     bindE (getE da_files) (\<lambda>fs.
     liftE (load_latest_evidence ((dv_run V)\<lparr>re_files := files_of fs\<rparr>) (dv_reader V) (dv_cwd V) (RESULTS_ROOT V) experiment_id unread fs))"

definition if_view :: "evidence_view option \<Rightarrow> (evidence_view \<Rightarrow> unit dash_m) \<Rightarrow> unit dash_m" where
  "if_view view render = (case view of
     None \<Rightarrow> display (InfoBox ''No evidence yet for this experiment. Run it from the Experiment & Safety tab.'')
   | Some v \<Rightarrow> render v)"

definition render_tabs :: "dash_env \<Rightarrow> dash_choices \<Rightarrow> experiment_definition \<Rightarrow> unit dash_m" where
  "render_tabs V ch e =
     bindE (display (Tab ''Overview'')) (\<lambda>_. bindE render_overview (\<lambda>_.
     bindE (display (Tab ''Experiment & Safety'')) (\<lambda>_. bindE (render_experiment_details e) (\<lambda>_.
     bindE (display Divider) (\<lambda>_. bindE (render_safety_and_run V ch e) (\<lambda>_.
     bindE (load_view V (ed_experiment_id e)) (\<lambda>view.
     bindE (display (Tab ''Results'')) (\<lambda>_.
     bindE (if_view view (\<lambda>v. render_results (ew_comparison v) (ew_case_comparisons v))) (\<lambda>_.
     bindE (display (Tab ''Test Cases'')) (\<lambda>_. bindE (if_view view (\<lambda>v. render_test_cases ch (ew_case_comparisons v))) (\<lambda>_.
     bindE (display (Tab ''Evidence'')) (\<lambda>_. bindE (if_view view (render_evidence V ch)) (\<lambda>_.
     bindE (display (Tab ''Overleaf Export'')) (\<lambda>_.
     bindE (if_view view (\<lambda>v. render_overleaf_export V ch e (ew_comparison v))) (\<lambda>_.
     bindE (display (Tab ''Research Pipeline'')) (\<lambda>_. render_research_pipeline))))))))))))))))"

definition skipped_files :: "discovery_error list \<Rightarrow> widget list" where
  "skipped_files skipped =
     (if skipped = [] then []
      else Expander (nat_digits (length skipped) @ '' file(s) skipped'')
        # map (\<lambda>x. Markdown (''- `'' @ path_name (xe_path x) @ ''`: '' @ xe_reason x)) skipped)"

definition selected_experiment :: "dash_env \<Rightarrow> dash_choices \<Rightarrow> file_tree \<Rightarrow> experiment_definition option" where
  "selected_experiment V ch fs = pick (xd_experiments (discover_experiments (dv_discovery V) (EXPERIMENTS_DIR V) fs)) (dc_experiment ch)"

definition dashboard_main :: "dash_env \<Rightarrow> dash_choices \<Rightarrow> unit dash_m" where
  "dashboard_main V ch =
     bindE (display_all
       [WarningBox (''**Legacy, read-only dashboard.** The ZeroShield web application is now the primary interface - use it ''
          @ ''for Experiment Studio, approvals, live runs, and evidence. This page can browse existing ''
          @ ''experiments/results/evidence but can no longer submit a run, so it can't bypass the web app's ''
          @ ''approval-gated workflow.''),
        Title (SHIELD @ '' ZeroShield (Legacy)'')]) (\<lambda>_.
     bindE (getE da_files) (\<lambda>fs.
     bindE (display_all (skipped_files (xd_skipped (discover_experiments (dv_discovery V) (EXPERIMENTS_DIR V) fs)))) (\<lambda>_.
     case selected_experiment V ch fs of
       None \<Rightarrow> display (ErrorBox (''No valid ExperimentDefinition files were found under `'' @ path_str (EXPERIMENTS_DIR V) @ ''`.''))
     | Some e \<Rightarrow> render_tabs V ch e)))"

section \<open>What the dashboard cannot do\<close>

definition EXPORT_PATHS :: "dash_env \<Rightarrow> pypath set" where
  "EXPORT_PATHS V = {path_join (path_join (OVERLEAF_EXPORT_ROOT V) i) f | i f. f \<in> set EXPORT_FILES}"

text \<open>Files stay but for an export that was asked for, and the page only grows by widgets that are allowed.\<close>

definition browsing :: "dash_env \<Rightarrow> dash_choices \<Rightarrow> (widget \<Rightarrow> bool) \<Rightarrow> dash_state \<Rightarrow> dash_state \<Rightarrow> bool" where
  "browsing V ch Q w w' \<longleftrightarrow>
     (\<forall>p. \<not> dc_export ch \<or> p \<notin> EXPORT_PATHS V \<longrightarrow> files_of (da_files w') p = files_of (da_files w) p)
     \<and> (\<exists>more. da_page w' = da_page w @ more \<and> list_all Q more)"

interpretation browse: effect_frame "browsing V ch Q"
  by unfold_locales (auto simp: browsing_def)

lemma browsing_display: "list_all Q xs \<Longrightarrow> abides (browsing V ch Q) (display_all xs)" "Q x \<Longrightarrow> abides (browsing V ch Q) (display x)"
  by (auto simp: display_all_def display_def browsing_def intro!: browse.resp_modify)

lemma browsing_export: "dc_export ch \<Longrightarrow> abides (browsing V ch Q) (export_now V e comparison)"
  by (auto simp: abides_def export_now_def save_overleaf_export_def browsing_def Let_def files_of_def tbl_get_upsert EXPORT_PATHS_def
      EXPORT_FILES_def)

lemma browsing_mapE: "(\<And>x. abides (browsing V ch Q) (f x)) \<Longrightarrow> abides (browsing V ch Q) (mapE f xs)"
  by (induction xs) (auto intro!: browse.resp_rules)

definition honest :: "bool \<Rightarrow> widget \<Rightarrow> bool" where
  "honest ok x \<longleftrightarrow> x = SuccessBox ''Safety Policy: PASSED'' \<longrightarrow> ok"

lemma honest_widgets [simp]:
  "honest ok (Title s)" "honest ok (Subheader s)" "honest ok (Markdown s)" "honest ok (Caption s)" "honest ok (BadgeText s c)"
  "honest ok (WarningBox s)" "honest ok (InfoBox s)" "honest ok (ErrorBox s)" "honest ok Divider" "honest ok (Expander s)"
  "honest ok (MetricBox s t)" "honest ok (DataFrame rows)" "honest ok (BarChart bars)" "honest ok (JsonDict d)" "honest ok (JsonResult r)"
  "honest ok (JsonText s)" "honest ok (CodeBlock s)" "honest ok (Tab s)" "honest ok (Column n)"
  by (simp_all add: honest_def)

lemma honest_list [simp]:
  "list_all (honest ok) (map (\<lambda>x. Markdown (f x)) xs)" "list_all (honest ok) (manifest_widgets C label m)"
  "list_all (honest ok) (result_column n label r)" "list_all (honest ok) (skipped_files ds)" "honest ok (domain_badge d)"
  by (simp_all add: list_all_iff manifest_widgets_def result_column_def skipped_files_def domain_badge_def)

lemmas browsing_rules = browsing_display browsing_mapE browse.resp_rules

lemma browsing_static:
  "abides (browsing V ch (honest ok)) render_overview" "abides (browsing V ch (honest ok)) (render_experiment_details e)"
  "abides (browsing V ch (honest ok)) (render_results comparison cs)" "abides (browsing V ch (honest ok)) (render_case c)"
  "abides (browsing V ch (honest ok)) render_research_pipeline"
  unfolding render_overview_def render_experiment_details_def render_results_def render_case_def render_research_pipeline_def Let_def
  by (rule browsing_display; simp split: option.split)+

lemma browsing_test_cases: "abides (browsing V ch (honest ok)) (render_test_cases ch cs)"
  unfolding render_test_cases_def by (intro browsing_rules browsing_static) simp_all

lemma browsing_evidence: "abides (browsing V ch (honest ok)) (render_evidence V ch view)"
  unfolding render_evidence_def render_manifest_def Let_def
  by (intro browsing_rules) (simp_all split: option.split)

lemma browsing_overleaf: "abides (browsing V ch (honest ok)) (render_overleaf_export V ch e comparison)"
proof (cases "dc_export ch")
  case True
  then show ?thesis
    unfolding render_overleaf_export_def show_file_def
    by (simp only: True if_False not_True_eq_False) (intro browsing_rules browsing_export; simp add: honest_def True)
next
  case False
  then show ?thesis unfolding render_overleaf_export_def by (simp only: False if_True not_False_eq_True) (intro browsing_rules; simp)
qed

lemma browsing_safety:
  assumes "ok \<longleftrightarrow> safe_to_run e (chosen_context ch)"
  shows "abides (browsing V ch (honest ok)) (render_safety_and_run V ch e)"
proof -
  have checked: "pd_allowed d \<longleftrightarrow> ok" if "liftE (check_safety e (chosen_context ch) (dv_now V)) w = (Inr (d, c), w')" for d c w w'
    using that evaluate_total [of e "chosen_context ch" "dv_now V"] assms by (auto simp: liftE_def check_safety_def res_simps)
  show ?thesis
    unfolding render_safety_and_run_def Let_def
    apply (rule browse.resp_bind [OF browsing_display(2)], simp)
    apply (rule browse.resp_bind, (intro browsing_rules; simp))
    apply (rule browse.resp_bind_value, (rule browse.resp_rules), clarify)
    subgoal premises prems for d c w w'
      using checked [OF prems] by (cases ok; simp only: simp_thms if_True if_False prod.case; intro browsing_rules; simp add: honest_def)
    done
qed

lemma browsing_view: "(\<And>v. abides (browsing V ch (honest ok)) (f v)) \<Longrightarrow> abides (browsing V ch (honest ok)) (if_view view f)"
  unfolding if_view_def by (intro browsing_rules) simp_all

lemma browsing_tabs:
  assumes "ok \<longleftrightarrow> safe_to_run e (chosen_context ch)"
  shows "abides (browsing V ch (honest ok)) (render_tabs V ch e)"
  unfolding render_tabs_def load_view_def
  by (intro browse.resp_rules browsing_static browsing_safety [OF assms] browsing_view browsing_test_cases browsing_evidence
      browsing_overleaf browsing_display honest_widgets)

lemma page:
  assumes "abides (browsing V ch (honest ok)) (case selected_experiment V ch (da_files w) of
      None \<Rightarrow> display (ErrorBox (''No valid ExperimentDefinition files were found under `'' @ path_str (EXPERIMENTS_DIR V) @ ''`.''))
    | Some e \<Rightarrow> render_tabs V ch e)" (is "abides _ ?body")
  shows "browsing V ch (honest ok) w (snd (dashboard_main V ch w))"
proof -
  define top where "top = [WarningBox (''**Legacy, read-only dashboard.** The ZeroShield web application is now the primary interface - use it ''
      @ ''for Experiment Studio, approvals, live runs, and evidence. This page can browse existing ''
      @ ''experiments/results/evidence but can no longer submit a run, so it can't bypass the web app's ''
      @ ''approval-gated workflow.''), Title (SHIELD @ '' ZeroShield (Legacy)'')]"
  have "dashboard_main V ch w = bindE (display_all top) (\<lambda>_. bindE (display_all (skipped_files (xd_skipped
      (discover_experiments (dv_discovery V) (EXPERIMENTS_DIR V) (da_files w))))) (\<lambda>_. ?body)) w"
    by (simp add: dashboard_main_def top_def bindE_def getE_def display_all_def modifyE_def)
  moreover have "abides (browsing V ch (honest ok)) (bindE (display_all top) (\<lambda>_. bindE (display_all (skipped_files (xd_skipped
      (discover_experiments (dv_discovery V) (EXPERIMENTS_DIR V) (da_files w))))) (\<lambda>_. ?body)))"
    by (intro browse.resp_bind browsing_display assms) (simp_all add: top_def)
  ultimately show ?thesis by (simp add: abides_def)
qed

text \<open>
  C40. The dashboard only looks. Whatever is selected and whatever is on disk, also when an exception ends the page: no file
  changes, unless the export button was pressed, and then only the three files of an export below \<open>overleaf_exports\<close>; so
  no run is submitted, no evidence written and no experiment approved from here. And it does not tell a user that an
  experiment passed the safety policy when it did not: the message appears only for the selected experiment, when the policy
  allows it in the selected context.
\<close>

theorem dashboard_only_looks:
  assumes "dashboard_main V ch w = (r, w')" and "da_page w = []"
  shows "(\<not> dc_export ch \<or> p \<notin> EXPORT_PATHS V \<longrightarrow> files_of (da_files w') p = files_of (da_files w) p)
    \<and> (SuccessBox ''Safety Policy: PASSED'' \<in> set (da_page w')
       \<longrightarrow> (\<exists>e. selected_experiment V ch (da_files w) = Some e \<and> safe_to_run e (chosen_context ch)))"
proof -
  define ok where "ok = (case selected_experiment V ch (da_files w) of None \<Rightarrow> False | Some e \<Rightarrow> safe_to_run e (chosen_context ch))"
  have "browsing V ch (honest ok) w (snd (dashboard_main V ch w))"
  proof (cases "selected_experiment V ch (da_files w)")
    case None
    define rest where "rest = (\<lambda>_ :: unit. display (ErrorBox (''No valid ExperimentDefinition files were found under `''
      @ path_str (EXPERIMENTS_DIR V) @ ''`.'')))"
    have "abides (browsing V ch (honest ok)) (rest ())" unfolding rest_def by (intro browsing_rules) simp_all
    then show ?thesis using None by (intro page) (simp add: rest_def)
  next
    case (Some e)
    then have "abides (browsing V ch (honest ok)) (render_tabs V ch e)" by (intro browsing_tabs) (simp add: ok_def)
    then show ?thesis using Some by (intro page) simp
  qed
  then show ?thesis using assms by (auto simp: browsing_def list_all_iff honest_def ok_def split: option.splits)
qed

definition demo_dash :: dash_env where
  "demo_dash = \<lparr>dv_codec = demo_codec, dv_discovery = demo_discovery, dv_run = demo_env,
     dv_reader = \<lparr>rd_load_comparison = local_load_comparison demo_codec (PyPath [] [''results'']),
       rd_load_manifest = local_load_manifest demo_codec (PyPath [] [''results'']),
       rd_load_artefact = local_load_artefact (PyPath [] [''results'']), rd_parse_results = (\<lambda>_. Inr []),
       rd_parse_dataset_path = Inr, rd_exc_text = (\<lambda>_. [])\<rparr>,
     dv_now = 0, dv_cwd = PyPath [] []\<rparr>"

definition demo_browsing :: dash_state where
  "demo_browsing = \<lparr>da_files = [(PyPath [] [''experiments'', ''e.json''], ''{}''), (PyPath [] [''results'', ''kept.json''], ''kept'')], da_page = []\<rparr>"

theorem dashboard_only_looks_witness:
  "files_of (da_files (snd (dashboard_main demo_dash \<lparr>dc_experiment = 0, dc_context = 1, dc_case = 0, dc_artefact = (\<lambda>_. 0), dc_export = False\<rparr>
     demo_browsing))) (PyPath [] [''results'', ''kept.json'']) = Some ''kept''"
proof -
  define ch where "ch = \<lparr>dc_experiment = 0, dc_context = 1, dc_case = 0, dc_artefact = (\<lambda>_ :: string. 0 :: nat), dc_export = False\<rparr>"
  obtain r w' where x: "dashboard_main demo_dash ch demo_browsing = (r, w')" by fastforce
  have "da_page demo_browsing = []" "\<not> dc_export ch" by (simp_all add: demo_browsing_def ch_def)
  then have "files_of (da_files w') (PyPath [] [''results'', ''kept.json'']) = files_of (da_files demo_browsing) (PyPath [] [''results'', ''kept.json''])"
    using dashboard_only_looks [OF x] by blast
  moreover have "files_of (da_files demo_browsing) (PyPath [] [''results'', ''kept.json'']) = Some ''kept''"
    by (simp add: demo_browsing_def files_of_def tbl_get_Cons)
  ultimately show ?thesis using x unfolding ch_def by simp
qed

end
