(* ===== verification/Spec2Isabelle.thy ===== *)
theory Spec2Isabelle
  imports Verdict Evidence Sandbox Generators Discovery Platform Migrations Observability Dashboard
begin

text \<open>
  ZeroShield validates mitigations against synthetic attack traffic. An experiment names a dataset, a deliberately
  weak baseline strategy and a mitigation; the framework runs both over the dataset, compares them and keeps hashed
  evidence. Around this core stand an authoring workflow with review, a queue with a worker, a platform for
  vulnerability intelligence, assurance of controls over time, an advisory AI analyst, an HTTP interface and a command
  line. The development models the Python package \<open>src/src/zeroshield\<close>; file names below are relative to it.

  \<^bold>\<open>Conventions.\<close> A class is a record, an enum a datatype, a string a list of characters, a \<open>float\<close> the rational that a
  binary64 denotes with its rounding written out (\<open>Py_Float\<close>), a moment the microseconds since the epoch, and a JSON value
  a \<open>pyval\<close> (\<open>Py_Values\<close>). A function that may raise returns \<open>exn + 'a\<close>; one with effects is a function from a state to
  a result and a state, sequenced by \<open>bindE\<close> (\<open>Py_Prelude\<close>). The state of the platform is one record that grows by extension
  from component to component: \<open>app_state\<close> (clock, identifiers, audit trail), \<open>auth_state\<close> (users, sessions),
  \<open>studio_state\<close> (versions, decisions, files), \<open>runs_state\<close>, \<open>intel_state\<close>, \<open>assurance_state\<close> and \<open>worker_state\<close>
  (the world of a run and the queue). A table is a list of rows with its key as a function; a file tree is a list of
  paths with contents. The clock, identifiers, randomness, password hashing, serialisation, the network, the AI
  provider, \<open>openpyxl\<close> and failures of the database and the broker are fields of environment records.

  \<^bold>\<open>The validation core.\<close>
  \<^item> \<open>Domain_Models\<close> (\<open>models/\<close>): the data and every validator, with the identifier patterns.
  \<^item> \<open>Safety_Policy\<close> (\<open>policies/\<close>): the four rules and their evaluation; it allows exactly the experiments that are safe.
  \<^item> \<open>Strategies\<close> (\<open>strategies/\<close>): the weak and strict strategies of both domains, the registry, and a reference grammar
    that the strict ones decide.
  \<^item> \<open>Metrics\<close>, \<open>Verdict\<close> (\<open>metrics/\<close>, \<open>verdict/\<close>): scoring, comparison and the labels.
  \<^item> \<open>Runner\<close> (\<open>runners/\<close>, \<open>datasets/\<close>): the two runs of an experiment: nothing unsafe executes, a run that completes
    is faithful, and a safe one completes.
  \<^item> \<open>Sandbox\<close> (\<open>sandbox/\<close>): the guards around a strategy and what they promise about the process.
  \<^item> \<open>Py_Encoding\<close>: SHA-256 on 32-bit words and canonical JSON; \<open>Evidence\<close> (\<open>repositories/\<close>): manifests and the two
    backends, which are shown to refine a store that is written once.
  \<^item> \<open>Generators\<close> (\<open>generators/\<close>): the dataset generators, whose labels are what the strict strategies decide.
  \<^item> \<open>Orchestration\<close> (\<open>orchestration/\<close>, \<open>services/experiment_service.py\<close>): a run with its evidence, and loading it back.

  \<^bold>\<open>Authoring.\<close>
  \<^item> \<open>Audit_Log\<close> (\<open>audit/\<close>), \<open>Auth\<close> (\<open>auth/\<close>): the trail, users, sessions and the lock after failed logins.
  \<^item> \<open>Studio_Catalog\<close> (\<open>domain_packs/\<close>, \<open>templates/\<close>), \<open>Studio\<close> (\<open>studio/\<close>, \<open>api/routes/studio.py\<close>): versions and
    their transitions; \<open>Studio_Lifecycle\<close> closes them into a system of requests and proves what holds after every history:
    legal and recorded transitions, separation of duties, and content that never changes once it was submitted.
  \<^item> \<open>Discovery\<close> (\<open>experiments/\<close>): the experiments that may be run are the valid files of a directory.

  \<^bold>\<open>Runs.\<close>
  \<^item> \<open>Run_Events\<close>, \<open>Job_Store\<close> (\<open>repositories/\<close>, \<open>services/job_store.py\<close>): the timeline of a run, and job files that
    concurrent, interrupted saves change atomically.
  \<^item> \<open>Worker\<close> (\<open>worker/\<close>, \<open>api/routes/experiments.py\<close>, \<open>jobs.py\<close>): from the request to the final status;
    \<open>Job_Lifecycle\<close>, \<open>Job_Queue\<close> and \<open>Job_Stream\<close> show that every job ends, that none is lost through crashes and repeated
    deliveries, and that the stream of events reports them all.

  \<^bold>\<open>Intelligence.\<close>
  \<^item> \<open>Vulnerability\<close>, \<open>Correlation\<close>, \<open>Normalisation\<close>, \<open>Intel_Repository\<close> (\<open>intelligence/\<close>): priority, merging, similarity,
    the mappers of the sources and the tables.
  \<^item> \<open>Connectors\<close> (\<open>intelligence/connectors/\<close>): the four sources over a network that answers anything; \<open>Intelligence_Sync\<close>
    and \<open>Intelligence_Routes\<close> (\<open>worker/intelligence_main.py\<close>): a synchronisation from the request to its row.
  \<^item> \<open>Excel_Import\<close> (\<open>intelligence/excel_importer.py\<close>): the workbook.

  \<^bold>\<open>Assurance and analysis.\<close>
  \<^item> \<open>Assurance\<close>, \<open>Revalidation\<close>, \<open>Assurance_Routes\<close> (\<open>assurance/\<close>, \<open>api/routes/assets.py\<close>, \<open>controls.py\<close>,
    \<open>revalidation.py\<close>): controls, their versions and validations, regressions and candidates.
  \<^item> \<open>Ai_Analyst\<close>, \<open>Analyst_Routes\<close> (\<open>ai/\<close>, \<open>api/routes/analyst.py\<close>): what the analyst may answer and that it decides nothing.

  \<^bold>\<open>Interfaces.\<close>
  \<^item> \<open>Account_Routes\<close>, \<open>Experiment_Routes\<close> (\<open>api/routes/auth.py\<close>, \<open>audit.py\<close>, \<open>experiments.py\<close>, \<open>evidence.py\<close>): the
    remaining handlers with their responses.
  \<^item> \<open>Routing\<close>, \<open>Server\<close> (\<open>api/routes/\<close>, \<open>api/app.py\<close>, \<open>dependencies.py\<close>, \<open>observability.py\<close>): the table of routes, which
    is unambiguous, and the server around the handlers: repositories that need a database, counters, identifiers of
    requests, and internal errors.
  \<^item> \<open>Startup\<close>, \<open>Observability\<close> (\<open>worker/\<close>, \<open>db/session.py\<close>, \<open>observability/\<close>): how the processes start, and the lines of the log.
  \<^item> \<open>Dashboard\<close> (\<open>dashboard/app.py\<close>): the legacy page, which only looks.
  \<^item> \<open>Api\<close> (\<open>api/app.py\<close>): a request type with a constructor for every route, and what each does; \<open>Access_Control\<close>
    shows for all of them at once who is admitted and that reading changes nothing.
  \<^item> \<open>Governance\<close>, \<open>Platform\<close>: requests to every route, the worker with its crashes and repeated deliveries,
    synchronisations and imports as the operations of one system. Most of it leaves alone what governs an experiment, so the
    guarantees of Experiment Studio hold for every history of the platform, and only what was delivered or reviewed can run.
  \<^item> \<open>Db_Models\<close>, \<open>Migrations\<close> (\<open>db/models.py\<close>, \<open>alembic/\<close>): the declared tables and the migrations, which build
    exactly these tables and are undone by their downgrades.
  \<^item> \<open>Exports\<close> (\<open>exports/\<close>): the files for a LaTeX document, read back by a reader of CSV and of escaped text.
  \<^item> \<open>Command_Line\<close> (\<open>cli/\<close>): the commands, and what verification of evidence covers.

  \<^bold>\<open>Interfaces between the theories.\<close> A locale states what a client needs: \<open>kv_store\<close> and \<open>append_log\<close> for tables and
  logs, \<open>op_system\<close> for invariants over histories of operations, \<open>effect_frame\<close> for what a sequenced effect leaves
  alone, \<open>float_rounding\<close>, \<open>safety_gate\<close>, \<open>processing_strategy\<close>, \<open>evidence_store\<close> and \<open>offset_paging\<close>. Each is interpreted
  on the definitions of the theory that provides it.

  \<^bold>\<open>Bounds.\<close> There is no fuel: every loop of the source that is modelled is bounded by the source itself (pages, retries, polls,
  list lengths) and its definition is total.

  \<^bold>\<open>Not modelled.\<close> The web application, which is not Python; the database engine; the spans of tracing, the counters that
  handlers and workers increment, and the metrics servers; the loop of \<open>pika\<close> that hands messages to the workers (a
  delivery is an operation of \<open>Platform\<close>); argument parsing; real concurrency inside one process, but for the interleavings of
  \<open>Job_Store\<close> and \<open>Sandbox\<close>. Messages of exceptions that the standard library words are parameters.
\<close>

end
